(* ===== verification/Identity.thy ===== *)
theory Identity
  imports Prelude
begin

text \<open>
  The identity and routing vocabulary of \<open>vlinder-core/src/domain\<close>: the transparent string newtypes
  carried by messages (\<open>message/identity.rs\<close>), the closed enums with their wire spelling
  (\<open>operation.rs\<close>, \<open>service_type.rs\<close>, \<open>storage.rs\<close>, \<open>runtime.rs\<close>, \<open>routing_key.rs\<close>,
  \<open>agent_state.rs\<close>), and the routing keys of the data, session, infra and service planes
  (\<open>routing_key.rs\<close>, \<open>svc_routing_key.rs\<close>).  The \<open>Display\<close>/\<open>FromStr\<close> pair of each enum is an
  interpretation of the locale \<open>wire_enum\<close>.
\<close>

section \<open>The contract of a printed enum\<close>

locale wire_enum =
  fixes as_str :: "'a \<Rightarrow> string"
    and from_str :: "string \<Rightarrow> (string, 'a) rust_result"
  assumes from_as [simp]: "from_str (as_str x) = Inr x"
    and as_str_no_dot [simp]: "CHR ''.'' \<notin> set (as_str x)"
begin

lemma as_str_inj [simp]: "as_str x = as_str y \<longleftrightarrow> x = y"
  by (metis from_as sum.inject(2))

lemma as_str_inj_on: "inj as_str"
  by (simp add: inj_on_def)

end

locale strict_wire_enum = wire_enum +
  assumes as_from: "from_str s = Inr x \<Longrightarrow> s = as_str x"
begin

lemma from_str_iff: "from_str s = Inr x \<longleftrightarrow> s = as_str x"
  using as_from by auto

lemma from_str_err: "(\<forall>x. s \<noteq> as_str x) \<longleftrightarrow> (\<exists>e. from_str s = Inl e)"
proof (cases "from_str s")
  case (Inl e)
  then show ?thesis by auto
next
  case (Inr x)
  then show ?thesis using as_from by auto
qed

end

section \<open>Transparent newtypes\<close>

type_synonym message_id = string
type_synonym tool_call_id = string
type_synonym dag_node_id = string
type_synonym submission_id = string
type_synonym session_id = string
type_synonym instance_name = string
type_synonym state_hash = string
type_synonym external_session_id = string
type_synonym branch_id = int
type_synonym sequence = "32 word"
type_synonym agent_name = string
type_synonym timestamp = int
type_synonym bytes = string

definition dag_node_id_root :: dag_node_id where
  "dag_node_id_root = []"

definition dag_node_id_is_empty :: "dag_node_id \<Rightarrow> bool" where
  "dag_node_id_is_empty i = (i = [])"

definition state_hash_empty :: state_hash where
  "state_hash_empty = []"

definition state_hash_is_empty :: "state_hash \<Rightarrow> bool" where
  "state_hash_is_empty h = (h = [])"

text \<open>\<open>SessionId::try_from\<close>; \<open>Uuid::parse_str\<close> belongs to the \<open>uuid\<close> crate and is a parameter.\<close>

definition session_id_try_from :: "(string \<Rightarrow> bool) \<Rightarrow> string \<Rightarrow> (string, session_id) rust_result" where
  "session_id_try_from is_uuid s =
     (if is_uuid s then Inr s else Inl (''invalid session ID (expected UUID): '' @ s))"

definition ascii_alphanumeric :: "char \<Rightarrow> bool" where
  "ascii_alphanumeric c =
     (let n = (of_char c :: nat)
      in (48 \<le> n \<and> n \<le> 57) \<or> (65 \<le> n \<and> n \<le> 90) \<or> (97 \<le> n \<and> n \<le> 122))"

text \<open>The three error messages of \<open>ExternalSessionId::new\<close> as constructors.\<close>

datatype external_id_error = ExtIdEmpty | ExtIdTooLong | ExtIdInvalidChars string

definition external_session_id_new ::
    "string \<Rightarrow> (external_id_error, external_session_id) rust_result" where
  "external_session_id_new s =
     (if s = [] then Inl ExtIdEmpty
      else if length s > 128 then Inl ExtIdTooLong
      else if \<not> list_all (\<lambda>c. ascii_alphanumeric c \<or> c = CHR ''-'' \<or> c = CHR ''_'') s
      then Inl (ExtIdInvalidChars s)
      else Inr s)"

section \<open>Sequence numbers\<close>

definition sequence_first :: sequence where
  "sequence_first = 1"

text \<open>
  \<open>Sequence::next\<close> is \<open>self.0 + 1\<close> on \<open>u32\<close>.  The workspace does not set \<open>overflow-checks\<close>, so a
  release build wraps and a debug build panics; the model wraps.
\<close>

definition sequence_next :: "sequence \<Rightarrow> sequence" where
  "sequence_next s = s + 1"

type_synonym sequence_counter = sequence

definition sequence_counter_new :: sequence_counter where
  "sequence_counter_new = sequence_first"

definition sequence_counter_next :: "sequence_counter \<Rightarrow> sequence \<times> sequence_counter" where
  "sequence_counter_next c = (c, sequence_next c)"

definition sequence_counter_reset :: "sequence_counter \<Rightarrow> sequence_counter" where
  "sequence_counter_reset c = sequence_first"

fun sequence_counter_take :: "nat \<Rightarrow> sequence_counter \<Rightarrow> sequence list \<times> sequence_counter" where
  "sequence_counter_take 0 c = ([], c)"
| "sequence_counter_take (Suc n) c =
     (let (s, c') = sequence_counter_next c; (ss, c'') = sequence_counter_take n c'
      in (s # ss, c''))"

lemma sequence_counter_take_map:
  "sequence_counter_take n c = (map (\<lambda>i. c + of_nat i) [0..<n], c + of_nat n)"
proof (induction n arbitrary: c)
  case 0
  then show ?case by simp
next
  case (Suc n)
  have "map (\<lambda>i. c + 1 + of_nat i) [0..<n] = map (\<lambda>i. c + of_nat (Suc i)) [0..<n]"
    by (simp add: add.assoc)
  also have "c # \<dots> = map (\<lambda>i. c + of_nat i) (0 # map Suc [0..<n])"
    by simp
  also have "0 # map Suc [0..<n] = [0..<Suc n]"
    by (simp add: map_Suc_upt upt_conv_Cons del: upt_Suc)
  finally show ?case
    using Suc [of "c + 1"]
    by (simp add: sequence_counter_next_def sequence_next_def add.assoc)
qed

section \<open>Enums and their wire spelling\<close>

datatype harness_type = HCli | HWeb | HApi | HWhatsapp | HGrpc

fun harness_as_str :: "harness_type \<Rightarrow> string" where
  "harness_as_str HCli = ''cli''"
| "harness_as_str HWeb = ''web''"
| "harness_as_str HApi = ''api''"
| "harness_as_str HWhatsapp = ''whatsapp''"
| "harness_as_str HGrpc = ''grpc''"

definition harness_from_str :: "string \<Rightarrow> (string, harness_type) rust_result" where
  "harness_from_str s =
     (if s = ''cli'' then Inr HCli
      else if s = ''web'' then Inr HWeb
      else if s = ''api'' then Inr HApi
      else if s = ''whatsapp'' then Inr HWhatsapp
      else if s = ''grpc'' then Inr HGrpc
      else Inl (''unknown harness type: '' @ s))"

interpretation harness: strict_wire_enum harness_as_str harness_from_str
proof
  show "harness_from_str (harness_as_str x) = Inr x" for x
    by (cases x) (simp_all add: harness_from_str_def)
  show "CHR ''.'' \<notin> set (harness_as_str x)" for x
    by (cases x) simp_all
  show "harness_from_str s = Inr x \<Longrightarrow> s = harness_as_str x" for s x
    by (auto simp: harness_from_str_def split: if_splits)
qed

datatype runtime_type = RtContainer | RtLambda

fun runtime_as_str :: "runtime_type \<Rightarrow> string" where
  "runtime_as_str RtContainer = ''container''"
| "runtime_as_str RtLambda = ''lambda''"

definition runtime_from_str :: "string \<Rightarrow> (string, runtime_type) rust_result" where
  "runtime_from_str s =
     (if s = ''container'' then Inr RtContainer
      else if s = ''lambda'' then Inr RtLambda
      else Inl (''unknown runtime type: '' @ s))"

interpretation runtime: strict_wire_enum runtime_as_str runtime_from_str
proof
  show "runtime_from_str (runtime_as_str x) = Inr x" for x
    by (cases x) (simp_all add: runtime_from_str_def)
  show "CHR ''.'' \<notin> set (runtime_as_str x)" for x
    by (cases x) simp_all
  show "runtime_from_str s = Inr x \<Longrightarrow> s = runtime_as_str x" for s x
    by (auto simp: runtime_from_str_def split: if_splits)
qed

datatype operation = OpGet | OpPut | OpList | OpDelete | OpStore | OpSearch | OpRun | OpChat | OpGenerate

fun operation_as_str :: "operation \<Rightarrow> string" where
  "operation_as_str OpGet = ''get''"
| "operation_as_str OpPut = ''put''"
| "operation_as_str OpList = ''list''"
| "operation_as_str OpDelete = ''delete''"
| "operation_as_str OpStore = ''store''"
| "operation_as_str OpSearch = ''search''"
| "operation_as_str OpRun = ''run''"
| "operation_as_str OpChat = ''chat''"
| "operation_as_str OpGenerate = ''generate''"

definition operation_from_str :: "string \<Rightarrow> (string, operation) rust_result" where
  "operation_from_str s =
     (if s = ''get'' then Inr OpGet
      else if s = ''put'' then Inr OpPut
      else if s = ''list'' then Inr OpList
      else if s = ''delete'' then Inr OpDelete
      else if s = ''store'' then Inr OpStore
      else if s = ''search'' then Inr OpSearch
      else if s = ''run'' then Inr OpRun
      else if s = ''chat'' then Inr OpChat
      else if s = ''generate'' then Inr OpGenerate
      else Inl (''unknown operation: '' @ s))"

interpretation operation: strict_wire_enum operation_as_str operation_from_str
proof
  show "operation_from_str (operation_as_str x) = Inr x" for x
    by (cases x) (simp_all add: operation_from_str_def)
  show "CHR ''.'' \<notin> set (operation_as_str x)" for x
    by (cases x) simp_all
  show "operation_from_str s = Inr x \<Longrightarrow> s = operation_as_str x" for s x
    by (auto simp: operation_from_str_def split: if_splits)
qed

datatype service_type = StKv | StVec | StInfer | StEmbed

fun service_type_as_str :: "service_type \<Rightarrow> string" where
  "service_type_as_str StKv = ''kv''"
| "service_type_as_str StVec = ''vec''"
| "service_type_as_str StInfer = ''infer''"
| "service_type_as_str StEmbed = ''embed''"

definition service_type_from_str :: "string \<Rightarrow> (string, service_type) rust_result" where
  "service_type_from_str s =
     (if s = ''kv'' then Inr StKv
      else if s = ''vec'' then Inr StVec
      else if s = ''infer'' then Inr StInfer
      else if s = ''embed'' then Inr StEmbed
      else Inl (''unknown service type: '' @ s))"

interpretation service_type: strict_wire_enum service_type_as_str service_type_from_str
proof
  show "service_type_from_str (service_type_as_str x) = Inr x" for x
    by (cases x) (simp_all add: service_type_from_str_def)
  show "CHR ''.'' \<notin> set (service_type_as_str x)" for x
    by (cases x) simp_all
  show "service_type_from_str s = Inr x \<Longrightarrow> s = service_type_as_str x" for s x
    by (auto simp: service_type_from_str_def split: if_splits)
qed

lemma service_type_from_kv [simp]: "service_type_from_str ''kv'' = Inr StKv"
  by (simp add: service_type_from_str_def)

datatype agent_status = AsRegistered | AsDeploying | AsLive | AsFailed | AsDeleting | AsDeleted

fun agent_status_as_str :: "agent_status \<Rightarrow> string" where
  "agent_status_as_str AsRegistered = ''registered''"
| "agent_status_as_str AsDeploying = ''deploying''"
| "agent_status_as_str AsLive = ''live''"
| "agent_status_as_str AsFailed = ''failed''"
| "agent_status_as_str AsDeleting = ''deleting''"
| "agent_status_as_str AsDeleted = ''deleted''"

definition agent_status_from_str :: "string \<Rightarrow> (string, agent_status) rust_result" where
  "agent_status_from_str s =
     (if s = ''registered'' then Inr AsRegistered
      else if s = ''deploying'' then Inr AsDeploying
      else if s = ''live'' then Inr AsLive
      else if s = ''failed'' then Inr AsFailed
      else if s = ''deleting'' then Inr AsDeleting
      else if s = ''deleted'' then Inr AsDeleted
      else Inl (''unknown agent status: '' @ s))"

interpretation agent_status: strict_wire_enum agent_status_as_str agent_status_from_str
proof
  show "agent_status_from_str (agent_status_as_str x) = Inr x" for x
    by (cases x) (simp_all add: agent_status_from_str_def)
  show "CHR ''.'' \<notin> set (agent_status_as_str x)" for x
    by (cases x) simp_all
  show "agent_status_from_str s = Inr x \<Longrightarrow> s = agent_status_as_str x" for s x
    by (auto simp: agent_status_from_str_def split: if_splits)
qed

section \<open>Storage and model backends\<close>

datatype object_storage_type = ObjSqlite | ObjInMemory | ObjS3

fun object_storage_as_str :: "object_storage_type \<Rightarrow> string" where
  "object_storage_as_str ObjSqlite = ''sqlite''"
| "object_storage_as_str ObjInMemory = ''memory''"
| "object_storage_as_str ObjS3 = ''s3''"

definition object_storage_from_scheme :: "string option \<Rightarrow> object_storage_type option" where
  "object_storage_from_scheme s =
     (if s = Some ''sqlite'' then Some ObjSqlite
      else if s = Some ''memory'' then Some ObjInMemory
      else if s = Some ''s3'' then Some ObjS3
      else None)"

datatype vector_storage_type = VstSqliteVec | VstInMemory

fun vector_storage_as_str :: "vector_storage_type \<Rightarrow> string" where
  "vector_storage_as_str VstSqliteVec = ''sqlite-vec''"
| "vector_storage_as_str VstInMemory = ''memory''"

definition vector_storage_from_scheme :: "string option \<Rightarrow> vector_storage_type option" where
  "vector_storage_from_scheme s =
     (if s = Some ''sqlite'' then Some VstSqliteVec
      else if s = Some ''memory'' then Some VstInMemory
      else None)"

datatype inference_backend_type = InfOllama | InfOpenRouter

fun inference_backend_as_str :: "inference_backend_type \<Rightarrow> string" where
  "inference_backend_as_str InfOllama = ''ollama''"
| "inference_backend_as_str InfOpenRouter = ''openrouter''"

definition inference_backend_from_str :: "string \<Rightarrow> (string, inference_backend_type) rust_result" where
  "inference_backend_from_str s =
     (if s = ''ollama'' then Inr InfOllama
      else if s = ''openrouter'' then Inr InfOpenRouter
      else Inl (''unknown inference backend: '' @ s))"

interpretation inference: strict_wire_enum inference_backend_as_str inference_backend_from_str
proof
  show "inference_backend_from_str (inference_backend_as_str x) = Inr x" for x
    by (cases x) (simp_all add: inference_backend_from_str_def)
  show "CHR ''.'' \<notin> set (inference_backend_as_str x)" for x
    by (cases x) simp_all
  show "inference_backend_from_str s = Inr x \<Longrightarrow> s = inference_backend_as_str x" for s x
    by (auto simp: inference_backend_from_str_def split: if_splits)
qed

datatype embedding_backend_type = EmbOllama

fun embedding_backend_as_str :: "embedding_backend_type \<Rightarrow> string" where
  "embedding_backend_as_str EmbOllama = ''ollama''"

definition embedding_backend_from_str :: "string \<Rightarrow> (string, embedding_backend_type) rust_result" where
  "embedding_backend_from_str s =
     (if s = ''ollama'' then Inr EmbOllama else Inl (''unknown embedding backend: '' @ s))"

interpretation embedding: strict_wire_enum embedding_backend_as_str embedding_backend_from_str
proof
  show "embedding_backend_from_str (embedding_backend_as_str x) = Inr x" for x
    by (cases x) (simp_all add: embedding_backend_from_str_def)
  show "CHR ''.'' \<notin> set (embedding_backend_as_str x)" for x
    by (cases x) simp_all
  show "embedding_backend_from_str s = Inr x \<Longrightarrow> s = embedding_backend_as_str x" for s x
    by (cases x) (auto simp: embedding_backend_from_str_def split: if_splits)
qed

datatype service_backend =
    SbKv object_storage_type
  | SbVec vector_storage_type
  | SbInfer inference_backend_type
  | SbEmbed embedding_backend_type

fun service_backend_service_type :: "service_backend \<Rightarrow> service_type" where
  "service_backend_service_type (SbKv b) = StKv"
| "service_backend_service_type (SbVec b) = StVec"
| "service_backend_service_type (SbInfer b) = StInfer"
| "service_backend_service_type (SbEmbed b) = StEmbed"

fun service_backend_str :: "service_backend \<Rightarrow> string" where
  "service_backend_str (SbKv b) = object_storage_as_str b"
| "service_backend_str (SbVec b) = vector_storage_as_str b"
| "service_backend_str (SbInfer b) = inference_backend_as_str b"
| "service_backend_str (SbEmbed b) = embedding_backend_as_str b"

fun service_backend_from_parts :: "service_type \<Rightarrow> string \<Rightarrow> service_backend option" where
  "service_backend_from_parts StKv b =
     (if b = ''sqlite'' then Some (SbKv ObjSqlite)
      else if b = ''memory'' then Some (SbKv ObjInMemory)
      else None)"
| "service_backend_from_parts StVec b =
     (if b = ''sqlite-vec'' then Some (SbVec VstSqliteVec)
      else if b = ''memory'' then Some (SbVec VstInMemory)
      else None)"
| "service_backend_from_parts StInfer b = map_option SbInfer (result_ok (inference_backend_from_str b))"
| "service_backend_from_parts StEmbed b = map_option SbEmbed (result_ok (embedding_backend_from_str b))"

definition service_backend_display :: "service_backend \<Rightarrow> string" where
  "service_backend_display b =
     service_type_as_str (service_backend_service_type b) @ CHR ''.'' # service_backend_str b"

definition service_backend_from_str :: "string \<Rightarrow> (string, service_backend) rust_result" where
  "service_backend_from_str s =
     (case split_once CHR ''.'' s of
        None \<Rightarrow> Inl (''invalid ServiceBackend: '' @ s)
      | Some (svc, backend) \<Rightarrow>
          (case service_type_from_str svc of
             Inl _ \<Rightarrow> Inl (''unknown service: '' @ svc)
           | Inr t \<Rightarrow>
               ok_or (''unknown backend '' @ [CHR 0x27] @ backend @ [CHR 0x27] @ '' for service '' @
                      [CHR 0x27] @ svc @ [CHR 0x27])
                 (service_backend_from_parts t backend)))"

lemma object_storage_no_dot [simp]: "CHR ''.'' \<notin> set (object_storage_as_str x)"
  by (cases x) simp_all

lemma vector_storage_no_dot [simp]: "CHR ''.'' \<notin> set (vector_storage_as_str x)"
  by (cases x) simp_all

lemma service_backend_str_no_dot [simp]: "CHR ''.'' \<notin> set (service_backend_str b)"
  by (cases b) simp_all

text \<open>Only the S3 object store has no spelling \<open>from_parts\<close> accepts.\<close>

lemma service_backend_from_parts_str:
  "service_backend_from_parts (service_backend_service_type b) (service_backend_str b) =
     (if b = SbKv ObjS3 then None else Some b)"
proof (cases b)
  case (SbKv x)
  then show ?thesis by (cases x) simp_all
next
  case (SbVec x)
  then show ?thesis by (cases x) simp_all
qed simp_all

lemma service_backend_from_parts_Some:
  "service_backend_from_parts t s = Some b \<Longrightarrow>
     service_backend_service_type b = t \<and> service_backend_str b = s \<and> b \<noteq> SbKv ObjS3"
  by (cases t)
    (auto split: if_splits sum.splits dest: inference.as_from embedding.as_from simp: result_ok_def)

section \<open>Second-generation service backends\<close>

datatype service_backend_v2 = Mcp string

fun service_backend_v2_type_str :: "service_backend_v2 \<Rightarrow> string" where
  "service_backend_v2_type_str (Mcp p) = ''mcp''"

fun service_backend_v2_str :: "service_backend_v2 \<Rightarrow> string" where
  "service_backend_v2_str (Mcp p) = p"

definition service_backend_v2_from_parts :: "string \<Rightarrow> string \<Rightarrow> service_backend_v2 option" where
  "service_backend_v2_from_parts t b = (if t = ''mcp'' then Some (Mcp b) else None)"

type_synonym service_operation = string

lemma service_backend_v2_roundtrip [simp]:
  "service_backend_v2_from_parts (service_backend_v2_type_str b) (service_backend_v2_str b) = Some b"
  by (cases b) (simp add: service_backend_v2_from_parts_def)

lemma service_backend_v2_from_parts_Some:
  "service_backend_v2_from_parts t s = Some b \<longleftrightarrow> t = ''mcp'' \<and> b = Mcp s"
  by (auto simp: service_backend_v2_from_parts_def)

lemma service_backend_v2_type_str_mcp [simp]: "service_backend_v2_type_str b = ''mcp''"
  by (cases b) simp

section \<open>Routing keys\<close>

datatype data_message_kind =
    DkInvoke harness_type runtime_type agent_name
  | DkComplete agent_name harness_type
  | DkRequest agent_name service_backend operation sequence
  | DkResponse agent_name service_backend operation sequence

record data_routing_key =
  dk_session :: session_id
  dk_branch :: branch_id
  dk_submission :: submission_id
  dk_kind :: data_message_kind

datatype session_message_kind = SkStart agent_name | SkFork agent_name | SkPromote agent_name

record session_routing_key =
  sk_session :: session_id
  sk_submission :: submission_id
  sk_kind :: session_message_kind

datatype infra_message_kind = IkDeployAgent | IkDeleteAgent

record infra_routing_key =
  ik_submission :: submission_id
  ik_kind :: infra_message_kind

datatype svc_message_kind =
    VkSvcRequest agent_name service_backend_v2 service_operation sequence
  | VkSvcResponse agent_name service_backend_v2 service_operation sequence

record svc_routing_key =
  vk_session :: session_id
  vk_branch :: branch_id
  vk_submission :: submission_id
  vk_kind :: svc_message_kind

fun svc_kind_str :: "svc_message_kind \<Rightarrow> string" where
  "svc_kind_str (VkSvcRequest a s p q) = ''svc_request''"
| "svc_kind_str (VkSvcResponse a s p q) = ''svc_response''"

section \<open>Properties\<close>

text \<open>
  \<open>ServiceBackend\<close> survives its \<open>Display\<close>/\<open>FromStr\<close> pair exactly when it is not the S3 object
  store, which \<open>from_parts\<close> does not know.
\<close>

theorem service_backend_roundtrip:
  "service_backend_from_str (service_backend_display b) = Inr b \<longleftrightarrow> b \<noteq> SbKv ObjS3"
  by (simp add: service_backend_from_str_def service_backend_display_def split_once_append
      service_backend_from_parts_str)

end
