(* ===== verification/NatsRouting.thy ===== *)
theory NatsRouting
  imports Identity
begin

text \<open>
  The NATS subject grammar of \<open>vlinder-nats/src/queue.rs\<close>: builders, parsers and wildcard filters of
  every message kind.  A builder that panics on a key of the wrong kind is \<open>None\<close>; \<open>Uuid::parse_str\<close>
  is the parameter \<open>is_uuid\<close>.  Round trips hold for tokens without a dot, and the wildcard filters are
  related to the subjects through the token-wise matching that NATS documents.
\<close>

section \<open>Data plane: invoke\<close>

definition invoke_subject :: "data_routing_key \<Rightarrow> string option" where
  "invoke_subject key =
     (case dk_kind key of
        DkInvoke harness runtime agent \<Rightarrow>
          Some (join_with CHR ''.''
            [''vlinder'', ''data'', ''v1'', dk_session key, show_int (dk_branch key), dk_submission key,
             ''invoke'', harness_as_str harness, runtime_as_str runtime, agent])
      | _ \<Rightarrow> None)"

definition invoke_parse_subject :: "(string \<Rightarrow> bool) \<Rightarrow> string \<Rightarrow> data_routing_key option" where
  "invoke_parse_subject is_uuid subject =
     (let s = split_on CHR ''.'' subject
      in if length s \<noteq> 10 then None
         else if s ! 0 \<noteq> ''vlinder'' \<or> s ! 1 \<noteq> ''data'' \<or> s ! 2 \<noteq> ''v1'' \<or> s ! 6 \<noteq> ''invoke'' then None
         else Option.bind (result_ok (session_id_try_from is_uuid (s ! 3))) (\<lambda>session.
              Option.bind (result_ok (harness_from_str (s ! 7))) (\<lambda>harness.
              Option.bind (result_ok (runtime_from_str (s ! 8))) (\<lambda>runtime.
                Some \<lparr>dk_session = session, dk_branch = unwrap_or 0 (parse_i64 (s ! 4)),
                      dk_submission = s ! 5, dk_kind = DkInvoke harness runtime (s ! 9)\<rparr>))))"

definition invoke_filter :: "agent_name \<Rightarrow> string" where
  "invoke_filter agent = ''vlinder.data.v1.*.*.*.invoke.*.*.'' @ agent"

section \<open>Data plane: complete\<close>

definition complete_subject ::
    "session_id \<Rightarrow> branch_id \<Rightarrow> submission_id \<Rightarrow> agent_name \<Rightarrow> harness_type \<Rightarrow> string" where
  "complete_subject session branch submission agent harness =
     join_with CHR ''.''
       [''vlinder'', ''data'', ''v1'', session, show_int branch, submission,
        ''complete'', agent, harness_as_str harness]"

definition complete_parse_subject :: "(string \<Rightarrow> bool) \<Rightarrow> string \<Rightarrow> data_routing_key option" where
  "complete_parse_subject is_uuid subject =
     (let s = split_on CHR ''.'' subject
      in if length s \<noteq> 9 then None
         else if s ! 0 \<noteq> ''vlinder'' \<or> s ! 1 \<noteq> ''data'' \<or> s ! 2 \<noteq> ''v1'' \<or> s ! 6 \<noteq> ''complete'' then None
         else Option.bind (result_ok (session_id_try_from is_uuid (s ! 3))) (\<lambda>session.
              Option.bind (result_ok (harness_from_str (s ! 8))) (\<lambda>harness.
                Some \<lparr>dk_session = session, dk_branch = unwrap_or 0 (parse_i64 (s ! 4)),
                      dk_submission = s ! 5, dk_kind = DkComplete (s ! 7) harness\<rparr>)))"

definition complete_filter :: "submission_id \<Rightarrow> agent_name \<Rightarrow> harness_type \<Rightarrow> string" where
  "complete_filter submission agent harness =
     ''vlinder.data.v1.*.*.'' @ submission @ ''.complete.'' @ agent @ ''.'' @ harness_as_str harness"

section \<open>Data plane: request and response\<close>

definition request_subject ::
    "session_id \<Rightarrow> branch_id \<Rightarrow> submission_id \<Rightarrow> agent_name \<Rightarrow> service_backend \<Rightarrow> operation \<Rightarrow>
     sequence \<Rightarrow> string" where
  "request_subject session branch submission agent service operation sequence =
     join_with CHR ''.''
       [''vlinder'', ''data'', ''v1'', session, show_int branch, submission,
        ''request'', agent, service_type_as_str (service_backend_service_type service),
        service_backend_str service, operation_as_str operation, show_nat (unat sequence)]"

definition request_parse_subject :: "(string \<Rightarrow> bool) \<Rightarrow> string \<Rightarrow> data_routing_key option" where
  "request_parse_subject is_uuid subject =
     (let s = split_on CHR ''.'' subject
      in if length s \<noteq> 12 then None
         else if s ! 0 \<noteq> ''vlinder'' \<or> s ! 1 \<noteq> ''data'' \<or> s ! 2 \<noteq> ''v1'' \<or> s ! 6 \<noteq> ''request'' then None
         else Option.bind (result_ok (service_type_from_str (s ! 8))) (\<lambda>t.
              Option.bind (service_backend_from_parts t (s ! 9)) (\<lambda>service.
              Option.bind (result_ok (operation_from_str (s ! 10))) (\<lambda>operation.
              Option.bind (parse_u32 (s ! 11)) (\<lambda>sequence.
              Option.bind (result_ok (session_id_try_from is_uuid (s ! 3))) (\<lambda>session.
                Some \<lparr>dk_session = session, dk_branch = unwrap_or 0 (parse_i64 (s ! 4)),
                      dk_submission = s ! 5,
                      dk_kind = DkRequest (s ! 7) service operation sequence\<rparr>))))))"

definition request_filter :: "service_backend \<Rightarrow> operation \<Rightarrow> string" where
  "request_filter service operation =
     ''vlinder.data.v1.*.*.*.request.*.'' @
       service_type_as_str (service_backend_service_type service) @ ''.'' @
       service_backend_str service @ ''.'' @ operation_as_str operation @ ''.>''"

definition response_subject ::
    "session_id \<Rightarrow> branch_id \<Rightarrow> submission_id \<Rightarrow> agent_name \<Rightarrow> service_backend \<Rightarrow> operation \<Rightarrow>
     sequence \<Rightarrow> string" where
  "response_subject session branch submission agent service operation sequence =
     join_with CHR ''.''
       [''vlinder'', ''data'', ''v1'', session, show_int branch, submission,
        ''response'', agent, service_type_as_str (service_backend_service_type service),
        service_backend_str service, operation_as_str operation, show_nat (unat sequence)]"

definition response_parse_subject :: "(string \<Rightarrow> bool) \<Rightarrow> string \<Rightarrow> data_routing_key option" where
  "response_parse_subject is_uuid subject =
     (let s = split_on CHR ''.'' subject
      in if length s \<noteq> 12 then None
         else if s ! 0 \<noteq> ''vlinder'' \<or> s ! 1 \<noteq> ''data'' \<or> s ! 2 \<noteq> ''v1'' \<or> s ! 6 \<noteq> ''response'' then None
         else Option.bind (result_ok (service_type_from_str (s ! 8))) (\<lambda>t.
              Option.bind (service_backend_from_parts t (s ! 9)) (\<lambda>service.
              Option.bind (result_ok (operation_from_str (s ! 10))) (\<lambda>operation.
              Option.bind (parse_u32 (s ! 11)) (\<lambda>sequence.
              Option.bind (result_ok (session_id_try_from is_uuid (s ! 3))) (\<lambda>session.
                Some \<lparr>dk_session = session, dk_branch = unwrap_or 0 (parse_i64 (s ! 4)),
                      dk_submission = s ! 5,
                      dk_kind = DkResponse (s ! 7) service operation sequence\<rparr>))))))"

definition response_filter ::
    "submission_id \<Rightarrow> agent_name \<Rightarrow> service_backend \<Rightarrow> operation \<Rightarrow> sequence \<Rightarrow> string" where
  "response_filter submission agent service operation sequence =
     ''vlinder.data.v1.*.*.'' @ submission @ ''.response.'' @ agent @ ''.'' @
       service_type_as_str (service_backend_service_type service) @ ''.'' @
       service_backend_str service @ ''.'' @ operation_as_str operation @ ''.'' @
       show_nat (unat sequence)"

section \<open>Service plane (second generation)\<close>

definition svc_request_subject :: "svc_routing_key \<Rightarrow> string option" where
  "svc_request_subject key =
     (case vk_kind key of
        VkSvcRequest agent service operation sequence \<Rightarrow>
          Some (join_with CHR ''.''
            [''vlinder'', ''data'', ''v1'', vk_session key, show_int (vk_branch key), vk_submission key,
             ''svc_request'', agent, service_backend_v2_type_str service,
             service_backend_v2_str service, operation, show_nat (unat sequence)])
      | _ \<Rightarrow> None)"

definition svc_response_subject :: "svc_routing_key \<Rightarrow> string option" where
  "svc_response_subject key =
     (case vk_kind key of
        VkSvcResponse agent service operation sequence \<Rightarrow>
          Some (join_with CHR ''.''
            [''vlinder'', ''data'', ''v1'', vk_session key, show_int (vk_branch key), vk_submission key,
             ''svc_response'', agent, service_backend_v2_type_str service,
             service_backend_v2_str service, operation, show_nat (unat sequence)])
      | _ \<Rightarrow> None)"

definition svc_request_parse_subject :: "(string \<Rightarrow> bool) \<Rightarrow> string \<Rightarrow> svc_routing_key option" where
  "svc_request_parse_subject is_uuid subject =
     (let s = split_on CHR ''.'' subject
      in if length s \<noteq> 12 then None
         else if s ! 0 \<noteq> ''vlinder'' \<or> s ! 1 \<noteq> ''data'' \<or> s ! 2 \<noteq> ''v1'' \<or> s ! 6 \<noteq> ''svc_request'' then None
         else Option.bind (service_backend_v2_from_parts (s ! 8) (s ! 9)) (\<lambda>service.
              Option.bind (parse_u32 (s ! 11)) (\<lambda>sequence.
              Option.bind (result_ok (session_id_try_from is_uuid (s ! 3))) (\<lambda>session.
                Some \<lparr>vk_session = session, vk_branch = unwrap_or 0 (parse_i64 (s ! 4)),
                      vk_submission = s ! 5,
                      vk_kind = VkSvcRequest (s ! 7) service (s ! 10) sequence\<rparr>))))"

definition svc_response_parse_subject :: "(string \<Rightarrow> bool) \<Rightarrow> string \<Rightarrow> svc_routing_key option" where
  "svc_response_parse_subject is_uuid subject =
     (let s = split_on CHR ''.'' subject
      in if length s \<noteq> 12 then None
         else if s ! 0 \<noteq> ''vlinder'' \<or> s ! 1 \<noteq> ''data'' \<or> s ! 2 \<noteq> ''v1'' \<or> s ! 6 \<noteq> ''svc_response'' then None
         else Option.bind (service_backend_v2_from_parts (s ! 8) (s ! 9)) (\<lambda>service.
              Option.bind (parse_u32 (s ! 11)) (\<lambda>sequence.
              Option.bind (result_ok (session_id_try_from is_uuid (s ! 3))) (\<lambda>session.
                Some \<lparr>vk_session = session, vk_branch = unwrap_or 0 (parse_i64 (s ! 4)),
                      vk_submission = s ! 5,
                      vk_kind = VkSvcResponse (s ! 7) service (s ! 10) sequence\<rparr>))))"

definition svc_request_filter_mcp :: string where
  "svc_request_filter_mcp = ''vlinder.data.v1.*.*.*.svc_request.*.mcp.*.*.>''"

definition svc_request_filter :: "service_backend_v2 \<Rightarrow> service_operation \<Rightarrow> string" where
  "svc_request_filter service operation =
     ''vlinder.data.v1.*.*.*.svc_request.*.'' @ service_backend_v2_type_str service @ ''.'' @
       service_backend_v2_str service @ ''.'' @ operation @ ''.>''"

definition svc_response_filter ::
    "submission_id \<Rightarrow> agent_name \<Rightarrow> service_backend_v2 \<Rightarrow> service_operation \<Rightarrow> sequence \<Rightarrow> string" where
  "svc_response_filter submission agent service operation sequence =
     ''vlinder.data.v1.*.*.'' @ submission @ ''.svc_response.'' @ agent @ ''.'' @
       service_backend_v2_type_str service @ ''.'' @ service_backend_v2_str service @ ''.'' @
       operation @ ''.'' @ show_nat (unat sequence)"

section \<open>Session plane\<close>

definition fork_subject :: "session_routing_key \<Rightarrow> agent_name \<Rightarrow> string" where
  "fork_subject key agent =
     join_with CHR ''.'' [''vlinder'', sk_session key, ''1'', sk_submission key, ''fork'', agent]"

definition promote_subject :: "session_routing_key \<Rightarrow> agent_name \<Rightarrow> branch_id \<Rightarrow> string" where
  "promote_subject key agent branch =
     join_with CHR ''.''
       [''vlinder'', sk_session key, show_int branch, sk_submission key, ''promote'', agent]"

definition fork_parse_subject :: "(string \<Rightarrow> bool) \<Rightarrow> string \<Rightarrow> session_routing_key option" where
  "fork_parse_subject is_uuid subject =
     (let s = split_on CHR ''.'' subject
      in if length s \<noteq> 6 \<or> s ! 0 \<noteq> ''vlinder'' \<or> s ! 4 \<noteq> ''fork'' then None
         else Option.bind (result_ok (session_id_try_from is_uuid (s ! 1))) (\<lambda>session.
                Some \<lparr>sk_session = session, sk_submission = s ! 3, sk_kind = SkFork (s ! 5)\<rparr>))"

definition promote_parse_subject :: "(string \<Rightarrow> bool) \<Rightarrow> string \<Rightarrow> session_routing_key option" where
  "promote_parse_subject is_uuid subject =
     (let s = split_on CHR ''.'' subject
      in if length s \<noteq> 6 \<or> s ! 0 \<noteq> ''vlinder'' \<or> s ! 4 \<noteq> ''promote'' then None
         else Option.bind (result_ok (session_id_try_from is_uuid (s ! 1))) (\<lambda>session.
                Some \<lparr>sk_session = session, sk_submission = s ! 3, sk_kind = SkPromote (s ! 5)\<rparr>))"

section \<open>Infra plane\<close>

definition deploy_agent_subject :: "infra_routing_key \<Rightarrow> string" where
  "deploy_agent_subject key = ''vlinder.infra.v1.'' @ ik_submission key @ ''.deploy-agent''"

definition delete_agent_subject :: "infra_routing_key \<Rightarrow> string" where
  "delete_agent_subject key = ''vlinder.infra.v1.'' @ ik_submission key @ ''.delete-agent''"

definition deploy_agent_parse_subject :: "string \<Rightarrow> infra_routing_key option" where
  "deploy_agent_parse_subject subject =
     (let s = split_on CHR ''.'' subject
      in if length s \<noteq> 5 \<or> s ! 0 \<noteq> ''vlinder'' \<or> s ! 1 \<noteq> ''infra'' \<or> s ! 2 \<noteq> ''v1'' \<or>
            s ! 4 \<noteq> ''deploy-agent'' then None
         else Some \<lparr>ik_submission = s ! 3, ik_kind = IkDeployAgent\<rparr>)"

definition delete_agent_parse_subject :: "string \<Rightarrow> infra_routing_key option" where
  "delete_agent_parse_subject subject =
     (let s = split_on CHR ''.'' subject
      in if length s \<noteq> 5 \<or> s ! 0 \<noteq> ''vlinder'' \<or> s ! 1 \<noteq> ''infra'' \<or> s ! 2 \<noteq> ''v1'' \<or>
            s ! 4 \<noteq> ''delete-agent'' then None
         else Some \<lparr>ik_submission = s ! 3, ik_kind = IkDeleteAgent\<rparr>)"

section \<open>Consumer names\<close>

definition filter_to_consumer_name :: "string \<Rightarrow> string" where
  "filter_to_consumer_name filter_s =
     map (\<lambda>c. if c = CHR ''.'' then CHR ''_''
              else if c = CHR ''*'' then CHR ''W''
              else if c = CHR ''>'' then CHR ''G'' else c) filter_s"

section \<open>Tokens\<close>

definition dotless :: "string \<Rightarrow> bool" where
  "dotless s \<longleftrightarrow> CHR ''.'' \<notin> set s"

lemma dotless_wire [simp]:
  "dotless (harness_as_str h)" "dotless (runtime_as_str r)" "dotless (operation_as_str p)"
  "dotless (service_type_as_str t)" "dotless (service_backend_str b)" "dotless (show_int i)"
  "dotless (show_nat n)"
  by (simp_all add: dotless_def)

lemma split_join_tokens: "xs \<noteq> [] \<Longrightarrow> list_all dotless xs \<Longrightarrow> split_on CHR ''.'' (join_with CHR ''.'' xs) = xs"
  by (rule split_join) (auto simp: list_all_iff dotless_def)

lemma join_with_Cons: "ys \<noteq> [] \<Longrightarrow> join_with c (x # ys) = x @ c # join_with c ys"
  by (cases ys) (auto simp: join_with.simps)

lemma session_id_try_from_ok [simp]:
  "is_uuid s \<Longrightarrow> session_id_try_from is_uuid s = Inr s"
  by (simp add: session_id_try_from_def)

lemma dotless_Nil [simp]: "dotless []"
  by (simp add: dotless_def)

lemma dotless_Cons [simp]: "dotless (c # cs) \<longleftrightarrow> c \<noteq> CHR ''.'' \<and> dotless cs"
  by (auto simp: dotless_def)

text \<open>What a data-plane key needs for its subject to be readable: a UUID session and dotless tokens.\<close>

fun data_kind_agent :: "data_message_kind \<Rightarrow> agent_name" where
  "data_kind_agent (DkInvoke h r a) = a"
| "data_kind_agent (DkComplete a h) = a"
| "data_kind_agent (DkRequest a s p q) = a"
| "data_kind_agent (DkResponse a s p q) = a"

definition data_key_ok :: "(string \<Rightarrow> bool) \<Rightarrow> data_routing_key \<Rightarrow> bool" where
  "data_key_ok is_uuid key \<longleftrightarrow>
     is_uuid (dk_session key) \<and> dotless (dk_session key) \<and> dotless (dk_submission key) \<and>
     i64_range (dk_branch key) \<and> dotless (data_kind_agent (dk_kind key))"

definition data_key_subject :: "data_routing_key \<Rightarrow> string option" where
  "data_key_subject key =
     (case dk_kind key of
        DkInvoke h r a \<Rightarrow> invoke_subject key
      | DkComplete a h \<Rightarrow>
          Some (complete_subject (dk_session key) (dk_branch key) (dk_submission key) a h)
      | DkRequest a s p q \<Rightarrow>
          Some (request_subject (dk_session key) (dk_branch key) (dk_submission key) a s p q)
      | DkResponse a s p q \<Rightarrow>
          Some (response_subject (dk_session key) (dk_branch key) (dk_submission key) a s p q))"

definition data_key_parse ::
    "(string \<Rightarrow> bool) \<Rightarrow> data_message_kind \<Rightarrow> string \<Rightarrow> data_routing_key option" where
  "data_key_parse is_uuid kind =
     (case kind of
        DkInvoke _ _ _ \<Rightarrow> invoke_parse_subject is_uuid
      | DkComplete _ _ \<Rightarrow> complete_parse_subject is_uuid
      | DkRequest _ _ _ _ \<Rightarrow> request_parse_subject is_uuid
      | DkResponse _ _ _ _ \<Rightarrow> response_parse_subject is_uuid)"

fun data_kind_service :: "data_message_kind \<Rightarrow> service_backend option" where
  "data_kind_service (DkRequest a s p q) = Some s"
| "data_kind_service (DkResponse a s p q) = Some s"
| "data_kind_service _ = None"

lemma subject_defs_split:
  "list_all dotless xs \<Longrightarrow> xs \<noteq> [] \<Longrightarrow> list_all dotless ys \<Longrightarrow> ys \<noteq> [] \<Longrightarrow>
     join_with CHR ''.'' xs = join_with CHR ''.'' ys \<Longrightarrow> xs = ys"
  by (metis split_join_tokens)

section \<open>Filters and wildcard matching\<close>

text \<open>
  NATS subject matching as documented: subjects and filters are compared token by token, a star
  token matches any one token, a final greater-than token matches one or more tokens.  The server
  itself is the parameter \<open>nats\<close>; \<open>documented_matching\<close> is what the code relies on.
\<close>

fun tokens_match :: "string list \<Rightarrow> string list \<Rightarrow> bool" where
  "tokens_match [] [] = True"
| "tokens_match [] (t # ts) = False"
| "tokens_match (p # ps) [] = False"
| "tokens_match (p # ps) (t # ts) =
     (if p = ''>'' \<and> ps = [] then True else (p = ''*'' \<or> p = t) \<and> tokens_match ps ts)"

definition documented_matching :: "(string \<Rightarrow> string \<Rightarrow> bool) \<Rightarrow> bool" where
  "documented_matching nats \<longleftrightarrow>
     (\<forall>f s. nats f s = tokens_match (split_on CHR ''.'' f) (split_on CHR ''.'' s))"

definition plain_token :: "string \<Rightarrow> bool" where
  "plain_token t \<longleftrightarrow> dotless t \<and> t \<noteq> ''*'' \<and> t \<noteq> ''>''"

lemma plain_token_dotless [simp]: "plain_token t \<Longrightarrow> dotless t"
  by (simp add: plain_token_def)

lemma plain_token_neq [simp]: "plain_token t \<Longrightarrow> t \<noteq> ''*'' \<and> t \<noteq> ''>''"
  by (simp add: plain_token_def)

lemma plain_wire [simp]:
  "plain_token (harness_as_str h)" "plain_token (operation_as_str p)"
  "plain_token (service_type_as_str t)" "plain_token (service_backend_str b)"
proof -
  show "plain_token (harness_as_str h)" by (cases h) (simp_all add: plain_token_def dotless_def)
  show "plain_token (operation_as_str p)" by (cases p) (simp_all add: plain_token_def dotless_def)
  show "plain_token (service_type_as_str t)" by (cases t) (simp_all add: plain_token_def dotless_def)
  show "plain_token (service_backend_str b)"
  proof (cases b)
    case (SbKv x)
    then show ?thesis by (cases x) (simp_all add: plain_token_def dotless_def)
  next
    case (SbVec x)
    then show ?thesis by (cases x) (simp_all add: plain_token_def dotless_def)
  next
    case (SbInfer x)
    then show ?thesis by (cases x) (simp_all add: plain_token_def dotless_def)
  next
    case (SbEmbed x)
    then show ?thesis by (cases x) (simp_all add: plain_token_def dotless_def)
  qed
qed

lemma plain_show_nat [simp]: "plain_token (show_nat n)"
proof -
  have "CHR ''*'' \<notin> set (show_nat n)" "CHR ''>'' \<notin> set (show_nat n)"
    by (simp_all add: char_digit_def)
  then show ?thesis by (metis dotless_wire(7) list.set_intros(1) plain_token_def)
qed

lemma tokens_match_plain:
  "plain_token p \<Longrightarrow> tokens_match (p # ps) (t # ts) \<longleftrightarrow> p = t \<and> tokens_match ps ts"
  by simp

lemma filter_tokens:
  "invoke_filter a =
     join_with CHR ''.'' [''vlinder'', ''data'', ''v1'', ''*'', ''*'', ''*'', ''invoke'', ''*'', ''*'', a]"
  "complete_filter sub a h =
     join_with CHR ''.'' [''vlinder'', ''data'', ''v1'', ''*'', ''*'', sub, ''complete'', a, harness_as_str h]"
  "request_filter s p =
     join_with CHR ''.'' [''vlinder'', ''data'', ''v1'', ''*'', ''*'', ''*'', ''request'', ''*'',
       service_type_as_str (service_backend_service_type s), service_backend_str s, operation_as_str p, ''>'']"
  "response_filter sub a s p q =
     join_with CHR ''.'' [''vlinder'', ''data'', ''v1'', ''*'', ''*'', sub, ''response'', a,
       service_type_as_str (service_backend_service_type s), service_backend_str s, operation_as_str p,
       show_nat (unat q)]"
  "svc_response_filter sub a v op q =
     join_with CHR ''.'' [''vlinder'', ''data'', ''v1'', ''*'', ''*'', sub, ''svc_response'', a,
       service_backend_v2_type_str v, service_backend_v2_str v, op, show_nat (unat q)]"
  "svc_request_filter_mcp =
     join_with CHR ''.'' [''vlinder'', ''data'', ''v1'', ''*'', ''*'', ''*'', ''svc_request'', ''*'',
       ''mcp'', ''*'', ''*'', ''>'']"
  by (simp_all add: join_with.simps invoke_filter_def complete_filter_def request_filter_def response_filter_def
      svc_response_filter_def svc_request_filter_mcp_def)

lemma nats_join:
  assumes "documented_matching nats" and "list_all dotless fs" and "fs \<noteq> []"
    and "list_all dotless ts" and "ts \<noteq> []"
  shows "nats (join_with CHR ''.'' fs) (join_with CHR ''.'' ts) = tokens_match fs ts"
  using assms by (simp add: documented_matching_def split_join_tokens)

lemma service_backend_wire_inj:
  "service_backend_service_type s = service_backend_service_type t \<Longrightarrow>
   service_backend_str s = service_backend_str t \<Longrightarrow> s = t"
proof -
  assume ty: "service_backend_service_type s = service_backend_service_type t"
    and str: "service_backend_str s = service_backend_str t"
  have obj: "object_storage_as_str x = object_storage_as_str y \<longleftrightarrow> x = y" for x y
    by (cases x; cases y) simp_all
  have vec: "vector_storage_as_str x = vector_storage_as_str y \<longleftrightarrow> x = y" for x y
    by (cases x; cases y) simp_all
  show "s = t"
    using ty str by (cases s; cases t) (simp_all add: obj vec)
qed

lemma show_nat_inj: "show_nat m = show_nat n \<longleftrightarrow> m = n"
  by (metis option.inject parse_digits_show)

lemmas subject_defs =
  invoke_subject_def complete_subject_def request_subject_def response_subject_def
  svc_request_subject_def svc_response_subject_def fork_subject_def promote_subject_def

lemmas parse_defs =
  invoke_parse_subject_def complete_parse_subject_def request_parse_subject_def
  response_parse_subject_def svc_request_parse_subject_def svc_response_parse_subject_def
  fork_parse_subject_def promote_parse_subject_def deploy_agent_parse_subject_def
  delete_agent_parse_subject_def

text \<open>The same bundle for the second-generation keys.\<close>

fun svc_kind_tokens :: "svc_message_kind \<Rightarrow> string list" where
  "svc_kind_tokens (VkSvcRequest a s p q) = [a, service_backend_v2_str s, p]"
| "svc_kind_tokens (VkSvcResponse a s p q) = [a, service_backend_v2_str s, p]"

definition svc_key_ok :: "(string \<Rightarrow> bool) \<Rightarrow> svc_routing_key \<Rightarrow> bool" where
  "svc_key_ok is_uuid key \<longleftrightarrow>
     is_uuid (vk_session key) \<and> i64_range (vk_branch key) \<and>
     list_all dotless (vk_session key # vk_submission key # svc_kind_tokens (vk_kind key))"

definition svc_key_subject :: "svc_routing_key \<Rightarrow> string option" where
  "svc_key_subject key =
     (case vk_kind key of
        VkSvcRequest _ _ _ _ \<Rightarrow> svc_request_subject key
      | VkSvcResponse _ _ _ _ \<Rightarrow> svc_response_subject key)"

definition svc_key_parse ::
    "(string \<Rightarrow> bool) \<Rightarrow> svc_message_kind \<Rightarrow> string \<Rightarrow> svc_routing_key option" where
  "svc_key_parse is_uuid kind =
     (case kind of
        VkSvcRequest _ _ _ _ \<Rightarrow> svc_request_parse_subject is_uuid
      | VkSvcResponse _ _ _ _ \<Rightarrow> svc_response_parse_subject is_uuid)"

lemma service_backend_v2_from_parts_eq [simp]:
  "service_backend_v2_from_parts ''mcp'' (service_backend_v2_str b) = Some b"
  by (cases b) (simp add: service_backend_v2_from_parts_def)

section \<open>The tokens of a data-plane subject\<close>

fun data_kind_tokens :: "data_message_kind \<Rightarrow> string list" where
  "data_kind_tokens (DkInvoke h r a) = [''invoke'', harness_as_str h, runtime_as_str r, a]"
| "data_kind_tokens (DkComplete a h) = [''complete'', a, harness_as_str h]"
| "data_kind_tokens (DkRequest a s p q) =
     [''request'', a, service_type_as_str (service_backend_service_type s), service_backend_str s,
      operation_as_str p, show_nat (unat q)]"
| "data_kind_tokens (DkResponse a s p q) =
     [''response'', a, service_type_as_str (service_backend_service_type s), service_backend_str s,
      operation_as_str p, show_nat (unat q)]"

definition data_key_tokens :: "data_routing_key \<Rightarrow> string list" where
  "data_key_tokens key =
     [''vlinder'', ''data'', ''v1'', dk_session key, show_int (dk_branch key), dk_submission key] @
     data_kind_tokens (dk_kind key)"

lemma data_key_subject_tokens:
  "data_key_subject key = Some (join_with CHR ''.'' (data_key_tokens key))"
  by (cases "dk_kind key") (simp_all add: data_key_subject_def data_key_tokens_def subject_defs)

lemma data_key_tokens_ok: "data_key_ok is_uuid key \<Longrightarrow> list_all dotless (data_key_tokens key)"
  by (cases "dk_kind key") (simp_all add: data_key_ok_def data_key_tokens_def)

section \<open>The ten subject parsers\<close>

definition subject_parsers :: "((string \<Rightarrow> bool) \<Rightarrow> string \<Rightarrow> bool) list" where
  "subject_parsers =
     [\<lambda>u s. invoke_parse_subject u s \<noteq> None, \<lambda>u s. complete_parse_subject u s \<noteq> None,
      \<lambda>u s. request_parse_subject u s \<noteq> None, \<lambda>u s. response_parse_subject u s \<noteq> None,
      \<lambda>u s. svc_request_parse_subject u s \<noteq> None, \<lambda>u s. svc_response_parse_subject u s \<noteq> None,
      \<lambda>u s. fork_parse_subject u s \<noteq> None, \<lambda>u s. promote_parse_subject u s \<noteq> None,
      \<lambda>u s. deploy_agent_parse_subject s \<noteq> None, \<lambda>u s. delete_agent_parse_subject s \<noteq> None]"

definition subject_shape :: "string \<Rightarrow> nat \<times> string" where
  "subject_shape s =
     (let t = split_on CHR ''.'' s in (length t, if length t < 9 then t ! 4 else t ! 6))"

definition subject_shapes :: "(nat \<times> string) list" where
  "subject_shapes =
     [(10, ''invoke''), (9, ''complete''), (12, ''request''), (12, ''response''),
      (12, ''svc_request''), (12, ''svc_response''), (6, ''fork''), (6, ''promote''),
      (5, ''deploy-agent''), (5, ''delete-agent'')]"

lemma parser_shapes:
  "invoke_parse_subject u s \<noteq> None \<Longrightarrow> subject_shape s = (10, ''invoke'')"
  "complete_parse_subject u s \<noteq> None \<Longrightarrow> subject_shape s = (9, ''complete'')"
  "request_parse_subject u s \<noteq> None \<Longrightarrow> subject_shape s = (12, ''request'')"
  "response_parse_subject u s \<noteq> None \<Longrightarrow> subject_shape s = (12, ''response'')"
  "svc_request_parse_subject u s \<noteq> None \<Longrightarrow> subject_shape s = (12, ''svc_request'')"
  "svc_response_parse_subject u s \<noteq> None \<Longrightarrow> subject_shape s = (12, ''svc_response'')"
  "fork_parse_subject u s \<noteq> None \<Longrightarrow> subject_shape s = (6, ''fork'')"
  "promote_parse_subject u s \<noteq> None \<Longrightarrow> subject_shape s = (6, ''promote'')"
  "deploy_agent_parse_subject s \<noteq> None \<Longrightarrow> subject_shape s = (5, ''deploy-agent'')"
  "delete_agent_parse_subject s \<noteq> None \<Longrightarrow> subject_shape s = (5, ''delete-agent'')"
  unfolding parse_defs subject_shape_def Let_def
  by (simp_all split: if_split_asm)

lemma subject_parser_shape:
  "i < length subject_parsers \<Longrightarrow> (subject_parsers ! i) u s \<Longrightarrow> subject_shape s = subject_shapes ! i"
  unfolding subject_parsers_def subject_shapes_def
  using parser_shapes(1-8) [of u s] parser_shapes(9,10) [of s]
  by (auto simp: less_Suc_eq numeral_eq_Suc simp del: not_None_eq)

section \<open>Properties\<close>

text \<open>
  C14: every data-plane subject reads back as the key it was built from, for a UUID session, a branch id
  in range and dotless tokens; the only exception is a request or response addressed to the S3 object
  store, whose subject no parser accepts.
\<close>

theorem data_subject_roundtrip:
  assumes "data_key_ok is_uuid key" and "data_key_subject key = Some subject"
  shows "data_key_parse is_uuid (dk_kind key) subject =
           (if data_kind_service (dk_kind key) = Some (SbKv ObjS3) then None else Some key)"
  using assms
  by (cases "dk_kind key")
    (auto simp: data_key_ok_def data_key_subject_def data_key_parse_def subject_defs parse_defs
      split_join_tokens service_backend_from_parts_str Let_def intro!: data_routing_key.equality)

theorem data_subject_roundtrip_witness:
  "data_key_parse (\<lambda>_. True)
     (DkRequest ''todo'' (SbKv ObjSqlite) OpGet 3)
     ''vlinder.data.v1.s.1.sub.request.todo.kv.sqlite.get.3'' =
   Some \<lparr>dk_session = ''s'', dk_branch = 1, dk_submission = ''sub'',
         dk_kind = DkRequest ''todo'' (SbKv ObjSqlite) OpGet 3\<rparr>"
proof -
  let ?k = "\<lparr>dk_session = ''s'', dk_branch = 1, dk_submission = ''sub'',
         dk_kind = DkRequest ''todo'' (SbKv ObjSqlite) OpGet 3\<rparr>"
  have "data_key_ok (\<lambda>_. True) ?k"
    by (simp add: data_key_ok_def dotless_def i64_range_def)
  moreover have "data_key_subject ?k = Some ''vlinder.data.v1.s.1.sub.request.todo.kv.sqlite.get.3''"
    by code_simp
  ultimately show ?thesis using data_subject_roundtrip [of "\<lambda>_. True" ?k] by simp
qed

text \<open>
  The same for the second-generation service subjects, where every provider and operation name
  without a dot survives.
\<close>

theorem svc_subject_roundtrip:
  assumes "svc_key_ok is_uuid key" and "svc_key_subject key = Some subject"
  shows "svc_key_parse is_uuid (vk_kind key) subject = Some key"
  using assms
  by (cases "vk_kind key")
    (auto simp: svc_key_ok_def svc_key_subject_def svc_key_parse_def subject_defs parse_defs
      split_join_tokens service_backend_v2_from_parts_eq Let_def intro!: svc_routing_key.equality)

theorem svc_subject_roundtrip_witness:
  "svc_key_parse (\<lambda>_. True) (VkSvcResponse ''todo'' (Mcp ''jira'') ''get_issue'' 2)
     ''vlinder.data.v1.s.1.sub.svc_response.todo.mcp.jira.get_issue.2'' =
   Some \<lparr>vk_session = ''s'', vk_branch = 1, vk_submission = ''sub'',
         vk_kind = VkSvcResponse ''todo'' (Mcp ''jira'') ''get_issue'' 2\<rparr>"
proof -
  let ?k = "\<lparr>vk_session = ''s'', vk_branch = 1, vk_submission = ''sub'',
         vk_kind = VkSvcResponse ''todo'' (Mcp ''jira'') ''get_issue'' 2\<rparr>"
  have "svc_key_ok (\<lambda>_. True) ?k"
    by (simp add: svc_key_ok_def i64_range_def)
  moreover have "svc_key_subject ?k =
      Some ''vlinder.data.v1.s.1.sub.svc_response.todo.mcp.jira.get_issue.2''"
    by code_simp
  ultimately show ?thesis using svc_subject_roundtrip [of "\<lambda>_. True" ?k] by simp
qed

text \<open>
  No subject is accepted by two parsers.  A fan-in observer that tries the parsers one after the
  other therefore classifies a subject the same way in any order.
\<close>

theorem subject_parsers_exclusive:
  assumes "i < length subject_parsers" and "j < length subject_parsers"
    and "(subject_parsers ! i) u s" and "(subject_parsers ! j) u s"
  shows "i = j"
proof -
  have "subject_shapes ! i = subject_shapes ! j"
    using subject_parser_shape [OF assms(1,3)] subject_parser_shape [OF assms(2,4)] by simp
  moreover have "distinct subject_shapes" by (simp add: subject_shapes_def)
  moreover have "i < length subject_shapes" "j < length subject_shapes"
    using assms(1,2) by (simp_all add: subject_parsers_def subject_shapes_def)
  ultimately show ?thesis by (simp add: nth_eq_iff_index_eq)
qed

theorem subject_parsers_exclusive_witness:
  "filter (\<lambda>j. (subject_parsers ! j) (\<lambda>_. True) ''vlinder.infra.v1.sub.deploy-agent'') [0..<10] = [8]"
proof -
  have len: "length subject_parsers = 10" by (simp add: subject_parsers_def)
  have acc: "(subject_parsers ! 8) (\<lambda>_. True) ''vlinder.infra.v1.sub.deploy-agent''"
    by (simp add: subject_parsers_def deploy_agent_parse_subject_def)
  then have "\<And>j. j < 10 \<Longrightarrow> (subject_parsers ! j) (\<lambda>_. True) ''vlinder.infra.v1.sub.deploy-agent'' \<longleftrightarrow> j = 8"
    using subject_parsers_exclusive
      [of _ 8 "\<lambda>_. True" "''vlinder.infra.v1.sub.deploy-agent''"] len by auto
  then have "filter (\<lambda>j. (subject_parsers ! j) (\<lambda>_. True) ''vlinder.infra.v1.sub.deploy-agent'') [0..<10] =
      filter (\<lambda>j. j = 8) [0..<10]"
    by (intro filter_cong) auto
  then show ?thesis by (simp add: upt_conv_Cons)
qed

text \<open>
  Under the documented NATS matching, the filter a runtime subscribes with selects exactly the
  invokes of its agent, and the filter a harness waits on selects exactly the completes of its
  submission, agent and harness type.
\<close>

theorem invoke_complete_filters_exact:
  assumes "documented_matching nats" and "data_key_ok is_uuid key"
    and "data_key_subject key = Some subject"
    and "plain_token agent" and "plain_token submission"
  shows "(nats (invoke_filter agent) subject \<longleftrightarrow> (\<exists>h r. dk_kind key = DkInvoke h r agent)) \<and>
         (nats (complete_filter submission agent harness) subject \<longleftrightarrow>
            dk_submission key = submission \<and> dk_kind key = DkComplete agent harness)"
proof -
  have subject: "subject = join_with CHR ''.'' (data_key_tokens key)"
    using assms(3) by (simp add: data_key_subject_tokens)
  show ?thesis
    unfolding subject filter_tokens
    using assms(1,4,5) data_key_tokens_ok [OF assms(2)]
    by (cases "dk_kind key") (auto simp: nats_join data_key_tokens_def)
qed

theorem invoke_complete_filters_exact_witness:
  "\<exists>nats. documented_matching nats \<and>
     (let key = \<lparr>dk_session = ''s'', dk_branch = 1, dk_submission = ''sub'',
                 dk_kind = DkInvoke HCli RtContainer ''todo''\<rparr>
      in \<exists>subject. data_key_subject key = Some subject \<and> nats (invoke_filter ''todo'') subject \<and>
           \<not> nats (invoke_filter ''other'') subject \<and>
           \<not> nats (complete_filter ''sub'' ''todo'' HCli) subject)"
proof -
  let ?m = "\<lambda>f s. tokens_match (split_on CHR ''.'' f) (split_on CHR ''.'' s)"
  let ?k = "\<lparr>dk_session = ''s'', dk_branch = 1, dk_submission = ''sub'',
             dk_kind = DkInvoke HCli RtContainer ''todo''\<rparr>"
  have m: "documented_matching ?m" by (simp add: documented_matching_def)
  have k: "data_key_ok (\<lambda>_. True) ?k" by (simp add: data_key_ok_def i64_range_def)
  have plain: "plain_token ''todo''" "plain_token ''other''" "plain_token ''sub''"
    by (simp_all add: plain_token_def)
  note exact = invoke_complete_filters_exact [OF m k]
  show ?thesis
    using m exact [OF data_key_subject_tokens plain(1,3)] exact [OF data_key_subject_tokens plain(2,3)]
    by (intro exI [of _ ?m]) (simp add: Let_def data_key_subject_tokens)
qed

text \<open>
  A service worker's filter selects exactly the requests of its backend and operation, and the
  reply filter of a caller selects exactly the response with its submission, agent, backend,
  operation and sequence number.
\<close>

theorem request_response_filters_exact:
  assumes "documented_matching nats" and "data_key_ok is_uuid key"
    and "data_key_subject key = Some subject"
    and "plain_token agent" and "plain_token submission"
  shows "(nats (request_filter service op) subject \<longleftrightarrow>
            (\<exists>a q. dk_kind key = DkRequest a service op q)) \<and>
         (nats (response_filter submission agent service op seq) subject \<longleftrightarrow>
            dk_submission key = submission \<and> dk_kind key = DkResponse agent service op seq)"
proof -
  have subject: "subject = join_with CHR ''.'' (data_key_tokens key)"
    using assms(3) by (simp add: data_key_subject_tokens)
  show ?thesis
    unfolding subject filter_tokens
    using assms(1,4,5) data_key_tokens_ok [OF assms(2)]
    by (cases "dk_kind key")
      (auto simp: nats_join data_key_tokens_def show_nat_inj
        dest: service_backend_wire_inj unsigned_word_eqI)
qed

theorem request_response_filters_exact_witness:
  "\<exists>nats. documented_matching nats \<and>
     (\<exists>subject. data_key_subject
        \<lparr>dk_session = ''s'', dk_branch = 1, dk_submission = ''sub'',
         dk_kind = DkResponse ''todo'' (SbKv ObjSqlite) OpGet 3\<rparr> = Some subject \<and>
        nats (response_filter ''sub'' ''todo'' (SbKv ObjSqlite) OpGet 3) subject \<and>
        \<not> nats (response_filter ''sub'' ''todo'' (SbKv ObjSqlite) OpGet 4) subject \<and>
        \<not> nats (request_filter (SbKv ObjSqlite) OpGet) subject)"
proof -
  let ?m = "\<lambda>f s. tokens_match (split_on CHR ''.'' f) (split_on CHR ''.'' s)"
  let ?k = "\<lparr>dk_session = ''s'', dk_branch = 1, dk_submission = ''sub'',
             dk_kind = DkResponse ''todo'' (SbKv ObjSqlite) OpGet 3\<rparr>"
  have m: "documented_matching ?m" by (simp add: documented_matching_def)
  have k: "data_key_ok (\<lambda>_. True) ?k" by (simp add: data_key_ok_def i64_range_def)
  have plain: "plain_token ''todo''" "plain_token ''sub''"
    by (simp_all add: plain_token_def)
  note exact = request_response_filters_exact
    [OF m k data_key_subject_tokens plain, of "SbKv ObjSqlite" OpGet]
  show ?thesis
    using m exact [of 3] exact [of 4]
    by (intro exI [of _ ?m]) (simp add: data_key_subject_tokens)
qed

lemma consumer_name_plain:
  "set s \<inter> {CHR ''.'', CHR ''*'', CHR ''>''} = {} \<Longrightarrow> filter_to_consumer_name s = s"
  by (auto simp: filter_to_consumer_name_def intro: map_idI)

lemma consumer_name_append:
  "filter_to_consumer_name (s @ t) = filter_to_consumer_name s @ filter_to_consumer_name t"
  by (simp add: filter_to_consumer_name_def)

text \<open>
  The durable consumer name derived from a filter tells two agents' invoke consumers apart, but
  not two service-response consumers in general: an underscore in a provider or operation name is
  indistinguishable from the dot between tokens.
\<close>

theorem consumer_names:
  assumes "set a \<inter> {CHR ''.'', CHR ''*'', CHR ''>''} = {}"
    and "set b \<inter> {CHR ''.'', CHR ''*'', CHR ''>''} = {}"
  shows "(filter_to_consumer_name (invoke_filter a) = filter_to_consumer_name (invoke_filter b) \<longleftrightarrow> a = b) \<and>
         svc_response_filter sub ag (Mcp ''git'') ''hub_get'' q \<noteq> svc_response_filter sub ag (Mcp ''git_hub'') ''get'' q \<and>
         filter_to_consumer_name (svc_response_filter sub ag (Mcp ''git'') ''hub_get'' q) =
           filter_to_consumer_name (svc_response_filter sub ag (Mcp ''git_hub'') ''get'' q)"
proof (intro conjI)
  show "filter_to_consumer_name (invoke_filter a) = filter_to_consumer_name (invoke_filter b) \<longleftrightarrow> a = b"
    using assms by (simp only: invoke_filter_def consumer_name_append same_append_eq consumer_name_plain)
qed (simp_all add: svc_response_filter_def consumer_name_append, simp_all add: filter_to_consumer_name_def)

theorem consumer_names_witness:
  "filter_to_consumer_name (invoke_filter ''todo'') \<noteq> filter_to_consumer_name (invoke_filter ''echo'') \<and>
   filter_to_consumer_name (svc_response_filter ''s'' ''a'' (Mcp ''git'') ''hub_get'' 1) =
     filter_to_consumer_name (svc_response_filter ''s'' ''a'' (Mcp ''git_hub'') ''get'' 1)"
  using consumer_names [of "''todo''" "''echo''" "''s''" "''a''" 1] by simp

end
