(* ===== verification/AmqpRouting.thy ===== *)
theory AmqpRouting
  imports NatsRouting
begin

text \<open>
  The AMQP side of the wire (\<open>crates/vlinder-amqp/src/routing.rs\<close>): routing keys, their parsers, the
  binding patterns of the topic exchange and the queue names derived from them.  The code is a second
  copy of the NATS subjects; the properties say where the two agree.  \<open>None\<close> is the panic on a key of
  another kind; the UUID check of \<open>SessionId\<close> is a parameter.
\<close>

section \<open>Routing keys and parsers\<close>

definition invoke_routing_key :: "data_routing_key \<Rightarrow> string option" where
  "invoke_routing_key key =
     (case dk_kind key of
        DkInvoke harness runtime agent \<Rightarrow>
          Some (join_with CHR ''.''
            [''vlinder'', ''data'', ''v1'', dk_session key, show_int (dk_branch key), dk_submission key,
             ''invoke'', harness_as_str harness, runtime_as_str runtime, agent])
      | _ \<Rightarrow> None)"

definition amqp_invoke_parse :: "(string \<Rightarrow> bool) \<Rightarrow> string \<Rightarrow> data_routing_key option" where
  "amqp_invoke_parse is_uuid routing_key =
     (let s = split_on CHR ''.'' routing_key
      in if length s \<noteq> 10 then None
         else if s ! 0 \<noteq> ''vlinder'' \<or> s ! 1 \<noteq> ''data'' \<or> s ! 2 \<noteq> ''v1'' \<or> s ! 6 \<noteq> ''invoke'' then None
         else Option.bind (result_ok (session_id_try_from is_uuid (s ! 3))) (\<lambda>session.
              Option.bind (result_ok (harness_from_str (s ! 7))) (\<lambda>harness.
              Option.bind (result_ok (runtime_from_str (s ! 8))) (\<lambda>runtime.
                Some \<lparr>dk_session = session, dk_branch = unwrap_or 0 (parse_i64 (s ! 4)),
                      dk_submission = s ! 5, dk_kind = DkInvoke harness runtime (s ! 9)\<rparr>))))"

definition invoke_binding :: "agent_name \<Rightarrow> string" where
  "invoke_binding agent = ''vlinder.data.v1.*.*.*.invoke.*.*.'' @ agent"

definition complete_routing_key ::
    "session_id \<Rightarrow> branch_id \<Rightarrow> submission_id \<Rightarrow> agent_name \<Rightarrow> harness_type \<Rightarrow> string" where
  "complete_routing_key session branch submission agent harness =
     join_with CHR ''.''
       [''vlinder'', ''data'', ''v1'', session, show_int branch, submission,
        ''complete'', agent, harness_as_str harness]"

definition amqp_complete_parse :: "(string \<Rightarrow> bool) \<Rightarrow> string \<Rightarrow> data_routing_key option" where
  "amqp_complete_parse is_uuid routing_key =
     (let s = split_on CHR ''.'' routing_key
      in if length s \<noteq> 9 then None
         else if s ! 0 \<noteq> ''vlinder'' \<or> s ! 1 \<noteq> ''data'' \<or> s ! 2 \<noteq> ''v1'' \<or> s ! 6 \<noteq> ''complete'' then None
         else Option.bind (result_ok (session_id_try_from is_uuid (s ! 3))) (\<lambda>session.
              Option.bind (result_ok (harness_from_str (s ! 8))) (\<lambda>harness.
                Some \<lparr>dk_session = session, dk_branch = unwrap_or 0 (parse_i64 (s ! 4)),
                      dk_submission = s ! 5, dk_kind = DkComplete (s ! 7) harness\<rparr>)))"

definition complete_binding :: "submission_id \<Rightarrow> agent_name \<Rightarrow> harness_type \<Rightarrow> string" where
  "complete_binding submission agent harness =
     ''vlinder.data.v1.*.*.'' @ submission @ ''.complete.'' @ agent @ ''.'' @ harness_as_str harness"

definition request_routing_key ::
    "session_id \<Rightarrow> branch_id \<Rightarrow> submission_id \<Rightarrow> agent_name \<Rightarrow> service_backend \<Rightarrow> operation \<Rightarrow>
     sequence \<Rightarrow> string" where
  "request_routing_key session branch submission agent service operation sequence =
     join_with CHR ''.''
       [''vlinder'', ''data'', ''v1'', session, show_int branch, submission,
        ''request'', agent, service_type_as_str (service_backend_service_type service),
        service_backend_str service, operation_as_str operation, show_nat (unat sequence)]"

definition amqp_request_parse :: "(string \<Rightarrow> bool) \<Rightarrow> string \<Rightarrow> data_routing_key option" where
  "amqp_request_parse is_uuid routing_key =
     (let s = split_on CHR ''.'' routing_key
      in if length s \<noteq> 12 then None
         else if s ! 0 \<noteq> ''vlinder'' \<or> s ! 1 \<noteq> ''data'' \<or> s ! 2 \<noteq> ''v1'' \<or> s ! 6 \<noteq> ''request'' then None
         else Option.bind (result_ok (service_type_from_str (s ! 8))) (\<lambda>t.
              Option.bind (service_backend_from_parts t (s ! 9)) (\<lambda>service.
              Option.bind (result_ok (operation_from_str (s ! 10))) (\<lambda>operation.
              Option.bind (parse_u32 (s ! 11)) (\<lambda>sequence.
              Option.bind (result_ok (session_id_try_from is_uuid (s ! 3))) (\<lambda>session.
                Some \<lparr>dk_session = session, dk_branch = unwrap_or 0 (parse_i64 (s ! 4)),
                      dk_submission = s ! 5,
                      dk_kind = DkRequest (s ! 7) service operation sequence\<rparr>))))))"

definition request_binding :: "service_backend \<Rightarrow> operation \<Rightarrow> string" where
  "request_binding service operation =
     ''vlinder.data.v1.*.*.*.request.*.'' @
       service_type_as_str (service_backend_service_type service) @ ''.'' @
       service_backend_str service @ ''.'' @ operation_as_str operation @ ''.#''"

definition response_routing_key ::
    "session_id \<Rightarrow> branch_id \<Rightarrow> submission_id \<Rightarrow> agent_name \<Rightarrow> service_backend \<Rightarrow> operation \<Rightarrow>
     sequence \<Rightarrow> string" where
  "response_routing_key session branch submission agent service operation sequence =
     join_with CHR ''.''
       [''vlinder'', ''data'', ''v1'', session, show_int branch, submission,
        ''response'', agent, service_type_as_str (service_backend_service_type service),
        service_backend_str service, operation_as_str operation, show_nat (unat sequence)]"

definition amqp_response_parse :: "(string \<Rightarrow> bool) \<Rightarrow> string \<Rightarrow> data_routing_key option" where
  "amqp_response_parse is_uuid routing_key =
     (let s = split_on CHR ''.'' routing_key
      in if length s \<noteq> 12 then None
         else if s ! 0 \<noteq> ''vlinder'' \<or> s ! 1 \<noteq> ''data'' \<or> s ! 2 \<noteq> ''v1'' \<or> s ! 6 \<noteq> ''response'' then None
         else Option.bind (result_ok (service_type_from_str (s ! 8))) (\<lambda>t.
              Option.bind (service_backend_from_parts t (s ! 9)) (\<lambda>service.
              Option.bind (result_ok (operation_from_str (s ! 10))) (\<lambda>operation.
              Option.bind (parse_u32 (s ! 11)) (\<lambda>sequence.
              Option.bind (result_ok (session_id_try_from is_uuid (s ! 3))) (\<lambda>session.
                Some \<lparr>dk_session = session, dk_branch = unwrap_or 0 (parse_i64 (s ! 4)),
                      dk_submission = s ! 5,
                      dk_kind = DkResponse (s ! 7) service operation sequence\<rparr>))))))"

definition response_binding ::
    "submission_id \<Rightarrow> agent_name \<Rightarrow> service_backend \<Rightarrow> operation \<Rightarrow> sequence \<Rightarrow> string" where
  "response_binding submission agent service operation sequence =
     ''vlinder.data.v1.*.*.'' @ submission @ ''.response.'' @ agent @ ''.'' @
       service_type_as_str (service_backend_service_type service) @ ''.'' @
       service_backend_str service @ ''.'' @ operation_as_str operation @ ''.'' @
       show_nat (unat sequence)"

definition fork_routing_key :: "session_routing_key \<Rightarrow> agent_name \<Rightarrow> string" where
  "fork_routing_key key agent =
     join_with CHR ''.'' [''vlinder'', sk_session key, ''1'', sk_submission key, ''fork'', agent]"

definition amqp_fork_parse :: "(string \<Rightarrow> bool) \<Rightarrow> string \<Rightarrow> session_routing_key option" where
  "amqp_fork_parse is_uuid routing_key =
     (let s = split_on CHR ''.'' routing_key
      in if length s \<noteq> 6 \<or> s ! 0 \<noteq> ''vlinder'' \<or> s ! 4 \<noteq> ''fork'' then None
         else Option.bind (result_ok (session_id_try_from is_uuid (s ! 1))) (\<lambda>session.
                Some \<lparr>sk_session = session, sk_submission = s ! 3, sk_kind = SkFork (s ! 5)\<rparr>))"

definition promote_routing_key :: "session_routing_key \<Rightarrow> agent_name \<Rightarrow> branch_id \<Rightarrow> string" where
  "promote_routing_key key agent branch =
     join_with CHR ''.''
       [''vlinder'', sk_session key, show_int branch, sk_submission key, ''promote'', agent]"

definition amqp_promote_parse :: "(string \<Rightarrow> bool) \<Rightarrow> string \<Rightarrow> session_routing_key option" where
  "amqp_promote_parse is_uuid routing_key =
     (let s = split_on CHR ''.'' routing_key
      in if length s \<noteq> 6 \<or> s ! 0 \<noteq> ''vlinder'' \<or> s ! 4 \<noteq> ''promote'' then None
         else Option.bind (result_ok (session_id_try_from is_uuid (s ! 1))) (\<lambda>session.
                Some \<lparr>sk_session = session, sk_submission = s ! 3, sk_kind = SkPromote (s ! 5)\<rparr>))"

definition deploy_agent_routing_key :: "infra_routing_key \<Rightarrow> string" where
  "deploy_agent_routing_key key = ''vlinder.infra.v1.'' @ ik_submission key @ ''.deploy-agent''"

definition amqp_deploy_agent_parse :: "string \<Rightarrow> infra_routing_key option" where
  "amqp_deploy_agent_parse routing_key =
     (let s = split_on CHR ''.'' routing_key
      in if length s \<noteq> 5 \<or> s ! 0 \<noteq> ''vlinder'' \<or> s ! 1 \<noteq> ''infra'' \<or> s ! 2 \<noteq> ''v1'' \<or>
            s ! 4 \<noteq> ''deploy-agent'' then None
         else Some \<lparr>ik_submission = s ! 3, ik_kind = IkDeployAgent\<rparr>)"

definition delete_agent_routing_key :: "infra_routing_key \<Rightarrow> string" where
  "delete_agent_routing_key key = ''vlinder.infra.v1.'' @ ik_submission key @ ''.delete-agent''"

definition amqp_delete_agent_parse :: "string \<Rightarrow> infra_routing_key option" where
  "amqp_delete_agent_parse routing_key =
     (let s = split_on CHR ''.'' routing_key
      in if length s \<noteq> 5 \<or> s ! 0 \<noteq> ''vlinder'' \<or> s ! 1 \<noteq> ''infra'' \<or> s ! 2 \<noteq> ''v1'' \<or>
            s ! 4 \<noteq> ''delete-agent'' then None
         else Some \<lparr>ik_submission = s ! 3, ik_kind = IkDeleteAgent\<rparr>)"

definition fork_binding :: string where
  "fork_binding = ''vlinder.*.*.*.fork.*''"

definition promote_binding :: string where
  "promote_binding = ''vlinder.*.*.*.promote.*''"

definition deploy_agent_binding :: string where
  "deploy_agent_binding = ''vlinder.infra.v1.*.deploy-agent''"

definition delete_agent_binding :: string where
  "delete_agent_binding = ''vlinder.infra.v1.*.delete-agent''"

definition binding_to_queue_name :: "string \<Rightarrow> string" where
  "binding_to_queue_name b =
     map (\<lambda>c. if c = CHR ''.'' then CHR ''-''
              else if c = CHR ''*'' then CHR ''W''
              else if c = CHR ''#'' then CHR ''H'' else c) b"

section \<open>Topic matching\<close>

text \<open>
  AMQP topic matching as documented: a star word matches one word, a hash word any number of them,
  none included.  The broker is the parameter \<open>broker\<close>.
\<close>

fun topic_match :: "string list \<Rightarrow> string list \<Rightarrow> bool" where
  "topic_match [] [] = True"
| "topic_match [] (t # ts) = False"
| "topic_match (p # ps) [] = (p = ''#'' \<and> topic_match ps [])"
| "topic_match (p # ps) (t # ts) =
     (if p = ''#'' then topic_match ps (t # ts) \<or> topic_match (p # ps) ts
      else (p = ''*'' \<or> p = t) \<and> topic_match ps ts)"

definition documented_topics :: "(string \<Rightarrow> string \<Rightarrow> bool) \<Rightarrow> bool" where
  "documented_topics broker \<longleftrightarrow>
     (\<forall>b s. broker b s = topic_match (split_on CHR ''.'' b) (split_on CHR ''.'' s))"

definition plain_word :: "string \<Rightarrow> bool" where
  "plain_word t \<longleftrightarrow> dotless t \<and> t \<noteq> ''*'' \<and> t \<noteq> ''#''"

lemma topic_match_hash: "topic_match [''#''] ts"
  by (induction ts) simp_all

lemma plain_word_simps [simp]: "plain_word t \<Longrightarrow> dotless t" "plain_word t \<Longrightarrow> t \<noteq> ''*'' \<and> t \<noteq> ''#''"
  by (simp_all add: plain_word_def)

lemma wire_words [simp]:
  "harness_as_str h \<noteq> ''#''" "operation_as_str p \<noteq> ''#''" "service_type_as_str t \<noteq> ''#''"
  "service_backend_str b \<noteq> ''#''" "show_nat n \<noteq> ''#''"
proof -
  show "harness_as_str h \<noteq> ''#''" by (cases h) simp_all
  show "operation_as_str p \<noteq> ''#''" by (cases p) simp_all
  show "service_type_as_str t \<noteq> ''#''" by (cases t) simp_all
  show "service_backend_str b \<noteq> ''#''"
  proof (cases b)
    case (SbKv x) then show ?thesis by (cases x) simp_all
  next
    case (SbVec x) then show ?thesis by (cases x) simp_all
  next
    case (SbInfer x) then show ?thesis by (cases x) simp_all
  next
    case (SbEmbed x) then show ?thesis by (cases x) simp_all
  qed
  have "CHR ''#'' \<notin> set (show_nat n)" by (simp add: char_digit_def)
  then show "show_nat n \<noteq> ''#''" by (metis list.set_intros(1))
qed

lemma broker_join:
  assumes "documented_topics broker" and "list_all dotless fs" and "fs \<noteq> []"
    and "list_all dotless ts" and "ts \<noteq> []"
  shows "broker (join_with CHR ''.'' fs) (join_with CHR ''.'' ts) = topic_match fs ts"
  using assms by (simp add: documented_topics_def split_join_tokens)

lemma binding_tokens:
  "invoke_binding a =
     join_with CHR ''.'' [''vlinder'', ''data'', ''v1'', ''*'', ''*'', ''*'', ''invoke'', ''*'', ''*'', a]"
  "complete_binding sub a h =
     join_with CHR ''.'' [''vlinder'', ''data'', ''v1'', ''*'', ''*'', sub, ''complete'', a, harness_as_str h]"
  "request_binding s p =
     join_with CHR ''.'' [''vlinder'', ''data'', ''v1'', ''*'', ''*'', ''*'', ''request'', ''*'',
       service_type_as_str (service_backend_service_type s), service_backend_str s, operation_as_str p, ''#'']"
  "response_binding sub a s p q =
     join_with CHR ''.'' [''vlinder'', ''data'', ''v1'', ''*'', ''*'', sub, ''response'', a,
       service_type_as_str (service_backend_service_type s), service_backend_str s, operation_as_str p,
       show_nat (unat q)]"
  by (simp_all add: join_with.simps invoke_binding_def complete_binding_def request_binding_def response_binding_def)

section \<open>Properties\<close>

text \<open>
  C40: the two brokers speak the same wire format: every routing key of the AMQP queue is the NATS subject
  of the same message, and every AMQP parser reads what the NATS parser reads, on every input.
\<close>

theorem amqp_wire_is_nats_wire:
  "invoke_routing_key key = invoke_subject key \<and>
   complete_routing_key session branch submission agent harness = complete_subject session branch submission agent harness \<and>
   request_routing_key session branch submission agent service op seq = request_subject session branch submission agent service op seq \<and>
   response_routing_key session branch submission agent service op seq = response_subject session branch submission agent service op seq \<and>
   fork_routing_key skey agent = fork_subject skey agent \<and>
   promote_routing_key skey agent branch = promote_subject skey agent branch \<and>
   deploy_agent_routing_key ikey = deploy_agent_subject ikey \<and>
   delete_agent_routing_key ikey = delete_agent_subject ikey \<and>
   amqp_invoke_parse u s = invoke_parse_subject u s \<and> amqp_complete_parse u s = complete_parse_subject u s \<and>
   amqp_request_parse u s = request_parse_subject u s \<and> amqp_response_parse u s = response_parse_subject u s \<and>
   amqp_fork_parse u s = fork_parse_subject u s \<and> amqp_promote_parse u s = promote_parse_subject u s \<and>
   amqp_deploy_agent_parse s = deploy_agent_parse_subject s \<and> amqp_delete_agent_parse s = delete_agent_parse_subject s"
  by (simp add: invoke_routing_key_def complete_routing_key_def request_routing_key_def response_routing_key_def
      fork_routing_key_def promote_routing_key_def deploy_agent_routing_key_def delete_agent_routing_key_def
      amqp_invoke_parse_def amqp_complete_parse_def amqp_request_parse_def amqp_response_parse_def
      amqp_fork_parse_def amqp_promote_parse_def amqp_deploy_agent_parse_def amqp_delete_agent_parse_def
      subject_defs parse_defs deploy_agent_subject_def delete_agent_subject_def)

text \<open>
  Under the documented topic matching, each data-plane binding selects exactly its messages: the
  invokes of an agent, the completes of a submission, agent and harness type, the requests of a backend
  and operation, the response with its submission, agent, backend, operation and sequence number.
\<close>

theorem amqp_bindings_exact:
  assumes "documented_topics broker" and "data_key_ok is_uuid key" and "data_key_subject key = Some s"
    and "plain_word agent" and "plain_word submission"
  shows "(broker (invoke_binding agent) s \<longleftrightarrow> (\<exists>h r. dk_kind key = DkInvoke h r agent)) \<and>
         (broker (complete_binding submission agent harness) s \<longleftrightarrow>
            dk_submission key = submission \<and> dk_kind key = DkComplete agent harness) \<and>
         (broker (request_binding service op) s \<longleftrightarrow> (\<exists>a q. dk_kind key = DkRequest a service op q)) \<and>
         (broker (response_binding submission agent service op seq) s \<longleftrightarrow>
            dk_submission key = submission \<and> dk_kind key = DkResponse agent service op seq)"
proof -
  have s: "s = join_with CHR ''.'' (data_key_tokens key)"
    using assms(3) by (simp add: data_key_subject_tokens)
  show ?thesis
    unfolding s binding_tokens
    using assms(1,4,5) data_key_tokens_ok [OF assms(2)]
    by (cases "dk_kind key")
      (auto simp: broker_join data_key_tokens_def show_nat_inj dest: service_backend_wire_inj unsigned_word_eqI)
qed

theorem amqp_bindings_exact_witness:
  "\<exists>broker s. documented_topics broker \<and>
     data_key_subject \<lparr>dk_session = ''s'', dk_branch = 1, dk_submission = ''sub'',
       dk_kind = DkRequest ''todo'' (SbKv ObjSqlite) OpGet 3\<rparr> = Some s \<and>
     broker (request_binding (SbKv ObjSqlite) OpGet) s \<and> \<not> broker (request_binding (SbKv ObjSqlite) OpPut) s \<and>
     \<not> broker (invoke_binding ''todo'') s"
proof -
  let ?b = "\<lambda>b s. topic_match (split_on CHR ''.'' b) (split_on CHR ''.'' s)"
  let ?k = "\<lparr>dk_session = ''s'', dk_branch = 1, dk_submission = ''sub'',
             dk_kind = DkRequest ''todo'' (SbKv ObjSqlite) OpGet 3\<rparr>"
  have b: "documented_topics ?b" by (simp add: documented_topics_def)
  have k: "data_key_ok (\<lambda>_. True) ?k" by (simp add: data_key_ok_def i64_range_def)
  have plain: "plain_word ''todo''" "plain_word ''sub''" by (simp_all add: plain_word_def)
  note exact = amqp_bindings_exact [OF b k data_key_subject_tokens plain, where service = "SbKv ObjSqlite"]
  show ?thesis
    using b exact [of HCli OpGet 3] exact [of HCli OpPut 3]
    by (intro exI [of _ ?b] exI [of _ "join_with CHR ''.'' (data_key_tokens ?k)"]) (simp add: data_key_subject_tokens)
qed

end
