(* ===== verification/Agents.thy ===== *)
theory Agents
  imports Identity
begin

text \<open>
  The registry's data: resource identifiers (\<open>resource_id.rs\<close>), agent manifests and agents
  (\<open>agent_manifest.rs\<close>, \<open>agent.rs\<close>), models (\<open>model.rs\<close>), MCP servers, fleets and jobs, and the
  routing name of an agent (\<open>agent_routing_key\<close> of \<open>message_queue.rs\<close>).
\<close>

section \<open>Splitting at a string pattern\<close>

fun split_once_str :: "string \<Rightarrow> string \<Rightarrow> (string \<times> string) option" where
  "split_once_str p [] = (if p = [] then Some ([], []) else None)"
| "split_once_str p (x # xs) =
     (if starts_with (x # xs) p then Some ([], drop (length p) (x # xs))
      else map_option (\<lambda>(a, b). (x # a, b)) (split_once_str p xs))"

text \<open>\<open>s.split(p).nth(1)\<close>: what lies between the first and the second occurrence of \<open>p\<close>.\<close>

definition split_str_nth1 :: "string \<Rightarrow> string \<Rightarrow> string option" where
  "split_str_nth1 p s =
     (case split_once_str p s of
        None \<Rightarrow> None
      | Some (_, b) \<Rightarrow> Some (case split_once_str p b of None \<Rightarrow> b | Some (c, _) \<Rightarrow> c))"

lemma split_once_str_Some: "split_once_str p s = Some (a, b) \<Longrightarrow> s = a @ p @ b"
proof (induction p s arbitrary: a rule: split_once_str.induct)
  case (1 p)
  then show ?case by (simp split: if_splits)
next
  case (2 p x xs)
  show ?case
  proof (cases "starts_with (x # xs) p")
    case True
    have "x # xs = take (length p) (x # xs) @ drop (length p) (x # xs)" by simp
    with True 2(2) show ?thesis by (simp add: starts_with_def)
  next
    case False
    with 2 show ?thesis by auto
  qed
qed

section \<open>Resource identifiers\<close>

type_synonym resource_id = string

definition resource_id_scheme :: "resource_id \<Rightarrow> string option" where
  "resource_id_scheme r = map_option fst (split_once_str ''://'' r)"

definition resource_id_authority :: "resource_id \<Rightarrow> string option" where
  "resource_id_authority r =
     Option.bind (split_str_nth1 ''://'' r) (\<lambda>after_scheme.
       case split_once CHR ''/'' after_scheme of
         Some (authority, _) \<Rightarrow> if authority = [] then None else Some authority
       | None \<Rightarrow> if after_scheme = [] then None else Some after_scheme)"

definition resource_id_path :: "resource_id \<Rightarrow> string option" where
  "resource_id_path r =
     Option.bind (split_str_nth1 ''://'' r) (\<lambda>after_scheme.
       case split_once CHR ''/'' after_scheme of
         None \<Rightarrow> None
       | Some (_, rest) \<Rightarrow> (let path = CHR ''/'' # rest in if path = ''/'' then None else Some path))"

definition agent_routing_key :: "resource_id \<Rightarrow> agent_name" where
  "agent_routing_key r =
     (case resource_id_path r of
        Some path \<Rightarrow> (let n = last (split_on CHR ''/'' path) in if n = [] then r else n)
      | None \<Rightarrow> r)"

section \<open>Manifests and agents\<close>

datatype provider = POllama | POpenRouter

datatype protocol = ProtoOpenAi | ProtoAnthropic

record service_config =
  sc_provider :: provider
  sc_protocol :: protocol
  sc_models :: "string list"

record mount_config =
  mc_s3 :: string
  mc_path :: string
  mc_endpoint :: "string option"
  mc_secret :: "string option"

record requirements =
  req_models :: "(string \<times> string) list"
  req_services :: "(service_type \<times> service_config) list"
  req_mounts :: "(string \<times> mount_config) list"
  req_mcp :: "string list"

text \<open>
  \<open>Requirements\<close> and \<open>RequirementsConfig\<close> have the same fields, and \<open>from_config\<close> copies them: one
  record stands for both.  Its maps are association lists in iteration order, equal when they agree as
  maps.
\<close>

record agent_manifest =
  mf_name :: string
  mf_description :: string
  mf_source :: "string option"
  mf_runtime :: string
  mf_executable :: string
  mf_requirements :: requirements
  mf_object_storage :: "resource_id option"
  mf_vector_storage :: "resource_id option"

record agent =
  ag_name :: string
  ag_description :: string
  ag_source :: "string option"
  ag_requirements :: requirements
  ag_id :: resource_id
  ag_runtime :: runtime_type
  ag_executable :: string
  ag_image_digest :: "string option"
  ag_public_key :: "bytes option"
  ag_object_storage :: "resource_id option"
  ag_vector_storage :: "resource_id option"

definition requirements_eq :: "requirements \<Rightarrow> requirements \<Rightarrow> bool" where
  "requirements_eq r r' \<longleftrightarrow>
     map_eq (req_models r) (req_models r') \<and> map_eq (req_services r) (req_services r') \<and>
     map_eq (req_mounts r) (req_mounts r') \<and> req_mcp r = req_mcp r'"

text \<open>\<open>ImageDigest::parse\<close> (\<open>image_digest.rs\<close>): \<open>sha256:\<close> and a non-empty hex string.\<close>

definition is_ascii_hexdigit :: "char \<Rightarrow> bool" where
  "is_ascii_hexdigit c =
     (let n = (of_char c :: nat)
      in 48 \<le> n \<and> n \<le> 57 \<or> 65 \<le> n \<and> n \<le> 70 \<or> 97 \<le> n \<and> n \<le> 102)"

definition image_digest_parse :: "string \<Rightarrow> (string, string) rust_result" where
  "image_digest_parse s =
     (if \<not> starts_with s ''sha256:'' then Inl (''image digest must start with '' @ [CHR 0x27] @ ''sha256:'' @ [CHR 0x27] @ '': '' @ s)
      else let hex = drop 7 s in
        if hex = [] then Inl (''image digest has empty hex portion: '' @ s)
        else if \<not> list_all is_ascii_hexdigit hex then Inl (''image digest contains non-hex characters: '' @ s)
        else Inr s)"

definition agent_placeholder_id :: "string \<Rightarrow> resource_id" where
  "agent_placeholder_id name = ''pending-registration://agents/'' @ name"

definition agent_from_manifest :: "agent_manifest \<Rightarrow> (string, agent) rust_result" where
  "agent_from_manifest m =
     (case runtime_from_str (mf_runtime m) of
        Inl _ \<Rightarrow> Inl (''unknown runtime: '' @ mf_runtime m)
      | Inr rt \<Rightarrow> Inr
          \<lparr>ag_name = mf_name m, ag_description = mf_description m, ag_source = mf_source m,
           ag_requirements = mf_requirements m, ag_id = agent_placeholder_id (mf_name m),
           ag_runtime = rt, ag_executable = mf_executable m, ag_image_digest = None,
           ag_public_key = None, ag_object_storage = mf_object_storage m,
           ag_vector_storage = mf_vector_storage m\<rparr>)"

text \<open>Equality of the borrowed views \<open>a.config() == b.config()\<close>.\<close>

definition agent_config_eq :: "agent \<Rightarrow> agent \<Rightarrow> bool" where
  "agent_config_eq a b \<longleftrightarrow>
     ag_name a = ag_name b \<and> ag_description a = ag_description b \<and> ag_runtime a = ag_runtime b \<and>
     ag_executable a = ag_executable b \<and> requirements_eq (ag_requirements a) (ag_requirements b) \<and>
     ag_object_storage a = ag_object_storage b \<and> ag_vector_storage a = ag_vector_storage b"

definition agent_has_model :: "agent \<Rightarrow> string \<Rightarrow> bool" where
  "agent_has_model a alias = (map_of (req_models (ag_requirements a)) alias \<noteq> None)"

definition agent_model_name :: "agent \<Rightarrow> string \<Rightarrow> string option" where
  "agent_model_name a alias = map_of (req_models (ag_requirements a)) alias"

lemma agent_config_eq_refl [simp]: "agent_config_eq a a"
  by (simp add: agent_config_eq_def requirements_eq_def)

lemma agent_config_eq_sym_trans:
  "agent_config_eq a b \<Longrightarrow> agent_config_eq b a"
  "agent_config_eq a b \<Longrightarrow> agent_config_eq b c \<Longrightarrow> agent_config_eq a c"
  by (auto simp: agent_config_eq_def requirements_eq_def)

lemma agent_config_eq_registry_fields [simp]:
  "agent_config_eq (a\<lparr>ag_id := i\<rparr>) b = agent_config_eq a b"
  "agent_config_eq (a\<lparr>ag_public_key := k\<rparr>) b = agent_config_eq a b"
  "agent_config_eq b (a\<lparr>ag_id := i\<rparr>) = agent_config_eq b a"
  "agent_config_eq b (a\<lparr>ag_public_key := k\<rparr>) = agent_config_eq b a"
  by (simp_all add: agent_config_eq_def)

section \<open>Models, MCP servers, fleets, jobs\<close>

datatype model_type = MInference | MEmbedding

record model =
  md_id :: resource_id
  md_name :: string
  md_type :: model_type
  md_provider :: provider
  md_path :: resource_id
  md_digest :: string

definition model_placeholder_id :: "string \<Rightarrow> resource_id" where
  "model_placeholder_id name = ''pending-registration://models/'' @ name"

definition pfname_from_path :: "string \<Rightarrow> provider \<Rightarrow> string" where
  "pfname_from_path model_path provider =
     (case split_str_nth1 ''://'' model_path of
        None \<Rightarrow> model_path
      | Some after_scheme \<Rightarrow>
          if provider = POpenRouter then after_scheme
          else (case split_once CHR ''/'' after_scheme of
                  None \<Rightarrow> model_path
                | Some (_, path) \<Rightarrow> if path = [] then model_path else path))"

definition model_pfname :: "model \<Rightarrow> string" where
  "model_pfname m = pfname_from_path (md_path m) (md_provider m)"

record model_manifest =
  mm_name :: "string option"
  mm_type :: model_type
  mm_provider :: provider
  mm_path :: string

definition model_from_manifest :: "model_manifest \<Rightarrow> string \<Rightarrow> model" where
  "model_from_manifest m digest =
     (let name = unwrap_or (pfname_from_path (mm_path m) (mm_provider m)) (mm_name m)
      in \<lparr>md_id = model_placeholder_id name, md_name = name, md_type = mm_type m,
          md_provider = mm_provider m, md_path = mm_path m, md_digest = digest\<rparr>)"

record mcp_server =
  ms_id :: resource_id
  ms_name :: string
  ms_url :: string
  ms_tools :: "string list"

definition mcp_server_placeholder_id :: "string \<Rightarrow> resource_id" where
  "mcp_server_placeholder_id name = ''pending-registration://mcp-servers/'' @ name"

record fleet =
  fl_id :: resource_id
  fl_name :: string
  fl_entry :: resource_id
  fl_agents :: "resource_id set"

datatype job_status = JsPending | JsRunning | JsCompleted string | JsFailed string

record job =
  jb_id :: string
  jb_submission :: submission_id
  jb_agent :: resource_id
  jb_input :: string
  jb_status :: job_status

section \<open>Properties\<close>

lemma split_once_str_no_occurrence:
  "CHR '':'' \<notin> set s \<Longrightarrow> split_once_str ''://'' s = None"
  by (induction s) (auto simp: starts_with_def)

lemma split_once_str_prefix:
  "CHR '':'' \<notin> set a \<Longrightarrow> split_once_str ''://'' (a @ ''://'' @ b) = Some (a, b)"
  by (induction a) (auto simp: starts_with_def)

lemma split_once_str_no_slash_pair:
  "\<forall>u v. s \<noteq> u @ ''://'' @ v \<Longrightarrow> split_once_str ''://'' s = None"
  using split_once_str_Some [of "''://''" s] by fastforce

text \<open>
  The routing name of a registry-assigned agent id is the agent's own name, for every registry URL
  with an authority and every non-empty agent name without a slash or a scheme separator.
\<close>

theorem agent_routing_key_registry_id:
  assumes "CHR '':'' \<notin> set scheme" and "CHR ''/'' \<notin> set authority"
    and "\<forall>u v. authority @ ''/agents/'' @ name \<noteq> u @ ''://'' @ v"
    and "name \<noteq> []" and "CHR ''/'' \<notin> set name"
  shows "agent_routing_key (scheme @ ''://'' @ authority @ ''/agents/'' @ name) = name"
proof -
  let ?rest = "authority @ ''/agents/'' @ name"
  have "split_str_nth1 ''://'' (scheme @ ''://'' @ ?rest) = Some ?rest"
    using split_once_str_prefix [OF assms(1), of ?rest] split_once_str_no_slash_pair [OF assms(3)]
    by (simp add: split_str_nth1_def)
  moreover have "split_once CHR ''/'' ?rest = Some (authority, ''agents/'' @ name)"
    using split_once_append [OF assms(2), of "''agents/'' @ name"] by simp
  moreover have "split_on CHR ''/'' (''/agents/'' @ name) = [[], ''agents'', name]"
    using split_on_append [of "CHR ''/''" "''agents''" name] assms(5) by simp
  ultimately show ?thesis
    using assms(4) by (simp add: agent_routing_key_def resource_id_path_def Let_def)
qed

theorem agent_routing_key_registry_id_witness:
  "agent_routing_key ''http://127.0.0.1:9000/agents/todo'' = ''todo''"
proof -
  have "\<forall>u v. ''127.0.0.1:9000'' @ ''/agents/'' @ ''todo'' \<noteq> u @ ''://'' @ v"
  proof (intro allI notI)
    fix u v
    assume "''127.0.0.1:9000'' @ ''/agents/'' @ ''todo'' = u @ ''://'' @ v"
    then have "sublist ''://'' ''127.0.0.1:9000/agents/todo''"
      by (metis append.assoc append_Cons append_Nil sublist_appendI)
    moreover have "\<not> sublist ''://'' ''127.0.0.1:9000/agents/todo''" by code_simp
    ultimately show False by contradiction
  qed
  then show ?thesis
    using agent_routing_key_registry_id [of "''http''" "''127.0.0.1:9000''" "''todo''"] by simp
qed

end
