(* ===== verification/Messages.thy ===== *)
theory Messages
  imports Agents
begin

text \<open>
  The payloads that travel under a routing key (\<open>domain/message/*.rs\<close>), the diagnostics they carry
  (\<open>domain/diagnostics.rs\<close>), tool calls and conversation messages (\<open>tool_call.rs\<close>,
  \<open>tool_result.rs\<close>, \<open>tool_trace.rs\<close>, \<open>conversation.rs\<close>), and the sliding health window of a
  container.  \<open>serde_json::Value\<close> is a type of its own; message ids are minted by the caller.
\<close>

section \<open>Tool calls and conversation\<close>

datatype json =
    JNull
  | JBool bool
  | JNumber string
  | JString string
  | JArray "json list"
  | JObject "(string \<times> json) list"

fun json_get :: "json \<Rightarrow> string \<Rightarrow> json option" where
  "json_get (JObject kvs) k = map_of kvs k"
| "json_get _ k = None"

fun json_as_str :: "json \<Rightarrow> string option" where
  "json_as_str (JString s) = Some s"
| "json_as_str _ = None"

record tool_call =
  tc_id :: tool_call_id
  tc_name :: string
  tc_arguments :: json

record tool_result =
  tr_tool_call_id :: tool_call_id
  tr_content :: bytes

record tool_trace =
  tt_tool_call :: tool_call
  tt_result :: tool_result
  tt_duration_ms :: "64 word"

record turn_trace =
  tn_assistant_content :: "string option"
  tn_tool_calls :: "tool_trace list"

datatype message =
    User string
  | Agent "string option" "tool_call list option"
  | System string
  | Tool tool_call_id bytes

record run_result =
  rr_content :: "string option"
  rr_pending_tool_calls :: "tool_call list option"
  rr_turns :: "turn_trace list"
  rr_state_snapshot :: "string option"

section \<open>Diagnostics\<close>

record svc_request_diagnostics =
  srd_server :: string
  srd_tool :: string
  srd_arguments_bytes :: "64 word"
  srd_sent_at_ms :: "64 word"

record svc_response_diagnostics =
  spd_server :: string
  spd_tool :: string
  spd_round_trip_ms :: "64 word"
  spd_content_bytes :: "64 word"

record invoke_diagnostics =
  idg_harness_version :: string

record request_diagnostics =
  rqd_sequence :: "32 word"
  rqd_endpoint :: string
  rqd_request_bytes :: "64 word"
  rqd_received_at_ms :: "64 word"

datatype service_metrics =
    Inference "32 word" "32 word" string
  | Embedding "32 word" string
  | Storage operation "64 word"

record service_diagnostics =
  sdg_service :: service_type
  sdg_backend :: string
  sdg_duration_ms :: "64 word"
  sdg_metrics :: service_metrics

definition service_diagnostics_placeholder :: service_diagnostics where
  "service_diagnostics_placeholder =
     \<lparr>sdg_service = StKv, sdg_backend = ''unknown'', sdg_duration_ms = 0,
      sdg_metrics = Storage OpGet 0\<rparr>"

definition service_diagnostics_storage ::
    "service_type \<Rightarrow> string \<Rightarrow> operation \<Rightarrow> 64 word \<Rightarrow> 64 word \<Rightarrow> service_diagnostics" where
  "service_diagnostics_storage service backend operation bytes duration_ms =
     \<lparr>sdg_service = service, sdg_backend = backend, sdg_duration_ms = duration_ms,
      sdg_metrics = Storage operation bytes\<rparr>"

record health_snapshot =
  hs_timestamp_ms :: "64 word"
  hs_latency_ms :: "64 word"
  hs_status_code :: "16 word"

text \<open>Image references, digests and container ids are transparent strings here.\<close>

datatype runtime_info =
    RiContainer string "string option" "string option" string
  | RiLambda string string

record runtime_diagnostics =
  rtd_stderr :: bytes
  rtd_runtime :: runtime_info
  rtd_duration_ms :: "64 word"
  rtd_health :: "health_snapshot option"

definition runtime_diagnostics_placeholder :: "64 word \<Rightarrow> runtime_diagnostics" where
  "runtime_diagnostics_placeholder duration_ms =
     \<lparr>rtd_stderr = [], rtd_runtime = RiContainer ''unknown'' None None ''unknown'',
      rtd_duration_ms = duration_ms, rtd_health = None\<rparr>"

section \<open>Message payloads\<close>

record invoke_message =
  iv_id :: message_id
  iv_dag_id :: dag_node_id
  iv_state :: "string option"
  iv_diagnostics :: invoke_diagnostics
  iv_dag_parent :: dag_node_id
  iv_current_input :: "message list"

record complete_message =
  cm_id :: message_id
  cm_dag_id :: dag_node_id
  cm_dag_parent :: dag_node_id
  cm_state :: "string option"
  cm_diagnostics :: runtime_diagnostics
  cm_content :: "string option"
  cm_tool_calls :: "tool_call list option"
  cm_payload :: bytes

record request_message =
  rq_id :: message_id
  rq_dag_id :: dag_node_id
  rq_dag_parent :: dag_node_id
  rq_state :: "string option"
  rq_diagnostics :: request_diagnostics
  rq_payload :: bytes
  rq_checkpoint :: "string option"

record response_message =
  rs_id :: message_id
  rs_dag_id :: dag_node_id
  rs_dag_parent :: dag_node_id
  rs_correlation_id :: message_id
  rs_state :: "string option"
  rs_diagnostics :: service_diagnostics
  rs_payload :: bytes
  rs_status_code :: "16 word"
  rs_checkpoint :: "string option"

record request_v2 =
  rq2_id :: message_id
  rq2_dag_id :: dag_node_id
  rq2_dag_parent :: dag_node_id
  rq2_tool_call_id :: tool_call_id
  rq2_state :: "string option"
  rq2_diagnostics :: svc_request_diagnostics
  rq2_payload :: bytes

record response_v2 =
  rs2_id :: message_id
  rs2_dag_id :: dag_node_id
  rs2_dag_parent :: dag_node_id
  rs2_correlation_id :: message_id
  rs2_state :: "string option"
  rs2_diagnostics :: svc_response_diagnostics
  rs2_payload :: bytes

record fork_message =
  fk_id :: message_id
  fk_branch_name :: string
  fk_fork_point :: dag_node_id

record promote_message =
  pm_id :: message_id
  pm_branch_id :: branch_id

record session_start_message =
  ss_id :: message_id

record delete_agent_message =
  da_id :: message_id
  da_agent :: agent_name

record deploy_agent_message =
  dp_id :: message_id
  dp_manifest :: agent_manifest

text \<open>\<open>u64::try_from(elapsed.as_millis()).unwrap_or(u64::MAX)\<close>, and a \<open>usize\<close> length as \<open>u64\<close>.\<close>

definition millis_u64_max :: "nat \<Rightarrow> 64 word" where
  "millis_u64_max n = (if n < 2 ^ 64 then of_nat n else - 1)"

definition len_u64 :: "'a list \<Rightarrow> 64 word" where
  "len_u64 xs = of_nat (length xs)"

section \<open>The health window\<close>

record health_window =
  hw_snapshots :: "health_snapshot list"
  hw_max_age_ms :: "64 word"

definition health_window_new :: "64 word \<Rightarrow> health_window" where
  "health_window_new max_age_ms = \<lparr>hw_snapshots = [], hw_max_age_ms = max_age_ms\<rparr>"

definition saturating_sub :: "64 word \<Rightarrow> 64 word \<Rightarrow> 64 word" where
  "saturating_sub a b = (if b \<le> a then a - b else 0)"

text \<open>The \<open>while\<close> loop of \<open>push\<close> pops from the front as long as the front is too old.\<close>

definition health_window_push :: "health_window \<Rightarrow> health_snapshot \<Rightarrow> health_window" where
  "health_window_push w s =
     (let cutoff = saturating_sub (hs_timestamp_ms s) (hw_max_age_ms w)
      in w\<lparr>hw_snapshots := dropWhile (\<lambda>x. hs_timestamp_ms x < cutoff) (hw_snapshots w) @ [s]\<rparr>)"

definition health_window_since :: "health_window \<Rightarrow> 64 word \<Rightarrow> health_snapshot list" where
  "health_window_since w since_ms = filter (\<lambda>s. since_ms \<le> hs_timestamp_ms s) (hw_snapshots w)"

definition health_window_latest :: "health_window \<Rightarrow> health_snapshot option" where
  "health_window_latest w = (if hw_snapshots w = [] then None else Some (last (hw_snapshots w)))"

definition health_window_is_healthy :: "health_window \<Rightarrow> bool" where
  "health_window_is_healthy w =
     (case health_window_latest w of None \<Rightarrow> False | Some s \<Rightarrow> hs_status_code s = 200)"

definition health_window_len :: "health_window \<Rightarrow> nat" where
  "health_window_len w = length (hw_snapshots w)"

definition health_window_is_empty :: "health_window \<Rightarrow> bool" where
  "health_window_is_empty w = (hw_snapshots w = [])"

fun health_window_push_all :: "health_window \<Rightarrow> health_snapshot list \<Rightarrow> health_window" where
  "health_window_push_all w [] = w"
| "health_window_push_all w (s # ss) = health_window_push_all (health_window_push w s) ss"

lemma saturating_sub_mono: "a \<le> b \<Longrightarrow> saturating_sub a c \<le> saturating_sub b c"
  by (auto simp: saturating_sub_def word_le_minus_mono_left intro: order_trans)

text \<open>On chronological input the window is the filter of the whole history by the final cutoff.\<close>

lemma dropWhile_sorted_filter:
  "sorted (map f xs) \<Longrightarrow> dropWhile (\<lambda>x. f x < c) xs = filter (\<lambda>x. c \<le> f x) xs"
proof (induction xs)
  case Nil
  then show ?case by simp
next
  case (Cons x xs)
  show ?case
  proof (cases "f x < c")
    case True
    with Cons show ?thesis by (auto simp: not_le)
  next
    case False
    with Cons.prems have "\<forall>y \<in> set (x # xs). c \<le> f y" by auto
    with False show ?thesis by (simp add: filter_id_conv)
  qed
qed

lemma health_window_push_all_max_age [simp]: "hw_max_age_ms (health_window_push_all w ss) = hw_max_age_ms w"
  by (induction ss arbitrary: w) (simp_all add: health_window_push_def Let_def)

lemma health_window_push_all_snoc:
  "health_window_push_all w (ss @ [s]) = health_window_push (health_window_push_all w ss) s"
  by (induction ss arbitrary: w) simp_all

text \<open>
  Fed snapshots in time order, the window holds exactly the snapshots no older than the maximum
  age before the last one, in order: eviction from the front never leaves a stale snapshot and never
  drops a fresh one.
\<close>

theorem health_window_spec:
  assumes "sorted (map hs_timestamp_ms (ss @ [s]))"
  shows "hw_snapshots (health_window_push_all (health_window_new age) (ss @ [s])) =
           filter (\<lambda>x. saturating_sub (hs_timestamp_ms s) age \<le> hs_timestamp_ms x) (ss @ [s])"
  using assms
proof (induction ss arbitrary: s rule: rev_induct)
  case Nil
  have "saturating_sub (hs_timestamp_ms s) age \<le> hs_timestamp_ms s"
    by (simp add: saturating_sub_def word_sub_le)
  then show ?case by (simp add: health_window_push_def health_window_new_def)
next
  case (snoc t ss)
  let ?cut = "\<lambda>x. saturating_sub (hs_timestamp_ms x) age"
  have sorted: "sorted (map hs_timestamp_ms (ss @ [t]))" and le: "hs_timestamp_ms t \<le> hs_timestamp_ms s"
    using snoc.prems by (auto simp: sorted_append)
  let ?old = "filter (\<lambda>x. ?cut t \<le> hs_timestamp_ms x) (ss @ [t])"
  have cut: "?cut t \<le> ?cut s" using le by (rule saturating_sub_mono)
  have fresh: "?cut s \<le> hs_timestamp_ms s" by (simp add: saturating_sub_def word_sub_le)
  have "dropWhile (\<lambda>x. hs_timestamp_ms x < ?cut s) ?old = filter (\<lambda>x. ?cut s \<le> hs_timestamp_ms x) ?old"
    using sorted by (intro dropWhile_sorted_filter) (simp only: sorted_filter)
  also have "\<dots> = filter (\<lambda>x. ?cut s \<le> hs_timestamp_ms x) (ss @ [t])"
    using cut by (auto simp: filter_filter intro!: filter_cong)
  finally show ?case
    using snoc.IH [OF sorted] fresh
    by (simp add: health_window_push_all_snoc [of _ "ss @ [t]", simplified] health_window_push_def
        Let_def health_window_new_def)
qed

theorem health_window_spec_witness:
  "hw_snapshots (health_window_push_all (health_window_new 10)
     [\<lparr>hs_timestamp_ms = 1, hs_latency_ms = 0, hs_status_code = 200\<rparr>,
      \<lparr>hs_timestamp_ms = 15, hs_latency_ms = 0, hs_status_code = 500\<rparr>]) =
   [\<lparr>hs_timestamp_ms = 15, hs_latency_ms = 0, hs_status_code = 500\<rparr>]"
  using health_window_spec [of "[\<lparr>hs_timestamp_ms = 1, hs_latency_ms = 0, hs_status_code = 200\<rparr>]"
      "\<lparr>hs_timestamp_ms = 15, hs_latency_ms = 0, hs_status_code = 500\<rparr>" 10]
  by (simp add: saturating_sub_def word_le_nat_alt)

end
