(* ===== verification/Readiness.thy ===== *)
theory Readiness
  imports Identity
begin

text \<open>
  Deployment readiness (\<open>domain/readiness.rs\<close>, and the readiness part of \<open>InMemoryDagStore\<close> in
  \<open>domain/dag.rs\<close>): each worker appends checks, and an agent's status is derived from the latest
  check per worker.  The workers are collected in a \<open>HashSet\<close>; the order in which it is iterated is
  the parameter \<open>iter\<close>, assumed only to yield every worker once.
\<close>

section \<open>Checks\<close>

datatype readiness_status = RsPending | RsReady | RsFailed | RsDeleting | RsDeleted

fun readiness_as_str :: "readiness_status \<Rightarrow> string" where
  "readiness_as_str RsPending = ''pending''"
| "readiness_as_str RsReady = ''ready''"
| "readiness_as_str RsFailed = ''failed''"
| "readiness_as_str RsDeleting = ''deleting''"
| "readiness_as_str RsDeleted = ''deleted''"

definition readiness_from_str :: "string \<Rightarrow> (string, readiness_status) rust_result" where
  "readiness_from_str s =
     (if s = ''pending'' then Inr RsPending
      else if s = ''ready'' then Inr RsReady
      else if s = ''failed'' then Inr RsFailed
      else if s = ''deleting'' then Inr RsDeleting
      else if s = ''deleted'' then Inr RsDeleted
      else Inl (''unknown readiness status: '' @ s))"

interpretation readiness: strict_wire_enum readiness_as_str readiness_from_str
proof
  show "readiness_from_str (readiness_as_str x) = Inr x" for x
    by (cases x) (simp_all add: readiness_from_str_def)
  show "CHR ''.'' \<notin> set (readiness_as_str x)" for x
    by (cases x) simp_all
  show "readiness_from_str s = Inr x \<Longrightarrow> s = readiness_as_str x" for s x
    by (auto simp: readiness_from_str_def split: if_splits)
qed

record readiness_check =
  rk_agent :: agent_name
  rk_worker :: string
  rk_status :: readiness_status
  rk_updated_at :: timestamp
  rk_error :: "string option"

definition check_pending :: "timestamp \<Rightarrow> agent_name \<Rightarrow> string \<Rightarrow> readiness_check" where
  "check_pending now agent worker =
     \<lparr>rk_agent = agent, rk_worker = worker, rk_status = RsPending, rk_updated_at = now, rk_error = None\<rparr>"

definition check_ready :: "timestamp \<Rightarrow> readiness_check \<Rightarrow> readiness_check" where
  "check_ready now c = c\<lparr>rk_status := RsReady, rk_updated_at := now, rk_error := None\<rparr>"

definition check_failed :: "timestamp \<Rightarrow> string \<Rightarrow> readiness_check \<Rightarrow> readiness_check" where
  "check_failed now e c = c\<lparr>rk_status := RsFailed, rk_updated_at := now, rk_error := Some e\<rparr>"

definition check_deleting :: "timestamp \<Rightarrow> readiness_check \<Rightarrow> readiness_check" where
  "check_deleting now c = c\<lparr>rk_status := RsDeleting, rk_updated_at := now, rk_error := None\<rparr>"

definition check_deleted :: "timestamp \<Rightarrow> readiness_check \<Rightarrow> readiness_check" where
  "check_deleted now c = c\<lparr>rk_status := RsDeleted, rk_updated_at := now, rk_error := None\<rparr>"

section \<open>Deriving the status\<close>

datatype repository_error = RepoDatabase string | RepoSerialization string

text \<open>The loop of \<open>derive_status\<close>, with its three flags and its two early returns.\<close>

fun derive_loop :: "bool \<Rightarrow> bool \<Rightarrow> bool \<Rightarrow> (string \<times> string) list \<Rightarrow> agent_status" where
  "derive_loop all_ready all_deleted any_deleted [] =
     (if all_ready then AsLive
      else if all_deleted then AsDeleted
      else if any_deleted then AsDeleting
      else AsDeploying)"
| "derive_loop all_ready all_deleted any_deleted ((_, s) # cs) =
     (if s = readiness_as_str RsFailed then AsFailed
      else if s = readiness_as_str RsDeleting then AsDeleting
      else if s = readiness_as_str RsDeleted then derive_loop False all_deleted True cs
      else if s = readiness_as_str RsReady then derive_loop all_ready False any_deleted cs
      else derive_loop False False any_deleted cs)"

definition derive_status ::
    "(string \<times> string) list \<Rightarrow> (repository_error, agent_status option) rust_result" where
  "derive_status checks =
     (if checks = [] then Inr None else Inr (Some (derive_loop True True False checks)))"

section \<open>The in-memory repository\<close>

text \<open>The check list is the store's; a check is pushed at its end.\<close>

definition mem_append_readiness_check ::
    "readiness_check \<Rightarrow> readiness_check list \<Rightarrow> (repository_error, unit) rust_result \<times> readiness_check list" where
  "mem_append_readiness_check c cs = (Inr (), cs @ [c])"

definition agent_workers :: "agent_name \<Rightarrow> readiness_check list \<Rightarrow> string list" where
  "agent_workers agent cs = remdups (map rk_worker (filter (\<lambda>c. rk_agent c = agent) cs))"

definition latest_check :: "agent_name \<Rightarrow> string \<Rightarrow> readiness_check list \<Rightarrow> readiness_check option" where
  "latest_check agent worker cs = find (\<lambda>c. rk_agent c = agent \<and> rk_worker c = worker) (rev cs)"

definition latest_per_worker ::
    "(string list \<Rightarrow> string list) \<Rightarrow> agent_name \<Rightarrow> readiness_check list \<Rightarrow> (string \<times> string) list" where
  "latest_per_worker iter agent cs =
     List.map_filter (\<lambda>w. map_option (\<lambda>c. (rk_worker c, readiness_as_str (rk_status c))) (latest_check agent w cs))
       (iter (agent_workers agent cs))"

definition mem_get_derived_status ::
    "(string list \<Rightarrow> string list) \<Rightarrow> agent_name \<Rightarrow> readiness_check list \<Rightarrow>
     (repository_error, agent_status option) rust_result" where
  "mem_get_derived_status iter agent cs =
     (if agent_workers agent cs = [] then Inr None else derive_status (latest_per_worker iter agent cs))"

definition mem_all_checks_ready ::
    "(string list \<Rightarrow> string list) \<Rightarrow> agent_name \<Rightarrow> readiness_check list \<Rightarrow> (repository_error, bool) rust_result" where
  "mem_all_checks_ready iter agent cs =
     (case mem_get_derived_status iter agent cs of Inl e \<Rightarrow> Inl e | Inr s \<Rightarrow> Inr (s = Some AsLive))"

definition mem_get_derived_status_with_error ::
    "(string list \<Rightarrow> string list) \<Rightarrow> agent_name \<Rightarrow> readiness_check list \<Rightarrow>
     (repository_error, agent_status option \<times> string option) rust_result" where
  "mem_get_derived_status_with_error iter agent cs =
     (if agent_workers agent cs = [] then Inr (None, None)
      else case derive_status (latest_per_worker iter agent cs) of
             Inl e \<Rightarrow> Inl e
           | Inr status \<Rightarrow>
               Inr (status,
                 if status = Some AsFailed
                 then Option.bind (find (\<lambda>c. rk_agent c = agent \<and> rk_status c = RsFailed) (rev cs)) rk_error
                 else None))"

section \<open>What the loop computes\<close>

text \<open>
  The first decisive status wins; without one the three flags are the quantified statements they are
  named after.
\<close>

definition decisive :: "string \<Rightarrow> bool" where
  "decisive s \<longleftrightarrow> s = ''failed'' \<or> s = ''deleting''"

lemma derive_loop_decisive:
  "find decisive (map snd cs) = Some s \<Longrightarrow>
     derive_loop r d a cs = (if s = ''failed'' then AsFailed else AsDeleting)"
  by (induction cs arbitrary: r d a) (auto simp: decisive_def split: if_splits)

lemma derive_loop_flags:
  "find decisive (map snd cs) = None \<Longrightarrow>
     derive_loop r d a cs =
       (if r \<and> list_all (\<lambda>s. s = ''ready'') (map snd cs) then AsLive
        else if d \<and> list_all (\<lambda>s. s = ''deleted'') (map snd cs) then AsDeleted
        else if a \<or> list_ex (\<lambda>s. s = ''deleted'') (map snd cs) then AsDeleting
        else AsDeploying)"
  by (induction cs arbitrary: r d a) (auto simp: decisive_def split: if_splits)

lemma readiness_as_str_decisive [simp]:
  "readiness_as_str s = ''failed'' \<longleftrightarrow> s = RsFailed" "readiness_as_str s = ''deleting'' \<longleftrightarrow> s = RsDeleting"
  "readiness_as_str s = ''ready'' \<longleftrightarrow> s = RsReady" "readiness_as_str s = ''deleted'' \<longleftrightarrow> s = RsDeleted"
  by (cases s; simp)+

lemma derive_loop_set:
  assumes "set (map snd cs) = set (map snd cs')"
    and "\<not> (''failed'' \<in> set (map snd cs) \<and> ''deleting'' \<in> set (map snd cs))"
  shows "derive_loop True True False cs = derive_loop True True False cs'"
proof (cases "find decisive (map snd cs)")
  case None
  then have "find decisive (map snd cs') = None" unfolding find_None_set assms(1) .
  with None assms(1) show ?thesis by (simp add: derive_loop_flags list_all_iff list_ex_iff)
next
  case (Some s)
  then have s: "s \<in> set (map snd cs)" "decisive s" by (auto dest: find_Some_set)
  then obtain s' where s': "find decisive (map snd cs') = Some s'"
    using assms(1) find_None_set [of decisive "map snd cs'"] by (cases "find decisive (map snd cs')") auto
  then have "s' \<in> set (map snd cs)" "decisive s'" using assms(1) by (auto dest: find_Some_set)
  with s assms(2) have "s' = s" unfolding decisive_def by blast
  with Some s' show ?thesis by (simp add: derive_loop_decisive)
qed

lemma latest_check_worker:
  "w \<in> set (agent_workers agent cs) \<Longrightarrow> \<exists>c. latest_check agent w cs = Some c \<and> rk_worker c = w"
  unfolding latest_check_def agent_workers_def
  using find_None_set [of "\<lambda>c. rk_agent c = agent \<and> rk_worker c = w" "rev cs"]
  by (cases "find (\<lambda>c. rk_agent c = agent \<and> rk_worker c = w) (rev cs)") (auto dest: find_Some_set)

lemma latest_per_worker_statuses:
  assumes "set (iter (agent_workers agent cs)) = set (agent_workers agent cs)"
  shows "set (map snd (latest_per_worker iter agent cs)) =
           {readiness_as_str (rk_status c) | w c. w \<in> set (agent_workers agent cs) \<and> latest_check agent w cs = Some c}"
  using assms
  by (force simp: latest_per_worker_def map_filter_def image_iff)

section \<open>Properties\<close>

text \<open>
  The derived status depends on the order of the workers only when one has failed while another is
  being deleted: two orders of the same checks agree otherwise; with both present the first of the two
  wins, so the same store reports Failed or Deleting as the hash set happens to be iterated.
\<close>

theorem derive_status_order:
  assumes "mset checks = mset checks'"
  shows "(\<not> (''failed'' \<in> snd ` set checks \<and> ''deleting'' \<in> snd ` set checks) \<longrightarrow>
            derive_status checks = derive_status checks') \<and>
         derive_status ((w, ''failed'') # (v, ''deleting'') # checks) = Inr (Some AsFailed) \<and>
         derive_status ((v, ''deleting'') # (w, ''failed'') # checks) = Inr (Some AsDeleting)"
proof -
  have "set checks = set checks'" using assms by (rule mset_eq_setD)
  then have "checks = [] \<longleftrightarrow> checks' = []" "set (map snd checks) = set (map snd checks')" by auto
  then show ?thesis using derive_loop_set [of checks checks'] by (auto simp: derive_status_def)
qed

theorem derive_status_order_witness:
  "derive_status [(''container'', ''ready''), (''s3'', ''failed'')] =
   derive_status [(''s3'', ''failed''), (''container'', ''ready'')]"
  using derive_status_order [of "[(''container'', ''ready''), (''s3'', ''failed'')]"
      "[(''s3'', ''failed''), (''container'', ''ready'')]"]
  by simp

text \<open>
  Whatever the iteration order, an agent is Live exactly when some worker has checked in and the
  latest check of every worker is ready, and it has no status exactly when no worker has checked in; a
  check appended for a worker is the one that counts for it from then on.
\<close>

theorem derived_status_live_iff:
  assumes "\<forall>ws. set (iter ws) = set ws"
  shows "(mem_get_derived_status iter agent cs = Inr (Some AsLive) \<longleftrightarrow>
            agent_workers agent cs \<noteq> [] \<and>
            (\<forall>w \<in> set (agent_workers agent cs).
               map_option rk_status (latest_check agent w cs) = Some RsReady)) \<and>
         (mem_get_derived_status iter agent cs = Inr None \<longleftrightarrow> agent_workers agent cs = []) \<and>
         latest_check (rk_agent c) (rk_worker c) (snd (mem_append_readiness_check c cs)) = Some c"
proof (intro conjI)
  let ?l = "latest_per_worker iter agent cs"
  let ?ws = "agent_workers agent cs"
  have st: "set (map snd ?l) =
      {readiness_as_str (rk_status c) | w c. w \<in> set ?ws \<and> latest_check agent w cs = Some c}"
    using assms by (intro latest_per_worker_statuses) simp
  have ne: "?l \<noteq> []" if "?ws \<noteq> []"
  proof -
    have w: "hd ?ws \<in> set ?ws" (is "?w \<in> _") using that by simp
    then obtain c where "latest_check agent ?w cs = Some c" using latest_check_worker by blast
    with w have "set (map snd ?l) \<noteq> {}" unfolding st by blast
    then show ?thesis by auto
  qed
  have live: "derive_loop True True False ?l = AsLive \<longleftrightarrow> (\<forall>s \<in> set (map snd ?l). s = ''ready'')"
    if "?l \<noteq> []"
  proof (cases "find decisive (map snd ?l)")
    case None
    then show ?thesis using that by (auto simp: derive_loop_flags list_all_iff)
  next
    case (Some s)
    then have "s \<in> set (map snd ?l)" "s \<noteq> ''ready''" by (auto simp: decisive_def dest: find_Some_set)
    with Some show ?thesis by (auto simp: derive_loop_decisive)
  qed
  have ready: "(\<forall>s \<in> set (map snd ?l). s = ''ready'') \<longleftrightarrow>
      (\<forall>w \<in> set ?ws. map_option rk_status (latest_check agent w cs) = Some RsReady)"
    unfolding st
  proof
    assume all: "\<forall>s \<in> {readiness_as_str (rk_status c) | w c. w \<in> set ?ws \<and> latest_check agent w cs = Some c}.
        s = ''ready''"
    show "\<forall>w \<in> set ?ws. map_option rk_status (latest_check agent w cs) = Some RsReady"
    proof
      fix w assume w: "w \<in> set ?ws"
      then obtain c where c: "latest_check agent w cs = Some c" using latest_check_worker by blast
      with all w have "readiness_as_str (rk_status c) = ''ready''" by blast
      with c show "map_option rk_status (latest_check agent w cs) = Some RsReady" by simp
    qed
  qed force
  show "mem_get_derived_status iter agent cs = Inr (Some AsLive) \<longleftrightarrow> ?ws \<noteq> [] \<and>
      (\<forall>w \<in> set ?ws. map_option rk_status (latest_check agent w cs) = Some RsReady)"
    using ne live ready by (auto simp: mem_get_derived_status_def derive_status_def)
  show "mem_get_derived_status iter agent cs = Inr None \<longleftrightarrow> ?ws = []"
    using ne by (auto simp: mem_get_derived_status_def derive_status_def)
  show "latest_check (rk_agent c) (rk_worker c) (snd (mem_append_readiness_check c cs)) = Some c"
    by (simp add: latest_check_def mem_append_readiness_check_def)
qed

definition example_checks :: "readiness_check list" where
  "example_checks =
     [check_pending 1 ''todo'' ''s3'', check_failed 2 ''disk full'' (check_pending 1 ''todo'' ''s3''),
      check_pending 2 ''todo'' ''container'', check_ready 3 (check_pending 2 ''todo'' ''container'')]"

theorem derived_status_live_iff_witness:
  "mem_get_derived_status rev ''todo'' (example_checks @ [check_ready 4 (check_pending 1 ''todo'' ''s3'')]) =
     Inr (Some AsLive)"
proof -
  have "\<forall>ws. set (rev ws) = set (ws :: string list)" by simp
  note live = derived_status_live_iff [OF this, THEN conjunct1, THEN iffD2]
  show ?thesis
    by (rule live) (simp add: agent_workers_def latest_check_def example_checks_def check_pending_def
        check_ready_def check_failed_def)
qed

text \<open>
  The error reported with a Failed status is the error of the newest failed check of any worker,
  also when that worker has recovered since and another one is the reason: with a failed check of a
  recovered worker newer than the failing one's, its text is what is reported.
\<close>

theorem derived_error_is_newest_failure:
  assumes "mem_get_derived_status iter agent cs = Inr (Some AsFailed)"
    and "cs = before @ f # after" and "rk_agent f = agent" and "rk_status f = RsFailed"
    and "\<forall>c \<in> set after. \<not> (rk_agent c = agent \<and> rk_status c = RsFailed)"
  shows "mem_get_derived_status_with_error iter agent cs = Inr (Some AsFailed, rk_error f)"
proof -
  have "find (\<lambda>c. rk_agent c = agent \<and> rk_status c = RsFailed) (rev after) = None"
    using assms(5) by (simp add: find_None_set)
  then have "find (\<lambda>c. rk_agent c = agent \<and> rk_status c = RsFailed) (rev cs) = Some f"
    using assms(2-4) by (simp add: find_append)
  with assms(1) show ?thesis
    by (auto simp: mem_get_derived_status_def mem_get_derived_status_with_error_def split: if_splits)
qed

text \<open>The s3 worker has failed; the container worker failed later and recovered.\<close>

definition example_recovered :: "readiness_check list" where
  "example_recovered =
     [check_failed 2 ''disk full'' (check_pending 1 ''todo'' ''s3''),
      check_failed 3 ''image pull'' (check_pending 1 ''todo'' ''container''),
      check_ready 4 (check_pending 1 ''todo'' ''container'')]"

theorem derived_error_is_newest_failure_witness:
  "mem_get_derived_status_with_error (\<lambda>ws. ws) ''todo'' example_recovered = Inr (Some AsFailed, Some ''image pull'') \<and>
   map_option rk_status (latest_check ''todo'' ''container'' example_recovered) = Some RsReady"
proof -
  have st: "mem_get_derived_status (\<lambda>ws. ws) ''todo'' example_recovered = Inr (Some AsFailed)" by code_simp
  have "example_recovered = [check_failed 2 ''disk full'' (check_pending 1 ''todo'' ''s3'')] @
      check_failed 3 ''image pull'' (check_pending 1 ''todo'' ''container'') #
      [check_ready 4 (check_pending 1 ''todo'' ''container'')]"
    by (simp add: example_recovered_def)
  from derived_error_is_newest_failure [OF st this]
  have "mem_get_derived_status_with_error (\<lambda>ws. ws) ''todo'' example_recovered = Inr (Some AsFailed, Some ''image pull'')"
    by (simp add: check_failed_def check_ready_def check_pending_def)
  moreover have "map_option rk_status (latest_check ''todo'' ''container'' example_recovered) = Some RsReady"
    by code_simp
  ultimately show ?thesis by simp
qed

end
