(* ===== verification/Dag.thy ===== *)
theory Dag
  imports Messages Readiness
begin

text \<open>
  The content-addressed DAG (\<open>domain/dag.rs\<close>, \<open>domain/session.rs\<close>): snapshots, message types and
  planes, nodes, the node hash, branches and sessions; the \<open>DagStore\<close> trait as a record of
  operations over a store state (a \<open>dyn\<close> object is its vtable), and \<open>InMemoryDagStore\<close>, every
  method of it, as one value of that record.  The locale \<open>dag_store_laws\<close> is the contract the
  recording queue relies on; it is interpreted by the in-memory store.

  SHA-256 (crate \<open>sha2\<close>) is the parameter \<open>sha256\<close>, from bytes to the lowercase hex digest.  A clock
  reading (\<open>Utc::now()\<close>) is an argument of the operation that takes it.
\<close>

section \<open>Snapshots\<close>

type_synonym snapshot = "instance_name \<rightharpoonup> state_hash"

definition snapshot_empty :: snapshot where
  "snapshot_empty = Map.empty"

definition snapshot_with_state :: "snapshot \<Rightarrow> instance_name \<Rightarrow> state_hash \<Rightarrow> snapshot" where
  "snapshot_with_state s i h = s(i \<mapsto> h)"

section \<open>Message types\<close>

datatype plane = PlData | PlSession | PlInfra

datatype message_type =
    MtInvoke | MtRequest | MtResponse | MtComplete | MtFork | MtPromote
  | MtDeployAgent | MtDeleteAgent | MtSvcRequest | MtSvcResponse

fun message_type_as_str :: "message_type \<Rightarrow> string" where
  "message_type_as_str MtInvoke = ''invoke''"
| "message_type_as_str MtRequest = ''request''"
| "message_type_as_str MtResponse = ''response''"
| "message_type_as_str MtComplete = ''complete''"
| "message_type_as_str MtFork = ''fork''"
| "message_type_as_str MtPromote = ''promote''"
| "message_type_as_str MtDeployAgent = ''deploy-agent''"
| "message_type_as_str MtDeleteAgent = ''delete-agent''"
| "message_type_as_str MtSvcRequest = ''svc_request''"
| "message_type_as_str MtSvcResponse = ''svc_response''"

fun message_type_plane :: "message_type \<Rightarrow> plane" where
  "message_type_plane MtInvoke = PlData"
| "message_type_plane MtRequest = PlData"
| "message_type_plane MtResponse = PlData"
| "message_type_plane MtComplete = PlData"
| "message_type_plane MtSvcRequest = PlData"
| "message_type_plane MtSvcResponse = PlData"
| "message_type_plane MtFork = PlSession"
| "message_type_plane MtPromote = PlSession"
| "message_type_plane MtDeployAgent = PlInfra"
| "message_type_plane MtDeleteAgent = PlInfra"

definition message_type_from_str :: "string \<Rightarrow> (string, message_type) rust_result" where
  "message_type_from_str s =
     (if s = ''invoke'' then Inr MtInvoke
      else if s = ''req'' \<or> s = ''request'' then Inr MtRequest
      else if s = ''res'' \<or> s = ''response'' then Inr MtResponse
      else if s = ''complete'' then Inr MtComplete
      else if s = ''fork'' then Inr MtFork
      else if s = ''promote'' then Inr MtPromote
      else if s = ''deploy-agent'' then Inr MtDeployAgent
      else if s = ''delete-agent'' then Inr MtDeleteAgent
      else if s = ''svc_request'' then Inr MtSvcRequest
      else if s = ''svc_response'' then Inr MtSvcResponse
      else Inl (''unknown message type: '' @ s))"

interpretation message_type: wire_enum message_type_as_str message_type_from_str
proof
  show "message_type_from_str (message_type_as_str x) = Inr x" for x
    by (cases x) (simp_all add: message_type_from_str_def)
  show "CHR ''.'' \<notin> set (message_type_as_str x)" for x
    by (cases x) simp_all
qed

section \<open>Nodes and their hash\<close>

record dag_node =
  dn_id :: dag_node_id
  dn_parent_id :: dag_node_id
  dn_created_at :: timestamp
  dn_state :: snapshot
  dn_msg_type :: message_type
  dn_session :: session_id
  dn_submission :: submission_id
  dn_branch :: branch_id
  dn_protocol_version :: string

text \<open>The bytes fed to the hasher, in the order of the five \<open>update\<close> calls.\<close>

definition dag_node_preimage ::
    "bytes \<Rightarrow> dag_node_id \<Rightarrow> message_type \<Rightarrow> bytes \<Rightarrow> session_id \<Rightarrow> bytes" where
  "dag_node_preimage payload parent_id message_type diagnostics session_id =
     payload @ parent_id @ message_type_as_str message_type @ diagnostics @ session_id"

definition hash_dag_node ::
    "(bytes \<Rightarrow> string) \<Rightarrow> bytes \<Rightarrow> dag_node_id \<Rightarrow> message_type \<Rightarrow> bytes \<Rightarrow> session_id \<Rightarrow> dag_node_id" where
  "hash_dag_node sha256 payload parent_id message_type diagnostics session_id =
     sha256 (dag_node_preimage payload parent_id message_type diagnostics session_id)"

record session_summary =
  sm_session_id :: session_id
  sm_agent_name :: string
  sm_started_at :: timestamp
  sm_message_count :: nat
  sm_is_open :: bool

record branch =
  br_id :: branch_id
  br_name :: string
  br_session_id :: session_id
  br_fork_point :: "dag_node_id option"
  br_head :: "dag_node_id option"
  br_broken_at :: "timestamp option"
  br_created_at :: timestamp

record session =
  se_id :: session_id
  se_external_id :: external_session_id
  se_name :: string
  se_agent :: string
  se_default_branch :: branch_id
  se_created_at :: timestamp

text \<open>\<open>Session::new\<close>: the random petname and the clock reading are arguments.\<close>

definition session_new ::
    "(session_id \<Rightarrow> string) \<Rightarrow> timestamp \<Rightarrow> session_id \<Rightarrow> external_session_id \<Rightarrow> string \<Rightarrow>
     branch_id \<Rightarrow> session" where
  "session_new petname now sid external_id agent default_branch =
     \<lparr>se_id = sid, se_external_id = external_id, se_name = petname sid, se_agent = agent,
      se_default_branch = default_branch, se_created_at = now\<rparr>"

section \<open>The store interface\<close>

text \<open>
  One field per required method of the trait and per overridden default the platform calls.  A method
  that takes \<open>&self\<close> and only reads has no new state; one that writes returns it.
\<close>

type_synonym 's typed_insert = "'s \<Rightarrow> (string, unit) rust_result \<times> 's"

record 's dag_store =
  ds_insert_invoke_node ::
    "dag_node_id \<Rightarrow> dag_node_id \<Rightarrow> timestamp \<Rightarrow> snapshot \<Rightarrow> data_routing_key \<Rightarrow> invoke_message \<Rightarrow>
     's typed_insert"
  ds_insert_complete_node ::
    "dag_node_id \<Rightarrow> dag_node_id \<Rightarrow> timestamp \<Rightarrow> snapshot \<Rightarrow> session_id \<Rightarrow> submission_id \<Rightarrow> branch_id \<Rightarrow>
     agent_name \<Rightarrow> harness_type \<Rightarrow> complete_message \<Rightarrow> 's typed_insert"
  ds_insert_request_node ::
    "dag_node_id \<Rightarrow> dag_node_id \<Rightarrow> timestamp \<Rightarrow> snapshot \<Rightarrow> session_id \<Rightarrow> submission_id \<Rightarrow> branch_id \<Rightarrow>
     agent_name \<Rightarrow> service_backend \<Rightarrow> operation \<Rightarrow> sequence \<Rightarrow> request_message \<Rightarrow> 's typed_insert"
  ds_insert_response_node ::
    "dag_node_id \<Rightarrow> dag_node_id \<Rightarrow> timestamp \<Rightarrow> snapshot \<Rightarrow> session_id \<Rightarrow> submission_id \<Rightarrow> branch_id \<Rightarrow>
     agent_name \<Rightarrow> service_backend \<Rightarrow> operation \<Rightarrow> sequence \<Rightarrow> response_message \<Rightarrow> 's typed_insert"
  ds_insert_fork_node ::
    "dag_node_id \<Rightarrow> dag_node_id \<Rightarrow> timestamp \<Rightarrow> snapshot \<Rightarrow> session_routing_key \<Rightarrow> fork_message \<Rightarrow>
     's typed_insert"
  ds_insert_promote_node ::
    "dag_node_id \<Rightarrow> dag_node_id \<Rightarrow> timestamp \<Rightarrow> snapshot \<Rightarrow> session_routing_key \<Rightarrow> promote_message \<Rightarrow>
     's typed_insert"
  ds_insert_deploy_agent_node ::
    "dag_node_id \<Rightarrow> dag_node_id \<Rightarrow> timestamp \<Rightarrow> snapshot \<Rightarrow> infra_routing_key \<Rightarrow>
     deploy_agent_message \<Rightarrow> 's typed_insert"
  ds_insert_delete_agent_node ::
    "dag_node_id \<Rightarrow> dag_node_id \<Rightarrow> timestamp \<Rightarrow> snapshot \<Rightarrow> infra_routing_key \<Rightarrow>
     delete_agent_message \<Rightarrow> 's typed_insert"
  ds_insert_svc_request_node ::
    "dag_node_id \<Rightarrow> dag_node_id \<Rightarrow> timestamp \<Rightarrow> snapshot \<Rightarrow> session_id \<Rightarrow> submission_id \<Rightarrow> branch_id \<Rightarrow>
     agent_name \<Rightarrow> service_backend_v2 \<Rightarrow> service_operation \<Rightarrow> sequence \<Rightarrow> request_v2 \<Rightarrow> 's typed_insert"
  ds_insert_svc_response_node ::
    "dag_node_id \<Rightarrow> dag_node_id \<Rightarrow> timestamp \<Rightarrow> snapshot \<Rightarrow> session_id \<Rightarrow> submission_id \<Rightarrow> branch_id \<Rightarrow>
     agent_name \<Rightarrow> service_backend_v2 \<Rightarrow> service_operation \<Rightarrow> sequence \<Rightarrow> response_v2 \<Rightarrow> 's typed_insert"
  ds_get_node :: "dag_node_id \<Rightarrow> 's \<Rightarrow> (string, dag_node option) rust_result"
  ds_get_node_by_prefix :: "string \<Rightarrow> 's \<Rightarrow> (string, dag_node option) rust_result"
  ds_get_session_nodes :: "session_id \<Rightarrow> 's \<Rightarrow> (string, dag_node list) rust_result"
  ds_get_children :: "dag_node_id \<Rightarrow> 's \<Rightarrow> (string, dag_node list) rust_result"
  ds_create_branch ::
    "timestamp \<Rightarrow> string \<Rightarrow> session_id \<Rightarrow> dag_node_id option \<Rightarrow> 's \<Rightarrow>
     (string, branch_id) rust_result \<times> 's"
  ds_get_branch_by_name :: "string \<Rightarrow> 's \<Rightarrow> (string, branch option) rust_result"
  ds_get_branch :: "branch_id \<Rightarrow> 's \<Rightarrow> (string, branch option) rust_result"
  ds_get_nodes_by_submission :: "string \<Rightarrow> 's \<Rightarrow> (string, dag_node list) rust_result"
  ds_get_invoke_node ::
    "dag_node_id \<Rightarrow> 's \<Rightarrow> (string, (data_routing_key \<times> invoke_message) option) rust_result"
  ds_get_complete_node ::
    "dag_node_id \<Rightarrow> 's \<Rightarrow> (string, (data_routing_key \<times> complete_message) option) rust_result"
  ds_get_branches_for_session :: "session_id \<Rightarrow> 's \<Rightarrow> (string, branch list) rust_result"
  ds_latest_nodes_on_branch :: "branch_id \<Rightarrow> 32 word \<Rightarrow> 's \<Rightarrow> (string, dag_node list) rust_result"
  ds_latest_node_on_branch ::
    "branch_id \<Rightarrow> message_type option \<Rightarrow> 's \<Rightarrow> (string, dag_node option) rust_result"
  ds_rename_branch :: "branch_id \<Rightarrow> string \<Rightarrow> 's \<Rightarrow> (string, unit) rust_result \<times> 's"
  ds_seal_branch :: "branch_id \<Rightarrow> timestamp \<Rightarrow> 's \<Rightarrow> (string, unit) rust_result \<times> 's"
  ds_update_session_default_branch ::
    "session_id \<Rightarrow> branch_id \<Rightarrow> 's \<Rightarrow> (string, unit) rust_result \<times> 's"
  ds_create_session :: "session \<Rightarrow> 's \<Rightarrow> (string, unit) rust_result \<times> 's"
  ds_get_session :: "session_id \<Rightarrow> 's \<Rightarrow> (string, session option) rust_result"
  ds_get_session_by_name :: "string \<Rightarrow> 's \<Rightarrow> (string, session option) rust_result"
  ds_get_session_by_external_id :: "external_session_id \<Rightarrow> 's \<Rightarrow> (string, session option) rust_result"

text \<open>The provided methods of the trait that report that the store does not implement them.\<close>

definition not_implemented :: "string \<Rightarrow> 's \<Rightarrow> (string, 'a) rust_result \<times> 's" where
  "not_implemented what s = (Inl (what @ '' not implemented''), s)"

section \<open>The in-memory store\<close>

record mem_store =
  ims_nodes :: "dag_node list"
  ims_branches :: "branch list"
  ims_sessions :: "session list"
  ims_readiness_checks :: "readiness_check list"

definition mem_store_new :: mem_store where
  "mem_store_new = \<lparr>ims_nodes = [], ims_branches = [], ims_sessions = [], ims_readiness_checks = []\<rparr>"

definition add_node :: "dag_node \<Rightarrow> dag_node list \<Rightarrow> dag_node list" where
  "add_node n ns = (if list_ex (\<lambda>m. dn_id m = dn_id n) ns then ns else ns @ [n])"

definition mem_insert_node :: "dag_node \<Rightarrow> mem_store \<Rightarrow> mem_store" where
  "mem_insert_node n s = s\<lparr>ims_nodes := add_node n (ims_nodes s)\<rparr>"

definition typed_node ::
    "message_type \<Rightarrow> dag_node_id \<Rightarrow> dag_node_id \<Rightarrow> timestamp \<Rightarrow> snapshot \<Rightarrow> session_id \<Rightarrow>
     submission_id \<Rightarrow> branch_id \<Rightarrow> dag_node" where
  "typed_node mt dag_id parent_id created_at st session submission branch =
     \<lparr>dn_id = dag_id, dn_parent_id = parent_id, dn_created_at = created_at, dn_state = st,
      dn_msg_type = mt, dn_session = session, dn_submission = submission, dn_branch = branch,
      dn_protocol_version = ''v1''\<rparr>"

definition mem_insert_invoke_node ::
    "dag_node_id \<Rightarrow> dag_node_id \<Rightarrow> timestamp \<Rightarrow> snapshot \<Rightarrow> data_routing_key \<Rightarrow> invoke_message \<Rightarrow>
     mem_store typed_insert" where
  "mem_insert_invoke_node dag_id parent_id created_at st key msg s =
     (Inr (), mem_insert_node
        (typed_node MtInvoke dag_id parent_id created_at st (dk_session key) (dk_submission key)
           (dk_branch key)) s)"

definition mem_insert_complete_node ::
    "dag_node_id \<Rightarrow> dag_node_id \<Rightarrow> timestamp \<Rightarrow> snapshot \<Rightarrow> session_id \<Rightarrow> submission_id \<Rightarrow> branch_id \<Rightarrow>
     agent_name \<Rightarrow> harness_type \<Rightarrow> complete_message \<Rightarrow> mem_store typed_insert" where
  "mem_insert_complete_node dag_id parent_id created_at st session submission branch agent harness msg s =
     (Inr (), mem_insert_node (typed_node MtComplete dag_id parent_id created_at st session submission branch) s)"

definition mem_insert_request_node ::
    "dag_node_id \<Rightarrow> dag_node_id \<Rightarrow> timestamp \<Rightarrow> snapshot \<Rightarrow> session_id \<Rightarrow> submission_id \<Rightarrow> branch_id \<Rightarrow>
     agent_name \<Rightarrow> service_backend \<Rightarrow> operation \<Rightarrow> sequence \<Rightarrow> request_message \<Rightarrow> mem_store typed_insert" where
  "mem_insert_request_node dag_id parent_id created_at st session submission branch agent service
     operation sequence msg s =
     (Inr (), mem_insert_node (typed_node MtRequest dag_id parent_id created_at st session submission branch) s)"

definition mem_insert_response_node ::
    "dag_node_id \<Rightarrow> dag_node_id \<Rightarrow> timestamp \<Rightarrow> snapshot \<Rightarrow> session_id \<Rightarrow> submission_id \<Rightarrow> branch_id \<Rightarrow>
     agent_name \<Rightarrow> service_backend \<Rightarrow> operation \<Rightarrow> sequence \<Rightarrow> response_message \<Rightarrow> mem_store typed_insert" where
  "mem_insert_response_node dag_id parent_id created_at st session submission branch agent service
     operation sequence msg s =
     (Inr (), mem_insert_node (typed_node MtResponse dag_id parent_id created_at st session submission branch) s)"

definition mem_insert_svc_request_node ::
    "dag_node_id \<Rightarrow> dag_node_id \<Rightarrow> timestamp \<Rightarrow> snapshot \<Rightarrow> session_id \<Rightarrow> submission_id \<Rightarrow> branch_id \<Rightarrow>
     agent_name \<Rightarrow> service_backend_v2 \<Rightarrow> service_operation \<Rightarrow> sequence \<Rightarrow> request_v2 \<Rightarrow> mem_store typed_insert" where
  "mem_insert_svc_request_node dag_id parent_id created_at st session submission branch agent service
     operation sequence msg s =
     (Inr (), mem_insert_node (typed_node MtSvcRequest dag_id parent_id created_at st session submission branch) s)"

definition mem_insert_svc_response_node ::
    "dag_node_id \<Rightarrow> dag_node_id \<Rightarrow> timestamp \<Rightarrow> snapshot \<Rightarrow> session_id \<Rightarrow> submission_id \<Rightarrow> branch_id \<Rightarrow>
     agent_name \<Rightarrow> service_backend_v2 \<Rightarrow> service_operation \<Rightarrow> sequence \<Rightarrow> response_v2 \<Rightarrow> mem_store typed_insert" where
  "mem_insert_svc_response_node dag_id parent_id created_at st session submission branch agent service
     operation sequence msg s =
     (Inr (), mem_insert_node (typed_node MtSvcResponse dag_id parent_id created_at st session submission branch) s)"

definition mem_get_node :: "dag_node_id \<Rightarrow> mem_store \<Rightarrow> (string, dag_node option) rust_result" where
  "mem_get_node i s = Inr (find (\<lambda>n. dn_id n = i) (ims_nodes s))"

definition mem_get_node_by_prefix :: "string \<Rightarrow> mem_store \<Rightarrow> (string, dag_node option) rust_result" where
  "mem_get_node_by_prefix p s =
     (case filter (\<lambda>n. starts_with (dn_id n) p) (ims_nodes s) of
        [] \<Rightarrow> Inr None
      | [n] \<Rightarrow> Inr (Some n)
      | ns \<Rightarrow> Inl (''ambiguous ID prefix '' @ [CHR 0x27] @ p @ [CHR 0x27] @ '': '' @
                    show_nat (length ns) @ '' matches''))"

definition mem_get_session_nodes :: "session_id \<Rightarrow> mem_store \<Rightarrow> (string, dag_node list) rust_result" where
  "mem_get_session_nodes sid s =
     Inr (sort_key dn_created_at (filter (\<lambda>n. dn_session n = sid) (ims_nodes s)))"

definition mem_get_children :: "dag_node_id \<Rightarrow> mem_store \<Rightarrow> (string, dag_node list) rust_result" where
  "mem_get_children p s = Inr (filter (\<lambda>n. dn_parent_id n = p) (ims_nodes s))"

definition mem_create_branch ::
    "timestamp \<Rightarrow> string \<Rightarrow> session_id \<Rightarrow> dag_node_id option \<Rightarrow> mem_store \<Rightarrow>
     (string, branch_id) rust_result \<times> mem_store" where
  "mem_create_branch now name sid fork_point s =
     (let id = int (length (ims_branches s)) + 1
      in (Inr id, s\<lparr>ims_branches := ims_branches s @
            [\<lparr>br_id = id, br_name = name, br_session_id = sid, br_fork_point = fork_point,
              br_head = None, br_broken_at = None, br_created_at = now\<rparr>]\<rparr>))"

definition mem_get_branch_by_name :: "string \<Rightarrow> mem_store \<Rightarrow> (string, branch option) rust_result" where
  "mem_get_branch_by_name name s = Inr (find (\<lambda>b. br_name b = name) (ims_branches s))"

definition mem_get_branch :: "branch_id \<Rightarrow> mem_store \<Rightarrow> (string, branch option) rust_result" where
  "mem_get_branch i s = Inr (find (\<lambda>b. br_id b = i) (ims_branches s))"

text \<open>
  \<open>list_sessions\<close> groups the nodes in a \<open>HashMap\<close>; the order in which that map yields its keys is the
  parameter \<open>iter\<close>.
\<close>

definition session_summary_of :: "session_id \<Rightarrow> dag_node list \<Rightarrow> session_summary" where
  "session_summary_of sid ns =
     (let ns = sort_key dn_created_at ns
      in \<lparr>sm_session_id = sid, sm_agent_name = '''',
          sm_started_at = (case ns of [] \<Rightarrow> 0 | n # _ \<Rightarrow> dn_created_at n),
          sm_message_count = length (filter (\<lambda>n. dn_msg_type n = MtInvoke \<or> dn_msg_type n = MtComplete) ns),
          sm_is_open = (ns \<noteq> [] \<and> dn_msg_type (last ns) \<noteq> MtComplete)\<rparr>)"

definition mem_list_sessions ::
    "(session_id list \<Rightarrow> session_id list) \<Rightarrow> mem_store \<Rightarrow> (string, session_summary list) rust_result" where
  "mem_list_sessions iter s =
     Inr (sort_key (\<lambda>x. - sm_started_at x)
       (map (\<lambda>sid. session_summary_of sid (filter (\<lambda>n. dn_session n = sid) (ims_nodes s)))
          (iter (remdups (map dn_session (ims_nodes s))))))"

definition mem_get_nodes_by_submission :: "string \<Rightarrow> mem_store \<Rightarrow> (string, dag_node list) rust_result" where
  "mem_get_nodes_by_submission sub s =
     Inr (sort_key dn_created_at (filter (\<lambda>n. dn_submission n = sub) (ims_nodes s)))"

definition mem_get_branches_for_session :: "session_id \<Rightarrow> mem_store \<Rightarrow> (string, branch list) rust_result" where
  "mem_get_branches_for_session sid s = Inr (filter (\<lambda>b. br_session_id b = sid) (ims_branches s))"

definition mem_latest_nodes_on_branch ::
    "branch_id \<Rightarrow> 32 word \<Rightarrow> mem_store \<Rightarrow> (string, dag_node list) rust_result" where
  "mem_latest_nodes_on_branch b n s =
     (let filtered = filter (\<lambda>m. dn_branch m = b) (ims_nodes s); k = unat n
      in Inr (if length filtered \<le> k then filtered else drop (length filtered - k) filtered))"

definition mem_latest_node_on_branch ::
    "branch_id \<Rightarrow> message_type option \<Rightarrow> mem_store \<Rightarrow> (string, dag_node option) rust_result" where
  "mem_latest_node_on_branch b mt s =
     Inr (find (\<lambda>n. case mt of None \<Rightarrow> True | Some t \<Rightarrow> dn_msg_type n = t)
            (filter (\<lambda>n. dn_branch n = b) (rev (ims_nodes s))))"

definition mem_rename_branch ::
    "branch_id \<Rightarrow> string \<Rightarrow> mem_store \<Rightarrow> (string, unit) rust_result \<times> mem_store" where
  "mem_rename_branch i new_name s =
     (case update_first (\<lambda>b. br_id b = i) (\<lambda>b. b\<lparr>br_name := new_name\<rparr>) (ims_branches s) of
        None \<Rightarrow> (Inl (''branch '' @ show_int i @ '' not found''), s)
      | Some bs \<Rightarrow> (Inr (), s\<lparr>ims_branches := bs\<rparr>))"

definition mem_seal_branch ::
    "branch_id \<Rightarrow> timestamp \<Rightarrow> mem_store \<Rightarrow> (string, unit) rust_result \<times> mem_store" where
  "mem_seal_branch i broken_at s =
     (case update_first (\<lambda>b. br_id b = i) (\<lambda>b. b\<lparr>br_broken_at := Some broken_at\<rparr>) (ims_branches s) of
        None \<Rightarrow> (Inl (''branch '' @ show_int i @ '' not found''), s)
      | Some bs \<Rightarrow> (Inr (), s\<lparr>ims_branches := bs\<rparr>))"

definition mem_update_session_default_branch ::
    "session_id \<Rightarrow> branch_id \<Rightarrow> mem_store \<Rightarrow> (string, unit) rust_result \<times> mem_store" where
  "mem_update_session_default_branch sid b s =
     (case update_first (\<lambda>x. se_id x = sid) (\<lambda>x. x\<lparr>se_default_branch := b\<rparr>) (ims_sessions s) of
        None \<Rightarrow> (Inl (''session '' @ sid @ '' not found''), s)
      | Some ss \<Rightarrow> (Inr (), s\<lparr>ims_sessions := ss\<rparr>))"

definition mem_create_session :: "session \<Rightarrow> mem_store \<Rightarrow> (string, unit) rust_result \<times> mem_store" where
  "mem_create_session x s =
     (if list_ex (\<lambda>y. se_id y = se_id x) (ims_sessions s) then (Inr (), s)
      else (Inr (), s\<lparr>ims_sessions := ims_sessions s @ [x]\<rparr>))"

definition mem_get_session :: "session_id \<Rightarrow> mem_store \<Rightarrow> (string, session option) rust_result" where
  "mem_get_session sid s = Inr (find (\<lambda>x. se_id x = sid) (ims_sessions s))"

definition mem_get_session_by_name :: "string \<Rightarrow> mem_store \<Rightarrow> (string, session option) rust_result" where
  "mem_get_session_by_name name s = Inr (find (\<lambda>x. se_name x = name) (ims_sessions s))"

definition mem_get_session_by_external_id ::
    "external_session_id \<Rightarrow> mem_store \<Rightarrow> (string, session option) rust_result" where
  "mem_get_session_by_external_id e s = Inr (find (\<lambda>x. se_external_id x = e) (ims_sessions s))"

definition mem_no_typed_getters :: string where
  "mem_no_typed_getters =
     ''InMemoryDagStore does not implement typed routing-key getters; '' @
     ''configure tests with SqliteDagStore + tempdir for routing coverage''"

definition mem_get_invoke_node ::
    "dag_node_id \<Rightarrow> mem_store \<Rightarrow> (string, (data_routing_key \<times> invoke_message) option) rust_result" where
  "mem_get_invoke_node i s = Inl mem_no_typed_getters"

definition mem_get_complete_node ::
    "dag_node_id \<Rightarrow> mem_store \<Rightarrow> (string, (data_routing_key \<times> complete_message) option) rust_result" where
  "mem_get_complete_node i s = Inl mem_no_typed_getters"

definition mem_dag_store :: "mem_store dag_store" where
  "mem_dag_store =
     \<lparr>ds_insert_invoke_node = mem_insert_invoke_node,
      ds_insert_complete_node = mem_insert_complete_node,
      ds_insert_request_node = mem_insert_request_node,
      ds_insert_response_node = mem_insert_response_node,
      ds_insert_fork_node = (\<lambda>_ _ _ _ _ _. not_implemented ''insert_fork_node''),
      ds_insert_promote_node = (\<lambda>_ _ _ _ _ _. not_implemented ''insert_promote_node''),
      ds_insert_deploy_agent_node = (\<lambda>_ _ _ _ _ _. not_implemented ''insert_deploy_agent_node''),
      ds_insert_delete_agent_node = (\<lambda>_ _ _ _ _ _. not_implemented ''insert_delete_agent_node''),
      ds_insert_svc_request_node = mem_insert_svc_request_node,
      ds_insert_svc_response_node = mem_insert_svc_response_node,
      ds_get_node = mem_get_node,
      ds_get_node_by_prefix = mem_get_node_by_prefix,
      ds_get_session_nodes = mem_get_session_nodes,
      ds_get_children = mem_get_children,
      ds_create_branch = mem_create_branch,
      ds_get_branch_by_name = mem_get_branch_by_name,
      ds_get_branch = mem_get_branch,
      ds_get_nodes_by_submission = mem_get_nodes_by_submission,
      ds_get_invoke_node = mem_get_invoke_node,
      ds_get_complete_node = mem_get_complete_node,
      ds_get_branches_for_session = mem_get_branches_for_session,
      ds_latest_nodes_on_branch = mem_latest_nodes_on_branch,
      ds_latest_node_on_branch = mem_latest_node_on_branch,
      ds_rename_branch = mem_rename_branch,
      ds_seal_branch = mem_seal_branch,
      ds_update_session_default_branch = mem_update_session_default_branch,
      ds_create_session = mem_create_session,
      ds_get_session = mem_get_session,
      ds_get_session_by_name = mem_get_session_by_name,
      ds_get_session_by_external_id = mem_get_session_by_external_id\<rparr>"

end
