(* ===== verification/Queue.thy ===== *)
theory Queue
  imports Messages
begin

text \<open>
  The \<open>MessageQueue\<close> trait (\<open>domain/message_queue.rs\<close>) as a record of operations over a queue state
  (a \<open>dyn MessageQueue\<close> is its vtable), its provided methods, and the request-reply loop behind
  \<open>call_service\<close>.  An acknowledgement is a state transformer.  \<open>send_and_wait\<close> polls for ever, so it
  is a partial function, and what other tasks do to the queue between two polls is the argument
  \<open>env\<close>.
\<close>

section \<open>Errors and acknowledgements\<close>

datatype queue_error = SendFailed string | ReceiveFailed string | Timeout

fun queue_error_display :: "queue_error \<Rightarrow> string" where
  "queue_error_display (SendFailed m) = ''send failed: '' @ m"
| "queue_error_display (ReceiveFailed m) = ''receive failed: '' @ m"
| "queue_error_display Timeout = ''receive timed out''"

type_synonym ('q, 'a) mq_op = "'q \<Rightarrow> (queue_error, 'a) rust_result \<times> 'q"

type_synonym 'q ack = "('q, unit) mq_op"

definition noop_ack :: "'q ack" where
  "noop_ack q = (Inr (), q)"

section \<open>The trait\<close>

record 'q mq_ops =
  mq_on_cluster_start :: "('q, unit) mq_op"
  mq_on_agent_deployed :: "agent_name \<Rightarrow> ('q, unit) mq_op"
  mq_on_agent_deleted :: "agent_name \<Rightarrow> ('q, unit) mq_op"
  mq_send_invoke :: "data_routing_key \<Rightarrow> invoke_message \<Rightarrow> ('q, dag_node_id) mq_op"
  mq_receive_invoke :: "agent_name \<Rightarrow> ('q, data_routing_key \<times> invoke_message \<times> 'q ack) mq_op"
  mq_send_complete :: "data_routing_key \<Rightarrow> complete_message \<Rightarrow> ('q, dag_node_id) mq_op"
  mq_receive_complete ::
    "submission_id \<Rightarrow> harness_type \<Rightarrow> agent_name \<Rightarrow>
     ('q, data_routing_key \<times> complete_message \<times> 'q ack) mq_op"
  mq_send_request :: "data_routing_key \<Rightarrow> request_message \<Rightarrow> ('q, dag_node_id) mq_op"
  mq_receive_request ::
    "service_backend \<Rightarrow> operation \<Rightarrow> ('q, data_routing_key \<times> request_message \<times> 'q ack) mq_op"
  mq_send_response :: "data_routing_key \<Rightarrow> response_message \<Rightarrow> ('q, dag_node_id) mq_op"
  mq_receive_response ::
    "submission_id \<Rightarrow> agent_name \<Rightarrow> service_backend \<Rightarrow> operation \<Rightarrow> sequence \<Rightarrow>
     ('q, data_routing_key \<times> response_message \<times> 'q ack) mq_op"
  mq_send_fork :: "session_routing_key \<Rightarrow> fork_message \<Rightarrow> ('q, unit) mq_op"
  mq_receive_fork :: "('q, session_routing_key \<times> fork_message \<times> 'q ack) mq_op"
  mq_send_promote :: "session_routing_key \<Rightarrow> promote_message \<Rightarrow> ('q, unit) mq_op"
  mq_receive_promote :: "('q, session_routing_key \<times> promote_message \<times> 'q ack) mq_op"
  mq_send_session_start ::
    "session_routing_key \<Rightarrow> session_start_message \<Rightarrow> external_session_id \<Rightarrow> ('q, branch_id) mq_op"
  mq_send_deploy_agent :: "infra_routing_key \<Rightarrow> deploy_agent_message \<Rightarrow> ('q, unit) mq_op"
  mq_receive_deploy_agent :: "('q, infra_routing_key \<times> deploy_agent_message \<times> 'q ack) mq_op"
  mq_send_delete_agent :: "infra_routing_key \<Rightarrow> delete_agent_message \<Rightarrow> ('q, unit) mq_op"
  mq_receive_delete_agent :: "('q, infra_routing_key \<times> delete_agent_message \<times> 'q ack) mq_op"
  mq_receive_any :: "('q, string \<times> bytes \<times> 'q ack) mq_op"
  mq_send_svc_request :: "svc_routing_key \<Rightarrow> request_v2 \<Rightarrow> ('q, dag_node_id) mq_op"
  mq_receive_svc_request_mcp :: "('q, svc_routing_key \<times> request_v2 \<times> 'q ack) mq_op"
  mq_send_svc_response :: "svc_routing_key \<Rightarrow> response_v2 \<Rightarrow> ('q, dag_node_id) mq_op"
  mq_receive_svc_response ::
    "svc_routing_key \<Rightarrow> ('q, svc_routing_key \<times> response_v2 \<times> 'q ack) mq_op"

text \<open>
  The provided methods: the three lifecycle hooks do nothing, a receive that is not implemented times
  out, a data or service send that is not implemented fails.
\<close>

definition mq_default_ok :: "('q, unit) mq_op" where
  "mq_default_ok q = (Inr (), q)"

definition mq_default_receive :: "('q, 'a) mq_op" where
  "mq_default_receive q = (Inl Timeout, q)"

definition mq_default_send :: "string \<Rightarrow> ('q, 'a) mq_op" where
  "mq_default_send name q = (Inl (SendFailed (name @ '' not implemented'')), q)"

section \<open>Request and reply\<close>

text \<open>The loop of \<open>send_and_wait\<close>: a timeout polls again, any other error is returned.\<close>

partial_function (option) wait_reply ::
    "(nat \<Rightarrow> 'q \<Rightarrow> 'q) \<Rightarrow> ('q, 'm \<times> 'q ack) mq_op \<Rightarrow> nat \<Rightarrow> 'q \<Rightarrow>
     ((queue_error, 'm) rust_result \<times> 'q) option" where
  "wait_reply env receive i q =
     (case receive q of
        (Inr (reply, ack), q1) \<Rightarrow> Some (Inr reply, snd (ack q1))
      | (Inl Timeout, q1) \<Rightarrow> wait_reply env receive (Suc i) (env i q1)
      | (Inl e, q1) \<Rightarrow> Some (Inl e, q1))"

definition send_and_wait ::
    "(nat \<Rightarrow> 'q \<Rightarrow> 'q) \<Rightarrow> ('q, dag_node_id) mq_op \<Rightarrow> ('q, 'm \<times> 'q ack) mq_op \<Rightarrow> 'q \<Rightarrow>
     ((queue_error, 'm) rust_result \<times> 'q) option" where
  "send_and_wait env send receive q =
     (case send q of
        (Inl e, q1) \<Rightarrow> Some (Inl e, q1)
      | (Inr _, q1) \<Rightarrow> wait_reply env receive 0 q1)"

definition drop_key :: "('q, 'k \<times> 'm \<times> 'q ack) mq_op \<Rightarrow> ('q, 'm \<times> 'q ack) mq_op" where
  "drop_key receive q =
     (case receive q of (Inl e, q1) \<Rightarrow> (Inl e, q1) | (Inr (_, msg, ack), q1) \<Rightarrow> (Inr (msg, ack), q1))"

definition call_service ::
    "'q mq_ops \<Rightarrow> (nat \<Rightarrow> 'q \<Rightarrow> 'q) \<Rightarrow> data_routing_key \<Rightarrow> request_message \<Rightarrow> 'q \<Rightarrow>
     ((queue_error, response_message) rust_result \<times> 'q) option" where
  "call_service mq env key msg q =
     (case dk_kind key of
        DkRequest agent service operation sequence \<Rightarrow>
          send_and_wait env (mq_send_request mq key msg)
            (drop_key (mq_receive_response mq (dk_submission key) agent service operation sequence)) q
      | _ \<Rightarrow> Some (Inl (SendFailed ''call_service_v2 requires a Request routing key''), q))"

text \<open>The queue as the \<open>n\<close>-th poll finds it, as long as every earlier poll timed out.\<close>

fun poll_state :: "(nat \<Rightarrow> 'q \<Rightarrow> 'q) \<Rightarrow> ('q, 'a) mq_op \<Rightarrow> nat \<Rightarrow> 'q \<Rightarrow> nat \<Rightarrow> 'q" where
  "poll_state env receive i q 0 = q"
| "poll_state env receive i q (Suc n) = poll_state env receive (Suc i) (env i (snd (receive q))) n"

lemma wait_reply_step:
  "fst (receive q) = Inl Timeout \<Longrightarrow>
     wait_reply env receive i q = wait_reply env receive (Suc i) (env i (snd (receive q)))"
  by (subst wait_reply.simps) (cases "receive q"; simp)

lemma wait_reply_done:
  "fst (receive q) \<noteq> Inl Timeout \<Longrightarrow>
     wait_reply env receive i q =
       Some (case receive q of
          (Inr (reply, ack), q1) \<Rightarrow> (Inr reply, snd (ack q1))
        | (Inl e, q1) \<Rightarrow> (Inl e, q1))"
  by (subst wait_reply.simps) (auto split: prod.splits sum.splits queue_error.splits)

lemma wait_reply_timeouts:
  "(\<And>m. m < n \<Longrightarrow> fst (receive (poll_state env receive i q m)) = Inl Timeout) \<Longrightarrow>
   wait_reply env receive i q = wait_reply env receive (i + n) (poll_state env receive i q n)"
proof (induction n arbitrary: i q)
  case 0
  then show ?case by simp
next
  case (Suc n)
  have "fst (receive q) = Inl Timeout" using Suc.prems [of 0] by simp
  moreover have "fst (receive (poll_state env receive (Suc i) (env i (snd (receive q))) m)) = Inl Timeout"
    if "m < n" for m
    using Suc.prems [of "Suc m"] that by simp
  ultimately show ?case using Suc.IH by (simp add: wait_reply_step)
qed

text \<open>A wait that returns has seen a poll that was not a timeout.\<close>

lemma wait_reply_returns:
  "wait_reply env receive i q = Some r \<Longrightarrow>
     \<exists>n. fst (receive (poll_state env receive i q n)) \<noteq> Inl Timeout"
proof (induction rule: wait_reply.raw_induct [rotated, consumes 1, case_names 1])
  case (1 wait env receive i q r)
  show ?case
  proof (cases "fst (receive q) = Inl Timeout")
    case True
    with 1(2) have "wait env receive (Suc i) (env i (snd (receive q))) = Some r"
      by (cases "receive q") simp
    from 1(1) [OF this] obtain n where
      "fst (receive (poll_state env receive (Suc i) (env i (snd (receive q))) n)) \<noteq> Inl Timeout" by blast
    then have "fst (receive (poll_state env receive i q (Suc n))) \<noteq> Inl Timeout" by simp
    then show ?thesis by blast
  next
    case False
    then have "fst (receive (poll_state env receive i q 0)) \<noteq> Inl Timeout" by simp
    then show ?thesis by blast
  qed
qed

text \<open>What every poll, every acknowledgement and the other tasks keep holds when the wait returns.\<close>

lemma wait_reply_keeps:
  assumes "wait_reply env receive i q = Some r" and "P q"
    and env: "\<And>i q. P q \<Longrightarrow> P (env i q)"
    and receive: "\<And>q. P q \<Longrightarrow> P (snd (receive q))"
    and ack: "\<And>q m ack q1. P q \<Longrightarrow> receive q = (Inr (m, ack), q1) \<Longrightarrow> P (snd (ack q1))"
  shows "P (snd r)"
  using assms
proof (induction rule: wait_reply.raw_induct [rotated, consumes 1, case_names 1])
  case (1 wait env receive i q r)
  obtain res q1 where rq: "receive q = (res, q1)" by (cases "receive q")
  have q1: "P q1" using 1(5) [OF 1(3)] rq by simp
  show ?case
  proof (cases res)
    case (Inr m)
    obtain x ack where m: "m = (x, ack)" by (cases m)
    have "P (snd (ack q1))" using 1(6) [OF 1(3)] rq Inr m by simp
    with 1(2) rq Inr m show ?thesis by auto
  next
    case (Inl e)
    show ?thesis
    proof (cases "e = Timeout")
      case True
      with 1(2) rq Inl have this_run: "wait env receive (Suc i) (env i q1) = Some r" by simp
      have "P (env i q1)" using 1(4) [OF q1] .
      from 1(1) [OF this_run this] 1(4-6) show ?thesis by blast
    next
      case False
      with 1(2) rq Inl q1 show ?thesis by (cases e) auto
    qed
  qed
qed

lemma wait_reply_terminates:
  "(\<exists>r. wait_reply env receive i q = Some r) \<longleftrightarrow>
     (\<exists>n. fst (receive (poll_state env receive i q n)) \<noteq> Inl Timeout)"
proof
  show "\<exists>r. wait_reply env receive i q = Some r \<Longrightarrow>
      \<exists>n. fst (receive (poll_state env receive i q n)) \<noteq> Inl Timeout"
    using wait_reply_returns by fast
next
  let ?P = "\<lambda>n. fst (receive (poll_state env receive i q n)) \<noteq> Inl Timeout"
  assume ex: "\<exists>n. ?P n"
  define k where "k = (LEAST n. ?P n)"
  have least: "?P k" unfolding k_def using ex by (rule LeastI_ex)
  have before: "\<And>m. m < k \<Longrightarrow> fst (receive (poll_state env receive i q m)) = Inl Timeout"
    unfolding k_def using not_less_Least [of _ ?P] by blast
  have "wait_reply env receive i q = wait_reply env receive (i + k) (poll_state env receive i q k)"
    using before by (rule wait_reply_timeouts)
  then show "\<exists>r. wait_reply env receive i q = Some r"
    unfolding wait_reply_done [where receive = receive and q = "poll_state env receive i q k", OF least]
    by blast
qed

section \<open>Properties\<close>

text \<open>
  A service call whose request is accepted returns exactly when some poll for the response ends in
  something other than a timeout; it never gives up on a timeout and never waits after a reply or an
  error.  A routing key of another kind is refused without touching the queue.
\<close>

theorem call_service_returns_iff:
  "(case dk_kind key of
      DkRequest agent service operation sequence \<Rightarrow>
        (case mq_send_request mq key msg q of
           (Inl e, q1) \<Rightarrow> call_service mq env key msg q = Some (Inl e, q1)
         | (Inr _, q1) \<Rightarrow>
             (let receive = drop_key (mq_receive_response mq (dk_submission key) agent service operation sequence)
              in (\<exists>r. call_service mq env key msg q = Some r) \<longleftrightarrow>
                 (\<exists>n. fst (receive (poll_state env receive 0 q1 n)) \<noteq> Inl Timeout)))
    | _ \<Rightarrow> call_service mq env key msg q =
             Some (Inl (SendFailed ''call_service_v2 requires a Request routing key''), q))"
  by (simp add: call_service_def send_and_wait_def wait_reply_terminates Let_def del: split_paired_Ex
      split: data_message_kind.split prod.split sum.split)

end
