(* ===== verification/MemQueue.thy ===== *)
theory MemQueue
  imports Queue
begin

text \<open>
  \<open>InMemoryQueue\<close> (\<open>queue/in_memory.rs\<close>): six \<open>HashMap\<close>s from routing keys to \<open>VecDeque\<close>s.  A map is
  the list of its entries in insertion order; the order in which \<open>iter_mut\<close> yields \<open>n\<close> entries is the
  parameter \<open>iter\<close>, a list of positions that the theorems only assume to contain every position.  An
  entry is never removed (a drained deque stays), so within one run the number of entries determines
  the table and its order.  A poisoned lock, which needs a panic under the lock, is not modelled.  The
  locale \<open>channel\<close> is the contract of one typed queue: per key first-in first-out, and a scan that
  finds nothing leaves nothing behind.
\<close>

section \<open>The contract of a typed queue\<close>

text \<open>A run of a channel: pushes and pops in any order, with what was sent and what was delivered.\<close>

inductive chan_run ::
    "('k \<Rightarrow> 'm \<Rightarrow> 'q \<Rightarrow> 'q) \<Rightarrow> ('r \<Rightarrow> 'q \<Rightarrow> ('k \<times> 'm) option \<times> 'q) \<Rightarrow>
     'q \<Rightarrow> ('k \<times> 'm) list \<Rightarrow> ('k \<times> 'm) list \<Rightarrow> 'q \<Rightarrow> bool"
  for push pop where
  run_nil: "chan_run push pop q [] [] q"
| run_push: "chan_run push pop q sent got q1 \<Longrightarrow> chan_run push pop q (sent @ [(k, m)]) got (push k m q1)"
| run_pop: "chan_run push pop q sent got q1 \<Longrightarrow> pop r q1 = (Some km, q2) \<Longrightarrow>
     chan_run push pop q sent (got @ [km]) q2"
| run_miss: "chan_run push pop q sent got q1 \<Longrightarrow> pop r q1 = (None, q2) \<Longrightarrow> chan_run push pop q sent got q2"

definition on_key :: "'k \<Rightarrow> ('k \<times> 'm) list \<Rightarrow> 'm list" where
  "on_key k xs = map snd (filter (\<lambda>x. fst x = k) xs)"

lemma on_key_simps [simp]:
  "on_key k [] = []"
  "on_key k (xs @ ys) = on_key k xs @ on_key k ys"
  "on_key k [(k', m)] = (if k' = k then [m] else [])"
  by (auto simp: on_key_def)

locale channel =
  fixes inv :: "'q \<Rightarrow> bool"
    and pending :: "'q \<Rightarrow> 'k \<Rightarrow> 'm list"
    and push :: "'k \<Rightarrow> 'm \<Rightarrow> 'q \<Rightarrow> 'q"
    and matches :: "'r \<Rightarrow> 'k \<Rightarrow> bool"
    and pop :: "'r \<Rightarrow> 'q \<Rightarrow> ('k \<times> 'm) option \<times> 'q"
  assumes inv_push: "inv q \<Longrightarrow> inv (push k m q)"
    and pending_push: "pending (push k m q) = (pending q)(k := pending q k @ [m])"
    and pop_Some: "inv q \<Longrightarrow> pop r q = (Some (k, m), q') \<Longrightarrow>
          inv q' \<and> matches r k \<and> pending q k = m # pending q' k \<and>
          (\<forall>k'. k' \<noteq> k \<longrightarrow> pending q' k' = pending q k')"
    and pop_None: "inv q \<Longrightarrow> pop r q = (None, q') \<Longrightarrow> q' = q \<and> (\<forall>k. matches r k \<longrightarrow> pending q k = [])"
begin

lemma run_inv: "chan_run push pop q sent got q1 \<Longrightarrow> inv q \<Longrightarrow> inv q1"
proof (induction rule: chan_run.induct)
  case (run_pop q sent got q1 r km q2)
  then show ?case using pop_Some by (cases km) blast
next
  case (run_miss q sent got q1 r q2)
  then show ?case using pop_None by blast
qed (auto intro: inv_push)

lemma run_fifo:
  "chan_run push pop q sent got q1 \<Longrightarrow> inv q \<Longrightarrow>
     pending q k @ on_key k sent = on_key k got @ pending q1 k"
proof (induction rule: chan_run.induct)
  case (run_pop q sent got q1 r km q2)
  obtain k' m where km: "km = (k', m)" by (cases km)
  show ?case
    using run_pop pop_Some [OF run_inv [OF run_pop(1,4)] run_pop(2) [unfolded km]] km
    by (cases "k' = k") auto
next
  case (run_miss q sent got q1 r q2)
  then show ?case using pop_None [OF run_inv] by metis
qed (auto simp: pending_push)

lemma pop_misses_iff:
  "inv q \<Longrightarrow> fst (pop r q) = None \<longleftrightarrow> (\<forall>k. matches r k \<longrightarrow> pending q k = [])"
  using pop_None [of q r "snd (pop r q)"] pop_Some [of q r _ _ "snd (pop r q)"]
  by (cases "pop r q"; cases "fst (pop r q)") fastforce+

lemma push_pop:
  assumes inv: "inv q" and empty: "\<And>k'. matches r k' \<Longrightarrow> pending q k' = []" and k: "matches r k"
  shows "fst (pop r (push k m q)) = Some (k, m)"
proof (cases "fst (pop r (push k m q))")
  case None
  then have "pending (push k m q) k = []" using pop_misses_iff [OF inv_push [OF inv]] k by blast
  then show ?thesis by (simp add: pending_push)
next
  case (Some km)
  obtain k' m' where km: "km = (k', m')" by (cases km)
  let ?q = "snd (pop r (push k m q))"
  have pop: "pop r (push k m q) = (Some (k', m'), ?q)" using Some km by (metis prod.collapse)
  note facts = pop_Some [OF inv_push [OF inv] pop]
  then have "k' = k" using empty [of k'] by (auto simp: pending_push split: if_splits)
  with facts empty [OF k] have "m' = m" by (simp add: pending_push)
  with \<open>k' = k\<close> Some km show ?thesis by simp
qed

end

section \<open>One typed queue\<close>

type_synonym ('k, 'm) hash_queue = "('k \<times> 'm list) list"

text \<open>\<open>q.entry(key).or_default().push_back(msg)\<close>\<close>

fun hq_push :: "'k \<Rightarrow> 'm \<Rightarrow> ('k, 'm) hash_queue \<Rightarrow> ('k, 'm) hash_queue" where
  "hq_push k m [] = [(k, [m])]"
| "hq_push k m ((k', ms) # q) = (if k' = k then (k', ms @ [m]) # q else (k', ms) # hq_push k m q)"

fun hq_pending :: "('k, 'm) hash_queue \<Rightarrow> 'k \<Rightarrow> 'm list" where
  "hq_pending [] k = []"
| "hq_pending ((k', ms) # q) k = (if k' = k then ms else hq_pending q k)"

definition hq_distinct :: "('k, 'm) hash_queue \<Rightarrow> bool" where
  "hq_distinct q = distinct (map fst q)"

text \<open>\<open>for (key, queue) in q.iter_mut()\<close>, the first entry that matches and is not empty is popped.\<close>

fun hq_scan :: "('k \<Rightarrow> bool) \<Rightarrow> nat list \<Rightarrow> ('k, 'm) hash_queue \<Rightarrow> ('k \<times> 'm) option \<times> ('k, 'm) hash_queue" where
  "hq_scan p [] q = (None, q)"
| "hq_scan p (i # is) q =
     (if i < length q \<and> p (fst (q ! i))
      then (case snd (q ! i) of
              [] \<Rightarrow> hq_scan p is q
            | m # ms \<Rightarrow> (Some (fst (q ! i), m), q[i := (fst (q ! i), ms)]))
      else hq_scan p is q)"

text \<open>\<open>q.get_mut(key)\<close> and \<open>pop_front\<close>\<close>

fun hq_take :: "'k \<Rightarrow> ('k, 'm) hash_queue \<Rightarrow> 'm option \<times> ('k, 'm) hash_queue" where
  "hq_take k [] = (None, [])"
| "hq_take k ((k', ms) # q) =
     (if k' = k then (case ms of [] \<Rightarrow> (None, (k', ms) # q) | m # ms' \<Rightarrow> (Some m, (k', ms') # q))
      else (let (r, q') = hq_take k q in (r, (k', ms) # q')))"

lemma hq_push_keys: "set (map fst (hq_push k m q)) = insert k (set (map fst q))"
  by (induction k m q rule: hq_push.induct) auto

lemma hq_distinct_simps [simp]:
  "hq_distinct []"
  "hq_distinct ((k, ms) # q) \<longleftrightarrow> k \<notin> fst ` set q \<and> hq_distinct q"
  by (simp_all add: hq_distinct_def)

lemma hq_push_distinct: "hq_distinct q \<Longrightarrow> hq_distinct (hq_push k m q)"
proof (induction k m q rule: hq_push.induct)
  case (2 k m k' ms q)
  then show ?case using hq_push_keys [of k m q] by auto
qed simp

lemma hq_pending_push: "hq_pending (hq_push k m q) = (hq_pending q)(k := hq_pending q k @ [m])"
  by (induction k m q rule: hq_push.induct) (auto simp: fun_eq_iff)

lemma hq_pending_nth: "hq_distinct q \<Longrightarrow> i < length q \<Longrightarrow> hq_pending q (fst (q ! i)) = snd (q ! i)"
proof (induction q arbitrary: i)
  case (Cons x q)
  then show ?case by (cases x; cases i) (auto simp: image_iff)
qed simp

lemma hq_pending_absent: "k \<notin> fst ` set q \<Longrightarrow> hq_pending q k = []"
  by (induction q) auto

lemma hq_update_keys: "i < length q \<Longrightarrow> map fst (q[i := (fst (q ! i), ms)]) = map fst q"
  by (simp add: map_update list_update_same_conv)

lemma hq_update_distinct: "hq_distinct q \<Longrightarrow> i < length q \<Longrightarrow> hq_distinct (q[i := (fst (q ! i), ms)])"
  by (simp only: hq_distinct_def hq_update_keys)

lemma hq_pending_update:
  "hq_distinct q \<Longrightarrow> i < length q \<Longrightarrow>
     hq_pending (q[i := (fst (q ! i), ms)]) = (hq_pending q)(fst (q ! i) := ms)"
proof (induction q arbitrary: i)
  case (Cons x q)
  obtain k l where x: "x = (k, l)" by (cases x)
  show ?case
  proof (cases i)
    case 0
    with x show ?thesis by (auto simp: fun_eq_iff)
  next
    case (Suc j)
    with Cons.prems x have "fst (q ! j) \<noteq> k" by (auto simp: image_iff)
    with Suc x Cons show ?thesis by (auto simp: fun_eq_iff)
  qed
qed simp

lemma hq_scan_hit:
  "i < length q \<Longrightarrow> p (fst (q ! i)) \<Longrightarrow> snd (q ! i) = m # ms \<Longrightarrow>
     hq_scan p (i # is) q = (Some (fst (q ! i), m), q[i := (fst (q ! i), ms)])"
  by simp

lemma hq_scan_skip:
  "\<not> (i < length q \<and> p (fst (q ! i)) \<and> snd (q ! i) \<noteq> []) \<Longrightarrow> hq_scan p (i # is) q = hq_scan p is q"
  by (auto split: list.split)

lemma hq_scan_Some:
  "hq_scan p is q = (Some (k, m), q') \<Longrightarrow>
     \<exists>i ms. i < length q \<and> fst (q ! i) = k \<and> p k \<and> snd (q ! i) = m # ms \<and> q' = q[i := (fst (q ! i), ms)]"
proof (induction "is")
  case (Cons i "is")
  show ?case
  proof (cases "i < length q \<and> p (fst (q ! i)) \<and> snd (q ! i) \<noteq> []")
    case True
    then obtain m' ms where ms: "snd (q ! i) = m' # ms" by (cases "snd (q ! i)") simp_all
    with True Cons.prems have eq: "fst (q ! i) = k" "m' = m" and q': "q[i := (fst (q ! i), ms)] = q'"
      by (auto simp: hq_scan_hit simp del: hq_scan.simps)
    show ?thesis
      unfolding q' [symmetric] using True ms eq by (intro exI [of _ i] exI [of _ ms]) simp
  next
    case False
    have "hq_scan p is q = (Some (k, m), q')"
      using Cons.prems hq_scan_skip [where i = i and p = p and q = q, OF False] by simp
    from Cons.IH [OF this] show ?thesis .
  qed
qed simp

lemma hq_scan_None:
  "hq_scan p is q = (None, q') \<Longrightarrow>
     q' = q \<and> (\<forall>i \<in> set is. i < length q \<longrightarrow> p (fst (q ! i)) \<longrightarrow> snd (q ! i) = [])"
proof (induction "is")
  case (Cons i "is")
  show ?case
  proof (cases "i < length q \<and> p (fst (q ! i)) \<and> snd (q ! i) \<noteq> []")
    case True
    then obtain m' ms where "snd (q ! i) = m' # ms" by (cases "snd (q ! i)") simp_all
    with True Cons.prems show ?thesis by (simp add: hq_scan_hit del: hq_scan.simps)
  next
    case False
    have "hq_scan p is q = (None, q')" using Cons.prems hq_scan_skip [where i = i and p = p and q = q, OF False] by simp
    from Cons.IH [OF this] False show ?thesis by auto
  qed
qed simp

text \<open>A scan in an iteration order that visits every entry is a channel.\<close>

definition visits_all :: "(nat \<Rightarrow> nat list) \<Rightarrow> bool" where
  "visits_all iter \<longleftrightarrow> (\<forall>n. {..<n} \<subseteq> set (iter n))"

definition hq_pop ::
    "(nat \<Rightarrow> nat list) \<Rightarrow> ('k \<Rightarrow> bool) \<Rightarrow> ('k, 'm) hash_queue \<Rightarrow> ('k \<times> 'm) option \<times> ('k, 'm) hash_queue" where
  "hq_pop iter p q = hq_scan p (iter (length q)) q"

lemma hq_pop_Some:
  assumes "hq_distinct q" and "hq_pop iter p q = (Some (k, m), q')"
  shows "hq_distinct q' \<and> p k \<and> hq_pending q k = m # hq_pending q' k \<and>
           (\<forall>k'. k' \<noteq> k \<longrightarrow> hq_pending q' k' = hq_pending q k')"
proof -
  obtain i ms where i: "i < length q" "fst (q ! i) = k" "p k" "snd (q ! i) = m # ms"
      "q' = q[i := (fst (q ! i), ms)]"
    using hq_scan_Some [OF assms(2) [unfolded hq_pop_def]] by blast
  then show ?thesis
    using hq_pending_nth [OF assms(1) i(1)] hq_pending_update [OF assms(1) i(1), of ms]
      hq_update_distinct [OF assms(1) i(1), of ms]
    by simp
qed

lemma hq_pop_None:
  assumes "visits_all iter" and "hq_distinct q" and "hq_pop iter p q = (None, q')"
  shows "q' = q \<and> (\<forall>k. p k \<longrightarrow> hq_pending q k = [])"
proof -
  note scan = hq_scan_None [OF assms(3) [unfolded hq_pop_def]]
  have "hq_pending q k = []" if k: "p k" for k
  proof (cases "k \<in> fst ` set q")
    case True
    then obtain i where i: "i < length q" "fst (q ! i) = k" by (auto simp: in_set_conv_nth)
    then have "i \<in> set (iter (length q))" using assms(1) by (auto simp: visits_all_def)
    with scan i k have "snd (q ! i) = []" by blast
    with hq_pending_nth [OF assms(2) i(1)] i(2) show ?thesis by simp
  qed (rule hq_pending_absent)
  with scan show ?thesis by blast
qed

lemma hq_take_spec:
  "hq_take k q = (r, q') \<Longrightarrow> hq_distinct q \<Longrightarrow>
     (case r of None \<Rightarrow> q' = q \<and> hq_pending q k = []
      | Some m \<Rightarrow> map fst q' = map fst q \<and> hq_pending q = (hq_pending q')(k := m # hq_pending q' k))"
proof (induction k q arbitrary: r q' rule: hq_take.induct)
  case (2 k k' ms q)
  obtain r1 q1 where rec: "hq_take k q = (r1, q1)" by (cases "hq_take k q")
  show ?case
  proof (cases "k' = k")
    case True
    with 2(2) show ?thesis by (auto simp: fun_eq_iff split: list.splits)
  next
    case False
    with 2(2) rec have r: "r = r1" "q' = (k', ms) # q1" by auto
    have "hq_distinct q" using 2(3) by simp
    from 2(1) [OF False rec this] False r show ?thesis
      by (auto simp: fun_eq_iff split: option.splits)
  qed
qed simp

section \<open>The in-memory message queue\<close>

record mem_queue =
  mq_invokes :: "(data_routing_key, invoke_message) hash_queue"
  mq_completes :: "(data_routing_key, complete_message) hash_queue"
  mq_requests :: "(data_routing_key, request_message) hash_queue"
  mq_responses :: "(data_routing_key, response_message) hash_queue"
  mq_svc_requests :: "(svc_routing_key, request_v2) hash_queue"
  mq_svc_responses :: "(svc_routing_key, response_v2) hash_queue"

definition mem_queue_new :: mem_queue where
  "mem_queue_new =
     \<lparr>mq_invokes = [], mq_completes = [], mq_requests = [], mq_responses = [], mq_svc_requests = [],
      mq_svc_responses = []\<rparr>"

definition imq_send_invoke :: "data_routing_key \<Rightarrow> invoke_message \<Rightarrow> (mem_queue, dag_node_id) mq_op" where
  "imq_send_invoke key msg q = (Inr (iv_dag_id msg), q\<lparr>mq_invokes := hq_push key msg (mq_invokes q)\<rparr>)"

definition is_invoke_for :: "agent_name \<Rightarrow> data_routing_key \<Rightarrow> bool" where
  "is_invoke_for agent key = (case dk_kind key of DkInvoke _ _ a \<Rightarrow> a = agent | _ \<Rightarrow> False)"

definition imq_receive_invoke ::
    "(nat \<Rightarrow> nat list) \<Rightarrow> agent_name \<Rightarrow>
     (mem_queue, data_routing_key \<times> invoke_message \<times> mem_queue ack) mq_op" where
  "imq_receive_invoke iter agent q =
     (case hq_pop iter (is_invoke_for agent) (mq_invokes q) of
        (None, _) \<Rightarrow> (Inl Timeout, q)
      | (Some (key, msg), h) \<Rightarrow> (Inr (key, msg, noop_ack), q\<lparr>mq_invokes := h\<rparr>))"

definition imq_send_complete :: "data_routing_key \<Rightarrow> complete_message \<Rightarrow> (mem_queue, dag_node_id) mq_op" where
  "imq_send_complete key msg q = (Inr (cm_dag_id msg), q\<lparr>mq_completes := hq_push key msg (mq_completes q)\<rparr>)"

definition is_complete_of :: "submission_id \<Rightarrow> data_routing_key \<Rightarrow> bool" where
  "is_complete_of submission key =
     (dk_submission key = submission \<and> (case dk_kind key of DkComplete _ _ \<Rightarrow> True | _ \<Rightarrow> False))"

text \<open>The harness and the agent are ignored: \<open>_harness\<close> and \<open>_agent\<close> in the source.\<close>

definition imq_receive_complete ::
    "(nat \<Rightarrow> nat list) \<Rightarrow> submission_id \<Rightarrow> harness_type \<Rightarrow> agent_name \<Rightarrow>
     (mem_queue, data_routing_key \<times> complete_message \<times> mem_queue ack) mq_op" where
  "imq_receive_complete iter submission harness agent q =
     (case hq_pop iter (is_complete_of submission) (mq_completes q) of
        (None, _) \<Rightarrow> (Inl Timeout, q)
      | (Some (key, msg), h) \<Rightarrow> (Inr (key, msg, noop_ack), q\<lparr>mq_completes := h\<rparr>))"

definition imq_send_request :: "data_routing_key \<Rightarrow> request_message \<Rightarrow> (mem_queue, dag_node_id) mq_op" where
  "imq_send_request key msg q = (Inr (rq_dag_id msg), q\<lparr>mq_requests := hq_push key msg (mq_requests q)\<rparr>)"

definition is_request_for :: "service_backend \<Rightarrow> operation \<Rightarrow> data_routing_key \<Rightarrow> bool" where
  "is_request_for service operation key =
     (case dk_kind key of DkRequest _ s o' _ \<Rightarrow> s = service \<and> o' = operation | _ \<Rightarrow> False)"

definition imq_receive_request ::
    "(nat \<Rightarrow> nat list) \<Rightarrow> service_backend \<Rightarrow> operation \<Rightarrow>
     (mem_queue, data_routing_key \<times> request_message \<times> mem_queue ack) mq_op" where
  "imq_receive_request iter service operation q =
     (case hq_pop iter (is_request_for service operation) (mq_requests q) of
        (None, _) \<Rightarrow> (Inl Timeout, q)
      | (Some (key, msg), h) \<Rightarrow> (Inr (key, msg, noop_ack), q\<lparr>mq_requests := h\<rparr>))"

definition imq_send_response :: "data_routing_key \<Rightarrow> response_message \<Rightarrow> (mem_queue, dag_node_id) mq_op" where
  "imq_send_response key msg q = (Inr (rs_dag_id msg), q\<lparr>mq_responses := hq_push key msg (mq_responses q)\<rparr>)"

definition is_response_of ::
    "submission_id \<Rightarrow> service_backend \<Rightarrow> operation \<Rightarrow> sequence \<Rightarrow> data_routing_key \<Rightarrow> bool" where
  "is_response_of submission service operation sequence key =
     (dk_submission key = submission \<and>
      (case dk_kind key of
         DkResponse _ s o' n \<Rightarrow> s = service \<and> o' = operation \<and> n = sequence
       | _ \<Rightarrow> False))"

definition imq_receive_response ::
    "(nat \<Rightarrow> nat list) \<Rightarrow> submission_id \<Rightarrow> agent_name \<Rightarrow> service_backend \<Rightarrow> operation \<Rightarrow> sequence \<Rightarrow>
     (mem_queue, data_routing_key \<times> response_message \<times> mem_queue ack) mq_op" where
  "imq_receive_response iter submission agent service operation sequence q =
     (case hq_pop iter (is_response_of submission service operation sequence) (mq_responses q) of
        (None, _) \<Rightarrow> (Inl Timeout, q)
      | (Some (key, msg), h) \<Rightarrow> (Inr (key, msg, noop_ack), q\<lparr>mq_responses := h\<rparr>))"

definition imq_send_svc_request :: "svc_routing_key \<Rightarrow> request_v2 \<Rightarrow> (mem_queue, dag_node_id) mq_op" where
  "imq_send_svc_request key msg q =
     (Inr (rq2_dag_id msg), q\<lparr>mq_svc_requests := hq_push key msg (mq_svc_requests q)\<rparr>)"

definition imq_receive_svc_request_mcp ::
    "(nat \<Rightarrow> nat list) \<Rightarrow> (mem_queue, svc_routing_key \<times> request_v2 \<times> mem_queue ack) mq_op" where
  "imq_receive_svc_request_mcp iter q =
     (case hq_pop iter (\<lambda>_. True) (mq_svc_requests q) of
        (None, _) \<Rightarrow> (Inl Timeout, q)
      | (Some (key, msg), h) \<Rightarrow> (Inr (key, msg, noop_ack), q\<lparr>mq_svc_requests := h\<rparr>))"

definition imq_send_svc_response :: "svc_routing_key \<Rightarrow> response_v2 \<Rightarrow> (mem_queue, dag_node_id) mq_op" where
  "imq_send_svc_response key msg q =
     (Inr (rs2_dag_id msg), q\<lparr>mq_svc_responses := hq_push key msg (mq_svc_responses q)\<rparr>)"

text \<open>The response key that corresponds to a request key.\<close>

definition svc_response_key :: "svc_routing_key \<Rightarrow> svc_routing_key option" where
  "svc_response_key key =
     (case vk_kind key of
        VkSvcRequest agent service operation sequence \<Rightarrow>
          Some (key\<lparr>vk_kind := VkSvcResponse agent service operation sequence\<rparr>)
      | _ \<Rightarrow> None)"

definition imq_receive_svc_response ::
    "svc_routing_key \<Rightarrow> (mem_queue, svc_routing_key \<times> response_v2 \<times> mem_queue ack) mq_op" where
  "imq_receive_svc_response key q =
     (case hq_take key (mq_svc_responses q) of
        (Some msg, h) \<Rightarrow> (Inr (key, msg, noop_ack), q\<lparr>mq_svc_responses := h\<rparr>)
      | (None, _) \<Rightarrow>
          (case svc_response_key key of
             None \<Rightarrow> (Inl Timeout, q)
           | Some response_key \<Rightarrow>
               (case hq_take response_key (mq_svc_responses q) of
                  (Some msg, h) \<Rightarrow> (Inr (response_key, msg, noop_ack), q\<lparr>mq_svc_responses := h\<rparr>)
                | (None, _) \<Rightarrow> (Inl Timeout, q))))"

text \<open>Each map hashes with its own random state, so each has an iteration order of its own.\<close>

definition mem_mq_ops :: "(nat \<Rightarrow> nat \<Rightarrow> nat list) \<Rightarrow> mem_queue mq_ops" where
  "mem_mq_ops iter =
     \<lparr>mq_on_cluster_start = mq_default_ok,
      mq_on_agent_deployed = (\<lambda>_. mq_default_ok),
      mq_on_agent_deleted = (\<lambda>_. mq_default_ok),
      mq_send_invoke = imq_send_invoke,
      mq_receive_invoke = imq_receive_invoke (iter 0),
      mq_send_complete = imq_send_complete,
      mq_receive_complete = imq_receive_complete (iter 1),
      mq_send_request = imq_send_request,
      mq_receive_request = imq_receive_request (iter 2),
      mq_send_response = imq_send_response,
      mq_receive_response = imq_receive_response (iter 3),
      mq_send_fork = (\<lambda>_ _. mq_default_ok),
      mq_receive_fork = mq_default_receive,
      mq_send_promote = (\<lambda>_ _. mq_default_ok),
      mq_receive_promote = mq_default_receive,
      mq_send_session_start = (\<lambda>_ _ _ q. (Inr 1, q)),
      mq_send_deploy_agent = (\<lambda>_ _. mq_default_ok),
      mq_receive_deploy_agent = mq_default_receive,
      mq_send_delete_agent = (\<lambda>_ _. mq_default_ok),
      mq_receive_delete_agent = mq_default_receive,
      mq_receive_any = mq_default_receive,
      mq_send_svc_request = imq_send_svc_request,
      mq_receive_svc_request_mcp = imq_receive_svc_request_mcp (iter 4),
      mq_send_svc_response = imq_send_svc_response,
      mq_receive_svc_response = imq_receive_svc_response\<rparr>"

section \<open>The operations are channels\<close>

definition delivered ::
    "(queue_error, 'k \<times> 'm \<times> 'q ack) rust_result \<times> 'q \<Rightarrow> ('k \<times> 'm) option \<times> 'q" where
  "delivered res =
     (case res of (Inl _, q) \<Rightarrow> (None, q) | (Inr (key, msg, _), q) \<Rightarrow> (Some (key, msg), q))"

lemma delivered_simps [simp]:
  "delivered (Inl e, q) = (None, q)" "delivered (Inr (k, m, a), q) = (Some (k, m), q)"
  by (simp_all add: delivered_def)

definition invoke_push :: "data_routing_key \<Rightarrow> invoke_message \<Rightarrow> mem_queue \<Rightarrow> mem_queue" where
  "invoke_push k m q = snd (imq_send_invoke k m q)"

definition invoke_pop ::
    "(nat \<Rightarrow> nat list) \<Rightarrow> agent_name \<Rightarrow> mem_queue \<Rightarrow> (data_routing_key \<times> invoke_message) option \<times> mem_queue" where
  "invoke_pop iter a q = delivered (imq_receive_invoke iter a q)"

definition complete_push :: "data_routing_key \<Rightarrow> complete_message \<Rightarrow> mem_queue \<Rightarrow> mem_queue" where
  "complete_push k m q = snd (imq_send_complete k m q)"

definition complete_pop ::
    "(nat \<Rightarrow> nat list) \<Rightarrow> submission_id \<times> harness_type \<times> agent_name \<Rightarrow> mem_queue \<Rightarrow>
     (data_routing_key \<times> complete_message) option \<times> mem_queue" where
  "complete_pop iter r q = (case r of (s, h, a) \<Rightarrow> delivered (imq_receive_complete iter s h a q))"

definition request_push :: "data_routing_key \<Rightarrow> request_message \<Rightarrow> mem_queue \<Rightarrow> mem_queue" where
  "request_push k m q = snd (imq_send_request k m q)"

definition request_pop ::
    "(nat \<Rightarrow> nat list) \<Rightarrow> service_backend \<times> operation \<Rightarrow> mem_queue \<Rightarrow>
     (data_routing_key \<times> request_message) option \<times> mem_queue" where
  "request_pop iter r q = (case r of (s, p) \<Rightarrow> delivered (imq_receive_request iter s p q))"

definition response_push :: "data_routing_key \<Rightarrow> response_message \<Rightarrow> mem_queue \<Rightarrow> mem_queue" where
  "response_push k m q = snd (imq_send_response k m q)"

definition response_pop ::
    "(nat \<Rightarrow> nat list) \<Rightarrow> submission_id \<times> agent_name \<times> service_backend \<times> operation \<times> sequence \<Rightarrow>
     mem_queue \<Rightarrow> (data_routing_key \<times> response_message) option \<times> mem_queue" where
  "response_pop iter r q =
     (case r of (s, a, b, p, n) \<Rightarrow> delivered (imq_receive_response iter s a b p n q))"

lemmas channel_ops_defs = invoke_push_def invoke_pop_def complete_push_def complete_pop_def
  request_push_def request_pop_def response_push_def response_pop_def
  imq_send_invoke_def imq_receive_invoke_def imq_send_complete_def imq_receive_complete_def
  imq_send_request_def imq_receive_request_def imq_send_response_def imq_receive_response_def

locale hash_iteration =
  fixes iter :: "nat \<Rightarrow> nat list"
  assumes visits: "visits_all iter"

sublocale hash_iteration \<subseteq> invokes: channel "\<lambda>q. hq_distinct (mq_invokes q)"
  "\<lambda>q. hq_pending (mq_invokes q)" invoke_push is_invoke_for "invoke_pop iter"
  using hq_pop_None [OF visits]
  by unfold_locales
    (auto simp: channel_ops_defs hq_push_distinct hq_pending_push split: prod.splits option.splits
      dest: hq_pop_Some)

sublocale hash_iteration \<subseteq> completes: channel "\<lambda>q. hq_distinct (mq_completes q)"
  "\<lambda>q. hq_pending (mq_completes q)" complete_push "\<lambda>(s, _, _). is_complete_of s" "complete_pop iter"
  using hq_pop_None [OF visits]
  by unfold_locales
    (auto simp: channel_ops_defs hq_push_distinct hq_pending_push split: prod.splits option.splits
      dest: hq_pop_Some)

sublocale hash_iteration \<subseteq> requests: channel "\<lambda>q. hq_distinct (mq_requests q)"
  "\<lambda>q. hq_pending (mq_requests q)" request_push "\<lambda>(s, p). is_request_for s p" "request_pop iter"
  using hq_pop_None [OF visits]
  by unfold_locales
    (auto simp: channel_ops_defs hq_push_distinct hq_pending_push split: prod.splits option.splits
      dest: hq_pop_Some)

sublocale hash_iteration \<subseteq> responses: channel "\<lambda>q. hq_distinct (mq_responses q)"
  "\<lambda>q. hq_pending (mq_responses q)" response_push "\<lambda>(s, _, b, p, n). is_response_of s b p n"
  "response_pop iter"
  using hq_pop_None [OF visits]
  by unfold_locales
    (auto simp: channel_ops_defs hq_push_distinct hq_pending_push split: prod.splits option.splits
      dest: hq_pop_Some)

lemma visits_all_upt [simp]: "visits_all (\<lambda>n. [0..<n])" "visits_all (\<lambda>n. rev [0..<n])"
  by (auto simp: visits_all_def)

interpretation insertion_order: hash_iteration "\<lambda>n. [0..<n]"
  by unfold_locales simp

lemma mem_queue_new_pending [simp]:
  "hq_distinct (mq_invokes mem_queue_new)" "hq_pending (mq_invokes mem_queue_new) k = []"
  "hq_distinct (mq_completes mem_queue_new)" "hq_pending (mq_completes mem_queue_new) k = []"
  "hq_distinct (mq_requests mem_queue_new)" "hq_pending (mq_requests mem_queue_new) k = []"
  "hq_distinct (mq_responses mem_queue_new)" "hq_pending (mq_responses mem_queue_new) k = []"
  by (simp_all add: mem_queue_new_def)

lemma invoke_pop_None:
  "fst (invoke_pop iter a q) = None \<longleftrightarrow> fst (imq_receive_invoke iter a q) = Inl Timeout"
  by (auto simp: invoke_pop_def imq_receive_invoke_def split: prod.split option.split)

lemma response_pop_None:
  "fst (response_pop iter (s, a, b, p, n) q) = None \<longleftrightarrow>
     fst (imq_receive_response iter s a b p n q) = Inl Timeout"
  by (auto simp: response_pop_def imq_receive_response_def split: prod.split option.split)

context hash_iteration
begin

lemma invoke_fifo:
  assumes "chan_run invoke_push (invoke_pop iter) mem_queue_new sent got q"
  shows "on_key k sent = on_key k got @ hq_pending (mq_invokes q) k"
    and "fst (imq_receive_invoke iter agent q) = Inl Timeout \<longleftrightarrow>
           (\<forall>key. is_invoke_for agent key \<longrightarrow> hq_pending (mq_invokes q) key = [])"
  using invokes.run_fifo [OF assms, of k] invokes.run_inv [OF assms]
    invokes.pop_misses_iff [of q agent] invoke_pop_None [of iter agent q]
  by simp_all

lemma invoke_push_pop:
  assumes "hq_distinct (mq_invokes q)"
    and "\<forall>k. is_invoke_for agent k \<longrightarrow> hq_pending (mq_invokes q) k = []"
    and "dk_kind key = DkInvoke h rt agent"
  shows "fst (invoke_pop iter agent (invoke_push key msg q)) = Some (key, msg)"
  using assms by (intro invokes.push_pop) (auto simp: is_invoke_for_def)

lemma complete_any_agent:
  assumes "hq_distinct (mq_completes q)"
    and "\<And>k'. is_complete_of (dk_submission key) k' \<Longrightarrow> hq_pending (mq_completes q) k' = []"
    and "dk_kind key = DkComplete b g"
  shows "fst (imq_receive_complete iter (dk_submission key) h a (snd (imq_send_complete key msg q))) =
           Inr (key, msg, noop_ack)"
proof -
  have "fst (complete_pop iter (dk_submission key, h, a) (complete_push key msg q)) = Some (key, msg)"
    using assms by (intro completes.push_pop) (auto simp: is_complete_of_def)
  then show ?thesis
    by (auto simp: complete_pop_def complete_push_def imq_receive_complete_def
        split: prod.splits option.splits)
qed

lemma response_correlated:
  assumes "hq_distinct (mq_responses q)"
    and "\<And>k'. is_response_of (dk_submission key) b p n k' \<Longrightarrow> hq_pending (mq_responses q) k' = []"
    and "dk_kind key = DkResponse a b p n"
  shows "fst (imq_receive_response iter (dk_submission key) a b p n (snd (imq_send_response key msg q))) =
           Inr (key, msg, noop_ack)"
proof -
  have "fst (response_pop iter (dk_submission key, a, b, p, n) (response_push key msg q)) = Some (key, msg)"
    using assms by (intro responses.push_pop) (auto simp: is_response_of_def)
  then show ?thesis
    by (auto simp: response_pop_def response_push_def imq_receive_response_def
        split: prod.splits option.splits)
qed

end

section \<open>Properties\<close>

text \<open>
  C16: whatever the iteration order of the hash map, per routing key the invokes an agent receives are
  the invokes sent, in the order they were sent, none lost and none twice; and a receive times out
  only when no invoke for that agent is pending.
\<close>

theorem imq_invoke_fifo:
  assumes "visits_all iter"
    and "chan_run invoke_push (invoke_pop iter) mem_queue_new sent got q"
  shows "on_key k sent = on_key k got @ hq_pending (mq_invokes q) k \<and>
         (fst (imq_receive_invoke iter agent q) = Inl Timeout \<longleftrightarrow>
           (\<forall>key. is_invoke_for agent key \<longrightarrow> hq_pending (mq_invokes q) key = []))"
  using hash_iteration.invoke_fifo [OF hash_iteration.intro [OF assms(1)] assms(2)] by simp

definition example_invoke :: "string \<Rightarrow> invoke_message" where
  "example_invoke i =
     \<lparr>iv_id = i, iv_dag_id = [], iv_state = None, iv_diagnostics = \<lparr>idg_harness_version = ''0.1''\<rparr>,
      iv_dag_parent = [], iv_current_input = [User ''hi'']\<rparr>"

definition example_data_key :: "data_message_kind \<Rightarrow> data_routing_key" where
  "example_data_key kind =
     \<lparr>dk_session = ''s'', dk_branch = 1, dk_submission = ''sub'', dk_kind = kind\<rparr>"

lemma example_invoke_run:
  "let k = example_data_key (DkInvoke HCli RtContainer ''todo'')
   in chan_run invoke_push (invoke_pop (\<lambda>n. [0..<n])) mem_queue_new
        [(k, example_invoke ''1''), (k, example_invoke ''2'')] [(k, example_invoke ''1'')]
        (snd (invoke_pop (\<lambda>n. [0..<n]) ''todo''
          (invoke_push k (example_invoke ''2'') (invoke_push k (example_invoke ''1'') mem_queue_new))))"
proof -
  let ?k = "example_data_key (DkInvoke HCli RtContainer ''todo'')"
  let ?push = "invoke_push ?k"
  let ?q = "?push (example_invoke ''2'') (?push (example_invoke ''1'') mem_queue_new)"
  have "chan_run invoke_push (invoke_pop (\<lambda>n. [0..<n])) mem_queue_new
      (([] @ [(?k, example_invoke ''1'')]) @ [(?k, example_invoke ''2'')]) [] ?q"
    by (intro chan_run.intros)
  moreover have "invoke_pop (\<lambda>n. [0..<n]) ''todo'' ?q =
      (Some (?k, example_invoke ''1''), snd (invoke_pop (\<lambda>n. [0..<n]) ''todo'' ?q))"
    by (simp add: channel_ops_defs mem_queue_new_def hq_pop_def is_invoke_for_def example_data_key_def)
  ultimately have "chan_run invoke_push (invoke_pop (\<lambda>n. [0..<n])) mem_queue_new
      (([] @ [(?k, example_invoke ''1'')]) @ [(?k, example_invoke ''2'')]) ([] @ [(?k, example_invoke ''1'')])
      (snd (invoke_pop (\<lambda>n. [0..<n]) ''todo'' ?q))"
    by (rule chan_run.run_pop)
  then show ?thesis by (simp add: Let_def)
qed

theorem imq_invoke_fifo_witness:
  "let k = example_data_key (DkInvoke HCli RtContainer ''todo'')
   in on_key k [(k, example_invoke ''1''), (k, example_invoke ''2'')] =
      on_key k [(k, example_invoke ''1'')] @
      hq_pending (mq_invokes (snd (invoke_pop (\<lambda>n. [0..<n]) ''todo''
        (invoke_push k (example_invoke ''2'') (invoke_push k (example_invoke ''1'') mem_queue_new))))) k"
  using imq_invoke_fifo [OF _ example_invoke_run [unfolded Let_def], of
      "example_data_key (DkInvoke HCli RtContainer ''todo'')" "''todo''"]
  by (simp add: Let_def)

text \<open>
  A completion is handed to the first receiver that asks for its submission, whichever agent and
  harness the receiver names: the in-memory queue does not look at them, where the NATS filter of the
  same call requires both.
\<close>

theorem imq_complete_ignores_agent:
  assumes "visits_all iter" and "hq_distinct (mq_completes q)"
    and "\<forall>k'. is_complete_of (dk_submission key) k' \<longrightarrow> hq_pending (mq_completes q) k' = []"
    and "dk_kind key = DkComplete b g"
  shows "fst (imq_receive_complete iter (dk_submission key) h a (snd (imq_send_complete key msg q))) =
           Inr (key, msg, noop_ack)"
  using hash_iteration.complete_any_agent [OF hash_iteration.intro [OF assms(1)] assms(2)] assms(3,4) by blast

definition example_complete :: complete_message where
  "example_complete =
     \<lparr>cm_id = ''m'', cm_dag_id = [], cm_dag_parent = [], cm_state = None,
      cm_diagnostics = runtime_diagnostics_placeholder 0, cm_content = Some ''done'', cm_tool_calls = None,
      cm_payload = []\<rparr>"

theorem imq_complete_ignores_agent_witness:
  "let key = example_data_key (DkComplete ''helper'' HCli)
   in fst (imq_receive_complete (\<lambda>n. [0..<n]) ''sub'' HWeb ''todo''
        (snd (imq_send_complete key example_complete mem_queue_new))) =
      Inr (key, example_complete, noop_ack)"
  using imq_complete_ignores_agent [of "\<lambda>n. [0..<n]" mem_queue_new
      "example_data_key (DkComplete ''helper'' HCli)" "''helper''" HCli HWeb "''todo''" example_complete]
  by (simp add: Let_def example_data_key_def)

text \<open>
  A service call answered in time returns the correlated response: with no response of the same
  submission, service, operation and sequence left over, a response sent under the matching key is
  what the next receive delivers, and \<open>call_service\<close> returns it when the worker answers between
  the request and the first poll.
\<close>

theorem imq_response_correlated:
  assumes "visits_all iter" and "hq_distinct (mq_responses q)"
    and "\<forall>k'. is_response_of (dk_submission key) b p n k' \<longrightarrow> hq_pending (mq_responses q) k' = []"
    and "dk_kind key = DkResponse a b p n"
  shows "fst (imq_receive_response iter (dk_submission key) a b p n (snd (imq_send_response key msg q))) =
           Inr (key, msg, noop_ack) \<and>
         map_option fst (wait_reply env
             (drop_key (imq_receive_response iter (dk_submission key) a b p n)) i
             (snd (imq_send_response key msg q))) = Some (Inr msg)"
proof -
  let ?q = "snd (imq_send_response key msg q)"
  let ?r = "imq_receive_response iter (dk_submission key) a b p n"
  have got: "fst (?r ?q) = Inr (key, msg, noop_ack)"
    using hash_iteration.response_correlated [OF hash_iteration.intro [OF assms(1)] assms(2)] assms(3,4) by blast
  then have "fst (drop_key ?r ?q) = Inr (msg, noop_ack)"
    by (auto simp: drop_key_def split: prod.splits)
  then have "map_option fst (wait_reply env (drop_key ?r) i ?q) = Some (Inr msg)"
    by (cases "drop_key ?r ?q") (simp add: wait_reply_done)
  with got show ?thesis by simp
qed

definition example_response :: response_message where
  "example_response =
     \<lparr>rs_id = ''r'', rs_dag_id = [], rs_dag_parent = [], rs_correlation_id = ''m'', rs_state = None,
      rs_diagnostics = service_diagnostics_placeholder, rs_payload = ''42'', rs_status_code = 200,
      rs_checkpoint = None\<rparr>"

theorem imq_response_correlated_witness:
  "let key = example_data_key (DkResponse ''todo'' (SbKv ObjSqlite) OpGet 1)
   in fst (imq_receive_response (\<lambda>n. [0..<n]) ''sub'' ''todo'' (SbKv ObjSqlite) OpGet 1
        (snd (imq_send_response key example_response mem_queue_new))) =
      Inr (key, example_response, noop_ack)"
  using imq_response_correlated [of "\<lambda>n. [0..<n]" mem_queue_new
      "example_data_key (DkResponse ''todo'' (SbKv ObjSqlite) OpGet 1)" "SbKv ObjSqlite" OpGet 1 "''todo''"
      example_response]
  by (simp add: Let_def example_data_key_def)

text \<open>
  The answer to a service request of the second generation is found under the request's own key:
  with nothing pending under the request key or its response key, what a worker sends under the
  response key is what a receive with the request key returns.
\<close>

theorem imq_svc_response_by_request_key:
  assumes "hq_distinct (mq_svc_responses q)"
    and "svc_response_key key = Some rkey"
    and "hq_pending (mq_svc_responses q) key = []" and "hq_pending (mq_svc_responses q) rkey = []"
  shows "fst (imq_receive_svc_response key (snd (imq_send_svc_response rkey msg q))) =
           Inr (rkey, msg, noop_ack)"
proof -
  let ?h = "hq_push rkey msg (mq_svc_responses q)"
  have d: "hq_distinct ?h" using assms(1) by (rule hq_push_distinct)
  have "vk_kind rkey \<noteq> vk_kind key"
    using assms(2) by (auto simp: svc_response_key_def split: svc_message_kind.splits)
  then have ne: "rkey \<noteq> key" by blast
  have k: "hq_pending ?h key = []" "hq_pending ?h rkey = [msg]"
    using assms(3,4) ne by (auto simp: hq_pending_push)
  have "fst (hq_take key ?h) = None"
    using hq_take_spec [of key ?h "fst (hq_take key ?h)" "snd (hq_take key ?h)"] d k
    by (auto split: option.splits)
  moreover have "fst (hq_take rkey ?h) = Some msg"
    using hq_take_spec [of rkey ?h "fst (hq_take rkey ?h)" "snd (hq_take rkey ?h)"] d k
    by (auto split: option.splits)
  ultimately show ?thesis
    using assms(2)
    by (auto simp: imq_receive_svc_response_def imq_send_svc_response_def split: prod.splits option.splits)
qed

definition example_svc_key :: svc_routing_key where
  "example_svc_key =
     \<lparr>vk_session = ''s'', vk_branch = 1, vk_submission = ''sub'',
      vk_kind = VkSvcRequest ''todo'' (Mcp ''github'') ''search'' 1\<rparr>"

definition example_response_v2 :: response_v2 where
  "example_response_v2 =
     \<lparr>rs2_id = ''r'', rs2_dag_id = [], rs2_dag_parent = [], rs2_correlation_id = ''m'', rs2_state = None,
      rs2_diagnostics = \<lparr>spd_server = ''github'', spd_tool = ''search'', spd_round_trip_ms = 5,
        spd_content_bytes = 2\<rparr>, rs2_payload = ''ok''\<rparr>"

theorem imq_svc_response_by_request_key_witness:
  "fst (imq_receive_svc_response example_svc_key
     (snd (imq_send_svc_response (the (svc_response_key example_svc_key)) example_response_v2 mem_queue_new))) =
   Inr (the (svc_response_key example_svc_key), example_response_v2, noop_ack)"
  using imq_svc_response_by_request_key [of mem_queue_new example_svc_key
      "the (svc_response_key example_svc_key)" example_response_v2]
  by (simp add: mem_queue_new_def svc_response_key_def example_svc_key_def)

end
