(* ===== verification/Recording.thy ===== *)
theory Recording
  imports DagLaws MemQueue
begin

text \<open>
  \<open>RecordingQueue\<close> (\<open>queue/recording.rs\<close>): a message queue that writes a DAG node before it forwards
  a send.  It is generic in the queue it wraps (\<open>mq_ops\<close>) and in the store (\<open>dag_store\<close>), and is
  itself a value of \<open>mq_ops\<close>.  The outside world it calls is the record \<open>rec_ext\<close>: SHA-256, the JSON
  serialisers (\<open>None\<close> is a serialisation error, which \<open>unwrap_or_default\<close> turns into no bytes), the
  petname of a session, the sealed name of a branch, and the clock.  Logging has no effect on the
  state and is left out.
\<close>

record rec_ext =
  rx_sha256 :: "bytes \<Rightarrow> string"
  rx_invoke_json :: "invoke_message \<Rightarrow> bytes option"
  rx_invoke_diag_json :: "invoke_diagnostics \<Rightarrow> bytes option"
  rx_runtime_diag_json :: "runtime_diagnostics \<Rightarrow> bytes option"
  rx_request_diag_json :: "request_diagnostics \<Rightarrow> bytes option"
  rx_service_diag_json :: "service_diagnostics \<Rightarrow> bytes option"
  rx_request_v2_json :: "request_v2 \<Rightarrow> bytes option"
  rx_response_v2_json :: "response_v2 \<Rightarrow> bytes option"
  rx_petname :: "session_id \<Rightarrow> string"
  rx_broken_name :: "timestamp \<Rightarrow> string"
  rx_clock :: "nat \<Rightarrow> timestamp"

text \<open>The two \<open>Arc\<close>s, and how often the clock has been read.\<close>

record ('s, 'q) rec_state =
  rc_store :: 's
  rc_inner :: 'q
  rc_ticks :: nat

definition rec_now :: "rec_ext \<Rightarrow> ('s, 'q) rec_state \<Rightarrow> timestamp \<times> ('s, 'q) rec_state" where
  "rec_now ext c = (rx_clock ext (rc_ticks c), c\<lparr>rc_ticks := Suc (rc_ticks c)\<rparr>)"

definition hash_node :: "rec_ext \<Rightarrow> bytes option \<Rightarrow> dag_node_id \<Rightarrow> message_type \<Rightarrow> bytes option \<Rightarrow> session_id \<Rightarrow> dag_node_id" where
  "hash_node ext payload parent_id mt diagnostics session =
     hash_dag_node (rx_sha256 ext) (unwrap_or [] payload) parent_id mt (unwrap_or [] diagnostics) session"

section \<open>Resolving the parent\<close>

definition lookup_parent :: "'s dag_store \<Rightarrow> dag_node_id \<Rightarrow> 's \<Rightarrow> dag_node option" where
  "lookup_parent ds dag_parent s =
     (if dag_node_id_is_empty dag_parent \<or> dag_parent = dag_node_id_root then None
      else result_or None (ds_get_node ds dag_parent s))"

definition latest_parent :: "'s dag_store \<Rightarrow> branch_id \<Rightarrow> 's \<Rightarrow> dag_node option" where
  "latest_parent ds b s = result_or None (ds_latest_node_on_branch ds b None s)"

definition parent_id_of :: "dag_node option \<Rightarrow> dag_node_id" where
  "parent_id_of p = (case p of None \<Rightarrow> dag_node_id_root | Some n \<Rightarrow> dn_id n)"

definition parent_state_of :: "dag_node option \<Rightarrow> snapshot" where
  "parent_state_of p = (case p of None \<Rightarrow> snapshot_empty | Some n \<Rightarrow> dn_state n)"

definition node_state :: "dag_node option \<Rightarrow> string option \<Rightarrow> snapshot" where
  "node_state p st =
     (case st of
        Some h \<Rightarrow> if h = [] then parent_state_of p else snapshot_with_state (parent_state_of p) ''kv'' h
      | None \<Rightarrow> parent_state_of p)"

text \<open>Every insert is made under a clock reading, and its error is logged and dropped.\<close>

definition rec_insert ::
    "rec_ext \<Rightarrow> (timestamp \<Rightarrow> 's typed_insert) \<Rightarrow> ('s, 'q) rec_state \<Rightarrow> ('s, 'q) rec_state" where
  "rec_insert ext ins c =
     (let (now, c1) = rec_now ext c
      in c1\<lparr>rc_store := snd (ins now (rc_store c1))\<rparr>)"

section \<open>Recording\<close>

text \<open>
  For a key that is no invoke the real \<open>record_invoke\<close> ends in \<open>unreachable!()\<close> once the store has refused
  the row (recording.rs:103), which both stores then do; the panic is not modelled, and here the call goes
  on to the inner queue.  No caller passes such a key, and the properties of a single invoke exclude it; the
  store is the same in both cases, so the invariants of the store hold for the code too.
\<close>

definition record_invoke ::
    "rec_ext \<Rightarrow> 's dag_store \<Rightarrow> data_routing_key \<Rightarrow> invoke_message \<Rightarrow> ('s, 'q) rec_state \<Rightarrow>
     dag_node_id \<times> ('s, 'q) rec_state" where
  "record_invoke ext ds key msg c =
     (let parent = (if dag_node_id_is_empty (iv_dag_parent msg)
                    then latest_parent ds (dk_branch key) (rc_store c)
                    else result_or None (ds_get_node ds (iv_dag_parent msg) (rc_store c)));
          pid = parent_id_of parent;
          nid = hash_node ext (rx_invoke_json ext msg) pid MtInvoke
                  (rx_invoke_diag_json ext (iv_diagnostics msg)) (dk_session key);
          st = node_state parent (iv_state msg)
      in (nid, rec_insert ext (\<lambda>now. ds_insert_invoke_node ds nid pid now st key msg) c))"

definition record_complete ::
    "rec_ext \<Rightarrow> 's dag_store \<Rightarrow> data_routing_key \<Rightarrow> complete_message \<Rightarrow> ('s, 'q) rec_state \<Rightarrow>
     dag_node_id \<times> ('s, 'q) rec_state" where
  "record_complete ext ds key msg c =
     (let parent = lookup_parent ds (cm_dag_parent msg) (rc_store c);
          pid = parent_id_of parent;
          nid = hash_node ext (Some (cm_payload msg)) pid MtComplete
                  (rx_runtime_diag_json ext (cm_diagnostics msg)) (dk_session key);
          st = node_state parent (cm_state msg)
      in case dk_kind key of
           DkComplete agent harness \<Rightarrow>
             (nid, rec_insert ext (\<lambda>now. ds_insert_complete_node ds nid pid now st (dk_session key)
                     (dk_submission key) (dk_branch key) agent harness msg) c)
         | _ \<Rightarrow> (dag_node_id_root, c))"

definition record_request ::
    "rec_ext \<Rightarrow> 's dag_store \<Rightarrow> data_routing_key \<Rightarrow> request_message \<Rightarrow> ('s, 'q) rec_state \<Rightarrow>
     dag_node_id \<times> ('s, 'q) rec_state" where
  "record_request ext ds key msg c =
     (let parent = lookup_parent ds (rq_dag_parent msg) (rc_store c);
          pid = parent_id_of parent;
          nid = hash_node ext (Some (rq_payload msg)) pid MtRequest
                  (rx_request_diag_json ext (rq_diagnostics msg)) (dk_session key);
          st = node_state parent (rq_state msg)
      in case dk_kind key of
           DkRequest agent service operation sequence \<Rightarrow>
             (nid, rec_insert ext (\<lambda>now. ds_insert_request_node ds nid pid now st (dk_session key)
                     (dk_submission key) (dk_branch key) agent service operation sequence msg) c)
         | _ \<Rightarrow> (dag_node_id_root, c))"

definition record_response ::
    "rec_ext \<Rightarrow> 's dag_store \<Rightarrow> data_routing_key \<Rightarrow> response_message \<Rightarrow> ('s, 'q) rec_state \<Rightarrow>
     dag_node_id \<times> ('s, 'q) rec_state" where
  "record_response ext ds key msg c =
     (let parent = lookup_parent ds (rs_dag_parent msg) (rc_store c);
          pid = parent_id_of parent;
          nid = hash_node ext (Some (rs_payload msg)) pid MtResponse
                  (rx_service_diag_json ext (rs_diagnostics msg)) (dk_session key);
          st = node_state parent (rs_state msg)
      in case dk_kind key of
           DkResponse agent service operation sequence \<Rightarrow>
             (nid, rec_insert ext (\<lambda>now. ds_insert_response_node ds nid pid now st (dk_session key)
                     (dk_submission key) (dk_branch key) agent service operation sequence msg) c)
         | _ \<Rightarrow> (dag_node_id_root, c))"

text \<open>The service-plane recorders take the message by mutable reference and stamp its \<open>dag_id\<close>.\<close>

definition record_svc_request ::
    "rec_ext \<Rightarrow> 's dag_store \<Rightarrow> svc_routing_key \<Rightarrow> request_v2 \<Rightarrow> ('s, 'q) rec_state \<Rightarrow>
     dag_node_id \<times> request_v2 \<times> ('s, 'q) rec_state" where
  "record_svc_request ext ds key msg c =
     (let parent = lookup_parent ds (rq2_dag_parent msg) (rc_store c);
          pid = parent_id_of parent;
          nid = hash_node ext (rx_request_v2_json ext msg) pid MtSvcRequest (Some []) (vk_session key);
          st = node_state parent (rq2_state msg)
      in case vk_kind key of
           VkSvcRequest agent service operation sequence \<Rightarrow>
             (let msg = msg\<lparr>rq2_dag_id := nid\<rparr>
              in (nid, msg, rec_insert ext (\<lambda>now. ds_insert_svc_request_node ds nid pid now st
                    (vk_session key) (vk_submission key) (vk_branch key) agent service operation sequence
                    msg) c))
         | _ \<Rightarrow> (dag_node_id_root, msg, c))"

definition record_svc_response ::
    "rec_ext \<Rightarrow> 's dag_store \<Rightarrow> svc_routing_key \<Rightarrow> response_v2 \<Rightarrow> ('s, 'q) rec_state \<Rightarrow>
     dag_node_id \<times> response_v2 \<times> ('s, 'q) rec_state" where
  "record_svc_response ext ds key msg c =
     (let parent = lookup_parent ds (rs2_dag_parent msg) (rc_store c);
          pid = parent_id_of parent;
          nid = hash_node ext (rx_response_v2_json ext msg) pid MtSvcResponse (Some []) (vk_session key);
          st = node_state parent (rs2_state msg)
      in case vk_kind key of
           VkSvcResponse agent service operation sequence \<Rightarrow>
             (let msg = msg\<lparr>rs2_dag_id := nid\<rparr>
              in (nid, msg, rec_insert ext (\<lambda>now. ds_insert_svc_response_node ds nid pid now st
                    (vk_session key) (vk_submission key) (vk_branch key) agent service operation sequence
                    msg) c))
         | _ \<Rightarrow> (dag_node_id_root, msg, c))"

definition record_fork ::
    "rec_ext \<Rightarrow> 's dag_store \<Rightarrow> session_routing_key \<Rightarrow> fork_message \<Rightarrow> ('s, 'q) rec_state \<Rightarrow>
     ('s, 'q) rec_state" where
  "record_fork ext ds key msg c =
     (case sk_kind key of
        SkFork _ \<Rightarrow>
          (let parent = result_or None (ds_get_node ds (fk_fork_point msg) (rc_store c));
               pid = parent_id_of parent;
               nid = hash_node ext (Some []) pid MtFork (Some []) (sk_session key)
           in rec_insert ext (\<lambda>now. ds_insert_fork_node ds nid pid now (parent_state_of parent) key msg) c)
      | _ \<Rightarrow> c)"

definition record_promote ::
    "rec_ext \<Rightarrow> 's dag_store \<Rightarrow> session_routing_key \<Rightarrow> promote_message \<Rightarrow> ('s, 'q) rec_state \<Rightarrow>
     ('s, 'q) rec_state" where
  "record_promote ext ds key msg c =
     (let parent = latest_parent ds (pm_branch_id msg) (rc_store c);
          pid = parent_id_of parent;
          nid = hash_node ext (Some []) pid MtPromote (Some []) (sk_session key)
      in rec_insert ext (\<lambda>now. ds_insert_promote_node ds nid pid now (parent_state_of parent) key msg) c)"

definition synthetic_session :: session_id where
  "synthetic_session = ''00000000-0000-4000-8000-000000000000''"

definition record_deploy_agent ::
    "rec_ext \<Rightarrow> 's dag_store \<Rightarrow> infra_routing_key \<Rightarrow> deploy_agent_message \<Rightarrow> ('s, 'q) rec_state \<Rightarrow>
     ('s, 'q) rec_state" where
  "record_deploy_agent ext ds key msg c =
     (let nid = hash_node ext (Some (mf_name (dp_manifest msg))) dag_node_id_root MtDeployAgent (Some [])
                  synthetic_session
      in rec_insert ext
           (\<lambda>now. ds_insert_deploy_agent_node ds nid dag_node_id_root now snapshot_empty key msg) c)"

definition record_delete_agent ::
    "rec_ext \<Rightarrow> 's dag_store \<Rightarrow> infra_routing_key \<Rightarrow> delete_agent_message \<Rightarrow> ('s, 'q) rec_state \<Rightarrow>
     ('s, 'q) rec_state" where
  "record_delete_agent ext ds key msg c =
     (let nid = hash_node ext (Some (da_agent msg)) dag_node_id_root MtDeleteAgent (Some [])
                  synthetic_session
      in rec_insert ext
           (\<lambda>now. ds_insert_delete_agent_node ds nid dag_node_id_root now snapshot_empty key msg) c)"

section \<open>The queue interface\<close>

text \<open>An operation of the wrapped queue, run on the inner part of the state.\<close>

definition on_inner :: "('q, 'a) mq_op \<Rightarrow> (('s, 'q) rec_state, 'a) mq_op" where
  "on_inner f c = (let (r, q) = f (rc_inner c) in (r, c\<lparr>rc_inner := q\<rparr>))"

definition lift_ack :: "'q ack \<Rightarrow> ('s, 'q) rec_state ack" where
  "lift_ack ack = on_inner ack"

definition on_inner_ack ::
    "('q, 'k \<times> 'm \<times> 'q ack) mq_op \<Rightarrow> (('s, 'q) rec_state, 'k \<times> 'm \<times> ('s, 'q) rec_state ack) mq_op" where
  "on_inner_ack f c =
     (case f (rc_inner c) of
        (Inl e, q) \<Rightarrow> (Inl e, c\<lparr>rc_inner := q\<rparr>)
      | (Inr (key, msg, ack), q) \<Rightarrow> (Inr (key, msg, lift_ack ack), c\<lparr>rc_inner := q\<rparr>))"

text \<open>Forward a send; the \<open>?\<close> hands on the inner error, otherwise the recorded id is the result.\<close>

definition forward ::
    "('q, dag_node_id) mq_op \<Rightarrow> dag_node_id \<Rightarrow> (('s, 'q) rec_state, dag_node_id) mq_op" where
  "forward f dag_id c =
     (case on_inner f c of (Inl e, c1) \<Rightarrow> (Inl e, c1) | (Inr _, c1) \<Rightarrow> (Inr dag_id, c1))"

definition rec_send_invoke ::
    "rec_ext \<Rightarrow> 's dag_store \<Rightarrow> 'q mq_ops \<Rightarrow> data_routing_key \<Rightarrow> invoke_message \<Rightarrow>
     (('s, 'q) rec_state, dag_node_id) mq_op" where
  "rec_send_invoke ext ds mq key msg c =
     (let (dag_id, c1) = record_invoke ext ds key msg c
      in forward (mq_send_invoke mq key (msg\<lparr>iv_dag_id := dag_id\<rparr>)) dag_id c1)"

definition rec_send_complete ::
    "rec_ext \<Rightarrow> 's dag_store \<Rightarrow> 'q mq_ops \<Rightarrow> data_routing_key \<Rightarrow> complete_message \<Rightarrow>
     (('s, 'q) rec_state, dag_node_id) mq_op" where
  "rec_send_complete ext ds mq key msg c =
     (let (dag_id, c1) = record_complete ext ds key msg c
      in forward (mq_send_complete mq key (msg\<lparr>cm_dag_id := dag_id\<rparr>)) dag_id c1)"

definition rec_send_request ::
    "rec_ext \<Rightarrow> 's dag_store \<Rightarrow> 'q mq_ops \<Rightarrow> data_routing_key \<Rightarrow> request_message \<Rightarrow>
     (('s, 'q) rec_state, dag_node_id) mq_op" where
  "rec_send_request ext ds mq key msg c =
     (let (dag_id, c1) = record_request ext ds key msg c
      in forward (mq_send_request mq key (msg\<lparr>rq_dag_id := dag_id\<rparr>)) dag_id c1)"

definition rec_send_response ::
    "rec_ext \<Rightarrow> 's dag_store \<Rightarrow> 'q mq_ops \<Rightarrow> data_routing_key \<Rightarrow> response_message \<Rightarrow>
     (('s, 'q) rec_state, dag_node_id) mq_op" where
  "rec_send_response ext ds mq key msg c =
     (let (dag_id, c1) = record_response ext ds key msg c
      in forward (mq_send_response mq key (msg\<lparr>rs_dag_id := dag_id\<rparr>)) dag_id c1)"

definition rec_send_svc_request ::
    "rec_ext \<Rightarrow> 's dag_store \<Rightarrow> 'q mq_ops \<Rightarrow> svc_routing_key \<Rightarrow> request_v2 \<Rightarrow>
     (('s, 'q) rec_state, dag_node_id) mq_op" where
  "rec_send_svc_request ext ds mq key msg c =
     (let (dag_id, msg, c1) = record_svc_request ext ds key msg c
      in forward (mq_send_svc_request mq key msg) dag_id c1)"

definition rec_send_svc_response ::
    "'q mq_ops \<Rightarrow> svc_routing_key \<Rightarrow> response_v2 \<Rightarrow> (('s, 'q) rec_state, dag_node_id) mq_op" where
  "rec_send_svc_response mq key msg c = forward (mq_send_svc_response mq key msg) (rs2_dag_id msg) c"

definition rec_receive_svc_response ::
    "rec_ext \<Rightarrow> 's dag_store \<Rightarrow> 'q mq_ops \<Rightarrow> svc_routing_key \<Rightarrow>
     (('s, 'q) rec_state, svc_routing_key \<times> response_v2 \<times> ('s, 'q) rec_state ack) mq_op" where
  "rec_receive_svc_response ext ds mq key c =
     (case on_inner_ack (mq_receive_svc_response mq key) c of
        (Inl e, c1) \<Rightarrow> (Inl e, c1)
      | (Inr (key, response, ack), c1) \<Rightarrow>
          (let (_, response, c2) = record_svc_response ext ds key response c1
           in (Inr (key, response, ack), c2)))"

definition rec_send_fork ::
    "rec_ext \<Rightarrow> 's dag_store \<Rightarrow> 'q mq_ops \<Rightarrow> session_routing_key \<Rightarrow> fork_message \<Rightarrow>
     (('s, 'q) rec_state, unit) mq_op" where
  "rec_send_fork ext ds mq key msg c =
     (let c1 = record_fork ext ds key msg c;
          (now, c2) = rec_now ext c1;
          c3 = c2\<lparr>rc_store := snd (ds_create_branch ds now (fk_branch_name msg) (sk_session key)
                                   (Some (fk_fork_point msg)) (rc_store c2))\<rparr>;
          c4 = snd (on_inner (mq_send_fork mq key msg) c3)
      in (Inr (), c4))"

text \<open>
  The two halves of \<open>send_promote\<close> after the lookups.  The clock is read once for the sealed name and
  once for the sealing time.
\<close>

definition seal_old_main ::
    "rec_ext \<Rightarrow> 's dag_store \<Rightarrow> branch option \<Rightarrow> ('s, 'q) rec_state \<Rightarrow> ('s, 'q) rec_state" where
  "seal_old_main ext ds old_main c =
     (case old_main of
        None \<Rightarrow> c
      | Some old \<Rightarrow>
          (let (t1, c1) = rec_now ext c;
               (t2, c2) = rec_now ext c1;
               c3 = c2\<lparr>rc_store := snd (ds_seal_branch ds (br_id old) t2 (rc_store c2))\<rparr>
           in c3\<lparr>rc_store := snd (ds_rename_branch ds (br_id old) (rx_broken_name ext t1) (rc_store c3))\<rparr>))"

definition promote_branch ::
    "'s dag_store \<Rightarrow> session_id \<Rightarrow> branch option \<Rightarrow> ('s, 'q) rec_state \<Rightarrow> ('s, 'q) rec_state" where
  "promote_branch ds session branch c =
     (case branch of
        None \<Rightarrow> c
      | Some promoted \<Rightarrow>
          (let c1 = c\<lparr>rc_store := snd (ds_rename_branch ds (br_id promoted) ''main'' (rc_store c))\<rparr>
           in c1\<lparr>rc_store := snd (ds_update_session_default_branch ds session (br_id promoted) (rc_store c1))\<rparr>))"

definition rec_send_promote ::
    "rec_ext \<Rightarrow> 's dag_store \<Rightarrow> 'q mq_ops \<Rightarrow> session_routing_key \<Rightarrow> promote_message \<Rightarrow>
     (('s, 'q) rec_state, unit) mq_op" where
  "rec_send_promote ext ds mq key msg c =
     (let c1 = record_promote ext ds key msg c;
          branch_to_promote = result_or None (ds_get_branch ds (pm_branch_id msg) (rc_store c1));
          old_main = (case result_or None (ds_get_branch_by_name ds ''main'' (rc_store c1)) of
                        None \<Rightarrow> None
                      | Some b \<Rightarrow> if br_session_id b = sk_session key then Some b else None);
          c2 = seal_old_main ext ds old_main c1;
          c3 = promote_branch ds (sk_session key) branch_to_promote c2;
          c4 = snd (on_inner (mq_send_promote mq key msg) c3)
      in (Inr (), c4))"

definition rec_send_session_start ::
    "rec_ext \<Rightarrow> 's dag_store \<Rightarrow> 'q mq_ops \<Rightarrow> session_routing_key \<Rightarrow> session_start_message \<Rightarrow>
     external_session_id \<Rightarrow> (('s, 'q) rec_state, branch_id) mq_op" where
  "rec_send_session_start ext ds mq key msg external_id c =
     (case sk_kind key of
        SkStart agent_name \<Rightarrow>
          (let placeholder_branch = 1;
               (now, c1) = rec_now ext c;
               session = session_new (rx_petname ext) now (sk_session key) external_id agent_name
                           placeholder_branch;
               c2 = c1\<lparr>rc_store := snd (ds_create_session ds session (rc_store c1))\<rparr>;
               (now, c3) = rec_now ext c2;
               (r, s) = ds_create_branch ds now ''main'' (sk_session key) None (rc_store c3);
               default_branch = result_or placeholder_branch r;
               c4 = c3\<lparr>rc_store := s\<rparr>;
               c5 = c4\<lparr>rc_store := snd (ds_update_session_default_branch ds (sk_session key)
                                        default_branch (rc_store c4))\<rparr>;
               c6 = snd (on_inner (mq_send_session_start mq key msg external_id) c5)
           in (Inr default_branch, c6))
      | _ \<Rightarrow> (Inl (SendFailed ''expected Start kind''), c))"

definition rec_send_deploy_agent ::
    "rec_ext \<Rightarrow> 's dag_store \<Rightarrow> 'q mq_ops \<Rightarrow> infra_routing_key \<Rightarrow> deploy_agent_message \<Rightarrow>
     (('s, 'q) rec_state, unit) mq_op" where
  "rec_send_deploy_agent ext ds mq key msg c =
     (let c1 = record_deploy_agent ext ds key msg c
      in (Inr (), snd (on_inner (mq_send_deploy_agent mq key msg) c1)))"

definition rec_send_delete_agent ::
    "rec_ext \<Rightarrow> 's dag_store \<Rightarrow> 'q mq_ops \<Rightarrow> infra_routing_key \<Rightarrow> delete_agent_message \<Rightarrow>
     (('s, 'q) rec_state, unit) mq_op" where
  "rec_send_delete_agent ext ds mq key msg c =
     (let c1 = record_delete_agent ext ds key msg c
      in (Inr (), snd (on_inner (mq_send_delete_agent mq key msg) c1)))"

definition rec_mq_ops ::
    "rec_ext \<Rightarrow> 's dag_store \<Rightarrow> 'q mq_ops \<Rightarrow> ('s, 'q) rec_state mq_ops" where
  "rec_mq_ops ext ds mq =
     \<lparr>mq_on_cluster_start = on_inner (mq_on_cluster_start mq),
      mq_on_agent_deployed = (\<lambda>a. on_inner (mq_on_agent_deployed mq a)),
      mq_on_agent_deleted = (\<lambda>a. on_inner (mq_on_agent_deleted mq a)),
      mq_send_invoke = rec_send_invoke ext ds mq,
      mq_receive_invoke = (\<lambda>a. on_inner_ack (mq_receive_invoke mq a)),
      mq_send_complete = rec_send_complete ext ds mq,
      mq_receive_complete = (\<lambda>s h a. on_inner_ack (mq_receive_complete mq s h a)),
      mq_send_request = rec_send_request ext ds mq,
      mq_receive_request = (\<lambda>s p. on_inner_ack (mq_receive_request mq s p)),
      mq_send_response = rec_send_response ext ds mq,
      mq_receive_response = (\<lambda>s a b p n. on_inner_ack (mq_receive_response mq s a b p n)),
      mq_send_fork = rec_send_fork ext ds mq,
      mq_receive_fork = mq_default_receive,
      mq_send_promote = rec_send_promote ext ds mq,
      mq_receive_promote = mq_default_receive,
      mq_send_session_start = rec_send_session_start ext ds mq,
      mq_send_deploy_agent = rec_send_deploy_agent ext ds mq,
      mq_receive_deploy_agent = on_inner_ack (mq_receive_deploy_agent mq),
      mq_send_delete_agent = rec_send_delete_agent ext ds mq,
      mq_receive_delete_agent = on_inner_ack (mq_receive_delete_agent mq),
      mq_receive_any = on_inner_ack (mq_receive_any mq),
      mq_send_svc_request = rec_send_svc_request ext ds mq,
      mq_receive_svc_request_mcp = on_inner_ack (mq_receive_svc_request_mcp mq),
      mq_send_svc_response = rec_send_svc_response mq,
      mq_receive_svc_response = rec_receive_svc_response ext ds mq\<rparr>"

end
