(* ===== verification/RecordingLaws.thy ===== *)
theory RecordingLaws
  imports Recording
begin

text \<open>
  What the recording queue guarantees of the DAG, whatever queue it wraps and whatever store keeps
  the contract \<open>append_only_store\<close>: one operation adds at most one node, whose id is a digest and whose
  parent is the root or already recorded (\<open>grows\<close>); so any sequence of operations only extends the
  node list and keeps it a well-formed, acyclic chain.  Then the effect of each operation on the
  in-memory store.
\<close>

section \<open>One recorded node\<close>

definition known_parent :: "dag_node list \<Rightarrow> dag_node_id \<Rightarrow> bool" where
  "known_parent ns p \<longleftrightarrow> p = dag_node_id_root \<or> p \<in> dn_id ` set ns"

definition grows :: "(bytes \<Rightarrow> string) \<Rightarrow> dag_node list \<Rightarrow> dag_node list \<Rightarrow> bool" where
  "grows sha ns ns' \<longleftrightarrow>
     ns' = ns \<or> (\<exists>n. ns' = add_node n ns \<and> dn_id n \<in> range sha \<and> known_parent ns (dn_parent_id n))"

lemma grows_refl [simp]: "grows sha ns ns"
  by (simp add: grows_def)

lemma grows_add:
  "ns' = add_node n ns \<Longrightarrow> dn_id n \<in> range sha \<Longrightarrow> known_parent ns (dn_parent_id n) \<Longrightarrow> grows sha ns ns'"
  by (auto simp: grows_def)

lemma grows_prefix: "grows sha ns ns' \<Longrightarrow> prefix ns ns'"
  by (auto simp: grows_def add_node_prefix)

lemma grows_chain_wf:
  "grows sha ns ns' \<Longrightarrow> \<forall>x. sha x \<noteq> [] \<Longrightarrow> chain_wf ns \<Longrightarrow> chain_wf ns'"
  by (auto simp: grows_def known_parent_def dag_node_id_root_def intro!: add_node_chain_wf) metis+

lemma hash_node_range [simp]: "hash_node ext p i mt d se \<in> range (rx_sha256 ext)"
  by (simp add: hash_node_def hash_dag_node_def)

lemma typed_node_simps [simp]:
  "dn_id (typed_node mt i p t st se sub br) = i"
  "dn_parent_id (typed_node mt i p t st se sub br) = p"
  "dn_state (typed_node mt i p t st se sub br) = st"
  "dn_branch (typed_node mt i p t st se sub br) = br"
  "dn_session (typed_node mt i p t st se sub br) = se"
  "dn_submission (typed_node mt i p t st se sub br) = sub"
  "dn_msg_type (typed_node mt i p t st se sub br) = mt"
  "dn_created_at (typed_node mt i p t st se sub br) = t"
  by (simp_all add: typed_node_def)

lemma known_parent_root [simp]: "known_parent ns dag_node_id_root"
  by (simp add: known_parent_def)

lemma rec_now_simps [simp]:
  "rc_store (snd (rec_now ext c)) = rc_store c" "rc_inner (snd (rec_now ext c)) = rc_inner c"
  by (simp_all add: rec_now_def)

lemma on_inner_store [simp]: "rc_store (snd (on_inner f c)) = rc_store c"
  by (simp add: on_inner_def split: prod.split)

lemma on_inner_ack_store [simp]: "rc_store (snd (on_inner_ack f c)) = rc_store c"
  by (simp add: on_inner_ack_def split: prod.split sum.split)

lemma forward_store [simp]: "rc_store (snd (forward f i c)) = rc_store c"
  using on_inner_store [of f c] by (cases "on_inner f c"; cases "fst (on_inner f c)") (auto simp: forward_def)

lemma rec_insert_store:
  "rc_store (rec_insert ext ins c) = snd (ins (rx_clock ext (rc_ticks c)) (rc_store c))"
  by (simp add: rec_insert_def rec_now_def)

lemma one_node_grows:
  "one_node i p ns ns' \<Longrightarrow> i \<in> range sha \<Longrightarrow> known_parent ns p \<Longrightarrow> grows sha ns ns'"
  by (auto simp: one_node_def grows_def)

context append_only_store
begin

lemma get_known: "known_parent (nodes s) (parent_id_of (result_or None (ds_get_node ds i s)))"
  using got_node [of i s]
  by (auto simp: known_parent_def parent_id_of_def result_or_def split: sum.split option.split)

lemma lookup_parent_known: "known_parent (nodes s) (parent_id_of (lookup_parent ds i s))"
  using get_known [of s i] by (simp add: lookup_parent_def parent_id_of_def)

lemma latest_parent_known: "known_parent (nodes s) (parent_id_of (latest_parent ds b s))"
  using got_latest [of b s]
  by (auto simp: latest_parent_def known_parent_def parent_id_of_def result_or_def split: sum.split option.split)

lemma rec_insert_grows:
  assumes "\<And>now s r s'. ins now s = (r, s') \<Longrightarrow> one_node i p (nodes s) (nodes s')"
    and "i \<in> range sha" and "known_parent (nodes (rc_store c)) p"
  shows "grows sha (nodes (rc_store c)) (nodes (rc_store (rec_insert ext ins c)))"
  unfolding rec_insert_store
  by (rule one_node_grows [OF assms(1) [OF surjective_pairing] assms(2,3)])

lemma record_invoke_grows:
  "grows (rx_sha256 ext) (nodes (rc_store c)) (nodes (rc_store (snd (record_invoke ext ds key msg c))))"
  using get_known latest_parent_known
  by (auto simp: record_invoke_def Let_def intro!: rec_insert_grows intro: adds)

lemma record_complete_grows:
  "grows (rx_sha256 ext) (nodes (rc_store c)) (nodes (rc_store (snd (record_complete ext ds key msg c))))"
  using lookup_parent_known
  by (auto simp: record_complete_def Let_def split: data_message_kind.split intro!: rec_insert_grows intro: adds)

lemma record_request_grows:
  "grows (rx_sha256 ext) (nodes (rc_store c)) (nodes (rc_store (snd (record_request ext ds key msg c))))"
  using lookup_parent_known
  by (auto simp: record_request_def Let_def split: data_message_kind.split intro!: rec_insert_grows intro: adds)

lemma record_response_grows:
  "grows (rx_sha256 ext) (nodes (rc_store c)) (nodes (rc_store (snd (record_response ext ds key msg c))))"
  using lookup_parent_known
  by (auto simp: record_response_def Let_def split: data_message_kind.split intro!: rec_insert_grows intro: adds)

lemma record_svc_request_grows:
  "grows (rx_sha256 ext) (nodes (rc_store c))
     (nodes (rc_store (snd (snd (record_svc_request ext ds key msg c)))))"
  using lookup_parent_known
  by (auto simp: record_svc_request_def Let_def split: svc_message_kind.split intro!: rec_insert_grows intro: adds)

lemma record_svc_response_grows:
  "grows (rx_sha256 ext) (nodes (rc_store c))
     (nodes (rc_store (snd (snd (record_svc_response ext ds key msg c)))))"
  using lookup_parent_known
  by (auto simp: record_svc_response_def Let_def split: svc_message_kind.split intro!: rec_insert_grows intro: adds)

lemma record_fork_grows:
  "grows (rx_sha256 ext) (nodes (rc_store c)) (nodes (rc_store (record_fork ext ds key msg c)))"
  using get_known
  by (auto simp: record_fork_def Let_def split: session_message_kind.split intro!: rec_insert_grows intro: adds)

lemma record_promote_grows:
  "grows (rx_sha256 ext) (nodes (rc_store c)) (nodes (rc_store (record_promote ext ds key msg c)))"
  using latest_parent_known
  by (auto simp: record_promote_def Let_def intro!: rec_insert_grows intro: adds)

lemma record_deploy_agent_grows:
  "grows (rx_sha256 ext) (nodes (rc_store c)) (nodes (rc_store (record_deploy_agent ext ds key msg c)))"
  by (auto simp: record_deploy_agent_def Let_def intro!: rec_insert_grows intro: adds)

lemma record_delete_agent_grows:
  "grows (rx_sha256 ext) (nodes (rc_store c)) (nodes (rc_store (record_delete_agent ext ds key msg c)))"
  by (auto simp: record_delete_agent_def Let_def intro!: rec_insert_grows intro: adds)

lemma branch_ops_nodes [simp]:
  "nodes (snd (ds_create_branch ds t nm se fp s)) = nodes s"
  "nodes (snd (ds_rename_branch ds br nm s)) = nodes s"
  "nodes (snd (ds_seal_branch ds br t s)) = nodes s"
  "nodes (snd (ds_update_session_default_branch ds se br s)) = nodes s"
  "nodes (snd (ds_create_session ds ses s)) = nodes s"
  by (rule nodes_frame [OF surjective_pairing])+

lemma seal_old_main_nodes [simp]: "nodes (rc_store (seal_old_main ext ds b c)) = nodes (rc_store c)"
  by (simp add: seal_old_main_def Let_def rec_now_def split: option.split)

lemma promote_branch_nodes [simp]: "nodes (rc_store (promote_branch ds se b c)) = nodes (rc_store c)"
  by (simp add: promote_branch_def Let_def split: option.split)

end

section \<open>Runs of the recording queue\<close>

inductive rec_step ::
    "rec_ext \<Rightarrow> 's dag_store \<Rightarrow> 'q mq_ops \<Rightarrow> ('s, 'q) rec_state \<Rightarrow> ('s, 'q) rec_state \<Rightarrow> bool"
  for ext ds mq where
  st_invoke: "rec_step ext ds mq c (snd (rec_send_invoke ext ds mq key iv c))"
| st_complete: "rec_step ext ds mq c (snd (rec_send_complete ext ds mq key cm c))"
| st_request: "rec_step ext ds mq c (snd (rec_send_request ext ds mq key rq c))"
| st_response: "rec_step ext ds mq c (snd (rec_send_response ext ds mq key rs c))"
| st_svc_request: "rec_step ext ds mq c (snd (rec_send_svc_request ext ds mq vkey rq2 c))"
| st_svc_response: "rec_step ext ds mq c (snd (rec_send_svc_response mq vkey rs2 c))"
| st_receive_svc_response: "rec_step ext ds mq c (snd (rec_receive_svc_response ext ds mq vkey c))"
| st_fork: "rec_step ext ds mq c (snd (rec_send_fork ext ds mq skey fk c))"
| st_promote: "rec_step ext ds mq c (snd (rec_send_promote ext ds mq skey pm c))"
| st_session_start: "rec_step ext ds mq c (snd (rec_send_session_start ext ds mq skey ss eid c))"
| st_deploy: "rec_step ext ds mq c (snd (rec_send_deploy_agent ext ds mq ikey dp c))"
| st_delete: "rec_step ext ds mq c (snd (rec_send_delete_agent ext ds mq ikey da c))"
| st_inner: "rec_step ext ds mq c (c\<lparr>rc_inner := q\<rparr>)"

text \<open>The delegated operations (lifecycle hooks, receives, acknowledgements) are \<open>st_inner\<close> steps.\<close>

lemma rec_step_on_inner: "rec_step ext ds mq c (snd (on_inner f c))"
  by (auto simp: on_inner_def split: prod.split intro: st_inner)

lemma rec_step_on_inner_ack: "rec_step ext ds mq c (snd (on_inner_ack f c))"
  by (auto simp: on_inner_ack_def split: prod.split sum.split intro: st_inner)

context append_only_store
begin

lemma rec_step_grows:
  "rec_step ext ds mq c c' \<Longrightarrow> grows (rx_sha256 ext) (nodes (rc_store c)) (nodes (rc_store c'))"
proof (induction rule: rec_step.induct)
  case (st_invoke c key iv)
  then show ?case
    using record_invoke_grows [of ext c key iv] by (simp add: rec_send_invoke_def split_beta)
next
  case (st_complete c key cm)
  then show ?case
    using record_complete_grows [of ext c key cm] by (simp add: rec_send_complete_def split_beta)
next
  case (st_request c key rq)
  then show ?case
    using record_request_grows [of ext c key rq] by (simp add: rec_send_request_def split_beta)
next
  case (st_response c key rs)
  then show ?case
    using record_response_grows [of ext c key rs] by (simp add: rec_send_response_def split_beta)
next
  case (st_svc_request c vkey rq2)
  then show ?case
    using record_svc_request_grows [of ext c vkey rq2]
    by (simp add: rec_send_svc_request_def split_beta)
next
  case (st_svc_response c vkey rs2)
  then show ?case by (simp add: rec_send_svc_response_def)
next
  case (st_receive_svc_response c vkey)
  let ?in = "on_inner_ack (mq_receive_svc_response mq vkey) c"
  have "rc_store (snd ?in) = rc_store c" by simp
  moreover have "grows (rx_sha256 ext) (nodes (rc_store (snd ?in)))
      (nodes (rc_store (snd (snd (record_svc_response ext ds k m (snd ?in))))))" for k m
    by (rule record_svc_response_grows)
  ultimately show ?case
    by (cases ?in; cases "fst ?in") (auto simp: rec_receive_svc_response_def split_beta)
next
  case (st_fork c skey fk)
  then show ?case
    using record_fork_grows [of ext c skey fk] by (simp add: rec_send_fork_def Let_def rec_now_def)
next
  case (st_promote c skey pm)
  then show ?case
    using record_promote_grows [of ext c skey pm] by (simp add: rec_send_promote_def Let_def)
next
  case (st_session_start c skey ss eid)
  then show ?case
    by (cases "sk_kind skey")
      (auto simp: rec_send_session_start_def Let_def rec_now_def split: prod.splits
        dest: create_branch_nodes)
next
  case (st_deploy c ikey dp)
  then show ?case
    using record_deploy_agent_grows [of ext c ikey dp] by (simp add: rec_send_deploy_agent_def)
next
  case (st_delete c ikey da)
  then show ?case
    using record_delete_agent_grows [of ext c ikey da] by (simp add: rec_send_delete_agent_def)
qed simp_all

lemma rec_run_prefix:
  "(rec_step ext ds mq)\<^sup>*\<^sup>* c c' \<Longrightarrow> prefix (nodes (rc_store c)) (nodes (rc_store c'))"
  by (induction rule: rtranclp_induct) (auto dest!: rec_step_grows grows_prefix)

lemma rec_run_chain_wf:
  "(rec_step ext ds mq)\<^sup>*\<^sup>* c c' \<Longrightarrow> \<forall>x. rx_sha256 ext x \<noteq> [] \<Longrightarrow> chain_wf (nodes (rc_store c)) \<Longrightarrow>
     chain_wf (nodes (rc_store c'))"
  by (induction rule: rtranclp_induct) (auto dest: rec_step_grows grows_chain_wf)

end

end
