(* ===== verification/Effects.thy ===== *)
theory Effects
  imports Prelude
begin

text \<open>
  Fallible effects the storage components share: a computation over a state that ends in a result, the
  state kept on the error side too (what a failed call already did stays done).  A database is a
  \<open>sql_world\<close>: its data and a count of the statements issued; \<open>fault n\<close> says whether, and with which
  error text, SQLite or the file system rejects statement \<open>n\<close>.  A rejected statement changes nothing,
  as SQLite documents for a single statement.
\<close>

type_synonym ('s, 'e, 'a) fallible = "'s \<Rightarrow> ('e, 'a) rust_result \<times> 's"

type_synonym ('s, 'a) eff = "('s, string, 'a) fallible"

definition eret :: "'a \<Rightarrow> ('s, 'e, 'a) fallible" where
  "eret x s = (Inr x, s)"

definition efail :: "'e \<Rightarrow> ('s, 'e, 'a) fallible" where
  "efail e s = (Inl e, s)"

definition elift :: "('e, 'a) rust_result \<Rightarrow> ('s, 'e, 'a) fallible" where
  "elift r s = (r, s)"

definition ebind :: "('s, 'e, 'a) fallible \<Rightarrow> ('a \<Rightarrow> ('s, 'e, 'b) fallible) \<Rightarrow> ('s, 'e, 'b) fallible" where
  "ebind m f s = (case m s of (Inl e, s') \<Rightarrow> (Inl e, s') | (Inr x, s') \<Rightarrow> f x s')"

definition ecatch :: "('s, 'e, 'a) fallible \<Rightarrow> ('s, 'f, ('e, 'a) rust_result) fallible" where
  "ecatch m s = (case m s of (r, s') \<Rightarrow> (Inr r, s'))"

text \<open>A \<open>for\<close> loop whose body ends in \<open>?\<close>.\<close>

fun efor :: "('x \<Rightarrow> ('s, 'e, unit) fallible) \<Rightarrow> 'x list \<Rightarrow> ('s, 'e, unit) fallible" where
  "efor f [] = eret ()"
| "efor f (x # xs) = ebind (f x) (\<lambda>_. efor f xs)"

lemma eff_simps [simp]:
  "ebind (eret x) f = f x"
  "ebind (efail e) f = efail e"
  "ebind (elift (Inr x)) f = f x"
  "ebind (elift (Inl e)) f = efail e"
  "eret x s = (Inr x, s)"
  "efail e s = (Inl e, s)"
  "elift r s = (r, s)"
  by (simp_all add: ebind_def eret_def efail_def elift_def fun_eq_iff)

lemma ebind_run:
  "m s = (Inr x, s1) \<Longrightarrow> ebind m f s = f x s1"
  "m s = (Inl e, s1) \<Longrightarrow> ebind m f s = (Inl e, s1)"
  by (simp_all add: ebind_def)

lemma ebind_assoc: "ebind (ebind m f) g = ebind m (\<lambda>x. ebind (f x) g)"
  by (auto simp: ebind_def fun_eq_iff split: prod.split sum.split)

lemma ebindE:
  assumes "ebind m f s = (r, s')"
  obtains (fail) e where "m s = (Inl e, s')" "r = Inl e" | (ok) x s1 where "m s = (Inr x, s1)" "f x s1 = (r, s')"
  using assms by (auto simp: ebind_def split: prod.splits sum.splits)

lemma ebind_Inr: "ebind m f s = (Inr y, s') \<longleftrightarrow> (\<exists>x s1. m s = (Inr x, s1) \<and> f x s1 = (Inr y, s'))"
  by (auto simp: ebind_def split: prod.splits sum.splits)

lemma ecatch_run [simp]: "ecatch m s = (Inr (fst (m s)), snd (m s))"
  by (simp add: ecatch_def split_beta)

section \<open>Invariants of effects\<close>

definition epreserves :: "('s \<Rightarrow> bool) \<Rightarrow> ('s, 'e, 'a) fallible \<Rightarrow> bool" where
  "epreserves I m \<longleftrightarrow> (\<forall>s. I s \<longrightarrow> I (snd (m s)))"

named_theorems epreserves_rules

lemma epreservesD: "epreserves I m \<Longrightarrow> I s \<Longrightarrow> I (snd (m s))"
  by (simp add: epreserves_def)

lemma epreserves_basic [epreserves_rules]:
  "epreserves I (eret x)" "epreserves I (efail e)" "epreserves I (elift r)"
  by (simp_all add: epreserves_def)

lemma epreserves_ebind [epreserves_rules]:
  assumes "epreserves I m" and "\<And>x. epreserves I (f x)"
  shows "epreserves I (ebind m f)"
  unfolding epreserves_def
proof (intro allI impI)
  fix s assume "I s"
  then have "I (snd (m s))" by (rule epreservesD [OF assms(1)])
  then show "I (snd (ebind m f s))"
    using assms(2) by (auto simp: ebind_def epreserves_def split: prod.split sum.split)
qed

lemma epreserves_ecatch [epreserves_rules]: "epreserves I m \<Longrightarrow> epreserves I (ecatch m)"
  by (simp add: epreserves_def)

lemma epreserves_cases [epreserves_rules]:
  "(b \<Longrightarrow> epreserves I m) \<Longrightarrow> (\<not> b \<Longrightarrow> epreserves I m') \<Longrightarrow> epreserves I (if b then m else m')"
  "epreserves I n \<Longrightarrow> (\<And>x. epreserves I (g x)) \<Longrightarrow> epreserves I (case z of None \<Rightarrow> n | Some x \<Rightarrow> g x)"
  "(\<And>e. epreserves I (h e)) \<Longrightarrow> (\<And>y. epreserves I (k y)) \<Longrightarrow> epreserves I (case r of Inl e \<Rightarrow> h e | Inr y \<Rightarrow> k y)"
  by (auto split: option.split sum.split)

section \<open>Statements\<close>

record 'd sql_world =
  sw_tick :: nat
  sw_data :: 'd

definition sql :: "(nat \<Rightarrow> string option) \<Rightarrow> string \<Rightarrow> ('d \<Rightarrow> 'a \<times> 'd) \<Rightarrow> ('d sql_world, 'a) eff" where
  "sql fault context stmt w =
     (case fault (sw_tick w) of
        Some e \<Rightarrow> (Inl (context @ e), w\<lparr>sw_tick := Suc (sw_tick w)\<rparr>)
      | None \<Rightarrow> (case stmt (sw_data w) of
                  (x, d) \<Rightarrow> (Inr x, \<lparr>sw_tick = Suc (sw_tick w), sw_data = d\<rparr>)))"

definition sql_query :: "(nat \<Rightarrow> string option) \<Rightarrow> string \<Rightarrow> ('d \<Rightarrow> 'a) \<Rightarrow> ('d sql_world, 'a) eff" where
  "sql_query fault context q = sql fault context (\<lambda>d. (q d, d))"

definition sql_exec :: "(nat \<Rightarrow> string option) \<Rightarrow> string \<Rightarrow> ('d \<Rightarrow> 'd) \<Rightarrow> ('d sql_world, unit) eff" where
  "sql_exec fault context u = sql fault context (\<lambda>d. ((), u d))"

definition no_fault :: "nat \<Rightarrow> string option" where
  "no_fault n = None"

lemma sql_no_fault [simp]:
  "sql no_fault c f w = (Inr (fst (f (sw_data w))), \<lparr>sw_tick = Suc (sw_tick w), sw_data = snd (f (sw_data w))\<rparr>)"
  "sql_query no_fault c q w = (Inr (q (sw_data w)), w\<lparr>sw_tick := Suc (sw_tick w)\<rparr>)"
  "sql_exec no_fault c u w = (Inr (), \<lparr>sw_tick = Suc (sw_tick w), sw_data = u (sw_data w)\<rparr>)"
  by (simp_all add: sql_def sql_query_def sql_exec_def no_fault_def split: prod.split)

lemma epreserves_sql [epreserves_rules]:
  "epreserves (\<lambda>w. I (sw_data w)) (sql_query fault c q)"
  "(\<And>d. I d \<Longrightarrow> I (u d)) \<Longrightarrow> epreserves (\<lambda>w. I (sw_data w)) (sql_exec fault c u)"
  "(\<And>d. I d \<Longrightarrow> I (snd (f d))) \<Longrightarrow> epreserves (\<lambda>w. I (sw_data w)) (sql fault c f)"
  by (auto simp: epreserves_def sql_def sql_query_def sql_exec_def split_beta split: option.split)

text \<open>\<open>INSERT OR IGNORE\<close> into a table whose primary key is looked up: an existing row stays.\<close>

definition insert_or_ignore :: "'k \<Rightarrow> 'v \<Rightarrow> ('k \<rightharpoonup> 'v) \<Rightarrow> 'k \<rightharpoonup> 'v" where
  "insert_or_ignore k v m = (case m k of None \<Rightarrow> m(k \<mapsto> v) | Some _ \<Rightarrow> m)"

lemma insert_or_ignore_keeps: "m \<subseteq>\<^sub>m insert_or_ignore k v m"
  by (auto simp: map_le_def insert_or_ignore_def split: option.split)

lemma insert_or_ignore_dom [simp]: "dom (insert_or_ignore k v m) = insert k (dom m)"
  by (auto simp: insert_or_ignore_def split: option.split)

lemma insert_or_ignore_lookup:
  "insert_or_ignore k v m k' = (if k' = k \<and> m k = None then Some v else m k')"
  by (auto simp: insert_or_ignore_def split: option.split)

section \<open>Codecs\<close>

text \<open>A codec is serde's, chrono's or base64's pair of printer and parser; either may fail.\<close>

record ('a, 'b) codec =
  enc :: "'a \<Rightarrow> (string, 'b) rust_result"
  dec :: "'b \<Rightarrow> (string, 'a) rust_result"

section \<open>Pattern matching\<close>

text \<open>
  SQL's \<open>LIKE\<close>: a percent sign matches any text, an underscore one UTF-8 character, any other
  character itself up to ASCII case.
\<close>

definition ascii_lower :: "char \<Rightarrow> char" where
  "ascii_lower c = (let n = (of_char c :: nat) in if 65 \<le> n \<and> n \<le> 90 then char_of (n + 32) else c)"

definition continuation_byte :: "char \<Rightarrow> bool" where
  "continuation_byte c = (let n = (of_char c :: nat) in 128 \<le> n \<and> n < 192)"

definition skip_char :: "char \<Rightarrow> string \<Rightarrow> string" where
  "skip_char c cs = (if (of_char c :: nat) \<ge> 192 then dropWhile continuation_byte cs else cs)"

function sql_like :: "string \<Rightarrow> string \<Rightarrow> bool" where
  "sql_like [] t = (t = [])"
| "sql_like (p # ps) [] = (p = CHR ''%'' \<and> sql_like ps [])"
| "sql_like (p # ps) (c # cs) =
     (if p = CHR ''%'' then sql_like ps (c # cs) \<or> sql_like (p # ps) cs
      else if p = CHR ''_'' then sql_like ps (skip_char c cs)
      else ascii_lower p = ascii_lower c \<and> sql_like ps cs)"
  by pat_completeness auto
termination
  by (relation "measure (\<lambda>(p, t). length p + length t)")
    (auto simp: skip_char_def intro: le_less_trans [OF length_dropWhile_le])

definition plain_pattern :: "string \<Rightarrow> bool" where
  "plain_pattern p \<longleftrightarrow> CHR ''%'' \<notin> set p \<and> CHR ''_'' \<notin> set p"

definition same_ascii_case :: "string \<Rightarrow> string \<Rightarrow> bool" where
  "same_ascii_case a b \<longleftrightarrow> map ascii_lower a = map ascii_lower b"

lemma sql_like_anything: "sql_like ''%'' t"
  by (induction t) simp_all

lemma sql_like_prefix:
  "plain_pattern p \<Longrightarrow> sql_like (p @ ''%'') t \<longleftrightarrow> length p \<le> length t \<and> same_ascii_case p (take (length p) t)"
proof (induction p arbitrary: t)
  case Nil
  then show ?case by (simp add: sql_like_anything same_ascii_case_def)
next
  case (Cons c p)
  then show ?case by (cases t) (auto simp: plain_pattern_def same_ascii_case_def)
qed

end
