(* ===== verification/RecordingInv.thy ===== *)
theory RecordingInv
  imports RecordingLaws Effects
begin

text \<open>
  Invariants of the DAG store under the recording queue.  Whatever every changing method of a store
  keeps (locale \<open>store_invariant\<close>), every operation of the recording queue on that store keeps, and so
  does every run.
\<close>

locale store_invariant =
  fixes ds :: "'s dag_store"
    and I :: "'s \<Rightarrow> bool"
  assumes keep_invoke: "epreserves I (ds_insert_invoke_node ds i p t st dk iv)"
    and keep_complete: "epreserves I (ds_insert_complete_node ds i p t st se sub br a h cm)"
    and keep_request: "epreserves I (ds_insert_request_node ds i p t st se sub br a sb op q rq)"
    and keep_response: "epreserves I (ds_insert_response_node ds i p t st se sub br a sb op q rs)"
    and keep_svc_request: "epreserves I (ds_insert_svc_request_node ds i p t st se sub br a sv so q rq2)"
    and keep_svc_response: "epreserves I (ds_insert_svc_response_node ds i p t st se sub br a sv so q rs2)"
    and keep_fork: "epreserves I (ds_insert_fork_node ds i p t st sk fk)"
    and keep_promote: "epreserves I (ds_insert_promote_node ds i p t st sk pm)"
    and keep_deploy: "epreserves I (ds_insert_deploy_agent_node ds i p t st ik dp)"
    and keep_delete: "epreserves I (ds_insert_delete_agent_node ds i p t st ik da)"
    and keep_create_branch: "epreserves I (ds_create_branch ds t nm se fp)"
    and keep_rename_branch: "epreserves I (ds_rename_branch ds br nm)"
    and keep_seal_branch: "epreserves I (ds_seal_branch ds br t)"
    and keep_default_branch: "epreserves I (ds_update_session_default_branch ds se br)"
    and keep_create_session: "epreserves I (ds_create_session ds ses)"
begin

lemmas keep_inserts = keep_invoke keep_complete keep_request keep_response keep_svc_request
  keep_svc_response keep_fork keep_promote keep_deploy keep_delete

lemmas keep_rows = keep_create_branch keep_rename_branch keep_seal_branch keep_default_branch
  keep_create_session

lemmas kept_rows = keep_rows [THEN epreservesD]

lemma rec_insert_keeps:
  "(\<And>now. epreserves I (ins now)) \<Longrightarrow> I (rc_store c) \<Longrightarrow> I (rc_store (rec_insert ext ins c))"
  by (simp add: rec_insert_store epreserves_def)

lemma records_keep:
  assumes "I (rc_store c)"
  shows "I (rc_store (snd (record_invoke ext ds key iv c)))"
    and "I (rc_store (snd (record_complete ext ds key cm c)))"
    and "I (rc_store (snd (record_request ext ds key rq c)))"
    and "I (rc_store (snd (record_response ext ds key rs c)))"
    and "I (rc_store (snd (snd (record_svc_request ext ds vkey rq2 c))))"
    and "I (rc_store (snd (snd (record_svc_response ext ds vkey rs2 c))))"
    and "I (rc_store (record_fork ext ds skey fk c))"
    and "I (rc_store (record_promote ext ds skey pm c))"
    and "I (rc_store (record_deploy_agent ext ds ikey dp c))"
    and "I (rc_store (record_delete_agent ext ds ikey da c))"
  using assms
  by (auto simp: record_invoke_def record_complete_def record_request_def record_response_def
      record_svc_request_def record_svc_response_def record_fork_def record_promote_def
      record_deploy_agent_def record_delete_agent_def Let_def
      split: data_message_kind.split svc_message_kind.split session_message_kind.split
      intro!: rec_insert_keeps keep_inserts)

lemma seal_old_main_keeps: "I (rc_store c) \<Longrightarrow> I (rc_store (seal_old_main ext ds old c))"
  by (simp add: seal_old_main_def Let_def rec_now_def kept_rows split: option.split)

lemma promote_branch_keeps: "I (rc_store c) \<Longrightarrow> I (rc_store (promote_branch ds se b c))"
  by (simp add: promote_branch_def Let_def kept_rows split: option.split)

lemma rec_step_keeps: "rec_step ext ds mq c c' \<Longrightarrow> I (rc_store c) \<Longrightarrow> I (rc_store c')"
proof (induction rule: rec_step.induct)
  case (st_receive_svc_response c vkey)
  let ?in = "on_inner_ack (mq_receive_svc_response mq vkey) c"
  have "I (rc_store (snd ?in))" using st_receive_svc_response by simp
  then have "I (rc_store (snd (snd (record_svc_response ext ds k m (snd ?in)))))" for k m
    by (rule records_keep(6))
  with st_receive_svc_response on_inner_ack_store [of "mq_receive_svc_response mq vkey" c] show ?case
    by (cases ?in; cases "fst ?in") (auto simp: rec_receive_svc_response_def split_beta)
next
  case (st_session_start c skey ss eid)
  then show ?case
    by (simp add: rec_send_session_start_def Let_def split_beta kept_rows split: session_message_kind.split)
qed (simp_all add: rec_send_invoke_def rec_send_complete_def rec_send_request_def rec_send_response_def
    rec_send_svc_request_def rec_send_svc_response_def rec_send_fork_def rec_send_promote_def
    rec_send_deploy_agent_def rec_send_delete_agent_def Let_def split_beta records_keep kept_rows
    seal_old_main_keeps promote_branch_keeps)

lemma rec_run_keeps: "(rec_step ext ds mq)\<^sup>*\<^sup>* c c' \<Longrightarrow> I (rc_store c) \<Longrightarrow> I (rc_store c')"
  by (induction rule: rtranclp_induct) (auto dest: rec_step_keeps)

end

end
