(* ===== verification/RecordingMem.thy ===== *)
theory RecordingMem
  imports RecordingInv
begin

text \<open>
  The recording queue over \<open>InMemoryDagStore\<close> and \<open>InMemoryQueue\<close>, the pairing the platform's own
  tests and single-process mode run: the chain invariant for whole runs, and what each operation
  leaves in the store and hands to the wrapped queue.
\<close>

lemma mem_dag_store_sel [simp]:
  "ds_insert_invoke_node mem_dag_store = mem_insert_invoke_node"
  "ds_insert_complete_node mem_dag_store = mem_insert_complete_node"
  "ds_insert_request_node mem_dag_store = mem_insert_request_node"
  "ds_insert_response_node mem_dag_store = mem_insert_response_node"
  "ds_insert_svc_request_node mem_dag_store = mem_insert_svc_request_node"
  "ds_insert_svc_response_node mem_dag_store = mem_insert_svc_response_node"
  "ds_insert_fork_node mem_dag_store = (\<lambda>_ _ _ _ _ _. not_implemented ''insert_fork_node'')"
  "ds_insert_promote_node mem_dag_store = (\<lambda>_ _ _ _ _ _. not_implemented ''insert_promote_node'')"
  "ds_get_node mem_dag_store = mem_get_node"
  "ds_get_branch mem_dag_store = mem_get_branch"
  "ds_get_branch_by_name mem_dag_store = mem_get_branch_by_name"
  "ds_create_branch mem_dag_store = mem_create_branch"
  "ds_rename_branch mem_dag_store = mem_rename_branch"
  "ds_seal_branch mem_dag_store = mem_seal_branch"
  "ds_update_session_default_branch mem_dag_store = mem_update_session_default_branch"
  "ds_create_session mem_dag_store = mem_create_session"
  by (simp_all add: mem_dag_store_def)

lemma mem_latest_parent: "latest_parent mem_dag_store b s = find (\<lambda>n. dn_branch n = b) (rev (ims_nodes s))"
  by (simp add: latest_parent_def mem.latest_node)

lemma mem_lookup_parent:
  "lookup_parent mem_dag_store i s = (if i = [] then None else find (\<lambda>n. dn_id n = i) (ims_nodes s))"
  by (simp add: lookup_parent_def mem_get_node_def dag_node_id_is_empty_def dag_node_id_root_def)

type_synonym mem_rec = "(mem_store, mem_queue) rec_state"

section \<open>Sending\<close>

text \<open>The parent an invoke resolves to, and the id, node and stamped message that follow from it.\<close>

definition invoke_parent :: "data_routing_key \<Rightarrow> invoke_message \<Rightarrow> (mem_store, 'q) rec_state \<Rightarrow> dag_node option" where
  "invoke_parent key msg c =
     (if iv_dag_parent msg = [] then find (\<lambda>n. dn_branch n = dk_branch key) (rev (ims_nodes (rc_store c)))
      else find (\<lambda>n. dn_id n = iv_dag_parent msg) (ims_nodes (rc_store c)))"

definition invoke_node_id ::
    "rec_ext \<Rightarrow> data_routing_key \<Rightarrow> invoke_message \<Rightarrow> (mem_store, 'q) rec_state \<Rightarrow> dag_node_id" where
  "invoke_node_id ext key msg c =
     hash_node ext (rx_invoke_json ext msg) (parent_id_of (invoke_parent key msg c)) MtInvoke
       (rx_invoke_diag_json ext (iv_diagnostics msg)) (dk_session key)"

lemma record_invoke_mem:
  "record_invoke ext mem_dag_store key msg c =
     (let nid = invoke_node_id ext key msg c;
          p = invoke_parent key msg c;
          n = typed_node MtInvoke nid (parent_id_of p) (rx_clock ext (rc_ticks c)) (node_state p (iv_state msg))
                (dk_session key) (dk_submission key) (dk_branch key)
      in (nid, c\<lparr>rc_store := (rc_store c)\<lparr>ims_nodes := add_node n (ims_nodes (rc_store c))\<rparr>,
                 rc_ticks := Suc (rc_ticks c)\<rparr>))"
  by (simp add: record_invoke_def Let_def invoke_node_id_def invoke_parent_def mem_latest_parent
      mem_get_node_def dag_node_id_is_empty_def rec_insert_def rec_now_def mem_insert_invoke_node_def
      mem_insert_node_def)

lemma find_add_node:
  "find (\<lambda>n. dn_id n = i) (add_node m ns) =
     (case find (\<lambda>n. dn_id n = i) ns of Some n \<Rightarrow> Some n | None \<Rightarrow> if dn_id m = i then Some m else None)"
proof (cases "add_node m ns = ns \<and> dn_id m \<in> dn_id ` set ns")
  case True
  then show ?thesis
    using find_key_None [of dn_id i ns] by (auto split: option.split)
next
  case False
  then have "add_node m ns = ns @ [m]" using add_node_cases [of m ns] by blast
  then show ?thesis by (simp add: find_append split: option.split)
qed

lemma find_add_node_self:
  assumes "dn_id m \<notin> dn_id ` set ns"
  shows "find (\<lambda>n. dn_id n = dn_id m) (add_node m ns) = Some m"
  using assms find_key_None [of dn_id "dn_id m" ns] by (simp add: find_add_node)

text \<open>
  C2: over the in-memory store and queue, sending an invoke whose node id is not taken yet returns the id of
  the node it recorded: the node hangs below the message's own parent, or below the latest node of its
  branch when the message names none, and inherits that node's snapshot with the message's KV state on
  top.  The message, stamped with that id, becomes the last of those that wait under its key in the
  wrapped queue, which leaves the other keys alone; and when no other invoke for the agent waits, the next
  receive delivers it.
\<close>

theorem invoke_recorded_and_delivered:
  assumes "visits_all (iter 0)" and "hq_distinct (mq_invokes (rc_inner c))"
    and "dk_kind key = DkInvoke h rt agent"
    and "invoke_node_id ext key msg c \<notin> dn_id ` set (ims_nodes (rc_store c))"
  shows "let ops = rec_mq_ops ext mem_dag_store (mem_mq_ops iter);
             nid = invoke_node_id ext key msg c;
             p = invoke_parent key msg c;
             (r, c1) = mq_send_invoke ops key msg c
         in r = Inr nid \<and>
            (\<exists>n. mem_get_node nid (rc_store c1) = Inr (Some n) \<and>
                 dn_parent_id n = parent_id_of p \<and> dn_state n = node_state p (iv_state msg) \<and>
                 dn_branch n = dk_branch key \<and> dn_session n = dk_session key \<and> dn_msg_type n = MtInvoke) \<and>
            hq_pending (mq_invokes (rc_inner c1)) =
              (hq_pending (mq_invokes (rc_inner c)))
                (key := hq_pending (mq_invokes (rc_inner c)) key @ [msg\<lparr>iv_dag_id := nid\<rparr>]) \<and>
            ((\<forall>k. is_invoke_for agent k \<longrightarrow> hq_pending (mq_invokes (rc_inner c)) k = []) \<longrightarrow>
               (\<exists>ack c2. mq_receive_invoke ops agent c1 = (Inr (key, msg\<lparr>iv_dag_id := nid\<rparr>, ack), c2)))"
proof -
  let ?nid = "invoke_node_id ext key msg c"
  let ?p = "invoke_parent key msg c"
  let ?n = "typed_node MtInvoke ?nid (parent_id_of ?p) (rx_clock ext (rc_ticks c))
      (node_state ?p (iv_state msg)) (dk_session key) (dk_submission key) (dk_branch key)"
  let ?m = "msg\<lparr>iv_dag_id := ?nid\<rparr>"
  let ?q = "invoke_push key ?m (rc_inner c)"
  have new: "find (\<lambda>n. dn_id n = ?nid) (add_node ?n (ims_nodes (rc_store c))) = Some ?n"
    using find_add_node_self [of ?n] assms(4) by simp
  have rec: "\<exists>ack h. imq_receive_invoke (iter 0) agent ?q = (Inr (key, ?m, ack), h)"
    if "\<forall>k. is_invoke_for agent k \<longrightarrow> hq_pending (mq_invokes (rc_inner c)) k = []"
  proof -
    have "fst (invoke_pop (iter 0) agent ?q) = Some (key, ?m)"
      using hash_iteration.invoke_push_pop [OF hash_iteration.intro [OF assms(1)] assms(2)] assms(3) that by blast
    then show ?thesis by (auto simp: invoke_pop_def delivered_def split: prod.splits sum.splits)
  qed
  note unfold = rec_mq_ops_def mem_mq_ops_def rec_send_invoke_def record_invoke_mem Let_def forward_def
    on_inner_def on_inner_ack_def imq_send_invoke_def invoke_push_def mem_get_node_def hq_pending_push
  show ?thesis
  proof (cases "\<forall>k. is_invoke_for agent k \<longrightarrow> hq_pending (mq_invokes (rc_inner c)) k = []")
    case True
    then obtain ack h where "imq_receive_invoke (iter 0) agent ?q = (Inr (key, ?m, ack), h)" using rec by blast
    then show ?thesis using new by (simp add: unfold)
  next
    case False
    then show ?thesis using new by (simp add: unfold del: not_all)
  qed
qed

definition example_ext :: rec_ext where
  "example_ext =
     \<lparr>rx_sha256 = (\<lambda>x. CHR ''h'' # x), rx_invoke_json = (\<lambda>m. Some (iv_id m)),
      rx_invoke_diag_json = (\<lambda>_. None), rx_runtime_diag_json = (\<lambda>_. None),
      rx_request_diag_json = (\<lambda>_. None), rx_service_diag_json = (\<lambda>_. None),
      rx_request_v2_json = (\<lambda>m. Some (rq2_id m)), rx_response_v2_json = (\<lambda>m. Some (rs2_id m)),
      rx_petname = (\<lambda>sid. ''calm-otter''), rx_broken_name = (\<lambda>t. ''broken-'' @ show_int t),
      rx_clock = int\<rparr>"

definition example_start :: mem_rec where
  "example_start = \<lparr>rc_store = mem_store_new, rc_inner = mem_queue_new, rc_ticks = 0\<rparr>"

abbreviation example_invoke_key :: data_routing_key where
  "example_invoke_key \<equiv> example_data_key (DkInvoke HCli RtContainer ''todo'')"

theorem invoke_recorded_and_delivered_witness:
  "let nid = invoke_node_id example_ext example_invoke_key (example_invoke ''1'') example_start
   in case mq_send_invoke (rec_mq_ops example_ext mem_dag_store (mem_mq_ops (\<lambda>_ n. [0..<n])))
             example_invoke_key (example_invoke ''1'') example_start of
        (r, c1) \<Rightarrow> r = Inr nid \<and>
          (\<exists>ack c2. mq_receive_invoke (rec_mq_ops example_ext mem_dag_store (mem_mq_ops (\<lambda>_ n. [0..<n]))) ''todo'' c1 =
             (Inr (example_invoke_key, (example_invoke ''1'')\<lparr>iv_dag_id := nid\<rparr>, ack), c2))"
  using invoke_recorded_and_delivered [of "\<lambda>_ n. [0..<n]" example_start example_invoke_key HCli RtContainer
      "''todo''" example_ext "example_invoke ''1''"]
  by (simp add: example_start_def mem_store_new_def example_data_key_def Let_def split_beta)

text \<open>
  C1: from any well-formed store, whatever queue is wrapped and whatever is sent, received, forked,
  promoted or deployed in whatever order, the node list is only ever extended at its end, ids stay
  unique, every parent is the root or an earlier node, and the parent relation has no cycle.
\<close>

theorem recording_chain_invariant:
  assumes "\<forall>x. rx_sha256 ext x \<noteq> []"
    and "(rec_step ext mem_dag_store mq)\<^sup>*\<^sup>* c c'"
    and "chain_wf (ims_nodes (rc_store c))"
  shows "prefix (ims_nodes (rc_store c)) (ims_nodes (rc_store c')) \<and>
         chain_wf (ims_nodes (rc_store c')) \<and>
         distinct (map dn_id (ims_nodes (rc_store c'))) \<and>
         acyclic (parent_edges (ims_nodes (rc_store c')))"
  using mem.rec_run_prefix [OF assms(2)] mem.rec_run_chain_wf [OF assms(2,1,3)]
  by (simp add: chain_wf_distinct parent_edges_acyclic)

theorem recording_chain_invariant_witness:
  "chain_wf (ims_nodes (rc_store (snd (rec_send_invoke example_ext mem_dag_store
     (mem_mq_ops (\<lambda>_ n. [0..<n])) example_invoke_key (example_invoke ''1'') example_start))))"
proof -
  let ?mq = "mem_mq_ops (\<lambda>_ n. [0..<n])"
  have "(rec_step example_ext mem_dag_store ?mq)\<^sup>*\<^sup>* example_start
      (snd (rec_send_invoke example_ext mem_dag_store ?mq example_invoke_key (example_invoke ''1'') example_start))"
    by (rule r_into_rtranclp) (rule st_invoke)
  from recording_chain_invariant [OF _ this] show ?thesis
    by (simp add: example_ext_def example_start_def mem_store_new_def)
qed

section \<open>Completing\<close>

definition complete_node_id ::
    "rec_ext \<Rightarrow> data_routing_key \<Rightarrow> complete_message \<Rightarrow> dag_node option \<Rightarrow> dag_node_id" where
  "complete_node_id ext key msg p =
     hash_node ext (Some (cm_payload msg)) (parent_id_of p) MtComplete
       (rx_runtime_diag_json ext (cm_diagnostics msg)) (dk_session key)"

lemma record_complete_mem:
  assumes "dk_kind key = DkComplete agent h"
  shows "record_complete ext mem_dag_store key msg c =
     (let p = lookup_parent mem_dag_store (cm_dag_parent msg) (rc_store c);
          nid = complete_node_id ext key msg p;
          n = typed_node MtComplete nid (parent_id_of p) (rx_clock ext (rc_ticks c)) (node_state p (cm_state msg))
                (dk_session key) (dk_submission key) (dk_branch key)
      in (nid, c\<lparr>rc_store := (rc_store c)\<lparr>ims_nodes := add_node n (ims_nodes (rc_store c))\<rparr>,
                 rc_ticks := Suc (rc_ticks c)\<rparr>))"
  using assms
  by (simp add: record_complete_def Let_def complete_node_id_def rec_insert_def rec_now_def
      mem_insert_complete_node_def mem_insert_node_def)

lemma add_node_known: "dn_id n \<in> dn_id ` set ns \<Longrightarrow> add_node n ns = ns"
  using add_node_cases [of n ns] by auto

lemma lookup_parent_stable:
  "known_parent (ims_nodes s) i \<Longrightarrow>
     lookup_parent mem_dag_store i (s\<lparr>ims_nodes := add_node n (ims_nodes s)\<rparr>) =
     lookup_parent mem_dag_store i s"
  using find_key_None [of dn_id i "ims_nodes s"]
  by (auto simp: mem_lookup_parent find_add_node known_parent_def dag_node_id_root_def split: option.split)

lemma rec_send_complete_store:
  "rc_store (snd (rec_send_complete ext ds mq key msg c)) = rc_store (snd (record_complete ext ds key msg c))"
  by (simp add: rec_send_complete_def split_beta)

text \<open>
  A completion is recorded once however often it is sent: when its parent is the root or a recorded
  node, sending it again adds nothing to the store and reports the same id; and a completion whose
  parent is not recorded is not refused, it is hung below the root with an empty snapshot under its KV
  state.
\<close>

theorem complete_resend_idempotent:
  assumes "dk_kind key = DkComplete agent h"
  shows "(known_parent (ims_nodes (rc_store c)) (cm_dag_parent msg) \<longrightarrow>
            (let (i, c1) = record_complete ext mem_dag_store key msg c;
                 c2 = snd (rec_send_complete ext mem_dag_store mq key msg c);
                 (j, c3) = record_complete ext mem_dag_store key msg c2
             in j = i \<and> ims_nodes (rc_store c3) = ims_nodes (rc_store c2) \<and> i \<in> dn_id ` set (ims_nodes (rc_store c2)))) \<and>
         (\<not> known_parent (ims_nodes (rc_store c)) (cm_dag_parent msg) \<longrightarrow>
            complete_node_id ext key msg None \<notin> dn_id ` set (ims_nodes (rc_store c)) \<longrightarrow>
            (\<exists>n. ims_nodes (rc_store (snd (rec_send_complete ext mem_dag_store mq key msg c))) =
                   ims_nodes (rc_store c) @ [n] \<and>
                 dn_parent_id n = dag_node_id_root \<and> dn_state n = node_state None (cm_state msg)))"
proof (intro conjI impI)
  let ?s = "rc_store c"
  let ?p = "lookup_parent mem_dag_store (cm_dag_parent msg) ?s"
  let ?i = "complete_node_id ext key msg ?p"
  let ?n = "typed_node MtComplete ?i (parent_id_of ?p) (rx_clock ext (rc_ticks c)) (node_state ?p (cm_state msg))
      (dk_session key) (dk_submission key) (dk_branch key)"
  let ?s2 = "?s\<lparr>ims_nodes := add_node ?n (ims_nodes ?s)\<rparr>"
  let ?c2 = "snd (rec_send_complete ext mem_dag_store mq key msg c)"
  have s2: "rc_store ?c2 = ?s2"
    using assms by (simp add: rec_send_complete_store record_complete_mem Let_def)
  have in2: "?i \<in> dn_id ` set (ims_nodes ?s2)" by (simp add: add_node_ids)
  { assume known: "known_parent (ims_nodes ?s) (cm_dag_parent msg)"
    have same: "lookup_parent mem_dag_store (cm_dag_parent msg) ?s2 = ?p"
      using known by (rule lookup_parent_stable)
    show "let (i, c1) = record_complete ext mem_dag_store key msg c;
              c2 = snd (rec_send_complete ext mem_dag_store mq key msg c);
              (j, c3) = record_complete ext mem_dag_store key msg c2
          in j = i \<and> ims_nodes (rc_store c3) = ims_nodes (rc_store c2) \<and> i \<in> dn_id ` set (ims_nodes (rc_store c2))"
      using in2 by (simp add: record_complete_mem [OF assms] s2 same Let_def add_node_known) }
  { assume "\<not> known_parent (ims_nodes ?s) (cm_dag_parent msg)"
    then have none: "?p = None"
      using find_key_None [of dn_id "cm_dag_parent msg" "ims_nodes ?s"]
      by (simp add: mem_lookup_parent known_parent_def)
    assume "complete_node_id ext key msg None \<notin> dn_id ` set (ims_nodes ?s)"
    then have "ims_nodes ?s2 = ims_nodes ?s @ [?n]"
      using add_node_cases [of ?n "ims_nodes ?s"] none by auto
    then show "\<exists>n. ims_nodes (rc_store ?c2) = ims_nodes ?s @ [n] \<and>
                 dn_parent_id n = dag_node_id_root \<and> dn_state n = node_state None (cm_state msg)"
      unfolding s2 using none by (intro exI [of _ ?n]) (simp add: parent_id_of_def) }
qed

theorem complete_resend_idempotent_witness:
  "\<exists>n. ims_nodes (rc_store (snd (rec_send_complete example_ext mem_dag_store (mem_mq_ops (\<lambda>_ n. [0..<n]))
       (example_data_key (DkComplete ''todo'' HCli)) (example_complete\<lparr>cm_dag_parent := ''lost''\<rparr>)
       example_start))) = [n] \<and> dn_parent_id n = dag_node_id_root"
  using complete_resend_idempotent [of "example_data_key (DkComplete ''todo'' HCli)" "''todo''" HCli example_start
      "example_complete\<lparr>cm_dag_parent := ''lost''\<rparr>" example_ext "mem_mq_ops (\<lambda>_ n. [0..<n])"]
  by (auto simp: example_start_def mem_store_new_def example_data_key_def example_complete_def
      known_parent_def dag_node_id_root_def)

section \<open>Sessions, forks and promotion\<close>

lemma session_new_id [simp]: "se_id (session_new pet now sid eid a b) = sid"
  by (simp add: session_new_def)

definition set_branch :: "branch_id \<Rightarrow> (branch \<Rightarrow> branch) \<Rightarrow> branch list \<Rightarrow> branch list" where
  "set_branch i f bs = map (\<lambda>b. if br_id b = i then f b else b) bs"

lemma update_first_map_if:
  "distinct (map k xs) \<Longrightarrow> (\<And>x. k (f x) = k x) \<Longrightarrow>
     (case update_first (\<lambda>x. k x = i) f xs of None \<Rightarrow> xs | Some ys \<Rightarrow> ys) =
     map (\<lambda>x. if k x = i then f x else x) xs"
proof (cases "update_first (\<lambda>x. k x = i) f xs")
  case None
  then have "map (\<lambda>x. if k x = i then f x else x) xs = xs" by (intro map_idI) auto
  with None show ?thesis by (simp del: update_first_None)
next
  case (Some ys)
  then show "distinct (map k xs) \<Longrightarrow> (\<And>x. k (f x) = k x) \<Longrightarrow> ?thesis"
    using update_first_distinct [of k i f xs ys] by simp
qed

lemma rename_branch_rows:
  assumes "distinct (map br_id (ims_branches s))"
  shows "snd (mem_rename_branch i nm s) = s\<lparr>ims_branches := set_branch i (\<lambda>b. b\<lparr>br_name := nm\<rparr>) (ims_branches s)\<rparr>"
proof -
  have "snd (mem_rename_branch i nm s) = s\<lparr>ims_branches :=
      (case update_first (\<lambda>x. br_id x = i) (\<lambda>b. b\<lparr>br_name := nm\<rparr>) (ims_branches s) of
         None \<Rightarrow> ims_branches s | Some ys \<Rightarrow> ys)\<rparr>"
    by (simp add: mem_rename_branch_def split: option.split del: update_first_None)
  then show ?thesis
    using update_first_map_if [OF assms, of "\<lambda>b. b\<lparr>br_name := nm\<rparr>" i] by (simp add: set_branch_def)
qed

lemma seal_branch_rows:
  assumes "distinct (map br_id (ims_branches s))"
  shows "snd (mem_seal_branch i t s) =
           s\<lparr>ims_branches := set_branch i (\<lambda>b. b\<lparr>br_broken_at := Some t\<rparr>) (ims_branches s)\<rparr>"
proof -
  have "snd (mem_seal_branch i t s) = s\<lparr>ims_branches :=
      (case update_first (\<lambda>x. br_id x = i) (\<lambda>b. b\<lparr>br_broken_at := Some t\<rparr>) (ims_branches s) of
         None \<Rightarrow> ims_branches s | Some ys \<Rightarrow> ys)\<rparr>"
    by (simp add: mem_seal_branch_def split: option.split del: update_first_None)
  then show ?thesis
    using update_first_map_if [OF assms, of "\<lambda>b. b\<lparr>br_broken_at := Some t\<rparr>" i] by (simp add: set_branch_def)
qed

lemma default_branch_rows:
  assumes "distinct (map se_id (ims_sessions s))"
  shows "snd (mem_update_session_default_branch sid b s) =
           s\<lparr>ims_sessions := map (\<lambda>x. if se_id x = sid then x\<lparr>se_default_branch := b\<rparr> else x) (ims_sessions s)\<rparr>"
proof -
  have "snd (mem_update_session_default_branch sid b s) = s\<lparr>ims_sessions :=
      (case update_first (\<lambda>x. se_id x = sid) (\<lambda>x. x\<lparr>se_default_branch := b\<rparr>) (ims_sessions s) of
         None \<Rightarrow> ims_sessions s | Some ys \<Rightarrow> ys)\<rparr>"
    by (simp add: mem_update_session_default_branch_def split: option.split del: update_first_None)
  then show ?thesis
    using update_first_map_if [OF assms, of "\<lambda>x. x\<lparr>se_default_branch := b\<rparr>" sid] by simp
qed

lemma set_branch_ids [simp]:
  "(\<And>b. br_id (f b) = br_id b) \<Longrightarrow> map br_id (set_branch i f bs) = map br_id bs"
  by (simp add: set_branch_def comp_def)

text \<open>
  Starting a session appends one branch row called \<open>main\<close> with a fresh id, returns that id, and
  leaves the session with it as default branch; a session id that already exists keeps its row (its
  agent, external id and creation time are not overwritten) but is moved to the new \<open>main\<close>.  A key of
  another kind is an error and changes nothing.
\<close>

theorem session_start_spec:
  assumes "distinct (map se_id (ims_sessions (rc_store c)))"
  shows "(case sk_kind key of
            SkStart agent \<Rightarrow>
              (let (r, c1) = rec_send_session_start ext mem_dag_store mq key msg eid c;
                   s = rc_store c; s1 = rc_store c1; b = int (length (ims_branches s)) + 1;
                   row = session_new (rx_petname ext) (rx_clock ext (rc_ticks c)) (sk_session key) eid agent 1;
                   old = (if sk_session key \<in> se_id ` set (ims_sessions s) then ims_sessions s
                          else ims_sessions s @ [row])
               in r = Inr b \<and> ims_nodes s1 = ims_nodes s \<and>
                  ims_branches s1 = ims_branches s @
                    [\<lparr>br_id = b, br_name = ''main'', br_session_id = sk_session key, br_fork_point = None,
                      br_head = None, br_broken_at = None, br_created_at = rx_clock ext (Suc (rc_ticks c))\<rparr>] \<and>
                  ims_sessions s1 =
                    map (\<lambda>x. if se_id x = sk_session key then x\<lparr>se_default_branch := b\<rparr> else x) old)
          | _ \<Rightarrow> rec_send_session_start ext mem_dag_store mq key msg eid c =
                   (Inl (SendFailed ''expected Start kind''), c))"
proof (cases "sk_kind key")
  case (SkStart agent)
  let ?row = "session_new (rx_petname ext) (rx_clock ext (rc_ticks c)) (sk_session key) eid agent 1"
  have ex: "list_ex (\<lambda>y. se_id y = sk_session key) xs \<longleftrightarrow> sk_session key \<in> se_id ` set xs" for xs :: "session list"
    by (force simp: list_ex_iff)
  have d: "distinct (map se_id (ims_sessions (rc_store c) @ [?row]))"
    if "sk_session key \<notin> se_id ` set (ims_sessions (rc_store c))"
    using assms that by simp
  show ?thesis
  proof (cases "sk_session key \<in> se_id ` set (ims_sessions (rc_store c))")
    case True
    then show ?thesis
      using SkStart assms
      by (simp add: rec_send_session_start_def Let_def rec_now_def mem_create_session_def ex
          mem_create_branch_def default_branch_rows split_beta)
  next
    case False
    then show ?thesis
      using SkStart d [OF False]
      by (simp add: rec_send_session_start_def Let_def rec_now_def mem_create_session_def ex
          mem_create_branch_def default_branch_rows split_beta)
  qed
qed (simp_all add: rec_send_session_start_def)

text \<open>The branch rows after a promotion: what \<open>send_promote\<close> does to them, as one map.\<close>

definition old_main_id :: "session_id \<Rightarrow> branch list \<Rightarrow> branch_id option" where
  "old_main_id se bs =
     (case find (\<lambda>b. br_name b = ''main'') bs of
        Some b \<Rightarrow> if br_session_id b = se then Some (br_id b) else None
      | None \<Rightarrow> None)"

definition sealed_row :: "branch_id option \<Rightarrow> string \<Rightarrow> timestamp \<Rightarrow> branch \<Rightarrow> branch" where
  "sealed_row old nm t b =
     (if old = Some (br_id b) then b\<lparr>br_broken_at := Some t, br_name := nm\<rparr> else b)"

definition promoted_row :: "branch_id \<Rightarrow> branch \<Rightarrow> branch" where
  "promoted_row p b = (if br_id b = p then b\<lparr>br_name := ''main''\<rparr> else b)"

lemma seal_old_main_rows:
  assumes "distinct (map br_id (ims_branches (rc_store c)))"
  shows "rc_store (seal_old_main ext mem_dag_store old c) =
           (rc_store c)\<lparr>ims_branches :=
              map (sealed_row (map_option br_id old) (rx_broken_name ext (rx_clock ext (rc_ticks c)))
                     (rx_clock ext (Suc (rc_ticks c)))) (ims_branches (rc_store c))\<rparr>"
proof (cases old)
  case None
  then show ?thesis by (simp add: seal_old_main_def sealed_row_def [abs_def])
next
  case (Some o')
  let ?t = "rx_clock ext (Suc (rc_ticks c))"
  have d: "distinct (map br_id (ims_branches ((rc_store c)\<lparr>ims_branches :=
      set_branch (br_id o') (\<lambda>b. b\<lparr>br_broken_at := Some ?t\<rparr>) (ims_branches (rc_store c))\<rparr>)))"
    using assms by simp
  show ?thesis
    using Some rename_branch_rows [OF d, of "br_id o'"]
    by (simp add: seal_old_main_def Let_def rec_now_def seal_branch_rows [OF assms])
      (auto simp: set_branch_def sealed_row_def)
qed

lemma promote_branch_rows:
  assumes "distinct (map br_id (ims_branches (rc_store c)))" "distinct (map se_id (ims_sessions (rc_store c)))"
  shows "rc_store (promote_branch mem_dag_store se (Some b) c) =
           (rc_store c)\<lparr>ims_branches := map (promoted_row (br_id b)) (ims_branches (rc_store c)),
              ims_sessions := map (\<lambda>x. if se_id x = se then x\<lparr>se_default_branch := br_id b\<rparr> else x)
                (ims_sessions (rc_store c))\<rparr>"
  using assms
  by (simp add: promote_branch_def Let_def rename_branch_rows default_branch_rows)
    (simp add: set_branch_def promoted_row_def [abs_def])

lemma record_promote_mem:
  "record_promote ext mem_dag_store key msg c = c\<lparr>rc_ticks := Suc (rc_ticks c)\<rparr>"
  by (simp add: record_promote_def Let_def rec_insert_def rec_now_def not_implemented_def)

lemma promote_rows:
  assumes "branch_ids_ok (rc_store c)" and "distinct (map se_id (ims_sessions (rc_store c)))"
    and "pm_branch_id msg \<in> br_id ` set (ims_branches (rc_store c))"
  shows "let s = rc_store c;
             s1 = rc_store (snd (rec_send_promote ext mem_dag_store mq key msg c));
             old = old_main_id (sk_session key) (ims_branches s);
             t1 = rx_clock ext (Suc (rc_ticks c)); t2 = rx_clock ext (Suc (Suc (rc_ticks c)))
         in ims_branches s1 =
              map (\<lambda>b. promoted_row (pm_branch_id msg) (sealed_row old (rx_broken_name ext t1) t2 b)) (ims_branches s) \<and>
            ims_sessions s1 =
              map (\<lambda>x. if se_id x = sk_session key then x\<lparr>se_default_branch := pm_branch_id msg\<rparr> else x)
                (ims_sessions s) \<and>
            ims_nodes s1 = ims_nodes s"
proof -
  let ?s = "rc_store c"
  have d: "distinct (map br_id (ims_branches ?s))" using assms(1) by (rule branch_ids_ok_distinct)
  obtain b where b: "find (\<lambda>b. br_id b = pm_branch_id msg) (ims_branches ?s) = Some b" "br_id b = pm_branch_id msg"
    using assms(3) find_key_None [of br_id "pm_branch_id msg" "ims_branches ?s"]
    by (metis (mono_tags, lifting) find_Some_set not_None_eq)
  have ids: "br_id \<circ> sealed_row old nm t = br_id" for old nm t
    by (simp add: sealed_row_def fun_eq_iff)
  define o' where "o' = (case result_or None (mem_get_branch_by_name ''main'' ?s) of
         None \<Rightarrow> None | Some b \<Rightarrow> if br_session_id b = sk_session key then Some b else None)"
  have old: "map_option br_id o' = old_main_id (sk_session key) (ims_branches ?s)"
    by (simp add: o'_def old_main_id_def mem_get_branch_by_name_def split: option.split)
  let ?c1 = "c\<lparr>rc_ticks := Suc (rc_ticks c)\<rparr>"
  let ?c2 = "seal_old_main ext mem_dag_store o' ?c1"
  have c2: "rc_store ?c2 = ?s\<lparr>ims_branches :=
      map (sealed_row (old_main_id (sk_session key) (ims_branches ?s))
        (rx_broken_name ext (rx_clock ext (Suc (rc_ticks c)))) (rx_clock ext (Suc (Suc (rc_ticks c)))))
        (ims_branches ?s)\<rparr>"
    using seal_old_main_rows [of ?c1 ext o'] d old by simp
  have "distinct (map br_id (ims_branches (rc_store ?c2)))" "distinct (map se_id (ims_sessions (rc_store ?c2)))"
    unfolding c2 using d assms(2) ids by simp_all
  note promoted = promote_branch_rows [OF this, of "sk_session key" b, unfolded b(2) c2]
  have "rc_store (snd (rec_send_promote ext mem_dag_store mq key msg c)) =
      rc_store (promote_branch mem_dag_store (sk_session key) (Some b) ?c2)"
    using b(1) by (simp add: rec_send_promote_def Let_def record_promote_mem mem_get_branch_def o'_def)
  then show ?thesis by (simp add: promoted Let_def)
qed

text \<open>
  C18: promoting a branch of the store renames exactly that branch to \<open>main\<close> and makes it the session's
  default; the branch that is sealed and renamed away is the first row called \<open>main\<close> in the whole
  store, and only if that row belongs to the session; every other row is as it was.
\<close>

theorem promote_spec:
  assumes "branch_ids_ok (rc_store c)" and "distinct (map se_id (ims_sessions (rc_store c)))"
    and "pm_branch_id msg \<in> br_id ` set (ims_branches (rc_store c))"
  shows "let s = rc_store c;
             s1 = rc_store (snd (rec_send_promote ext mem_dag_store mq key msg c));
             old = old_main_id (sk_session key) (ims_branches s);
             t1 = rx_clock ext (Suc (rc_ticks c)); t2 = rx_clock ext (Suc (Suc (rc_ticks c)))
         in ims_branches s1 =
              map (\<lambda>b. promoted_row (pm_branch_id msg) (sealed_row old (rx_broken_name ext t1) t2 b)) (ims_branches s) \<and>
            ims_sessions s1 =
              map (\<lambda>x. if se_id x = sk_session key then x\<lparr>se_default_branch := pm_branch_id msg\<rparr> else x)
                (ims_sessions s) \<and>
            ims_nodes s1 = ims_nodes s"
  using promote_rows [OF assms] .

definition example_mq :: "mem_queue mq_ops" where
  "example_mq = mem_mq_ops (\<lambda>_ n. [0..<n])"

definition example_session_key :: "session_id \<Rightarrow> session_message_kind \<Rightarrow> session_routing_key" where
  "example_session_key sid kind = \<lparr>sk_session = sid, sk_submission = ''sub'', sk_kind = kind\<rparr>"

theorem session_start_spec_witness:
  "fst (rec_send_session_start example_ext mem_dag_store example_mq
     (example_session_key ''s1'' (SkStart ''todo'')) \<lparr>ss_id = ''m''\<rparr> ''ext'' example_start) = Inr 1"
  using session_start_spec [where c = example_start and ext = example_ext and mq = example_mq
      and key = "example_session_key ''s1'' (SkStart ''todo'')" and msg = "\<lparr>ss_id = ''m''\<rparr>" and eid = "''ext''"]
  by (simp add: example_session_key_def Let_def split_beta example_start_def mem_store_new_def)

section \<open>Branch and session rows over a run\<close>

definition rows_ok :: "mem_store \<Rightarrow> bool" where
  "rows_ok s \<longleftrightarrow> branch_ids_ok s \<and> distinct (map se_id (ims_sessions s))"

lemma rows_ok_frame:
  "ims_branches s' = ims_branches s \<Longrightarrow> ims_sessions s' = ims_sessions s \<Longrightarrow> rows_ok s' = rows_ok s"
  by (simp add: rows_ok_def branch_ids_ok_def)

lemma rows_ok_sessions: "rows_ok (s\<lparr>ims_branches := bs\<rparr>) \<longleftrightarrow>
    map br_id bs = map (\<lambda>i. int i + 1) [0..<length bs] \<and> distinct (map se_id (ims_sessions s))"
  by (simp add: rows_ok_def branch_ids_ok_def)

lemma rows_ok_create: "rows_ok s \<Longrightarrow> rows_ok (snd (mem_create_branch t nm se fp s))"
  using branch_ids_ok_create [of s t nm se fp] by (auto simp: rows_ok_def mem_create_branch_def Let_def)

lemma rows_ok_rename: "rows_ok s \<Longrightarrow> rows_ok (snd (mem_rename_branch i nm s))"
  using branch_ids_ok_rename [of s i nm] by (auto simp: rows_ok_def mem_rename_branch_def split: option.split)

lemma rows_ok_seal: "rows_ok s \<Longrightarrow> rows_ok (snd (mem_seal_branch i t s))"
  using branch_ids_ok_seal [of s i t] by (auto simp: rows_ok_def mem_seal_branch_def split: option.split)

lemma rows_ok_default: "rows_ok s \<Longrightarrow> rows_ok (snd (mem_update_session_default_branch sid b s))"
  by (auto simp: rows_ok_def branch_ids_ok_def mem_update_session_default_branch_def split: option.split
      dest: update_first_map [where g = se_id])

lemma rows_ok_session: "rows_ok s \<Longrightarrow> rows_ok (snd (mem_create_session x s))"
  by (auto simp: rows_ok_def branch_ids_ok_def mem_create_session_def list_ex_iff)

lemmas rows_ok_ops = rows_ok_create rows_ok_rename rows_ok_seal rows_ok_default rows_ok_session

lemma rows_ok_insert [simp]: "rows_ok (mem_insert_node n s) = rows_ok s"
  by (rule rows_ok_frame) (simp_all add: mem_insert_node_def)

lemmas mem_inserts = mem_insert_invoke_node_def mem_insert_complete_node_def mem_insert_request_node_def
  mem_insert_response_node_def mem_insert_svc_request_node_def mem_insert_svc_response_node_def

interpretation mem_rows: store_invariant mem_dag_store rows_ok
  by unfold_locales
    (simp_all add: epreserves_def mem_dag_store_def rows_ok_ops mem_inserts not_implemented_def)

text \<open>
  Over any run on the in-memory store the branch rows stay numbered 1, 2, 3, ... in creation order
  and session ids stay unique, so a branch id or a session id names one row.
\<close>

theorem recording_rows_invariant:
  assumes "(rec_step ext mem_dag_store mq)\<^sup>*\<^sup>* c c'" and "rows_ok (rc_store c)"
  shows "rows_ok (rc_store c') \<and> distinct (map br_id (ims_branches (rc_store c')))"
  using mem_rows.rec_run_keeps [OF assms] by (simp add: rows_ok_def branch_ids_ok_distinct)

text \<open>Two sessions, then a branch forked in the second one and promoted.\<close>

definition example_two_sessions :: mem_rec where
  "example_two_sessions =
     snd (rec_send_fork example_ext mem_dag_store example_mq (example_session_key ''s2'' (SkFork ''todo''))
       \<lparr>fk_id = ''f'', fk_branch_name = ''retry'', fk_fork_point = ''n''\<rparr>
     (snd (rec_send_session_start example_ext mem_dag_store example_mq (example_session_key ''s2'' (SkStart ''todo''))
       \<lparr>ss_id = ''m2''\<rparr> ''e2''
     (snd (rec_send_session_start example_ext mem_dag_store example_mq (example_session_key ''s1'' (SkStart ''todo''))
       \<lparr>ss_id = ''m1''\<rparr> ''e1'' example_start)))))"

lemma example_two_sessions_run:
  "(rec_step example_ext mem_dag_store example_mq)\<^sup>*\<^sup>* example_start example_two_sessions"
  unfolding example_two_sessions_def
  by (rule rtranclp.rtrancl_refl |
      rule rtranclp.rtrancl_into_rtrancl [rotated], (rule st_fork | rule st_session_start))+

lemma rows_ok_start: "rows_ok (rc_store example_start)"
  by (simp add: example_start_def rows_ok_def) (simp add: mem_store_new_def)

theorem recording_rows_invariant_witness: "rows_ok (rc_store example_two_sessions)"
  using recording_rows_invariant [OF example_two_sessions_run rows_ok_start] by simp

lemma example_two_sessions_rows:
  "map (\<lambda>b. (br_id b, br_name b, br_session_id b)) (ims_branches (rc_store example_two_sessions)) =
     [(1, ''main'', ''s1''), (2, ''main'', ''s2''), (3, ''retry'', ''s2'')]"
  by code_simp

lemma example_two_sessions_ok: "rows_ok (rc_store example_two_sessions)"
  by (rule mem_rows.rec_run_keeps [OF example_two_sessions_run rows_ok_start])

definition example_promote :: promote_message where
  "example_promote = \<lparr>pm_id = ''p'', pm_branch_id = 3\<rparr>"

theorem promote_spec_witness:
  "map (\<lambda>b. (br_id b, br_name b)) (ims_branches (rc_store (snd (rec_send_promote example_ext mem_dag_store example_mq
     (example_session_key ''s2'' (SkPromote ''todo'')) example_promote example_two_sessions)))) =
   [(1, ''main''), (2, ''main''), (3, ''main'')]"
proof -
  have ids: "map br_id (ims_branches (rc_store example_two_sessions)) = [1, 2, 3]" by code_simp
  have "3 \<in> br_id ` set (ims_branches (rc_store example_two_sessions))"
    using ids by (metis list.set_intros list.set_map)
  then have "ims_branches (rc_store (snd (rec_send_promote example_ext mem_dag_store example_mq
      (example_session_key ''s2'' (SkPromote ''todo'')) example_promote example_two_sessions))) =
    map (\<lambda>b. promoted_row 3 (sealed_row (old_main_id ''s2'' (ims_branches (rc_store example_two_sessions)))
        (rx_broken_name example_ext (rx_clock example_ext (Suc (rc_ticks example_two_sessions))))
        (rx_clock example_ext (Suc (Suc (rc_ticks example_two_sessions)))) b))
      (ims_branches (rc_store example_two_sessions))"
    using promote_spec [where c = example_two_sessions and ext = example_ext and mq = example_mq
        and key = "example_session_key ''s2'' (SkPromote ''todo'')" and msg = example_promote]
      example_two_sessions_ok
    by (simp add: Let_def rows_ok_def example_promote_def example_session_key_def)
  then show ?thesis by simp code_simp
qed

text \<open>
  A session's old \<open>main\<close> survives a promotion unsealed when an older session also has a branch
  called \<open>main\<close>: the old main is looked up by name over all sessions, first row first, and is
  dropped when it belongs to another session.  The session then has two open branches called \<open>main\<close>.
\<close>

theorem promote_leaves_old_main:
  assumes "branch_ids_ok (rc_store c)" and "distinct (map se_id (ims_sessions (rc_store c)))"
    and "pm_branch_id msg \<in> br_id ` set (ims_branches (rc_store c))"
    and "find (\<lambda>b. br_name b = ''main'') (ims_branches (rc_store c)) = Some f"
    and "br_session_id f \<noteq> sk_session key"
    and "m \<in> set (ims_branches (rc_store c))" and "br_name m = ''main''"
    and "br_id m \<noteq> pm_branch_id msg"
  shows "m \<in> set (ims_branches (rc_store (snd (rec_send_promote ext mem_dag_store mq key msg c)))) \<and>
         (\<exists>p \<in> set (ims_branches (rc_store (snd (rec_send_promote ext mem_dag_store mq key msg c)))).
            br_id p = pm_branch_id msg \<and> br_name p = ''main'')"
proof -
  have none: "old_main_id (sk_session key) (ims_branches (rc_store c)) = None"
    using assms(4,5) by (simp add: old_main_id_def)
  let ?bs = "ims_branches (rc_store (snd (rec_send_promote ext mem_dag_store mq key msg c)))"
  have rows: "?bs = map (promoted_row (pm_branch_id msg)) (ims_branches (rc_store c))"
    using promote_rows [OF assms(1-3)] none by (simp add: sealed_row_def Let_def)
  obtain b where b: "b \<in> set (ims_branches (rc_store c))" "br_id b = pm_branch_id msg"
    using assms(3) by auto
  have "promoted_row (pm_branch_id msg) m = m" using assms(8) by (simp add: promoted_row_def)
  with assms(6) have "m \<in> set ?bs" unfolding rows by (metis image_eqI list.set_map)
  moreover have "promoted_row (pm_branch_id msg) b \<in> set ?bs" unfolding rows using b(1) by simp
  moreover have "br_id (promoted_row (pm_branch_id msg) b) = pm_branch_id msg \<and>
      br_name (promoted_row (pm_branch_id msg) b) = ''main''"
    using b(2) by (simp add: promoted_row_def)
  ultimately show ?thesis by blast
qed

theorem promote_leaves_old_main_witness:
  "\<exists>m \<in> set (ims_branches (rc_store (snd (rec_send_promote example_ext mem_dag_store example_mq
      (example_session_key ''s2'' (SkPromote ''todo'')) example_promote example_two_sessions)))).
     br_id m = 2 \<and> br_name m = ''main'' \<and> br_session_id m = ''s2'' \<and> br_broken_at m = None"
proof -
  let ?bs = "ims_branches (rc_store example_two_sessions)"
  let ?m = "?bs ! 1"
  have m: "?m \<in> set ?bs" by (rule nth_mem) code_simp
  have facts: "br_name ?m = ''main''" "br_id ?m = 2" "br_session_id ?m = ''s2''" "br_broken_at ?m = None"
    by code_simp+
  have f: "find (\<lambda>b. br_name b = ''main'') ?bs = Some (?bs ! 0)" "br_session_id (?bs ! 0) = ''s1''"
    by code_simp+
  have ids: "map br_id ?bs = [1, 2, 3]" by code_simp
  have "3 \<in> br_id ` set ?bs" using ids by (metis list.set_intros list.set_map)
  then have "?m \<in> set (ims_branches (rc_store (snd (rec_send_promote example_ext mem_dag_store example_mq
      (example_session_key ''s2'' (SkPromote ''todo'')) example_promote example_two_sessions))))"
    using promote_leaves_old_main [where c = example_two_sessions and m = ?m and f = "?bs ! 0"
        and key = "example_session_key ''s2'' (SkPromote ''todo'')" and msg = example_promote
        and ext = example_ext and mq = example_mq] example_two_sessions_ok m facts f
    by (simp add: rows_ok_def example_promote_def example_session_key_def)
  with facts show ?thesis by blast
qed

end
