(* ===== verification/Secrets.thy ===== *)
theory Secrets
  imports Agents
begin

text \<open>
  Secrets and agent identity (\<open>domain/secret_store.rs\<close>, \<open>domain/identity.rs\<close>): the \<open>SecretStore\<close>
  trait as a record of operations, the in-memory store, and \<open>ensure_agent_identity\<close>.  Ed25519 (crate
  \<open>ed25519_dalek\<close>) is two parameters: \<open>generate\<close>, the seed of a new signing key, and \<open>verifying\<close>, the
  public key of a seed.  The locale \<open>secret_store_laws\<close> is what identity provisioning relies on.
\<close>

datatype secret_store_error = SecretNotFound string | StoreFailed string | DeleteFailed string

fun secret_store_error_display :: "secret_store_error \<Rightarrow> string" where
  "secret_store_error_display (SecretNotFound n) = ''secret not found: '' @ n"
| "secret_store_error_display (StoreFailed m) = ''store failed: '' @ m"
| "secret_store_error_display (DeleteFailed m) = ''delete failed: '' @ m"

record 'k secret_store =
  sst_put :: "string \<Rightarrow> bytes \<Rightarrow> 'k \<Rightarrow> (secret_store_error, unit) rust_result \<times> 'k"
  sst_get :: "string \<Rightarrow> 'k \<Rightarrow> (secret_store_error, bytes) rust_result"
  sst_exists :: "string \<Rightarrow> 'k \<Rightarrow> (secret_store_error, bool) rust_result"
  sst_delete :: "string \<Rightarrow> 'k \<Rightarrow> (secret_store_error, unit) rust_result \<times> 'k"

section \<open>The in-memory store\<close>

type_synonym mem_secrets = "string \<rightharpoonup> bytes"

definition mem_secret_put :: "string \<Rightarrow> bytes \<Rightarrow> mem_secrets \<Rightarrow> (secret_store_error, unit) rust_result \<times> mem_secrets" where
  "mem_secret_put name v s = (Inr (), s(name \<mapsto> v))"

definition mem_secret_get :: "string \<Rightarrow> mem_secrets \<Rightarrow> (secret_store_error, bytes) rust_result" where
  "mem_secret_get name s = ok_or (SecretNotFound name) (s name)"

definition mem_secret_exists :: "string \<Rightarrow> mem_secrets \<Rightarrow> (secret_store_error, bool) rust_result" where
  "mem_secret_exists name s = Inr (s name \<noteq> None)"

definition mem_secret_delete :: "string \<Rightarrow> mem_secrets \<Rightarrow> (secret_store_error, unit) rust_result \<times> mem_secrets" where
  "mem_secret_delete name s =
     (case s name of
        Some _ \<Rightarrow> (Inr (), s(name := None))
      | None \<Rightarrow> (Inl (DeleteFailed (''secret not found: '' @ name)), s))"

definition mem_secret_store :: "mem_secrets secret_store" where
  "mem_secret_store =
     \<lparr>sst_put = mem_secret_put, sst_get = mem_secret_get, sst_exists = mem_secret_exists,
      sst_delete = mem_secret_delete\<rparr>"

section \<open>Identity\<close>

datatype identity_error = IdStore secret_store_error | IdInvalidKey string

fun identity_error_display :: "identity_error \<Rightarrow> string" where
  "identity_error_display (IdStore e) = ''secret store error: '' @ secret_store_error_display e"
| "identity_error_display (IdInvalidKey m) = ''invalid key: '' @ m"

definition private_key_name :: "string \<Rightarrow> string" where
  "private_key_name agent_name = ''agents/'' @ agent_name @ ''/private-key''"

definition ensure_agent_identity ::
    "(bytes \<Rightarrow> bytes) \<Rightarrow> bytes \<Rightarrow> 'k secret_store \<Rightarrow> string \<Rightarrow> 'k \<Rightarrow> (identity_error, bytes) rust_result \<times> 'k" where
  "ensure_agent_identity verifying generate ops agent_name s =
     (let key_name = private_key_name agent_name
      in case sst_exists ops key_name s of
           Inl e \<Rightarrow> (Inl (IdStore e), s)
         | Inr True \<Rightarrow>
             (case sst_get ops key_name s of
                Inl e \<Rightarrow> (Inl (IdStore e), s)
              | Inr private_bytes \<Rightarrow>
                  if length private_bytes = 32 then (Inr (verifying private_bytes), s)
                  else (Inl (IdInvalidKey (''expected 32 bytes, got '' @ show_nat (length private_bytes))), s))
         | Inr False \<Rightarrow>
             (case sst_put ops key_name generate s of
                (Inl e, s') \<Rightarrow> (Inl (IdStore e), s')
              | (Inr _, s') \<Rightarrow> (Inr (verifying generate), s')))"

locale secret_store_laws =
  fixes ops :: "'k secret_store"
  assumes exists_iff_get: "sst_exists ops n s = Inr b \<Longrightarrow> b \<longleftrightarrow> (\<exists>v. sst_get ops n s = Inr v)"
    and put_get: "sst_put ops n v s = (Inr (), s') \<Longrightarrow> sst_get ops n s' = Inr v \<and> sst_exists ops n s' = Inr True"
begin

lemma identity_stable:
  assumes "ensure_agent_identity verifying g ops a s = (Inr pk, s')" and "length g = 32"
  shows "ensure_agent_identity verifying g' ops a s' = (Inr pk, s')"
proof (cases "sst_exists ops (private_key_name a) s")
  case (Inl e)
  with assms(1) show ?thesis by (simp add: ensure_agent_identity_def Let_def)
next
  case (Inr b)
  show ?thesis
  proof (cases b)
    case True
    with assms(1) Inr show ?thesis
      by (auto simp: ensure_agent_identity_def Let_def split: sum.splits if_splits)
  next
    case False
    with assms(1) Inr have put: "sst_put ops (private_key_name a) g s = (Inr (), s')" and pk: "pk = verifying g"
      by (auto simp: ensure_agent_identity_def Let_def split: prod.splits sum.splits)
    from put_get [OF put] assms(2) pk show ?thesis
      by (simp add: ensure_agent_identity_def Let_def)
  qed
qed

end

interpretation mem_secrets: secret_store_laws mem_secret_store
  by unfold_locales
    (auto simp: mem_secret_store_def mem_secret_exists_def mem_secret_get_def mem_secret_put_def)

section \<open>Properties\<close>

text \<open>
  Provisioning an identity is idempotent: once it has succeeded for an agent, every later call
  returns the same public key and leaves the secrets as they are, whatever key the generator would
  have produced; and identities of different agents do not disturb each other.
\<close>

theorem agent_identity_stable:
  assumes "ensure_agent_identity verifying g mem_secret_store a s = (Inr pk, s')" and "length g = 32"
  shows "ensure_agent_identity verifying g' mem_secret_store a s' = (Inr pk, s') \<and>
         (\<forall>b. b \<noteq> a \<longrightarrow> s' (private_key_name b) = s (private_key_name b))"
proof -
  have "s' (private_key_name b) = s (private_key_name b)" if "b \<noteq> a" for b
    using assms(1) that
    by (auto simp: ensure_agent_identity_def Let_def mem_secret_store_def mem_secret_exists_def
        mem_secret_get_def mem_secret_put_def private_key_name_def split: if_splits sum.splits bool.splits)
  with mem_secrets.identity_stable [OF assms] show ?thesis by blast
qed

theorem agent_identity_stable_witness:
  "let g = replicate 32 CHR ''k'';
       s' = snd (ensure_agent_identity rev g mem_secret_store ''todo'' Map.empty)
   in ensure_agent_identity rev ''other'' mem_secret_store ''todo'' s' = (Inr (rev g), s')"
proof -
  have "ensure_agent_identity rev (replicate 32 CHR ''k'') mem_secret_store ''todo'' Map.empty =
      (Inr (rev (replicate 32 CHR ''k'')), [private_key_name ''todo'' \<mapsto> replicate 32 CHR ''k''])"
    by (simp add: ensure_agent_identity_def mem_secret_store_def mem_secret_exists_def mem_secret_put_def)
  from agent_identity_stable [OF this, of "''other''"] this show ?thesis by (simp add: Let_def)
qed

end
