(* ===== verification/Registry.thy ===== *)
theory Registry
  imports Secrets "HOL-Library.AList"
begin

text \<open>
  The registry (\<open>domain/registry.rs\<close>, \<open>domain/registry_memory.rs\<close>): \<open>InMemoryRegistry\<close>, its agents,
  manifests, models, MCP servers, fleets, jobs and capabilities.  A \<open>HashMap\<close> is an association list
  in iteration order; the order only shows in listings and in the names an error carries.  Taking the
  lock is one step of the model, and \<open>register_agent\<close>, which drops the lock to provision the identity,
  is three.  An \<open>expect\<close> that would panic is \<open>None\<close>.
\<close>

section \<open>State and errors\<close>

datatype registration_error =
    DuplicateName string
  | ConfigMismatch string
  | NoRuntime resource_id
  | UnknownObjectStorageScheme string
  | ObjectStorageUnavailable object_storage_type
  | UnknownVectorStorageScheme string
  | VectorStorageUnavailable vector_storage_type
  | ModelNotRegistered string string
  | InferenceEngineUnavailable provider string
  | EmbeddingEngineUnavailable provider string
  | InferenceServiceNotDeclared string
  | EmbeddingServiceNotDeclared string
  | InferenceServiceWithoutModel
  | EmbeddingServiceWithoutModel
  | ModelInUse string "string list"
  | AgentInUse string "string list"
  | IdentityFailed string
  | Persistence string
  | FleetDuplicateName string
  | FleetConfigMismatch string
  | FleetAgentNotRegistered string string
  | McpServerNotRegistered string
  | Remote string

record registry_state =
  rg_id :: resource_id
  rg_jobs :: "(string \<times> job) list"
  rg_agents :: "(resource_id \<times> agent) list"
  rg_manifests :: "(string \<times> agent_manifest) list"
  rg_models :: "(resource_id \<times> model) list"
  rg_mcp_servers :: "(resource_id \<times> mcp_server) list"
  rg_fleets :: "(string \<times> fleet) list"
  rg_runtimes :: "runtime_type set"
  rg_object_storage :: "object_storage_type set"
  rg_vector_storage :: "vector_storage_type set"
  rg_inference_engines :: "provider set"
  rg_embedding_engines :: "provider set"

definition registry_new :: registry_state where
  "registry_new =
     \<lparr>rg_id = ''http://127.0.0.1:9000'', rg_jobs = [], rg_agents = [], rg_manifests = [], rg_models = [],
      rg_mcp_servers = [], rg_fleets = [], rg_runtimes = {}, rg_object_storage = {}, rg_vector_storage = {},
      rg_inference_engines = {}, rg_embedding_engines = {}\<rparr>"

definition agent_id_internal :: "registry_state \<Rightarrow> string \<Rightarrow> resource_id" where
  "agent_id_internal s name = rg_id s @ ''/agents/'' @ name"

definition reg_model_id :: "registry_state \<Rightarrow> string \<Rightarrow> resource_id" where
  "reg_model_id s name = rg_id s @ ''/models/'' @ name"

definition mcp_server_id :: "registry_state \<Rightarrow> string \<Rightarrow> resource_id" where
  "mcp_server_id s name = rg_id s @ ''/mcp-servers/'' @ name"

section \<open>Agents\<close>

definition select_runtime :: "agent \<Rightarrow> registry_state \<Rightarrow> runtime_type option" where
  "select_runtime a s = (if ag_runtime a \<in> rg_runtimes s then Some (ag_runtime a) else None)"

text \<open>\<open>state.models.values().find(|m| m.name == name)\<close>\<close>

definition find_model :: "string \<Rightarrow> registry_state \<Rightarrow> model option" where
  "find_model name s = find (\<lambda>m. md_name m = name) (map snd (rg_models s))"

fun check_models ::
    "registry_state \<Rightarrow> agent \<Rightarrow> (string \<times> string) list \<Rightarrow> (registration_error, unit) rust_result" where
  "check_models s a [] = Inr ()"
| "check_models s a ((model_alias, model_name) # ms) =
     (case find_model model_name s of
        None \<Rightarrow> Inl (ModelNotRegistered model_alias model_name)
      | Some model \<Rightarrow>
          (case md_type model of
             MInference \<Rightarrow>
               if md_provider model \<notin> rg_inference_engines s
               then Inl (InferenceEngineUnavailable (md_provider model) (md_name model))
               else if map_of (req_services (ag_requirements a)) StInfer = None
               then Inl (InferenceServiceNotDeclared model_alias)
               else check_models s a ms
           | MEmbedding \<Rightarrow>
               if md_provider model \<notin> rg_embedding_engines s
               then Inl (EmbeddingEngineUnavailable (md_provider model) (md_name model))
               else if map_of (req_services (ag_requirements a)) StEmbed = None
               then Inl (EmbeddingServiceNotDeclared model_alias)
               else check_models s a ms))"

definition has_model_of_type :: "registry_state \<Rightarrow> agent \<Rightarrow> model_type \<Rightarrow> bool" where
  "has_model_of_type s a t =
     list_ex (\<lambda>n. list_ex (\<lambda>m. md_name m = n \<and> md_type m = t) (map snd (rg_models s)))
       (map snd (req_models (ag_requirements a)))"

definition check_object_storage :: "registry_state \<Rightarrow> resource_id option \<Rightarrow> (registration_error, unit) rust_result" where
  "check_object_storage s uri =
     (case uri of
        None \<Rightarrow> Inr ()
      | Some u \<Rightarrow>
          (case object_storage_from_scheme (resource_id_scheme u) of
             None \<Rightarrow> Inl (UnknownObjectStorageScheme (unwrap_or ''unknown'' (resource_id_scheme u)))
           | Some t \<Rightarrow> if t \<in> rg_object_storage s then Inr () else Inl (ObjectStorageUnavailable t)))"

definition check_vector_storage :: "registry_state \<Rightarrow> resource_id option \<Rightarrow> (registration_error, unit) rust_result" where
  "check_vector_storage s uri =
     (case uri of
        None \<Rightarrow> Inr ()
      | Some u \<Rightarrow>
          (case vector_storage_from_scheme (resource_id_scheme u) of
             None \<Rightarrow> Inl (UnknownVectorStorageScheme (unwrap_or ''unknown'' (resource_id_scheme u)))
           | Some t \<Rightarrow> if t \<in> rg_vector_storage s then Inr () else Inl (VectorStorageUnavailable t)))"

definition check_services :: "registry_state \<Rightarrow> agent \<Rightarrow> (registration_error, unit) rust_result" where
  "check_services s a =
     (if map_of (req_services (ag_requirements a)) StInfer \<noteq> None \<and> \<not> has_model_of_type s a MInference
      then Inl InferenceServiceWithoutModel
      else if map_of (req_services (ag_requirements a)) StEmbed \<noteq> None \<and> \<not> has_model_of_type s a MEmbedding
      then Inl EmbeddingServiceWithoutModel
      else Inr ())"

text \<open>
  Phase 1 under the read lock.  \<open>Inr True\<close>: the same configuration is registered already and the call
  returns \<open>Ok\<close>; \<open>Inr False\<close>: go on to provision the identity.
\<close>

definition register_validate :: "agent \<Rightarrow> registry_state \<Rightarrow> (registration_error, bool) rust_result" where
  "register_validate a s =
     (case map_of (rg_agents s) (agent_id_internal s (ag_name a)) of
        Some existing \<Rightarrow> if agent_config_eq existing a then Inr True else Inl (DuplicateName (ag_name a))
      | None \<Rightarrow>
          if select_runtime a s = None
          then Inl (NoRuntime (''runtime:'' @ runtime_as_str (ag_runtime a)))
          else case check_object_storage s (ag_object_storage a) of
            Inl e \<Rightarrow> Inl e
          | Inr _ \<Rightarrow>
          (case check_vector_storage s (ag_vector_storage a) of
            Inl e \<Rightarrow> Inl e
          | Inr _ \<Rightarrow>
          (case check_models s a (req_models (ag_requirements a)) of
            Inl e \<Rightarrow> Inl e
          | Inr _ \<Rightarrow> map_sum id (\<lambda>_. False) (check_services s a))))"

text \<open>Phase 3 under the write lock: nothing is checked again.\<close>

definition register_commit :: "bytes \<Rightarrow> agent \<Rightarrow> registry_state \<Rightarrow> registry_state" where
  "register_commit public_key a s =
     (let agent_id = agent_id_internal s (ag_name a)
      in s\<lparr>rg_agents := AList.update agent_id (a\<lparr>ag_public_key := Some public_key, ag_id := agent_id\<rparr>) (rg_agents s)\<rparr>)"

text \<open>The whole call when nothing else runs between its phases.  Phase 2 is \<open>identity\<close>.\<close>

definition register_agent ::
    "(string \<Rightarrow> 'k \<Rightarrow> (identity_error, bytes) rust_result \<times> 'k) \<Rightarrow> agent \<Rightarrow> registry_state \<times> 'k \<Rightarrow>
     (registration_error, unit) rust_result \<times> registry_state \<times> 'k" where
  "register_agent identity a sk =
     (case sk of (s, k) \<Rightarrow>
        (case register_validate a s of
           Inl e \<Rightarrow> (Inl e, s, k)
         | Inr True \<Rightarrow> (Inr (), s, k)
         | Inr False \<Rightarrow>
             (case identity (ag_name a) k of
                (Inl e, k') \<Rightarrow> (Inl (IdentityFailed (identity_error_display e)), s, k')
              | (Inr pk, k') \<Rightarrow> (Inr (), register_commit pk a s, k'))))"

definition manifest_eq :: "agent_manifest \<Rightarrow> agent_manifest \<Rightarrow> bool" where
  "manifest_eq m m' \<longleftrightarrow>
     mf_name m = mf_name m' \<and> mf_description m = mf_description m' \<and> mf_source m = mf_source m' \<and>
     mf_runtime m = mf_runtime m' \<and> mf_executable m = mf_executable m' \<and>
     requirements_eq (mf_requirements m) (mf_requirements m') \<and>
     mf_object_storage m = mf_object_storage m' \<and> mf_vector_storage m = mf_vector_storage m'"

text \<open>
  The last step of \<open>register_manifest\<close>, under the write lock it takes again after \<open>register_agent\<close>: the
  manifest is inserted before the lookup that may panic.
\<close>

definition store_manifest :: "agent_manifest \<Rightarrow> registry_state \<Rightarrow> agent option \<times> registry_state" where
  "store_manifest manifest s =
     (let s' = s\<lparr>rg_manifests := AList.update (mf_name manifest) manifest (rg_manifests s)\<rparr>
      in (map_of (rg_agents s') (agent_id_internal s' (mf_name manifest)), s'))"

text \<open>\<open>None\<close> is a panic of one of the two \<open>expect\<close>s.  \<open>parse_error\<close> is \<open>{e:?}\<close> of the load error.\<close>

definition register_manifest ::
    "(string \<Rightarrow> 'k \<Rightarrow> (identity_error, bytes) rust_result \<times> 'k) \<Rightarrow> (string \<Rightarrow> string) \<Rightarrow> agent_manifest \<Rightarrow>
     registry_state \<times> 'k \<Rightarrow> ((registration_error, agent) rust_result \<times> registry_state \<times> 'k) option" where
  "register_manifest identity parse_error manifest sk =
     (case sk of (s, k) \<Rightarrow>
        (case map_of (rg_manifests s) (mf_name manifest) of
           Some stored \<Rightarrow>
             if manifest_eq stored manifest
             then map_option (\<lambda>a. (Inr a, s, k)) (map_of (rg_agents s) (agent_id_internal s (mf_name manifest)))
             else Some (Inl (ConfigMismatch (mf_name manifest)), s, k)
         | None \<Rightarrow>
             (case agent_from_manifest manifest of
                Inl e \<Rightarrow> Some (Inl (Persistence (parse_error e)), s, k)
              | Inr a \<Rightarrow>
                  (case register_agent identity a (s, k) of
                     (Inl e, s', k') \<Rightarrow> Some (Inl e, s', k')
                   | (Inr _, s', k') \<Rightarrow>
                       (case store_manifest manifest s' of
                          (None, _) \<Rightarrow> None
                        | (Some a, s'') \<Rightarrow> Some (Inr a, s'', k'))))))"

definition restore_agent :: "agent \<Rightarrow> registry_state \<Rightarrow> (registration_error, unit) rust_result \<times> registry_state" where
  "restore_agent a s =
     (let agent_id = agent_id_internal s (ag_name a)
      in if map_of (rg_agents s) agent_id \<noteq> None then (Inl (DuplicateName (ag_name a)), s)
         else (Inr (), s\<lparr>rg_agents := AList.update agent_id (a\<lparr>ag_id := agent_id\<rparr>) (rg_agents s)\<rparr>))"

definition get_agent :: "resource_id \<Rightarrow> registry_state \<Rightarrow> agent option" where
  "get_agent i s = map_of (rg_agents s) i"

definition get_agents :: "registry_state \<Rightarrow> agent list" where
  "get_agents s = map snd (rg_agents s)"

definition get_agent_by_name :: "string \<Rightarrow> registry_state \<Rightarrow> agent option" where
  "get_agent_by_name name s = find (\<lambda>a. ag_name a = name) (get_agents s)"

definition get_agents_by_runtime :: "runtime_type \<Rightarrow> registry_state \<Rightarrow> agent list" where
  "get_agents_by_runtime rt s = filter (\<lambda>a. select_runtime a s = Some rt) (get_agents s)"

definition get_agents_requiring_model :: "string \<Rightarrow> registry_state \<Rightarrow> agent list" where
  "get_agents_requiring_model n s =
     filter (\<lambda>a. list_ex (\<lambda>m. m = n) (map snd (req_models (ag_requirements a)))) (get_agents s)"

definition agent_id :: "string \<Rightarrow> registry_state \<Rightarrow> resource_id option" where
  "agent_id name s =
     (let i = agent_id_internal s name in if map_of (rg_agents s) i \<noteq> None then Some i else None)"

definition delete_agent :: "string \<Rightarrow> registry_state \<Rightarrow> (registration_error, bool) rust_result \<times> registry_state" where
  "delete_agent name s =
     (let agent_id = agent_id_internal s name
      in if map_of (rg_agents s) agent_id = None then (Inr False, s)
         else let dependent = map fl_name (filter (\<lambda>f. agent_id \<in> fl_agents f) (map snd (rg_fleets s)))
              in if dependent \<noteq> [] then (Inl (AgentInUse name dependent), s)
                 else (Inr True, s\<lparr>rg_agents := AList.delete agent_id (rg_agents s),
                                    rg_manifests := AList.delete name (rg_manifests s)\<rparr>))"

definition remove_agent :: "string \<Rightarrow> registry_state \<Rightarrow> bool \<times> registry_state" where
  "remove_agent name s =
     (let agent_id = agent_id_internal s name
      in if map_of (rg_agents s) agent_id \<noteq> None
         then (True, s\<lparr>rg_agents := AList.delete agent_id (rg_agents s),
                        rg_manifests := AList.delete name (rg_manifests s)\<rparr>)
         else (False, s))"

section \<open>Models\<close>

definition register_model :: "model \<Rightarrow> registry_state \<Rightarrow> (registration_error, unit) rust_result \<times> registry_state" where
  "register_model m s =
     (let model_id = reg_model_id s (md_name m); m = m\<lparr>md_id := model_id\<rparr>
      in case md_type m of
           MInference \<Rightarrow>
             if md_provider m \<notin> rg_inference_engines s
             then (Inl (InferenceEngineUnavailable (md_provider m) (md_name m)), s)
             else (Inr (), s\<lparr>rg_models := AList.update model_id m (rg_models s)\<rparr>)
         | MEmbedding \<Rightarrow>
             if md_provider m \<notin> rg_embedding_engines s
             then (Inl (EmbeddingEngineUnavailable (md_provider m) (md_name m)), s)
             else (Inr (), s\<lparr>rg_models := AList.update model_id m (rg_models s)\<rparr>))"

definition get_model :: "string \<Rightarrow> registry_state \<Rightarrow> model option" where
  "get_model name s = map_of (rg_models s) (reg_model_id s name)"

definition get_models :: "registry_state \<Rightarrow> model list" where
  "get_models s = map snd (rg_models s)"

definition get_model_by_path :: "resource_id \<Rightarrow> registry_state \<Rightarrow> model option" where
  "get_model_by_path p s = find (\<lambda>m. md_path m = p) (map snd (rg_models s))"

definition delete_model :: "string \<Rightarrow> registry_state \<Rightarrow> (registration_error, bool) rust_result \<times> registry_state" where
  "delete_model name s =
     (let model_id = reg_model_id s name
      in case map_of (rg_models s) model_id of
           None \<Rightarrow> (Inr False, s)
         | Some model \<Rightarrow>
             (let dependent = map ag_name (filter
                    (\<lambda>a. list_ex (\<lambda>n. n = md_name model) (map snd (req_models (ag_requirements a))))
                    (map snd (rg_agents s)))
              in if dependent \<noteq> [] then (Inl (ModelInUse name dependent), s)
                 else (Inr True, s\<lparr>rg_models := AList.delete model_id (rg_models s)\<rparr>)))"

definition remove_model :: "string \<Rightarrow> registry_state \<Rightarrow> bool \<times> registry_state" where
  "remove_model name s =
     (map_of (rg_models s) (reg_model_id s name) \<noteq> None,
      s\<lparr>rg_models := AList.delete (reg_model_id s name) (rg_models s)\<rparr>)"

definition resolve_model_backend :: "string \<Rightarrow> string \<Rightarrow> (string list \<Rightarrow> string) \<Rightarrow> registry_state \<Rightarrow> (string, string) rust_result" where
  "resolve_model_backend agent_name model debug_keys s =
     (case get_agent_by_name agent_name s of
        None \<Rightarrow> Inl (''agent '' @ [CHR 0x27] @ agent_name @ [CHR 0x27] @ '' not found in registry'')
      | Some a \<Rightarrow>
          (case map_of (req_models (ag_requirements a)) model of
             None \<Rightarrow> Inl (''agent called service with undeclared model '' @ [CHR 0x27] @ model @ [CHR 0x27, CHR 0x0A, CHR 0x0A] @
                          ''Declared models: '' @ debug_keys (map fst (req_models (ag_requirements a))))
           | Some model_name \<Rightarrow>
               (case get_model model_name s of
                  None \<Rightarrow> Inl (''model '' @ [CHR 0x27] @ model @ [CHR 0x27] @ '' (registry name: '' @ [CHR 0x27] @ model_name @
                               [CHR 0x27] @ '') not found in registry'')
                | Some m \<Rightarrow> Inr (case md_provider m of POllama \<Rightarrow> ''ollama'' | POpenRouter \<Rightarrow> ''openrouter''))))"

section \<open>Fleets\<close>

text \<open>\<open>for agent_id in &fleet.agents\<close> iterates a \<open>HashSet\<close>: its order is the parameter \<open>elems\<close>.\<close>

definition register_fleet ::
    "(resource_id set \<Rightarrow> resource_id list) \<Rightarrow> fleet \<Rightarrow> registry_state \<Rightarrow>
     (registration_error, unit) rust_result \<times> registry_state" where
  "register_fleet elems f s =
     (case map_of (rg_fleets s) (fl_name f) of
        Some existing \<Rightarrow>
          if fl_agents existing = fl_agents f \<and> fl_entry existing = fl_entry f then (Inr (), s)
          else (Inl (FleetConfigMismatch (fl_name f)), s)
      | None \<Rightarrow>
          (case find (\<lambda>i. map_of (rg_agents s) i = None) (elems (fl_agents f)) of
             Some i \<Rightarrow> (Inl (FleetAgentNotRegistered (fl_name f) i), s)
           | None \<Rightarrow>
               if fl_entry f \<notin> fl_agents f
               then (Inl (FleetAgentNotRegistered (fl_name f) (fl_entry f)), s)
               else (Inr (), s\<lparr>rg_fleets := AList.update (fl_name f)
                       (f\<lparr>fl_id := rg_id s @ ''/fleets/'' @ fl_name f\<rparr>) (rg_fleets s)\<rparr>)))"

definition get_fleet :: "string \<Rightarrow> registry_state \<Rightarrow> fleet option" where
  "get_fleet name s = map_of (rg_fleets s) name"

definition get_fleets :: "registry_state \<Rightarrow> fleet list" where
  "get_fleets s = map snd (rg_fleets s)"

text \<open>\<open>Fleet::from_manifest\<close>, for a manifest with this name, entry agent and agent names.\<close>

fun resolve_fleet_agents ::
    "registry_state \<Rightarrow> string list \<Rightarrow> resource_id set \<Rightarrow> (string, resource_id set) rust_result" where
  "resolve_fleet_agents s [] acc = Inr acc"
| "resolve_fleet_agents s (n # ns) acc =
     (case agent_id n s of
        None \<Rightarrow> Inl (''agent '' @ [CHR 0x27] @ n @ [CHR 0x27] @ '' is not registered'')
      | Some i \<Rightarrow> resolve_fleet_agents s ns (insert i acc))"

definition fleet_from_manifest ::
    "string \<Rightarrow> string \<Rightarrow> string list \<Rightarrow> registry_state \<Rightarrow> (string, fleet) rust_result" where
  "fleet_from_manifest name entry agents s =
     (case agent_id entry s of
        None \<Rightarrow> Inl (''entry agent '' @ [CHR 0x27] @ entry @ [CHR 0x27] @ '' is not registered'')
      | Some entry_id \<Rightarrow>
          map_sum id (\<lambda>ids. \<lparr>fl_id = ''pending-registration://fleets/'' @ name, fl_name = name,
                             fl_entry = entry_id, fl_agents = ids\<rparr>)
            (resolve_fleet_agents s agents {}))"

section \<open>Jobs\<close>

text \<open>The uuid of a new job is an argument.\<close>

definition create_job ::
    "string \<Rightarrow> submission_id \<Rightarrow> resource_id \<Rightarrow> string \<Rightarrow> registry_state \<Rightarrow> string \<times> registry_state" where
  "create_job uuid submission agent input s =
     (let i = rg_id s @ ''/jobs/'' @ uuid
      in (i, s\<lparr>rg_jobs := AList.update i
             \<lparr>jb_id = i, jb_submission = submission, jb_agent = agent, jb_input = input, jb_status = JsPending\<rparr>
             (rg_jobs s)\<rparr>))"

definition get_job :: "string \<Rightarrow> registry_state \<Rightarrow> job option" where
  "get_job i s = map_of (rg_jobs s) i"

definition update_job_status :: "string \<Rightarrow> job_status \<Rightarrow> registry_state \<Rightarrow> registry_state" where
  "update_job_status i st s =
     (case map_of (rg_jobs s) i of
        None \<Rightarrow> s
      | Some j \<Rightarrow> s\<lparr>rg_jobs := AList.update i (j\<lparr>jb_status := st\<rparr>) (rg_jobs s)\<rparr>)"

definition pending_jobs :: "registry_state \<Rightarrow> job list" where
  "pending_jobs s = filter (\<lambda>j. jb_status j = JsPending) (map snd (rg_jobs s))"

section \<open>MCP servers and capabilities\<close>

definition register_mcp_server :: "mcp_server \<Rightarrow> registry_state \<Rightarrow> (registration_error, unit) rust_result \<times> registry_state" where
  "register_mcp_server m s =
     (let i = mcp_server_id s (ms_name m)
      in (Inr (), s\<lparr>rg_mcp_servers := AList.update i (m\<lparr>ms_id := i\<rparr>) (rg_mcp_servers s)\<rparr>))"

definition get_mcp_server :: "string \<Rightarrow> registry_state \<Rightarrow> mcp_server option" where
  "get_mcp_server name s = map_of (rg_mcp_servers s) (mcp_server_id s name)"

definition get_mcp_servers :: "registry_state \<Rightarrow> mcp_server list" where
  "get_mcp_servers s = map snd (rg_mcp_servers s)"

definition delete_mcp_server :: "string \<Rightarrow> registry_state \<Rightarrow> (registration_error, bool) rust_result \<times> registry_state" where
  "delete_mcp_server name s =
     (Inr (map_of (rg_mcp_servers s) (mcp_server_id s name) \<noteq> None),
      s\<lparr>rg_mcp_servers := AList.delete (mcp_server_id s name) (rg_mcp_servers s)\<rparr>)"

definition remove_mcp_server :: "string \<Rightarrow> registry_state \<Rightarrow> bool \<times> registry_state" where
  "remove_mcp_server name s =
     (map_of (rg_mcp_servers s) (mcp_server_id s name) \<noteq> None,
      s\<lparr>rg_mcp_servers := AList.delete (mcp_server_id s name) (rg_mcp_servers s)\<rparr>)"

definition register_runtime :: "runtime_type \<Rightarrow> registry_state \<Rightarrow> registry_state" where
  "register_runtime t s = s\<lparr>rg_runtimes := insert t (rg_runtimes s)\<rparr>"

definition register_object_storage :: "object_storage_type \<Rightarrow> registry_state \<Rightarrow> registry_state" where
  "register_object_storage t s = s\<lparr>rg_object_storage := insert t (rg_object_storage s)\<rparr>"

definition register_vector_storage :: "vector_storage_type \<Rightarrow> registry_state \<Rightarrow> registry_state" where
  "register_vector_storage t s = s\<lparr>rg_vector_storage := insert t (rg_vector_storage s)\<rparr>"

definition register_inference_engine :: "provider \<Rightarrow> registry_state \<Rightarrow> registry_state" where
  "register_inference_engine t s = s\<lparr>rg_inference_engines := insert t (rg_inference_engines s)\<rparr>"

definition register_embedding_engine :: "provider \<Rightarrow> registry_state \<Rightarrow> registry_state" where
  "register_embedding_engine t s = s\<lparr>rg_embedding_engines := insert t (rg_embedding_engines s)\<rparr>"

definition has_object_storage :: "object_storage_type \<Rightarrow> registry_state \<Rightarrow> bool" where
  "has_object_storage t s = (t \<in> rg_object_storage s)"

definition has_vector_storage :: "vector_storage_type \<Rightarrow> registry_state \<Rightarrow> bool" where
  "has_vector_storage t s = (t \<in> rg_vector_storage s)"

definition has_inference_engine :: "provider \<Rightarrow> registry_state \<Rightarrow> bool" where
  "has_inference_engine t s = (t \<in> rg_inference_engines s)"

definition has_embedding_engine :: "provider \<Rightarrow> registry_state \<Rightarrow> bool" where
  "has_embedding_engine t s = (t \<in> rg_embedding_engines s)"

end
