(* ===== verification/RegistryLaws.thy ===== *)
theory RegistryLaws
  imports Registry "HOL-Library.Char_ord" "HOL-Library.List_Lexorder"
begin

text \<open>
  The registry's invariant \<open>reg_ok\<close> (keys are derived from names, every registered agent has its
  runtime and its models, every fleet its agents, every manifest its agent), kept by every operation
  when operations do not interleave; and what the unlocked gaps of \<open>register_agent\<close> and
  \<open>register_manifest\<close> let through when they do.  \<open>restore_agent\<close> and the \<open>remove_*\<close> methods are the
  cache interface of the persistent registry and bypass the checks, so they are not part of a run.
\<close>

section \<open>The invariant\<close>

definition agent_models :: "agent \<Rightarrow> string set" where
  "agent_models a = snd ` set (req_models (ag_requirements a))"

definition agents_ok ::
    "(string \<Rightarrow> resource_id) \<Rightarrow> (string \<Rightarrow> resource_id) \<Rightarrow> (resource_id \<rightharpoonup> agent) \<Rightarrow> (resource_id \<rightharpoonup> model) \<Rightarrow>
     runtime_type set \<Rightarrow> bool" where
  "agents_ok aid mid A M R \<longleftrightarrow>
     (\<forall>i a. A i = Some a \<longrightarrow> i = aid (ag_name a) \<and> ag_id a = i \<and> ag_runtime a \<in> R \<and>
        (\<forall>n \<in> agent_models a. M (mid n) \<noteq> None))"

definition models_ok :: "(string \<Rightarrow> resource_id) \<Rightarrow> (resource_id \<rightharpoonup> model) \<Rightarrow> bool" where
  "models_ok mid M \<longleftrightarrow> (\<forall>i m. M i = Some m \<longrightarrow> i = mid (md_name m) \<and> md_id m = i)"

definition fleets_ok :: "(resource_id \<rightharpoonup> agent) \<Rightarrow> (string \<rightharpoonup> fleet) \<Rightarrow> bool" where
  "fleets_ok A F \<longleftrightarrow>
     (\<forall>n f. F n = Some f \<longrightarrow> fl_name f = n \<and> fl_entry f \<in> fl_agents f \<and> fl_agents f \<subseteq> dom A)"

definition manifests_ok :: "(string \<Rightarrow> resource_id) \<Rightarrow> (resource_id \<rightharpoonup> agent) \<Rightarrow> (string \<rightharpoonup> agent_manifest) \<Rightarrow> bool" where
  "manifests_ok aid A N \<longleftrightarrow> (\<forall>n \<in> dom N. A (aid n) \<noteq> None)"

definition reg_ok :: "registry_state \<Rightarrow> bool" where
  "reg_ok s \<longleftrightarrow>
     distinct (map fst (rg_agents s)) \<and> distinct (map fst (rg_models s)) \<and> distinct (map fst (rg_fleets s)) \<and>
     agents_ok (agent_id_internal s) (reg_model_id s) (map_of (rg_agents s)) (map_of (rg_models s)) (rg_runtimes s) \<and>
     models_ok (reg_model_id s) (map_of (rg_models s)) \<and>
     fleets_ok (map_of (rg_agents s)) (map_of (rg_fleets s)) \<and>
     manifests_ok (agent_id_internal s) (map_of (rg_agents s)) (map_of (rg_manifests s))"

lemma reg_ids_inj [simp]: "inj (agent_id_internal s)" "inj (reg_model_id s)"
  by (simp_all add: inj_def agent_id_internal_def reg_model_id_def)

lemma reg_ids_frame [simp]:
  "agent_id_internal (rg_agents_update f s) = agent_id_internal s"
  "agent_id_internal (rg_models_update g s) = agent_id_internal s"
  "agent_id_internal (rg_fleets_update h s) = agent_id_internal s"
  "agent_id_internal (rg_manifests_update k s) = agent_id_internal s"
  "reg_model_id (rg_agents_update f s) = reg_model_id s"
  "reg_model_id (rg_models_update g s) = reg_model_id s"
  "reg_model_id (rg_fleets_update h s) = reg_model_id s"
  "reg_model_id (rg_manifests_update k s) = reg_model_id s"
  by (simp_all add: agent_id_internal_def [abs_def] reg_model_id_def [abs_def])

lemma reg_ok_new [simp]: "reg_ok registry_new"
  by (simp add: reg_ok_def registry_new_def agents_ok_def models_ok_def fleets_ok_def manifests_ok_def)

text \<open>How the parts of the invariant react to one update of a map.\<close>

lemma agents_ok_update:
  "agents_ok aid mid A M R \<Longrightarrow> i = aid (ag_name a) \<Longrightarrow> ag_id a = i \<Longrightarrow> ag_runtime a \<in> R \<Longrightarrow>
   (\<And>n. n \<in> agent_models a \<Longrightarrow> M (mid n) \<noteq> None) \<Longrightarrow> agents_ok aid mid (A(i \<mapsto> a)) M R"
  by (simp add: agents_ok_def)

lemma agents_ok_delete: "agents_ok aid mid A M R \<Longrightarrow> agents_ok aid mid (A(i := None)) M R"
  by (simp add: agents_ok_def)

lemma agents_ok_model: "agents_ok aid mid A M R \<Longrightarrow> agents_ok aid mid A (M(k \<mapsto> m)) R"
  by (simp add: agents_ok_def)

lemma agents_ok_model_delete:
  assumes "agents_ok aid mid A M R" and "inj mid" and "\<And>i a. A i = Some a \<Longrightarrow> n \<notin> agent_models a"
  shows "agents_ok aid mid A (M(mid n := None)) R"
proof -
  have "mid n' \<noteq> mid n" if "A i = Some a" "n' \<in> agent_models a" for i a n'
    using assms(2) assms(3) [OF that(1)] that(2) by (metis injD)
  with assms(1) show ?thesis by (simp add: agents_ok_def)
qed

lemma agents_ok_runtime: "agents_ok aid mid A M R \<Longrightarrow> agents_ok aid mid A M (insert t R)"
  by (simp add: agents_ok_def)

lemma models_ok_update:
  "models_ok mid M \<Longrightarrow> i = mid (md_name m) \<Longrightarrow> md_id m = i \<Longrightarrow> models_ok mid (M(i \<mapsto> m))"
  by (simp add: models_ok_def)

lemma models_ok_delete: "models_ok mid M \<Longrightarrow> models_ok mid (M(i := None))"
  by (simp add: models_ok_def)

lemma fleets_ok_agent: "fleets_ok A F \<Longrightarrow> fleets_ok (A(i \<mapsto> a)) F"
  by (auto simp: fleets_ok_def)

lemma fleets_ok_agent_delete:
  "fleets_ok A F \<Longrightarrow> (\<And>n f. F n = Some f \<Longrightarrow> i \<notin> fl_agents f) \<Longrightarrow> fleets_ok (A(i := None)) F"
  unfolding fleets_ok_def by (auto simp: subset_iff)

lemma fleets_ok_update:
  "fleets_ok A F \<Longrightarrow> fl_name f = n \<Longrightarrow> fl_entry f \<in> fl_agents f \<Longrightarrow> fl_agents f \<subseteq> dom A \<Longrightarrow>
   fleets_ok A (F(n \<mapsto> f))"
  by (simp add: fleets_ok_def)

lemma manifests_ok_agent: "manifests_ok aid A N \<Longrightarrow> manifests_ok aid (A(i \<mapsto> a)) N"
  by (simp add: manifests_ok_def)

lemma manifests_ok_agent_delete:
  "manifests_ok aid A N \<Longrightarrow> inj aid \<Longrightarrow> manifests_ok aid (A(aid n := None)) (N(n := None))"
  by (auto simp: manifests_ok_def inj_eq)

lemma manifests_ok_update:
  "manifests_ok aid A N \<Longrightarrow> A (aid n) \<noteq> None \<Longrightarrow> manifests_ok aid A (N(n \<mapsto> m))"
  by (auto simp: manifests_ok_def)

lemmas reg_ok_intros = agents_ok_update agents_ok_delete agents_ok_model agents_ok_model_delete
  agents_ok_runtime models_ok_update models_ok_delete fleets_ok_agent fleets_ok_agent_delete fleets_ok_update
  manifests_ok_agent manifests_ok_agent_delete manifests_ok_update

lemmas reg_defs = update_conv' delete_conv' distinct_update distinct_delete

section \<open>Each operation keeps the invariant\<close>

lemma map_of_value: "map_of al k = Some v \<Longrightarrow> v \<in> snd ` set al"
  by (force dest: map_of_SomeD)

lemma find_model_registered:
  assumes ok: "reg_ok s" and find: "find_model n s \<noteq> None"
  shows "map_of (rg_models s) (reg_model_id s n) \<noteq> None"
proof -
  obtain m where "find (\<lambda>m. md_name m = n) (map snd (rg_models s)) = Some m"
    using find by (auto simp: find_model_def)
  then have m: "m \<in> snd ` set (rg_models s)" "md_name m = n" by (auto dest: find_Some_set)
  then obtain k where "(k, m) \<in> set (rg_models s)" by force
  with ok have km: "map_of (rg_models s) k = Some m" by (auto simp: reg_ok_def)
  moreover from ok km have "k = reg_model_id s (md_name m)" unfolding reg_ok_def models_ok_def by blast
  ultimately show ?thesis using m(2) by simp
qed

lemma check_models_registered:
  "check_models s a ms = Inr () \<Longrightarrow> n \<in> snd ` set ms \<Longrightarrow> find_model n s \<noteq> None"
  by (induction s a ms rule: check_models.induct)
    (auto split: option.splits model_type.splits if_splits)

lemma validate_fresh:
  assumes "register_validate a s = Inr False"
  shows "map_of (rg_agents s) (agent_id_internal s (ag_name a)) = None" "ag_runtime a \<in> rg_runtimes s"
    "check_models s a (req_models (ag_requirements a)) = Inr ()"
  using assms
  by (auto simp: register_validate_def select_runtime_def split: option.splits sum.splits if_splits)

lemma validated_models:
  assumes "reg_ok s" and "register_validate a s = Inr False" and "n \<in> agent_models a"
  shows "map_of (rg_models s) (reg_model_id s n) \<noteq> None"
  using find_model_registered [OF assms(1)] check_models_registered [OF validate_fresh(3) [OF assms(2)]] assms(3)
  by (simp add: agent_models_def)

lemma commit_ok:
  assumes "reg_ok s" and "ag_runtime a \<in> rg_runtimes s"
    and "\<And>n. n \<in> agent_models a \<Longrightarrow> map_of (rg_models s) (reg_model_id s n) \<noteq> None"
  shows "reg_ok (register_commit pk a s)"
  using assms
  by (auto simp: register_commit_def Let_def reg_ok_def reg_defs agent_models_def intro!: reg_ok_intros)

lemma register_agent_ok:
  assumes ok: "reg_ok s" and reg: "register_agent identity a (s, k) = (r, s', k')"
  shows "reg_ok s'"
proof (cases "register_validate a s = Inr False")
  case False
  with assms show ?thesis by (auto simp: register_agent_def split: sum.splits bool.splits prod.splits)
next
  case True
  show ?thesis
    using reg True ok commit_ok [OF ok validate_fresh(2) [OF True] validated_models [OF ok True]]
    by (auto simp: register_agent_def split: sum.splits prod.splits)
qed

lemma register_model_ok: "reg_ok s \<Longrightarrow> reg_ok (snd (register_model m s))"
  by (auto simp: register_model_def Let_def reg_ok_def reg_defs split: model_type.split intro!: reg_ok_intros)

lemma register_fleet_ok:
  assumes ok: "reg_ok s" and elems: "set (elems (fl_agents f)) = fl_agents f"
  shows "reg_ok (snd (register_fleet elems f s))"
proof (cases "map_of (rg_fleets s) (fl_name f) = None \<and>
    find (\<lambda>i. map_of (rg_agents s) i = None) (elems (fl_agents f)) = None \<and> fl_entry f \<in> fl_agents f")
  case False
  then have "snd (register_fleet elems f s) = s"
    by (cases "map_of (rg_fleets s) (fl_name f)";
        cases "find (\<lambda>i. map_of (rg_agents s) i = None) (elems (fl_agents f))")
      (simp_all add: register_fleet_def)
  with ok show ?thesis by simp
next
  case True
  then have "\<forall>i \<in> set (elems (fl_agents f)). map_of (rg_agents s) i \<noteq> None"
    using find_None_set [of "\<lambda>i. map_of (rg_agents s) i = None" "elems (fl_agents f)"] by blast
  then have sub: "fl_agents f \<subseteq> dom (map_of (rg_agents s))" unfolding elems by blast
  have upd: "snd (register_fleet elems f s) = s\<lparr>rg_fleets := AList.update (fl_name f)
      (f\<lparr>fl_id := rg_id s @ ''/fleets/'' @ fl_name f\<rparr>) (rg_fleets s)\<rparr>"
    using True by (simp add: register_fleet_def)
  have "fleets_ok (map_of (rg_agents s)) ((map_of (rg_fleets s))(fl_name f \<mapsto>
      (f\<lparr>fl_id := rg_id s @ ''/fleets/'' @ fl_name f\<rparr>)))"
    using ok True sub by (intro fleets_ok_update) (simp_all add: reg_ok_def)
  with ok show ?thesis unfolding upd by (simp add: reg_ok_def reg_defs)
qed

lemma delete_agent_ok:
  assumes ok: "reg_ok s" shows "reg_ok (snd (delete_agent name s))"
proof (cases "map_of (rg_agents s) (agent_id_internal s name) \<noteq> None \<and>
    filter (\<lambda>f. agent_id_internal s name \<in> fl_agents f) (map snd (rg_fleets s)) = []")
  case False
  with ok show ?thesis by (auto simp: delete_agent_def Let_def)
next
  case True
  then have none: "agent_id_internal s name \<notin> fl_agents f" if "map_of (rg_fleets s) n = Some f" for n f
    using map_of_value [OF that] by (auto simp: filter_empty_conv)
  then have "fleets_ok ((map_of (rg_agents s))(agent_id_internal s name := None)) (map_of (rg_fleets s))"
    using ok by (intro fleets_ok_agent_delete) (auto simp: reg_ok_def)
  with ok True show ?thesis
    by (simp add: delete_agent_def Let_def reg_ok_def reg_defs agents_ok_delete manifests_ok_agent_delete)
qed

lemma delete_model_ok:
  assumes ok: "reg_ok s" shows "reg_ok (snd (delete_model name s))"
proof (cases "map_of (rg_models s) (reg_model_id s name)")
  case None
  with ok show ?thesis by (simp add: delete_model_def Let_def)
next
  case (Some m)
  then have nm: "md_name m = name" using ok unfolding reg_ok_def models_ok_def by (metis injD reg_ids_inj(2))
  show ?thesis
  proof (cases "filter (\<lambda>a. list_ex (\<lambda>n. n = name) (map snd (req_models (ag_requirements a))))
      (map snd (rg_agents s)) = []")
    case False
    with ok Some nm show ?thesis by (simp add: delete_model_def Let_def)
  next
    case True
    then have "name \<notin> agent_models a" if "map_of (rg_agents s) i = Some a" for i a
      using map_of_value [OF that] by (auto simp: filter_empty_conv list_ex_iff agent_models_def)
    then have "agents_ok (agent_id_internal s) (reg_model_id s) (map_of (rg_agents s))
        ((map_of (rg_models s))(reg_model_id s name := None)) (rg_runtimes s)"
      using ok by (intro agents_ok_model_delete) (auto simp: reg_ok_def)
    with ok Some nm True show ?thesis
      by (simp add: delete_model_def Let_def reg_ok_def reg_defs models_ok_delete)
  qed
qed

lemma reg_ok_frame:
  "reg_ok s \<Longrightarrow> rg_agents s' = rg_agents s \<Longrightarrow> rg_models s' = rg_models s \<Longrightarrow> rg_fleets s' = rg_fleets s \<Longrightarrow>
   rg_manifests s' = rg_manifests s \<Longrightarrow> rg_id s' = rg_id s \<Longrightarrow> rg_runtimes s \<subseteq> rg_runtimes s' \<Longrightarrow> reg_ok s'"
  by (auto simp: reg_ok_def agents_ok_def agent_id_internal_def [abs_def] reg_model_id_def [abs_def])

lemma validate_same:
  assumes "register_validate a s = Inr True"
  shows "\<exists>b. map_of (rg_agents s) (agent_id_internal s (ag_name a)) = Some b \<and> agent_config_eq b a"
proof (cases "map_of (rg_agents s) (agent_id_internal s (ag_name a))")
  case None
  with assms show ?thesis
    by (cases "check_services s a") (simp_all add: register_validate_def split: sum.splits if_splits)
next
  case (Some b)
  with assms show ?thesis by (simp add: register_validate_def split: if_splits)
qed

lemma agent_config_eq_trans_iff: "agent_config_eq b a \<Longrightarrow> agent_config_eq b c \<longleftrightarrow> agent_config_eq c a"
  using agent_config_eq_sym_trans by blast

lemma register_agent_present:
  assumes "register_agent identity a (s, k) = (Inr u, s', k')"
  shows "map_of (rg_agents s') (agent_id_internal s' (ag_name a)) \<noteq> None \<and> rg_manifests s' = rg_manifests s"
proof (cases "register_validate a s")
  case (Inl e)
  with assms show ?thesis by (simp add: register_agent_def)
next
  case (Inr b)
  show ?thesis
  proof (cases b)
    case True
    have "map_of (rg_agents s) (agent_id_internal s (ag_name a)) \<noteq> None"
      using validate_same [of a s] Inr True by auto
    with assms Inr True show ?thesis by (simp add: register_agent_def)
  next
    case False
    with assms Inr show ?thesis
      by (auto simp: register_agent_def register_commit_def Let_def update_conv' split: prod.splits sum.splits)
  qed
qed

lemma agent_from_manifest_name: "agent_from_manifest m = Inr a \<Longrightarrow> ag_name a = mf_name m"
  by (auto simp: agent_from_manifest_def split: sum.splits)

lemma register_manifest_ok:
  assumes ok: "reg_ok s"
  shows "\<exists>r s' k'. register_manifest identity pe m (s, k) = Some (r, s', k') \<and> reg_ok s'"
proof (cases "map_of (rg_manifests s) (mf_name m)")
  case (Some stored)
  then have "map_of (rg_agents s) (agent_id_internal s (mf_name m)) \<noteq> None"
    using ok unfolding reg_ok_def manifests_ok_def by blast
  with Some ok show ?thesis by (auto simp: register_manifest_def simp del: not_None_eq split: option.split)
next
  case None
  show ?thesis
  proof (cases "agent_from_manifest m")
    case (Inl e)
    with None ok show ?thesis by (simp add: register_manifest_def)
  next
    case (Inr a)
    obtain r s1 k1 where reg: "register_agent identity a (s, k) = (r, s1, k1)"
      by (cases "register_agent identity a (s, k)") auto
    have ok1: "reg_ok s1" using ok reg by (rule register_agent_ok)
    show ?thesis
    proof (cases r)
      case (Inl e)
      with None Inr reg ok1 show ?thesis by (simp add: register_manifest_def)
    next
      case r: (Inr u)
      have "map_of (rg_agents s1) (agent_id_internal s1 (mf_name m)) \<noteq> None"
        using register_agent_present [OF reg [unfolded r]] agent_from_manifest_name [OF Inr] by simp
      then obtain b where b: "map_of (rg_agents s1) (agent_id_internal s1 (mf_name m)) = Some b" by blast
      let ?s2 = "s1\<lparr>rg_manifests := AList.update (mf_name m) m (rg_manifests s1)\<rparr>"
      have "manifests_ok (agent_id_internal s1) (map_of (rg_agents s1)) ((map_of (rg_manifests s1))(mf_name m \<mapsto> m))"
        using ok1 b by (intro manifests_ok_update) (simp_all add: reg_ok_def)
      then have "reg_ok ?s2" using ok1 by (simp add: reg_ok_def update_conv')
      moreover have "store_manifest m s1 = (Some b, ?s2)" using b by (simp add: store_manifest_def Let_def)
      ultimately show ?thesis using None Inr reg r by (simp add: register_manifest_def)
    qed
  qed
qed

section \<open>Runs\<close>

inductive reg_step ::
    "(string \<Rightarrow> 'k \<Rightarrow> (identity_error, bytes) rust_result \<times> 'k) \<Rightarrow> (resource_id set \<Rightarrow> resource_id list) \<Rightarrow>
     (string \<Rightarrow> string) \<Rightarrow> registry_state \<times> 'k \<Rightarrow> registry_state \<times> 'k \<Rightarrow> bool"
  for identity elems pe where
  rs_agent: "register_agent identity a (s, k) = (r, s', k') \<Longrightarrow> reg_step identity elems pe (s, k) (s', k')"
| rs_manifest: "register_manifest identity pe m (s, k) = Some (rm, s', k') \<Longrightarrow> reg_step identity elems pe (s, k) (s', k')"
| rs_model: "reg_step identity elems pe (s, k) (snd (register_model md s), k)"
| rs_delete_model: "reg_step identity elems pe (s, k) (snd (delete_model n s), k)"
| rs_delete_agent: "reg_step identity elems pe (s, k) (snd (delete_agent n s), k)"
| rs_fleet: "finite (fl_agents f) \<Longrightarrow> reg_step identity elems pe (s, k) (snd (register_fleet elems f s), k)"
| rs_mcp: "reg_step identity elems pe (s, k) (snd (register_mcp_server mcp s), k)"
| rs_delete_mcp: "reg_step identity elems pe (s, k) (snd (delete_mcp_server n s), k)"
| rs_create_job: "reg_step identity elems pe (s, k) (snd (create_job u sub i inp s), k)"
| rs_job_status: "reg_step identity elems pe (s, k) (update_job_status i st s, k)"
| rs_runtime: "reg_step identity elems pe (s, k) (register_runtime rt s, k)"
| rs_object: "reg_step identity elems pe (s, k) (register_object_storage os s, k)"
| rs_vector: "reg_step identity elems pe (s, k) (register_vector_storage vs s, k)"
| rs_inference: "reg_step identity elems pe (s, k) (register_inference_engine p s, k)"
| rs_embedding: "reg_step identity elems pe (s, k) (register_embedding_engine p s, k)"

lemma reg_step_ok:
  assumes elems: "\<And>x. finite x \<Longrightarrow> set (elems x) = x" and step: "reg_step identity elems pe x y" and ok: "reg_ok (fst x)"
  shows "reg_ok (fst y)"
  using step ok
proof (cases rule: reg_step.cases)
  case (rs_agent a s k r s' k')
  with ok show ?thesis using register_agent_ok by auto
next
  case (rs_manifest m s k rm s' k')
  with ok register_manifest_ok [of s identity pe m k] show ?thesis by auto
next
  case (rs_fleet f s k)
  with ok register_fleet_ok [of s elems f] elems [OF rs_fleet(3)] show ?thesis by simp
next
  case (rs_job_status s k i st)
  with ok show ?thesis
    by (auto simp: update_job_status_def split: option.split elim!: reg_ok_frame)
qed (use ok in \<open>simp_all add: register_model_ok delete_model_ok delete_agent_ok register_mcp_server_def
      delete_mcp_server_def create_job_def Let_def register_runtime_def register_object_storage_def
      register_vector_storage_def register_inference_engine_def register_embedding_engine_def subset_insertI
      reg_ok_frame\<close>)

lemma agent_value_key:
  assumes "reg_ok s" and "a \<in> snd ` set (rg_agents s)"
  shows "map_of (rg_agents s) (agent_id_internal s (ag_name a)) = Some a"
proof -
  obtain i where "(i, a) \<in> set (rg_agents s)" using assms(2) by force
  with assms(1) have m: "map_of (rg_agents s) i = Some a" by (auto simp: reg_ok_def)
  with assms(1) have "i = agent_id_internal s (ag_name a)" unfolding reg_ok_def agents_ok_def by blast
  with m show ?thesis by simp
qed

lemma agent_by_name:
  assumes "reg_ok s"
  shows "get_agent_by_name n s = get_agent (agent_id_internal s n) s"
proof (cases "get_agent_by_name n s")
  case (Some a)
  then have "a \<in> snd ` set (rg_agents s)" "ag_name a = n"
    by (auto simp: get_agent_by_name_def get_agents_def dest!: find_Some_set)
  then have "map_of (rg_agents s) (agent_id_internal s n) = Some a"
    using agent_value_key [OF assms] by blast
  with Some show ?thesis by (simp add: get_agent_def)
next
  case None
  have "map_of (rg_agents s) (agent_id_internal s n) = None"
  proof (rule ccontr)
    assume "map_of (rg_agents s) (agent_id_internal s n) \<noteq> None"
    then obtain a where a: "map_of (rg_agents s) (agent_id_internal s n) = Some a" by blast
    with assms have "agent_id_internal s n = agent_id_internal s (ag_name a)"
      unfolding reg_ok_def agents_ok_def by blast
    then have "ag_name a = n" by (metis injD reg_ids_inj(1))
    with None map_of_value [OF a] show False
      by (auto simp: get_agent_by_name_def get_agents_def find_None_set)
  qed
  with None show ?thesis by (simp add: get_agent_def)
qed

section \<open>Properties\<close>

text \<open>
  C15: over any run of non-interleaving registry operations from an empty registry every registered
  agent sits under the id of its name with that id stamped on it, its runtime is available and each of
  its models is registered; every fleet has its entry among its agents and all of them registered; and
  looking an agent up by name or by id gives the same answer.
\<close>

theorem registry_invariant:
  assumes "\<forall>x. finite x \<longrightarrow> set (elems x) = x" and "(reg_step identity elems pe)\<^sup>*\<^sup>* (registry_new, k) (s, k')"
  shows "reg_ok s \<and> get_agent_by_name n s = get_agent (agent_id_internal s n) s \<and>
         (case get_agent i s of
            Some a \<Rightarrow> ag_id a = i \<and> select_runtime a s = Some (ag_runtime a) \<and>
                      list_all (\<lambda>m. get_model m s \<noteq> None) (map snd (req_models (ag_requirements a)))
          | None \<Rightarrow> True)"
proof -
  have step: "reg_ok (fst y)" if "reg_step identity elems pe x y" "reg_ok (fst x)" for x y
    using reg_step_ok [of elems, OF assms(1) [rule_format]] that by blast
  have "reg_ok (fst y)" if "(reg_step identity elems pe)\<^sup>*\<^sup>* x y" "reg_ok (fst x)" for x y
    using that by (induction rule: rtranclp_induct) (blast intro: step)+
  from this [OF assms(2)] have ok: "reg_ok s" by simp
  have "ag_id a = i \<and> ag_runtime a \<in> rg_runtimes s \<and> (\<forall>m \<in> agent_models a. map_of (rg_models s) (reg_model_id s m) \<noteq> None)"
    if "map_of (rg_agents s) i = Some a" for a
    using ok that unfolding reg_ok_def agents_ok_def by blast
  with ok agent_by_name [OF ok] show ?thesis
    by (simp add: get_agent_def select_runtime_def get_model_def agent_models_def list_all_iff split: option.split)
qed

definition example_runtime_state :: registry_state where
  "example_runtime_state =
     snd (register_model
       \<lparr>md_id = model_placeholder_id ''phi3'', md_name = ''phi3'', md_type = MInference, md_provider = POllama,
        md_path = ''ollama://localhost:11434/phi3'', md_digest = ''d''\<rparr>
       (register_inference_engine POllama (register_runtime RtContainer registry_new)))"

definition example_agent :: agent where
  "example_agent =
     \<lparr>ag_name = ''todo'', ag_description = ''tasks'', ag_source = None,
      ag_requirements = \<lparr>req_models = [(''chat'', ''phi3'')],
        req_services = [(StInfer, \<lparr>sc_provider = POllama, sc_protocol = ProtoOpenAi, sc_models = [''phi3'']\<rparr>)],
        req_mounts = [], req_mcp = []\<rparr>,
      ag_id = agent_placeholder_id ''todo'', ag_runtime = RtContainer, ag_executable = ''localhost/todo:latest'',
      ag_image_digest = None, ag_public_key = None, ag_object_storage = None, ag_vector_storage = None\<rparr>"

definition example_identity :: "string \<Rightarrow> unit \<Rightarrow> (identity_error, bytes) rust_result \<times> unit" where
  "example_identity name k = (Inr name, k)"

lemma example_runtime_ok: "reg_ok example_runtime_state"
  by (auto simp: example_runtime_state_def register_runtime_def register_inference_engine_def
      intro!: register_model_ok intro: reg_ok_frame [OF reg_ok_new])

lemma example_run:
  "(reg_step example_identity sorted_list_of_set (\<lambda>e. e))\<^sup>*\<^sup>* (registry_new, ())
     (fst (snd (register_agent example_identity example_agent (example_runtime_state, ()))), ())"
  (is "?R\<^sup>*\<^sup>* _ (?s, _)")
proof -
  let ?s1 = "register_runtime RtContainer registry_new"
  let ?s2 = "register_inference_engine POllama ?s1"
  have "?R (registry_new, ()) (?s1, ())" by (rule rs_runtime)
  moreover have "?R (?s1, ()) (?s2, ())" by (rule rs_inference)
  moreover have "?R (?s2, ()) (example_runtime_state, ())"
    unfolding example_runtime_state_def by (rule rs_model)
  moreover have "?R (example_runtime_state, ()) (?s, ())" by (rule rs_agent [where a = example_agent]) (simp add: prod_eq_iff)
  ultimately show ?thesis by (meson rtranclp.rtrancl_into_rtrancl rtranclp.rtrancl_refl)
qed

theorem registry_invariant_witness:
  "(let s = fst (snd (register_agent example_identity example_agent (example_runtime_state, ())))
    in map ag_name (get_agents s) = [''todo''] \<and> reg_ok s)"
proof -
  have "map ag_name (get_agents (fst (snd (register_agent example_identity example_agent (example_runtime_state, ()))))) =
      [''todo'']"
    by code_simp
  with registry_invariant [OF _ example_run, of "[]" "[]"] show ?thesis by (simp add: Let_def)
qed

text \<open>
  C39: registering an agent either fails and changes nothing in the registry, or leaves an agent of that
  name with the same configuration in place and every other agent as it was; once it has succeeded,
  registering the same configuration again is a no-op, and a different configuration of the same name
  is refused as a duplicate.
\<close>

theorem register_agent_spec:
  "case register_agent identity a (s, k) of
     (Inl e, s', k') \<Rightarrow> s' = s
   | (Inr _, s', k') \<Rightarrow>
       (case get_agent (agent_id_internal s (ag_name a)) s' of
          Some b \<Rightarrow> agent_config_eq b a
        | None \<Rightarrow> False) \<and>
       (\<forall>i. i \<noteq> agent_id_internal s (ag_name a) \<longrightarrow> get_agent i s' = get_agent i s) \<and>
       (\<forall>b k''. ag_name b = ag_name a \<longrightarrow>
          register_agent identity b (s', k'') =
            (if agent_config_eq b a then Inr () else Inl (DuplicateName (ag_name b)), s', k''))"
proof (cases "register_agent identity a (s, k)")
  case (fields r s' k')
  show ?thesis
  proof (cases r)
    case (Inl e)
    with fields show ?thesis
      by (auto simp: register_agent_def split: sum.splits bool.splits prod.splits)
  next
    case r: (Inr u)
    have stored: "\<exists>b. map_of (rg_agents s') (agent_id_internal s (ag_name a)) = Some b \<and> agent_config_eq b a \<and>
        agent_id_internal s' = agent_id_internal s \<and>
        (\<forall>i. i \<noteq> agent_id_internal s (ag_name a) \<longrightarrow> get_agent i s' = get_agent i s)"
    proof (cases "register_validate a s = Inr True")
      case True
      with fields r have "s' = s" by (simp add: register_agent_def)
      with validate_same [OF True] show ?thesis by auto
    next
      case False
      with fields r obtain pk where "s' = register_commit pk a s"
        by (auto simp: register_agent_def split: sum.splits bool.splits prod.splits)
      then show ?thesis by (simp add: register_commit_def Let_def update_conv' get_agent_def)
    qed
    then obtain b where b: "map_of (rg_agents s') (agent_id_internal s (ag_name a)) = Some b" "agent_config_eq b a"
        "agent_id_internal s' = agent_id_internal s"
        "\<forall>i. i \<noteq> agent_id_internal s (ag_name a) \<longrightarrow> get_agent i s' = get_agent i s"
      by blast
    have "register_agent identity c (s', k'') =
        (if agent_config_eq c a then Inr () else Inl (DuplicateName (ag_name c)), s', k'')" if "ag_name c = ag_name a" for c k''
      using b that agent_config_eq_trans_iff [OF b(2)] by (simp add: register_agent_def register_validate_def)
    with fields r b show ?thesis by (simp add: get_agent_def)
  qed
qed

theorem register_agent_spec_witness:
  "fst (register_agent example_identity (example_agent\<lparr>ag_description := ''x''\<rparr>)
          (snd (register_agent example_identity example_agent (example_runtime_state, ())))) =
     Inl (DuplicateName ''todo'')"
proof -
  let ?r = "register_agent example_identity example_agent (example_runtime_state, ())"
  have "fst ?r = Inr ()" by code_simp
  then obtain s' where r: "?r = (Inr (), s', ())" by (metis prod.collapse unit.exhaust)
  have "\<not> agent_config_eq (example_agent\<lparr>ag_description := ''x''\<rparr>) example_agent"
       "ag_name (example_agent\<lparr>ag_description := ''x''\<rparr>) = ag_name example_agent" "ag_name example_agent = ''todo''"
    by (simp_all add: agent_config_eq_def example_agent_def)
  then show ?thesis
    using register_agent_spec [where identity = example_identity and a = example_agent and s = example_runtime_state and k = "()"] r by simp
qed

text \<open>
  An agent or a model is never deleted from under what depends on it: a refusal names a dependent
  and changes nothing, success means that nothing registered refers to it any more.
\<close>

theorem delete_respects_dependents:
  assumes "reg_ok s"
  shows "(case delete_agent name s of
            (Inl e, s') \<Rightarrow> s' = s \<and> (\<exists>ns. e = AgentInUse name ns \<and> ns \<noteq> [] \<and>
               (\<forall>n \<in> set ns. \<exists>f \<in> set (get_fleets s). fl_name f = n \<and> agent_id_internal s name \<in> fl_agents f))
          | (Inr b, s') \<Rightarrow> (b \<longleftrightarrow> agent_id name s \<noteq> None) \<and> agent_id name s' = None \<and>
               (\<forall>f \<in> set (get_fleets s'). agent_id_internal s' name \<notin> fl_agents f)) \<and>
         (case delete_model name s of
            (Inl e, s') \<Rightarrow> s' = s \<and> (\<exists>ns. e = ModelInUse name ns \<and> ns \<noteq> [] \<and>
               (\<forall>n \<in> set ns. \<exists>a \<in> set (get_agents_requiring_model name s). ag_name a = n))
          | (Inr b, s') \<Rightarrow> (b \<longleftrightarrow> get_model name s \<noteq> None) \<and> get_model name s' = None \<and>
               get_agents_requiring_model name s' = [])"
proof (intro conjI, goal_cases)
  case 1
  have "agent_id_internal s name \<notin> fl_agents f"
    if absent: "map_of (rg_agents s) (agent_id_internal s name) = None" and f: "f \<in> snd ` set (rg_fleets s)" for f
  proof -
    obtain n where "map_of (rg_fleets s) n = Some f"
      using f assms unfolding reg_ok_def by auto
    with assms absent show ?thesis unfolding reg_ok_def fleets_ok_def by blast
  qed
  then show ?case
    by (auto simp: delete_agent_def Let_def agent_id_def get_fleets_def delete_conv' filter_empty_conv)
next
  case 2
  show ?case
  proof (cases "map_of (rg_models s) (reg_model_id s name)")
    case None
    have "name \<notin> agent_models a" if a: "a \<in> snd ` set (rg_agents s)" for a
      using assms agent_value_key [OF assms a] None unfolding reg_ok_def agents_ok_def by blast
    with None show ?thesis
      by (auto simp: delete_model_def Let_def get_model_def get_agents_requiring_model_def get_agents_def
          filter_empty_conv list_ex_iff agent_models_def)
  next
    case (Some m)
    then have "md_name m = name" using assms unfolding reg_ok_def models_ok_def by (metis injD reg_ids_inj(2))
    with Some show ?thesis
      by (auto simp: delete_model_def Let_def get_model_def get_agents_requiring_model_def get_agents_def
          delete_conv' filter_empty_conv list_ex_iff)
  qed
qed

theorem delete_respects_dependents_witness:
  "let s = fst (snd (register_agent example_identity example_agent (example_runtime_state, ())))
   in delete_model ''phi3'' s = (Inl (ModelInUse ''phi3'' [''todo'']), s)"
proof -
  let ?s = "fst (snd (register_agent example_identity example_agent (example_runtime_state, ())))"
  have ok: "reg_ok ?s" by (rule register_agent_ok [OF example_runtime_ok]) (simp add: prod_eq_iff)
  have "fst (delete_model ''phi3'' ?s) = Inl (ModelInUse ''phi3'' [''todo''])" by code_simp
  with delete_respects_dependents [OF ok, of "''phi3''"] show ?thesis
    by (auto simp: Let_def prod_eq_iff split: prod.splits)
qed

text \<open>
  The read lock of \<open>register_agent\<close> is dropped before the write lock is taken.  If the last user-less
  model an agent was validated against is deleted in that gap, the agent is registered although its
  model is gone and the registry's invariant is broken; and of two different agents of one name that
  were both validated before either was stored, the second silently replaces the first, which had been
  reported registered.
\<close>

theorem register_agent_race:
  assumes "reg_ok s" and "register_validate a s = Inr False" and "n \<in> agent_models a"
    and "get_agents_requiring_model n s = []"
    and "register_validate b s = Inr False" and "ag_name b = ag_name a"
  shows "\<not> reg_ok (register_commit pk a (snd (delete_model n s))) \<and>
         get_model n (register_commit pk a (snd (delete_model n s))) = None \<and>
         get_agent (agent_id_internal s (ag_name a)) (register_commit pk a (snd (delete_model n s))) =
           Some (a\<lparr>ag_public_key := Some pk, ag_id := agent_id_internal s (ag_name a)\<rparr>) \<and>
         get_agent (agent_id_internal s (ag_name a)) (register_commit pk' b (register_commit pk a s)) =
           Some (b\<lparr>ag_public_key := Some pk', ag_id := agent_id_internal s (ag_name a)\<rparr>)"
proof -
  obtain m where m: "map_of (rg_models s) (reg_model_id s n) = Some m"
    using validated_models [OF assms(1-3)] by blast
  then have nm: "md_name m = n" using assms(1) unfolding reg_ok_def models_ok_def by (metis injD reg_ids_inj(2))
  let ?s1 = "s\<lparr>rg_models := AList.delete (reg_model_id s n) (rg_models s)\<rparr>"
  have "filter (\<lambda>a. list_ex (\<lambda>x. x = n) (map snd (req_models (ag_requirements a)))) (map snd (rg_agents s)) = []"
    using assms(4) by (simp add: get_agents_requiring_model_def get_agents_def)
  then have del: "snd (delete_model n s) = ?s1" using m nm by (simp add: delete_model_def Let_def)
  let ?s2 = "register_commit pk a ?s1"
  have "get_agent (agent_id_internal s (ag_name a)) ?s2 =
      Some (a\<lparr>ag_public_key := Some pk, ag_id := agent_id_internal s (ag_name a)\<rparr>)"
    by (simp add: register_commit_def Let_def get_agent_def update_conv')
  moreover have "get_model n ?s2 = None"
    by (simp add: register_commit_def Let_def get_model_def delete_conv')
  moreover from calculation have "\<not> reg_ok ?s2"
    using assms(3) unfolding reg_ok_def agents_ok_def get_agent_def get_model_def
    by (fastforce simp: agent_models_def)
  moreover have "get_agent (agent_id_internal s (ag_name a)) (register_commit pk' b (register_commit pk a s)) =
      Some (b\<lparr>ag_public_key := Some pk', ag_id := agent_id_internal s (ag_name a)\<rparr>)"
    using assms(6) by (simp add: register_commit_def Let_def get_agent_def update_conv')
  ultimately show ?thesis using del by simp
qed

theorem register_agent_race_witness:
  "let s = register_commit ''key'' example_agent (snd (delete_model ''phi3'' example_runtime_state))
   in map ag_name (get_agents s) = [''todo''] \<and> get_models s = [] \<and> \<not> reg_ok s"
proof -
  have v: "register_validate example_agent example_runtime_state = Inr False"
    "get_agents_requiring_model ''phi3'' example_runtime_state = []"
    "''phi3'' \<in> agent_models example_agent"
    by code_simp+
  have "map ag_name (get_agents (register_commit ''key'' example_agent (snd (delete_model ''phi3'' example_runtime_state)))) =
      [''todo'']"
    "get_models (register_commit ''key'' example_agent (snd (delete_model ''phi3'' example_runtime_state))) = []"
    by code_simp+
  with register_agent_race [OF example_runtime_ok v(1) v(3) v(2) v(1) refl, of "''key''"] show ?thesis by (simp add: Let_def)
qed

text \<open>
  \<open>register_manifest\<close> never panics when nothing interleaves with it, and keeps the invariant; but a
  \<open>delete_agent\<close> between its two lock scopes makes the final \<open>expect\<close> panic, with the manifest of the
  deleted agent already stored.
\<close>

theorem register_manifest_panic:
  assumes "reg_ok s" and "get_fleets s = []"
  shows "(\<exists>r s' k'. register_manifest identity pe m (s, k) = Some (r, s', k') \<and> reg_ok s') \<and>
         fst (store_manifest m (snd (delete_agent (mf_name m) s))) = None \<and>
         \<not> reg_ok (snd (store_manifest m (snd (delete_agent (mf_name m) s))))"
proof -
  let ?s = "snd (delete_agent (mf_name m) s)"
  let ?s' = "snd (store_manifest m ?s)"
  have gone: "map_of (rg_agents ?s) (agent_id_internal s (mf_name m)) = None"
    and same: "agent_id_internal ?s = agent_id_internal s"
    using assms(2) by (auto simp: delete_agent_def Let_def get_fleets_def delete_conv')
  from gone same have "fst (store_manifest m ?s) = None" by (simp add: store_manifest_def Let_def)
  moreover have "rg_agents ?s' = rg_agents ?s" "agent_id_internal ?s' = agent_id_internal s"
    "map_of (rg_manifests ?s') (mf_name m) = Some m"
    using same by (simp_all add: store_manifest_def Let_def update_conv')
  then have "\<not> reg_ok ?s'" using gone unfolding reg_ok_def manifests_ok_def by auto
  ultimately show ?thesis using register_manifest_ok [OF assms(1), of identity pe m k] by blast
qed

theorem register_manifest_panic_witness:
  "let m = \<lparr>mf_name = ''todo'', mf_description = ''tasks'', mf_source = None, mf_runtime = ''container'',
            mf_executable = ''localhost/todo:latest'',
            mf_requirements = \<lparr>req_models = [], req_services = [], req_mounts = [], req_mcp = []\<rparr>,
            mf_object_storage = None, mf_vector_storage = None\<rparr>
   in fst (store_manifest m (snd (delete_agent ''todo'' registry_new))) = None"
proof -
  let ?m = "\<lparr>mf_name = ''todo'', mf_description = ''tasks'', mf_source = None, mf_runtime = ''container'',
            mf_executable = ''localhost/todo:latest'',
            mf_requirements = \<lparr>req_models = [], req_services = [], req_mounts = [], req_mcp = []\<rparr>,
            mf_object_storage = None, mf_vector_storage = None\<rparr>"
  have "get_fleets registry_new = []" by (simp add: get_fleets_def registry_new_def)
  from register_manifest_panic [OF reg_ok_new this, of example_identity "\<lambda>e. e" ?m "()"]
  show ?thesis by (simp add: Let_def)
qed

end
