(* ===== verification/Harness.thy ===== *)
theory Harness
  imports Queue Dag Registry
begin

text \<open>
  The harness (\<open>domain/harness.rs\<close>, \<open>domain/harness_event.rs\<close>, \<open>domain/run_ctl.rs\<close>): the multi-turn
  loop that invokes an agent, dispatches the tool calls it asks for and re-invokes it until it answers
  without one.  A computation threads the state of the queue, of the registry and of the harness; an
  error is \<open>Inl\<close>, and not returning is \<open>None\<close>.  Waiting for a completion polls for ever
  (\<open>wait_reply\<close>); the turns of a run and the nesting of delegated runs are bounded by fuel.  What other
  tasks do to queue and registry while the harness waits is the parameter \<open>he_others\<close>, indexed by the
  wait and the poll; fresh ids, clock readings and approval replies are indexed by \<open>hs_tick\<close>.
\<close>

section \<open>Events and control\<close>

datatype approval_decision = Approve | Reject string

datatype harness_event =
    RunStarted resource_id session_id branch_id
  | TurnStarted "32 word"
  | AssistantContent "32 word" string
  | ToolCallApprovalRequired tool_call
  | ToolCallStarted tool_call
  | ToolCallCompleted tool_trace
  | TurnCompleted "32 word" turn_trace
  | RunCompleted run_result

datatype approval_mode = Autonomous | RequireApproval

text \<open>\<open>events: Option<Sender>\<close> is a flag: what is sent is appended to the log in the harness state.\<close>

record run_ctl =
  rc_events :: bool
  rc_approval :: approval_mode

definition ctl_quiet :: run_ctl where
  "ctl_quiet = \<lparr>rc_events = False, rc_approval = Autonomous\<rparr>"

definition ctl_streaming :: run_ctl where
  "ctl_streaming = \<lparr>rc_events = True, rc_approval = Autonomous\<rparr>"

definition ctl_streaming_with_approval :: run_ctl where
  "ctl_streaming_with_approval = \<lparr>rc_events = True, rc_approval = RequireApproval\<rparr>"

definition requires_approval :: "run_ctl \<Rightarrow> bool" where
  "requires_approval ctl = (rc_approval ctl = RequireApproval)"

section \<open>Environment and state\<close>

record 'r registry_ops =
  ro_get_agent :: "resource_id \<Rightarrow> 'r \<Rightarrow> agent option"
  ro_get_agent_by_name :: "string \<Rightarrow> 'r \<Rightarrow> agent option"
  ro_select_runtime :: "agent \<Rightarrow> 'r \<Rightarrow> runtime_type option"
  ro_create_job :: "string \<Rightarrow> submission_id \<Rightarrow> resource_id \<Rightarrow> string \<Rightarrow> 'r \<Rightarrow> string \<times> 'r"
  ro_update_job_status :: "string \<Rightarrow> job_status \<Rightarrow> 'r \<Rightarrow> 'r"

definition mem_registry_ops :: "registry_state registry_ops" where
  "mem_registry_ops =
     \<lparr>ro_get_agent = get_agent, ro_get_agent_by_name = get_agent_by_name, ro_select_runtime = select_runtime,
      ro_create_job = create_job, ro_update_job_status = update_job_status\<rparr>"

record ('q, 'r, 's) h_env =
  he_type :: harness_type
  he_queue :: "'q mq_ops"
  he_registry :: "'r registry_ops"
  he_store :: "'s dag_store"
  he_store_of :: "'q \<Rightarrow> 's"
  he_version :: string
  he_encode_tool_call :: "string \<Rightarrow> json \<Rightarrow> bytes"
  he_arguments_len :: "json \<Rightarrow> nat"
  he_utf8_lossy :: "bytes \<Rightarrow> string"
  he_uuid :: "nat \<Rightarrow> string"
  he_now_ms :: "nat \<Rightarrow> int"
  he_elapsed_ms :: "nat \<Rightarrow> nat"
  he_decide :: "nat \<Rightarrow> approval_decision option"
  he_others :: "nat \<Rightarrow> nat \<Rightarrow> 'q \<times> 'r \<Rightarrow> 'q \<times> 'r"

record ('q, 'r) h_state =
  hs_queue :: 'q
  hs_registry :: 'r
  hs_sequence :: sequence_counter
  hs_tick :: nat
  hs_events :: "harness_event list"

type_synonym ('q, 'r, 'a) hm = "('q, 'r) h_state \<Rightarrow> ((string, 'a) rust_result \<times> ('q, 'r) h_state) option"

definition hret :: "'a \<Rightarrow> ('q, 'r, 'a) hm" where
  "hret x s = Some (Inr x, s)"

definition hfail :: "string \<Rightarrow> ('q, 'r, 'a) hm" where
  "hfail e s = Some (Inl e, s)"

definition hbind :: "('q, 'r, 'a) hm \<Rightarrow> ('a \<Rightarrow> ('q, 'r, 'b) hm) \<Rightarrow> ('q, 'r, 'b) hm" where
  "hbind m f s =
     (case m s of None \<Rightarrow> None | Some (Inl e, s') \<Rightarrow> Some (Inl e, s') | Some (Inr x, s') \<Rightarrow> f x s')"

text \<open>A step that cannot fail, and a call whose error the caller inspects.\<close>

definition hstep :: "(('q, 'r) h_state \<Rightarrow> 'a \<times> ('q, 'r) h_state) \<Rightarrow> ('q, 'r, 'a) hm" where
  "hstep f s = (case f s of (x, s') \<Rightarrow> Some (Inr x, s'))"

definition hcatch :: "('q, 'r, 'a) hm \<Rightarrow> ('q, 'r, (string, 'a) rust_result) hm" where
  "hcatch m s = (case m s of None \<Rightarrow> None | Some (r, s') \<Rightarrow> Some (Inr r, s'))"

definition hlift :: "(string, 'a) rust_result \<Rightarrow> ('q, 'r, 'a) hm" where
  "hlift r s = Some (r, s)"

definition emit :: "run_ctl \<Rightarrow> harness_event \<Rightarrow> ('q, 'r, unit) hm" where
  "emit ctl ev = hstep (\<lambda>s. ((), if rc_events ctl then s\<lparr>hs_events := hs_events s @ [ev]\<rparr> else s))"

text \<open>The reading of a clock or generator at the current tick.\<close>

definition tick :: "(nat \<Rightarrow> 'a) \<Rightarrow> ('q, 'r, 'a) hm" where
  "tick f = hstep (\<lambda>s. (f (hs_tick s), s\<lparr>hs_tick := Suc (hs_tick s)\<rparr>))"

definition get_registry :: "('r \<Rightarrow> 'a) \<Rightarrow> ('q, 'r, 'a) hm" where
  "get_registry f = hstep (\<lambda>s. (f (hs_registry s), s))"

definition on_queue :: "('q, 'a) mq_op \<Rightarrow> ('q, 'r, (queue_error, 'a) rust_result) hm" where
  "on_queue f = hstep (\<lambda>s. case f (hs_queue s) of (r, q) \<Rightarrow> (r, s\<lparr>hs_queue := q\<rparr>))"

definition next_service_sequence :: "('q, 'r, sequence) hm" where
  "next_service_sequence =
     hstep (\<lambda>s. case sequence_counter_next (hs_sequence s) of (n, c) \<Rightarrow> (n, s\<lparr>hs_sequence := c\<rparr>))"

definition queue_failure :: "queue_error \<Rightarrow> string" where
  "queue_failure e = ''queue error: '' @ queue_error_display e"

section \<open>Jobs and invokes\<close>

definition resolve_runtime :: "('q, 'r, 's) h_env \<Rightarrow> resource_id \<Rightarrow> ('q, 'r, agent \<times> runtime_type) hm" where
  "resolve_runtime env aid =
     hbind (get_registry (\<lambda>r. (ro_get_agent (he_registry env) aid r, r))) (\<lambda>(agent, r).
       case agent of
         None \<Rightarrow> hfail (''agent not deployed: '' @ aid)
       | Some a \<Rightarrow>
           (case ro_select_runtime (he_registry env) a r of
              None \<Rightarrow> hfail (''no runtime available for agent: '' @ aid)
            | Some rt \<Rightarrow> hret (a, rt)))"

definition create_job_h :: "('q, 'r, 's) h_env \<Rightarrow> submission_id \<Rightarrow> resource_id \<Rightarrow> string \<Rightarrow> ('q, 'r, string) hm" where
  "create_job_h env submission aid input =
     hbind (tick (he_uuid env)) (\<lambda>uuid.
       hstep (\<lambda>s. case ro_create_job (he_registry env) uuid submission aid input (hs_registry s) of
                    (job, r) \<Rightarrow> (job, s\<lparr>hs_registry := r\<rparr>)))"

definition set_job_status :: "('q, 'r, 's) h_env \<Rightarrow> string \<Rightarrow> job_status \<Rightarrow> ('q, 'r, unit) hm" where
  "set_job_status env job st =
     hstep (\<lambda>s. ((), s\<lparr>hs_registry := ro_update_job_status (he_registry env) job st (hs_registry s)\<rparr>))"

definition build_invoke_message ::
    "('q, 'r, 's) h_env \<Rightarrow> submission_id \<Rightarrow> session_id \<Rightarrow> branch_id \<Rightarrow> dag_node_id \<Rightarrow> string option \<Rightarrow>
     message list \<Rightarrow> runtime_type \<Rightarrow> resource_id \<Rightarrow> ('q, 'r, data_routing_key \<times> invoke_message) hm" where
  "build_invoke_message env submission session branch parent state current_input runtime aid =
     hbind (tick (he_uuid env)) (\<lambda>i. hret
       (\<lparr>dk_session = session, dk_branch = branch, dk_submission = submission,
         dk_kind = DkInvoke (he_type env) runtime (agent_routing_key aid)\<rparr>,
        \<lparr>iv_id = i, iv_dag_id = dag_node_id_root, iv_state = state,
         iv_diagnostics = \<lparr>idg_harness_version = he_version env\<rparr>,
         iv_dag_parent = parent, iv_current_input = current_input\<rparr>))"

definition sealed_error :: string where
  "sealed_error = ''Timeline is sealed. Use `vlinder session fork` to create a new branch.''"

text \<open>
  \<open>build_conversation_input\<close> reads two nodes and drops them; what is left of it is the one user
  message and the state it is given.
\<close>

definition build_conversation_input :: "string \<Rightarrow> string option \<Rightarrow> message list \<times> message list \<times> string option" where
  "build_conversation_input input initial_state = ([], [User input], initial_state)"

definition build_invoke ::
    "('q, 'r, 's) h_env \<Rightarrow> submission_id \<Rightarrow> resource_id \<Rightarrow> string \<Rightarrow> session_id \<Rightarrow> branch_id \<Rightarrow> bool \<Rightarrow>
     string option \<Rightarrow> dag_node_id \<Rightarrow> ('q, 'r, data_routing_key \<times> invoke_message \<times> string) hm" where
  "build_invoke env submission aid input session branch sealed initial_state parent =
     (if sealed then hfail sealed_error
      else hbind (resolve_runtime env aid) (\<lambda>(_, runtime).
        case build_conversation_input input initial_state of (_, current_input, last_state) \<Rightarrow>
        hbind (create_job_h env submission aid input) (\<lambda>job.
        hbind (build_invoke_message env submission session branch parent last_state current_input runtime aid)
          (\<lambda>(key, msg). hret (key, msg, job)))))"

text \<open>The job input of a re-invocation: user and system texts joined by a space.\<close>

fun message_text :: "message \<Rightarrow> string option" where
  "message_text (User c) = Some c"
| "message_text (System c) = Some c"
| "message_text _ = None"

definition build_reinvoke ::
    "('q, 'r, 's) h_env \<Rightarrow> submission_id \<Rightarrow> resource_id \<Rightarrow> session_id \<Rightarrow> branch_id \<Rightarrow> dag_node_id \<Rightarrow>
     string option \<Rightarrow> message list \<Rightarrow> ('q, 'r, data_routing_key \<times> invoke_message \<times> string) hm" where
  "build_reinvoke env submission aid session branch parent state current_input =
     hbind (resolve_runtime env aid) (\<lambda>(_, runtime).
     hbind (create_job_h env submission aid (join_with CHR '' '' (List.map_filter message_text current_input)))
       (\<lambda>job.
     hbind (build_invoke_message env submission session branch parent state current_input runtime aid)
       (\<lambda>(key, msg). hret (key, msg, job))))"

definition build_next_message ::
    "('q, 'r, 's) h_env \<Rightarrow> submission_id \<Rightarrow> resource_id \<Rightarrow> string \<Rightarrow> session_id \<Rightarrow> branch_id \<Rightarrow> bool \<Rightarrow>
     string option \<Rightarrow> dag_node_id \<Rightarrow> message list \<Rightarrow> message list \<Rightarrow>
     ('q, 'r, data_routing_key \<times> invoke_message \<times> string) hm" where
  "build_next_message env submission aid input session branch sealed state parent history current_input =
     (if history = [] \<and> current_input = []
      then build_invoke env submission aid input session branch sealed state parent
      else build_reinvoke env submission aid session branch parent state current_input)"

section \<open>Waiting\<close>

text \<open>A receive that polls the queue while the registry beside it is left alone.\<close>

definition beside :: "('q, 'm \<times> 'q ack) mq_op \<Rightarrow> ('q \<times> 'r, 'm \<times> ('q \<times> 'r) ack) mq_op" where
  "beside receive qr =
     (case receive (fst qr) of
        (Inl e, q) \<Rightarrow> (Inl e, (q, snd qr))
      | (Inr (m, ack), q) \<Rightarrow>
          (Inr (m, \<lambda>qr'. case ack (fst qr') of (x, q') \<Rightarrow> (x, (q', snd qr'))), (q, snd qr)))"

definition others :: "('q, 'r, 's) h_env \<Rightarrow> ('q, 'r, unit) hm" where
  "others env = hstep (\<lambda>s. case he_others env (hs_tick s) 0 (hs_queue s, hs_registry s) of
     (q, r) \<Rightarrow> ((), s\<lparr>hs_queue := q, hs_registry := r, hs_tick := Suc (hs_tick s)\<rparr>))"

definition await_complete ::
    "('q, 'r, 's) h_env \<Rightarrow> submission_id \<Rightarrow> agent_name \<Rightarrow> ('q, 'r, complete_message) hm" where
  "await_complete env submission agent s =
     map_option (\<lambda>(res, q, r). (map_sum queue_failure id res,
                                s\<lparr>hs_queue := q, hs_registry := r, hs_tick := Suc (hs_tick s)\<rparr>))
       (wait_reply (\<lambda>i. he_others env (hs_tick s) (Suc i))
          (beside (drop_key (mq_receive_complete (he_queue env) submission (he_type env) agent))) 0
          (he_others env (hs_tick s) 0 (hs_queue s, hs_registry s)))"

definition send_and_await_complete ::
    "('q, 'r, 's) h_env \<Rightarrow> data_routing_key \<Rightarrow> invoke_message \<Rightarrow> string \<Rightarrow> resource_id \<Rightarrow>
     ('q, 'r, dag_node_id \<times> complete_message) hm" where
  "send_and_await_complete env key msg job aid =
     hbind (set_job_status env job JsRunning) (\<lambda>_.
     hbind (on_queue (mq_send_invoke (he_queue env) key msg)) (\<lambda>sent.
       case sent of
         Inl e \<Rightarrow> hfail (queue_failure e)
       | Inr invoke_dag_id \<Rightarrow>
           hbind (await_complete env (dk_submission key) (agent_routing_key aid))
             (\<lambda>complete. hret (invoke_dag_id, complete))))"

section \<open>Tool calls\<close>

record turn_context =
  cx_session :: session_id
  cx_branch :: branch_id
  cx_sealed :: bool
  cx_submission :: submission_id
  cx_agent_name :: agent_name
  cx_state :: "string option"

definition millis_u64 :: "int \<Rightarrow> 64 word" where
  "millis_u64 t = (if 0 \<le> t \<and> t < 2 ^ 64 then word_of_int t else 0)"

text \<open>
  The result of the tool call and the new chain head.  \<open>first\<close> of the agent's MCP servers is the
  provider; an unknown agent or one without servers gets the hard-coded server.
\<close>

definition service_provider :: "('q, 'r, 's) h_env \<Rightarrow> agent_name \<Rightarrow> 'r \<Rightarrow> string" where
  "service_provider env agent_name r =
     unwrap_or ''server-everything''
       (Option.bind (ro_get_agent_by_name (he_registry env) agent_name r)
          (\<lambda>a. case req_mcp (ag_requirements a) of [] \<Rightarrow> None | p # _ \<Rightarrow> Some p))"

definition dispatch_service_call ::
    "('q, 'r, 's) h_env \<Rightarrow> tool_call \<Rightarrow> session_id \<Rightarrow> branch_id \<Rightarrow> submission_id \<Rightarrow> agent_name \<Rightarrow>
     string option \<Rightarrow> dag_node_id \<Rightarrow> ('q, 'r, tool_result \<times> dag_node_id) hm" where
  "dispatch_service_call env tc session branch submission agent_name last_state chain_head =
     hbind (get_registry (service_provider env agent_name)) (\<lambda>provider.
     hbind next_service_sequence (\<lambda>sequence.
     hbind (tick (\<lambda>t. millis_u64 (he_now_ms env t))) (\<lambda>sent_at_ms.
     hbind (tick (he_uuid env)) (\<lambda>i.
       let key = \<lparr>vk_session = session, vk_branch = branch, vk_submission = submission,
                  vk_kind = VkSvcRequest agent_name (Mcp provider) (tc_name tc) sequence\<rparr>;
           req = \<lparr>rq2_id = i, rq2_dag_id = dag_node_id_root, rq2_dag_parent = chain_head,
                  rq2_tool_call_id = tc_id tc, rq2_state = last_state,
                  rq2_diagnostics = \<lparr>srd_server = provider, srd_tool = tc_name tc,
                    srd_arguments_bytes = of_nat (he_arguments_len env (tc_arguments tc)),
                    srd_sent_at_ms = sent_at_ms\<rparr>,
                  rq2_payload = he_encode_tool_call env (tc_name tc) (tc_arguments tc)\<rparr>;
           result = \<lambda>content. \<lparr>tr_tool_call_id = tc_id tc, tr_content = content\<rparr>
       in hbind (on_queue (mq_send_svc_request (he_queue env) key req)) (\<lambda>sent.
            case sent of
              Inl e \<Rightarrow> hret (result (''svc_request send error: '' @ queue_error_display e), chain_head)
            | Inr svc_req_dag_id \<Rightarrow>
                hbind (others env) (\<lambda>_.
                hbind (on_queue (mq_receive_svc_response (he_queue env) key)) (\<lambda>received.
                  case received of
                    Inl e \<Rightarrow> hret (result (''svc_response receive error: '' @ queue_error_display e), svc_req_dag_id)
                  | Inr (_, resp, ack) \<Rightarrow>
                      hbind (on_queue ack) (\<lambda>_. hret (result (rs2_payload resp), rs2_dag_id resp)))))))))"

record run_args =
  ra_agent_id :: resource_id
  ra_input :: string
  ra_session :: session_id
  ra_branch :: branch_id
  ra_sealed :: bool
  ra_initial_state :: "string option"
  ra_dag_parent :: dag_node_id

definition json_str_field :: "json \<Rightarrow> string \<Rightarrow> string" where
  "json_str_field j k = unwrap_or [] (Option.bind (json_get j k) json_as_str)"

text \<open>\<open>delegate\<close> is \<open>run_agent\<close> with the quiet control.\<close>

definition dispatch_one_tool_call ::
    "('q, 'r, 's) h_env \<Rightarrow> (run_args \<Rightarrow> ('q, 'r, run_result) hm) \<Rightarrow> tool_call \<Rightarrow> turn_context \<Rightarrow> dag_node_id \<Rightarrow>
     ('q, 'r, tool_result \<times> dag_node_id) hm" where
  "dispatch_one_tool_call env delegate tc cx chain_head =
     (if tc_name tc = ''delegate_agent''
      then (let agent_name = json_str_field (tc_arguments tc) ''agent'';
                input = json_str_field (tc_arguments tc) ''input''
            in hbind (get_registry (ro_get_agent_by_name (he_registry env) agent_name)) (\<lambda>agent.
                 let aid = (case agent of None \<Rightarrow> ''agent://'' @ agent_name | Some a \<Rightarrow> ag_id a)
                 in hbind (hcatch (delegate
                        \<lparr>ra_agent_id = aid, ra_input = input, ra_session = cx_session cx,
                         ra_branch = cx_branch cx, ra_sealed = cx_sealed cx, ra_initial_state = None,
                         ra_dag_parent = chain_head\<rparr>)) (\<lambda>res. hret
                        (\<lparr>tr_tool_call_id = tc_id tc,
                          tr_content = (case res of Inl e \<Rightarrow> e | Inr r \<Rightarrow> unwrap_or [] (rr_content r))\<rparr>,
                         chain_head))))
      else dispatch_service_call env tc (cx_session cx) (cx_branch cx) (cx_submission cx) (cx_agent_name cx)
             (cx_state cx) chain_head)"

definition approval_gate :: "('q, 'r, 's) h_env \<Rightarrow> run_ctl \<Rightarrow> tool_call \<Rightarrow> ('q, 'r, unit) hm" where
  "approval_gate env ctl tc =
     (if requires_approval ctl
      then hbind (emit ctl (ToolCallApprovalRequired tc)) (\<lambda>_.
           hbind (tick (\<lambda>t. if rc_events ctl then he_decide env t else None)) (\<lambda>decision.
             case decision of
               Some Approve \<Rightarrow> hret ()
             | Some (Reject reason) \<Rightarrow> hfail (''tool call rejected: '' @ reason)
             | None \<Rightarrow> hfail ''approval channel closed''))
      else hret ())"

definition process_tool_call ::
    "('q, 'r, 's) h_env \<Rightarrow> (run_args \<Rightarrow> ('q, 'r, run_result) hm) \<Rightarrow> run_ctl \<Rightarrow> turn_context \<Rightarrow> tool_call \<Rightarrow>
     dag_node_id \<Rightarrow> ('q, 'r, tool_trace \<times> dag_node_id) hm" where
  "process_tool_call env delegate ctl cx tc chain_head =
     hbind (approval_gate env ctl tc) (\<lambda>_.
     hbind (emit ctl (ToolCallStarted tc)) (\<lambda>_.
     hbind (dispatch_one_tool_call env delegate tc cx chain_head) (\<lambda>(result, chain_head').
     hbind (tick (\<lambda>t. millis_u64_max (he_elapsed_ms env t))) (\<lambda>duration_ms.
       let trace = \<lparr>tt_tool_call = tc, tt_result = result, tt_duration_ms = duration_ms\<rparr>
       in hbind (emit ctl (ToolCallCompleted trace)) (\<lambda>_. hret (trace, chain_head'))))))"

fun process_tool_calls ::
    "('q, 'r, 's) h_env \<Rightarrow> (run_args \<Rightarrow> ('q, 'r, run_result) hm) \<Rightarrow> run_ctl \<Rightarrow> turn_context \<Rightarrow> tool_call list \<Rightarrow>
     dag_node_id \<Rightarrow> ('q, 'r, tool_trace list \<times> dag_node_id) hm" where
  "process_tool_calls env delegate ctl cx [] chain_head = hret ([], chain_head)"
| "process_tool_calls env delegate ctl cx (tc # tcs) chain_head =
     hbind (process_tool_call env delegate ctl cx tc chain_head) (\<lambda>(trace, chain_head').
     hbind (process_tool_calls env delegate ctl cx tcs chain_head') (\<lambda>(traces, chain_head'').
       hret (trace # traces, chain_head'')))"

section \<open>Turns\<close>

definition prepare_next_turn_state ::
    "message list \<Rightarrow> message list \<Rightarrow> complete_message \<Rightarrow> message list \<times> message list \<times> string option \<times> dag_node_id" where
  "prepare_next_turn_state sent_history sent_current_input complete =
     (sent_history @ sent_current_input @ [Agent (cm_content complete) (cm_tool_calls complete)],
      [], cm_state complete, cm_dag_id complete)"

definition process_turn_tool_calls ::
    "('q, 'r, 's) h_env \<Rightarrow> (run_args \<Rightarrow> ('q, 'r, run_result) hm) \<Rightarrow> tool_call list \<Rightarrow> turn_context \<Rightarrow> run_ctl \<Rightarrow>
     string option \<Rightarrow> 32 word \<Rightarrow> message list \<Rightarrow> message list \<Rightarrow> complete_message \<Rightarrow> dag_node_id \<Rightarrow>
     ('q, 'r, (turn_trace \<times> message list \<times> message list \<times> string option) \<times> dag_node_id) hm" where
  "process_turn_tool_calls env delegate tcs cx ctl assistant_content turn_index sent_history sent_current_input
     complete chain_head =
     hbind (process_tool_calls env delegate ctl cx tcs chain_head) (\<lambda>(traces, chain_head').
       let turn = \<lparr>tn_assistant_content = assistant_content, tn_tool_calls = traces\<rparr>
       in hbind (emit ctl (TurnCompleted turn_index turn)) (\<lambda>_.
            case prepare_next_turn_state sent_history sent_current_input complete of
              (next_history, next_current_input, next_state, _) \<Rightarrow>
                hret ((turn, next_history, next_current_input, next_state), chain_head')))"

definition build_completion ::
    "('q, 'r, 's) h_env \<Rightarrow> complete_message \<Rightarrow> turn_trace list \<Rightarrow> string \<Rightarrow> run_ctl \<Rightarrow> ('q, 'r, run_result) hm" where
  "build_completion env complete turns job ctl =
     (let result = unwrap_or (he_utf8_lossy env (cm_payload complete)) (cm_content complete);
          run_result = \<lparr>rr_content = Some result, rr_pending_tool_calls = None, rr_turns = turns,
                        rr_state_snapshot = cm_state complete\<rparr>
      in hbind (set_job_status env job (JsCompleted result)) (\<lambda>_.
         hbind (emit ctl (RunCompleted run_result)) (\<lambda>_. hret run_result)))"

text \<open>
  The loop shared by \<open>run_agent\<close> and \<open>run_agent_with_messages\<close>: its five \<open>let mut\<close>s are a record, and
  \<open>build\<close> is the call that makes the next message.  The fuel bounds the number of turns.
\<close>

record loop_state =
  lp_history :: "message list"
  lp_current_input :: "message list"
  lp_state :: "string option"
  lp_dag_parent :: dag_node_id
  lp_turn_index :: "32 word"
  lp_turns :: "turn_trace list"

primrec run_turns ::
    "('q, 'r, 's) h_env \<Rightarrow> (run_args \<Rightarrow> ('q, 'r, run_result) hm) \<Rightarrow>
     (loop_state \<Rightarrow> ('q, 'r, data_routing_key \<times> invoke_message \<times> string) hm) \<Rightarrow> run_ctl \<Rightarrow> resource_id \<Rightarrow>
     session_id \<Rightarrow> branch_id \<Rightarrow> bool \<Rightarrow> nat \<Rightarrow> loop_state \<Rightarrow> ('q, 'r, run_result) hm" where
  "run_turns env delegate build ctl aid session branch sealed 0 lp = (\<lambda>_. None)"
| "run_turns env delegate build ctl aid session branch sealed (Suc n) lp =
     hbind (emit ctl (TurnStarted (lp_turn_index lp))) (\<lambda>_.
     hbind (build lp) (\<lambda>(key, msg, job).
     hbind (send_and_await_complete env key msg job aid) (\<lambda>(_, complete).
     hbind (case cm_content complete of
              None \<Rightarrow> hret ()
            | Some text \<Rightarrow> emit ctl (AssistantContent (lp_turn_index lp) text)) (\<lambda>_.
       case cm_tool_calls complete of
         None \<Rightarrow> build_completion env complete (lp_turns lp) job ctl
       | Some tcs \<Rightarrow>
           hbind (process_turn_tool_calls env delegate tcs
                    \<lparr>cx_session = session, cx_branch = branch, cx_sealed = sealed,
                     cx_submission = dk_submission key, cx_agent_name = agent_routing_key aid,
                     cx_state = lp_state lp\<rparr>
                    ctl (cm_content complete) (lp_turn_index lp) (lp_history lp) (iv_current_input msg) complete
                    (cm_dag_id complete))
             (\<lambda>((turn, history, current_input, state), chain_head).
                run_turns env delegate build ctl aid session branch sealed n
                  \<lparr>lp_history = history, lp_current_input = current_input, lp_state = state,
                   lp_dag_parent = chain_head, lp_turn_index = lp_turn_index lp + 1,
                   lp_turns = lp_turns lp @ [turn]\<rparr>)))))"

definition build_for_run ::
    "('q, 'r, 's) h_env \<Rightarrow> submission_id \<Rightarrow> run_args \<Rightarrow> loop_state \<Rightarrow>
     ('q, 'r, data_routing_key \<times> invoke_message \<times> string) hm" where
  "build_for_run env submission a lp =
     build_next_message env submission (ra_agent_id a) (ra_input a) (ra_session a) (ra_branch a) (ra_sealed a)
       (lp_state lp) (lp_dag_parent lp) (lp_history lp) (lp_current_input lp)"

text \<open>
  \<open>run_agent\<close> with fuel \<open>n\<close>: at most \<open>n - 1\<close> turns here, and delegated runs have one unit less.
\<close>

primrec run_agent ::
    "('q, 'r, 's) h_env \<Rightarrow> nat \<Rightarrow> run_ctl \<Rightarrow> run_args \<Rightarrow> ('q, 'r, run_result) hm" where
  "run_agent env 0 ctl a = (\<lambda>_. None)"
| "run_agent env (Suc n) ctl a =
     hbind (emit ctl (RunStarted (ra_agent_id a) (ra_session a) (ra_branch a))) (\<lambda>_.
     hbind (tick (he_uuid env)) (\<lambda>submission.
       run_turns env (run_agent env n ctl_quiet) (build_for_run env submission a) ctl (ra_agent_id a)
         (ra_session a) (ra_branch a) (ra_sealed a) n
         \<lparr>lp_history = [], lp_current_input = [], lp_state = ra_initial_state a,
          lp_dag_parent = ra_dag_parent a, lp_turn_index = 0, lp_turns = []\<rparr>))"

section \<open>Sessions\<close>

definition tip_state :: "'s dag_store \<Rightarrow> 's \<Rightarrow> dag_node \<Rightarrow> string" where
  "tip_state ops st node =
     (if dn_msg_type node = MtInvoke
      then unwrap_or [] (Option.bind (Option.bind (result_ok (ds_get_invoke_node ops (dn_id node) st)) id)
             (\<lambda>(_, m). iv_state m))
      else if dn_msg_type node = MtComplete
      then unwrap_or [] (Option.bind (Option.bind (result_ok (ds_get_complete_node ops (dn_id node) st)) id)
             (\<lambda>(_, m). cm_state m))
      else [])"

definition resolve_session_context ::
    "('q, 'r, 's) h_env \<Rightarrow> session_id \<Rightarrow> 's \<Rightarrow> (string, branch_id \<times> dag_node_id \<times> string option) rust_result" where
  "resolve_session_context env session_id st =
     (case ds_get_session (he_store env) session_id st of
        Inl e \<Rightarrow> Inl (''failed to resolve session: '' @ e)
      | Inr None \<Rightarrow> Inl (''session not found: '' @ session_id)
      | Inr (Some session) \<Rightarrow>
          (let branch_id = se_default_branch session
           in case ds_get_branch (he_store env) branch_id st of
                Inl e \<Rightarrow> Inl (''failed to resolve branch: '' @ e)
              | Inr None \<Rightarrow> Inl (''branch not found: '' @ show_int branch_id)
              | Inr (Some branch) \<Rightarrow>
                  if br_broken_at branch \<noteq> None then Inl sealed_error
                  else let tip = result_or None (ds_latest_node_on_branch (he_store env) branch_id None st);
                           parent = (case tip of
                                       Some n \<Rightarrow> dn_id n
                                     | None \<Rightarrow> unwrap_or dag_node_id_root (br_fork_point branch));
                           initial = (case tip of
                                        None \<Rightarrow> None
                                      | Some n \<Rightarrow> (let state = tip_state (he_store env) st n
                                                  in if state = [] then None else Some state))
                       in Inr (branch_id, parent, initial)))"

definition run_agent_with_messages ::
    "('q, 'r, 's) h_env \<Rightarrow> nat \<Rightarrow> run_ctl \<Rightarrow> resource_id \<Rightarrow> message list \<Rightarrow> session_id \<Rightarrow> ('q, 'r, run_result) hm" where
  "run_agent_with_messages env n ctl aid messages session_id =
     hbind (\<lambda>s. hlift (resolve_session_context env session_id (he_store_of env (hs_queue s))) s)
       (\<lambda>(branch_id, dag_parent, initial_state).
     hbind (emit ctl (RunStarted aid session_id branch_id)) (\<lambda>_.
     hbind (tick (he_uuid env)) (\<lambda>submission.
       let last_idx = length messages - 1
       in run_turns env (run_agent env n ctl_quiet)
            (\<lambda>lp. build_reinvoke env submission aid session_id branch_id (lp_dag_parent lp) (lp_state lp)
                     (lp_current_input lp))
            ctl aid session_id branch_id False n
            \<lparr>lp_history = take last_idx messages, lp_current_input = drop last_idx messages,
             lp_state = initial_state, lp_dag_parent = dag_parent, lp_turn_index = 0, lp_turns = []\<rparr>)))"

definition start_session ::
    "('q, 'r, 's) h_env \<Rightarrow> string \<Rightarrow> external_session_id \<Rightarrow> ('q, 'r, session_id \<times> branch_id) hm" where
  "start_session env agent_name external_id =
     hbind (tick (he_uuid env)) (\<lambda>session.
     hbind (tick (he_uuid env)) (\<lambda>submission.
     hbind (tick (he_uuid env)) (\<lambda>i.
     hbind (on_queue (mq_send_session_start (he_queue env)
              \<lparr>sk_session = session, sk_submission = submission, sk_kind = SkStart agent_name\<rparr>
              \<lparr>ss_id = i\<rparr> external_id)) (\<lambda>sent.
       hret (session, result_or 1 sent)))))"

definition fork_timeline ::
    "('q, 'r, 's) h_env \<Rightarrow> agent_name \<Rightarrow> string \<Rightarrow> dag_node_id \<Rightarrow> session_id \<Rightarrow> ('q, 'r, unit) hm" where
  "fork_timeline env agent_name branch_name fork_point session =
     hbind (tick (he_uuid env)) (\<lambda>submission.
     hbind (tick (he_uuid env)) (\<lambda>i.
     hbind (on_queue (mq_send_fork (he_queue env)
              \<lparr>sk_session = session, sk_submission = submission, sk_kind = SkFork agent_name\<rparr>
              \<lparr>fk_id = i, fk_branch_name = branch_name, fk_fork_point = fork_point\<rparr>)) (\<lambda>sent.
       hlift (map_sum queue_failure id sent))))"

definition promote_timeline ::
    "('q, 'r, 's) h_env \<Rightarrow> agent_name \<Rightarrow> session_id \<Rightarrow> branch_id \<Rightarrow> ('q, 'r, unit) hm" where
  "promote_timeline env agent_name session branch =
     hbind (tick (he_uuid env)) (\<lambda>submission.
     hbind (tick (he_uuid env)) (\<lambda>i.
     hbind (on_queue (mq_send_promote (he_queue env)
              \<lparr>sk_session = session, sk_submission = submission, sk_kind = SkPromote agent_name\<rparr>
              \<lparr>pm_id = i, pm_branch_id = branch\<rparr>)) (\<lambda>sent.
       hlift (map_sum queue_failure id sent))))"

end
