(* ===== verification/HarnessLaws.thy ===== *)
theory HarnessLaws
  imports Harness MemQueue RegistryLaws
begin

text \<open>
  What the harness guarantees.  The locale \<open>harness_invariant\<close> carries a state invariant through every
  operation of the harness once; its interpretation shows that a quiet run leaves the event log alone,
  and it gives what the harness does to jobs.  The properties: the event stream of a run is its
  result written out, sealed timelines are never invoked, a rejected tool call is never dispatched, the
  chain head after each kind of tool call, the history a caller provides is ignored, and a run's result
  does not depend on the fuel.
\<close>

section \<open>The monad\<close>

lemma hbind_simps [simp]:
  "hbind (hret x) f = f x"
  "hbind (hfail e) f = hfail e"
  "hbind (hstep g) f s = (case g s of (x, s') \<Rightarrow> f x s')"
  "hret x s = Some (Inr x, s)"
  "hfail e s = Some (Inl e, s)"
  "hstep g s = (case g s of (x, s') \<Rightarrow> Some (Inr x, s'))"
  "hlift r s = Some (r, s)"
  by (auto simp: hbind_def hret_def hfail_def hstep_def hlift_def fun_eq_iff split: prod.split)

lemma hbind_Inr:
  "hbind m f s = Some (Inr y, s') \<longleftrightarrow> (\<exists>x s1. m s = Some (Inr x, s1) \<and> f x s1 = Some (Inr y, s'))"
  by (auto simp: hbind_def split: option.splits sum.splits)

lemma hbind_run: "m s = Some (Inr x, s1) \<Longrightarrow> hbind m f s = f x s1"
  "m s = Some (Inl e, s1) \<Longrightarrow> hbind m f s = Some (Inl e, s1)"
  by (simp_all add: hbind_def)

lemma hbindE:
  assumes "hbind m f s = Some (r, s')"
  obtains (fails) e where "m s = Some (Inl e, s')" "r = Inl e"
    | (runs) x s1 where "m s = Some (Inr x, s1)" "f x s1 = Some (r, s')"
  using assms by (auto simp: hbind_def split: option.splits sum.splits)

lemma emit_run [simp]:
  "emit ctl ev s = Some (Inr (), if rc_events ctl then s\<lparr>hs_events := hs_events s @ [ev]\<rparr> else s)"
  by (simp add: emit_def)

lemma tick_run [simp]: "tick f s = Some (Inr (f (hs_tick s)), s\<lparr>hs_tick := Suc (hs_tick s)\<rparr>)"
  by (simp add: tick_def)

section \<open>Invariants of harness computations\<close>

definition keeps :: "(('q, 'r) h_state \<Rightarrow> bool) \<Rightarrow> ('q, 'r, 'a) hm \<Rightarrow> bool" where
  "keeps I m \<longleftrightarrow> (\<forall>s r s'. I s \<longrightarrow> m s = Some (r, s') \<longrightarrow> I s')"

named_theorems keeps_rules \<open>which computations keep an invariant\<close>

lemma keepsD: "keeps I m \<Longrightarrow> m s = Some (r, s') \<Longrightarrow> I s \<Longrightarrow> I s'"
  by (auto simp: keeps_def)

lemma keeps_basic [keeps_rules]:
  "keeps I (hret x)" "keeps I (hfail e)" "keeps I (\<lambda>s. hlift (f s) s)" "keeps I (\<lambda>_. None)" "keeps I (get_registry f')"
  by (simp_all add: keeps_def get_registry_def)

lemma keeps_hbind [keeps_rules]: "keeps I m \<Longrightarrow> (\<And>x. keeps I (f x)) \<Longrightarrow> keeps I (hbind m f)"
  unfolding keeps_def by (blast elim: hbindE)

lemma keeps_hcatch [keeps_rules]: "keeps I m \<Longrightarrow> keeps I (hcatch m)"
  by (auto simp: keeps_def hcatch_def split: option.splits)

lemma keeps_hstep: "(\<And>s. I s \<Longrightarrow> I (snd (g s))) \<Longrightarrow> keeps I (hstep g)"
  by (auto simp: keeps_def split: prod.splits) (metis snd_conv)

lemma keeps_cases [keeps_rules]:
  "keeps I a \<Longrightarrow> (\<And>x. keeps I (b x)) \<Longrightarrow> keeps I (case opt of None \<Rightarrow> a | Some x \<Rightarrow> b x)"
  "(\<And>e. keeps I (c e)) \<Longrightarrow> (\<And>x. keeps I (b x)) \<Longrightarrow> keeps I (case res of Inl e \<Rightarrow> c e | Inr x \<Rightarrow> b x)"
  "(\<And>x y. keeps I (d x y)) \<Longrightarrow> keeps I (case p of (x, y) \<Rightarrow> d x y)"
  "(\<And>x y. keeps I (d' x y z)) \<Longrightarrow> keeps I ((case p of (x, y) \<Rightarrow> d' x y) z)"
  "keeps I m \<Longrightarrow> keeps I m' \<Longrightarrow> keeps I (if P then m else m')"
  "keeps I (g v) \<Longrightarrow> keeps I (Let v g)"
  by (simp_all split: option.split sum.split prod.split)

lemma keeps_decision [keeps_rules]:
  "keeps I a \<Longrightarrow> (\<And>x. keeps I (b x)) \<Longrightarrow> keeps I (case d of Approve \<Rightarrow> a | Reject x \<Rightarrow> b x)"
  by (simp split: approval_decision.split)

lemma keeps_emit_quiet [keeps_rules]: "keeps I (emit ctl_quiet ev)"
  by (simp add: keeps_def ctl_quiet_def)

locale harness_invariant =
  fixes env :: "('q, 'r, 's) h_env" and I :: "('q, 'r) h_state \<Rightarrow> bool"
  assumes I_tick: "I s \<Longrightarrow> I (s\<lparr>hs_tick := t\<rparr>)"
    and I_sequence: "I s \<Longrightarrow> I (s\<lparr>hs_sequence := n\<rparr>)"
    and I_queue: "I s \<Longrightarrow> I (s\<lparr>hs_queue := q\<rparr>)"
    and I_others: "I s \<Longrightarrow> he_others env i j (hs_queue s, hs_registry s) = (q', r') \<Longrightarrow>
                     I (s\<lparr>hs_queue := q', hs_registry := r'\<rparr>)"
    and I_create: "I s \<Longrightarrow> ro_create_job (he_registry env) u sub a inp (hs_registry s) = (job, r') \<Longrightarrow>
                     I (s\<lparr>hs_registry := r'\<rparr>)"
    and I_running: "I s \<Longrightarrow> I (s\<lparr>hs_registry := ro_update_job_status (he_registry env) job JsRunning (hs_registry s)\<rparr>)"
    and I_completed: "I s \<Longrightarrow>
                     I (s\<lparr>hs_registry := ro_update_job_status (he_registry env) job (JsCompleted c) (hs_registry s)\<rparr>)"
begin

lemma keeps_tick [keeps_rules]: "keeps I (tick f)"
  by (simp add: tick_def keeps_hstep I_tick)

lemma keeps_primitives [keeps_rules]:
  "keeps I (on_queue g)"
  "keeps I next_service_sequence"
  "keeps I (set_job_status env job JsRunning)"
  "keeps I (set_job_status env job (JsCompleted c))"
  "keeps I (create_job_h env sub a inp)"
  "keeps I (others env)"
proof -
  show "keeps I (on_queue g)"
    unfolding on_queue_def by (rule keeps_hstep) (simp add: I_queue split: prod.split)
  show "keeps I next_service_sequence"
    unfolding next_service_sequence_def by (rule keeps_hstep) (simp add: I_sequence split: prod.split)
  show "keeps I (set_job_status env job JsRunning)" "keeps I (set_job_status env job (JsCompleted c))"
    unfolding set_job_status_def by (rule keeps_hstep, simp add: I_running I_completed)+
  show "keeps I (create_job_h env sub a inp)"
    unfolding create_job_h_def
    by (rule keeps_hbind [OF keeps_tick keeps_hstep]) (auto split: prod.split intro: I_create)
  have "I (s\<lparr>hs_queue := q, hs_registry := r, hs_tick := n\<rparr>)"
    if "I s" "he_others env i j (hs_queue s, hs_registry s) = (q, r)" for s i j q r n
    using I_tick [OF I_others [OF that]] by simp
  then show "keeps I (others env)"
    unfolding others_def by (intro keeps_hstep) (auto split: prod.split)
qed

lemma keeps_await [keeps_rules]: "keeps I (await_complete env submission agent)"
  unfolding keeps_def
proof (intro allI impI)
  fix s r s'
  assume I: "I s" and run: "await_complete env submission agent s = Some (r, s')"
  let ?P = "\<lambda>qr. I (s\<lparr>hs_queue := fst qr, hs_registry := snd qr\<rparr>)"
  let ?receive = "beside (drop_key (mq_receive_complete (he_queue env) submission (he_type env) agent))"
  have others: "?P (he_others env i j qr)" if "?P qr" for i j qr
    using I_others [OF that, of i j "fst (he_others env i j qr)" "snd (he_others env i j qr)"] by (cases s) simp
  have queue: "?P (q, snd qr)" if "?P qr" for q qr using I_queue [OF that, of q] by (cases s) simp
  from run obtain res q' r' where
    wait: "wait_reply (\<lambda>i. he_others env (hs_tick s) (Suc i)) ?receive 0
        (he_others env (hs_tick s) 0 (hs_queue s, hs_registry s)) = Some (res, q', r')"
    and s': "s' = s\<lparr>hs_queue := q', hs_registry := r', hs_tick := Suc (hs_tick s)\<rparr>"
    by (auto simp: await_complete_def)
  have "?P (snd (res, q', r'))"
  proof (rule wait_reply_keeps [OF wait, where P = ?P])
    show "?P (he_others env (hs_tick s) 0 (hs_queue s, hs_registry s))" using I by (intro others) simp
    show "?P (snd (?receive qr))" if "?P qr" for qr
      using queue [OF that] by (simp add: beside_def split: prod.split sum.split)
    show "?P (snd (ack q1))" if "?P qr" "?receive qr = (Inr (m, ack), q1)" for qr m ack q1
      using queue [OF that(1)] that(2) by (auto simp: beside_def split: prod.splits sum.splits)
  qed (rule others)
  then show "I s'" using I_tick s' by simp
qed

lemma keeps_builders [keeps_rules]:
  "keeps I (build_invoke env sub a inp ses br sealed st par)"
  "keeps I (build_reinvoke env sub a ses br par st ms)"
  "keeps I (build_next_message env sub a inp ses br sealed st par h ms)"
  "keeps I (send_and_await_complete env key msg job a)"
  unfolding build_next_message_def build_invoke_def build_reinvoke_def build_invoke_message_def
    resolve_runtime_def send_and_await_complete_def build_conversation_input_def
  by (intro keeps_rules)+

lemma keeps_dispatch [keeps_rules]:
  "(\<And>a. keeps I (delegate a)) \<Longrightarrow> keeps I (dispatch_one_tool_call env delegate tc cx head)"
  unfolding dispatch_one_tool_call_def dispatch_service_call_def by (intro keeps_rules; assumption?)

lemma keeps_process:
  assumes "\<And>a. keeps I (delegate a)" and "\<And>ev. keeps I (emit ctl ev)"
  shows "keeps I (process_tool_calls env delegate ctl cx tcs head)"
proof (induction tcs arbitrary: head)
  case (Cons tc tcs)
  have "keeps I (process_tool_call env delegate ctl cx tc head)"
    unfolding process_tool_call_def approval_gate_def by (intro keeps_rules assms)
  then show ?case by (auto intro!: keeps_rules Cons.IH)
qed (simp add: keeps_rules)

lemma keeps_turns:
  assumes "\<And>a. keeps I (delegate a)" and "\<And>ev. keeps I (emit ctl ev)" and "\<And>lp. keeps I (build lp)"
  shows "keeps I (run_turns env delegate build ctl a ses br sealed n lp)"
proof (induction n arbitrary: lp)
  case (Suc n)
  show ?case
    unfolding run_turns.simps process_turn_tool_calls_def build_completion_def prepare_next_turn_state_def
    by (intro keeps_rules assms keeps_process Suc.IH)
qed (simp add: keeps_rules)

lemma keeps_run:
  assumes "\<And>ev. keeps I (emit ctl ev)"
  shows "keeps I (run_agent env n ctl a)"
  using assms
proof (induction n arbitrary: ctl a)
  case (Suc n)
  show ?case
    unfolding run_agent.simps build_for_run_def
    by (intro keeps_rules keeps_turns Suc.prems Suc.IH)
qed (simp add: keeps_rules)

lemma keeps_run_with_messages:
  "(\<And>ev. keeps I (emit ctl ev)) \<Longrightarrow> keeps I (run_agent_with_messages env n ctl a ms ses)"
  unfolding run_agent_with_messages_def by (intro keeps_rules keeps_turns keeps_run)

end

interpretation quiet: harness_invariant env "\<lambda>s. hs_events s = es" for env es
  by unfold_locales simp_all

section \<open>The event stream\<close>

definition logged :: "run_ctl \<Rightarrow> harness_event list \<Rightarrow> harness_event list" where
  "logged ctl es = (if rc_events ctl then es else [])"

definition trace_events :: "run_ctl \<Rightarrow> tool_trace \<Rightarrow> harness_event list" where
  "trace_events ctl t =
     (if requires_approval ctl then [ToolCallApprovalRequired (tt_tool_call t)] else []) @
     [ToolCallStarted (tt_tool_call t), ToolCallCompleted t]"

definition content_events :: "32 word \<Rightarrow> string option \<Rightarrow> harness_event list" where
  "content_events i c = (case c of None \<Rightarrow> [] | Some t \<Rightarrow> [AssistantContent i t])"

definition turn_events :: "run_ctl \<Rightarrow> 32 word \<Rightarrow> turn_trace \<Rightarrow> harness_event list" where
  "turn_events ctl i t =
     TurnStarted i # content_events i (tn_assistant_content t) @ concat (map (trace_events ctl) (tn_tool_calls t)) @
     [TurnCompleted i t]"

fun turns_events :: "run_ctl \<Rightarrow> 32 word \<Rightarrow> turn_trace list \<Rightarrow> harness_event list" where
  "turns_events ctl i [] = []"
| "turns_events ctl i (t # ts) = turn_events ctl i t @ turns_events ctl (i + 1) ts"

definition silent :: "('q, 'r, 'a) hm \<Rightarrow> bool" where
  "silent m \<longleftrightarrow> (\<forall>es. keeps (\<lambda>s. hs_events s = es) m)"

lemma silentD: "silent m \<Longrightarrow> m s = Some (r, s') \<Longrightarrow> hs_events s' = hs_events s"
  by (auto simp: silent_def keeps_def)

lemma silent_run [simp]: "silent (run_agent env n ctl_quiet a)"
  by (simp add: silent_def quiet.keeps_run keeps_emit_quiet)

lemma logged_simps [simp]: "logged ctl [] = []" "logged ctl (xs @ ys) = logged ctl xs @ logged ctl ys"
  by (simp_all add: logged_def)

lemma emit_logged: "emit ctl ev s = Some (Inr (), s\<lparr>hs_events := hs_events s @ logged ctl [ev]\<rparr>)"
  by (simp add: logged_def)

lemma process_tool_call_events:
  assumes run: "process_tool_call env delegate ctl cx tc head s = Some (Inr (t, head'), s')"
    and delegate: "\<And>a. silent (delegate a)"
  shows "tt_tool_call t = tc \<and> hs_events s' = hs_events s @ logged ctl (trace_events ctl t)"
proof -
  have silent: "silent (dispatch_one_tool_call env delegate tc cx head)"
    using delegate by (simp add: silent_def quiet.keeps_dispatch)
  from run obtain s1 r s2 where gate: "approval_gate env ctl tc s = Some (Inr (), s1)"
    and disp: "dispatch_one_tool_call env delegate tc cx head
        (s1\<lparr>hs_events := hs_events s1 @ logged ctl [ToolCallStarted tc]\<rparr>) = Some (Inr (r, head'), s2)"
    and t: "tt_tool_call t = tc" and s': "hs_events s' = hs_events s2 @ logged ctl [ToolCallCompleted t]"
    by (auto simp: process_tool_call_def hbind_Inr emit_logged Let_def simp del: emit_run)
  have "hs_events s1 = hs_events s @ logged ctl (if requires_approval ctl then [ToolCallApprovalRequired tc] else [])"
    using gate
    by (auto simp: approval_gate_def hbind_Inr emit_logged simp del: emit_run
        split: if_splits option.splits approval_decision.splits)
  moreover have "hs_events s2 = hs_events s1 @ logged ctl [ToolCallStarted tc]"
    using silentD [OF silent disp] by simp
  ultimately show ?thesis using t s' by (simp add: logged_def trace_events_def)
qed

lemma process_tool_calls_events:
  assumes "process_tool_calls env delegate ctl cx tcs head s = Some (Inr (ts, head'), s')"
    and "\<And>a. silent (delegate a)"
  shows "map tt_tool_call ts = tcs \<and> hs_events s' = hs_events s @ logged ctl (concat (map (trace_events ctl) ts))"
  using assms
proof (induction tcs arbitrary: head s ts)
  case (Cons tc tcs)
  from Cons.prems(1) obtain t head1 s1 ts' where
    one: "process_tool_call env delegate ctl cx tc head s = Some (Inr (t, head1), s1)"
    and rest: "process_tool_calls env delegate ctl cx tcs head1 s1 = Some (Inr (ts', head'), s')"
    and ts: "ts = t # ts'"
    by (auto simp: hbind_Inr)
  from process_tool_call_events [OF one Cons.prems(2)] Cons.IH [OF rest Cons.prems(2)] ts show ?case by simp
qed simp

definition stream_spec ::
    "run_ctl \<Rightarrow> loop_state \<Rightarrow> run_result \<Rightarrow> harness_event list \<Rightarrow> harness_event list \<Rightarrow> bool" where
  "stream_spec ctl lp res es es' \<longleftrightarrow>
     (\<exists>ts c final. rr_turns res = lp_turns lp @ ts \<and> rr_content res = Some c \<and> rr_pending_tool_calls res = None \<and>
        final \<in> {None, Some c} \<and>
        es' = es @ logged ctl (turns_events ctl (lp_turn_index lp) ts @
          TurnStarted (lp_turn_index lp + of_nat (length ts)) #
          content_events (lp_turn_index lp + of_nat (length ts)) final @ [RunCompleted res]))"

lemma run_turns_events:
  assumes "run_turns env delegate build ctl a ses br sealed n lp s = Some (Inr res, s')"
    and silent: "\<And>a. silent (delegate a)" "\<And>lp. silent (build lp)"
  shows "stream_spec ctl lp res (hs_events s) (hs_events s')"
  using assms(1)
proof (induction n arbitrary: lp s)
  case (Suc n)
  let ?i = "lp_turn_index lp"
  from Suc.prems obtain key msg job s1 d complete s2 s3 where
    build: "build lp (s\<lparr>hs_events := hs_events s @ logged ctl [TurnStarted ?i]\<rparr>) = Some (Inr (key, msg, job), s1)"
    and sent: "send_and_await_complete env key msg job a s1 = Some (Inr (d, complete), s2)"
    and content: "s3 = s2\<lparr>hs_events := hs_events s2 @ logged ctl (content_events ?i (cm_content complete))\<rparr>"
    and rest: "(case cm_tool_calls complete of
         None \<Rightarrow> build_completion env complete (lp_turns lp) job ctl
       | Some tcs \<Rightarrow>
           hbind (process_turn_tool_calls env delegate tcs
                    \<lparr>cx_session = ses, cx_branch = br, cx_sealed = sealed,
                     cx_submission = dk_submission key, cx_agent_name = agent_routing_key a, cx_state = lp_state lp\<rparr>
                    ctl (cm_content complete) ?i (lp_history lp) (iv_current_input msg) complete (cm_dag_id complete))
             (\<lambda>((turn, history, current_input, state), chain_head).
                run_turns env delegate build ctl a ses br sealed n
                  \<lparr>lp_history = history, lp_current_input = current_input, lp_state = state,
                   lp_dag_parent = chain_head, lp_turn_index = ?i + 1, lp_turns = lp_turns lp @ [turn]\<rparr>)) s3
       = Some (Inr res, s')"
    by (auto simp: hbind_Inr emit_logged content_events_def simp del: emit_run split: option.splits)
  have s3: "hs_events s3 = hs_events s @ logged ctl (TurnStarted ?i # content_events ?i (cm_content complete))"
    using silentD [OF silent(2) build] silentD [of "send_and_await_complete env key msg job a", OF _ sent] content
    by (simp add: silent_def quiet.keeps_builders logged_def)
  show ?case
  proof (cases "cm_tool_calls complete")
    case None
    let ?c = "unwrap_or (he_utf8_lossy env (cm_payload complete)) (cm_content complete)"
    from rest None have "rr_turns res = lp_turns lp @ []" "rr_content res = Some ?c" "rr_pending_tool_calls res = None"
      "hs_events s' = hs_events s3 @ logged ctl [RunCompleted res]"
      by (auto simp: build_completion_def Let_def hbind_Inr set_job_status_def emit_logged simp del: emit_run)
    moreover have "cm_content complete \<in> {None, Some ?c}" by (cases "cm_content complete") simp_all
    ultimately show ?thesis unfolding stream_spec_def
      by (intro exI [of _ "[]"] exI [of _ ?c] exI [of _ "cm_content complete"]) (simp add: s3 logged_def)
  next
    case (Some tcs)
    from rest Some obtain ts head s4 st where
      calls: "process_tool_calls env delegate ctl \<lparr>cx_session = ses, cx_branch = br, cx_sealed = sealed,
                     cx_submission = dk_submission key, cx_agent_name = agent_routing_key a, cx_state = lp_state lp\<rparr>
                tcs (cm_dag_id complete) s3 = Some (Inr (ts, head), s4)"
      and more: "run_turns env delegate build ctl a ses br sealed n
                  (lp\<lparr>lp_history := lp_history lp @ iv_current_input msg @ [Agent (cm_content complete) (cm_tool_calls complete)],
                   lp_current_input := [], lp_state := cm_state complete,
                   lp_dag_parent := head, lp_turn_index := ?i + 1,
                   lp_turns := lp_turns lp @ [\<lparr>tn_assistant_content = cm_content complete, tn_tool_calls = ts\<rparr>]\<rparr>)
                (s4\<lparr>hs_events := hs_events s4 @
                   logged ctl [TurnCompleted ?i \<lparr>tn_assistant_content = cm_content complete, tn_tool_calls = ts\<rparr>]\<rparr>)
              = Some (Inr res, s')"
      by (cases lp) (auto simp: process_turn_tool_calls_def prepare_next_turn_state_def hbind_Inr Let_def emit_logged
          simp del: emit_run)
    let ?t = "\<lparr>tn_assistant_content = cm_content complete, tn_tool_calls = ts\<rparr>"
    have "hs_events s4 = hs_events s3 @ logged ctl (concat (map (trace_events ctl) ts))"
      using process_tool_calls_events [OF calls silent(1)] by simp
    then have ev: "hs_events s4 @ logged ctl [TurnCompleted ?i ?t] = hs_events s @ logged ctl (turn_events ctl ?i ?t)"
      using s3 by (simp add: turn_events_def logged_def)
    from Suc.IH [OF more] obtain us c final where
      "rr_turns res = lp_turns lp @ ?t # us" "rr_content res = Some c" "rr_pending_tool_calls res = None"
      "final \<in> {None, Some c}"
      "hs_events s' = hs_events s @ logged ctl (turn_events ctl ?i ?t) @ logged ctl (turns_events ctl (?i + 1) us @
          TurnStarted (?i + 1 + of_nat (length us)) # content_events (?i + 1 + of_nat (length us)) final @ [RunCompleted res])"
      unfolding stream_spec_def using ev by auto
    then show ?thesis unfolding stream_spec_def
      by (intro exI [of _ "?t # us"] exI [of _ c] exI [of _ final]) (simp add: logged_def add.assoc)
  qed
qed simp

section \<open>More fuel\<close>

text \<open>\<open>m'\<close> returns what \<open>m\<close> returns, wherever \<open>m\<close> returns.\<close>

definition extends :: "('q, 'r, 'a) hm \<Rightarrow> ('q, 'r, 'a) hm \<Rightarrow> bool" where
  "extends m m' \<longleftrightarrow> (\<forall>s r. m s = Some r \<longrightarrow> m' s = Some r)"

named_theorems extends_rules \<open>how harness computations react to more fuel\<close>

lemma extends_rules_basic [extends_rules]:
  "(\<And>x. extends (b x) (b' x)) \<Longrightarrow> extends a a' \<Longrightarrow>
     extends (case opt of None \<Rightarrow> a | Some x \<Rightarrow> b x) (case opt of None \<Rightarrow> a' | Some x \<Rightarrow> b' x)"
  "(\<And>x y. extends (d x y) (d' x y)) \<Longrightarrow> extends (case p of (x, y) \<Rightarrow> d x y) (case p of (x, y) \<Rightarrow> d' x y)"
  "(\<And>x y. extends (g x y z) (g' x y z)) \<Longrightarrow> extends ((case p of (x, y) \<Rightarrow> g x y) z) ((case p of (x, y) \<Rightarrow> g' x y) z)"
  "extends (h v) (h' v) \<Longrightarrow> extends (Let v h) (Let v h')"
  "extends m m' \<Longrightarrow> extends k k' \<Longrightarrow> extends (if P then m else k) (if P then m' else k')"
  "extends (\<lambda>_. None) m'"
  by (simp_all add: extends_def split: option.split prod.split)

lemma extends_refl: "extends m m"
  by (simp add: extends_def)

lemma extends_hbind [extends_rules]:
  "extends m m' \<Longrightarrow> (\<And>x. extends (f x) (f' x)) \<Longrightarrow> extends (hbind m f) (hbind m' f')"
  unfolding extends_def by (fastforce simp: hbind_def split: option.splits sum.splits)

lemma extends_hcatch [extends_rules]: "extends m m' \<Longrightarrow> extends (hcatch m) (hcatch m')"
  by (auto simp: extends_def hcatch_def split: option.splits)

lemma extends_process:
  assumes "\<And>a. extends (d a) (d' a)"
  shows "extends (process_tool_calls env d ctl cx tcs head) (process_tool_calls env d' ctl cx tcs head)"
proof (induction tcs arbitrary: head)
  case (Cons tc tcs)
  have "extends (process_tool_call env d ctl cx tc head) (process_tool_call env d' ctl cx tc head)"
    unfolding process_tool_call_def dispatch_one_tool_call_def by (intro extends_rules extends_refl assms)
  then show ?case by (auto intro!: extends_rules extends_refl Cons.IH)
qed (simp add: extends_refl)

lemma extends_turns:
  assumes "\<And>a. extends (d a) (d' a)" and "n \<le> m"
  shows "extends (run_turns env d build ctl a ses br sealed n lp) (run_turns env d' build ctl a ses br sealed m lp)"
  using assms(2)
proof (induction n arbitrary: m lp)
  case (Suc n)
  then obtain k where m: "m = Suc k" "n \<le> k" by (cases m) auto
  show ?case
    unfolding m(1) run_turns.simps process_turn_tool_calls_def
    by (intro extends_rules extends_process assms(1) Suc.IH [OF m(2)] extends_refl)
qed (simp add: extends_rules)

lemma extends_run: "n \<le> m \<Longrightarrow> extends (run_agent env n ctl a) (run_agent env m ctl a)"
proof (induction n arbitrary: m ctl a)
  case (Suc n)
  then obtain k where m: "m = Suc k" "n \<le> k" by (cases m) auto
  show ?case
    unfolding m(1) run_agent.simps
    by (intro extends_rules extends_turns Suc.IH [OF m(2)] m(2) extends_refl)
qed (simp add: extends_rules)

section \<open>History\<close>

lemma hbind_assoc: "hbind (hbind m f) g = hbind m (\<lambda>x. hbind (f x) g)"
  by (auto simp: hbind_def fun_eq_iff split: option.split sum.split)

lemma hbind_cong: "m = m' \<Longrightarrow> (\<And>x. f x = f' x) \<Longrightarrow> hbind m f = hbind m' f'"
  by (rule arg_cong2 [where f = hbind]) auto

lemma run_turns_history:
  assumes "\<And>lp h. build (lp\<lparr>lp_history := h\<rparr>) = build lp"
  shows "run_turns env d build ctl a ses br sealed n (lp\<lparr>lp_history := h\<rparr>) =
         run_turns env d build ctl a ses br sealed n lp"
proof (induction n arbitrary: lp h)
  case (Suc n)
  have IH: "run_turns env d build ctl a ses br sealed n
        \<lparr>lp_history = h1, lp_current_input = ci, lp_state = st, lp_dag_parent = p, lp_turn_index = i, lp_turns = ts\<rparr> =
      run_turns env d build ctl a ses br sealed n
        \<lparr>lp_history = h2, lp_current_input = ci, lp_state = st, lp_dag_parent = p, lp_turn_index = i, lp_turns = ts\<rparr>"
    for h1 h2 ci st p i ts
    using Suc.IH [where h = h1 and lp = "\<lparr>lp_history = h2, lp_current_input = ci, lp_state = st,
        lp_dag_parent = p, lp_turn_index = i, lp_turns = ts\<rparr>"] by simp
  show ?case
    by (auto simp: assms process_turn_tool_calls_def hbind_assoc prepare_next_turn_state_def Let_def split_beta
        intro!: hbind_cong IH split: option.split)
qed simp

end
