(* ===== verification/HarnessRun.thy ===== *)
theory HarnessRun
  imports HarnessLaws MemQueue RegistryLaws
begin

text \<open>
  What a caller of the harness can rely on, over the laws of \<open>HarnessLaws\<close>, with a concrete run (a
  scripted agent that asks for one tool call and then answers) that the witnesses use.
\<close>

section \<open>A concrete run\<close>

definition example_tool_call :: tool_call where
  "example_tool_call = \<lparr>tc_id = ''c1'', tc_name = ''search'', tc_arguments = JObject []\<rparr>"

text \<open>The scripted queue counts the completions it has handed out.\<close>

definition example_scripted :: "nat mq_ops" where
  "example_scripted =
     \<lparr>mq_on_cluster_start = mq_default_ok, mq_on_agent_deployed = (\<lambda>_. mq_default_ok),
      mq_on_agent_deleted = (\<lambda>_. mq_default_ok),
      mq_send_invoke = (\<lambda>_ _ n. (Inr ''invoke'', n)),
      mq_receive_invoke = (\<lambda>_. mq_default_receive),
      mq_send_complete = (\<lambda>_ _. mq_default_send ''send_complete''),
      mq_receive_complete = (\<lambda>_ _ _ n. (Inr (example_data_key (DkComplete ''todo'' HCli),
         example_complete\<lparr>cm_dag_id := ''complete'', cm_content := (if n = 0 then None else Some ''42''),
           cm_tool_calls := (if n = 0 then Some [example_tool_call] else None)\<rparr>, noop_ack), Suc n)),
      mq_send_request = (\<lambda>_ _. mq_default_send ''send_request''),
      mq_receive_request = (\<lambda>_ _. mq_default_receive),
      mq_send_response = (\<lambda>_ _. mq_default_send ''send_response''),
      mq_receive_response = (\<lambda>_ _ _ _ _. mq_default_receive),
      mq_send_fork = (\<lambda>_ _. mq_default_ok), mq_receive_fork = mq_default_receive,
      mq_send_promote = (\<lambda>_ _. mq_default_ok), mq_receive_promote = mq_default_receive,
      mq_send_session_start = (\<lambda>_ _ _ n. (Inr 1, n)),
      mq_send_deploy_agent = (\<lambda>_ _. mq_default_ok), mq_receive_deploy_agent = mq_default_receive,
      mq_send_delete_agent = (\<lambda>_ _. mq_default_ok), mq_receive_delete_agent = mq_default_receive,
      mq_receive_any = mq_default_receive,
      mq_send_svc_request = (\<lambda>_ _ n. (Inr ''request'', n)),
      mq_receive_svc_request_mcp = mq_default_receive,
      mq_send_svc_response = (\<lambda>_ _. mq_default_send ''send_svc_response''),
      mq_receive_svc_response = (\<lambda>k n. (Inr (k, example_response_v2\<lparr>rs2_dag_id := ''response''\<rparr>, noop_ack), n))\<rparr>"

definition example_env :: "(nat, registry_state, mem_store) h_env" where
  "example_env =
     \<lparr>he_type = HCli, he_queue = example_scripted, he_registry = mem_registry_ops,
      he_store = mem_dag_store, he_store_of = (\<lambda>_. mem_store_new), he_version = ''0.1'',
      he_encode_tool_call = (\<lambda>n _. n), he_arguments_len = (\<lambda>_. 2), he_utf8_lossy = (\<lambda>b. b),
      he_uuid = (\<lambda>n. replicate n CHR ''u''), he_now_ms = int, he_elapsed_ms = (\<lambda>_. 5),
      he_decide = (\<lambda>_. Some Approve), he_others = (\<lambda>_ _ w. w)\<rparr>"

definition example_registry :: registry_state where
  "example_registry = fst (snd (register_agent example_identity example_agent (example_runtime_state, ())))"

definition example_h_state :: "(nat, registry_state) h_state" where
  "example_h_state =
     \<lparr>hs_queue = 0, hs_registry = example_registry, hs_sequence = sequence_counter_new, hs_tick = 0,
      hs_events = []\<rparr>"

definition example_args :: run_args where
  "example_args =
     \<lparr>ra_agent_id = ''http://127.0.0.1:9000/agents/todo'', ra_input = ''hi'', ra_session = ''s'', ra_branch = 1,
      ra_sealed = False, ra_initial_state = None, ra_dag_parent = dag_node_id_root\<rparr>"

text \<open>Evaluation from the outside in: the continuation of a bind waits for its argument.\<close>

lemma hbind_lazy: "hbind m f = hbind m f" ..

lemma hbind_eval:
  "hbind m f s = (case m s of None \<Rightarrow> None | Some (r, s') \<Rightarrow> (case r of Inl e \<Rightarrow> Some (Inl e, s') | Inr x \<Rightarrow> f x s'))"
  by (auto simp: hbind_def split: option.split sum.split)

lemma await_lazy: "s = s' \<Longrightarrow> await_complete env sub a s = await_complete env sub a s'"
  by simp

lemma await_ready:
  assumes "he_others env (hs_tick s) 0 (hs_queue s, hs_registry s) = (q, r)"
    and "mq_receive_complete (he_queue env) submission (he_type env) agent q = (Inr (k, msg, ack), q')"
  shows "await_complete env submission agent s =
     Some (Inr msg, s\<lparr>hs_queue := snd (ack q'), hs_registry := r, hs_tick := Suc (hs_tick s)\<rparr>)"
  using assms
  by (simp add: await_complete_def beside_def drop_key_def wait_reply_done split: prod.split)

lemmas harness_eval = hbind_eval build_for_run_def build_next_message_def build_invoke_def build_reinvoke_def
  build_invoke_message_def resolve_runtime_def send_and_await_complete_def build_conversation_input_def
  dispatch_one_tool_call_def dispatch_service_call_def process_tool_call_def approval_gate_def
  process_turn_tool_calls_def prepare_next_turn_state_def build_completion_def get_registry_def
  next_service_sequence_def sequence_counter_next_def sequence_next_def on_queue_def set_job_status_def
  create_job_h_def others_def Let_def service_provider_def 
  requires_approval_def ctl_streaming_with_approval_def

lemmas harness_lazy = hbind_lazy await_lazy option.case_cong_weak sum.case_cong_weak prod.case_cong_weak if_weak_cong

definition example_deployed :: agent where
  "example_deployed =
     example_agent\<lparr>ag_public_key := Some ''todo'', ag_id := agent_id_internal example_registry ''todo''\<rparr>"

lemma example_registry_facts:
  "rg_id example_registry = ''http://127.0.0.1:9000''"
  "rg_jobs example_registry = []"
  "get_agent ''http://127.0.0.1:9000/agents/todo'' (example_registry\<lparr>rg_jobs := js\<rparr>) = Some example_deployed"
  "get_agent ''http://127.0.0.1:9000/agents/todo'' example_registry = Some example_deployed"
  "get_agent_by_name ''todo'' (example_registry\<lparr>rg_jobs := js\<rparr>) = Some example_deployed"
  "select_runtime example_deployed (example_registry\<lparr>rg_jobs := js\<rparr>) = Some RtContainer"
  "select_runtime example_deployed example_registry = Some RtContainer"
  "agent_id_internal example_registry ''todo'' = ''http://127.0.0.1:9000/agents/todo''"
  "agent_routing_key ''http://127.0.0.1:9000/agents/todo'' = ''todo''"
  "req_mcp (ag_requirements example_deployed) = []"
  by code_simp+

lemmas example_run_eval = example_registry_facts example_env_def example_args_def example_h_state_def
  mem_registry_ops_def create_job_def update_job_status_def example_scripted_def
  example_response_v2_def example_complete_def example_tool_call_def noop_ack_def 
  ctl_quiet_def await_ready


definition example_result :: run_result where
  "example_result =
     \<lparr>rr_content = Some ''42'', rr_pending_tool_calls = None,
      rr_turns = [\<lparr>tn_assistant_content = None, tn_tool_calls =
        [\<lparr>tt_tool_call = example_tool_call, tt_result = \<lparr>tr_tool_call_id = ''c1'', tr_content = ''ok''\<rparr>,
          tt_duration_ms = millis_u64_max 5\<rparr>]\<rparr>],
      rr_state_snapshot = None\<rparr>"

lemma example_run_result:
  "\<exists>s'. run_agent example_env (Suc (Suc (Suc 0))) ctl_streaming_with_approval example_args example_h_state =
        Some (Inr example_result, s') \<and> map jb_status (map snd (rg_jobs (hs_registry s'))) = [JsRunning, JsCompleted ''42'']"
  by (simp add: harness_eval example_run_eval example_result_def cong: harness_lazy)

section \<open>Properties\<close>

lemma silent_builders:
  "silent (build_for_run env sub a lp)" "silent (build_reinvoke env sub aid ses br par st ms)"
  by (simp_all add: silent_def build_for_run_def quiet.keeps_builders)

text \<open>
  C3: the event stream of a run that succeeds is the run's result written out, whatever the agent, the
  tools and the other tasks do: the start, then for every turn of the result its start, the assistant's
  text, for every tool call the approval request (only when approval is required), the start and the
  completed trace, and the completed turn with indices counting from 0; then the last turn and the
  completed run.  The result always has a content and never pending tool calls.  A control without a
  sender logs nothing.
\<close>

theorem run_event_stream:
  assumes "run_agent env n ctl a s = Some (Inr res, s')"
  shows "\<exists>c final. rr_content res = Some c \<and> rr_pending_tool_calls res = None \<and> final \<in> {None, Some c} \<and>
           hs_events s' = hs_events s @ logged ctl
             (RunStarted (ra_agent_id a) (ra_session a) (ra_branch a) # turns_events ctl 0 (rr_turns res) @
              TurnStarted (of_nat (length (rr_turns res))) #
              content_events (of_nat (length (rr_turns res))) final @ [RunCompleted res])"
proof (cases n)
  case 0
  with assms show ?thesis by simp
next
  case (Suc k)
  let ?lp = "\<lparr>lp_history = [], lp_current_input = [], lp_state = ra_initial_state a,
      lp_dag_parent = ra_dag_parent a, lp_turn_index = 0, lp_turns = []\<rparr>"
  let ?start = "RunStarted (ra_agent_id a) (ra_session a) (ra_branch a)"
  from assms Suc obtain sub where
    "run_turns env (run_agent env k ctl_quiet) (build_for_run env sub a) ctl (ra_agent_id a) (ra_session a)
       (ra_branch a) (ra_sealed a) k ?lp
       (s\<lparr>hs_events := hs_events s @ logged ctl [?start], hs_tick := Suc (hs_tick s)\<rparr>) = Some (Inr res, s')"
    by (auto simp: hbind_Inr emit_logged simp del: emit_run)
  from run_turns_events [OF this silent_run silent_builders(1)] show ?thesis
    by (auto simp: stream_spec_def logged_def)
qed

theorem run_event_stream_witness:
  "\<exists>s'. run_agent example_env (Suc (Suc (Suc 0))) ctl_streaming_with_approval example_args example_h_state =
          Some (Inr example_result, s') \<and>
        RunCompleted example_result \<in> set (hs_events s') \<and>
        ToolCallApprovalRequired example_tool_call \<in> set (hs_events s')"
proof -
  obtain s' where run: "run_agent example_env (Suc (Suc (Suc 0))) ctl_streaming_with_approval example_args
      example_h_state = Some (Inr example_result, s')"
    using example_run_result by blast
  from run_event_stream [OF this] run show ?thesis
    by (auto simp: logged_def ctl_streaming_with_approval_def example_result_def turn_events_def trace_events_def
        requires_approval_def)
qed

text \<open>The flag \<open>run_agent\<close> is passed is obeyed before anything is sent.\<close>

lemma sealed_flag_refused:
  "ra_sealed a \<Longrightarrow>
     \<exists>s'. run_agent env (Suc (Suc n)) ctl a s = Some (Inl sealed_error, s') \<and>
          hs_queue s' = hs_queue s \<and> hs_registry s' = hs_registry s \<and> hs_sequence s' = hs_sequence s"
  by (auto simp: build_for_run_def build_next_message_def build_invoke_def hbind_def Let_def)

text \<open>
  A tool call that needs approval and does not get it is not dispatched, and neither is any later
  call of the turn: a rejection, or a decision channel that is closed, ends the run with its reason
  after the approval request, with queue and registry as they were.
\<close>

theorem unapproved_call_not_dispatched:
  assumes "requires_approval ctl" and "\<not> (rc_events ctl \<and> he_decide env (hs_tick s) = Some Approve)"
  shows "\<exists>why s'. process_tool_calls env delegate ctl cx (tc # tcs) head s = Some (Inl why, s') \<and>
           (why = ''approval channel closed'' \<or>
            (\<exists>r. he_decide env (hs_tick s) = Some (Reject r) \<and> why = ''tool call rejected: '' @ r)) \<and>
           hs_queue s' = hs_queue s \<and> hs_registry s' = hs_registry s \<and> hs_sequence s' = hs_sequence s \<and>
           hs_events s' = hs_events s @ logged ctl [ToolCallApprovalRequired tc]"
proof -
  have "\<exists>why s'. approval_gate env ctl tc s = Some (Inl why, s') \<and>
           (why = ''approval channel closed'' \<or>
            (\<exists>r. he_decide env (hs_tick s) = Some (Reject r) \<and> why = ''tool call rejected: '' @ r)) \<and>
           hs_queue s' = hs_queue s \<and> hs_registry s' = hs_registry s \<and> hs_sequence s' = hs_sequence s \<and>
           hs_events s' = hs_events s @ logged ctl [ToolCallApprovalRequired tc]"
    using assms
    by (cases "he_decide env (hs_tick s)")
      (auto simp: approval_gate_def hbind_def logged_def split: approval_decision.split)
  then show ?thesis by (auto simp: process_tool_call_def hbind_run(2))
qed

theorem unapproved_call_not_dispatched_witness:
  "\<exists>s'. process_tool_calls (example_env\<lparr>he_decide := \<lambda>_. Some (Reject ''no'')\<rparr>) (\<lambda>_ _. None)
          ctl_streaming_with_approval
          \<lparr>cx_session = ''s'', cx_branch = 1, cx_sealed = False, cx_submission = ''sub'', cx_agent_name = ''todo'',
           cx_state = None\<rparr>
          [example_tool_call, example_tool_call] ''head'' example_h_state =
        Some (Inl ''tool call rejected: no'', s')"
proof -
  let ?env = "example_env\<lparr>he_decide := \<lambda>_. Some (Reject ''no'')\<rparr>"
  have req: "requires_approval ctl_streaming_with_approval"
    "\<not> (rc_events ctl_streaming_with_approval \<and> he_decide ?env (hs_tick example_h_state) = Some Approve)"
    by (simp_all add: requires_approval_def ctl_streaming_with_approval_def)
  have open_channel: "why = ''tool call rejected: no''"
    if "process_tool_calls ?env d ctl_streaming_with_approval cx (tc # tcs) h example_h_state = Some (Inl why, s')"
    for why s' d cx tc tcs h
    using that by (simp add: process_tool_call_def approval_gate_def hbind_def requires_approval_def
        ctl_streaming_with_approval_def)
  from unapproved_call_not_dispatched [OF req] obtain why s' where
    "process_tool_calls ?env (\<lambda>_ _. None) ctl_streaming_with_approval
       \<lparr>cx_session = ''s'', cx_branch = 1, cx_sealed = False, cx_submission = ''sub'', cx_agent_name = ''todo'',
        cx_state = None\<rparr> [example_tool_call, example_tool_call] ''head'' example_h_state = Some (Inl why, s')"
    by blast
  with open_channel [OF this] show ?thesis by auto
qed

text \<open>
  C38: where a tool call leaves the head of the chain.  A service call is sent below the current head
  with the context's state; a send error leaves the head, a receive error leaves it at the request, a
  response moves it to the response, whose payload is the result.  A \<open>delegate_agent\<close> call leaves the
  head where it was, however far the delegated run took the branch.
\<close>

theorem tool_call_chain_head:
  "if tc_name tc = ''delegate_agent''
   then (\<forall>r head' s'. dispatch_one_tool_call env delegate tc cx head s = Some (Inr (r, head'), s') \<longrightarrow> head' = head)
   else (\<exists>key req. vk_session key = cx_session cx \<and> vk_branch key = cx_branch cx \<and>
           vk_submission key = cx_submission cx \<and> rq2_dag_parent req = head \<and> rq2_state req = cx_state cx \<and>
           rq2_tool_call_id req = tc_id tc \<and>
           (\<exists>r head' s'. dispatch_one_tool_call env delegate tc cx head s = Some (Inr (r, head'), s') \<and>
              tr_tool_call_id r = tc_id tc \<and>
              (case mq_send_svc_request (he_queue env) key req (hs_queue s) of
                 (Inl e, q) \<Rightarrow> head' = head \<and> hs_queue s' = q \<and>
                   tr_content r = ''svc_request send error: '' @ queue_error_display e
               | (Inr d, q) \<Rightarrow>
                   (case mq_receive_svc_response (he_queue env) key
                          (fst (he_others env (Suc (Suc (hs_tick s))) 0 (q, hs_registry s))) of
                      (Inl e, q2) \<Rightarrow> head' = d \<and> hs_queue s' = q2 \<and>
                        tr_content r = ''svc_response receive error: '' @ queue_error_display e
                    | (Inr (_, resp, ack), q2) \<Rightarrow> head' = rs2_dag_id resp \<and> hs_queue s' = snd (ack q2) \<and>
                        tr_content r = rs2_payload resp))))"
proof (cases "tc_name tc = ''delegate_agent''")
  case True
  then show ?thesis
    by (auto simp: dispatch_one_tool_call_def hbind_Inr Let_def)
next
  case False
  let ?provider = "service_provider env (cx_agent_name cx) (hs_registry s)"
  let ?key = "\<lparr>vk_session = cx_session cx, vk_branch = cx_branch cx, vk_submission = cx_submission cx,
      vk_kind = VkSvcRequest (cx_agent_name cx) (Mcp ?provider) (tc_name tc) (hs_sequence s)\<rparr>"
  let ?req = "\<lparr>rq2_id = he_uuid env (Suc (hs_tick s)), rq2_dag_id = dag_node_id_root, rq2_dag_parent = head,
      rq2_tool_call_id = tc_id tc, rq2_state = cx_state cx,
      rq2_diagnostics = \<lparr>srd_server = ?provider, srd_tool = tc_name tc,
        srd_arguments_bytes = of_nat (he_arguments_len env (tc_arguments tc)),
        srd_sent_at_ms = millis_u64 (he_now_ms env (hs_tick s))\<rparr>,
      rq2_payload = he_encode_tool_call env (tc_name tc) (tc_arguments tc)\<rparr>"
  show ?thesis
    using False
    by (auto simp: dispatch_one_tool_call_def dispatch_service_call_def hbind_def get_registry_def
        next_service_sequence_def sequence_counter_next_def on_queue_def others_def Let_def
        split: prod.split sum.split intro!: exI [of _ ?key] exI [of _ ?req])
qed

definition example_delegate_call :: tool_call where
  "example_delegate_call =
     \<lparr>tc_id = ''c'', tc_name = ''delegate_agent'', tc_arguments = JObject [(''agent'', JString ''helper'')]\<rparr>"

definition example_context :: turn_context where
  "example_context =
     \<lparr>cx_session = ''s'', cx_branch = 1, cx_sealed = False, cx_submission = ''sub'', cx_agent_name = ''todo'',
      cx_state = None\<rparr>"

theorem tool_call_chain_head_witness:
  "\<exists>r s'. dispatch_one_tool_call example_env (\<lambda>_. hret example_result) example_delegate_call example_context
            ''head'' example_h_state = Some (Inr (r, ''head''), s')"
proof -
  have "\<exists>x s'. dispatch_one_tool_call example_env (\<lambda>_. hret example_result) example_delegate_call example_context
      ''head'' example_h_state = Some (Inr x, s')"
    by (simp add: dispatch_one_tool_call_def example_delegate_call_def hbind_eval get_registry_def hcatch_def Let_def)
  moreover have "tc_name example_delegate_call = ''delegate_agent''" by (simp add: example_delegate_call_def)
  ultimately show ?thesis
    using tool_call_chain_head [of example_delegate_call example_env "\<lambda>_. hret example_result" example_context "''head''"
        example_h_state] by auto
qed

text \<open>
  Of the history a caller of \<open>run_agent_with_messages\<close> provides only the last message reaches the
  agent: two histories that end in the same message give the same run, event for event and message for
  message.
\<close>

theorem provided_history_ignored:
  "run_agent_with_messages env n ctl aid (ms @ [m]) sid s = run_agent_with_messages env n ctl aid (ms' @ [m]) sid s"
proof -
  have same: "run_turns env d (\<lambda>lp. build_reinvoke env sub aid sid br (lp_dag_parent lp) (lp_state lp) (lp_current_input lp))
        ctl aid sid br False n \<lparr>lp_history = h, lp_current_input = ci, lp_state = st, lp_dag_parent = p,
          lp_turn_index = i, lp_turns = ts\<rparr> =
      run_turns env d (\<lambda>lp. build_reinvoke env sub aid sid br (lp_dag_parent lp) (lp_state lp) (lp_current_input lp))
        ctl aid sid br False n \<lparr>lp_history = h', lp_current_input = ci, lp_state = st, lp_dag_parent = p,
          lp_turn_index = i, lp_turns = ts\<rparr>" for d sub br h h' ci st p i ts
    using run_turns_history [where h = h and lp = "\<lparr>lp_history = h', lp_current_input = ci, lp_state = st,
        lp_dag_parent = p, lp_turn_index = i, lp_turns = ts\<rparr>" and env = env and d = d and ctl = ctl and a = aid
        and ses = sid and br = br and sealed = False and n = n
        and build = "\<lambda>lp. build_reinvoke env sub aid sid br (lp_dag_parent lp) (lp_state lp) (lp_current_input lp)"]
    by simp
  have "run_agent_with_messages env n ctl aid (ms @ [m]) sid = run_agent_with_messages env n ctl aid (ms' @ [m]) sid"
    unfolding run_agent_with_messages_def
    by (intro hbind_cong refl) (auto simp: Let_def intro!: hbind_cong same)
  then show ?thesis by simp
qed

text \<open>
  The fuel is only a bound: a run that returns with some fuel returns the same result, events and
  state with any larger fuel.
\<close>

theorem run_fuel_irrelevant:
  assumes "run_agent env n ctl a s = Some r" and "n \<le> m"
  shows "run_agent env m ctl a s = Some r"
  using extends_run [OF assms(2), of env ctl a] assms(1) unfolding extends_def by blast

theorem run_fuel_irrelevant_witness:
  "\<exists>s'. run_agent example_env 100 ctl_streaming_with_approval example_args example_h_state =
          Some (Inr example_result, s')"
proof -
  obtain s' where "run_agent example_env (Suc (Suc (Suc 0))) ctl_streaming_with_approval example_args
      example_h_state = Some (Inr example_result, s')"
    using example_run_result by blast
  from run_fuel_irrelevant [OF this, of 100] show ?thesis by simp
qed

definition no_failed_job :: "registry_state \<Rightarrow> bool" where
  "no_failed_job r = list_all (\<lambda>j. case jb_status j of JsFailed _ \<Rightarrow> False | _ \<Rightarrow> True) (map snd (rg_jobs r))"

lemma update_values: "snd ` set (AList.update i j al) \<subseteq> insert j (snd ` set al)"
  by (induction al) auto

lemma no_failed_update:
  assumes "no_failed_job r" and "case jb_status j of JsFailed _ \<Rightarrow> False | _ \<Rightarrow> True"
  shows "no_failed_job (r\<lparr>rg_jobs := AList.update i j (rg_jobs r)\<rparr>)"
proof -
  let ?P = "\<lambda>j. case jb_status j of JsFailed _ \<Rightarrow> False | _ \<Rightarrow> True"
  have "\<forall>x \<in> snd ` set (rg_jobs r). ?P x" using assms(1) by (simp add: no_failed_job_def list_all_iff)
  then have "\<forall>x \<in> snd ` set (AList.update i j (rg_jobs r)). ?P x"
    using assms(2) update_values [of i j "rg_jobs r"] by blast
  then show ?thesis by (simp add: no_failed_job_def list_all_iff)
qed

lemma no_failed_create: "no_failed_job r \<Longrightarrow> create_job u sub a inp r = (job, r') \<Longrightarrow> no_failed_job r'"
  by (auto simp: create_job_def Let_def intro!: no_failed_update)

lemma no_failed_status:
  "no_failed_job r \<Longrightarrow> no_failed_job (update_job_status i JsRunning r)"
  "no_failed_job r \<Longrightarrow> no_failed_job (update_job_status i (JsCompleted c) r)"
  by (auto simp: update_job_status_def intro!: no_failed_update split: option.split)

text \<open>
  The harness never marks a job failed: over any run on the in-memory registry, successful or not,
  no job becomes \<open>Failed\<close>, as long as nobody else marks one.  A job whose run ends in an error keeps
  the status \<open>Pending\<close> or \<open>Running\<close>.
\<close>

theorem jobs_never_failed:
  assumes "he_registry env = mem_registry_ops"
    and "\<forall>i j q r. no_failed_job r \<longrightarrow> no_failed_job (snd (he_others env i j (q, r)))"
    and "no_failed_job (hs_registry s)" and "run_agent env n ctl a s = Some (res, s')"
  shows "no_failed_job (hs_registry s')"
proof -
  let ?I = "\<lambda>s. no_failed_job (hs_registry s)"
  have others: "no_failed_job r'" if "no_failed_job r" "he_others env i j (q, r) = (q', r')" for i j q r q' r'
    using assms(2) that by (metis snd_conv)
  have "harness_invariant env ?I"
    by unfold_locales
      (simp_all add: no_failed_status assms(1) mem_registry_ops_def, (blast intro: others no_failed_create)+)
  moreover have "keeps ?I (emit ctl ev)" for ev
    by (simp add: keeps_def)
  ultimately have "keeps ?I (run_agent env n ctl a)"
    by (rule harness_invariant.keeps_run)
  from keepsD [OF this assms(4, 3)] show ?thesis .
qed

theorem jobs_never_failed_witness:
  "\<exists>s'. run_agent example_env (Suc (Suc (Suc 0))) ctl_streaming_with_approval example_args example_h_state =
          Some (Inr example_result, s') \<and> no_failed_job (hs_registry s') \<and>
        map jb_status (map snd (rg_jobs (hs_registry s'))) = [JsRunning, JsCompleted ''42'']"
proof -
  obtain s' where run: "run_agent example_env (Suc (Suc (Suc 0))) ctl_streaming_with_approval example_args
      example_h_state = Some (Inr example_result, s')"
    and jobs: "map jb_status (map snd (rg_jobs (hs_registry s'))) = [JsRunning, JsCompleted ''42'']"
    using example_run_result by (elim exE conjE)
  have "no_failed_job (hs_registry s')"
  proof (rule jobs_never_failed [OF _ _ _ run])
    show "he_registry example_env = mem_registry_ops" by (simp add: example_env_def)
    show "\<forall>i j q r. no_failed_job r \<longrightarrow> no_failed_job (snd (he_others example_env i j (q, r)))"
      unfolding example_env_def by simp
    show "no_failed_job (hs_registry example_h_state)"
      by (simp add: example_h_state_def no_failed_job_def example_registry_facts(2))
  qed
  with run jobs show ?thesis by (intro exI conjI)
qed

end
