(* ===== verification/KvStore.thy ===== *)
theory KvStore
  imports Effects Queue "HOL-Library.AList" "HOL-Library.Char_ord" "HOL-Library.List_Lexorder"
begin

text \<open>
  The storage of the key-value provider: versioned agent state
  (\<open>crates/vlinder-sqlite-kv/src/state_store.rs\<close>), a content-addressed store of values, snapshots and
  state commits, and the unversioned object storage (\<open>storage.rs\<close>).  A table read by primary key is a
  map; the \<open>files\<close> table is the list of its rows, whose time stamps are never read.  Parameters, in
  \<open>kv_env\<close>: SHA-256 as a hex digest, serde's JSON for a snapshot, the faults of the database, and the
  order in which a query without \<open>ORDER BY\<close> returns its rows; and for the worker the registry's answers, the
  temporary directory, and serde on the request and response bodies.
\<close>

section \<open>Versioned state: tables and hashes\<close>

record state_commit =
  sc_hash :: string
  sc_snapshot_hash :: string
  sc_parent_hash :: string

record state_db =
  sd_values :: "string \<rightharpoonup> string"
  sd_snapshots :: "string \<rightharpoonup> string"
  sd_commits :: "string \<rightharpoonup> string \<times> string"

type_synonym entries = "(string \<times> string) list"

type_synonym file_rows = "(string \<times> string) list"

record kv_env =
  kv_sha :: "string \<Rightarrow> string"
  kv_entries_json :: "entries \<Rightarrow> string"
  kv_entries_parse :: "string \<Rightarrow> (string, entries) rust_result"
  kv_fault :: "nat \<Rightarrow> string option"
  kv_scan :: "string list \<Rightarrow> string list"
  kv_agents :: "string \<Rightarrow> agent option"
  kv_temp_dir :: string
  kv_service :: service_backend
  kv_parse_get :: "bytes \<Rightarrow> (string, string) rust_result"
  kv_parse_put :: "bytes \<Rightarrow> (string, string \<times> string) rust_result"
  kv_parse_list :: "bytes \<Rightarrow> (string, string) rust_result"
  kv_parse_delete :: "bytes \<Rightarrow> (string, string) rust_result"
  kv_state_json :: "string \<Rightarrow> bytes"
  kv_strings_json :: "string list \<Rightarrow> bytes"

definition hash_value :: "kv_env \<Rightarrow> string \<Rightarrow> string" where
  "hash_value env content = kv_sha env content"

text \<open>A \<open>HashMap\<close> of entries is an association list with distinct keys.\<close>

definition sorted_entries_json :: "kv_env \<Rightarrow> entries \<Rightarrow> string" where
  "sorted_entries_json env entries = kv_entries_json env (sort_key fst entries)"

definition hash_snapshot :: "kv_env \<Rightarrow> entries \<Rightarrow> string" where
  "hash_snapshot env entries = hash_value env (sorted_entries_json env entries)"

definition hash_state_commit :: "kv_env \<Rightarrow> string \<Rightarrow> string \<Rightarrow> string" where
  "hash_state_commit env snapshot_hash parent_hash = hash_value env (snapshot_hash @ '':'' @ parent_hash)"

section \<open>Paths\<close>

text \<open>
  The two functions of \<open>std::path\<close> the worker uses, on Unix: \<open>parent\<close>, which ignores empty and dot
  components at the end, and \<open>join\<close>.
\<close>

definition path_prefix :: "string \<Rightarrow> string \<times> string" where
  "path_prefix s =
     (if starts_with s ''/'' then (''/'', tl s)
      else if s = ''.'' \<or> starts_with s ''./'' then (''.'', tl s)
      else ([], s))"

definition skipped_component :: "string \<Rightarrow> bool" where
  "skipped_component c \<longleftrightarrow> c = [] \<or> c = ''.''"

definition path_parent :: "string \<Rightarrow> string option" where
  "path_parent s =
     (case path_prefix s of (pre, body) \<Rightarrow>
        (case dropWhile skipped_component (rev (split_on CHR ''/'' body)) of
           [] \<Rightarrow> if pre = ''.'' then Some [] else None
         | _ # rest \<Rightarrow> Some (pre @ join_with CHR ''/'' (rev (dropWhile skipped_component rest)))))"

definition path_join :: "string \<Rightarrow> string \<Rightarrow> string" where
  "path_join base p =
     (if starts_with p ''/'' then p
      else if base = [] \<or> last base = CHR ''/'' then base @ p
      else base @ ''/'' @ p)"

section \<open>The databases on disk\<close>

text \<open>
  Every database file by its path, and the connection caches of the worker, from a cache key to the
  path of the open database.
\<close>

record kv_data =
  kd_objects :: "string \<rightharpoonup> file_rows"
  kd_states :: "string \<rightharpoonup> state_db"
  kd_stores :: "string \<rightharpoonup> string"
  kd_state_stores :: "string \<rightharpoonup> string"

type_synonym 'a kv_eff = "(kv_data sql_world, 'a) eff"

definition state_db_empty :: state_db where
  "state_db_empty = \<lparr>sd_values = Map.empty, sd_snapshots = Map.empty, sd_commits = Map.empty\<rparr>"

definition state_of :: "string \<Rightarrow> kv_data \<Rightarrow> state_db" where
  "state_of conn d = unwrap_or state_db_empty (kd_states d conn)"

definition on_state :: "string \<Rightarrow> (state_db \<Rightarrow> state_db) \<Rightarrow> kv_data \<Rightarrow> kv_data" where
  "on_state conn f d = d\<lparr>kd_states := (kd_states d)(conn \<mapsto> f (state_of conn d))\<rparr>"

definition files_of :: "string \<Rightarrow> kv_data \<Rightarrow> file_rows" where
  "files_of conn d = unwrap_or [] (kd_objects d conn)"

definition on_files :: "string \<Rightarrow> (file_rows \<Rightarrow> file_rows) \<Rightarrow> kv_data \<Rightarrow> kv_data" where
  "on_files conn f d = d\<lparr>kd_objects := (kd_objects d)(conn \<mapsto> f (files_of conn d))\<rparr>"

definition create_parent :: "kv_env \<Rightarrow> string \<Rightarrow> string \<Rightarrow> unit kv_eff" where
  "create_parent env context path =
     (case path_parent path of
        Some _ \<Rightarrow> sql_exec (kv_fault env) context id
      | None \<Rightarrow> eret ())"

section \<open>Versioned state: operations\<close>

text \<open>\<open>conn\<close> is the path of the open database: the connection an operation runs on.\<close>

definition state_store_open :: "kv_env \<Rightarrow> string \<Rightarrow> string kv_eff" where
  "state_store_open env path =
     ebind (create_parent env ''failed to create state store directory: '' path) (\<lambda>_.
     ebind (sql_exec (kv_fault env) ''failed to open state store: '' id) (\<lambda>_.
     ebind (sql_exec (kv_fault env) ''failed to initialize state store: '' (on_state path id)) (\<lambda>_.
       eret path)))"

definition put_value :: "kv_env \<Rightarrow> string \<Rightarrow> string \<Rightarrow> string \<Rightarrow> unit kv_eff" where
  "put_value env conn h content =
     sql_exec (kv_fault env) ''put_value failed: ''
       (on_state conn (\<lambda>db. db\<lparr>sd_values := insert_or_ignore h content (sd_values db)\<rparr>))"

definition get_value :: "kv_env \<Rightarrow> string \<Rightarrow> string \<Rightarrow> string option kv_eff" where
  "get_value env conn h =
     ebind (sql_exec (kv_fault env) ''get_value prepare failed: '' id) (\<lambda>_.
       sql_query (kv_fault env) ''get_value query failed: '' (\<lambda>d. sd_values (state_of conn d) h))"

definition put_snapshot :: "kv_env \<Rightarrow> string \<Rightarrow> string \<Rightarrow> entries \<Rightarrow> unit kv_eff" where
  "put_snapshot env conn h entries =
     (let json = sorted_entries_json env entries
      in sql_exec (kv_fault env) ''put_snapshot failed: ''
           (on_state conn (\<lambda>db. db\<lparr>sd_snapshots := insert_or_ignore h json (sd_snapshots db)\<rparr>)))"

definition get_snapshot :: "kv_env \<Rightarrow> string \<Rightarrow> string \<Rightarrow> entries option kv_eff" where
  "get_snapshot env conn h =
     ebind (sql_exec (kv_fault env) ''get_snapshot prepare failed: '' id) (\<lambda>_.
     ebind (sql_query (kv_fault env) ''get_snapshot query failed: ''
              (\<lambda>d. sd_snapshots (state_of conn d) h)) (\<lambda>result.
       case result of
         Some json \<Rightarrow>
           (case kv_entries_parse env json of
              Inl e \<Rightarrow> efail (''get_snapshot parse failed: '' @ e)
            | Inr entries \<Rightarrow> eret (Some entries))
       | None \<Rightarrow> eret None))"

definition put_state_commit :: "kv_env \<Rightarrow> string \<Rightarrow> string \<Rightarrow> string \<Rightarrow> string \<Rightarrow> unit kv_eff" where
  "put_state_commit env conn h snapshot_hash parent_hash =
     sql_exec (kv_fault env) ''put_state_commit failed: ''
       (on_state conn (\<lambda>db.
          db\<lparr>sd_commits := insert_or_ignore h (snapshot_hash, parent_hash) (sd_commits db)\<rparr>))"

definition get_state_commit :: "kv_env \<Rightarrow> string \<Rightarrow> string \<Rightarrow> state_commit option kv_eff" where
  "get_state_commit env conn h =
     ebind (sql_exec (kv_fault env) ''get_state_commit prepare failed: '' id) (\<lambda>_.
       sql_query (kv_fault env) ''get_state_commit query failed: ''
         (\<lambda>d. map_option (\<lambda>(s, p). \<lparr>sc_hash = h, sc_snapshot_hash = s, sc_parent_hash = p\<rparr>)
                (sd_commits (state_of conn d) h)))"

section \<open>Object storage\<close>

definition list_pattern :: "string \<Rightarrow> string" where
  "list_pattern dir_path =
     (if dir_path = ''/'' \<or> dir_path = [] then ''/%''
      else rev (dropWhile (\<lambda>c. c = CHR ''/'') (rev dir_path)) @ ''/%'')"

text \<open>\<open>INSERT OR REPLACE\<close> deletes the row with the same key and adds the new one.\<close>

definition open_at :: "kv_env \<Rightarrow> string \<Rightarrow> string kv_eff" where
  "open_at env db_path =
     ebind (create_parent env ''failed to create storage directory: '' db_path) (\<lambda>_.
     ebind (sql_exec (kv_fault env) ''failed to open database: '' id) (\<lambda>_.
     ebind (sql_exec (kv_fault env) ''failed to set WAL mode: '' id) (\<lambda>_.
     ebind (sql_exec (kv_fault env) ''failed to create files table: '' (on_files db_path id)) (\<lambda>_.
       eret db_path))))"

definition put_file :: "kv_env \<Rightarrow> string \<Rightarrow> string \<Rightarrow> string \<Rightarrow> unit kv_eff" where
  "put_file env conn path content =
     sql_exec (kv_fault env) ''failed to write file: ''
       (on_files conn (\<lambda>rows. filter (\<lambda>r. fst r \<noteq> path) rows @ [(path, content)]))"

definition get_file :: "kv_env \<Rightarrow> string \<Rightarrow> string \<Rightarrow> string option kv_eff" where
  "get_file env conn path =
     ebind (sql_exec (kv_fault env) ''failed to prepare query: '' id) (\<lambda>_.
     ebind (sql_exec (kv_fault env) ''failed to query file: '' id) (\<lambda>_.
       sql_query (kv_fault env) ''failed to read row: '' (\<lambda>d. map_of (files_of conn d) path)))"

definition delete_file :: "kv_env \<Rightarrow> string \<Rightarrow> string \<Rightarrow> bool kv_eff" where
  "delete_file env conn path =
     sql (kv_fault env) ''failed to delete file: ''
       (\<lambda>d. (path \<in> fst ` set (files_of conn d), on_files conn (filter (\<lambda>r. fst r \<noteq> path)) d))"

definition list_files :: "kv_env \<Rightarrow> string \<Rightarrow> string \<Rightarrow> string list kv_eff" where
  "list_files env conn dir_path =
     ebind (sql_exec (kv_fault env) ''failed to prepare query: '' id) (\<lambda>_.
     ebind (sql_exec (kv_fault env) ''failed to list files: '' id) (\<lambda>_.
       sql_query (kv_fault env) ''failed to get path: ''
         (\<lambda>d. kv_scan env (filter (sql_like (list_pattern dir_path)) (map fst (files_of conn d))))))"

end
