(* ===== verification/KvWorker.thy ===== *)
theory KvWorker
  imports KvStore
begin

text \<open>
  The key-value worker (\<open>crates/vlinder-sqlite-kv/src/worker.rs\<close>): opening the databases of an agent and
  session through the connection caches, the four handlers with their versioned branches, the
  processing of a request into a response on the queue, and the four receive loops as an interleaving
  of their steps.  A \<open>Result\<close> of the handlers ends in the response payload, so a handler is a function
  from the world to the payload and the new world.
\<close>

section \<open>Keys\<close>

definition extract_agent_session :: "data_routing_key \<Rightarrow> string \<times> string" where
  "extract_agent_session key =
     ((case dk_kind key of DkRequest agent _ _ _ \<Rightarrow> agent | _ \<Rightarrow> []), dk_session key)"

definition response_key_from_request :: "data_routing_key \<Rightarrow> data_routing_key option" where
  "response_key_from_request req_key =
     (case dk_kind req_key of
        DkRequest agent service operation sequence \<Rightarrow>
          Some \<lparr>dk_session = dk_session req_key, dk_branch = dk_branch req_key,
                dk_submission = dk_submission req_key,
                dk_kind = DkResponse agent service operation sequence\<rparr>
      | _ \<Rightarrow> None)"

section \<open>Opening\<close>

definition kv_cache_key :: "string \<Rightarrow> string \<Rightarrow> string" where
  "kv_cache_key agent_id session_id = agent_id @ '':'' @ session_id"

definition storage_uri :: "kv_env \<Rightarrow> string \<Rightarrow> (string, resource_id) rust_result" where
  "storage_uri env agent_id =
     (case kv_agents env agent_id of
        None \<Rightarrow> Inl (''unknown agent: '' @ agent_id)
      | Some agent \<Rightarrow> ok_or (''agent has no object_storage declared: '' @ agent_id) (ag_object_storage agent))"

definition session_db :: "string \<Rightarrow> string \<Rightarrow> string \<Rightarrow> string" where
  "session_db parent session_id name = path_join (path_join (path_join parent ''sessions'') session_id) name"

definition get_or_open :: "kv_env \<Rightarrow> string \<Rightarrow> string \<Rightarrow> string kv_eff" where
  "get_or_open env agent_id session_id w =
     (let cache_key = kv_cache_key agent_id session_id
      in case kd_stores (sw_data w) cache_key of
           Some storage \<Rightarrow> (Inr storage, w)
         | None \<Rightarrow>
             ebind (elift (storage_uri env agent_id)) (\<lambda>uri.
             ebind (elift (ok_or (''object_storage URI has no path: '' @ uri) (resource_id_path uri))) (\<lambda>base_path.
             ebind (elift (ok_or ''object_storage path has no parent'' (path_parent base_path))) (\<lambda>parent.
             ebind (open_at env (session_db parent session_id ''objects.db'')) (\<lambda>storage w'.
               (Inr storage, w'\<lparr>sw_data := (sw_data w')\<lparr>kd_stores := (kd_stores (sw_data w'))(cache_key \<mapsto> storage)\<rparr>\<rparr>))))) w)"

definition replace_separators :: "string \<Rightarrow> string" where
  "replace_separators s = map (\<lambda>c. if c = CHR ''/'' \<or> c = CHR '':'' then CHR ''_'' else c) s"

definition state_store_path :: "kv_env \<Rightarrow> string \<Rightarrow> string \<Rightarrow> resource_id \<Rightarrow> string kv_eff" where
  "state_store_path env agent_id session_id uri =
     (if resource_id_scheme uri = Some ''sqlite'' then
        ebind (elift (ok_or ''sqlite URI has no path'' (resource_id_path uri))) (\<lambda>db_path.
        ebind (elift (ok_or ''sqlite path has no parent'' (path_parent db_path))) (\<lambda>parent.
          eret (session_db parent session_id ''state.db'')))
      else if resource_id_scheme uri = Some ''memory'' then
        (let dir = path_join (kv_temp_dir env) ''vlinder-state''
         in ebind (ecatch (sql_exec (kv_fault env) [] id)) (\<lambda>_.
              eret (path_join dir (replace_separators agent_id @ ''_'' @ session_id @ ''.db''))))
      else efail ''unsupported storage scheme for state store'')"

definition get_or_open_state_store :: "kv_env \<Rightarrow> string \<Rightarrow> string \<Rightarrow> string kv_eff" where
  "get_or_open_state_store env agent_id session_id w =
     (let cache_key = kv_cache_key agent_id session_id
      in case kd_state_stores (sw_data w) cache_key of
           Some store \<Rightarrow> (Inr store, w)
         | None \<Rightarrow>
             ebind (elift (storage_uri env agent_id)) (\<lambda>uri.
             ebind (state_store_path env agent_id session_id uri) (\<lambda>path.
             ebind (state_store_open env path) (\<lambda>store w'.
               (Inr store, w'\<lparr>sw_data := (sw_data w')\<lparr>kd_state_stores := (kd_state_stores (sw_data w'))(cache_key \<mapsto> store)\<rparr>\<rparr>)))) w)"

section \<open>Versioned operations\<close>

definition parent_entries :: "kv_env \<Rightarrow> string \<Rightarrow> string \<Rightarrow> entries kv_eff" where
  "parent_entries env conn parent_state =
     (if parent_state = [] then eret []
      else ebind (get_state_commit env conn parent_state) (\<lambda>found.
           ebind (elift (ok_or (''unknown parent state: '' @ parent_state) found)) (\<lambda>commit.
           ebind (get_snapshot env conn (sc_snapshot_hash commit)) (\<lambda>snapshot.
             eret (unwrap_or [] snapshot)))))"

definition versioned_put :: "kv_env \<Rightarrow> string \<Rightarrow> string \<Rightarrow> string \<Rightarrow> string \<Rightarrow> string \<Rightarrow> string kv_eff" where
  "versioned_put env agent_id session_id parent_state path content =
     ebind (get_or_open_state_store env agent_id session_id) (\<lambda>conn.
       let value_hash = hash_value env content
       in ebind (put_value env conn value_hash content) (\<lambda>_.
          ebind (parent_entries env conn parent_state) (\<lambda>entries.
            let new_entries = AList.update path value_hash entries;
                snapshot_hash = hash_snapshot env new_entries;
                commit_hash = hash_state_commit env snapshot_hash parent_state
            in ebind (put_snapshot env conn snapshot_hash new_entries) (\<lambda>_.
               ebind (put_state_commit env conn commit_hash snapshot_hash parent_state) (\<lambda>_.
                 eret commit_hash)))))"

definition state_entries :: "kv_env \<Rightarrow> string \<Rightarrow> string \<Rightarrow> entries kv_eff" where
  "state_entries env conn state_hash =
     ebind (get_state_commit env conn state_hash) (\<lambda>found.
     ebind (elift (ok_or (''unknown state: '' @ state_hash) found)) (\<lambda>commit.
     ebind (get_snapshot env conn (sc_snapshot_hash commit)) (\<lambda>snapshot.
       eret (unwrap_or [] snapshot))))"

definition versioned_get :: "kv_env \<Rightarrow> string \<Rightarrow> string \<Rightarrow> string \<Rightarrow> string \<Rightarrow> string option kv_eff" where
  "versioned_get env agent_id session_id state_hash path =
     ebind (get_or_open_state_store env agent_id session_id) (\<lambda>conn.
     ebind (state_entries env conn state_hash) (\<lambda>entries.
       case map_of entries path of
         None \<Rightarrow> eret None
       | Some value_hash \<Rightarrow> get_value env conn value_hash))"

definition versioned_list :: "kv_env \<Rightarrow> string \<Rightarrow> string \<Rightarrow> string \<Rightarrow> string \<Rightarrow> string list kv_eff" where
  "versioned_list env agent_id session_id state_hash pre =
     ebind (get_or_open_state_store env agent_id session_id) (\<lambda>conn.
     ebind (state_entries env conn state_hash) (\<lambda>entries.
       eret (sort (filter (\<lambda>k. starts_with k pre) (map fst entries)))))"

section \<open>Handlers\<close>

type_synonym kv_world = "kv_data sql_world"

definition reply :: "('a \<Rightarrow> bytes) \<Rightarrow> 'a kv_eff \<Rightarrow> kv_world \<Rightarrow> bytes \<times> kv_world" where
  "reply ok m w = (case m w of (Inl e, w') \<Rightarrow> (''[error] '' @ e, w') | (Inr x, w') \<Rightarrow> (ok x, w'))"

definition handle_get ::
    "kv_env \<Rightarrow> string \<Rightarrow> string \<Rightarrow> bytes \<Rightarrow> string option \<Rightarrow> kv_world \<Rightarrow> bytes \<times> kv_world" where
  "handle_get env agent_id session_id payload state w =
     (case kv_parse_get env payload of
        Inl e \<Rightarrow> (''[error] invalid request: '' @ e, w)
      | Inr path \<Rightarrow>
          if unwrap_or [] state \<noteq> [] then
            reply (unwrap_or []) (versioned_get env agent_id session_id (the state) path) w
          else
            reply (unwrap_or [])
              (ebind (get_or_open env agent_id session_id) (\<lambda>store. get_file env store path)) w)"

definition handle_put ::
    "kv_env \<Rightarrow> string \<Rightarrow> string \<Rightarrow> bytes \<Rightarrow> string option \<Rightarrow> kv_world \<Rightarrow>
     (bytes \<times> string option) \<times> kv_world" where
  "handle_put env agent_id session_id payload state w =
     (case kv_parse_put env payload of
        Inl e \<Rightarrow> ((''[error] invalid request: '' @ e, None), w)
      | Inr (path, content) \<Rightarrow>
          (case ebind (get_or_open env agent_id session_id) (\<lambda>store. put_file env store path content) w of
             (Inl e, w1) \<Rightarrow> ((''[error] '' @ e, None), w1)
           | (Inr _, w1) \<Rightarrow>
               (case state of
                  Some parent_state \<Rightarrow>
                    (case versioned_put env agent_id session_id parent_state path content w1 of
                       (Inr new_state, w2) \<Rightarrow> ((kv_state_json env new_state, Some new_state), w2)
                     | (Inl e, w2) \<Rightarrow> ((''[error] '' @ e, None), w2))
                | None \<Rightarrow> ((''ok'', None), w1))))"

definition handle_list ::
    "kv_env \<Rightarrow> string \<Rightarrow> string \<Rightarrow> bytes \<Rightarrow> string option \<Rightarrow> kv_world \<Rightarrow> bytes \<times> kv_world" where
  "handle_list env agent_id session_id payload state w =
     (case kv_parse_list env payload of
        Inl e \<Rightarrow> (''[error] invalid request: '' @ e, w)
      | Inr path \<Rightarrow>
          if unwrap_or [] state \<noteq> [] then
            reply (kv_strings_json env) (versioned_list env agent_id session_id (the state) path) w
          else
            reply (kv_strings_json env)
              (ebind (get_or_open env agent_id session_id) (\<lambda>store. list_files env store path)) w)"

definition handle_delete ::
    "kv_env \<Rightarrow> string \<Rightarrow> string \<Rightarrow> bytes \<Rightarrow> kv_world \<Rightarrow> bytes \<times> kv_world" where
  "handle_delete env agent_id session_id payload w =
     (case kv_parse_delete env payload of
        Inl e \<Rightarrow> (''[error] invalid request: '' @ e, w)
      | Inr path \<Rightarrow>
          reply (\<lambda>deleted. if deleted then ''ok'' else ''not_found'')
            (ebind (get_or_open env agent_id session_id) (\<lambda>store. delete_file env store path)) w)"

section \<open>Requests\<close>

text \<open>
  The state is the queue and the world.  \<open>new_id\<close> is the fresh message id, \<open>elapsed_ms\<close> the measured
  time; a failed send and a failed acknowledgement are dropped.  \<open>None\<close> is the panic on a key that is
  not a request's, after the handler has run.
\<close>

definition kv_response ::
    "kv_env \<Rightarrow> message_id \<Rightarrow> nat \<Rightarrow> operation \<Rightarrow> request_message \<Rightarrow> string option \<Rightarrow> bytes \<Rightarrow> response_message" where
  "kv_response env new_id elapsed_ms op msg state response_payload =
     \<lparr>rs_id = new_id, rs_dag_id = dag_node_id_root, rs_dag_parent = rq_dag_id msg,
      rs_correlation_id = rq_id msg, rs_state = state,
      rs_diagnostics =
        service_diagnostics_storage (service_backend_service_type (kv_service env))
          (service_backend_str (kv_service env)) op (len_u64 response_payload) (millis_u64_max elapsed_ms),
      rs_payload = response_payload, rs_status_code = 200, rs_checkpoint = rq_checkpoint msg\<rparr>"

definition kv_answer ::
    "'q mq_ops \<Rightarrow> data_routing_key \<Rightarrow> response_message \<Rightarrow> 'q ack \<Rightarrow> 'q \<Rightarrow> 'q option" where
  "kv_answer mq key response ack q =
     map_option (\<lambda>response_key. snd (ack (snd (mq_send_response mq response_key response q))))
       (response_key_from_request key)"

definition process_get_request ::
    "kv_env \<Rightarrow> 'q mq_ops \<Rightarrow> message_id \<Rightarrow> nat \<Rightarrow> data_routing_key \<Rightarrow> request_message \<Rightarrow> 'q ack \<Rightarrow>
     'q \<times> kv_world \<Rightarrow> ('q \<times> kv_world) option" where
  "process_get_request env mq new_id elapsed_ms key msg ack qw =
     (case extract_agent_session key of (agent, session) \<Rightarrow>
      case handle_get env agent session (rq_payload msg) (rq_state msg) (snd qw) of (payload, w) \<Rightarrow>
        map_option (\<lambda>q. (q, w))
          (kv_answer mq key (kv_response env new_id elapsed_ms OpGet msg (rq_state msg) payload) ack (fst qw)))"

definition process_put_request ::
    "kv_env \<Rightarrow> 'q mq_ops \<Rightarrow> message_id \<Rightarrow> nat \<Rightarrow> data_routing_key \<Rightarrow> request_message \<Rightarrow> 'q ack \<Rightarrow>
     'q \<times> kv_world \<Rightarrow> ('q \<times> kv_world) option" where
  "process_put_request env mq new_id elapsed_ms key msg ack qw =
     (case extract_agent_session key of (agent, session) \<Rightarrow>
      case handle_put env agent session (rq_payload msg) (rq_state msg) (snd qw) of ((payload, new_state), w) \<Rightarrow>
        (let state = (case new_state of Some s \<Rightarrow> Some s | None \<Rightarrow> rq_state msg)
         in map_option (\<lambda>q. (q, w))
              (kv_answer mq key (kv_response env new_id elapsed_ms OpPut msg state payload) ack (fst qw))))"

definition process_list_request ::
    "kv_env \<Rightarrow> 'q mq_ops \<Rightarrow> message_id \<Rightarrow> nat \<Rightarrow> data_routing_key \<Rightarrow> request_message \<Rightarrow> 'q ack \<Rightarrow>
     'q \<times> kv_world \<Rightarrow> ('q \<times> kv_world) option" where
  "process_list_request env mq new_id elapsed_ms key msg ack qw =
     (case extract_agent_session key of (agent, session) \<Rightarrow>
      case handle_list env agent session (rq_payload msg) (rq_state msg) (snd qw) of (payload, w) \<Rightarrow>
        map_option (\<lambda>q. (q, w))
          (kv_answer mq key (kv_response env new_id elapsed_ms OpList msg (rq_state msg) payload) ack (fst qw)))"

definition process_delete_request ::
    "kv_env \<Rightarrow> 'q mq_ops \<Rightarrow> message_id \<Rightarrow> nat \<Rightarrow> data_routing_key \<Rightarrow> request_message \<Rightarrow> 'q ack \<Rightarrow>
     'q \<times> kv_world \<Rightarrow> ('q \<times> kv_world) option" where
  "process_delete_request env mq new_id elapsed_ms key msg ack qw =
     (case extract_agent_session key of (agent, session) \<Rightarrow>
      case handle_delete env agent session (rq_payload msg) (snd qw) of (payload, w) \<Rightarrow>
        map_option (\<lambda>q. (q, w))
          (kv_answer mq key (kv_response env new_id elapsed_ms OpDelete msg (rq_state msg) payload) ack (fst qw)))"

text \<open>
  One turn of the loop of operation \<open>op\<close>: a timeout or a receive error tries again.  The worker runs
  the loops of four operations; any other operation has none.  The four loops are tasks of their own
  (worker.rs:98-134) and share the store; a turn is one atomic step here, so a run interleaves whole turns,
  and an interleaving of the statements of two turns is not modelled.
\<close>

definition kv_turn ::
    "kv_env \<Rightarrow> 'q mq_ops \<Rightarrow> message_id \<Rightarrow> nat \<Rightarrow> operation \<Rightarrow> 'q \<times> kv_world \<Rightarrow> ('q \<times> kv_world) option" where
  "kv_turn env mq new_id elapsed_ms op qw =
     (case mq_receive_request mq (kv_service env) op (fst qw) of
        (Inl e, q) \<Rightarrow> Some (q, snd qw)
      | (Inr (key, msg, ack), q) \<Rightarrow>
          (case op of
             OpGet \<Rightarrow> process_get_request env mq new_id elapsed_ms key msg ack (q, snd qw)
           | OpPut \<Rightarrow> process_put_request env mq new_id elapsed_ms key msg ack (q, snd qw)
           | OpList \<Rightarrow> process_list_request env mq new_id elapsed_ms key msg ack (q, snd qw)
           | OpDelete \<Rightarrow> process_delete_request env mq new_id elapsed_ms key msg ack (q, snd qw)
           | _ \<Rightarrow> None))"

end
