(* ===== verification/KvLaws.thy ===== *)
theory KvLaws
  imports KvWorker
begin

text \<open>
  What the key-value worker guarantees.  The locale \<open>versioned_files\<close> is the contract of a store of
  immutable versions: a put on a version makes a new one and leaves every other readable.  The
  worker's versioned operations are interpreted as such a store in \<open>KvRun\<close>; the integrity of the three
  tables is shown here by Hoare triples that hold under every fault of the database.
\<close>

section \<open>Versions that never change\<close>

locale versioned_files =
  fixes ok :: "'s \<Rightarrow> bool"
    and view :: "'s \<Rightarrow> 'h \<Rightarrow> ('p \<Rightarrow> 'c option) option"
    and fresh :: "'h \<Rightarrow> 'p \<Rightarrow> 'c \<Rightarrow> 's \<Rightarrow> bool"
    and put :: "'h \<Rightarrow> 'p \<Rightarrow> 'c \<Rightarrow> 's \<Rightarrow> ('e + 'h) \<times> 's"
  assumes ok_put: "ok s \<Longrightarrow> ok (snd (put h p c s))"
    and view_put: "ok s \<Longrightarrow> view s g = Some m \<Longrightarrow> view (snd (put h p c s)) g = Some m"
    and put_Inr: "ok s \<Longrightarrow> view s h = Some m \<Longrightarrow> fresh h p c s \<Longrightarrow>
      \<exists>h' s'. put h p c s = (Inr h', s') \<and> view s' h' = Some (m(p \<mapsto> c))"
begin

primrec chain :: "'h \<Rightarrow> ('p \<times> 'c) list \<Rightarrow> 's \<Rightarrow> ('e + 'h) \<times> 's" where
  "chain h [] s = (Inr h, s)"
| "chain h (w # ws) s =
     (case put h (fst w) (snd w) s of (Inl e, s') \<Rightarrow> (Inl e, s') | (Inr h', s') \<Rightarrow> chain h' ws s')"

primrec fresh_chain :: "'h \<Rightarrow> ('p \<times> 'c) list \<Rightarrow> 's \<Rightarrow> bool" where
  "fresh_chain h [] s = True"
| "fresh_chain h (w # ws) s =
     (fresh h (fst w) (snd w) s \<and>
      (case put h (fst w) (snd w) s of (Inl e, s') \<Rightarrow> True | (Inr h', s') \<Rightarrow> fresh_chain h' ws s'))"

lemma chain_keeps: "ok s \<Longrightarrow> ok (snd (chain h ws s)) \<and> (\<forall>g m. view s g = Some m \<longrightarrow> view (snd (chain h ws s)) g = Some m)"
proof (induction ws arbitrary: h s)
  case (Cons w ws)
  obtain r s' where r: "put h (fst w) (snd w) s = (r, s')" by fastforce
  have "ok s'" using ok_put [OF Cons.prems, of h "fst w" "snd w"] r by simp
  moreover have "view s g = Some m \<Longrightarrow> view s' g = Some m" for g m
    using view_put [OF Cons.prems, of g m h "fst w" "snd w"] r by simp
  ultimately show ?case using Cons.IH by (cases r) (auto simp: r)
qed simp

lemma chain_view:
  assumes "ok s" and "view s h = Some m" and "fresh_chain h ws s"
  shows "\<exists>h' s'. chain h ws s = (Inr h', s') \<and> view s' h' = Some (m ++ map_of (rev ws))"
  using assms
proof (induction ws arbitrary: h s m)
  case (Cons w ws)
  obtain h1 s1 where put: "put h (fst w) (snd w) s = (Inr h1, s1)"
      and view: "view s1 h1 = Some (m(fst w \<mapsto> snd w))"
    using put_Inr [OF Cons.prems(1,2), of "fst w" "snd w"] Cons.prems(3) by auto
  have "ok s1" using ok_put [OF Cons.prems(1), of h "fst w" "snd w"] put by simp
  from Cons.IH [OF this view] Cons.prems(3) put
  have "\<exists>h' s'. chain h (w # ws) s = (Inr h', s') \<and> view s' h' = Some (m(fst w \<mapsto> snd w) ++ map_of (rev ws))"
    by (simp only: chain.simps fresh_chain.simps put prod.case sum.case)
  moreover have "m(fst w \<mapsto> snd w) ++ map_of (rev ws) = m ++ map_of (rev (w # ws))"
    by (cases w) simp
  ultimately show ?case by (simp only:)
qed simp

end

section \<open>The tables\<close>

definition kv_documented :: "kv_env \<Rightarrow> bool" where
  "kv_documented env \<longleftrightarrow>
     (\<forall>x. kv_sha env x \<noteq> [] \<and> CHR '':'' \<notin> set (kv_sha env x)) \<and>
     (\<forall>es. distinct (map fst es) \<longrightarrow> kv_entries_parse env (kv_entries_json env es) = Inr es)"

definition values_ok :: "kv_env \<Rightarrow> (string \<rightharpoonup> string) \<Rightarrow> bool" where
  "values_ok env vs \<longleftrightarrow> (\<forall>h c. vs h = Some c \<longrightarrow> h = kv_sha env c)"

definition snapshots_ok :: "kv_env \<Rightarrow> string set \<Rightarrow> (string \<rightharpoonup> string) \<Rightarrow> bool" where
  "snapshots_ok env known ss \<longleftrightarrow>
     (\<forall>h j. ss h = Some j \<longrightarrow>
        h = kv_sha env j \<and> (\<exists>es. distinct (map fst es) \<and> j = kv_entries_json env es \<and> snd ` set es \<subseteq> known))"

definition commits_ok :: "kv_env \<Rightarrow> string set \<Rightarrow> (string \<rightharpoonup> string \<times> string) \<Rightarrow> bool" where
  "commits_ok env known cs \<longleftrightarrow>
     (\<forall>h s p. cs h = Some (s, p) \<longrightarrow>
        h = kv_sha env (s @ '':'' @ p) \<and> s \<in> known \<and> (p = [] \<or> p \<in> dom cs))"

definition state_db_ok :: "kv_env \<Rightarrow> state_db \<Rightarrow> bool" where
  "state_db_ok env db \<longleftrightarrow>
     values_ok env (sd_values db) \<and> snapshots_ok env (dom (sd_values db)) (sd_snapshots db) \<and>
     commits_ok env (dom (sd_snapshots db)) (sd_commits db)"

text \<open>The files of a version; the empty hash is the version before the first.\<close>

definition kv_view :: "kv_env \<Rightarrow> state_db \<Rightarrow> string \<Rightarrow> (string \<Rightarrow> string option) option" where
  "kv_view env db h =
     (if h = [] then Some Map.empty
      else Option.bind (sd_commits db h) (\<lambda>(s, _).
           Option.bind (sd_snapshots db s) (\<lambda>j.
           map_option (\<lambda>es p. Option.bind (map_of es p) (sd_values db)) (result_ok (kv_entries_parse env j)))))"

definition state_db_le :: "state_db \<Rightarrow> state_db \<Rightarrow> bool" where
  "state_db_le db db' \<longleftrightarrow>
     sd_values db \<subseteq>\<^sub>m sd_values db' \<and> sd_snapshots db \<subseteq>\<^sub>m sd_snapshots db' \<and> sd_commits db \<subseteq>\<^sub>m sd_commits db'"

text \<open>The three byte strings a put hashes, and all those in the tables.\<close>

definition put_preimages :: "kv_env \<Rightarrow> entries \<Rightarrow> string \<Rightarrow> string \<Rightarrow> string \<Rightarrow> string set" where
  "put_preimages env es parent path content =
     (let es' = AList.update path (hash_value env content) es
      in {content, sorted_entries_json env es', hash_snapshot env es' @ '':'' @ parent})"

definition db_preimages :: "state_db \<Rightarrow> string set" where
  "db_preimages db =
     ran (sd_values db) \<union> ran (sd_snapshots db) \<union> (\<lambda>(s, p). s @ '':'' @ p) ` ran (sd_commits db)"

lemma state_db_empty_ok [simp]: "state_db_ok env state_db_empty"
  by (simp add: state_db_ok_def values_ok_def snapshots_ok_def commits_ok_def state_db_empty_def)

lemma state_db_le_refl [simp]: "state_db_le db db"
  by (simp add: state_db_le_def)

lemma state_db_le_trans: "state_db_le a b \<Longrightarrow> state_db_le b c \<Longrightarrow> state_db_le a c"
  by (auto simp: state_db_le_def intro: map_le_trans)

lemma kv_parse: "kv_documented env \<Longrightarrow> distinct (map fst es) \<Longrightarrow> kv_entries_parse env (kv_entries_json env es) = Inr es"
  by (simp add: kv_documented_def)

lemma kv_sha_nonempty: "kv_documented env \<Longrightarrow> kv_sha env x \<noteq> []" "kv_documented env \<Longrightarrow> CHR '':'' \<notin> set (kv_sha env x)"
  by (simp_all add: kv_documented_def)

lemma insert_or_ignore_cases:
  assumes "insert_or_ignore k v m h = Some x"
  obtains (new) "h = k" "x = v" "m k = None" | (old) "m h = Some x"
  using assms by (cases "h = k \<and> m k = None") (auto simp: insert_or_ignore_lookup)

lemma values_okD: "values_ok env vs \<Longrightarrow> vs h = Some c \<Longrightarrow> h = kv_sha env c"
  by (simp add: values_ok_def)

lemma snapshots_okD:
  assumes "snapshots_ok env known ss" and "ss h = Some j"
  obtains es where "distinct (map fst es)" "j = kv_entries_json env es" "snd ` set es \<subseteq> known" "h = kv_sha env j"
  using assms unfolding snapshots_ok_def by blast

lemma commits_okD:
  assumes "commits_ok env known cs" and "cs h = Some (s, p)"
  shows "h = kv_sha env (s @ '':'' @ p)" "s \<in> known" "p = [] \<or> p \<in> dom cs"
  using assms unfolding commits_ok_def by blast+

lemma snapshots_ok_mono: "snapshots_ok env a ss \<Longrightarrow> a \<subseteq> b \<Longrightarrow> snapshots_ok env b ss"
  unfolding snapshots_ok_def by (meson subset_trans)

lemma commits_ok_mono: "commits_ok env a cs \<Longrightarrow> a \<subseteq> b \<Longrightarrow> commits_ok env b cs"
  unfolding commits_ok_def by (meson subsetD)

lemma kv_view_mono:
  assumes "kv_documented env" and "state_db_ok env db" and "state_db_le db db'" and "kv_view env db h = Some m"
  shows "kv_view env db' h = Some m"
proof (cases "h = []")
  case False
  then obtain s p j es where c: "sd_commits db h = Some (s, p)" and j: "sd_snapshots db s = Some j"
      and es: "kv_entries_parse env j = Inr es" and m: "m = (\<lambda>p. Option.bind (map_of es p) (sd_values db))"
    using assms(4)
    by (auto simp: kv_view_def bind_eq_Some_conv)
  obtain es' where "distinct (map fst es')" "j = kv_entries_json env es'" and vals: "snd ` set es' \<subseteq> dom (sd_values db)"
    using assms(2) j by (auto simp: state_db_ok_def elim: snapshots_okD)
  with es have [simp]: "es' = es" using kv_parse [OF assms(1)] by simp
  have up: "sd_commits db' h = Some (s, p)" "sd_snapshots db' s = Some j"
    using assms(3) c j unfolding state_db_le_def map_le_def by (metis domI)+
  have "Option.bind (map_of es q) (sd_values db') = Option.bind (map_of es q) (sd_values db)" for q
  proof (cases "map_of es q")
    case (Some v)
    then have "v \<in> snd ` set es" by (force dest: map_of_SomeD)
    then have "v \<in> dom (sd_values db)" using vals by auto
    then show ?thesis using assms(3) Some by (simp add: state_db_le_def map_le_def)
  qed simp
  then show ?thesis using False up es m by (simp add: kv_view_def)
qed (use assms(4) in \<open>simp add: kv_view_def\<close>)

text \<open>The three inserts of a put, in the order the code makes them, each keep the integrity.\<close>

lemma put_value_ok:
  assumes "state_db_ok env db"
  shows "state_db_ok env (db\<lparr>sd_values := insert_or_ignore (hash_value env c) c (sd_values db)\<rparr>)"
proof -
  have "values_ok env (insert_or_ignore (hash_value env c) c (sd_values db))"
    unfolding values_ok_def
  proof (intro allI impI)
    fix h x assume "insert_or_ignore (hash_value env c) c (sd_values db) h = Some x"
    then show "h = kv_sha env x"
      by (cases rule: insert_or_ignore_cases)
        (use assms in \<open>auto simp: hash_value_def state_db_ok_def dest: values_okD\<close>)
  qed
  moreover have "snapshots_ok env (insert (hash_value env c) (dom (sd_values db))) (sd_snapshots db)"
    using assms by (auto simp: state_db_ok_def intro: snapshots_ok_mono)
  ultimately show ?thesis using assms by (simp add: state_db_ok_def)
qed

lemma put_snapshot_ok:
  assumes "state_db_ok env db" and "distinct (map fst es)" and "snd ` set es \<subseteq> dom (sd_values db)"
  shows "state_db_ok env
    (db\<lparr>sd_snapshots := insert_or_ignore (hash_snapshot env es) (sorted_entries_json env es) (sd_snapshots db)\<rparr>)"
proof -
  let ?ss = "insert_or_ignore (hash_snapshot env es) (sorted_entries_json env es) (sd_snapshots db)"
  have es: "distinct (map fst (sort_key fst es)) \<and> snd ` set (sort_key fst es) \<subseteq> dom (sd_values db)"
    using assms(2,3) by (simp add: distinct_map)
  have ok: "snapshots_ok env (dom (sd_values db)) (sd_snapshots db)" using assms(1) by (simp add: state_db_ok_def)
  have "snapshots_ok env (dom (sd_values db)) ?ss"
    unfolding snapshots_ok_def
  proof (intro allI impI)
    fix h j assume "?ss h = Some j"
    then show "h = kv_sha env j \<and>
      (\<exists>es. distinct (map fst es) \<and> j = kv_entries_json env es \<and> snd ` set es \<subseteq> dom (sd_values db))"
    proof (cases rule: insert_or_ignore_cases)
      case new
      have "h = kv_sha env j" using new by (simp add: hash_snapshot_def hash_value_def)
      moreover have "j = kv_entries_json env (sort_key fst es)" using new by (simp add: sorted_entries_json_def)
      ultimately show ?thesis using es by blast
    next
      case old
      from ok this show ?thesis by (rule snapshots_okD) blast
    qed
  qed
  moreover have "commits_ok env (insert (hash_snapshot env es) (dom (sd_snapshots db))) (sd_commits db)"
    using assms(1) by (auto simp: state_db_ok_def intro: commits_ok_mono)
  ultimately show ?thesis using assms(1) by (simp add: state_db_ok_def)
qed

lemma put_commit_ok:
  assumes "state_db_ok env db" and "s \<in> dom (sd_snapshots db)" and "p = [] \<or> p \<in> dom (sd_commits db)"
  shows "state_db_ok env
    (db\<lparr>sd_commits := insert_or_ignore (hash_state_commit env s p) (s, p) (sd_commits db)\<rparr>)"
proof -
  let ?cs = "insert_or_ignore (hash_state_commit env s p) (s, p) (sd_commits db)"
  have ok: "commits_ok env (dom (sd_snapshots db)) (sd_commits db)" using assms(1) by (simp add: state_db_ok_def)
  have "commits_ok env (dom (sd_snapshots db)) ?cs"
    unfolding commits_ok_def insert_or_ignore_dom
  proof (intro allI impI)
    fix h s' p' assume "?cs h = Some (s', p')"
    then show "h = kv_sha env (s' @ '':'' @ p') \<and> s' \<in> dom (sd_snapshots db) \<and>
      (p' = [] \<or> p' \<in> insert (hash_state_commit env s p) (dom (sd_commits db)))"
    proof (cases rule: insert_or_ignore_cases)
      case new
      have "h = kv_sha env (s @ '':'' @ p)" "s' = s" "p' = p"
        using new by (simp_all add: hash_state_commit_def hash_value_def)
      then show ?thesis using assms(2,3) by blast
    next
      case old
      from commits_okD [OF ok this] show ?thesis by blast
    qed
  qed
  then show ?thesis using assms(1) by (simp add: state_db_ok_def)
qed

lemma snd_update: "snd ` set (AList.update k v es) \<subseteq> insert v (snd ` set es)"
  by (induction es) (auto split: if_splits)

text \<open>The version a put creates, in any database that holds its three rows and has no collision.\<close>

lemma view_of_put:
  assumes doc: "kv_documented env" and ok: "state_db_ok env db" and es: "distinct (map fst es)"
    and rows: "hash_value env c \<in> dom (sd_values db)"
      "hash_snapshot env (AList.update path (hash_value env c) es) \<in> dom (sd_snapshots db)"
      "hash_state_commit env (hash_snapshot env (AList.update path (hash_value env c) es)) parent \<in> dom (sd_commits db)"
    and inj: "inj_on (kv_sha env) (db_preimages db \<union> put_preimages env es parent path c)"
  shows "kv_view env db (hash_state_commit env (hash_snapshot env (AList.update path (hash_value env c) es)) parent) =
           Some ((\<lambda>p. Option.bind (map_of es p) (sd_values db))(path \<mapsto> c))"
proof -
  let ?es = "AList.update path (hash_value env c) es" and ?sha = "kv_sha env"
  let ?sh = "hash_snapshot env ?es"
  let ?ch = "hash_state_commit env ?sh parent"
  have oks: "values_ok env (sd_values db)" "snapshots_ok env (dom (sd_values db)) (sd_snapshots db)"
      "commits_ok env (dom (sd_snapshots db)) (sd_commits db)"
    using ok by (simp_all add: state_db_ok_def)
  have new: "{c, sorted_entries_json env ?es, ?sh @ '':'' @ parent} = put_preimages env es parent path c"
    by (simp add: put_preimages_def Let_def)
  obtain c' where c': "sd_values db (hash_value env c) = Some c'" using rows(1) by blast
  have "?sha c' = ?sha c" using values_okD [OF oks(1) c'] by (simp add: hash_value_def)
  moreover have "c' \<in> db_preimages db" using c' by (auto simp: db_preimages_def ran_def)
  ultimately have "c' = c" using inj_onD [OF inj] new by blast
  obtain j where j: "sd_snapshots db ?sh = Some j" using rows(2) by blast
  have "?sha j = ?sha (sorted_entries_json env ?es)"
    using oks(2) j by (auto simp: hash_snapshot_def hash_value_def elim!: snapshots_okD)
  moreover have "j \<in> db_preimages db" using j by (auto simp: db_preimages_def ran_def)
  ultimately have j_eq: "j = sorted_entries_json env ?es" using inj_onD [OF inj] new by blast
  obtain s p where cm: "sd_commits db ?ch = Some (s, p)" using rows(3) by (auto simp: dom_def)
  have "?sha (s @ '':'' @ p) = ?sha (?sh @ '':'' @ parent)"
    using commits_okD(1) [OF oks(3) cm] by (simp add: hash_state_commit_def hash_value_def)
  moreover have "s @ '':'' @ p \<in> db_preimages db" using cm by (force simp: db_preimages_def ran_def)
  ultimately have "s @ '':'' @ p = ?sh @ '':'' @ parent" using inj_onD [OF inj] new by blast
  moreover obtain j' where "sd_snapshots db s = Some j'" using commits_okD(2) [OF oks(3) cm] by blast
  then have "CHR '':'' \<notin> set s" using oks(2) doc by (auto simp: kv_sha_nonempty elim!: snapshots_okD)
  moreover have "CHR '':'' \<notin> set ?sh" using doc by (simp add: hash_snapshot_def hash_value_def kv_sha_nonempty)
  ultimately have "s = ?sh" by (simp only: append_Cons append_Nil) (blast dest: first_separator)
  have dist: "distinct (map fst ?es)" using es by (rule distinct_update)
  have parse: "kv_entries_parse env j = Inr (sort_key fst ?es)"
    using dist by (simp add: j_eq sorted_entries_json_def kv_parse [OF doc] distinct_map)
  have "map_of (sort_key fst ?es) = map_of ?es"
    using dist by (intro map_of_eqI) (auto simp: distinct_map)
  moreover have "?ch \<noteq> []" using doc by (simp add: hash_state_commit_def hash_value_def kv_sha_nonempty)
  ultimately have view: "kv_view env db ?ch = Some (\<lambda>p. Option.bind (map_of ?es p) (sd_values db))"
    using cm j \<open>s = ?sh\<close> by (simp add: kv_view_def parse)
  have "Option.bind (map_of ?es p) (sd_values db) = ((\<lambda>p. Option.bind (map_of es p) (sd_values db))(path \<mapsto> c)) p" for p
    using c' \<open>c' = c\<close> by (simp add: update_conv')
  then have "(\<lambda>p. Option.bind (map_of ?es p) (sd_values db)) = (\<lambda>p. Option.bind (map_of es p) (sd_values db))(path \<mapsto> c)"
    by (rule ext)
  then show ?thesis using view by (simp only:)
qed

section \<open>Steps that keep every version\<close>

definition kv_states_ok :: "kv_env \<Rightarrow> kv_data \<Rightarrow> bool" where
  "kv_states_ok env d \<longleftrightarrow> (\<forall>conn. state_db_ok env (state_of conn d))"

definition kv_grows :: "kv_data \<Rightarrow> kv_data \<Rightarrow> bool" where
  "kv_grows d d' \<longleftrightarrow> (\<forall>conn. state_db_le (state_of conn d) (state_of conn d'))"

definition triple :: "kv_env \<Rightarrow> (kv_data \<Rightarrow> bool) \<Rightarrow> 'a kv_eff \<Rightarrow> ('a \<Rightarrow> kv_data \<Rightarrow> bool) \<Rightarrow> bool" where
  "triple env P m Q \<longleftrightarrow>
     (\<forall>w r w'. m w = (r, w') \<longrightarrow> kv_states_ok env (sw_data w) \<longrightarrow> P (sw_data w) \<longrightarrow>
        kv_states_ok env (sw_data w') \<and> kv_grows (sw_data w) (sw_data w') \<and>
        (\<forall>x. r = Inr x \<longrightarrow> Q x (sw_data w')))"

named_theorems triple_rules

lemma kv_grows_refl [simp]: "kv_grows d d" by (simp add: kv_grows_def)

lemma kv_grows_trans: "kv_grows a b \<Longrightarrow> kv_grows b c \<Longrightarrow> kv_grows a c"
  unfolding kv_grows_def by (blast intro: state_db_le_trans)

lemma tripleD:
  assumes "triple env P m Q" and "m w = (r, w')" and "kv_states_ok env (sw_data w)" and "P (sw_data w)"
  shows "kv_states_ok env (sw_data w')" "kv_grows (sw_data w) (sw_data w')" "r = Inr x \<Longrightarrow> Q x (sw_data w')"
  using assms unfolding triple_def by blast+

lemma triple_bind:
  assumes "triple env P m Q" and "\<And>x. triple env (Q x) (f x) R"
  shows "triple env P (ebind m f) R"
  unfolding triple_def
proof (intro allI impI)
  fix w r w' assume run: "ebind m f w = (r, w')" and pre: "kv_states_ok env (sw_data w)" "P (sw_data w)"
  from run show "kv_states_ok env (sw_data w') \<and> kv_grows (sw_data w) (sw_data w') \<and> (\<forall>x. r = Inr x \<longrightarrow> R x (sw_data w'))"
  proof (cases rule: ebindE)
    case (fail e)
    then show ?thesis using tripleD(1,2) [OF assms(1) fail(1) pre] by simp
  next
    case (ok x w1)
    note s1 = tripleD [OF assms(1) ok(1) pre]
    note s2 = tripleD [OF assms(2) ok(2) s1(1) s1(3) [OF refl]]
    show ?thesis using s2 kv_grows_trans [OF s1(2) s2(2)] by blast
  qed
qed

lemma triple_weaken: "triple env P' m Q' \<Longrightarrow> (\<And>d. P d \<Longrightarrow> P' d) \<Longrightarrow> (\<And>x d. Q' x d \<Longrightarrow> Q x d) \<Longrightarrow> triple env P m Q"
  unfolding triple_def by blast

lemma triple_pure:
  "(\<And>d. P d \<Longrightarrow> Q x d) \<Longrightarrow> triple env P (eret x) Q"
  "triple env P (efail e) Q"
  "(\<And>x d. r = Inr x \<Longrightarrow> P d \<Longrightarrow> Q x d) \<Longrightarrow> triple env P (elift r) Q"
  by (auto simp: triple_def)

lemma triple_query: "triple env P (sql_query f c q) (\<lambda>x d. x = q d \<and> P d)"
  by (auto simp: triple_def sql_query_def sql_def split: option.splits)

lemma triple_exec_id: "triple env P (sql_exec f c id) (\<lambda>x. P)"
  by (auto simp: triple_def sql_exec_def sql_def split: option.splits)

lemma triple_exec:
  assumes "\<And>d. kv_states_ok env d \<Longrightarrow> P d \<Longrightarrow> kv_states_ok env (u d) \<and> kv_grows d (u d) \<and> Q () (u d)"
  shows "triple env P (sql_exec f c u) Q"
  using assms by (auto simp: triple_def sql_exec_def sql_def split: option.splits)

lemma state_of_on_state [simp]:
  "state_of c (on_state c' f d) = (if c = c' then f (state_of c d) else state_of c d)"
  by (simp add: state_of_def on_state_def unwrap_or_def)

lemma state_of_frame [simp]:
  "state_of c (on_files c' g d) = state_of c d"
  "state_of c (d\<lparr>kd_stores := x\<rparr>) = state_of c d" "state_of c (d\<lparr>kd_state_stores := y\<rparr>) = state_of c d"
  by (simp_all add: state_of_def on_files_def)

text \<open>The entries a version's snapshot holds, with what they point to.\<close>

definition entries_at :: "kv_env \<Rightarrow> state_db \<Rightarrow> string \<Rightarrow> entries \<Rightarrow> bool" where
  "entries_at env db h es \<longleftrightarrow>
     distinct (map fst es) \<and> snd ` set es \<subseteq> dom (sd_values db) \<and>
     kv_view env db h = Some (\<lambda>p. Option.bind (map_of es p) (sd_values db))"

lemma snapshot_entries:
  assumes doc: "kv_documented env" and ok: "state_db_ok env db" and cm: "sd_commits db h = Some (s, p)"
    and es: "es = (case sd_snapshots db s of None \<Rightarrow> [] | Some j \<Rightarrow> (case kv_entries_parse env j of Inl _ \<Rightarrow> [] | Inr es \<Rightarrow> es))"
  shows "entries_at env db h es \<and> h \<noteq> []"
proof -
  have oks: "snapshots_ok env (dom (sd_values db)) (sd_snapshots db)" "commits_ok env (dom (sd_snapshots db)) (sd_commits db)"
    using ok by (simp_all add: state_db_ok_def)
  obtain j where j: "sd_snapshots db s = Some j" using commits_okD(2) [OF oks(2) cm] by blast
  obtain es' where es': "distinct (map fst es')" "j = kv_entries_json env es'" "snd ` set es' \<subseteq> dom (sd_values db)"
    using oks(1) j by (rule snapshots_okD)
  have [simp]: "es = es'" using es j es' by (simp add: kv_parse [OF doc])
  have "h \<noteq> []" using commits_okD(1) [OF oks(2) cm] doc by (simp add: kv_sha_nonempty)
  then show ?thesis using cm j es' by (simp add: entries_at_def kv_view_def kv_parse [OF doc])
qed

lemma triple_snapshot_of:
  assumes "kv_documented env"
  shows "triple env P
    (ebind (get_state_commit env conn h) (\<lambda>found.
     ebind (elift (ok_or e found)) (\<lambda>commit.
     ebind (get_snapshot env conn (sc_snapshot_hash commit)) (\<lambda>snapshot.
       eret (unwrap_or [] snapshot)))))
    (\<lambda>es d. P d \<and> h \<noteq> [] \<and> h \<in> dom (sd_commits (state_of conn d)) \<and> entries_at env (state_of conn d) h es)"
  unfolding triple_def
proof (intro allI impI)
  fix w r w'
  assume run: "ebind (get_state_commit env conn h) (\<lambda>found.
     ebind (elift (ok_or e found)) (\<lambda>commit.
     ebind (get_snapshot env conn (sc_snapshot_hash commit)) (\<lambda>snapshot.
       eret (unwrap_or [] snapshot)))) w = (r, w')"
    and ok: "kv_states_ok env (sw_data w)" and P: "P (sw_data w)"
  let ?db = "state_of conn (sw_data w)"
  have db: "state_db_ok env ?db" using ok by (simp add: kv_states_ok_def)
  have same: "sw_data w' = sw_data w \<and> (\<forall>es. r = Inr es \<longrightarrow> (\<exists>s p. sd_commits ?db h = Some (s, p) \<and>
      es = (case sd_snapshots ?db s of None \<Rightarrow> [] | Some j \<Rightarrow> (case kv_entries_parse env j of Inl _ \<Rightarrow> [] | Inr es \<Rightarrow> es))))"
    using run
    by (auto simp: get_state_commit_def get_snapshot_def sql_exec_def sql_query_def sql_def ok_or_def ebind_def
        split: option.splits prod.splits sum.splits)
  moreover have "es = (case sd_snapshots ?db s of None \<Rightarrow> [] | Some j \<Rightarrow> (case kv_entries_parse env j of Inl _ \<Rightarrow> [] | Inr es \<Rightarrow> es)) \<Longrightarrow>
      sd_commits ?db h = Some (s, p) \<Longrightarrow> entries_at env ?db h es \<and> h \<noteq> [] \<and> h \<in> dom (sd_commits ?db)" for s p es
    using snapshot_entries [OF assms db] by blast
  ultimately show "kv_states_ok env (sw_data w') \<and> kv_grows (sw_data w) (sw_data w') \<and>
    (\<forall>es. r = Inr es \<longrightarrow> P (sw_data w') \<and> h \<noteq> [] \<and> h \<in> dom (sd_commits (state_of conn (sw_data w'))) \<and>
       entries_at env (state_of conn (sw_data w')) h es)"
    using ok P by (metis kv_grows_refl)
qed

text \<open>Opening a database, and everything on object storage, leaves the versions alone.\<close>

definition still :: "'a kv_eff \<Rightarrow> bool" where
  "still m \<longleftrightarrow> (\<forall>w c. state_of c (sw_data (snd (m w))) = state_of c (sw_data w))"

lemma still_basic:
  "still (eret x)" "still (efail e)" "still (elift r)" "still (sql_query f c q)" "still (sql_exec f c id)"
  "still m \<Longrightarrow> still (ecatch m)"
  by (simp_all add: still_def sql_exec_def sql_query_def sql_def split: option.split)

lemma still_sql:
  "(\<And>d c. state_of c (u d) = state_of c d) \<Longrightarrow> still (sql_exec f ctx u)"
  "(\<And>d c. state_of c (snd (h d)) = state_of c d) \<Longrightarrow> still (sql f ctx h)"
  by (simp_all add: still_def sql_exec_def sql_def split_beta split: option.split)

lemma still_bind: "still m \<Longrightarrow> (\<And>x. still (g x)) \<Longrightarrow> still (ebind m g)"
  by (auto simp: still_def ebind_def split_beta split: sum.split)

lemmas still_rules = still_basic still_bind still_sql

lemma still_open_files: "still (get_or_open env a s)"
proof -
  have p: "still (create_parent env ctx p)" for ctx p
    by (auto simp: create_parent_def intro: still_rules split: option.split)
  have o: "still (open_at env p)" for p
    unfolding open_at_def by (intro still_rules p) simp
  have "still (ebind (elift (storage_uri env a)) (\<lambda>uri.
             ebind (elift (ok_or (''object_storage URI has no path: '' @ uri) (resource_id_path uri))) (\<lambda>base_path.
             ebind (elift (ok_or ''object_storage path has no parent'' (path_parent base_path))) (\<lambda>parent.
             ebind (open_at env (session_db parent s ''objects.db'')) (\<lambda>storage w'.
               (Inr storage, w'\<lparr>sw_data := (sw_data w')\<lparr>kd_stores := (kd_stores (sw_data w'))(kv_cache_key a s \<mapsto> storage)\<rparr>\<rparr>))))))"
    by (intro still_rules o) (simp add: still_def)
  then show ?thesis
    unfolding still_def get_or_open_def Let_def by (auto split: option.split)
qed

lemma still_open_state: "still (get_or_open_state_store env a s)"
proof -
  have p: "still (create_parent env ctx p)" for ctx p
    by (auto simp: create_parent_def intro: still_rules split: option.split)
  have path: "still (state_store_path env a s uri)" for uri
    by (auto simp: state_store_path_def Let_def intro!: still_rules)
  have o: "still (state_store_open env p)" for p
    unfolding state_store_open_def by (intro still_rules p) simp
  have "still (ebind (elift (storage_uri env a)) (\<lambda>uri.
             ebind (state_store_path env a s uri) (\<lambda>path.
             ebind (state_store_open env path) (\<lambda>store w'.
               (Inr store, w'\<lparr>sw_data := (sw_data w')\<lparr>kd_state_stores := (kd_state_stores (sw_data w'))(kv_cache_key a s \<mapsto> store)\<rparr>\<rparr>)))))"
    by (intro still_rules o path) (simp add: still_def)
  then show ?thesis
    unfolding still_def get_or_open_state_store_def Let_def by (auto split: option.split)
qed

lemma open_state_cached:
  "get_or_open_state_store env a s w = (Inr conn, w') \<Longrightarrow> kd_state_stores (sw_data w') (kv_cache_key a s) = Some conn"
  by (auto simp: get_or_open_state_store_def Let_def ebind_Inr split: option.splits)

lemma triple_still:
  assumes "still m" and "\<And>w x w'. m w = (Inr x, w') \<Longrightarrow> P (sw_data w) \<Longrightarrow> Q x (sw_data w')"
  shows "triple env P m Q"
  unfolding triple_def
proof (intro allI impI)
  fix w r w' assume run: "m w = (r, w')" and ok: "kv_states_ok env (sw_data w)" "P (sw_data w)"
  have "state_of c (sw_data w') = state_of c (sw_data w)" for c
    using assms(1) run unfolding still_def by (metis snd_conv)
  then show "kv_states_ok env (sw_data w') \<and> kv_grows (sw_data w) (sw_data w') \<and> (\<forall>x. r = Inr x \<longrightarrow> Q x (sw_data w'))"
    using ok run assms(2) by (auto simp: kv_states_ok_def kv_grows_def)
qed

text \<open>One insert into one database: what it must keep, and what it may rely on afterwards.\<close>

lemma triple_insert:
  assumes "\<And>d. state_db_ok env (state_of conn d) \<Longrightarrow> P d \<Longrightarrow>
      state_db_ok env (f (state_of conn d)) \<and> state_db_le (state_of conn d) (f (state_of conn d)) \<and> Q () (on_state conn f d)"
  shows "triple env P (sql_exec fault ctx (on_state conn f)) Q"
  by (rule triple_exec) (use assms in \<open>auto simp: kv_states_ok_def kv_grows_def\<close>)

lemma on_state_cache [simp]: "kd_state_stores (on_state c f d) = kd_state_stores d"
  by (simp add: on_state_def)

text \<open>
  What a put that returns \<open>h\<close> has left in the database it wrote to: the entries of the parent version,
  and the value, the snapshot and the commit it made of them.
\<close>

definition put_done :: "kv_env \<Rightarrow> state_db \<Rightarrow> string \<Rightarrow> string \<Rightarrow> string \<Rightarrow> entries \<Rightarrow> string \<Rightarrow> bool" where
  "put_done env db parent path c es h \<longleftrightarrow>
     entries_at env db parent es \<and>
     hash_value env c \<in> dom (sd_values db) \<and>
     hash_snapshot env (AList.update path (hash_value env c) es) \<in> dom (sd_snapshots db) \<and>
     h = hash_state_commit env (hash_snapshot env (AList.update path (hash_value env c) es)) parent \<and>
     h \<in> dom (sd_commits db)"

lemma entries_at_mono:
  assumes "kv_documented env" "state_db_ok env db" "state_db_le db db'" "entries_at env db h es"
  shows "entries_at env db' h es"
proof -
  have le: "dom (sd_values db) \<subseteq> dom (sd_values db')"
    using assms(3) by (simp add: state_db_le_def map_le_implies_dom_le)
  have "Option.bind (map_of es p) (sd_values db) = Option.bind (map_of es p) (sd_values db')" for p
  proof (cases "map_of es p")
    case (Some v)
    then have "v \<in> snd ` set es" by (force dest: map_of_SomeD)
    then have "v \<in> dom (sd_values db)" using assms(4) by (auto simp: entries_at_def)
    then show ?thesis using assms(3) Some by (simp add: state_db_le_def map_le_def)
  qed simp
  moreover have "kv_view env db' h = Some (\<lambda>p. Option.bind (map_of es p) (sd_values db))"
    using assms(4) kv_view_mono [OF assms(1-3)] by (simp add: entries_at_def)
  moreover have "snd ` set es \<subseteq> dom (sd_values db')"
    using assms(4) le unfolding entries_at_def by (blast intro: subset_trans)
  ultimately show ?thesis using assms(4) by (simp add: entries_at_def)
qed

lemma triple_versioned_put:
  assumes doc: "kv_documented env"
  shows "triple env (\<lambda>_. True) (versioned_put env a s parent path c)
    (\<lambda>h d. \<exists>conn es. kd_state_stores d (kv_cache_key a s) = Some conn \<and>
       put_done env (state_of conn d) parent path c es h)"
    (is "triple env _ _ ?Q")
proof -
  let ?v = "hash_value env c" and ?cached = "\<lambda>conn d. kd_state_stores d (kv_cache_key a s) = Some conn"
  let ?up = "\<lambda>es. AList.update path ?v es"
  let ?A = "\<lambda>conn d. ?cached conn d \<and> ?v \<in> dom (sd_values (state_of conn d))"
  let ?B = "\<lambda>conn es d. ?A conn d \<and> entries_at env (state_of conn d) parent es \<and>
      (parent = [] \<or> parent \<in> dom (sd_commits (state_of conn d)))"
  let ?C = "\<lambda>conn es d. ?B conn es d \<and> hash_snapshot env (?up es) \<in> dom (sd_snapshots (state_of conn d))"
  have opened: "triple env (\<lambda>_. True) (get_or_open_state_store env a s) ?cached"
    by (rule triple_still [OF still_open_state]) (rule open_state_cached)
  have val: "triple env (?cached conn) (put_value env conn ?v c) (\<lambda>_. ?A conn)" for conn
    unfolding put_value_def
    by (rule triple_insert) (simp add: put_value_ok state_db_le_def insert_or_ignore_keeps)
  have entries: "triple env (?A conn) (parent_entries env conn parent) (?B conn)" for conn
  proof (cases "parent = []")
    case True
    then show ?thesis by (auto simp: parent_entries_def entries_at_def kv_view_def intro!: triple_pure)
  next
    case False
    then show ?thesis
      unfolding parent_entries_def using False
      by simp (rule triple_weaken [OF triple_snapshot_of [OF doc, where P = "?A conn"]], auto)
  qed
  have snapshot: "triple env (?B conn es) (put_snapshot env conn (hash_snapshot env (?up es)) (?up es)) (\<lambda>_. ?C conn es)" for conn es
    unfolding put_snapshot_def Let_def
  proof (rule triple_insert)
    fix d assume ok: "state_db_ok env (state_of conn d)" and B: "?B conn es d"
    let ?db = "state_of conn d"
    let ?db' = "?db\<lparr>sd_snapshots := insert_or_ignore (hash_snapshot env (?up es)) (sorted_entries_json env (?up es)) (sd_snapshots ?db)\<rparr>"
    have le: "state_db_le ?db ?db'" by (simp add: state_db_le_def insert_or_ignore_keeps)
    have "distinct (map fst (?up es))" using B by (simp add: entries_at_def distinct_update)
    moreover have "insert ?v (snd ` set es) \<subseteq> dom (sd_values ?db)"
      using B by (simp add: entries_at_def)
    then have "snd ` set (?up es) \<subseteq> dom (sd_values ?db)"
      by (rule subset_trans [OF snd_update])
    ultimately have "state_db_ok env ?db'" by (rule put_snapshot_ok [OF ok])
    then show "state_db_ok env ?db' \<and> state_db_le ?db ?db' \<and> ?C conn es (on_state conn (\<lambda>db. db\<lparr>sd_snapshots := insert_or_ignore (hash_snapshot env (?up es)) (sorted_entries_json env (?up es)) (sd_snapshots db)\<rparr>) d)"
      using le B entries_at_mono [OF doc ok le] by simp
  qed
  have commit: "triple env (?C conn es)
      (put_state_commit env conn (hash_state_commit env (hash_snapshot env (?up es)) parent) (hash_snapshot env (?up es)) parent)
      (\<lambda>_. ?Q (hash_state_commit env (hash_snapshot env (?up es)) parent))" for conn es
    unfolding put_state_commit_def
  proof (rule triple_insert)
    fix d assume ok: "state_db_ok env (state_of conn d)" and C: "?C conn es d"
    let ?db = "state_of conn d" and ?h = "hash_state_commit env (hash_snapshot env (?up es)) parent"
    let ?f = "\<lambda>db. db\<lparr>sd_commits := insert_or_ignore ?h (hash_snapshot env (?up es), parent) (sd_commits db)\<rparr>"
    have le: "state_db_le ?db (?f ?db)" by (simp add: state_db_le_def insert_or_ignore_keeps)
    have "put_done env (?f ?db) parent path c es ?h"
      using C entries_at_mono [OF doc ok le] by (simp add: put_done_def)
    then show "state_db_ok env (?f ?db) \<and> state_db_le ?db (?f ?db) \<and> ?Q ?h (on_state conn ?f d)"
      using le C put_commit_ok [OF ok] by (auto intro!: exI [of _ conn] exI [of _ es])
  qed
  show ?thesis
    unfolding versioned_put_def Let_def
    by (rule triple_bind [OF opened], rule triple_bind [OF val], rule triple_bind [OF entries],
        rule triple_bind [OF snapshot], rule triple_bind [OF commit], rule triple_pure)
qed

end
