(* ===== verification/KvRun.thy ===== *)
theory KvRun
  imports KvLaws MemQueue "HOL-Library.Countable"
begin

text \<open>
  Runs of the key-value worker: its versioned operations as a store of immutable versions, what any
  interleaving of its four loops keeps under any faults, and the answers of puts, lists and deletes.
\<close>

section \<open>The versioned store of a session\<close>

definition kv_ready :: "kv_env \<Rightarrow> string \<Rightarrow> string \<Rightarrow> string \<Rightarrow> kv_world \<Rightarrow> bool" where
  "kv_ready env a s conn w \<longleftrightarrow>
     kv_documented env \<and> kv_fault env = no_fault \<and> kv_states_ok env (sw_data w) \<and>
     kd_state_stores (sw_data w) (kv_cache_key a s) = Some conn"

definition kv_view_of :: "kv_env \<Rightarrow> string \<Rightarrow> kv_world \<Rightarrow> string \<Rightarrow> (string \<Rightarrow> string option) option" where
  "kv_view_of env conn w = kv_view env (state_of conn (sw_data w))"

text \<open>No two of the byte strings the tables hold after the put, or the put hashed, have one hash.\<close>

definition put_fresh ::
    "kv_env \<Rightarrow> string \<Rightarrow> string \<Rightarrow> string \<Rightarrow> string \<Rightarrow> string \<Rightarrow> string \<Rightarrow> kv_world \<Rightarrow> bool" where
  "put_fresh env a s conn parent path c w \<longleftrightarrow>
     (let db = state_of conn (sw_data (snd (versioned_put env a s parent path c w)))
      in \<forall>es. entries_at env db parent es \<longrightarrow> inj_on (kv_sha env) (db_preimages db \<union> put_preimages env es parent path c))"

lemma cached_open: "kd_state_stores (sw_data w) (kv_cache_key a s) = Some conn \<Longrightarrow> get_or_open_state_store env a s w = (Inr conn, w)"
  by (simp add: get_or_open_state_store_def Let_def)

lemma versioned_put_cached:
  assumes "kd_state_stores (sw_data w) (kv_cache_key a s) = Some conn"
  shows "kd_state_stores (sw_data (snd (versioned_put env a s parent path c w))) (kv_cache_key a s) = Some conn \<and>
    kd_stores (sw_data (snd (versioned_put env a s parent path c w))) = kd_stores (sw_data w)"
proof -
  let ?I = "\<lambda>v :: kv_world. kd_state_stores (sw_data v) (kv_cache_key a s) = Some conn \<and> kd_stores (sw_data v) = kd_stores (sw_data w)"
  have e: "epreserves ?I (sql_exec f ctx (on_state k u))" "epreserves ?I (sql_exec f ctx id)" "epreserves ?I (sql_query f ctx q)"
    for f ctx k u and q :: "kv_data \<Rightarrow> 'b"
    by (simp_all add: epreserves_def sql_exec_def sql_query_def sql_def on_state_def split: option.split)
  have g: "epreserves ?I (get_or_open_state_store env a s)"
    by (simp add: epreserves_def cached_open)
  have "epreserves ?I (versioned_put env a s parent path c)"
    unfolding versioned_put_def Let_def parent_entries_def put_value_def put_snapshot_def put_state_commit_def
      get_state_commit_def get_snapshot_def
    by (intro epreserves_rules g e)
  from epreservesD [OF this, of w] assms show ?thesis by simp
qed

lemma versioned_put_returns:
  assumes "kv_ready env a s conn w" and "kv_view_of env conn w parent = Some m"
  shows "\<exists>h w'. versioned_put env a s parent path c w = (Inr h, w')"
proof -
  have f: "kv_fault env = no_fault" and conn: "kd_state_stores (sw_data w) (kv_cache_key a s) = Some conn"
    using assms(1) by (simp_all add: kv_ready_def)
  show ?thesis
  proof (cases "parent = []")
    case True
    then show ?thesis
      by (simp add: versioned_put_def Let_def ebind_run cached_open [OF conn] f put_value_def parent_entries_def
          put_snapshot_def put_state_commit_def ebind_run(1) [OF sql_no_fault(3)])
  next
    case False
    then obtain s' p j es where "sd_commits (state_of conn (sw_data w)) parent = Some (s', p)"
        "sd_snapshots (state_of conn (sw_data w)) s' = Some j" "kv_entries_parse env j = Inr es"
      using assms(2) by (auto simp: kv_view_of_def kv_view_def bind_eq_Some_conv)
    with False show ?thesis
      by (simp add: versioned_put_def Let_def ebind_run cached_open [OF conn] f put_value_def parent_entries_def
          put_snapshot_def put_state_commit_def get_state_commit_def get_snapshot_def
          ebind_run(1) [OF sql_no_fault(3)] ebind_run(1) [OF sql_no_fault(2)])
  qed
qed

interpretation kv: versioned_files "kv_ready env a s conn" "kv_view_of env conn" "put_fresh env a s conn"
    "versioned_put env a s" for env a s conn
proof
  fix w h p c g and m :: "string \<Rightarrow> string option"
  assume ready: "kv_ready env a s conn w"
  then have doc: "kv_documented env" and ok: "kv_states_ok env (sw_data w)" and f: "kv_fault env = no_fault"
      and conn: "kd_state_stores (sw_data w) (kv_cache_key a s) = Some conn"
    by (simp_all add: kv_ready_def)
  obtain r w' where run: "versioned_put env a s h p c w = (r, w')" by fastforce
  note after = tripleD [OF triple_versioned_put [OF doc] run ok TrueI]
  have conn': "kd_state_stores (sw_data w') (kv_cache_key a s) = Some conn"
    using versioned_put_cached [OF conn, of env h p c] run by simp
  show "kv_ready env a s conn (snd (versioned_put env a s h p c w))"
    using doc f after(1) conn' run by (simp add: kv_ready_def)
  have dbs: "state_db_ok env (state_of conn (sw_data w))" "state_db_le (state_of conn (sw_data w)) (state_of conn (sw_data w'))"
    using ok after(2) by (simp_all add: kv_states_ok_def kv_grows_def)
  show "kv_view_of env conn (snd (versioned_put env a s h p c w)) g = Some m" if "kv_view_of env conn w g = Some m"
    using that kv_view_mono [OF doc dbs] run by (simp add: kv_view_of_def)
  show "\<exists>h' w'. versioned_put env a s h p c w = (Inr h', w') \<and> kv_view_of env conn w' h' = Some (m(p \<mapsto> c))"
    if view: "kv_view_of env conn w h = Some m" and fresh: "put_fresh env a s conn h p c w"
  proof -
    obtain h' where r: "r = Inr h'" using versioned_put_returns [OF ready view, of p c] run by auto
    from after(3) [OF r] conn' obtain es where d: "put_done env (state_of conn (sw_data w')) h p c es h'" by auto
    let ?db = "state_of conn (sw_data w')"
    have ok': "state_db_ok env ?db" using after(1) by (simp add: kv_states_ok_def)
    have es: "entries_at env ?db h es" using d by (simp add: put_done_def)
    have "inj_on (kv_sha env) (db_preimages ?db \<union> put_preimages env es h p c)"
      using fresh es run by (simp add: put_fresh_def Let_def)
    with d es have "kv_view env ?db h' = Some ((\<lambda>q. Option.bind (map_of es q) (sd_values ?db))(p \<mapsto> c))"
      unfolding put_done_def entries_at_def by (elim conjE) (simp only: view_of_put [OF doc ok'])
    moreover have "kv_view env ?db h = Some m"
      using view kv_view_mono [OF doc dbs] by (simp add: kv_view_of_def)
    ultimately show ?thesis using es run r by (simp add: kv_view_of_def entries_at_def)
  qed
qed

text \<open>A sequence of puts, each on the version the one before returned.\<close>

primrec put_all :: "kv_env \<Rightarrow> string \<Rightarrow> string \<Rightarrow> string \<Rightarrow> (string \<times> string) list \<Rightarrow> string kv_eff" where
  "put_all env a s h [] = eret h"
| "put_all env a s h (w # ws) =
     ebind (versioned_put env a s h (fst w) (snd w)) (\<lambda>h'. put_all env a s h' ws)"

lemma put_all_chain: "put_all env a s h ws w = kv.chain env a s h ws w"
  by (induction ws arbitrary: h w) (auto simp: ebind_def split: prod.split sum.split)

lemma versioned_get_view:
  assumes ready: "kv_ready env a s conn w" and view: "kv_view_of env conn w h = Some m" and "h \<noteq> []"
  shows "fst (versioned_get env a s h p w) = Inr (m p)"
    and "fst (versioned_list env a s h pre w) = Inr (sorted_list_of_set {q \<in> dom m. starts_with q pre})"
    and "finite (dom m)"
proof -
  have f: "kv_fault env = no_fault" and conn: "kd_state_stores (sw_data w) (kv_cache_key a s) = Some conn"
      and doc: "kv_documented env" and ok: "state_db_ok env (state_of conn (sw_data w))"
    using ready by (simp_all add: kv_ready_def kv_states_ok_def)
  obtain s' p' j es where c: "sd_commits (state_of conn (sw_data w)) h = Some (s', p')"
      "sd_snapshots (state_of conn (sw_data w)) s' = Some j" "kv_entries_parse env j = Inr es"
      and m: "m = (\<lambda>p. Option.bind (map_of es p) (sd_values (state_of conn (sw_data w))))"
    using view \<open>h \<noteq> []\<close> by (auto simp: kv_view_of_def kv_view_def bind_eq_Some_conv)
  have es: "distinct (map fst es)" "snd ` set es \<subseteq> dom (sd_values (state_of conn (sw_data w)))"
    using snapshot_entries [OF doc ok c(1) refl] c(2,3) by (simp_all add: entries_at_def)
  show "fst (versioned_get env a s h p w) = Inr (m p)"
    using c by (simp add: versioned_get_def state_entries_def ebind_run cached_open [OF conn] f m
        get_state_commit_def get_snapshot_def get_value_def ebind_assoc
        ebind_run(1) [OF sql_no_fault(3)] ebind_run(1) [OF sql_no_fault(2)] split: option.split)
  have "dom m = fst ` set es"
  proof (intro set_eqI iffI)
    fix q assume "q \<in> fst ` set es"
    then obtain v where v: "map_of es q = Some v" using weak_map_of_SomeI by fastforce
    then have "v \<in> snd ` set es" by (force dest: map_of_SomeD)
    then show "q \<in> dom m" using es(2) v by (auto simp: m dom_def)
  qed (force simp: m bind_eq_Some_conv dest: map_of_SomeD)
  then show "finite (dom m)" by simp
  from \<open>dom m = _\<close> have "{q \<in> dom m. starts_with q pre} = set (filter (\<lambda>q. starts_with q pre) (map fst es))" by auto
  moreover have "distinct (filter (\<lambda>q. starts_with q pre) (map fst es))" using es(1) by simp
  ultimately have "sorted_list_of_set {q \<in> dom m. starts_with q pre} = sort (filter (\<lambda>q. starts_with q pre) (map fst es))"
    by (metis sorted_list_of_set_sort_remdups distinct_remdups_id)
  then show "fst (versioned_list env a s h pre w) = Inr (sorted_list_of_set {q \<in> dom m. starts_with q pre})"
    using c by (simp add: versioned_list_def state_entries_def ebind_run cached_open [OF conn] f
        get_state_commit_def get_snapshot_def ebind_assoc
        ebind_run(1) [OF sql_no_fault(3)] ebind_run(1) [OF sql_no_fault(2)])
qed

lemma versioned_put_nonempty:
  "kv_documented env \<Longrightarrow> versioned_put env a s h p c w = (Inr h', w') \<Longrightarrow> h' \<noteq> []"
  by (auto simp: versioned_put_def ebind_Inr Let_def hash_state_commit_def hash_value_def kv_sha_nonempty)

lemma put_all_nonempty:
  "kv_documented env \<Longrightarrow> put_all env a s h ws w = (Inr h', w') \<Longrightarrow> ws \<noteq> [] \<Longrightarrow> h' \<noteq> []"
proof (induction ws arbitrary: h w)
  case (Cons p ws)
  then show ?case by (cases "ws = []") (auto simp: ebind_Inr dest: versioned_put_nonempty)
qed simp

primrec puts_fresh :: "kv_env \<Rightarrow> string \<Rightarrow> string \<Rightarrow> string \<Rightarrow> string \<Rightarrow> (string \<times> string) list \<Rightarrow> kv_world \<Rightarrow> bool" where
  "puts_fresh env a s conn h [] w = True"
| "puts_fresh env a s conn h (p # ws) w =
     (put_fresh env a s conn h (fst p) (snd p) w \<and>
      (case versioned_put env a s h (fst p) (snd p) w of
         (Inl e, w') \<Rightarrow> True
       | (Inr h', w') \<Rightarrow> puts_fresh env a s conn h' ws w'))"

lemma puts_fresh_chain: "puts_fresh env a s conn h ws w = kv.fresh_chain env a s conn h ws w"
  by (induction ws arbitrary: h w) (auto split: prod.split sum.split)

section \<open>Interleavings\<close>

text \<open>Worlds the four loops reach, one turn at a time, over any queue, requests and database faults.\<close>

inductive kv_steps :: "kv_env \<Rightarrow> 'q mq_ops \<Rightarrow> 'q \<times> kv_world \<Rightarrow> 'q \<times> kv_world \<Rightarrow> bool"
  for env :: kv_env and mq :: "'q mq_ops" and x :: "'q \<times> kv_world" where
  refl: "kv_steps env mq x x"
| others: "kv_steps env mq x (q, w) \<Longrightarrow> kv_steps env mq x (q', w)"
| turn: "kv_steps env mq x y \<Longrightarrow> kv_turn env mq new_id elapsed_ms op y = Some z \<Longrightarrow> kv_steps env mq x z"

definition kv_kept :: "kv_env \<Rightarrow> kv_world \<Rightarrow> kv_world \<Rightarrow> bool" where
  "kv_kept env w w' \<longleftrightarrow>
     (kv_states_ok env (sw_data w) \<longrightarrow> kv_states_ok env (sw_data w') \<and> kv_grows (sw_data w) (sw_data w'))"

lemma kv_kept_trans: "kv_kept env a b \<Longrightarrow> kv_kept env b c \<Longrightarrow> kv_kept env a c"
  unfolding kv_kept_def by (blast intro: kv_grows_trans)

lemma kv_kept_refl [simp]: "kv_kept env w w" by (simp add: kv_kept_def)

lemma triple_kept: "triple env (\<lambda>_. True) m Q \<Longrightarrow> kv_kept env w (snd (m w))"
  unfolding triple_def kv_kept_def by (metis prod.collapse)

lemma still_kept: "still m \<Longrightarrow> kv_kept env w (snd (m w))"
  by (rule triple_kept, rule triple_still [where Q = "\<lambda>_ _. True"]) auto

lemma still_files:
  "still (put_file env c p x)" "still (get_file env c p)" "still (delete_file env c p)" "still (list_files env c p)"
  unfolding put_file_def get_file_def delete_file_def list_files_def by (intro still_rules; simp)+

lemma still_reads:
  "still (state_entries env c h)" "still (get_value env c v)"
  unfolding state_entries_def get_value_def get_state_commit_def get_snapshot_def
  by (intro still_rules | simp add: still_basic split: option.split sum.split)+

lemma still_versioned_reads:
  "still (versioned_get env a s h p)" "still (versioned_list env a s h pre)"
  unfolding versioned_get_def versioned_list_def
  by (intro still_rules still_open_state still_reads | simp add: still_basic still_reads split: option.split)+

lemma reply_kept: "still m \<Longrightarrow> kv_kept env w (snd (reply ok m w))"
  using still_kept [of m env w] by (auto simp: reply_def split: prod.split sum.split)

lemma handlers_kept:
  assumes "kv_documented env"
  shows "kv_kept env w (snd (handle_get env a s b st w))" "kv_kept env w (snd (handle_list env a s b st w))"
    "kv_kept env w (snd (handle_delete env a s b w))" "kv_kept env w (snd (handle_put env a s b st w))"
proof -
  show "kv_kept env w (snd (handle_get env a s b st w))" "kv_kept env w (snd (handle_list env a s b st w))"
    "kv_kept env w (snd (handle_delete env a s b w))"
    by (auto simp: handle_get_def handle_list_def handle_delete_def split: sum.split
        intro!: reply_kept still_versioned_reads still_rules still_open_files still_files)
  have put_f: "kv_kept env w (snd (ebind (get_or_open env a s) (\<lambda>store. put_file env store p c) w))" for p c
    by (intro still_kept still_rules still_open_files still_files)
  have put: "kv_kept env w1 (snd (versioned_put env a s h p c w1))" for h p c w1
    by (rule triple_kept [OF triple_versioned_put [OF assms]])
  have both: "kv_kept env w (snd (versioned_put env a s h p c w1))"
    if "ebind (get_or_open env a s) (\<lambda>store. put_file env store p c) w = (r, w1)" for h p c r w1
    using put_f [of p c] put [of w1 h p c] that by (auto intro: kv_kept_trans)
  show "kv_kept env w (snd (handle_put env a s b st w))"
    using put_f both
    by (auto simp: handle_put_def split: sum.split prod.split option.split) (metis snd_conv)+
qed

lemma kv_turn_kept:
  assumes "kv_documented env" and "kv_turn env mq new_id elapsed_ms op (q, w) = Some (q', w')"
  shows "kv_kept env w w'"
proof -
  obtain r q1 where recv: "mq_receive_request mq (kv_service env) op q = (r, q1)" by fastforce
  show ?thesis
  proof (cases r)
    case (Inl e)
    then show ?thesis using assms(2) recv by (simp add: kv_turn_def)
  next
    case (Inr m)
    then show ?thesis
      using assms(2) recv handlers_kept [OF assms(1)]
      by (cases op)
        (auto simp: kv_turn_def process_get_request_def process_put_request_def process_list_request_def
          process_delete_request_def Let_def split: prod.splits; metis snd_conv)+
  qed
qed

section \<open>Listing\<close>

lemma list_pattern_plain: "d \<noteq> [] \<Longrightarrow> last d \<noteq> CHR ''/'' \<Longrightarrow> list_pattern d = (d @ ''/'') @ ''%''"
  by (cases d rule: rev_cases) (auto simp: list_pattern_def)

section \<open>Runs without faults\<close>

lemma map_of_delete: "map_of (filter (\<lambda>r. fst r \<noteq> p) rows) = (map_of rows)(p := None)"
  by (induction rows) (auto simp: fun_eq_iff)

lemma map_of_replace: "[p \<mapsto> c] ++ map_of (filter (\<lambda>r. fst r \<noteq> p) rows) = (map_of rows)(p \<mapsto> c)"
  by (rule ext) (simp add: map_of_delete map_add_def split: option.split)

lemma cached_files: "kd_stores (sw_data w) (kv_cache_key a s) = Some store \<Longrightarrow> get_or_open env a s w = (Inr store, w)"
  by (simp add: get_or_open_def Let_def)

lemma files_of_on_files [simp]: "files_of c (on_files c' f d) = (if c = c' then f (files_of c d) else files_of c d)"
  by (simp add: files_of_def on_files_def)

lemma files_of_on_state [simp]: "files_of c (on_state c' f d) = files_of c d"
  by (simp add: files_of_def on_state_def)

lemma on_files_frame [simp]: "kd_state_stores (on_files c f d) = kd_state_stores d" "kd_stores (on_files c f d) = kd_stores d"
  by (simp_all add: on_files_def)

lemma put_file_run:
  assumes "kv_fault env = no_fault" and "kd_stores (sw_data w) (kv_cache_key a s) = Some store"
  shows "\<exists>w'. ebind (get_or_open env a s) (\<lambda>store. put_file env store p c) w = (Inr (), w') \<and>
    map_of (files_of store (sw_data w')) = (map_of (files_of store (sw_data w)))(p \<mapsto> c) \<and>
    (\<forall>k. state_of k (sw_data w') = state_of k (sw_data w)) \<and>
    kd_state_stores (sw_data w') = kd_state_stores (sw_data w)"
  by (simp add: ebind_run cached_files [OF assms(2)] put_file_def assms(1) map_of_replace)

lemma versioned_put_unknown:
  assumes "kv_fault env = no_fault" and "kd_state_stores (sw_data w) (kv_cache_key a s) = Some conn"
    and "parent \<noteq> []" and "sd_commits (state_of conn (sw_data w)) parent = None"
  shows "\<exists>w'. versioned_put env a s parent p c w = (Inl (''unknown parent state: '' @ parent), w') \<and>
    (\<forall>k. files_of k (sw_data w') = files_of k (sw_data w)) \<and>
    state_of conn (sw_data w') = (state_of conn (sw_data w))\<lparr>sd_values :=
      insert_or_ignore (hash_value env c) c (sd_values (state_of conn (sw_data w)))\<rparr>"
  using assms(3,4)
  by (simp add: versioned_put_def Let_def ebind_run cached_open [OF assms(2)] assms(1) put_value_def parent_entries_def
      get_state_commit_def ebind_assoc ebind_run(1) [OF sql_no_fault(3)] ebind_run(1) [OF sql_no_fault(2)])

section \<open>A concrete session\<close>

text \<open>
  Codes that satisfy the hypotheses on SHA-256 and serde: the position of the argument in an
  enumeration, in decimal.
\<close>

definition code_of :: "'a :: countable \<Rightarrow> string" where
  "code_of x = show_nat (to_nat x)"

definition example_kv :: kv_env where
  "example_kv =
     \<lparr>kv_sha = code_of, kv_entries_json = code_of,
      kv_entries_parse = (\<lambda>j. Inr (from_nat (the (parse_digits j)))),
      kv_fault = no_fault, kv_scan = (\<lambda>xs. xs), kv_agents = (\<lambda>_. None), kv_temp_dir = ''/tmp'',
      kv_service = SbKv ObjSqlite,
      kv_parse_get = (\<lambda>_. Inr ''/a''), kv_parse_put = (\<lambda>_. Inr (''/a'', ''9'')), kv_parse_list = (\<lambda>_. Inr ''/''),
      kv_parse_delete = (\<lambda>_. Inr ''/a''), kv_state_json = (\<lambda>s. s), kv_strings_json = concat\<rparr>"

definition example_world :: "(string \<times> string) list \<Rightarrow> kv_world" where
  "example_world files =
     \<lparr>sw_tick = 0,
      sw_data = \<lparr>kd_objects = [''objects.db'' \<mapsto> files], kd_states = Map.empty,
                 kd_stores = [kv_cache_key ''todo'' ''s1'' \<mapsto> ''objects.db''],
                 kd_state_stores = [kv_cache_key ''todo'' ''s1'' \<mapsto> ''state.db'']\<rparr>\<rparr>"

definition example_kv_key :: data_routing_key where
  "example_kv_key =
     \<lparr>dk_session = ''s1'', dk_branch = 1, dk_submission = ''sub'',
      dk_kind = DkRequest ''todo'' (SbKv ObjSqlite) OpPut 1\<rparr>"

definition example_kv_msg :: "string \<Rightarrow> request_message" where
  "example_kv_msg state =
     \<lparr>rq_id = ''r1'', rq_dag_id = ''d1'', rq_dag_parent = ''d0'', rq_state = Some state,
      rq_diagnostics = \<lparr>rqd_sequence = 1, rqd_endpoint = ''/put'', rqd_request_bytes = 0, rqd_received_at_ms = 0\<rparr>,
      rq_payload = [], rq_checkpoint = None\<rparr>"

lemma code_of_inj: "inj code_of"
  by (rule injI) (metis code_of_def parse_digits_show option.inject from_nat_to_nat)

lemma example_documented: "kv_documented example_kv"
proof -
  have "CHR '':'' \<notin> set (show_nat n)" for n by (simp add: char_digit_def)
  then show ?thesis by (simp add: kv_documented_def example_kv_def code_of_def del: set_show_nat)
qed

lemma example_ready: "kv_ready example_kv ''todo'' ''s1'' ''state.db'' (example_world files)"
  by (simp add: kv_ready_def example_documented)
    (simp add: example_kv_def example_world_def kv_states_ok_def state_of_def)

lemma example_fresh: "put_fresh example_kv a s conn parent p c w"
proof -
  have "inj (kv_sha example_kv)" using code_of_inj by (simp add: example_kv_def)
  then show ?thesis unfolding put_fresh_def Let_def by (blast intro: inj_on_subset)
qed

lemma example_puts_fresh: "puts_fresh example_kv a s conn h ws w"
  by (induction ws arbitrary: h w) (auto simp: example_fresh split: prod.split sum.split)

lemma example_first_put:
  "\<exists>h w. versioned_put example_kv ''todo'' ''s1'' [] p c (example_world files) = (Inr h, w) \<and> h \<noteq> [] \<and>
     kd_stores (sw_data w) (kv_cache_key ''todo'' ''s1'') = Some ''objects.db'' \<and>
     kv_ready example_kv ''todo'' ''s1'' ''state.db'' w \<and> kv_view_of example_kv ''state.db'' w h = Some [p \<mapsto> c]"
proof -
  have "kv_view_of example_kv ''state.db'' (example_world files) [] = Some Map.empty"
    by (simp add: kv_view_of_def kv_view_def)
  from kv.put_Inr [OF example_ready this example_fresh] obtain h w
    where run: "versioned_put example_kv ''todo'' ''s1'' [] p c (example_world files) = (Inr h, w)"
      and view: "kv_view_of example_kv ''state.db'' w h = Some [p \<mapsto> c]" by blast
  have "kd_stores (sw_data w) (kv_cache_key ''todo'' ''s1'') = Some ''objects.db''"
    using versioned_put_cached [of "example_world files" "''todo''" "''s1''" "''state.db''" example_kv "[]" p c] run
    by (simp add: example_world_def)
  then show ?thesis
    using run view versioned_put_nonempty [OF example_documented run] kv.ok_put [OF example_ready, of "[]" p c files] by simp
qed

section \<open>Properties\<close>

text \<open>
  C12: the versioned store of a session is a persistent map.  A sequence of puts, each on the version the
  one before returned, returns a version whose files are the starting files with the puts applied in
  order: every get reads that map, every list its keys with the prefix, sorted.  What any earlier
  version reads is not changed by any of them.  The hashed byte strings must not collide.
\<close>

theorem versioned_puts_refine_map:
  assumes "kv_ready env a s conn w" and "kv_view_of env conn w h = Some m"
    and "puts_fresh env a s conn h ws w" and "ws \<noteq> []"
    and "g \<noteq> []" and "kv_view_of env conn w g = Some old"
  shows "\<exists>h' w'. put_all env a s h ws w = (Inr h', w') \<and>
    fst (versioned_get env a s h' p w') = Inr ((m ++ map_of (rev ws)) p) \<and>
    fst (versioned_list env a s h' pre w') = Inr (sorted_list_of_set {q \<in> dom (m ++ map_of (rev ws)). starts_with q pre}) \<and>
    fst (versioned_get env a s g p w') = Inr (old p) \<and>
    fst (versioned_list env a s g pre w') = Inr (sorted_list_of_set {q \<in> dom old. starts_with q pre})"
proof -
  have "kv.fresh_chain env a s conn h ws w" using assms(3) by (simp add: puts_fresh_chain)
  from kv.chain_view [OF assms(1,2) this] obtain h' w' where run: "put_all env a s h ws w = (Inr h', w')"
      and view: "kv_view_of env conn w' h' = Some (m ++ map_of (rev ws))"
    unfolding put_all_chain by blast
  have ready: "kv_ready env a s conn w'" and old: "kv_view_of env conn w' g = Some old"
    using kv.chain_keeps [OF assms(1), of h ws] run assms(6) by (simp_all add: put_all_chain)
  have "h' \<noteq> []" using put_all_nonempty [OF _ run assms(4)] assms(1) by (simp add: kv_ready_def)
  with run versioned_get_view [OF ready view] versioned_get_view [OF ready old assms(5)] show ?thesis by blast
qed

theorem versioned_puts_refine_map_witness:
  "\<exists>h1 w1 h2 w2. versioned_put example_kv ''todo'' ''s1'' [] ''/a'' ''1'' (example_world []) = (Inr h1, w1) \<and>
     put_all example_kv ''todo'' ''s1'' h1 [(''/b'', ''2''), (''/a'', ''3'')] w1 = (Inr h2, w2) \<and>
     fst (versioned_get example_kv ''todo'' ''s1'' h2 ''/a'' w2) = Inr (Some ''3'') \<and>
     fst (versioned_get example_kv ''todo'' ''s1'' h1 ''/a'' w2) = Inr (Some ''1'')"
proof -
  obtain h1 w1 where run: "versioned_put example_kv ''todo'' ''s1'' [] ''/a'' ''1'' (example_world []) = (Inr h1, w1)"
      and ready: "kv_ready example_kv ''todo'' ''s1'' ''state.db'' w1" and "h1 \<noteq> []"
      and view: "kv_view_of example_kv ''state.db'' w1 h1 = Some [''/a'' \<mapsto> ''1'']"
    using example_first_put by blast
  have "[(''/b'', ''2''), (''/a'', ''3'')] \<noteq> []" by simp
  from versioned_puts_refine_map [OF ready view example_puts_fresh this \<open>h1 \<noteq> []\<close> view,
      where p = "''/a''" and pre = "[]"]
  show ?thesis using run by (elim exE conjE) (auto simp del: put_all.simps)
qed

text \<open>
  C13: whatever requests the four loops of the worker serve, in whatever interleaving, and whichever
  statements the database rejects on the way, no version store loses its integrity (every commit has
  its snapshot and its parent, every snapshot its values, each under its own hash), and every version
  that could be read can still be read, with the same files.
\<close>

theorem kv_versions_immutable:
  assumes "kv_documented env" and "kv_states_ok env (sw_data w)" and "kv_steps env mq (q, w) (q', w')"
    and "kv_view env (state_of conn (sw_data w)) h = Some m"
  shows "kv_states_ok env (sw_data w') \<and> kv_view env (state_of conn (sw_data w')) h = Some m"
proof -
  have "kv_kept env w (snd z)" if "kv_steps env mq (q, w) z" for z
    using that
  proof (induction rule: kv_steps.induct)
    case (turn y new_id elapsed_ms op z)
    then show ?case using kv_turn_kept [OF assms(1)] kv_kept_trans by (metis prod.collapse)
  qed simp_all
  from this [OF assms(3)] have kept: "kv_states_ok env (sw_data w')" "kv_grows (sw_data w) (sw_data w')"
    using assms(2) by (simp_all add: kv_kept_def)
  then show ?thesis
    using kv_view_mono [OF assms(1) _ _ assms(4)] assms(2) by (simp add: kv_states_ok_def kv_grows_def)
qed

theorem kv_versions_immutable_witness:
  "\<exists>h1 w1 q2 w2. versioned_put example_kv ''todo'' ''s1'' [] ''/a'' ''1'' (example_world []) = (Inr h1, w1) \<and>
     process_put_request example_kv (mem_mq_ops (\<lambda>_ n. [0..<n])) ''m1'' 7 example_kv_key (example_kv_msg h1) noop_ack (mem_queue_new, w1) = Some (q2, w2) \<and>
     kv_view example_kv (state_of ''state.db'' (sw_data w2)) h1 = Some [''/a'' \<mapsto> ''1'']"
proof -
  obtain h1 w1 where run: "versioned_put example_kv ''todo'' ''s1'' [] ''/a'' ''1'' (example_world []) = (Inr h1, w1)"
      and ready: "kv_ready example_kv ''todo'' ''s1'' ''state.db'' w1"
      and view: "kv_view_of example_kv ''state.db'' w1 h1 = Some [''/a'' \<mapsto> ''1'']"
    using example_first_put by blast
  have "\<exists>q2 w2. process_put_request example_kv (mem_mq_ops (\<lambda>_ n. [0..<n])) ''m1'' 7 example_kv_key (example_kv_msg h1) noop_ack (mem_queue_new, w1) = Some (q2, w2)"
    by (simp add: process_put_request_def kv_answer_def response_key_from_request_def example_kv_key_def Let_def split_beta)
  then obtain q2 w2 where put: "process_put_request example_kv (mem_mq_ops (\<lambda>_ n. [0..<n])) ''m1'' 7 example_kv_key (example_kv_msg h1) noop_ack (mem_queue_new, w1) = Some (q2, w2)"
    by blast
  let ?mq = "(mem_mq_ops (\<lambda>_ n. [0..<n]))\<lparr>mq_receive_request := \<lambda>_ _ q. (Inr (example_kv_key, example_kv_msg h1, noop_ack), q)\<rparr>"
  have "mq_send_response ?mq = mq_send_response (mem_mq_ops (\<lambda>_ n. [0..<n]))" by simp
  then have "process_put_request example_kv ?mq ''m1'' 7 example_kv_key (example_kv_msg h1) noop_ack (mem_queue_new, w1) = Some (q2, w2)"
    using put unfolding process_put_request_def kv_answer_def by (simp only:)
  then have "kv_turn example_kv ?mq ''m1'' 7 OpPut (mem_queue_new, w1) = Some (q2, w2)"
    by (simp add: kv_turn_def)
  then have "kv_steps example_kv ?mq (mem_queue_new, w1) (q2, w2)" by (rule kv_steps.turn [OF kv_steps.refl])
  from kv_versions_immutable [OF example_documented _ this, of "''state.db''" h1] ready view
  show ?thesis using run put by (auto simp: kv_ready_def kv_view_of_def)
qed

text \<open>
  A put whose envelope names a version the store does not know fails only after the unversioned
  file has been overwritten: the response says so in its payload, with status 200 and the request's
  version, and the version store has gained nothing but the value.
\<close>

theorem put_on_unknown_version:
  assumes "kv_fault env = no_fault" and "kv_parse_put env (rq_payload msg) = Inr (path, c)"
    and "rq_state msg = Some parent" and "parent \<noteq> []"
    and "kd_stores (sw_data w) (kv_cache_key agent (dk_session key)) = Some store"
    and "kd_state_stores (sw_data w) (kv_cache_key agent (dk_session key)) = Some conn"
    and "sd_commits (state_of conn (sw_data w)) parent = None"
    and "dk_kind key = DkRequest agent service operation sequence"
  shows "\<exists>q' w'. process_put_request env mq new_id elapsed_ms key msg ack (q, w) = Some (q', w') \<and>
    kv_answer mq key (kv_response env new_id elapsed_ms OpPut msg (Some parent) (''[error] unknown parent state: '' @ parent)) ack q = Some q' \<and>
    map_of (files_of store (sw_data w')) path = Some c \<and>
    sd_commits (state_of conn (sw_data w')) = sd_commits (state_of conn (sw_data w)) \<and>
    sd_snapshots (state_of conn (sw_data w')) = sd_snapshots (state_of conn (sw_data w))"
proof -
  let ?s = "dk_session key"
  obtain w1 where w1: "ebind (get_or_open env agent ?s) (\<lambda>store. put_file env store path c) w = (Inr (), w1)"
      "map_of (files_of store (sw_data w1)) path = Some c" "\<forall>k. state_of k (sw_data w1) = state_of k (sw_data w)"
      "kd_state_stores (sw_data w1) = kd_state_stores (sw_data w)"
    using put_file_run [OF assms(1,5), of path c] by auto
  obtain w2 where w2: "versioned_put env agent ?s parent path c w1 = (Inl (''unknown parent state: '' @ parent), w2)"
      "\<forall>k. files_of k (sw_data w2) = files_of k (sw_data w1)"
      "state_of conn (sw_data w2) = (state_of conn (sw_data w1))\<lparr>sd_values :=
         insert_or_ignore (hash_value env c) c (sd_values (state_of conn (sw_data w1)))\<rparr>"
    using versioned_put_unknown [OF assms(1), of w1 agent ?s conn parent path c] assms(4,6,7) w1 by auto
  have "handle_put env agent ?s (rq_payload msg) (Some parent) w = ((''[error] unknown parent state: '' @ parent, None), w2)"
    using w1(1) w2(1) by (simp add: handle_put_def assms(2))
  moreover have "extract_agent_session key = (agent, ?s)" by (simp add: extract_agent_session_def assms(8))
  ultimately show ?thesis
    using w1 w2 assms(3,8)
    by (simp add: process_put_request_def Let_def kv_answer_def response_key_from_request_def)
qed

theorem put_on_unknown_version_witness:
  "\<exists>q' w'. process_put_request example_kv (mem_mq_ops (\<lambda>_ n. [0..<n])) ''m1'' 7 example_kv_key (example_kv_msg ''lost'')
       noop_ack (mem_queue_new, example_world [(''/a'', ''1'')]) = Some (q', w') \<and>
     map_of (files_of ''objects.db'' (sw_data w')) ''/a'' = Some ''9''"
  using put_on_unknown_version [of example_kv "example_kv_msg ''lost''" "''/a''" "''9''" "''lost''"
      "example_world [(''/a'', ''1'')]" "''todo''" example_kv_key "''objects.db''" "''state.db''" "SbKv ObjSqlite" OpPut 1
      "mem_mq_ops (\<lambda>_ n. [0..<n])" "''m1''" 7 noop_ack mem_queue_new]
  by (auto simp: example_kv_def example_kv_msg_def example_kv_key_def example_world_def state_of_def state_db_empty_def)

text \<open>
  The two listings disagree on what a directory is.  The unversioned listing of \<open>dir\<close> returns the
  stored paths that continue \<open>dir\<close> and a slash, up to the case of ASCII letters; the versioned listing
  returns the paths of the version that continue \<open>dir\<close> in any way, sorted.  The first is stated for a
  \<open>dir\<close> without wildcards of SQL's \<open>LIKE\<close>, which the code does not escape.
\<close>

theorem list_directory_spec:
  assumes "kv_ready env a s conn w" and "kv_view_of env conn w h = Some m" and "h \<noteq> []"
    and "\<And>xs. set (kv_scan env xs) = set xs"
    and "dir \<noteq> []" and "last dir \<noteq> CHR ''/''" and "plain_pattern dir"
  shows "\<exists>listed. fst (list_files env store dir w) = Inr listed \<and>
    set listed = {p \<in> fst ` set (files_of store (sw_data w)).
                    length dir < length p \<and> same_ascii_case (dir @ ''/'') (take (Suc (length dir)) p)} \<and>
    fst (versioned_list env a s h dir w) = Inr (sorted_list_of_set {p \<in> dom m. starts_with p dir})"
proof -
  have "plain_pattern (dir @ ''/'')" using assms(7) by (simp add: plain_pattern_def)
  then have like: "sql_like (list_pattern dir) p \<longleftrightarrow>
      length dir < length p \<and> same_ascii_case (dir @ ''/'') (take (Suc (length dir)) p)" for p
    using sql_like_prefix [of "dir @ ''/''" p] by (simp add: list_pattern_plain [OF assms(5,6)] Suc_le_eq)
  have "fst (list_files env store dir w) =
      Inr (kv_scan env (filter (sql_like (list_pattern dir)) (map fst (files_of store (sw_data w)))))"
    using assms(1) by (simp add: kv_ready_def list_files_def ebind_run(1) [OF sql_no_fault(3)])
  then show ?thesis
    using versioned_get_view(2) [OF assms(1-3), of dir] by (auto simp: assms(4) like)
qed

theorem list_directory_spec_witness:
  "\<exists>h w listed. versioned_put example_kv ''todo'' ''s1'' [] ''/notes.txt'' ''1''
       (example_world [(''/NOTES/a'', ''1''), (''/notes.txt'', ''1'')]) = (Inr h, w) \<and>
     fst (list_files example_kv ''objects.db'' ''/notes'' w) = Inr listed \<and>
     ''/notes.txt'' \<notin> set listed \<and>
     fst (versioned_list example_kv ''todo'' ''s1'' h ''/notes'' w) = Inr [''/notes.txt'']"
proof -
  obtain h w where run: "versioned_put example_kv ''todo'' ''s1'' [] ''/notes.txt'' ''1''
       (example_world [(''/NOTES/a'', ''1''), (''/notes.txt'', ''1'')]) = (Inr h, w)"
      and ready: "kv_ready example_kv ''todo'' ''s1'' ''state.db'' w" and "h \<noteq> []"
      and view: "kv_view_of example_kv ''state.db'' w h = Some [''/notes.txt'' \<mapsto> ''1'']"
    using example_first_put by blast
  have scan: "set (kv_scan example_kv xs) = set xs" for xs by (simp add: example_kv_def)
  have dir: "''/notes'' \<noteq> []" "last ''/notes'' \<noteq> CHR ''/''" "plain_pattern ''/notes''"
    by (simp_all add: plain_pattern_def)
  from list_directory_spec [OF ready view \<open>h \<noteq> []\<close> scan dir, of "''objects.db''"] obtain listed
    where l: "fst (list_files example_kv ''objects.db'' ''/notes'' w) = Inr listed"
        "set listed = {p \<in> fst ` set (files_of ''objects.db'' (sw_data w)).
           length ''/notes'' < length p \<and> same_ascii_case (''/notes'' @ ''/'') (take (Suc (length ''/notes'')) p)}"
      and v: "fst (versioned_list example_kv ''todo'' ''s1'' h ''/notes'' w) =
          Inr (sorted_list_of_set {p \<in> dom [''/notes.txt'' \<mapsto> ''1'']. starts_with p ''/notes''})"
    by (elim exE conjE)
  have "\<not> same_ascii_case (''/notes'' @ ''/'') (take (Suc (length ''/notes'')) ''/notes.txt'')" by code_simp
  then have "''/notes.txt'' \<notin> set listed" using l(2) by blast
  moreover have "{p \<in> dom [''/notes.txt'' \<mapsto> ''1'']. starts_with p ''/notes''} = {''/notes.txt''}"
    by (auto simp: starts_with_def)
  ultimately show ?thesis using run l(1) v by simp
qed

text \<open>
  A delete removes a file from the unversioned storage only.  It answers \<open>ok\<close> exactly when the file
  was there, an unversioned get afterwards finds nothing, and every version still returns what it held:
  there is no way to delete a path from a version.
\<close>

theorem delete_is_unversioned:
  assumes "kv_ready env a s conn w" and "kd_stores (sw_data w) (kv_cache_key a s) = Some store"
    and "kv_parse_delete env body = Inr path" and "kv_parse_get env get_body = Inr path"
    and "kv_view_of env conn w h = Some m" and "h \<noteq> []"
  shows "\<exists>w'. handle_delete env a s body w =
      (if map_of (files_of store (sw_data w)) path = None then ''not_found'' else ''ok'', w') \<and>
    fst (handle_get env a s get_body None w') = [] \<and>
    fst (handle_get env a s get_body (Some h) w') = unwrap_or [] (m path)"
proof -
  have f: "kv_fault env = no_fault" and conn: "kd_state_stores (sw_data w) (kv_cache_key a s) = Some conn"
    using assms(1) by (simp_all add: kv_ready_def)
  let ?w = "\<lparr>sw_tick = Suc (sw_tick w), sw_data = on_files store (filter (\<lambda>r. fst r \<noteq> path)) (sw_data w)\<rparr>"
  have present: "path \<in> fst ` set (files_of store (sw_data w)) \<longleftrightarrow> map_of (files_of store (sw_data w)) path \<noteq> None"
    by (simp add: map_of_eq_None_iff)
  have del: "handle_delete env a s body w =
      (if map_of (files_of store (sw_data w)) path = None then ''not_found'' else ''ok'', ?w)"
    by (simp add: handle_delete_def assms(3) reply_def ebind_run cached_files [OF assms(2)] delete_file_def f present)
  have ready: "kv_ready env a s conn ?w" and view: "kv_view_of env conn ?w h = Some m"
    using assms(1,5) by (simp_all add: kv_ready_def kv_states_ok_def kv_view_of_def)
  have store: "kd_stores (sw_data ?w) (kv_cache_key a s) = Some store" using assms(2) by simp
  have "fst (handle_get env a s get_body None ?w) = []"
    by (simp add: handle_get_def assms(4) reply_def ebind_run cached_files [OF store] get_file_def f map_of_delete
        ebind_run(1) [OF sql_no_fault(3)])
  moreover have "fst (handle_get env a s get_body (Some h) ?w) = unwrap_or [] (m path)"
    using versioned_get_view(1) [OF ready view assms(6), of path]
    by (auto simp: handle_get_def assms(4,6) reply_def split: prod.split)
  ultimately show ?thesis using del by blast
qed

theorem delete_is_unversioned_witness:
  "\<exists>h w w'. versioned_put example_kv ''todo'' ''s1'' [] ''/a'' ''1'' (example_world [(''/a'', ''2'')]) = (Inr h, w) \<and>
     snd (handle_delete example_kv ''todo'' ''s1'' [] w) = w' \<and>
     fst (handle_get example_kv ''todo'' ''s1'' [] None w') = [] \<and>
     fst (handle_get example_kv ''todo'' ''s1'' [] (Some h) w') = ''1''"
proof -
  obtain h w where run: "versioned_put example_kv ''todo'' ''s1'' [] ''/a'' ''1'' (example_world [(''/a'', ''2'')]) = (Inr h, w)"
      and store: "kd_stores (sw_data w) (kv_cache_key ''todo'' ''s1'') = Some ''objects.db''"
      and ready: "kv_ready example_kv ''todo'' ''s1'' ''state.db'' w" and "h \<noteq> []"
      and view: "kv_view_of example_kv ''state.db'' w h = Some [''/a'' \<mapsto> ''1'']"
    using example_first_put by blast
  have "kv_parse_delete example_kv [] = Inr ''/a''" "kv_parse_get example_kv [] = Inr ''/a''"
    by (simp_all add: example_kv_def)
  from delete_is_unversioned [OF ready store this view \<open>h \<noteq> []\<close>] run show ?thesis by auto
qed

end
