(* ===== verification/SqlTables.thy ===== *)
theory SqlTables
  imports Effects DagLaws "HOL-Library.Char_ord" "HOL-Library.List_Lexorder"
begin

text \<open>
  The SQLite database behind the DAG store and the registry (\<open>crates/vlinder-sql-state/src\<close>): one
  record per table (\<open>models.rs\<close>, \<open>schema.rs\<close> and the \<open>CREATE TABLE\<close>s of \<open>dag_store.rs\<close>), the statements
  the store issues with their constraints, and the conversions between rows and domain values.

  Parameters, in \<open>sql_env\<close>: the faults of the database (by the number of the writing statement and
  the context of the statement), serde's and chrono's codecs, the UUID check, the random session id, and
  the order in which a query leaves rows it is not told to order.
\<close>

section \<open>Rows\<close>

record node_row =
  nr_hash :: string
  nr_parent_hash :: "string option"
  nr_message_type :: string
  nr_session_id :: "string option"
  nr_submission_id :: "string option"
  nr_branch_id :: "int option"
  nr_created_at :: string
  nr_protocol_version :: string
  nr_snapshot :: string

record invoke_row =
  ir_dag_hash :: string
  ir_harness :: string
  ir_runtime :: string
  ir_agent :: string
  ir_message_id :: string
  ir_state :: "string option"
  ir_diagnostics :: bytes
  ir_payload :: bytes

record complete_row =
  cr_dag_hash :: string
  cr_agent :: string
  cr_harness :: string
  cr_message_id :: string
  cr_state :: "string option"
  cr_diagnostics :: bytes
  cr_payload :: bytes

record request_row =
  qr_dag_hash :: string
  qr_agent :: string
  qr_service :: string
  qr_operation :: string
  qr_sequence :: int
  qr_message_id :: string
  qr_state :: "string option"
  qr_diagnostics :: bytes
  qr_payload :: bytes
  qr_checkpoint :: "string option"

record response_row =
  pr_dag_hash :: string
  pr_agent :: string
  pr_service :: string
  pr_operation :: string
  pr_sequence :: int
  pr_message_id :: string
  pr_correlation_id :: string
  pr_state :: "string option"
  pr_diagnostics :: bytes
  pr_payload :: bytes
  pr_status_code :: int
  pr_checkpoint :: "string option"

record fork_row =
  fr_dag_hash :: string
  fr_agent :: string
  fr_branch_name :: string
  fr_fork_point :: string
  fr_message_id :: string

record promote_row =
  or_dag_hash :: string
  or_agent :: string
  or_message_id :: string
  or_branch_id :: "int option"

record deploy_row =
  dr_dag_hash :: string
  dr_agent_name :: string
  dr_manifest_json :: string
  dr_message_id :: string

record delete_row =
  er_dag_hash :: string
  er_agent_name :: string
  er_message_id :: string

record svc_request_row =
  sq_dag_hash :: string
  sq_agent :: string
  sq_service_type :: string
  sq_service_backend :: string
  sq_operation :: string
  sq_sequence :: int
  sq_message_id :: string
  sq_tool_call_id :: string
  sq_state :: "string option"
  sq_diagnostics :: "string option"
  sq_arguments :: bytes

record svc_response_row =
  sp_dag_hash :: string
  sp_agent :: string
  sp_service_type :: string
  sp_service_backend :: string
  sp_operation :: string
  sp_sequence :: int
  sp_message_id :: string
  sp_correlation_id :: string
  sp_state :: "string option"
  sp_diagnostics :: "string option"
  sp_payload :: bytes

record branch_row =
  brow_id :: int
  brow_name :: string
  brow_session_id :: string
  brow_fork_point :: "string option"
  brow_head :: "string option"
  brow_created_at :: string
  brow_broken_at :: "string option"

record session_row =
  srow_id :: string
  srow_external_id :: string
  srow_name :: string
  srow_agent_name :: string
  srow_default_branch :: int
  srow_created_at :: string

text \<open>\<open>branches.id\<close> is an autoincrement key: the next id never goes back.\<close>

record dag_db =
  db_sessions :: "session_row list"
  db_branches :: "branch_row list"
  db_next_branch :: int
  db_nodes :: "node_row list"
  db_invokes :: "invoke_row list"
  db_completes :: "complete_row list"
  db_requests :: "request_row list"
  db_responses :: "response_row list"
  db_forks :: "fork_row list"
  db_promotes :: "promote_row list"
  db_deploys :: "deploy_row list"
  db_deletes :: "delete_row list"
  db_svc_requests :: "svc_request_row list"
  db_svc_responses :: "svc_response_row list"

definition dag_db_empty :: dag_db where
  "dag_db_empty =
     \<lparr>db_sessions = [], db_branches = [], db_next_branch = 1, db_nodes = [], db_invokes = [],
      db_completes = [], db_requests = [], db_responses = [], db_forks = [], db_promotes = [],
      db_deploys = [], db_deletes = [], db_svc_requests = [], db_svc_responses = []\<rparr>"

section \<open>The environment\<close>

record sql_env =
  se_fault :: "nat \<Rightarrow> string \<Rightarrow> string option"
  se_time :: "(timestamp, string) codec"
  se_snapshot :: "(snapshot, string) codec"
  se_invoke :: "(invoke_message, bytes) codec"
  se_complete :: "(complete_message, bytes) codec"
  se_invoke_diag :: "(invoke_diagnostics, bytes) codec"
  se_runtime_diag :: "(runtime_diagnostics, bytes) codec"
  se_request_diag :: "(request_diagnostics, bytes) codec"
  se_service_diag :: "(service_diagnostics, bytes) codec"
  se_svc_request_diag :: "(svc_request_diagnostics, string) codec"
  se_svc_response_diag :: "(svc_response_diagnostics, string) codec"
  se_manifest :: "(agent_manifest, string) codec"
  se_is_uuid :: "string \<Rightarrow> bool"
  se_random_session :: session_id
  se_external_id_error :: "external_id_error \<Rightarrow> string"
  se_node_scan :: "node_row list \<Rightarrow> node_row list"
  se_branch_scan :: "branch_row list \<Rightarrow> branch_row list"
  se_group_scan :: "string list \<Rightarrow> string list"

definition time_str :: "sql_env \<Rightarrow> timestamp \<Rightarrow> string" where
  "time_str env t = result_or [] (enc (se_time env) t)"

definition bytes_of :: "('a, 'b list) codec \<Rightarrow> 'a \<Rightarrow> 'b list" where
  "bytes_of c x = result_or [] (enc c x)"

section \<open>Statements\<close>

type_synonym 'a dag_eff = "(dag_db sql_world, 'a) eff"

text \<open>A writing statement: rejected by a fault, by a constraint, or carried out.\<close>

definition stmt :: "sql_env \<Rightarrow> string \<Rightarrow> (dag_db \<Rightarrow> (string, 'a \<times> dag_db) rust_result) \<Rightarrow> 'a dag_eff" where
  "stmt env context f w =
     (let w' = w\<lparr>sw_tick := Suc (sw_tick w)\<rparr>
      in case se_fault env (sw_tick w) context of
           Some e \<Rightarrow> (Inl (context @ e), w')
         | None \<Rightarrow> (case f (sw_data w) of
                     Inl e \<Rightarrow> (Inl (context @ e), w')
                   | Inr (x, d) \<Rightarrow> (Inr x, w'\<lparr>sw_data := d\<rparr>)))"

text \<open>A reading statement leaves the world as it is.\<close>

definition query :: "sql_env \<Rightarrow> string \<Rightarrow> (dag_db \<Rightarrow> 'a) \<Rightarrow> dag_db sql_world \<Rightarrow> (string, 'a) rust_result" where
  "query env context q w =
     (case se_fault env (sw_tick w) context of
        Some e \<Rightarrow> Inl (context @ e)
      | None \<Rightarrow> Inr (q (sw_data w)))"

definition foreign_key_failed :: string where
  "foreign_key_failed = ''FOREIGN KEY constraint failed''"

definition references :: "'k set \<Rightarrow> 'k option \<Rightarrow> bool" where
  "references keys r = (case r of None \<Rightarrow> True | Some k \<Rightarrow> k \<in> keys)"

text \<open>
  \<open>INSERT OR IGNORE INTO dag_nodes\<close>: a row with the same hash is left alone without an error; a new row
  must reference a parent (itself or another), a session and a branch that exist, or none.
\<close>

definition insert_node_row :: "node_row \<Rightarrow> dag_db \<Rightarrow> (string, unit \<times> dag_db) rust_result" where
  "insert_node_row r db =
     (if nr_hash r \<in> nr_hash ` set (db_nodes db) then Inr ((), db)
      else if references (insert (nr_hash r) (nr_hash ` set (db_nodes db))) (nr_parent_hash r) \<and>
              references (srow_id ` set (db_sessions db)) (nr_session_id r) \<and>
              references (brow_id ` set (db_branches db)) (nr_branch_id r)
      then Inr ((), db\<lparr>db_nodes := db_nodes db @ [r]\<rparr>)
      else Inl foreign_key_failed)"

text \<open>
  \<open>INSERT OR IGNORE\<close> into a typed table: a row with the same hash or the same message id is left alone;
  a new one must reference a node.
\<close>

definition insert_typed_row ::
    "('r \<Rightarrow> string) \<Rightarrow> ('r \<Rightarrow> string) \<Rightarrow> (dag_db \<Rightarrow> 'r list) \<Rightarrow> ('r list \<Rightarrow> dag_db \<Rightarrow> dag_db) \<Rightarrow>
     'r \<Rightarrow> dag_db \<Rightarrow> (string, unit \<times> dag_db) rust_result" where
  "insert_typed_row hash_of msg_of get put r db =
     (if hash_of r \<in> hash_of ` set (get db) \<or> msg_of r \<in> msg_of ` set (get db) then Inr ((), db)
      else if hash_of r \<in> nr_hash ` set (db_nodes db) then Inr ((), put (get db @ [r]) db)
      else Inl foreign_key_failed)"

section \<open>Rows and domain values\<close>

definition nil_session :: session_id where
  "nil_session = ''00000000-0000-4000-8000-000000000000''"

definition parent_hash_for_sql :: "dag_node_id \<Rightarrow> string option" where
  "parent_hash_for_sql i = (if i = [] then None else Some i)"

definition session_or :: "sql_env \<Rightarrow> session_id \<Rightarrow> string option \<Rightarrow> session_id" where
  "session_or env d s = unwrap_or d (Option.bind s (\<lambda>s. result_ok (session_id_try_from (se_is_uuid env) s)))"

definition branch_row_to_domain :: "sql_env \<Rightarrow> branch_row \<Rightarrow> branch" where
  "branch_row_to_domain env r =
     \<lparr>br_id = brow_id r, br_name = brow_name r,
      br_session_id = session_or env nil_session (Some (brow_session_id r)),
      br_fork_point = brow_fork_point r, br_head = brow_head r,
      br_broken_at = Option.bind (brow_broken_at r) (\<lambda>s. result_ok (dec (se_time env) s)),
      br_created_at = result_or 0 (dec (se_time env) (brow_created_at r))\<rparr>"

definition session_row_to_domain :: "sql_env \<Rightarrow> session_row \<Rightarrow> (string, session) rust_result" where
  "session_row_to_domain env r =
     (case dec (se_time env) (srow_created_at r) of
        Inl e \<Rightarrow> Inl (''invalid created_at in session row: '' @ e)
      | Inr created_at \<Rightarrow>
          (case external_session_id_new (srow_external_id r) of
             Inl e \<Rightarrow> Inl (''invalid external_id in session row: '' @ se_external_id_error env e)
           | Inr external_id \<Rightarrow>
               (case session_id_try_from (se_is_uuid env) (srow_id r) of
                  Inl e \<Rightarrow> Inl (''invalid id in session row: '' @ e)
                | Inr i \<Rightarrow>
                    Inr \<lparr>se_id = i, se_external_id = external_id, se_name = srow_name r,
                         se_agent = srow_agent_name r, se_default_branch = srow_default_branch r,
                         se_created_at = created_at\<rparr>)))"

definition dag_node_row_to_domain :: "sql_env \<Rightarrow> node_row \<Rightarrow> dag_node" where
  "dag_node_row_to_domain env r =
     \<lparr>dn_id = nr_hash r, dn_parent_id = unwrap_or dag_node_id_root (nr_parent_hash r),
      dn_created_at = result_or 0 (dec (se_time env) (nr_created_at r)),
      dn_state = result_or snapshot_empty (dec (se_snapshot env) (nr_snapshot r)),
      dn_msg_type = result_or MtComplete (message_type_from_str (nr_message_type r)),
      dn_session = session_or env nil_session (nr_session_id r),
      dn_submission = unwrap_or [] (nr_submission_id r),
      dn_branch = unwrap_or 0 (nr_branch_id r), dn_protocol_version = nr_protocol_version r\<rparr>"

definition i32_of_u32 :: "32 word \<Rightarrow> int" where
  "i32_of_u32 n = (if uint n < 2 ^ 31 then uint n else 0)"

definition u32_of_i32 :: "int \<Rightarrow> 32 word" where
  "u32_of_i32 i = (if 0 \<le> i then word_of_int i else 0)"

definition u16_of_i32 :: "int \<Rightarrow> 16 word" where
  "u16_of_i32 i = (if 0 \<le> i \<and> i < 2 ^ 16 then word_of_int i else 200)"

end
