(* ===== verification/SqlDag.thy ===== *)
theory SqlDag
  imports SqlTables
begin

text \<open>
  \<open>SqliteDagStore\<close> (\<open>crates/vlinder-sql-state/src/dag_store.rs\<close>): every method of its \<open>DagStore\<close>
  implementation, as a value of the trait's record.  An insert is two statements under one lock but
  not one transaction: the second may fail after the first has been carried out.
\<close>

section \<open>Inserts\<close>

definition new_node_row ::
    "dag_node_id \<Rightarrow> dag_node_id \<Rightarrow> string \<Rightarrow> string option \<Rightarrow> submission_id \<Rightarrow> branch_id option \<Rightarrow> string \<Rightarrow>
     string \<Rightarrow> string \<Rightarrow> node_row" where
  "new_node_row dag_id parent_id mt session submission branch created_at version snapshot =
     \<lparr>nr_hash = dag_id, nr_parent_hash = parent_hash_for_sql parent_id, nr_message_type = mt,
      nr_session_id = session, nr_submission_id = Some submission, nr_branch_id = branch,
      nr_created_at = created_at, nr_protocol_version = version, nr_snapshot = snapshot\<rparr>"

definition serialize_snapshot :: "sql_env \<Rightarrow> snapshot \<Rightarrow> string dag_eff" where
  "serialize_snapshot env st =
     elift (case enc (se_snapshot env) st of Inl e \<Rightarrow> Inl (''serialize snapshot failed: '' @ e) | Inr j \<Rightarrow> Inr j)"

definition insert_dag_node :: "sql_env \<Rightarrow> node_row \<Rightarrow> unit dag_eff" where
  "insert_dag_node env r = stmt env ''insert dag_nodes failed: '' (insert_node_row r)"

definition sql_insert_invoke_node ::
    "sql_env \<Rightarrow> dag_node_id \<Rightarrow> dag_node_id \<Rightarrow> timestamp \<Rightarrow> snapshot \<Rightarrow> data_routing_key \<Rightarrow> invoke_message \<Rightarrow>
     unit dag_eff" where
  "sql_insert_invoke_node env dag_id parent_id created_at st key msg =
     (case dk_kind key of
        DkInvoke harness runtime agent \<Rightarrow>
          ebind (serialize_snapshot env st) (\<lambda>snapshot_json.
          ebind (insert_dag_node env
                   (new_node_row dag_id parent_id ''invoke'' (Some (dk_session key)) (dk_submission key)
                      (Some (dk_branch key)) (time_str env created_at) ''v1'' snapshot_json)) (\<lambda>_.
            stmt env ''insert invoke_nodes failed: ''
              (insert_typed_row ir_dag_hash ir_message_id db_invokes (\<lambda>rs. db_invokes_update (\<lambda>_. rs))
                 \<lparr>ir_dag_hash = dag_id, ir_harness = harness_as_str harness, ir_runtime = runtime_as_str runtime,
                  ir_agent = agent, ir_message_id = iv_id msg, ir_state = iv_state msg,
                  ir_diagnostics = bytes_of (se_invoke_diag env) (iv_diagnostics msg),
                  ir_payload = bytes_of (se_invoke env) msg\<rparr>)))
      | _ \<Rightarrow> efail ''insert_invoke_node: expected Invoke key'')"

definition sql_insert_complete_node ::
    "sql_env \<Rightarrow> dag_node_id \<Rightarrow> dag_node_id \<Rightarrow> timestamp \<Rightarrow> snapshot \<Rightarrow> session_id \<Rightarrow> submission_id \<Rightarrow> branch_id \<Rightarrow>
     agent_name \<Rightarrow> harness_type \<Rightarrow> complete_message \<Rightarrow> unit dag_eff" where
  "sql_insert_complete_node env dag_id parent_id created_at st session submission branch agent harness msg =
     ebind (serialize_snapshot env st) (\<lambda>snapshot_json.
     ebind (insert_dag_node env
              (new_node_row dag_id parent_id ''complete'' (Some session) submission (Some branch)
                 (time_str env created_at) ''v1'' snapshot_json)) (\<lambda>_.
       stmt env ''insert complete_nodes failed: ''
         (insert_typed_row cr_dag_hash cr_message_id db_completes (\<lambda>rs. db_completes_update (\<lambda>_. rs))
            \<lparr>cr_dag_hash = dag_id, cr_agent = agent, cr_harness = harness_as_str harness,
             cr_message_id = cm_id msg, cr_state = cm_state msg,
             cr_diagnostics = bytes_of (se_runtime_diag env) (cm_diagnostics msg),
             cr_payload = bytes_of (se_complete env) msg\<rparr>)))"

definition sql_insert_request_node ::
    "sql_env \<Rightarrow> dag_node_id \<Rightarrow> dag_node_id \<Rightarrow> timestamp \<Rightarrow> snapshot \<Rightarrow> session_id \<Rightarrow> submission_id \<Rightarrow> branch_id \<Rightarrow>
     agent_name \<Rightarrow> service_backend \<Rightarrow> operation \<Rightarrow> sequence \<Rightarrow> request_message \<Rightarrow> unit dag_eff" where
  "sql_insert_request_node env dag_id parent_id created_at st session submission branch agent service op sequence msg =
     ebind (serialize_snapshot env st) (\<lambda>snapshot_json.
     ebind (insert_dag_node env
              (new_node_row dag_id parent_id ''request'' (Some session) submission (Some branch)
                 (time_str env created_at) ''v1'' snapshot_json)) (\<lambda>_.
       stmt env ''insert request_nodes failed: ''
         (insert_typed_row qr_dag_hash qr_message_id db_requests (\<lambda>rs. db_requests_update (\<lambda>_. rs))
            \<lparr>qr_dag_hash = dag_id, qr_agent = agent, qr_service = service_backend_display service,
             qr_operation = operation_as_str op, qr_sequence = i32_of_u32 sequence,
             qr_message_id = rq_id msg, qr_state = rq_state msg,
             qr_diagnostics = bytes_of (se_request_diag env) (rq_diagnostics msg),
             qr_payload = rq_payload msg, qr_checkpoint = rq_checkpoint msg\<rparr>)))"

definition sql_insert_response_node ::
    "sql_env \<Rightarrow> dag_node_id \<Rightarrow> dag_node_id \<Rightarrow> timestamp \<Rightarrow> snapshot \<Rightarrow> session_id \<Rightarrow> submission_id \<Rightarrow> branch_id \<Rightarrow>
     agent_name \<Rightarrow> service_backend \<Rightarrow> operation \<Rightarrow> sequence \<Rightarrow> response_message \<Rightarrow> unit dag_eff" where
  "sql_insert_response_node env dag_id parent_id created_at st session submission branch agent service op sequence msg =
     ebind (serialize_snapshot env st) (\<lambda>snapshot_json.
     ebind (insert_dag_node env
              (new_node_row dag_id parent_id ''response'' (Some session) submission (Some branch)
                 (time_str env created_at) ''v1'' snapshot_json)) (\<lambda>_.
       stmt env ''insert response_nodes failed: ''
         (insert_typed_row pr_dag_hash pr_message_id db_responses (\<lambda>rs. db_responses_update (\<lambda>_. rs))
            \<lparr>pr_dag_hash = dag_id, pr_agent = agent, pr_service = service_backend_display service,
             pr_operation = operation_as_str op, pr_sequence = i32_of_u32 sequence,
             pr_message_id = rs_id msg, pr_correlation_id = rs_correlation_id msg, pr_state = rs_state msg,
             pr_diagnostics = bytes_of (se_service_diag env) (rs_diagnostics msg),
             pr_payload = rs_payload msg, pr_status_code = uint (rs_status_code msg),
             pr_checkpoint = rs_checkpoint msg\<rparr>)))"

definition sql_insert_svc_request_node ::
    "sql_env \<Rightarrow> dag_node_id \<Rightarrow> dag_node_id \<Rightarrow> timestamp \<Rightarrow> snapshot \<Rightarrow> session_id \<Rightarrow> submission_id \<Rightarrow> branch_id \<Rightarrow>
     agent_name \<Rightarrow> service_backend_v2 \<Rightarrow> service_operation \<Rightarrow> sequence \<Rightarrow> request_v2 \<Rightarrow> unit dag_eff" where
  "sql_insert_svc_request_node env dag_id parent_id created_at st session submission branch agent service op sequence msg =
     ebind (serialize_snapshot env st) (\<lambda>snapshot_json.
     ebind (insert_dag_node env
              (new_node_row dag_id parent_id ''svc_request'' (Some session) submission (Some branch)
                 (time_str env created_at) ''v2'' snapshot_json)) (\<lambda>_.
       stmt env ''insert svc_request_nodes failed: ''
         (insert_typed_row sq_dag_hash sq_message_id db_svc_requests (\<lambda>rs. db_svc_requests_update (\<lambda>_. rs))
            \<lparr>sq_dag_hash = dag_id, sq_agent = agent, sq_service_type = service_backend_v2_type_str service,
             sq_service_backend = service_backend_v2_str service, sq_operation = op,
             sq_sequence = i32_of_u32 sequence, sq_message_id = rq2_id msg,
             sq_tool_call_id = rq2_tool_call_id msg, sq_state = rq2_state msg,
             sq_diagnostics = Some (bytes_of (se_svc_request_diag env) (rq2_diagnostics msg)),
             sq_arguments = rq2_payload msg\<rparr>)))"

definition sql_insert_svc_response_node ::
    "sql_env \<Rightarrow> dag_node_id \<Rightarrow> dag_node_id \<Rightarrow> timestamp \<Rightarrow> snapshot \<Rightarrow> session_id \<Rightarrow> submission_id \<Rightarrow> branch_id \<Rightarrow>
     agent_name \<Rightarrow> service_backend_v2 \<Rightarrow> service_operation \<Rightarrow> sequence \<Rightarrow> response_v2 \<Rightarrow> unit dag_eff" where
  "sql_insert_svc_response_node env dag_id parent_id created_at st session submission branch agent service op sequence msg =
     ebind (serialize_snapshot env st) (\<lambda>snapshot_json.
     ebind (insert_dag_node env
              (new_node_row dag_id parent_id ''svc_response'' (Some session) submission (Some branch)
                 (time_str env created_at) ''v2'' snapshot_json)) (\<lambda>_.
       stmt env ''insert svc_response_nodes failed: ''
         (insert_typed_row sp_dag_hash sp_message_id db_svc_responses (\<lambda>rs. db_svc_responses_update (\<lambda>_. rs))
            \<lparr>sp_dag_hash = dag_id, sp_agent = agent, sp_service_type = service_backend_v2_type_str service,
             sp_service_backend = service_backend_v2_str service, sp_operation = op,
             sp_sequence = i32_of_u32 sequence, sp_message_id = rs2_id msg,
             sp_correlation_id = rs2_correlation_id msg, sp_state = rs2_state msg,
             sp_diagnostics = Some (bytes_of (se_svc_response_diag env) (rs2_diagnostics msg)),
             sp_payload = rs2_payload msg\<rparr>)))"

section \<open>Branches and sessions\<close>

definition find_branch_by_name :: "sql_env \<Rightarrow> string \<Rightarrow> dag_db \<Rightarrow> branch_row option" where
  "find_branch_by_name env name db =
     (case se_branch_scan env (filter (\<lambda>r. brow_name r = name) (db_branches db)) of [] \<Rightarrow> None | r # _ \<Rightarrow> Some r)"

definition sql_get_branch_by_name ::
    "sql_env \<Rightarrow> string \<Rightarrow> dag_db sql_world \<Rightarrow> (string, branch option) rust_result" where
  "sql_get_branch_by_name env name =
     query env ''get_branch_by_name failed: ''
       (\<lambda>db. map_option (branch_row_to_domain env) (find_branch_by_name env name db))"

definition sql_get_branch ::
    "sql_env \<Rightarrow> branch_id \<Rightarrow> dag_db sql_world \<Rightarrow> (string, branch option) rust_result" where
  "sql_get_branch env i =
     query env ''get_branch failed: ''
       (\<lambda>db. map_option (branch_row_to_domain env) (find (\<lambda>r. brow_id r = i) (db_branches db)))"

definition unique_branch_failed :: string where
  "unique_branch_failed = ''UNIQUE constraint failed: branches.name, branches.session_id''"

definition insert_branch_row ::
    "string \<Rightarrow> string \<Rightarrow> session_id \<Rightarrow> dag_node_id option \<Rightarrow> dag_db \<Rightarrow> (string, unit \<times> dag_db) rust_result" where
  "insert_branch_row created_at name session fork_point db =
     (if (name, session) \<in> (\<lambda>r. (brow_name r, brow_session_id r)) ` set (db_branches db) then Inl unique_branch_failed
      else if session \<notin> srow_id ` set (db_sessions db) then Inl foreign_key_failed
      else Inr ((), db\<lparr>db_branches := db_branches db @
             [\<lparr>brow_id = db_next_branch db, brow_name = name, brow_session_id = session,
               brow_fork_point = fork_point, brow_head = None, brow_created_at = created_at,
               brow_broken_at = None\<rparr>],
           db_next_branch := db_next_branch db + 1\<rparr>))"

definition sql_create_branch ::
    "sql_env \<Rightarrow> timestamp \<Rightarrow> string \<Rightarrow> session_id \<Rightarrow> dag_node_id option \<Rightarrow> branch_id dag_eff" where
  "sql_create_branch env now name session fork_point =
     ebind (stmt env ''create_branch failed: '' (insert_branch_row (time_str env now) name session fork_point)) (\<lambda>_ w.
       (query env ''create_branch last_insert_rowid failed: '' (\<lambda>db. db_next_branch db - 1) w, w))"

definition sql_get_branches_for_session ::
    "sql_env \<Rightarrow> session_id \<Rightarrow> dag_db sql_world \<Rightarrow> (string, branch list) rust_result" where
  "sql_get_branches_for_session env session =
     query env ''get_branches_for_session failed: ''
       (\<lambda>db. map (branch_row_to_domain env)
          (sort_key brow_created_at (se_branch_scan env (filter (\<lambda>r. brow_session_id r = session) (db_branches db)))))"

text \<open>\<open>UPDATE\<close> of the row with a primary key: the number of rows it changed.\<close>

definition update_branch_row ::
    "branch_id \<Rightarrow> (branch_row \<Rightarrow> branch_row) \<Rightarrow> dag_db \<Rightarrow> nat \<times> dag_db" where
  "update_branch_row i f db =
     (length (filter (\<lambda>r. brow_id r = i) (db_branches db)),
      db\<lparr>db_branches := map (\<lambda>r. if brow_id r = i then f r else r) (db_branches db)\<rparr>)"

definition rename_branch_row :: "branch_id \<Rightarrow> string \<Rightarrow> dag_db \<Rightarrow> (string, nat \<times> dag_db) rust_result" where
  "rename_branch_row i new_name db =
     (if \<exists>r \<in> set (db_branches db). brow_id r = i \<and>
           (\<exists>r' \<in> set (db_branches db). brow_id r' \<noteq> i \<and> brow_name r' = new_name \<and> brow_session_id r' = brow_session_id r)
      then Inl unique_branch_failed
      else Inr (update_branch_row i (\<lambda>r. r\<lparr>brow_name := new_name\<rparr>) db))"

definition sql_rename_branch :: "sql_env \<Rightarrow> branch_id \<Rightarrow> string \<Rightarrow> unit dag_eff" where
  "sql_rename_branch env i new_name =
     ebind (stmt env ''rename_branch failed: '' (rename_branch_row i new_name)) (\<lambda>rows.
       if rows = 0 then efail (''branch '' @ show_int i @ '' not found'') else eret ())"

definition sql_seal_branch :: "sql_env \<Rightarrow> branch_id \<Rightarrow> timestamp \<Rightarrow> unit dag_eff" where
  "sql_seal_branch env i broken_at =
     ebind (stmt env ''seal_branch failed: ''
              (\<lambda>db. Inr (update_branch_row i (\<lambda>r. r\<lparr>brow_broken_at := Some (time_str env broken_at)\<rparr>) db))) (\<lambda>rows.
       if rows = 0 then efail (''branch '' @ show_int i @ '' not found'') else eret ())"

definition sql_update_session_default_branch :: "sql_env \<Rightarrow> session_id \<Rightarrow> branch_id \<Rightarrow> unit dag_eff" where
  "sql_update_session_default_branch env session branch =
     ebind (stmt env ''update_session_default_branch failed: ''
              (\<lambda>db. Inr (length (filter (\<lambda>r. srow_id r = session) (db_sessions db)),
                 db\<lparr>db_sessions := map (\<lambda>r. if srow_id r = session then r\<lparr>srow_default_branch := branch\<rparr> else r)
                                     (db_sessions db)\<rparr>))) (\<lambda>rows.
       if rows = 0 then efail (''session '' @ session @ '' not found'') else eret ())"

text \<open>\<open>INSERT OR IGNORE\<close>: a taken id, name or external id leaves the table as it is.\<close>

definition insert_session_row :: "session_row \<Rightarrow> dag_db \<Rightarrow> dag_db" where
  "insert_session_row r db =
     (if srow_id r \<in> srow_id ` set (db_sessions db) \<or> srow_name r \<in> srow_name ` set (db_sessions db) \<or>
         srow_external_id r \<in> srow_external_id ` set (db_sessions db)
      then db else db\<lparr>db_sessions := db_sessions db @ [r]\<rparr>)"

definition sql_create_session :: "sql_env \<Rightarrow> session \<Rightarrow> unit dag_eff" where
  "sql_create_session env session =
     stmt env ''create_session failed: ''
       (\<lambda>db. Inr ((), insert_session_row
          \<lparr>srow_id = se_id session, srow_external_id = se_external_id session, srow_name = se_name session,
           srow_agent_name = se_agent session, srow_default_branch = se_default_branch session,
           srow_created_at = time_str env (se_created_at session)\<rparr> db))"

definition session_lookup ::
    "sql_env \<Rightarrow> string \<Rightarrow> (session_row \<Rightarrow> bool) \<Rightarrow> dag_db sql_world \<Rightarrow> (string, session option) rust_result" where
  "session_lookup env context p w =
     (case query env context (\<lambda>db. find p (db_sessions db)) w of
        Inl e \<Rightarrow> Inl e
      | Inr None \<Rightarrow> Inr None
      | Inr (Some r) \<Rightarrow> (case session_row_to_domain env r of Inl e \<Rightarrow> Inl e | Inr x \<Rightarrow> Inr (Some x)))"

definition sql_get_session where
  "sql_get_session env session = session_lookup env ''get_session failed: '' (\<lambda>r. srow_id r = session)"

definition sql_get_session_by_name where
  "sql_get_session_by_name env name = session_lookup env ''get_session_by_name failed: '' (\<lambda>r. srow_name r = name)"

definition sql_get_session_by_external_id where
  "sql_get_session_by_external_id env external_id =
     session_lookup env ''get_session_by_external_id failed: '' (\<lambda>r. srow_external_id r = external_id)"

section \<open>Session-plane and infrastructure inserts\<close>

text \<open>A fork is filed under the branch that has its name in any session, or under branch 1.\<close>

definition sql_insert_fork_node ::
    "sql_env \<Rightarrow> dag_node_id \<Rightarrow> dag_node_id \<Rightarrow> timestamp \<Rightarrow> snapshot \<Rightarrow> session_routing_key \<Rightarrow> fork_message \<Rightarrow>
     unit dag_eff" where
  "sql_insert_fork_node env dag_id parent_id created_at st key msg =
     (case sk_kind key of
        SkFork agent_name \<Rightarrow>
          ebind (\<lambda>w. (sql_get_branch_by_name env (fk_branch_name msg) w, w)) (\<lambda>found.
            let branch_id = (case found of None \<Rightarrow> 1 | Some b \<Rightarrow> br_id b)
            in ebind (serialize_snapshot env st) (\<lambda>snapshot_json.
               ebind (insert_dag_node env
                        (new_node_row dag_id parent_id ''fork'' (Some (sk_session key)) (sk_submission key)
                           (Some branch_id) (time_str env created_at) ''v1'' snapshot_json)) (\<lambda>_.
                 stmt env ''insert fork_nodes failed: ''
                   (insert_typed_row fr_dag_hash fr_message_id db_forks (\<lambda>rs. db_forks_update (\<lambda>_. rs))
                      \<lparr>fr_dag_hash = dag_id, fr_agent = agent_name, fr_branch_name = fk_branch_name msg,
                       fr_fork_point = fk_fork_point msg, fr_message_id = fk_id msg\<rparr>))))
      | _ \<Rightarrow> efail ''insert_fork_node: expected Fork kind'')"

definition sql_insert_promote_node ::
    "sql_env \<Rightarrow> dag_node_id \<Rightarrow> dag_node_id \<Rightarrow> timestamp \<Rightarrow> snapshot \<Rightarrow> session_routing_key \<Rightarrow> promote_message \<Rightarrow>
     unit dag_eff" where
  "sql_insert_promote_node env dag_id parent_id created_at st key msg =
     (case sk_kind key of
        SkPromote agent_name \<Rightarrow>
          ebind (serialize_snapshot env st) (\<lambda>snapshot_json.
          ebind (insert_dag_node env
                   (new_node_row dag_id parent_id ''promote'' (Some (sk_session key)) (sk_submission key)
                      (Some (pm_branch_id msg)) (time_str env created_at) ''v1'' snapshot_json)) (\<lambda>_.
            stmt env ''insert promote_nodes failed: ''
              (\<lambda>db. if references (brow_id ` set (db_branches db)) (Some (pm_branch_id msg)) \<or>
                       dag_id \<in> or_dag_hash ` set (db_promotes db) \<or> pm_id msg \<in> or_message_id ` set (db_promotes db)
                    then insert_typed_row or_dag_hash or_message_id db_promotes (\<lambda>rs. db_promotes_update (\<lambda>_. rs))
                           \<lparr>or_dag_hash = dag_id, or_agent = agent_name, or_message_id = pm_id msg,
                            or_branch_id = Some (pm_branch_id msg)\<rparr> db
                    else Inl foreign_key_failed)))
      | _ \<Rightarrow> efail ''insert_promote_node: expected Promote kind'')"

definition sql_insert_deploy_agent_node ::
    "sql_env \<Rightarrow> dag_node_id \<Rightarrow> dag_node_id \<Rightarrow> timestamp \<Rightarrow> snapshot \<Rightarrow> infra_routing_key \<Rightarrow>
     deploy_agent_message \<Rightarrow> unit dag_eff" where
  "sql_insert_deploy_agent_node env dag_id parent_id created_at st key msg =
     ebind (serialize_snapshot env st) (\<lambda>snapshot_json.
     ebind (elift (case enc (se_manifest env) (dp_manifest msg) of
                     Inl e \<Rightarrow> Inl (''serialize manifest failed: '' @ e) | Inr j \<Rightarrow> Inr j)) (\<lambda>manifest_json.
     ebind (insert_dag_node env
              (new_node_row dag_id parent_id ''deploy-agent'' None (ik_submission key) None
                 (time_str env created_at) ''v1'' snapshot_json)) (\<lambda>_.
       stmt env ''insert deploy_agent_nodes failed: ''
         (insert_typed_row dr_dag_hash dr_message_id db_deploys (\<lambda>rs. db_deploys_update (\<lambda>_. rs))
            \<lparr>dr_dag_hash = dag_id, dr_agent_name = mf_name (dp_manifest msg), dr_manifest_json = manifest_json,
             dr_message_id = dp_id msg\<rparr>))))"

definition sql_insert_delete_agent_node ::
    "sql_env \<Rightarrow> dag_node_id \<Rightarrow> dag_node_id \<Rightarrow> timestamp \<Rightarrow> snapshot \<Rightarrow> infra_routing_key \<Rightarrow>
     delete_agent_message \<Rightarrow> unit dag_eff" where
  "sql_insert_delete_agent_node env dag_id parent_id created_at st key msg =
     ebind (serialize_snapshot env st) (\<lambda>snapshot_json.
     ebind (insert_dag_node env
              (new_node_row dag_id parent_id ''delete-agent'' None (ik_submission key) None
                 (time_str env created_at) ''v1'' snapshot_json)) (\<lambda>_.
       stmt env ''insert delete_agent_nodes failed: ''
         (insert_typed_row er_dag_hash er_message_id db_deletes (\<lambda>rs. db_deletes_update (\<lambda>_. rs))
            \<lparr>er_dag_hash = dag_id, er_agent_name = da_agent msg, er_message_id = da_id msg\<rparr>)))"

section \<open>Node queries\<close>

type_synonym 'a dag_query = "dag_db sql_world \<Rightarrow> (string, 'a) rust_result"

definition rows_where :: "sql_env \<Rightarrow> (node_row \<Rightarrow> bool) \<Rightarrow> dag_db \<Rightarrow> node_row list" where
  "rows_where env p db = se_node_scan env (filter p (db_nodes db))"

definition oldest_first :: "sql_env \<Rightarrow> (node_row \<Rightarrow> bool) \<Rightarrow> dag_db \<Rightarrow> node_row list" where
  "oldest_first env p db = sort_key nr_created_at (rows_where env p db)"

definition sql_get_node :: "sql_env \<Rightarrow> dag_node_id \<Rightarrow> dag_node option dag_query" where
  "sql_get_node env i =
     query env ''get_node query failed: ''
       (\<lambda>db. map_option (dag_node_row_to_domain env) (find (\<lambda>r. nr_hash r = i) (db_nodes db)))"

text \<open>The prefix becomes a pattern of SQL's \<open>LIKE\<close>, which the code does not escape.\<close>

definition sql_get_node_by_prefix :: "sql_env \<Rightarrow> string \<Rightarrow> dag_node option dag_query" where
  "sql_get_node_by_prefix env pre w =
     (let pattern = pre @ ''%'' in
      case query env ''get_node_by_prefix count failed: ''
             (\<lambda>db. length (filter (\<lambda>r. sql_like pattern (nr_hash r)) (db_nodes db))) w of
        Inl e \<Rightarrow> Inl e
      | Inr n \<Rightarrow>
          if n = 0 then Inr None
          else if n = 1 then
            (case query env ''get_node_by_prefix query failed: ''
                    (find (\<lambda>r. sql_like pattern (nr_hash r)) \<circ> db_nodes) w of
               Inl e \<Rightarrow> Inl e
             | Inr r \<Rightarrow> Inr (map_option (dag_node_row_to_domain env) r))
          else Inl (''ambiguous hash prefix '' @ [CHR 0x27] @ pre @ [CHR 0x27] @ '': '' @ show_nat n @ '' matches''))"

definition sql_get_session_nodes :: "sql_env \<Rightarrow> session_id \<Rightarrow> dag_node list dag_query" where
  "sql_get_session_nodes env session =
     query env ''get_session_nodes query failed: ''
       (\<lambda>db. map (dag_node_row_to_domain env) (oldest_first env (\<lambda>r. nr_session_id r = Some session) db))"

definition sql_get_children :: "sql_env \<Rightarrow> dag_node_id \<Rightarrow> dag_node list dag_query" where
  "sql_get_children env parent =
     query env ''get_children query failed: ''
       (\<lambda>db. map (dag_node_row_to_domain env)
               (rows_where env (\<lambda>r. nr_parent_hash r = parent_hash_for_sql parent) db))"

definition sql_get_nodes_by_submission :: "sql_env \<Rightarrow> string \<Rightarrow> dag_node list dag_query" where
  "sql_get_nodes_by_submission env submission =
     query env ''get_nodes_by_submission query failed: ''
       (\<lambda>db. map (dag_node_row_to_domain env) (oldest_first env (\<lambda>r. nr_submission_id r = Some submission) db))"

definition sql_latest_nodes_on_branch :: "sql_env \<Rightarrow> branch_id \<Rightarrow> 32 word \<Rightarrow> dag_node list dag_query" where
  "sql_latest_nodes_on_branch env branch n =
     query env ''latest_nodes_on_branch query failed: ''
       (\<lambda>db. rev (map (dag_node_row_to_domain env)
               (take (unat n) (rev (oldest_first env (\<lambda>r. nr_branch_id r = Some branch) db)))))"

definition sql_latest_node_on_branch ::
    "sql_env \<Rightarrow> branch_id \<Rightarrow> message_type option \<Rightarrow> dag_node option dag_query" where
  "sql_latest_node_on_branch env branch mt =
     query env ''latest_node_on_branch query failed: ''
       (\<lambda>db. case rev (oldest_first env
                    (\<lambda>r. nr_branch_id r = Some branch \<and>
                      (case mt of None \<Rightarrow> True | Some t \<Rightarrow> nr_message_type r = message_type_as_str t)) db) of
                [] \<Rightarrow> None
              | r # _ \<Rightarrow> Some (dag_node_row_to_domain env r))"

definition sql_exists_in_submission ::
    "sql_env \<Rightarrow> submission_id \<Rightarrow> branch_id \<Rightarrow> message_type \<Rightarrow> bool dag_query" where
  "sql_exists_in_submission env submission branch mt =
     query env ''exists_in_submission failed: ''
       (\<lambda>db. list_ex (\<lambda>r. nr_submission_id r = Some submission \<and> nr_branch_id r = Some branch \<and>
                           nr_message_type r = message_type_as_str mt) (db_nodes db))"

text \<open>
  \<open>list_sessions\<close>: one group per session id that has a session row; the smallest \<open>created_at\<close>, the
  number of invokes and completes, and the type of the newest node.
\<close>

record session_summary_row =
  ssr_session_id :: string
  ssr_agent_name :: "string option"
  ssr_started_at :: string
  ssr_msg_count :: nat
  ssr_last_type :: "string option"

definition summary_row :: "sql_env \<Rightarrow> dag_db \<Rightarrow> session_row \<Rightarrow> session_summary_row" where
  "summary_row env db s =
     (let rows = oldest_first env (\<lambda>r. nr_session_id r = Some (srow_id s)) db
      in \<lparr>ssr_session_id = srow_id s, ssr_agent_name = Some (srow_agent_name s),
          ssr_started_at = (case rows of [] \<Rightarrow> [] | r # _ \<Rightarrow> nr_created_at r),
          ssr_msg_count = length (filter (\<lambda>r. nr_message_type r = ''invoke'' \<or> nr_message_type r = ''complete'') rows),
          ssr_last_type = (case rev rows of [] \<Rightarrow> None | r # _ \<Rightarrow> Some (nr_message_type r))\<rparr>)"

definition summary_groups :: "sql_env \<Rightarrow> dag_db \<Rightarrow> session_summary_row list" where
  "summary_groups env db =
     (let ids = se_group_scan env (remdups (List.map_filter nr_session_id (db_nodes db)))
      in List.map_filter (\<lambda>i. map_option (summary_row env db) (find (\<lambda>s. srow_id s = i) (db_sessions db))) ids)"

fun summaries_to_domain :: "sql_env \<Rightarrow> session_summary_row list \<Rightarrow> (string, session_summary list) rust_result" where
  "summaries_to_domain env [] = Inr []"
| "summaries_to_domain env (r # rs) =
     (case session_id_try_from (se_is_uuid env) (ssr_session_id r) of
        Inl e \<Rightarrow> Inl (''invalid session_id: '' @ e)
      | Inr i \<Rightarrow>
          (case summaries_to_domain env rs of
             Inl e \<Rightarrow> Inl e
           | Inr xs \<Rightarrow>
               Inr (\<lparr>sm_session_id = i, sm_agent_name = unwrap_or [] (ssr_agent_name r),
                     sm_started_at = result_or 0 (dec (se_time env) (ssr_started_at r)),
                     sm_message_count = ssr_msg_count r,
                     sm_is_open = (ssr_last_type r \<noteq> Some ''complete'')\<rparr> # xs)))"

definition sql_list_sessions :: "sql_env \<Rightarrow> session_summary list dag_query" where
  "sql_list_sessions env w =
     (case query env ''list_sessions query failed: ''
             (\<lambda>db. rev (sort_key ssr_started_at (summary_groups env db))) w of
        Inl e \<Rightarrow> Inl e
      | Inr rows \<Rightarrow> summaries_to_domain env rows)"

section \<open>Typed queries\<close>

text \<open>A typed row joined with its node; \<open>first\<close> of a primary-key lookup.\<close>

definition joined :: "('r \<Rightarrow> string) \<Rightarrow> (dag_db \<Rightarrow> 'r list) \<Rightarrow> dag_node_id \<Rightarrow> dag_db \<Rightarrow> ('r \<times> node_row) option" where
  "joined hash_of get i db =
     Option.bind (find (\<lambda>r. hash_of r = i) (get db)) (\<lambda>r.
       map_option (\<lambda>n. (r, n)) (find (\<lambda>n. nr_hash n = i) (db_nodes db)))"

definition data_key_of_row :: "sql_env \<Rightarrow> node_row \<Rightarrow> data_message_kind \<Rightarrow> data_routing_key" where
  "data_key_of_row env n kind =
     \<lparr>dk_session = session_or env (se_random_session env) (nr_session_id n),
      dk_branch = unwrap_or 0 (nr_branch_id n), dk_submission = unwrap_or [] (nr_submission_id n),
      dk_kind = kind\<rparr>"

definition sql_get_invoke_node ::
    "sql_env \<Rightarrow> dag_node_id \<Rightarrow> (data_routing_key \<times> invoke_message) option dag_query" where
  "sql_get_invoke_node env i =
     query env ''get_invoke_node failed: '' (\<lambda>db.
       map_option (\<lambda>(r, n).
         (data_key_of_row env n
            (DkInvoke (result_or HCli (harness_from_str (ir_harness r)))
               (result_or RtContainer (runtime_from_str (ir_runtime r))) (ir_agent r)),
          result_or
            \<lparr>iv_id = ir_message_id r, iv_dag_id = i, iv_state = ir_state r,
             iv_diagnostics = result_or \<lparr>idg_harness_version = []\<rparr> (dec (se_invoke_diag env) (ir_diagnostics r)),
             iv_dag_parent = unwrap_or dag_node_id_root (nr_parent_hash n), iv_current_input = []\<rparr>
            (dec (se_invoke env) (ir_payload r))))
         (joined ir_dag_hash db_invokes i db))"

definition sql_get_complete_node ::
    "sql_env \<Rightarrow> dag_node_id \<Rightarrow> (data_routing_key \<times> complete_message) option dag_query" where
  "sql_get_complete_node env i =
     query env ''get_complete_node failed: '' (\<lambda>db.
       map_option (\<lambda>(r, n).
         (data_key_of_row env n (DkComplete (cr_agent r) (result_or HCli (harness_from_str (cr_harness r)))),
          result_or
            \<lparr>cm_id = cr_message_id r, cm_dag_id = i, cm_dag_parent = dag_node_id_root, cm_state = cr_state r,
             cm_diagnostics = result_or (runtime_diagnostics_placeholder 0) (dec (se_runtime_diag env) (cr_diagnostics r)),
             cm_content = None, cm_tool_calls = None, cm_payload = []\<rparr>
            (dec (se_complete env) (cr_payload r))))
         (joined cr_dag_hash db_completes i db))"

definition stored_service :: "string \<Rightarrow> service_backend" where
  "stored_service s = result_or (SbInfer InfOpenRouter) (service_backend_from_str s)"

definition sql_get_request_node ::
    "sql_env \<Rightarrow> dag_node_id \<Rightarrow> (data_routing_key \<times> request_message) option dag_query" where
  "sql_get_request_node env i =
     query env ''get_request_node failed: '' (\<lambda>db.
       map_option (\<lambda>(r, n).
         (data_key_of_row env n
            (DkRequest (qr_agent r) (stored_service (qr_service r))
               (result_or OpGet (operation_from_str (qr_operation r))) (u32_of_i32 (qr_sequence r))),
          \<lparr>rq_id = qr_message_id r, rq_dag_id = i, rq_dag_parent = dag_node_id_root, rq_state = qr_state r,
           rq_diagnostics =
             result_or \<lparr>rqd_sequence = 0, rqd_endpoint = [], rqd_request_bytes = 0, rqd_received_at_ms = 0\<rparr>
               (dec (se_request_diag env) (qr_diagnostics r)),
           rq_payload = qr_payload r, rq_checkpoint = qr_checkpoint r\<rparr>))
         (joined qr_dag_hash db_requests i db))"

definition sql_get_response_node ::
    "sql_env \<Rightarrow> dag_node_id \<Rightarrow> (data_routing_key \<times> response_message) option dag_query" where
  "sql_get_response_node env i =
     query env ''get_response_node failed: '' (\<lambda>db.
       map_option (\<lambda>(r, n).
         (data_key_of_row env n
            (DkResponse (pr_agent r) (stored_service (pr_service r))
               (result_or OpGet (operation_from_str (pr_operation r))) (u32_of_i32 (pr_sequence r))),
          \<lparr>rs_id = pr_message_id r, rs_dag_id = i, rs_dag_parent = dag_node_id_root,
           rs_correlation_id = pr_correlation_id r, rs_state = pr_state r,
           rs_diagnostics =
             result_or (service_diagnostics_storage StKv ''unknown'' OpGet 0 0)
               (dec (se_service_diag env) (pr_diagnostics r)),
           rs_payload = pr_payload r, rs_status_code = u16_of_i32 (pr_status_code r),
           rs_checkpoint = pr_checkpoint r\<rparr>))
         (joined pr_dag_hash db_responses i db))"

definition svc_request_diag_of :: "sql_env \<Rightarrow> svc_request_row \<Rightarrow> svc_request_diagnostics" where
  "svc_request_diag_of env r =
     result_or \<lparr>srd_server = [], srd_tool = [], srd_arguments_bytes = 0, srd_sent_at_ms = 0\<rparr>
       (dec (se_svc_request_diag env) (unwrap_or [] (sq_diagnostics r)))"

definition svc_response_diag_of :: "sql_env \<Rightarrow> svc_response_row \<Rightarrow> svc_response_diagnostics" where
  "svc_response_diag_of env r =
     result_or \<lparr>spd_server = [], spd_tool = [], spd_round_trip_ms = 0, spd_content_bytes = 0\<rparr>
       (dec (se_svc_response_diag env) (unwrap_or [] (sp_diagnostics r)))"

definition svc_request_of_row :: "sql_env \<Rightarrow> dag_node_id \<Rightarrow> svc_request_row \<Rightarrow> request_v2" where
  "svc_request_of_row env i r =
     \<lparr>rq2_id = sq_message_id r, rq2_dag_id = i, rq2_dag_parent = dag_node_id_root,
      rq2_tool_call_id = sq_tool_call_id r, rq2_state = sq_state r,
      rq2_diagnostics = svc_request_diag_of env r, rq2_payload = sq_arguments r\<rparr>"

definition svc_response_of_row :: "sql_env \<Rightarrow> dag_node_id \<Rightarrow> svc_response_row \<Rightarrow> response_v2" where
  "svc_response_of_row env i r =
     \<lparr>rs2_id = sp_message_id r, rs2_dag_id = i, rs2_dag_parent = dag_node_id_root,
      rs2_correlation_id = sp_correlation_id r, rs2_state = sp_state r,
      rs2_diagnostics = svc_response_diag_of env r, rs2_payload = sp_payload r\<rparr>"

text \<open>The error names the two stored parts as \<open>Debug\<close> prints them; \<open>quote\<close> is that printer.\<close>

definition bad_backend :: "(string \<Rightarrow> string) \<Rightarrow> string \<Rightarrow> string \<Rightarrow> string \<Rightarrow> string" where
  "bad_backend quote fn t b =
     fn @ '': invalid ServiceBackendV2 (type='' @ quote t @ '', backend='' @ quote b @ '')''"

definition svc_key_of_row :: "sql_env \<Rightarrow> node_row \<Rightarrow> svc_message_kind \<Rightarrow> svc_routing_key" where
  "svc_key_of_row env n kind =
     \<lparr>vk_session = session_or env (se_random_session env) (nr_session_id n),
      vk_branch = unwrap_or 0 (nr_branch_id n), vk_submission = unwrap_or [] (nr_submission_id n),
      vk_kind = kind\<rparr>"

definition sql_get_svc_request_node ::
    "(string \<Rightarrow> string) \<Rightarrow> sql_env \<Rightarrow> dag_node_id \<Rightarrow> (svc_routing_key \<times> request_v2) option dag_query" where
  "sql_get_svc_request_node quote env i w =
     (case query env ''get_svc_request_node failed: '' (joined sq_dag_hash db_svc_requests i) w of
        Inl e \<Rightarrow> Inl e
      | Inr None \<Rightarrow> Inr None
      | Inr (Some (r, n)) \<Rightarrow>
          (case service_backend_v2_from_parts (sq_service_type r) (sq_service_backend r) of
             None \<Rightarrow> Inl (bad_backend quote ''get_svc_request_node'' (sq_service_type r) (sq_service_backend r))
           | Some service \<Rightarrow>
               Inr (Some
                 (svc_key_of_row env n (VkSvcRequest (sq_agent r) service (sq_operation r) (u32_of_i32 (sq_sequence r))),
                  svc_request_of_row env i r))))"

definition sql_get_svc_response_node ::
    "(string \<Rightarrow> string) \<Rightarrow> sql_env \<Rightarrow> dag_node_id \<Rightarrow> (svc_routing_key \<times> response_v2) option dag_query" where
  "sql_get_svc_response_node quote env i w =
     (case query env ''get_svc_response_node failed: '' (joined sp_dag_hash db_svc_responses i) w of
        Inl e \<Rightarrow> Inl e
      | Inr None \<Rightarrow> Inr None
      | Inr (Some (r, n)) \<Rightarrow>
          (case service_backend_v2_from_parts (sp_service_type r) (sp_service_backend r) of
             None \<Rightarrow> Inl (bad_backend quote ''get_svc_response_node'' (sp_service_type r) (sp_service_backend r))
           | Some service \<Rightarrow>
               Inr (Some
                 (svc_key_of_row env n (VkSvcResponse (sp_agent r) service (sp_operation r) (u32_of_i32 (sp_sequence r))),
                  svc_response_of_row env i r))))"

definition sql_get_invoke_message :: "sql_env \<Rightarrow> dag_node_id \<Rightarrow> invoke_message option dag_query" where
  "sql_get_invoke_message env i =
     query env ''get_invoke_message failed: '' (\<lambda>db.
       map_option (\<lambda>r. result_or
           \<lparr>iv_id = ir_message_id r, iv_dag_id = i, iv_state = ir_state r,
            iv_diagnostics = \<lparr>idg_harness_version = []\<rparr>, iv_dag_parent = dag_node_id_root, iv_current_input = []\<rparr>
           (dec (se_invoke env) (ir_payload r)))
         (find (\<lambda>r. ir_dag_hash r = i) (db_invokes db)))"

definition sql_get_complete_message :: "sql_env \<Rightarrow> dag_node_id \<Rightarrow> complete_message option dag_query" where
  "sql_get_complete_message env i =
     query env ''get_complete_message failed: '' (\<lambda>db.
       map_option (\<lambda>r. result_or
           \<lparr>cm_id = cr_message_id r, cm_dag_id = i, cm_dag_parent = dag_node_id_root, cm_state = cr_state r,
            cm_diagnostics = runtime_diagnostics_placeholder 0, cm_content = None, cm_tool_calls = None,
            cm_payload = []\<rparr>
           (dec (se_complete env) (cr_payload r)))
         (find (\<lambda>r. cr_dag_hash r = i) (db_completes db)))"

definition sql_get_request_v2 :: "sql_env \<Rightarrow> dag_node_id \<Rightarrow> request_v2 option dag_query" where
  "sql_get_request_v2 env i =
     query env ''get_request_v2 failed: '' (\<lambda>db.
       map_option (svc_request_of_row env i) (find (\<lambda>r. sq_dag_hash r = i) (db_svc_requests db)))"

definition sql_get_response_v2 :: "sql_env \<Rightarrow> dag_node_id \<Rightarrow> response_v2 option dag_query" where
  "sql_get_response_v2 env i =
     query env ''get_response_v2 failed: '' (\<lambda>db.
       map_option (svc_response_of_row env i) (find (\<lambda>r. sp_dag_hash r = i) (db_svc_responses db)))"

section \<open>The store as a value of the trait\<close>

definition sql_dag_store :: "sql_env \<Rightarrow> dag_db sql_world dag_store" where
  "sql_dag_store env =
     \<lparr>ds_insert_invoke_node = sql_insert_invoke_node env,
      ds_insert_complete_node = sql_insert_complete_node env,
      ds_insert_request_node = sql_insert_request_node env,
      ds_insert_response_node = sql_insert_response_node env,
      ds_insert_fork_node = sql_insert_fork_node env,
      ds_insert_promote_node = sql_insert_promote_node env,
      ds_insert_deploy_agent_node = sql_insert_deploy_agent_node env,
      ds_insert_delete_agent_node = sql_insert_delete_agent_node env,
      ds_insert_svc_request_node = sql_insert_svc_request_node env,
      ds_insert_svc_response_node = sql_insert_svc_response_node env,
      ds_get_node = sql_get_node env,
      ds_get_node_by_prefix = sql_get_node_by_prefix env,
      ds_get_session_nodes = sql_get_session_nodes env,
      ds_get_children = sql_get_children env,
      ds_create_branch = sql_create_branch env,
      ds_get_branch_by_name = sql_get_branch_by_name env,
      ds_get_branch = sql_get_branch env,
      ds_get_nodes_by_submission = sql_get_nodes_by_submission env,
      ds_get_invoke_node = sql_get_invoke_node env,
      ds_get_complete_node = sql_get_complete_node env,
      ds_get_branches_for_session = sql_get_branches_for_session env,
      ds_latest_nodes_on_branch = sql_latest_nodes_on_branch env,
      ds_latest_node_on_branch = sql_latest_node_on_branch env,
      ds_rename_branch = sql_rename_branch env,
      ds_seal_branch = sql_seal_branch env,
      ds_update_session_default_branch = sql_update_session_default_branch env,
      ds_create_session = sql_create_session env,
      ds_get_session = sql_get_session env,
      ds_get_session_by_name = sql_get_session_by_name env,
      ds_get_session_by_external_id = sql_get_session_by_external_id env\<rparr>"

end
