(* ===== verification/SqlDagLaws.thy ===== *)
theory SqlDagLaws
  imports SqlDag RecordingInv
begin

text \<open>
  What the SQLite store keeps, whatever statements are rejected: it is an append-only store
  (\<open>append_only_store\<close>), and its tables stay keyed, unique and free of dangling references
  (\<open>sql_db_ok\<close>, an interpretation of \<open>store_invariant\<close>).
\<close>

section \<open>Append-only\<close>

text \<open>An unordered query returns the rows it selects, in an order the database chooses.\<close>

definition scans_ok :: "sql_env \<Rightarrow> bool" where
  "scans_ok env \<longleftrightarrow> (\<forall>rs. mset (se_node_scan env rs) = mset rs) \<and> (\<forall>rs. mset (se_branch_scan env rs) = mset rs)"

lemma scans_ok_sets:
  assumes "scans_ok env"
  shows "set (se_node_scan env rs) = set rs" and "set (se_branch_scan env bs) = set bs"
  using assms unfolding scans_ok_def by (metis set_mset_mset)+

definition sql_nodes :: "sql_env \<Rightarrow> dag_db sql_world \<Rightarrow> dag_node list" where
  "sql_nodes env w = map (dag_node_row_to_domain env) (db_nodes (sw_data w))"

definition adds_one :: "sql_env \<Rightarrow> dag_node_id \<Rightarrow> dag_node_id \<Rightarrow> 'a dag_eff \<Rightarrow> bool" where
  "adds_one env i p m \<longleftrightarrow> (\<forall>w. one_node i p (sql_nodes env w) (sql_nodes env (snd (m w))))"

definition keeps_nodes :: "'a dag_eff \<Rightarrow> bool" where
  "keeps_nodes m \<longleftrightarrow> (\<forall>w. db_nodes (sw_data (snd (m w))) = db_nodes (sw_data w))"

lemma one_node_refl [simp]: "one_node i p ns ns"
  by (simp add: one_node_def)

lemma keeps_nodes_D: "keeps_nodes m \<Longrightarrow> m w = (r, w') \<Longrightarrow> sql_nodes env w' = sql_nodes env w"
  by (metis keeps_nodes_def snd_conv sql_nodes_def)

lemma adds_one_D: "adds_one env i p m \<Longrightarrow> m w = (r, w') \<Longrightarrow> one_node i p (sql_nodes env w) (sql_nodes env w')"
  by (metis adds_one_def snd_conv)

named_theorems node_effects

lemma effects_basic [node_effects]:
  "keeps_nodes (eret x)" "keeps_nodes (efail e)" "keeps_nodes (elift r)" "adds_one env i p (efail e)"
  by (simp_all add: keeps_nodes_def adds_one_def)

lemma keeps_nodes_ebind [node_effects]:
  "keeps_nodes m \<Longrightarrow> (\<And>x. keeps_nodes (f x)) \<Longrightarrow> keeps_nodes (ebind m f)"
  by (auto simp: keeps_nodes_def ebind_def split_beta split: sum.split)

lemma adds_one_ebind [node_effects]:
  "adds_one env i p m \<Longrightarrow> (\<And>x. keeps_nodes (f x)) \<Longrightarrow> adds_one env i p (ebind m f)"
  by (auto simp: adds_one_def keeps_nodes_def ebind_def sql_nodes_def split_beta split: sum.split)

lemma adds_one_after [node_effects]: "(\<And>x. adds_one env i p (f x)) \<Longrightarrow> adds_one env i p (ebind (elift r) f)"
  by (cases r) (simp_all add: effects_basic)

lemma stmt_keeps_nodes [node_effects]:
  "(\<And>d x d'. f d = Inr (x, d') \<Longrightarrow> db_nodes d' = db_nodes d) \<Longrightarrow> keeps_nodes (stmt env c f)"
  by (auto simp: keeps_nodes_def stmt_def Let_def split: option.split sum.split)

lemma parent_hash_roundtrip [simp]: "unwrap_or dag_node_id_root (parent_hash_for_sql p) = p"
  by (simp add: parent_hash_for_sql_def dag_node_id_root_def)

lemma row_to_domain_simps [simp]:
  "dn_id (dag_node_row_to_domain env r) = nr_hash r"
  "dn_parent_id (dag_node_row_to_domain env r) = unwrap_or dag_node_id_root (nr_parent_hash r)"
  by (simp_all add: dag_node_row_to_domain_def)

lemma new_node_row_simps [simp]:
  "nr_hash (new_node_row i p mt se sub br t v sn) = i"
  "nr_parent_hash (new_node_row i p mt se sub br t v sn) = parent_hash_for_sql p"
  "nr_message_type (new_node_row i p mt se sub br t v sn) = mt"
  "nr_session_id (new_node_row i p mt se sub br t v sn) = se"
  "nr_submission_id (new_node_row i p mt se sub br t v sn) = Some sub"
  "nr_branch_id (new_node_row i p mt se sub br t v sn) = br"
  "nr_created_at (new_node_row i p mt se sub br t v sn) = t"
  "nr_protocol_version (new_node_row i p mt se sub br t v sn) = v"
  "nr_snapshot (new_node_row i p mt se sub br t v sn) = sn"
  by (simp_all add: new_node_row_def)

lemma map_add_node_row:
  "map (dag_node_row_to_domain env) (if nr_hash r \<in> nr_hash ` set rs then rs else rs @ [r]) =
     add_node (dag_node_row_to_domain env r) (map (dag_node_row_to_domain env) rs)"
  by (auto simp: add_node_def list_ex_iff) (metis image_eqI)

lemma insert_dag_node_adds [node_effects]:
  "adds_one env i p (insert_dag_node env (new_node_row i p mt se sub br t v sn))"
proof -
  let ?r = "new_node_row i p mt se sub br t v sn"
  let ?dom = "map (dag_node_row_to_domain env)"
  have "one_node i p (?dom (db_nodes d)) (?dom (db_nodes d'))" if "insert_node_row ?r d = Inr (x, d')" for d x d'
  proof -
    from that have "?dom (db_nodes d') = add_node (dag_node_row_to_domain env ?r) (?dom (db_nodes d))"
      unfolding map_add_node_row [symmetric] by (auto simp: insert_node_row_def split: if_splits)
    moreover have "dn_id (dag_node_row_to_domain env ?r) = i" "dn_parent_id (dag_node_row_to_domain env ?r) = p"
      by simp_all
    ultimately show ?thesis unfolding one_node_def by blast
  qed
  then show ?thesis
    by (auto simp: adds_one_def sql_nodes_def insert_dag_node_def stmt_def Let_def split: option.split sum.split)
qed

lemmas sql_inserts = sql_insert_invoke_node_def sql_insert_complete_node_def sql_insert_request_node_def
  sql_insert_response_node_def sql_insert_svc_request_node_def sql_insert_svc_response_node_def
  sql_insert_promote_node_def sql_insert_deploy_agent_node_def sql_insert_delete_agent_node_def

lemmas sql_row_ops = sql_create_branch_def sql_rename_branch_def sql_seal_branch_def
  sql_update_session_default_branch_def sql_create_session_def

lemma sql_inserts_add:
  "adds_one env i p (sql_insert_invoke_node env i p t st dk iv)"
  "adds_one env i p (sql_insert_complete_node env i p t st se sub br a h cm)"
  "adds_one env i p (sql_insert_request_node env i p t st se sub br a sb op q rq)"
  "adds_one env i p (sql_insert_response_node env i p t st se sub br a sb op q rs)"
  "adds_one env i p (sql_insert_svc_request_node env i p t st se sub br a sv so q rq2)"
  "adds_one env i p (sql_insert_svc_response_node env i p t st se sub br a sv so q rs2)"
  "adds_one env i p (sql_insert_promote_node env i p t st sk pm)"
  "adds_one env i p (sql_insert_deploy_agent_node env i p t st ik dp)"
  "adds_one env i p (sql_insert_delete_agent_node env i p t st ik da)"
  unfolding sql_inserts serialize_snapshot_def
  by (auto simp: insert_typed_row_def split: data_message_kind.split session_message_kind.split if_splits
      intro!: node_effects)

lemma adds_one_after_query: "(\<And>x. adds_one env i p (f x)) \<Longrightarrow> adds_one env i p (ebind (\<lambda>w. (q w, w)) f)"
  by (auto simp: adds_one_def ebind_def split: sum.split)

lemma sql_insert_fork_adds: "adds_one env i p (sql_insert_fork_node env i p t st sk fk)"
proof (cases "sk_kind sk")
  case (SkFork a)
  then show ?thesis
    unfolding sql_insert_fork_node_def serialize_snapshot_def Let_def session_message_kind.case
    by (simp, intro adds_one_after_query)
      (auto simp: insert_typed_row_def split: if_splits intro!: node_effects)
qed (simp_all add: sql_insert_fork_node_def node_effects)

lemma sql_row_ops_keep_nodes:
  "keeps_nodes (sql_create_branch env t nm se fp)"
  "keeps_nodes (sql_rename_branch env br nm)"
  "keeps_nodes (sql_seal_branch env br t)"
  "keeps_nodes (sql_update_session_default_branch env se br)"
  "keeps_nodes (sql_create_session env ses)"
proof -
  have "keeps_nodes (\<lambda>w. (q w, w))" for q :: "dag_db sql_world \<Rightarrow> (string, 'b) rust_result"
    by (simp add: keeps_nodes_def)
  then show "keeps_nodes (sql_create_branch env t nm se fp)"
    unfolding sql_create_branch_def
    by (intro node_effects) (auto simp: insert_branch_row_def split: if_splits)
qed (unfold sql_row_ops, auto intro!: node_effects
      simp: update_branch_row_def rename_branch_row_def insert_session_row_def split: if_splits)

lemma query_Inr: "query env c q w = Inr x \<longleftrightarrow> se_fault env (sw_tick w) c = None \<and> q (sw_data w) = x"
  by (auto simp: query_def split: option.split)

lemma sql_latest_in:
  assumes "scans_ok env" and "sql_latest_node_on_branch env b None w = Inr (Some n)"
  shows "n \<in> set (sql_nodes env w)"
proof -
  let ?rs = "oldest_first env (\<lambda>r. nr_branch_id r = Some b) (sw_data w)"
  from assms(2) obtain r rs where "rev ?rs = r # rs" "n = dag_node_row_to_domain env r"
    by (auto simp: sql_latest_node_on_branch_def query_Inr split: list.splits)
  moreover have "set ?rs \<subseteq> set (db_nodes (sw_data w))"
    using scans_ok_sets(1) [OF assms(1)] by (auto simp: oldest_first_def rows_where_def)
  ultimately show ?thesis
    by (metis image_eqI list.set_intros(1) list.set_map set_rev sql_nodes_def subsetD)
qed

lemma sql_append_only:
  assumes "scans_ok env"
  shows "append_only_store (sql_dag_store env) (sql_nodes env)"
proof (unfold_locales, goal_cases)
  case (1 i w n)
  then show ?case by (auto simp: sql_dag_store_def sql_get_node_def query_Inr sql_nodes_def dest: find_Some_set)
next
  case (2 b w n)
  then show ?case using sql_latest_in [OF assms] by (simp add: sql_dag_store_def)
qed (simp_all only: sql_dag_store_def dag_store.simps,
    (erule sql_inserts_add [THEN adds_one_D] sql_insert_fork_adds [THEN adds_one_D]
       sql_row_ops_keep_nodes [THEN keeps_nodes_D])+)

section \<open>Integrity of the tables\<close>

definition typed_ok :: "('r \<Rightarrow> string) \<Rightarrow> ('r \<Rightarrow> string) \<Rightarrow> 'r list \<Rightarrow> dag_db \<Rightarrow> bool" where
  "typed_ok hash_of msg_of rs db \<longleftrightarrow>
     distinct (map hash_of rs) \<and> distinct (map msg_of rs) \<and>
     hash_of ` set rs \<subseteq> nr_hash ` set (db_nodes db)"

definition typed_tables_ok :: "dag_db \<Rightarrow> bool" where
  "typed_tables_ok db \<longleftrightarrow>
     typed_ok ir_dag_hash ir_message_id (db_invokes db) db \<and>
     typed_ok cr_dag_hash cr_message_id (db_completes db) db \<and>
     typed_ok qr_dag_hash qr_message_id (db_requests db) db \<and>
     typed_ok pr_dag_hash pr_message_id (db_responses db) db \<and>
     typed_ok fr_dag_hash fr_message_id (db_forks db) db \<and>
     typed_ok or_dag_hash or_message_id (db_promotes db) db \<and>
     typed_ok dr_dag_hash dr_message_id (db_deploys db) db \<and>
     typed_ok er_dag_hash er_message_id (db_deletes db) db \<and>
     typed_ok sq_dag_hash sq_message_id (db_svc_requests db) db \<and>
     typed_ok sp_dag_hash sp_message_id (db_svc_responses db) db"

definition nodes_ok :: "dag_db \<Rightarrow> bool" where
  "nodes_ok db \<longleftrightarrow>
     distinct (map nr_hash (db_nodes db)) \<and>
     (\<forall>r \<in> set (db_nodes db).
        references (nr_hash ` set (db_nodes db)) (nr_parent_hash r) \<and>
        references (srow_id ` set (db_sessions db)) (nr_session_id r) \<and>
        references (brow_id ` set (db_branches db)) (nr_branch_id r))"

definition branches_ok :: "dag_db \<Rightarrow> bool" where
  "branches_ok db \<longleftrightarrow>
     distinct (map brow_id (db_branches db)) \<and>
     (\<forall>r \<in> set (db_branches db). brow_id r < db_next_branch db \<and> brow_session_id r \<in> srow_id ` set (db_sessions db)) \<and>
     distinct (map (\<lambda>r. (brow_name r, brow_session_id r)) (db_branches db))"

definition sessions_ok :: "dag_db \<Rightarrow> bool" where
  "sessions_ok db \<longleftrightarrow>
     distinct (map srow_id (db_sessions db)) \<and> distinct (map srow_name (db_sessions db)) \<and>
     distinct (map srow_external_id (db_sessions db))"

definition sql_db_ok :: "dag_db \<Rightarrow> bool" where
  "sql_db_ok db \<longleftrightarrow> nodes_ok db \<and> typed_tables_ok db \<and> branches_ok db \<and> sessions_ok db"

abbreviation sql_ok :: "dag_db sql_world \<Rightarrow> bool" where
  "sql_ok w \<equiv> sql_db_ok (sw_data w)"

lemma sql_db_ok_empty [simp]: "sql_db_ok dag_db_empty"
  by (simp add: sql_db_ok_def nodes_ok_def typed_tables_ok_def typed_ok_def branches_ok_def sessions_ok_def
      dag_db_empty_def)

lemma references_insert [intro]: "references K r \<Longrightarrow> references (insert k K) r"
  by (auto simp: references_def split: option.splits)

lemma epreserves_stmt [epreserves_rules]:
  "(\<And>d x d'. I d \<Longrightarrow> f d = Inr (x, d') \<Longrightarrow> I d') \<Longrightarrow> epreserves (\<lambda>w. I (sw_data w)) (stmt env c f)"
  by (auto simp: epreserves_def stmt_def Let_def split: option.split sum.split)

lemma epreserves_read [epreserves_rules]: "epreserves I (\<lambda>w. (q w, w))"
  by (simp add: epreserves_def)

lemma typed_ok_nodes: "typed_ok h m rs db \<Longrightarrow> set (db_nodes db) \<subseteq> set (db_nodes db') \<Longrightarrow> typed_ok h m rs db'"
  unfolding typed_ok_def by (meson image_mono subset_trans)

lemma typed_tables_frame:
  assumes "typed_tables_ok db" and "set (db_nodes db) \<subseteq> set (db_nodes db')"
    and "db_invokes db' = db_invokes db" "db_completes db' = db_completes db" "db_requests db' = db_requests db"
      "db_responses db' = db_responses db" "db_forks db' = db_forks db" "db_promotes db' = db_promotes db"
      "db_deploys db' = db_deploys db" "db_deletes db' = db_deletes db"
      "db_svc_requests db' = db_svc_requests db" "db_svc_responses db' = db_svc_responses db"
  shows "typed_tables_ok db'"
  using assms(1) unfolding typed_tables_ok_def assms(3-12)
  by (elim conjE, intro conjI) (erule typed_ok_nodes [OF _ assms(2)])+

lemma insert_node_row_ok:
  assumes "sql_db_ok db" and "insert_node_row r db = Inr (x, db')"
  shows "sql_db_ok db'"
proof (cases "db' = db")
  case False
  with assms(2) have new: "nr_hash r \<notin> nr_hash ` set (db_nodes db)" "db' = db\<lparr>db_nodes := db_nodes db @ [r]\<rparr>"
    and refs: "references (insert (nr_hash r) (nr_hash ` set (db_nodes db))) (nr_parent_hash r)"
      "references (srow_id ` set (db_sessions db)) (nr_session_id r)"
      "references (brow_id ` set (db_branches db)) (nr_branch_id r)"
    by (auto simp: insert_node_row_def split: if_splits)
  have "nodes_ok db'"
    using assms(1) new refs unfolding sql_db_ok_def nodes_ok_def
    by auto
  moreover have "typed_tables_ok db'"
    using assms(1) typed_tables_frame [of db db'] unfolding sql_db_ok_def new(2) by auto
  ultimately show ?thesis
    using assms(1) unfolding sql_db_ok_def new(2) branches_ok_def sessions_ok_def by simp
qed (use assms in simp)

lemma typed_ok_insert:
  "typed_ok h m rs db \<Longrightarrow> h r \<notin> h ` set rs \<Longrightarrow> m r \<notin> m ` set rs \<Longrightarrow> h r \<in> nr_hash ` set (db_nodes db) \<Longrightarrow>
   typed_ok h m (rs @ [r]) db"
  by (auto simp: typed_ok_def)

lemma sql_db_ok_put:
  assumes "sql_db_ok db" and "typed_tables_ok db'"
    and "db_nodes db' = db_nodes db" "db_sessions db' = db_sessions db" "db_branches db' = db_branches db"
      "db_next_branch db' = db_next_branch db"
  shows "sql_db_ok db'"
  using assms by (simp add: sql_db_ok_def nodes_ok_def branches_ok_def sessions_ok_def)

lemma insert_typed_row_cases:
  assumes "insert_typed_row h m get put r db = Inr (x, db')"
  shows "db' = db \<or>
    h r \<notin> h ` set (get db) \<and> m r \<notin> m ` set (get db) \<and> h r \<in> nr_hash ` set (db_nodes db) \<and>
    db' = put (get db @ [r]) db"
  using assms unfolding insert_typed_row_def by (simp split: if_split_asm)

lemma typed_ok_frame:
  "typed_ok h m rs (db_invokes_update f db) = typed_ok h m rs db"
  "typed_ok h m rs (db_completes_update f2 db) = typed_ok h m rs db"
  "typed_ok h m rs (db_requests_update f3 db) = typed_ok h m rs db"
  "typed_ok h m rs (db_responses_update f4 db) = typed_ok h m rs db"
  "typed_ok h m rs (db_forks_update f5 db) = typed_ok h m rs db"
  "typed_ok h m rs (db_promotes_update f6 db) = typed_ok h m rs db"
  "typed_ok h m rs (db_deploys_update f7 db) = typed_ok h m rs db"
  "typed_ok h m rs (db_deletes_update f8 db) = typed_ok h m rs db"
  "typed_ok h m rs (db_svc_requests_update f9 db) = typed_ok h m rs db"
  "typed_ok h m rs (db_svc_responses_update f10 db) = typed_ok h m rs db"
  by (simp_all add: typed_ok_def)

lemma insert_typed_row_ok:
  "sql_db_ok db \<Longrightarrow> insert_typed_row ir_dag_hash ir_message_id db_invokes (\<lambda>rs. db_invokes_update (\<lambda>_. rs)) r1 db = Inr (x, db') \<Longrightarrow> sql_db_ok db'"
  "sql_db_ok db \<Longrightarrow> insert_typed_row cr_dag_hash cr_message_id db_completes (\<lambda>rs. db_completes_update (\<lambda>_. rs)) r2 db = Inr (x, db') \<Longrightarrow> sql_db_ok db'"
  "sql_db_ok db \<Longrightarrow> insert_typed_row qr_dag_hash qr_message_id db_requests (\<lambda>rs. db_requests_update (\<lambda>_. rs)) r3 db = Inr (x, db') \<Longrightarrow> sql_db_ok db'"
  "sql_db_ok db \<Longrightarrow> insert_typed_row pr_dag_hash pr_message_id db_responses (\<lambda>rs. db_responses_update (\<lambda>_. rs)) r4 db = Inr (x, db') \<Longrightarrow> sql_db_ok db'"
  "sql_db_ok db \<Longrightarrow> insert_typed_row fr_dag_hash fr_message_id db_forks (\<lambda>rs. db_forks_update (\<lambda>_. rs)) r5 db = Inr (x, db') \<Longrightarrow> sql_db_ok db'"
  "sql_db_ok db \<Longrightarrow> insert_typed_row or_dag_hash or_message_id db_promotes (\<lambda>rs. db_promotes_update (\<lambda>_. rs)) r6 db = Inr (x, db') \<Longrightarrow> sql_db_ok db'"
  "sql_db_ok db \<Longrightarrow> insert_typed_row dr_dag_hash dr_message_id db_deploys (\<lambda>rs. db_deploys_update (\<lambda>_. rs)) r7 db = Inr (x, db') \<Longrightarrow> sql_db_ok db'"
  "sql_db_ok db \<Longrightarrow> insert_typed_row er_dag_hash er_message_id db_deletes (\<lambda>rs. db_deletes_update (\<lambda>_. rs)) r8 db = Inr (x, db') \<Longrightarrow> sql_db_ok db'"
  "sql_db_ok db \<Longrightarrow> insert_typed_row sq_dag_hash sq_message_id db_svc_requests (\<lambda>rs. db_svc_requests_update (\<lambda>_. rs)) r9 db = Inr (x, db') \<Longrightarrow> sql_db_ok db'"
  "sql_db_ok db \<Longrightarrow> insert_typed_row sp_dag_hash sp_message_id db_svc_responses (\<lambda>rs. db_svc_responses_update (\<lambda>_. rs)) r10 db = Inr (x, db') \<Longrightarrow> sql_db_ok db'"
  by (drule insert_typed_row_cases, elim disjE conjE, simp, rule sql_db_ok_put, assumption,
      simp add: sql_db_ok_def typed_tables_ok_def typed_ok_frame typed_ok_insert, simp, simp, simp, simp)+

lemma insert_branch_row_ok:
  assumes "sql_db_ok db" and "insert_branch_row t nm se fp db = Inr (x, db')"
  shows "sql_db_ok db'"
proof -
  let ?r = "\<lparr>brow_id = db_next_branch db, brow_name = nm, brow_session_id = se, brow_fork_point = fp,
             brow_head = None, brow_created_at = t, brow_broken_at = None\<rparr>"
  have new: "(nm, se) \<notin> (\<lambda>r. (brow_name r, brow_session_id r)) ` set (db_branches db)"
      "se \<in> srow_id ` set (db_sessions db)"
    and db': "db' = db\<lparr>db_branches := db_branches db @ [?r], db_next_branch := db_next_branch db + 1\<rparr>"
    using assms(2) unfolding insert_branch_row_def by (auto split: if_split_asm)
  have ok: "nodes_ok db" "typed_tables_ok db" "branches_ok db" "sessions_ok db"
    using assms(1) by (simp_all add: sql_db_ok_def)
  have "branches_ok db'"
    using ok(3) new unfolding branches_ok_def db' by fastforce
  moreover have "nodes_ok db'" using ok(1) unfolding nodes_ok_def db' by auto
  moreover have "typed_tables_ok db'" using typed_tables_frame [OF ok(2), of db'] unfolding db' by simp
  ultimately show ?thesis using ok(4) unfolding sql_db_ok_def sessions_ok_def db' by simp
qed

lemma sql_db_ok_branches:
  assumes "sql_db_ok db"
    and "map brow_id bs = map brow_id (db_branches db)"
    and "map brow_session_id bs = map brow_session_id (db_branches db)"
    and "distinct (map (\<lambda>r. (brow_name r, brow_session_id r)) bs)"
  shows "sql_db_ok (db\<lparr>db_branches := bs\<rparr>)"
proof -
  have sets: "brow_id ` set bs = brow_id ` set (db_branches db)"
      "brow_session_id ` set bs = brow_session_id ` set (db_branches db)"
    using assms(2,3) by (metis list.set_map)+
  have "brow_id r < db_next_branch db \<and> brow_session_id r \<in> srow_id ` set (db_sessions db)"
    if "r \<in> set bs" for r
  proof -
    have "brow_id r \<in> brow_id ` set (db_branches db)" "brow_session_id r \<in> brow_session_id ` set (db_branches db)"
      using that sets by blast+
    then show ?thesis using assms(1) by (auto simp: sql_db_ok_def branches_ok_def)
  qed
  then have "branches_ok (db\<lparr>db_branches := bs\<rparr>)"
    using assms unfolding sql_db_ok_def branches_ok_def by simp
  moreover have "nodes_ok (db\<lparr>db_branches := bs\<rparr>)"
    using assms(1) unfolding sql_db_ok_def nodes_ok_def by (simp add: sets)
  moreover have "typed_tables_ok (db\<lparr>db_branches := bs\<rparr>)"
    using assms(1) typed_tables_frame [of db "db\<lparr>db_branches := bs\<rparr>"] by (simp add: sql_db_ok_def)
  ultimately show ?thesis using assms(1) by (simp add: sql_db_ok_def sessions_ok_def)
qed

lemma rename_branch_row_ok:
  assumes "sql_db_ok db" and "rename_branch_row i nm db = Inr (x, db')"
  shows "sql_db_ok db'"
proof -
  let ?g = "\<lambda>r. if brow_id r = i then r\<lparr>brow_name := nm\<rparr> else r"
  let ?bs = "db_branches db"
  have guard: "\<not> (\<exists>r \<in> set ?bs. brow_id r = i \<and>
      (\<exists>r' \<in> set ?bs. brow_id r' \<noteq> i \<and> brow_name r' = nm \<and> brow_session_id r' = brow_session_id r))"
    and db': "db' = db\<lparr>db_branches := map ?g ?bs\<rparr>"
    using assms(2) unfolding rename_branch_row_def update_branch_row_def by (simp_all split: if_split_asm)
  have ids: "distinct (map brow_id ?bs)" and keys: "distinct (map (\<lambda>r. (brow_name r, brow_session_id r)) ?bs)"
    using assms(1) by (simp_all add: sql_db_ok_def branches_ok_def)
  have "inj_on (\<lambda>r. (brow_name (?g r), brow_session_id (?g r))) (set ?bs)"
  proof (rule inj_onI)
    fix x y
    assume x: "x \<in> set ?bs" and y: "y \<in> set ?bs"
      and eq: "(brow_name (?g x), brow_session_id (?g x)) = (brow_name (?g y), brow_session_id (?g y))"
    have "x = y" if "brow_id x = brow_id y"
      using that x y ids by (auto simp: distinct_map inj_on_def)
    moreover have "x = y" if "brow_id x \<noteq> i" "brow_id y \<noteq> i"
      using that eq x y keys by (auto simp: distinct_map inj_on_def)
    moreover have False if "brow_id x = i" "brow_id y \<noteq> i"
    proof -
      have "brow_name y = nm" "brow_session_id y = brow_session_id x" using that eq by auto
      with guard that x y show False by blast
    qed
    moreover have False if "brow_id x \<noteq> i" "brow_id y = i"
    proof -
      have "brow_name x = nm" "brow_session_id x = brow_session_id y" using that eq by auto
      with guard that x y show False by blast
    qed
    ultimately show "x = y" by metis
  qed
  moreover have "distinct ?bs" using ids by (simp add: distinct_map)
  ultimately have "distinct (map (\<lambda>r. (brow_name r, brow_session_id r)) (map ?g ?bs))"
    by (simp add: distinct_map comp_def inj_on_def)
  then show ?thesis unfolding db' by (intro sql_db_ok_branches [OF assms(1)]) simp_all
qed

lemma seal_branch_row_ok:
  assumes "sql_db_ok db" and "update_branch_row i (\<lambda>r. r\<lparr>brow_broken_at := t\<rparr>) db = (x, db')"
  shows "sql_db_ok db'"
proof -
  let ?g = "\<lambda>r. if brow_id r = i then r\<lparr>brow_broken_at := t\<rparr> else r"
  have keys: "(\<lambda>r. (brow_name r, brow_session_id r)) \<circ> ?g = (\<lambda>r. (brow_name r, brow_session_id r))" by auto
  have db': "db' = db\<lparr>db_branches := map ?g (db_branches db)\<rparr>"
    using assms(2) by (simp add: update_branch_row_def)
  have "distinct (map (\<lambda>r. (brow_name r, brow_session_id r)) (map ?g (db_branches db)))"
    unfolding map_map keys using assms(1) by (simp add: sql_db_ok_def branches_ok_def)
  then show ?thesis unfolding db' by (intro sql_db_ok_branches [OF assms(1)]) simp_all
qed

lemma sql_db_ok_sessions:
  assumes "sql_db_ok db" and "sessions_ok (db\<lparr>db_sessions := ss\<rparr>)"
    and "srow_id ` set (db_sessions db) \<subseteq> srow_id ` set ss"
  shows "sql_db_ok (db\<lparr>db_sessions := ss\<rparr>)"
proof -
  have mono: "references (srow_id ` set (db_sessions db)) r \<Longrightarrow> references (srow_id ` set ss) r" for r
    using assms(3) by (auto simp: references_def split: option.splits)
  have "nodes_ok (db\<lparr>db_sessions := ss\<rparr>)" "branches_ok (db\<lparr>db_sessions := ss\<rparr>)"
    using assms(1,3) mono unfolding sql_db_ok_def nodes_ok_def branches_ok_def by auto
  moreover have "typed_tables_ok (db\<lparr>db_sessions := ss\<rparr>)"
    using assms(1) typed_tables_frame [of db "db\<lparr>db_sessions := ss\<rparr>"] by (simp add: sql_db_ok_def)
  ultimately show ?thesis using assms(2) by (simp add: sql_db_ok_def)
qed

lemma insert_session_row_ok: "sql_db_ok db \<Longrightarrow> sql_db_ok (insert_session_row r db)"
  unfolding insert_session_row_def
  by (auto intro!: sql_db_ok_sessions) (auto simp: sql_db_ok_def sessions_ok_def)

lemma default_branch_row_ok:
  assumes "sql_db_ok db"
  shows "sql_db_ok (db\<lparr>db_sessions :=
           map (\<lambda>r. if srow_id r = se then r\<lparr>srow_default_branch := b\<rparr> else r) (db_sessions db)\<rparr>)"
proof -
  let ?g = "\<lambda>r. if srow_id r = se then r\<lparr>srow_default_branch := b\<rparr> else r"
  have keys: "srow_id \<circ> ?g = srow_id" "srow_name \<circ> ?g = srow_name" "srow_external_id \<circ> ?g = srow_external_id"
    by (auto simp: fun_eq_iff)
  have "srow_id ` set (map ?g (db_sessions db)) = srow_id ` set (db_sessions db)"
    unfolding set_map image_comp keys ..
  moreover have "sessions_ok (db\<lparr>db_sessions := map ?g (db_sessions db)\<rparr>)"
    using assms by (simp add: sql_db_ok_def sessions_ok_def keys)
  ultimately show ?thesis by (intro sql_db_ok_sessions [OF assms]) (simp_all only: subset_refl)
qed

lemmas table_ops_ok = insert_node_row_ok insert_typed_row_ok insert_branch_row_ok rename_branch_row_ok

lemma sql_inserts_ok:
  "epreserves sql_ok (sql_insert_invoke_node env i p t st dk iv)"
  "epreserves sql_ok (sql_insert_complete_node env i p t st se sub br a h cm)"
  "epreserves sql_ok (sql_insert_request_node env i p t st se sub br a sb op q rq)"
  "epreserves sql_ok (sql_insert_response_node env i p t st se sub br a sb op q rs)"
  "epreserves sql_ok (sql_insert_svc_request_node env i p t st se sub br a sv so q rq2)"
  "epreserves sql_ok (sql_insert_svc_response_node env i p t st se sub br a sv so q rs2)"
  "epreserves sql_ok (sql_insert_deploy_agent_node env i p t st ik dp)"
  "epreserves sql_ok (sql_insert_delete_agent_node env i p t st ik da)"
  unfolding sql_inserts serialize_snapshot_def insert_dag_node_def
  by (auto split: data_message_kind.split intro!: epreserves_rules intro: insert_node_row_ok insert_typed_row_ok)

lemma sql_session_inserts_ok:
  "epreserves sql_ok (sql_insert_fork_node env i p t st sk fk)"
  "epreserves sql_ok (sql_insert_promote_node env i p t st sk pm)"
  unfolding sql_insert_fork_node_def sql_insert_promote_node_def serialize_snapshot_def insert_dag_node_def Let_def
  by (auto split: session_message_kind.split if_split_asm intro!: epreserves_rules
      intro: insert_node_row_ok insert_typed_row_ok)

lemma sql_row_ops_ok:
  "epreserves sql_ok (sql_create_branch env t nm se fp)"
  "epreserves sql_ok (sql_rename_branch env br nm)"
  "epreserves sql_ok (sql_seal_branch env br t)"
  "epreserves sql_ok (sql_update_session_default_branch env se br)"
  "epreserves sql_ok (sql_create_session env ses)"
  unfolding sql_row_ops
  by (auto intro!: epreserves_rules intro: insert_branch_row_ok rename_branch_row_ok seal_branch_row_ok
      default_branch_row_ok insert_session_row_ok)

interpretation sql_rows: store_invariant "sql_dag_store env" sql_ok for env
  by (unfold_locales, simp_all only: sql_dag_store_def dag_store.simps)
    (rule sql_inserts_ok sql_session_inserts_ok sql_row_ops_ok)+

section \<open>Rows that stay\<close>

lemma find_unique:
  assumes "distinct (map f xs)" and "x \<in> set xs"
  shows "find (\<lambda>r. f r = f x) xs = Some x"
  using assms by (induction xs) auto

text \<open>The columns of a session that no statement updates.\<close>

definition srow_key :: "session_row \<Rightarrow> string \<times> string \<times> string \<times> string \<times> string" where
  "srow_key r = (srow_id r, srow_external_id r, srow_name r, srow_agent_name r, srow_created_at r)"

definition promotes_ok :: "dag_db \<Rightarrow> bool" where
  "promotes_ok db \<longleftrightarrow> (\<forall>r \<in> set (db_promotes db). references (brow_id ` set (db_branches db)) (or_branch_id r))"

definition rows_kept :: "(string \<times> string \<times> string \<times> string \<times> string) set \<Rightarrow> dag_db \<Rightarrow> bool" where
  "rows_kept K db \<longleftrightarrow> promotes_ok db \<and> K \<subseteq> srow_key ` set (db_sessions db)"

lemma rows_kept_frame:
  "rows_kept K db \<Longrightarrow> db_promotes db' = db_promotes db \<Longrightarrow> brow_id ` set (db_branches db) \<subseteq> brow_id ` set (db_branches db') \<Longrightarrow>
   srow_key ` set (db_sessions db) \<subseteq> srow_key ` set (db_sessions db') \<Longrightarrow> rows_kept K db'"
  by (auto simp: rows_kept_def promotes_ok_def references_def split: option.splits)

lemma insert_node_row_kept: "rows_kept K db \<Longrightarrow> insert_node_row r db = Inr (x, db') \<Longrightarrow> rows_kept K db'"
  by (erule rows_kept_frame) (auto simp: insert_node_row_def split: if_splits)

lemma insert_typed_row_kept:
  "rows_kept K db \<Longrightarrow> insert_typed_row h m get put r db = Inr (x, db') \<Longrightarrow>
   (\<And>rs. db_promotes (put rs db) = db_promotes db) \<Longrightarrow> (\<And>rs. db_branches (put rs db) = db_branches db) \<Longrightarrow>
   (\<And>rs. db_sessions (put rs db) = db_sessions db) \<Longrightarrow> rows_kept K db'"
  by (erule rows_kept_frame) (auto simp: insert_typed_row_def split: if_splits)

lemma insert_promote_row_kept:
  assumes "rows_kept K db"
    and "(if references (brow_id ` set (db_branches db)) (or_branch_id r) \<or> or_dag_hash r \<in> or_dag_hash ` set (db_promotes db) \<or>
             or_message_id r \<in> or_message_id ` set (db_promotes db)
          then insert_typed_row or_dag_hash or_message_id db_promotes (\<lambda>rs. db_promotes_update (\<lambda>_. rs)) r db
          else Inl e) = Inr (x, db')"
  shows "rows_kept K db'"
  using assms by (auto simp: rows_kept_def promotes_ok_def insert_typed_row_def split: if_splits)

lemma key_of_updated: "(\<And>r. k (f r) = k r) \<Longrightarrow> k ` set (map (\<lambda>r. if p r then f r else r) rs) = k ` set rs"
  by (induction rs) auto

lemma update_branch_row_kept:
  "rows_kept K db \<Longrightarrow> (\<And>r. brow_id (f r) = brow_id r) \<Longrightarrow> rows_kept K (snd (update_branch_row i f db))"
  by (erule rows_kept_frame) (simp_all add: update_branch_row_def key_of_updated del: set_map)

lemma row_ops_kept:
  "rows_kept K db \<Longrightarrow> insert_branch_row t nm se fp db = Inr (x, db') \<Longrightarrow> rows_kept K db'"
  "rows_kept K db \<Longrightarrow> rename_branch_row i nm db = Inr (y, db') \<Longrightarrow> rows_kept K db'"
  "rows_kept K db \<Longrightarrow> update_branch_row i (\<lambda>r. r\<lparr>brow_broken_at := b\<rparr>) db = (y, db') \<Longrightarrow> rows_kept K db'"
  "rows_kept K db \<Longrightarrow> rows_kept K (insert_session_row r db)"
proof -
  show "rows_kept K db \<Longrightarrow> insert_branch_row t nm se fp db = Inr (x, db') \<Longrightarrow> rows_kept K db'"
    by (erule rows_kept_frame) (auto simp: insert_branch_row_def split: if_splits)
  show "rows_kept K db \<Longrightarrow> rename_branch_row i nm db = Inr (y, db') \<Longrightarrow> rows_kept K db'"
    using update_branch_row_kept [of K db "\<lambda>r. r\<lparr>brow_name := nm\<rparr>" i]
    by (simp add: rename_branch_row_def split: if_splits)
  show "rows_kept K db \<Longrightarrow> update_branch_row i (\<lambda>r. r\<lparr>brow_broken_at := b\<rparr>) db = (y, db') \<Longrightarrow> rows_kept K db'"
    using update_branch_row_kept [of K db "\<lambda>r. r\<lparr>brow_broken_at := b\<rparr>" i] by simp
  show "rows_kept K db \<Longrightarrow> rows_kept K (insert_session_row r db)"
    by (erule rows_kept_frame) (auto simp: insert_session_row_def)
qed

lemma default_branch_kept:
  "rows_kept K db \<Longrightarrow>
   rows_kept K (db\<lparr>db_sessions := map (\<lambda>r. if srow_id r = se then r\<lparr>srow_default_branch := b\<rparr> else r) (db_sessions db)\<rparr>)"
  by (erule rows_kept_frame) (simp_all add: key_of_updated srow_key_def del: set_map)

abbreviation kept :: "(string \<times> string \<times> string \<times> string \<times> string) set \<Rightarrow> dag_db sql_world \<Rightarrow> bool" where
  "kept K w \<equiv> rows_kept K (sw_data w)"

lemma sql_inserts_kept:
  "epreserves (kept K) (sql_insert_invoke_node env i p t st dk iv)"
  "epreserves (kept K) (sql_insert_complete_node env i p t st se sub br a h cm)"
  "epreserves (kept K) (sql_insert_request_node env i p t st se sub br a sb op q rq)"
  "epreserves (kept K) (sql_insert_response_node env i p t st se sub br a sb op q rs)"
  "epreserves (kept K) (sql_insert_svc_request_node env i p t st se sub br a sv so q rq2)"
  "epreserves (kept K) (sql_insert_svc_response_node env i p t st se sub br a sv so q rs2)"
  "epreserves (kept K) (sql_insert_deploy_agent_node env i p t st ik dp)"
  "epreserves (kept K) (sql_insert_delete_agent_node env i p t st ik da)"
  unfolding sql_inserts serialize_snapshot_def insert_dag_node_def
  by (auto split: data_message_kind.split intro!: epreserves_rules intro: insert_node_row_kept elim: insert_typed_row_kept)

lemma sql_fork_kept: "epreserves (kept K) (sql_insert_fork_node env i p t st sk fk)"
  unfolding sql_insert_fork_node_def serialize_snapshot_def insert_dag_node_def Let_def
  by (auto split: session_message_kind.split intro!: epreserves_rules intro: insert_node_row_kept
      elim: insert_typed_row_kept)

lemma sql_promote_kept: "epreserves (kept K) (sql_insert_promote_node env i p t st sk pm)"
proof (cases "sk_kind sk")
  case (SkPromote agent)
  let ?r = "\<lparr>or_dag_hash = i, or_agent = agent, or_message_id = pm_id pm, or_branch_id = Some (pm_branch_id pm)\<rparr>"
  note insert = insert_promote_row_kept [where K = K and r = ?r and e = foreign_key_failed, unfolded promote_row.simps]
  show ?thesis
    unfolding sql_insert_promote_node_def serialize_snapshot_def insert_dag_node_def SkPromote session_message_kind.case
    by (intro epreserves_rules; (erule (1) insert_node_row_kept | erule (1) insert | simp))
qed (simp_all add: sql_insert_promote_node_def epreserves_rules)

lemma sql_rows_kept:
  "epreserves (kept K) (sql_create_branch env t nm se fp)"
  "epreserves (kept K) (sql_rename_branch env br nm)"
  "epreserves (kept K) (sql_seal_branch env br t)"
  "epreserves (kept K) (sql_update_session_default_branch env se br)"
  "epreserves (kept K) (sql_create_session env ses)"
  unfolding sql_row_ops
  by (auto intro!: epreserves_rules intro: row_ops_kept default_branch_kept)

interpretation sql_kept: store_invariant "sql_dag_store env" "kept K" for env K
  by (unfold_locales, simp_all only: sql_dag_store_def dag_store.simps)
    (rule sql_inserts_kept sql_fork_kept sql_promote_kept sql_rows_kept)+

end
