(* ===== verification/SqlDagRun.thy ===== *)
theory SqlDagRun
  imports SqlDagLaws RecordingMem
begin

text \<open>
  The recording queue over \<open>SqliteDagStore\<close> itself as the daemon's API server runs it
  (its other workers have the state service in between, \<open>StateGrpcRun\<close>), and the store's own queries:
  the chain and the integrity of the tables over any run under any rejected statements; what a typed
  insert gives back when it is read; and where the store silently leaves a message unrecorded.
\<close>

section \<open>An environment for examples\<close>

definition example_codec :: "'a \<Rightarrow> 'b \<Rightarrow> ('a, 'b) codec" where
  "example_codec x y = \<lparr>enc = \<lambda>_. Inr y, dec = \<lambda>_. Inr x\<rparr>"

definition broken_codec :: "('a, 'b) codec" where
  "broken_codec = \<lparr>enc = \<lambda>_. Inl ''no'', dec = \<lambda>_. Inl ''no''\<rparr>"

definition example_sql_env :: "(nat \<Rightarrow> string \<Rightarrow> string option) \<Rightarrow> sql_env" where
  "example_sql_env faults =
     \<lparr>se_fault = faults,
      se_time = \<lparr>enc = \<lambda>t. Inr (replicate (nat t) CHR ''1''), dec = \<lambda>s. Inr (int (length s))\<rparr>,
      se_snapshot = example_codec snapshot_empty ''{}'',
      se_invoke = example_codec (example_invoke ''1'') ''{1}'', se_complete = broken_codec,
      se_invoke_diag = broken_codec, se_runtime_diag = broken_codec, se_request_diag = broken_codec,
      se_service_diag = broken_codec, se_svc_request_diag = broken_codec, se_svc_response_diag = broken_codec,
      se_manifest = broken_codec, se_is_uuid = (\<lambda>_. True), se_random_session = ''r'',
      se_external_id_error = (\<lambda>_. ''bad''), se_node_scan = rev, se_branch_scan = (\<lambda>rs. rs),
      se_group_scan = (\<lambda>xs. xs)\<rparr>"

lemma example_sql_env_simps [simp]:
  "se_fault (example_sql_env faults) = faults"
  "enc (se_snapshot (example_sql_env faults)) st = Inr ''{}''"
  "enc (se_invoke (example_sql_env faults)) iv = Inr ''{1}''"
  "dec (se_invoke (example_sql_env faults)) j = Inr (example_invoke ''1'')"
  "se_is_uuid (example_sql_env faults) s"
  by (simp_all add: example_sql_env_def example_codec_def)

lemma example_sql_scans [simp]: "scans_ok (example_sql_env faults)"
  by (simp add: scans_ok_def example_sql_env_def)

definition sql_start :: "(dag_db sql_world, mem_queue) rec_state" where
  "sql_start = \<lparr>rc_store = \<lparr>sw_tick = 0, sw_data = dag_db_empty\<rparr>, rc_inner = mem_queue_new, rc_ticks = 0\<rparr>"

definition sql_started :: "(dag_db sql_world, mem_queue) rec_state" where
  "sql_started =
     snd (rec_send_session_start example_ext (sql_dag_store (example_sql_env (\<lambda>_ _. None))) example_mq
       (example_session_key ''s1'' (SkStart ''todo'')) \<lparr>ss_id = ''m''\<rparr> ''ext'' sql_start)"

text \<open>The third statement, the insert of the first node, is rejected; the node arrives with the second send.\<close>

definition third_fails :: "nat \<Rightarrow> string \<Rightarrow> string option" where
  "third_fails n c = (if n = 3 then Some ''database is locked'' else None)"

section \<open>Runs\<close>

text \<open>
  Over the SQLite store too, whatever statements the database rejects and whatever is sent, the
  nodes are only ever extended at the end, ids stay unique, every parent is the root or an earlier
  node, and the parent relation has no cycle.
\<close>

theorem sql_chain_invariant:
  assumes "scans_ok env" and "\<forall>x. rx_sha256 ext x \<noteq> []"
    and "(rec_step ext (sql_dag_store env) mq)\<^sup>*\<^sup>* c c'"
    and "chain_wf (sql_nodes env (rc_store c))"
  shows "prefix (sql_nodes env (rc_store c)) (sql_nodes env (rc_store c')) \<and>
         chain_wf (sql_nodes env (rc_store c')) \<and> acyclic (parent_edges (sql_nodes env (rc_store c')))"
proof -
  note store = sql_append_only [OF assms(1)]
  show ?thesis
    using append_only_store.rec_run_prefix [OF store assms(3)]
      append_only_store.rec_run_chain_wf [OF store assms(3,2,4)]
    by (simp add: parent_edges_acyclic)
qed

definition example_sql_key :: data_routing_key where
  "example_sql_key =
     \<lparr>dk_session = ''s1'', dk_branch = 1, dk_submission = ''sub'', dk_kind = DkInvoke HCli RtContainer ''todo''\<rparr>"

definition sql_after_invokes :: "(dag_db sql_world, mem_queue) rec_state" where
  "sql_after_invokes =
     (let send = (\<lambda>i c. snd (rec_send_invoke example_ext (sql_dag_store (example_sql_env third_fails)) example_mq
                       example_sql_key (example_invoke i) c))
      in send ''2'' (send ''1'' sql_started))"

lemma sql_after_invokes_run:
  "(rec_step example_ext (sql_dag_store (example_sql_env third_fails)) example_mq)\<^sup>*\<^sup>* sql_started sql_after_invokes"
  unfolding sql_after_invokes_def Let_def
  by (rule rtranclp.rtrancl_refl | rule rtranclp.rtrancl_into_rtrancl [rotated], rule st_invoke)+

lemma sql_started_data:
  "sw_data (rc_store sql_started) =
     dag_db_empty\<lparr>db_sessions := [\<lparr>srow_id = ''s1'', srow_external_id = ''ext'', srow_name = ''calm-otter'',
         srow_agent_name = ''todo'', srow_default_branch = 1, srow_created_at = []\<rparr>],
       db_branches := [\<lparr>brow_id = 1, brow_name = ''main'', brow_session_id = ''s1'', brow_fork_point = None,
         brow_head = None, brow_created_at = ''1'', brow_broken_at = None\<rparr>],
       db_next_branch := 2\<rparr>"
  by code_simp

lemma sql_after_invokes_ids:
  "map dn_id (sql_nodes (example_sql_env third_fails) (rc_store sql_after_invokes)) = [''h2invokes1'']"
  by code_simp

theorem sql_chain_invariant_witness:
  "chain_wf (sql_nodes (example_sql_env third_fails) (rc_store sql_after_invokes))"
  using sql_chain_invariant [OF example_sql_scans _ sql_after_invokes_run]
  by (simp add: sql_started_data sql_nodes_def dag_db_empty_def example_ext_def)

text \<open>
  C7: the tables stay consistent over any run under any rejected statements: keys, message ids, session
  names, external ids and branch names within a session stay unique; a node's parent, session and branch,
  a message row's node, a promote's branch and a branch's session are there; and no session is lost or
  changes its id, external id, name, agent or time of creation.  (A session's default branch and a branch's
  fork point and head are not foreign keys of the schema, and nothing is claimed of them.)
\<close>

theorem sql_tables_invariant:
  assumes "(rec_step ext (sql_dag_store env) mq)\<^sup>*\<^sup>* c c'" and "sql_db_ok (sw_data (rc_store c))"
    and "promotes_ok (sw_data (rc_store c))"
  shows "sql_db_ok (sw_data (rc_store c')) \<and> promotes_ok (sw_data (rc_store c')) \<and>
         srow_key ` set (db_sessions (sw_data (rc_store c))) \<subseteq> srow_key ` set (db_sessions (sw_data (rc_store c')))"
  using sql_rows.rec_run_keeps [OF assms(1,2)]
    sql_kept.rec_run_keeps [OF assms(1), of "srow_key ` set (db_sessions (sw_data (rc_store c)))"] assms(3)
  by (simp add: rows_kept_def)

lemma sql_started_ok: "sql_db_ok (sw_data (rc_store sql_started))"
  unfolding sql_started_data
  by (simp add: sql_db_ok_def nodes_ok_def typed_tables_ok_def typed_ok_def branches_ok_def sessions_ok_def
      dag_db_empty_def)

theorem sql_tables_invariant_witness:
  "sql_db_ok (sw_data (rc_store sql_after_invokes)) \<and> promotes_ok (sw_data (rc_store sql_after_invokes)) \<and>
   srow_key ` set (db_sessions (sw_data (rc_store sql_started))) \<subseteq>
     srow_key ` set (db_sessions (sw_data (rc_store sql_after_invokes)))"
  by (rule sql_tables_invariant [OF sql_after_invokes_run sql_started_ok])
    (simp add: sql_started_data promotes_ok_def dag_db_empty_def)

section \<open>Messages that are not recorded\<close>

definition no_sql_fault :: "nat \<Rightarrow> string \<Rightarrow> string option" where
  "no_sql_fault n c = None"

lemma stmt_no_fault:
  assumes "se_fault env = no_sql_fault"
  shows "stmt env ctx f w =
    (case f (sw_data w) of
       Inl e \<Rightarrow> (Inl (ctx @ e), w\<lparr>sw_tick := Suc (sw_tick w)\<rparr>)
     | Inr (x, d) \<Rightarrow> (Inr x, \<lparr>sw_tick = Suc (sw_tick w), sw_data = d\<rparr>))"
  using assms by (simp add: stmt_def no_sql_fault_def split: sum.split)

lemma query_no_fault: "se_fault env = no_sql_fault \<Longrightarrow> query env ctx q w = Inr (q (sw_data w))"
  by (simp add: query_def no_sql_fault_def)

text \<open>
  C37: starting a session whose generated name or external id is taken answers with branch 1, which
  belongs to somebody else, and changes nothing in the database: no session row, no branch.
\<close>

theorem session_start_collision:
  assumes "se_fault env = no_sql_fault" and "sk_kind key = SkStart agent"
    and "sk_session key \<notin> srow_id ` set (db_sessions (sw_data (rc_store c)))"
    and "rx_petname ext (sk_session key) \<in> srow_name ` set (db_sessions (sw_data (rc_store c))) \<or>
         eid \<in> srow_external_id ` set (db_sessions (sw_data (rc_store c)))"
  shows "fst (rec_send_session_start ext (sql_dag_store env) mq key msg eid c) = Inr 1 \<and>
         sw_data (rc_store (snd (rec_send_session_start ext (sql_dag_store env) mq key msg eid c))) =
           sw_data (rc_store c)"
proof -
  let ?db = "sw_data (rc_store c)"
  have ses: "insert_session_row r ?db = ?db"
    if "srow_name r = rx_petname ext (sk_session key)" "srow_external_id r = eid" for r
    using assms(4) that by (auto simp: insert_session_row_def)
  have br: "\<exists>e. insert_branch_row t nm (sk_session key) fp ?db = Inl e" for t nm fp
    using assms(3) by (simp add: insert_branch_row_def)
  have upd: "map (\<lambda>r. if srow_id r = sk_session key then r\<lparr>srow_default_branch := b\<rparr> else r) (db_sessions ?db)
      = db_sessions ?db" for b
    by (rule map_idI) (metis assms(3) image_eqI)
  obtain e where e: "insert_branch_row (time_str env (rx_clock ext (Suc (rc_ticks c)))) ''main'' (sk_session key) None ?db
      = Inl e" using br by blast
  have none: "filter (\<lambda>r. srow_id r = sk_session key) (db_sessions ?db) = []"
    by (simp add: filter_empty_conv) (metis assms(3) image_eqI)
  show ?thesis
    using assms(2) e
    by (simp add: rec_send_session_start_def rec_now_def Let_def sql_dag_store_def sql_create_session_def
        sql_create_branch_def sql_update_session_default_branch_def session_new_def ebind_def
        stmt_no_fault [OF assms(1)] ses upd none result_or_def split_beta)
qed

theorem session_start_collision_witness:
  "fst (rec_send_session_start example_ext (sql_dag_store (example_sql_env no_sql_fault)) example_mq
     (example_session_key ''s2'' (SkStart ''todo'')) \<lparr>ss_id = ''m''\<rparr> ''ext'' sql_started) = Inr 1"
  using session_start_collision [where c = sql_started and ext = example_ext and mq = example_mq
      and env = "example_sql_env no_sql_fault" and agent = "''todo''" and eid = "''ext''" and msg = "\<lparr>ss_id = ''m''\<rparr>"
      and key = "example_session_key ''s2'' (SkStart ''todo'')"]
  by (simp add: sql_started_data example_session_key_def example_sql_env_def)

text \<open>What a session without a row means for its messages: no statement changes the nodes.\<close>

lemma insert_node_row_unknown:
  assumes "nr_session_id r = Some se" and "se \<notin> srow_id ` set (db_sessions d)"
    and "insert_node_row r d = Inr (x, d')"
  shows "db_nodes d' = db_nodes d \<and> db_sessions d' = db_sessions d"
  using assms by (simp add: insert_node_row_def references_def split: if_split_asm)

lemma unknown_session_keeps:
  assumes "se \<notin> srow_id ` set ss"
  shows "dk_session dk = se \<Longrightarrow> epreserves (\<lambda>w. db_nodes (sw_data w) = ns \<and> db_sessions (sw_data w) = ss)
           (sql_insert_invoke_node env i p t st dk iv)"
    and "epreserves (\<lambda>w. db_nodes (sw_data w) = ns \<and> db_sessions (sw_data w) = ss)
           (sql_insert_complete_node env i p t st se sub br a h cm)"
    and "epreserves (\<lambda>w. db_nodes (sw_data w) = ns \<and> db_sessions (sw_data w) = ss)
           (sql_insert_svc_request_node env i p t st se sub br a sv so q rq2)"
    and "epreserves (\<lambda>w. db_nodes (sw_data w) = ns \<and> db_sessions (sw_data w) = ss)
           (sql_insert_svc_response_node env i p t st se sub br a sv so q rs2)"
  using assms unfolding sql_inserts serialize_snapshot_def insert_dag_node_def
  by (auto split: data_message_kind.split if_split_asm intro!: epreserves_rules
      simp: insert_typed_row_def dest!: insert_node_row_unknown [where se = se, rotated 2])

definition unrecorded :: "(dag_db sql_world, 'q) rec_state \<Rightarrow> dag_node_id \<times> (dag_db sql_world, 'q) rec_state \<Rightarrow> bool" where
  "unrecorded c nc \<longleftrightarrow>
     db_nodes (sw_data (rc_store (snd nc))) = db_nodes (sw_data (rc_store c)) \<and> rc_inner (snd nc) = rc_inner c"

lemma rec_insert_unrecorded:
  assumes "\<And>now. epreserves (\<lambda>w. db_nodes (sw_data w) = db_nodes (sw_data (rc_store c)) \<and>
      db_sessions (sw_data w) = db_sessions (sw_data (rc_store c))) (ins now)"
  shows "unrecorded c (i, rec_insert ext ins c)"
  using assms by (simp add: unrecorded_def rec_insert_def rec_now_def epreserves_def)

lemma records_unrecorded:
  assumes "dk_session key \<notin> srow_id ` set (db_sessions (sw_data (rc_store c)))"
  shows "unrecorded c (record_invoke ext (sql_dag_store env) key iv c)"
    and "unrecorded c (record_complete ext (sql_dag_store env) key cm c)"
  using unknown_session_keeps [OF assms] 
  by (auto simp: record_invoke_def record_complete_def Let_def sql_dag_store_def
      intro!: rec_insert_unrecorded split: data_message_kind.split) (simp_all add: unrecorded_def)

text \<open>
  A message of a session that has no row is not recorded, and nobody is told: the send still
  returns the id of the node it did not write, and still hands the message to the queue under that id.
\<close>

theorem unregistered_session_unrecorded:
  assumes "dk_session key \<notin> srow_id ` set (db_sessions (sw_data (rc_store c)))"
  shows "(let nid = fst (record_invoke ext (sql_dag_store env) key iv c);
              (sent, q) = mq_send_invoke mq key (iv\<lparr>iv_dag_id := nid\<rparr>) (rc_inner c);
              (r, c') = rec_send_invoke ext (sql_dag_store env) mq key iv c
          in db_nodes (sw_data (rc_store c')) = db_nodes (sw_data (rc_store c)) \<and>
             rc_inner c' = q \<and> r = (case sent of Inl e \<Rightarrow> Inl e | Inr _ \<Rightarrow> Inr nid)) \<and>
         (let nid = fst (record_complete ext (sql_dag_store env) key cm c);
              (sent, q) = mq_send_complete mq key (cm\<lparr>cm_dag_id := nid\<rparr>) (rc_inner c);
              (r, c') = rec_send_complete ext (sql_dag_store env) mq key cm c
          in db_nodes (sw_data (rc_store c')) = db_nodes (sw_data (rc_store c)) \<and>
             rc_inner c' = q \<and> r = (case sent of Inl e \<Rightarrow> Inl e | Inr _ \<Rightarrow> Inr nid))"
  using records_unrecorded (1) [OF assms, of ext env iv] records_unrecorded(2) [OF assms, of ext env cm]
  by (simp add: unrecorded_def rec_send_invoke_def rec_send_complete_def forward_def on_inner_def Let_def split_beta
      split: sum.split)

theorem unregistered_session_unrecorded_witness:
  "db_nodes (sw_data (rc_store (snd (rec_send_invoke example_ext (sql_dag_store (example_sql_env no_sql_fault)) example_mq
     example_sql_key (example_invoke ''1'') sql_start)))) = []"
  using unregistered_session_unrecorded [where c = sql_start and key = example_sql_key and ext = example_ext
      and env = "example_sql_env no_sql_fault" and iv = "example_invoke ''1''" and mq = example_mq]
  by (simp add: sql_start_def dag_db_empty_def Let_def split_beta)

section \<open>What a typed insert gives back\<close>

text \<open>A node the database accepts: not there yet, and all it refers to is.\<close>

definition insertable :: "sql_env \<Rightarrow> dag_db \<Rightarrow> dag_node_id \<Rightarrow> dag_node_id \<Rightarrow> session_id \<Rightarrow> branch_id \<Rightarrow> bool" where
  "insertable env db i p se br \<longleftrightarrow>
     sql_db_ok db \<and> i \<notin> nr_hash ` set (db_nodes db) \<and>
     (p = dag_node_id_root \<or> p \<in> nr_hash ` set (db_nodes db)) \<and>
     se \<in> srow_id ` set (db_sessions db) \<and> br \<in> brow_id ` set (db_branches db) \<and> se_is_uuid env se"

lemma insertable_row:
  assumes "insertable env db i p se br"
  shows "insert_node_row (new_node_row i p mt (Some se) sub (Some br) t v sn) db =
     Inr ((), db\<lparr>db_nodes := db_nodes db @ [new_node_row i p mt (Some se) sub (Some br) t v sn]\<rparr>)"
  using assms
  by (auto simp: insertable_def insert_node_row_def references_def parent_hash_for_sql_def dag_node_id_root_def
      split: if_splits)

definition insert_both ::
    "sql_env \<Rightarrow> snapshot \<Rightarrow> (string \<Rightarrow> node_row) \<Rightarrow> (dag_db \<Rightarrow> (string, unit \<times> dag_db) rust_result) \<Rightarrow> string \<Rightarrow> unit dag_eff" where
  "insert_both env st row f ctx =
     ebind (serialize_snapshot env st) (\<lambda>sn. ebind (insert_dag_node env (row sn)) (\<lambda>_. stmt env ctx f))"

lemma typed_insert_run:
  fixes get :: "dag_db \<Rightarrow> 'r list"
  assumes "se_fault env = no_sql_fault" and "enc (se_snapshot env) st = Inr sn"
    and "insertable env (sw_data w) i p se br"
    and "hash_of r = i" and "msg_of r \<notin> msg_of ` set (get (sw_data w))"
    and "hash_of ` set (get (sw_data w)) \<subseteq> nr_hash ` set (db_nodes (sw_data w))"
    and "\<And>rs d. get (put rs d) = rs" and "\<And>rs d. db_nodes (put rs d) = db_nodes d"
    and "\<And>x d. get (d\<lparr>db_nodes := x\<rparr>) = get d"
  shows "\<exists>w'. insert_both env st (new_node_row i p mt (Some se) sub (Some br) t v)
           (insert_typed_row hash_of msg_of get put r) ctx w = (Inr (), w') \<and>
         joined hash_of get i (sw_data w') =
           Some (r, new_node_row i p mt (Some se) sub (Some br) t v sn)"
proof -
  let ?n = "new_node_row i p mt (Some se) sub (Some br) t v sn"
  let ?d = "sw_data w"
  let ?d1 = "?d\<lparr>db_nodes := db_nodes ?d @ [?n]\<rparr>"
  let ?d2 = "put (get ?d @ [r]) ?d1"
  have new: "i \<notin> nr_hash ` set (db_nodes ?d)" using assms(3) by (simp add: insertable_def)
  with assms(6) have "i \<notin> hash_of ` set (get ?d)" by blast
  then have row: "insert_typed_row hash_of msg_of get put r ?d1 = Inr ((), ?d2)"
    using assms(4,5,9) by (simp add: insert_typed_row_def)
  have none: "find (\<lambda>r. hash_of r = i) (get ?d) = None" "find (\<lambda>n. nr_hash n = i) (db_nodes ?d) = None"
    using \<open>i \<notin> hash_of ` set (get ?d)\<close> new by (auto simp: find_None_iff)
  have "joined hash_of get i ?d2 = Some (r, ?n)"
    using none assms(4,7,8) by (simp add: joined_def find_append)
  moreover have "insert_both env st (new_node_row i p mt (Some se) sub (Some br) t v)
      (insert_typed_row hash_of msg_of get put r) ctx w = (Inr (), \<lparr>sw_tick = Suc (Suc (sw_tick w)), sw_data = ?d2\<rparr>)"
    using assms(2) row insertable_row [OF assms(3)]
    by (simp add: insert_both_def serialize_snapshot_def insert_dag_node_def ebind_def stmt_no_fault [OF assms(1)])
  ultimately show ?thesis by simp
qed

lemma insertable_typed:
  assumes "insertable env db i p se br"
  shows "ir_dag_hash ` set (db_invokes db) \<subseteq> nr_hash ` set (db_nodes db)"
    and "cr_dag_hash ` set (db_completes db) \<subseteq> nr_hash ` set (db_nodes db)"
    and "qr_dag_hash ` set (db_requests db) \<subseteq> nr_hash ` set (db_nodes db)"
    and "pr_dag_hash ` set (db_responses db) \<subseteq> nr_hash ` set (db_nodes db)"
    and "sq_dag_hash ` set (db_svc_requests db) \<subseteq> nr_hash ` set (db_nodes db)"
    and "sp_dag_hash ` set (db_svc_responses db) \<subseteq> nr_hash ` set (db_nodes db)"
  using assms by (simp_all only: insertable_def sql_db_ok_def typed_tables_ok_def typed_ok_def)

lemma session_or_uuid [simp]: "se_is_uuid env s \<Longrightarrow> session_or env d (Some s) = s"
  by (simp add: session_or_def session_id_try_from_def)

text \<open>
  C35: an invoke the database accepts is read back as it was written, key and message, when the codec
  can read what it wrote.
\<close>

theorem sql_invoke_roundtrip:
  assumes "se_fault env = no_sql_fault" and "enc (se_snapshot env) st = Inr sn"
    and "insertable env (sw_data w) i p (dk_session key) (dk_branch key)"
    and "dk_kind key = DkInvoke h rt a" and "iv_id iv \<notin> ir_message_id ` set (db_invokes (sw_data w))"
    and "enc (se_invoke env) iv = Inr j" and "dec (se_invoke env) j = Inr iv"
  shows "\<exists>w'. sql_insert_invoke_node env i p t st key iv w = (Inr (), w') \<and>
           sql_get_invoke_node env i w' = Inr (Some (key, iv))"
proof -
  let ?r = "\<lparr>ir_dag_hash = i, ir_harness = harness_as_str h, ir_runtime = runtime_as_str rt, ir_agent = a,
      ir_message_id = iv_id iv, ir_state = iv_state iv,
      ir_diagnostics = bytes_of (se_invoke_diag env) (iv_diagnostics iv), ir_payload = bytes_of (se_invoke env) iv\<rparr>"
  let ?n = "new_node_row i p ''invoke'' (Some (dk_session key)) (dk_submission key) (Some (dk_branch key))
      (time_str env t) ''v1''"
  have "\<exists>w'. insert_both env st ?n
        (insert_typed_row ir_dag_hash ir_message_id db_invokes (\<lambda>rs. db_invokes_update (\<lambda>_. rs)) ?r)
        ''insert invoke_nodes failed: '' w = (Inr (), w') \<and>
      joined ir_dag_hash db_invokes i (sw_data w') = Some (?r, ?n sn)"
    by (rule typed_insert_run [OF assms(1-3)]) (use assms(5) insertable_typed(1) [OF assms(3)] in simp_all)
  then obtain w' where w': "insert_both env st ?n
        (insert_typed_row ir_dag_hash ir_message_id db_invokes (\<lambda>rs. db_invokes_update (\<lambda>_. rs)) ?r)
        ''insert invoke_nodes failed: '' w = (Inr (), w')"
      "joined ir_dag_hash db_invokes i (sw_data w') = Some (?r, ?n sn)" by blast
  have uuid: "se_is_uuid env (dk_session key)" using assms(3) by (simp add: insertable_def)
  have "sql_get_invoke_node env i w' = Inr (Some (key, iv))"
    using w'(2) uuid assms(4,6,7)
    by (simp add: sql_get_invoke_node_def query_no_fault [OF assms(1)] data_key_of_row_def bytes_of_def result_or_def)
  with w'(1) assms(4) show ?thesis by (simp add: sql_insert_invoke_node_def insert_both_def)
qed

lemma example_insertable:
  "insertable (example_sql_env f) (sw_data (rc_store sql_started)) ''n1'' dag_node_id_root ''s1'' 1"
  using sql_started_ok by (simp add: insertable_def sql_started_data dag_db_empty_def example_sql_env_def)

theorem sql_invoke_roundtrip_witness:
  "sql_get_invoke_node (example_sql_env no_sql_fault) ''n1''
     (snd (sql_insert_invoke_node (example_sql_env no_sql_fault) ''n1'' dag_node_id_root 5 snapshot_empty example_sql_key
        (example_invoke ''1'') (rc_store sql_started))) = Inr (Some (example_sql_key, example_invoke ''1''))"
proof -
  have "\<exists>w'. sql_insert_invoke_node (example_sql_env no_sql_fault) ''n1'' dag_node_id_root 5 snapshot_empty example_sql_key
        (example_invoke ''1'') (rc_store sql_started) = (Inr (), w') \<and>
      sql_get_invoke_node (example_sql_env no_sql_fault) ''n1'' w' = Inr (Some (example_sql_key, example_invoke ''1''))"
    by (rule sql_invoke_roundtrip)
      (use example_insertable in \<open>simp_all add: example_sql_key_def sql_started_data dag_db_empty_def\<close>)
  then show ?thesis by auto
qed

lemma stored_service_iff: "stored_service (service_backend_display sb) = sb \<longleftrightarrow> sb \<noteq> SbKv ObjS3"
proof (cases "sb = SbKv ObjS3")
  case True
  have "stored_service (service_backend_display (SbKv ObjS3)) = SbInfer InfOpenRouter" by code_simp
  then show ?thesis using True by simp
next
  case False
  then show ?thesis using service_backend_roundtrip [of sb] by (simp add: stored_service_def result_or_def)
qed

lemma stored_sequence_iff: "u32_of_i32 (i32_of_u32 n) = n \<longleftrightarrow> uint n < 2 ^ 31"
proof (cases "uint n < 2 ^ 31")
  case True
  then show ?thesis by (simp add: u32_of_i32_def i32_of_u32_def)
next
  case False
  then have "n \<noteq> 0" by auto
  with False show ?thesis by (simp add: u32_of_i32_def i32_of_u32_def)
qed

text \<open>
  A service request is not read back as it was written: the parent is always the root, an S3 backend
  comes back as another service, a sequence number of \<open>2 ^ 31\<close> or more as zero; the payload, the state
  and the checkpoint come back.
\<close>

theorem sql_request_readback:
  assumes "se_fault env = no_sql_fault" and "enc (se_snapshot env) st = Inr sn"
    and "insertable env (sw_data w) i p se br" and "rq_id rq \<notin> qr_message_id ` set (db_requests (sw_data w))"
    and "enc (se_request_diag env) (rq_diagnostics rq) = Inr j" and "dec (se_request_diag env) j = Inr (rq_diagnostics rq)"
  shows "\<exists>w' sb' n'. sql_insert_request_node env i p t st se sub br a sb op n rq w = (Inr (), w') \<and>
           sql_get_request_node env i w' =
             Inr (Some (\<lparr>dk_session = se, dk_branch = br, dk_submission = sub, dk_kind = DkRequest a sb' op n'\<rparr>,
                        rq\<lparr>rq_dag_id := i, rq_dag_parent := dag_node_id_root\<rparr>)) \<and>
           (sb' = sb \<longleftrightarrow> sb \<noteq> SbKv ObjS3) \<and> (n' = n \<longleftrightarrow> uint n < 2 ^ 31)"
proof -
  let ?r = "\<lparr>qr_dag_hash = i, qr_agent = a, qr_service = service_backend_display sb,
             qr_operation = operation_as_str op, qr_sequence = i32_of_u32 n,
             qr_message_id = rq_id rq, qr_state = rq_state rq,
             qr_diagnostics = bytes_of (se_request_diag env) (rq_diagnostics rq),
             qr_payload = rq_payload rq, qr_checkpoint = rq_checkpoint rq\<rparr>"
  let ?n = "new_node_row i p ''request'' (Some se) sub (Some br) (time_str env t) ''v1''"
  have "\<exists>w'. insert_both env st ?n
        (insert_typed_row qr_dag_hash qr_message_id db_requests (\<lambda>rs. db_requests_update (\<lambda>_. rs)) ?r)
        ''insert request_nodes failed: '' w = (Inr (), w') \<and>
      joined qr_dag_hash db_requests i (sw_data w') = Some (?r, ?n sn)"
    by (rule typed_insert_run [OF assms(1-3)]) (use assms(4) insertable_typed(3) [OF assms(3)] in simp_all)
  then obtain w' where w': "sql_insert_request_node env i p t st se sub br a sb op n rq w = (Inr (), w')"
      "joined qr_dag_hash db_requests i (sw_data w') = Some (?r, ?n sn)"
    unfolding sql_insert_request_node_def insert_both_def by blast
  have uuid: "se_is_uuid env se" using assms(3) by (simp add: insertable_def)
  have "sql_get_request_node env i w' =
      Inr (Some (\<lparr>dk_session = se, dk_branch = br, dk_submission = sub,
                  dk_kind = DkRequest a (stored_service (service_backend_display sb)) op (u32_of_i32 (i32_of_u32 n))\<rparr>,
                 rq\<lparr>rq_dag_id := i, rq_dag_parent := dag_node_id_root\<rparr>))"
    using w'(2) uuid assms(5,6)
    by (simp add: sql_get_request_node_def query_no_fault [OF assms(1)] data_key_of_row_def bytes_of_def result_or_def)
  with w'(1) show ?thesis using stored_service_iff stored_sequence_iff by blast
qed

definition example_request :: request_message where
  "example_request =
     \<lparr>rq_id = ''q'', rq_dag_id = [], rq_dag_parent = ''h1'', rq_state = None,
      rq_diagnostics = \<lparr>rqd_sequence = 1, rqd_endpoint = ''/kv/get'', rqd_request_bytes = 2, rqd_received_at_ms = 3\<rparr>,
      rq_payload = ''{}'', rq_checkpoint = None\<rparr>"

definition example_request_env :: sql_env where
  "example_request_env =
     (example_sql_env no_sql_fault)\<lparr>se_request_diag := example_codec (rq_diagnostics example_request) ''{}''\<rparr>"

theorem sql_request_readback_witness:
  "\<exists>w' sb' n'. sql_insert_request_node example_request_env ''n1'' dag_node_id_root 5 snapshot_empty ''s1'' ''sub'' 1
       ''todo'' (SbKv ObjS3) OpGet (2 ^ 31) example_request (rc_store sql_started) = (Inr (), w') \<and>
     sql_get_request_node example_request_env ''n1'' w' =
       Inr (Some (\<lparr>dk_session = ''s1'', dk_branch = 1, dk_submission = ''sub'', dk_kind = DkRequest ''todo'' sb' OpGet n'\<rparr>,
                  example_request\<lparr>rq_dag_id := ''n1'', rq_dag_parent := dag_node_id_root\<rparr>)) \<and>
     sb' \<noteq> SbKv ObjS3 \<and> n' \<noteq> 2 ^ 31"
proof -
  have "insertable example_request_env (sw_data (rc_store sql_started)) ''n1'' dag_node_id_root ''s1'' 1"
    using example_insertable by (simp add: insertable_def example_request_env_def example_sql_env_def)
  from sql_request_readback [OF _ _ this, where rq = example_request and st = snapshot_empty and sn = "''{}''"
      and j = "''{}''" and sb = "SbKv ObjS3" and n = "2 ^ 31" and op = OpGet and a = "''todo''" and sub = "''sub''" and t = 5]
  show ?thesis
    by (simp add: example_request_env_def example_sql_env_def example_codec_def sql_started_data dag_db_empty_def)
qed

text \<open>
  A node whose message id is already in the typed table is recorded without its message: the
  insert reports success and the node is found, but reading the message finds nothing.
\<close>

theorem sql_duplicate_message_id:
  assumes "se_fault env = no_sql_fault" and "enc (se_snapshot env) st = Inr sn"
    and "insertable env (sw_data w) i p (dk_session key) (dk_branch key)"
    and "dk_kind key = DkInvoke h rt a" and "iv_id iv \<in> ir_message_id ` set (db_invokes (sw_data w))"
  shows "\<exists>w' n. sql_insert_invoke_node env i p t st key iv w = (Inr (), w') \<and>
           sql_get_node env i w' = Inr (Some n) \<and> dn_parent_id n = p \<and>
           sql_get_invoke_node env i w' = Inr None"
proof -
  let ?d = "sw_data w"
  let ?n = "new_node_row i p ''invoke'' (Some (dk_session key)) (dk_submission key) (Some (dk_branch key))
      (time_str env t) ''v1'' sn"
  have new: "i \<notin> nr_hash ` set (db_nodes ?d)" using assms(3) by (simp add: insertable_def)
  with insertable_typed(1) [OF assms(3)] have "i \<notin> ir_dag_hash ` set (db_invokes ?d)" by blast
  then have none: "find (\<lambda>n. nr_hash n = i) (db_nodes ?d) = None" "find (\<lambda>r. ir_dag_hash r = i) (db_invokes ?d) = None"
    using new by (auto simp: find_None_iff)
  have run: "sql_insert_invoke_node env i p t st key iv w =
      (Inr (), \<lparr>sw_tick = Suc (Suc (sw_tick w)), sw_data = ?d\<lparr>db_nodes := db_nodes ?d @ [?n]\<rparr>\<rparr>)"
    using assms(2,4,5) insertable_row [OF assms(3)]
    by (simp add: sql_insert_invoke_node_def serialize_snapshot_def insert_dag_node_def ebind_def insert_typed_row_def
        stmt_no_fault [OF assms(1)])
  then show ?thesis
    using none
    by (simp add: sql_get_node_def sql_get_invoke_node_def query_no_fault [OF assms(1)] joined_def find_append)
qed

definition example_recorded :: "dag_db sql_world" where
  "example_recorded =
     snd (sql_insert_invoke_node (example_sql_env no_sql_fault) ''n0'' dag_node_id_root 5 snapshot_empty example_sql_key
       (example_invoke ''1'') (rc_store sql_started))"

lemma example_recorded_keys:
  "map nr_hash (db_nodes (sw_data example_recorded)) = [''n0'']"
  "map ir_message_id (db_invokes (sw_data example_recorded)) = [''1'']"
  "map srow_id (db_sessions (sw_data example_recorded)) = [''s1'']"
  "map brow_id (db_branches (sw_data example_recorded)) = [1]"
  by code_simp+

lemma example_recorded_insertable:
  "insertable (example_sql_env no_sql_fault) (sw_data example_recorded) ''n1'' ''n0'' ''s1'' 1"
proof -
  have "sql_db_ok (sw_data example_recorded)"
    unfolding example_recorded_def by (rule epreservesD [OF sql_inserts_ok(1) sql_started_ok])
  moreover have "''n1'' \<notin> set (map nr_hash (db_nodes (sw_data example_recorded)))"
    "''n0'' \<in> set (map nr_hash (db_nodes (sw_data example_recorded)))"
    "''s1'' \<in> set (map srow_id (db_sessions (sw_data example_recorded)))"
    "1 \<in> set (map brow_id (db_branches (sw_data example_recorded)))"
    unfolding example_recorded_keys by simp_all
  ultimately show ?thesis by (simp add: insertable_def)
qed

theorem sql_duplicate_message_id_witness:
  "\<exists>w' n. sql_insert_invoke_node (example_sql_env no_sql_fault) ''n1'' ''n0'' 6 snapshot_empty example_sql_key
       (example_invoke ''1'') example_recorded = (Inr (), w') \<and>
     sql_get_node (example_sql_env no_sql_fault) ''n1'' w' = Inr (Some n) \<and> dn_parent_id n = ''n0'' \<and>
     sql_get_invoke_node (example_sql_env no_sql_fault) ''n1'' w' = Inr None"
proof (rule sql_duplicate_message_id)
  have "''1'' \<in> set (map ir_message_id (db_invokes (sw_data example_recorded)))"
    unfolding example_recorded_keys by simp
  then show "iv_id (example_invoke ''1'') \<in> ir_message_id ` set (db_invokes (sw_data example_recorded))"
    by (simp add: example_invoke_def)
qed (use example_recorded_insertable in \<open>simp_all add: example_sql_key_def\<close>)

section \<open>Where a fork is filed\<close>

definition fork_node_row :: "sql_env \<Rightarrow> string \<Rightarrow> dag_node_id \<Rightarrow> timestamp \<Rightarrow> session_routing_key \<Rightarrow> fork_message \<Rightarrow> node_row" where
  "fork_node_row env snap i t key msg =
     new_node_row i (fk_fork_point msg) ''fork'' (Some (sk_session key)) (sk_submission key) (Some 1) (time_str env t) ''v1'' snap"

definition forked_branch_row :: "sql_env \<Rightarrow> dag_db \<Rightarrow> timestamp \<Rightarrow> session_routing_key \<Rightarrow> fork_message \<Rightarrow> branch_row" where
  "forked_branch_row env db t key msg =
     \<lparr>brow_id = db_next_branch db, brow_name = fk_branch_name msg, brow_session_id = sk_session key,
      brow_fork_point = Some (fk_fork_point msg), brow_head = None, brow_created_at = time_str env t,
      brow_broken_at = None\<rparr>"

definition forkable :: "dag_db \<Rightarrow> dag_node_id \<Rightarrow> session_routing_key \<Rightarrow> fork_message \<Rightarrow> bool" where
  "forkable db nid key msg \<longleftrightarrow>
     sql_db_ok db \<and> fk_fork_point msg \<in> nr_hash ` set (db_nodes db) \<and> nid \<notin> nr_hash ` set (db_nodes db) \<and>
     sk_session key \<in> srow_id ` set (db_sessions db) \<and> 1 \<in> brow_id ` set (db_branches db) \<and>
     fk_branch_name msg \<notin> brow_name ` set (db_branches db)"

lemma find_branch_none:
  assumes "scans_ok env" and "name \<notin> brow_name ` set (db_branches db)"
  shows "find_branch_by_name env name db = None"
proof -
  have "filter (\<lambda>r. brow_name r = name) (db_branches db) = []"
    using assms(2) by (simp add: filter_empty_conv) (metis image_eqI)
  moreover have "se_branch_scan env [] = []" using scans_ok_sets(2) [OF assms(1), of "[]"] by simp
  ultimately show ?thesis by (simp add: find_branch_by_name_def)
qed

lemma insert_fork_run:
  assumes "se_fault env = no_sql_fault" and "scans_ok env" and "sk_kind key = SkFork agent"
    and "forkable (sw_data w) i key msg" and "enc (se_snapshot env) st = Inr snap"
  shows "\<exists>fs. snd (sql_insert_fork_node env i (fk_fork_point msg) t st key msg w) =
      \<lparr>sw_tick = Suc (Suc (sw_tick w)),
       sw_data = (sw_data w)\<lparr>db_nodes := db_nodes (sw_data w) @ [fork_node_row env snap i t key msg], db_forks := fs\<rparr>\<rparr>"
proof -
  let ?db = "sw_data w"
  let ?row = "fork_node_row env snap i t key msg"
  let ?db1 = "?db\<lparr>db_nodes := db_nodes ?db @ [?row]\<rparr>"
  have none: "sql_get_branch_by_name env (fk_branch_name msg) w = Inr None"
    using assms(4) find_branch_none [OF assms(2), of "fk_branch_name msg"]
    by (simp add: sql_get_branch_by_name_def query_no_fault [OF assms(1)] forkable_def)
  have node: "insert_node_row ?row ?db = Inr ((), ?db1)"
    using assms(4)
    by (simp add: fork_node_row_def forkable_def insert_node_row_def references_def parent_hash_for_sql_def)
  have "\<exists>fs. insert_typed_row fr_dag_hash fr_message_id db_forks (\<lambda>rs. db_forks_update (\<lambda>_. rs)) f ?db1 =
      Inr ((), ?db1\<lparr>db_forks := fs\<rparr>)" if "fr_dag_hash f = i" for f
    using that by (auto simp: insert_typed_row_def fork_node_row_def intro: exI [of _ "db_forks ?db"])
  then obtain fs where "insert_typed_row fr_dag_hash fr_message_id db_forks (\<lambda>rs. db_forks_update (\<lambda>_. rs))
      \<lparr>fr_dag_hash = i, fr_agent = agent, fr_branch_name = fk_branch_name msg,
       fr_fork_point = fk_fork_point msg, fr_message_id = fk_id msg\<rparr> ?db1 = Inr ((), ?db1\<lparr>db_forks := fs\<rparr>)"
    by fastforce
  then show ?thesis
    using assms(3,5) none node
    by (intro exI [of _ fs]) (simp add: sql_insert_fork_node_def ebind_def serialize_snapshot_def insert_dag_node_def
        stmt_no_fault [OF assms(1)] fork_node_row_def)
qed

lemma get_known_node:
  assumes "se_fault env = no_sql_fault" and "i \<in> nr_hash ` set (db_nodes (sw_data w))"
  shows "\<exists>n. sql_get_node env i w = Inr (Some n) \<and> dn_id n = i"
proof -
  obtain r where r: "find (\<lambda>r. nr_hash r = i) (db_nodes (sw_data w)) = Some r"
    using assms(2) find_key_None [of nr_hash i "db_nodes (sw_data w)"] by auto
  then show ?thesis
    using find_Some_set [OF r] by (simp add: sql_get_node_def query_no_fault [OF assms(1)])
qed

text \<open>
  C36: a fork is recorded before its branch exists: when the database accepts the fork and no branch of
  any session has its name, the fork's node is filed under branch 1, whoever owns that, and the new
  branch, with the fork point and an id of its own, is created after it.
\<close>

theorem fork_filed_under_branch_one:
  assumes "se_fault env = no_sql_fault" and "scans_ok env" and "sk_kind key = SkFork agent"
    and "sw_data (rc_store c) = db" and "\<forall>st. enc (se_snapshot env) st = Inr (snap st)"
    and "nid = hash_node ext (Some []) (fk_fork_point msg) MtFork (Some []) (sk_session key)"
    and "forkable db nid key msg"
  shows "\<exists>r b. let db' = sw_data (rc_store (snd (rec_send_fork ext (sql_dag_store env) mq key msg c)))
      in db_nodes db' = db_nodes db @ [r] \<and> nr_hash r = nid \<and> nr_branch_id r = Some 1 \<and>
         nr_session_id r = Some (sk_session key) \<and>
         db_branches db' = db_branches db @ [b] \<and> brow_name b = fk_branch_name msg \<and>
         brow_session_id b = sk_session key \<and> brow_fork_point b = Some (fk_fork_point msg) \<and> brow_id b \<noteq> 1"
proof -
  obtain n where n: "sql_get_node env (fk_fork_point msg) (rc_store c) = Inr (Some n)" "dn_id n = fk_fork_point msg"
    using get_known_node [OF assms(1), of "fk_fork_point msg" "rc_store c"] assms(4,7) by (auto simp: forkable_def)
  let ?row = "fork_node_row env (snap (dn_state n)) nid (rx_clock ext (rc_ticks c)) key msg"
  let ?b = "forked_branch_row env db (rx_clock ext (Suc (rc_ticks c))) key msg"
  obtain fs where ins: "snd (sql_insert_fork_node env nid (fk_fork_point msg) (rx_clock ext (rc_ticks c)) (dn_state n) key msg
      (rc_store c)) = \<lparr>sw_tick = Suc (Suc (sw_tick (rc_store c))),
        sw_data = db\<lparr>db_nodes := db_nodes db @ [?row], db_forks := fs\<rparr>\<rparr>"
    using insert_fork_run [OF assms(1-3), where w = "rc_store c" and i = nid and msg = msg and st = "dn_state n"
        and snap = "snap (dn_state n)" and t = "rx_clock ext (rc_ticks c)"] assms(4,5,7)
    by auto
  have "(fk_branch_name msg, sk_session key) \<notin> (\<lambda>r. (brow_name r, brow_session_id r)) ` set (db_branches db)"
    using assms(7) by (auto simp: forkable_def)
  then have branch: "insert_branch_row (time_str env (rx_clock ext (Suc (rc_ticks c)))) (fk_branch_name msg) (sk_session key)
      (Some (fk_fork_point msg)) (db\<lparr>db_nodes := db_nodes db @ [?row], db_forks := fs\<rparr>) =
    Inr ((), db\<lparr>db_nodes := db_nodes db @ [?row], db_forks := fs, db_branches := db_branches db @ [?b],
               db_next_branch := db_next_branch db + 1\<rparr>)"
    using assms(7) by (simp add: insert_branch_row_def forkable_def forked_branch_row_def)
  have "sw_data (rc_store (snd (rec_send_fork ext (sql_dag_store env) mq key msg c))) =
      db\<lparr>db_nodes := db_nodes db @ [?row], db_forks := fs, db_branches := db_branches db @ [?b],
         db_next_branch := db_next_branch db + 1\<rparr>"
    using n ins branch assms(3,6)
    by (simp add: rec_send_fork_def record_fork_def rec_insert_def rec_now_def Let_def parent_id_of_def
        parent_state_of_def result_or_def sql_create_branch_def ebind_def stmt_no_fault [OF assms(1)] split_beta
        sql_dag_store_def)
  moreover have "db_next_branch db \<noteq> 1"
    using assms(7) by (auto simp: forkable_def sql_db_ok_def branches_ok_def)
  ultimately show ?thesis
    by (intro exI [of _ ?row] exI [of _ ?b]) (simp add: Let_def fork_node_row_def forked_branch_row_def)
qed

text \<open>Two sessions; the second forks at a node of the first one's branch.\<close>

definition example_fork :: fork_message where
  "example_fork = \<lparr>fk_id = ''f'', fk_branch_name = ''retry'', fk_fork_point = ''n0''\<rparr>"

definition example_fork_state :: "(dag_db sql_world, mem_queue) rec_state" where
  "example_fork_state = sql_start\<lparr>rc_store := example_recorded\<rparr>"

theorem fork_filed_under_branch_one_witness:
  "\<exists>r. db_nodes (sw_data (rc_store (snd (rec_send_fork example_ext (sql_dag_store (example_sql_env no_sql_fault)) example_mq
       (example_session_key ''s1'' (SkFork ''todo'')) example_fork example_fork_state)))) =
     db_nodes (sw_data example_recorded) @ [r] \<and> nr_branch_id r = Some 1"
proof -
  let ?nid = "hash_node example_ext (Some []) ''n0'' MtFork (Some []) ''s1''"
  have names: "map brow_name (db_branches (sw_data example_recorded)) = [''main'']" "?nid = ''hn0forks1''"
    by code_simp+
  have sets: "nr_hash ` set (db_nodes (sw_data example_recorded)) = {''n0''}"
      "srow_id ` set (db_sessions (sw_data example_recorded)) = {''s1''}"
      "brow_id ` set (db_branches (sw_data example_recorded)) = {1}"
      "brow_name ` set (db_branches (sw_data example_recorded)) = {''main''}"
    using example_recorded_keys names(1) by (metis list.set_map list.simps(15) list.set(1))+
  have "forkable (sw_data example_recorded) ?nid (example_session_key ''s1'' (SkFork ''todo'')) example_fork"
    using example_recorded_insertable unfolding names(2)
    by (simp add: forkable_def sets example_session_key_def example_fork_def insertable_def)
  from fork_filed_under_branch_one [where c = example_fork_state and env = "example_sql_env no_sql_fault"
      and snap = "\<lambda>_. ''{}''" and ext = example_ext and mq = example_mq and msg = example_fork, OF _ _ _ _ _ _ this]
  show ?thesis by (auto simp: example_session_key_def example_fork_def example_fork_state_def Let_def)
qed

end
