(* ===== verification/SqlQueries.thy ===== *)
theory SqlQueries
  imports SqlDagRun
begin

text \<open>
  The queries of \<open>SqliteDagStore\<close> against those of \<open>InMemoryDagStore\<close>: the latest nodes of a branch,
  when the stored times increase, and the lookup by id prefix, which goes through SQL's \<open>LIKE\<close>.
\<close>

definition mem_view :: "sql_env \<Rightarrow> dag_db sql_world \<Rightarrow> mem_store" where
  "mem_view env w = mem_store_new\<lparr>ims_nodes := sql_nodes env w\<rparr>"

section \<open>Ordering by time\<close>

lemma oldest_first_increasing:
  assumes "scans_ok env" and "sorted_wrt (<) (map nr_created_at (db_nodes db))"
  shows "oldest_first env p db = filter p (db_nodes db)"
proof -
  let ?f = "filter p (db_nodes db)"
  have inc: "sorted_wrt (<) (map nr_created_at ?f)"
    using assms(2) by (simp add: sorted_wrt_map sorted_wrt_filter)
  have "mset (rows_where env p db) = mset ?f" using assms(1) by (simp add: rows_where_def scans_ok_def)
  moreover have "inj_on nr_created_at (set (rows_where env p db))"
  proof -
    have "distinct (map nr_created_at ?f)" using inc strict_sorted_iff by blast
    then show ?thesis using \<open>mset (rows_where env p db) = mset ?f\<close> by (metis distinct_map set_mset_mset)
  qed
  moreover have "sorted (map nr_created_at ?f)" using inc strict_sorted_iff by blast
  ultimately show ?thesis unfolding oldest_first_def by (rule sort_key_inj_key_eq)
qed

lemma branch_rows_domain:
  assumes "b \<noteq> 0"
  shows "map (dag_node_row_to_domain env) (filter (\<lambda>r. nr_branch_id r = Some b) rs) =
     filter (\<lambda>n. dn_branch n = b) (map (dag_node_row_to_domain env) rs)"
proof -
  have "dn_branch (dag_node_row_to_domain env r) = b \<longleftrightarrow> nr_branch_id r = Some b" for r
    using assms by (cases "nr_branch_id r") (simp_all add: dag_node_row_to_domain_def)
  then show ?thesis by (simp add: filter_map comp_def)
qed

text \<open>
  C19: while the stored times increase in the order of insertion, the SQLite store and the in-memory
  store name the same latest node of a branch and the same last \<open>n\<close> nodes.
\<close>

theorem sql_latest_is_mem_latest:
  assumes "scans_ok env" and "se_fault env = no_sql_fault" and "b \<noteq> 0"
    and "sorted_wrt (<) (map nr_created_at (db_nodes (sw_data w)))"
  shows "sql_latest_node_on_branch env b None w = mem_latest_node_on_branch b None (mem_view env w) \<and>
         sql_latest_nodes_on_branch env b n w = mem_latest_nodes_on_branch b n (mem_view env w)"
proof -
  let ?dom = "map (dag_node_row_to_domain env)"
  let ?f = "filter (\<lambda>r. nr_branch_id r = Some b) (db_nodes (sw_data w))"
  have rows: "oldest_first env p (sw_data w) = filter p (db_nodes (sw_data w))" for p
    by (rule oldest_first_increasing [OF assms(1,4)])
  have nodes: "filter (\<lambda>n. dn_branch n = b) (sql_nodes env w) = ?dom ?f"
    unfolding sql_nodes_def by (rule branch_rows_domain [OF assms(3), symmetric])
  have last: "find (\<lambda>_. True) xs = (case xs of [] \<Rightarrow> None | x # _ \<Rightarrow> Some x)" for xs :: "dag_node list"
    by (cases xs) simp_all
  have "sql_latest_node_on_branch env b None w = mem_latest_node_on_branch b None (mem_view env w)"
    by (simp add: sql_latest_node_on_branch_def query_no_fault [OF assms(2)] rows mem_latest_node_on_branch_def
        mem_view_def rev_filter [symmetric] nodes last rev_map [symmetric] split: list.split)
  moreover have "sql_latest_nodes_on_branch env b n w = mem_latest_nodes_on_branch b n (mem_view env w)"
    by (simp add: sql_latest_nodes_on_branch_def query_no_fault [OF assms(2)] rows mem_latest_nodes_on_branch_def
        mem_view_def nodes Let_def rev_take rev_map drop_map)
  ultimately show ?thesis ..
qed

section \<open>Lookup by prefix\<close>

lemma sql_prefix_rows:
  assumes "se_fault env = no_sql_fault"
  shows "result_ok (sql_get_node_by_prefix env p w) =
    (case filter (\<lambda>r. sql_like (p @ ''%'') (nr_hash r)) (db_nodes (sw_data w)) of
       [] \<Rightarrow> Some None | [r] \<Rightarrow> Some (Some (dag_node_row_to_domain env r)) | _ \<Rightarrow> None)"
proof -
  let ?P = "\<lambda>r. sql_like (p @ ''%'') (nr_hash r)"
  have first: "find ?P rs = (case filter ?P rs of [] \<Rightarrow> None | r # _ \<Rightarrow> Some r)" for rs
    by (induction rs) simp_all
  show ?thesis
    by (cases "filter ?P (db_nodes (sw_data w))")
      (simp_all add: sql_get_node_by_prefix_def query_no_fault [OF assms] Let_def first split: list.split)
qed

definition lower_case :: "string \<Rightarrow> bool" where
  "lower_case s \<longleftrightarrow> map ascii_lower s = s"

text \<open>
  For prefixes and ids in lower case, without the wildcards of \<open>LIKE\<close>, prefix lookup in the SQLite
  store answers as in the in-memory store: the one match, none, or an error for several.
\<close>

theorem sql_prefix_is_mem_prefix:
  assumes "se_fault env = no_sql_fault" and "plain_pattern p" and "lower_case p"
    and "list_all (\<lambda>r. lower_case (nr_hash r)) (db_nodes (sw_data w))"
  shows "result_ok (sql_get_node_by_prefix env p w) = result_ok (mem_get_node_by_prefix p (mem_view env w))"
proof -
  let ?rs = "db_nodes (sw_data w)"
  have like: "sql_like (p @ ''%'') h \<longleftrightarrow> prefix p h" if "lower_case h" for h
  proof -
    have "map ascii_lower (take (length p) h) = take (length p) h"
      using that by (metis lower_case_def take_map)
    then show ?thesis
      using assms(3) unfolding sql_like_prefix [OF assms(2)] same_ascii_case_def lower_case_def
      by (metis length_take min.absorb2 prefix_def append_take_drop_id take_is_prefix append_eq_conv_conj prefix_length_le)
  qed
  have "filter (\<lambda>r. sql_like (p @ ''%'') (nr_hash r)) ?rs = filter (\<lambda>r. prefix p (nr_hash r)) ?rs"
    using assms(4) like by (intro filter_cong) (auto simp: list_all_iff)
  moreover have "filter (\<lambda>n. prefix p (dn_id n)) (sql_nodes env w) =
      map (dag_node_row_to_domain env) (filter (\<lambda>r. prefix p (nr_hash r)) ?rs)"
    by (simp add: sql_nodes_def filter_map comp_def)
  ultimately show ?thesis
    unfolding sql_prefix_rows [OF assms(1)]
    by (simp add: mem_get_node_by_prefix_def mem_view_def starts_with_iff_prefix split: list.split)
qed

definition example_nodes_world :: "dag_db sql_world" where
  "example_nodes_world =
     (let row = (\<lambda>i t. new_node_row i dag_node_id_root ''invoke'' (Some ''s1'') ''sub'' (Some 1) t ''v1'' ''{}'')
      in \<lparr>sw_tick = 0, sw_data = dag_db_empty\<lparr>db_nodes := [row ''ab1'' ''1'', row ''ab2'' ''11'', row ''c'' ''111'']\<rparr>\<rparr>)"

theorem sql_latest_is_mem_latest_witness:
  "sql_latest_node_on_branch (example_sql_env no_sql_fault) 1 None example_nodes_world =
     mem_latest_node_on_branch 1 None (mem_view (example_sql_env no_sql_fault) example_nodes_world)"
  using sql_latest_is_mem_latest [where env = "example_sql_env no_sql_fault" and w = example_nodes_world and b = 1]
  by (simp add: example_nodes_world_def Let_def)

theorem sql_prefix_is_mem_prefix_witness:
  "result_ok (sql_get_node_by_prefix (example_sql_env no_sql_fault) ''ab'' example_nodes_world) =
     result_ok (mem_get_node_by_prefix ''ab'' (mem_view (example_sql_env no_sql_fault) example_nodes_world))"
proof (rule sql_prefix_is_mem_prefix)
  show "list_all (\<lambda>r. lower_case (nr_hash r)) (db_nodes (sw_data example_nodes_world))" by code_simp
  show "lower_case ''ab''" by code_simp
qed (simp_all add: plain_pattern_def)

text \<open>With an upper-case prefix or a wildcard the two stores disagree.\<close>

lemma sql_prefix_wildcards:
  "map_option (map_option dn_id) (result_ok (sql_get_node_by_prefix (example_sql_env no_sql_fault) ''C'' example_nodes_world)) =
     Some (Some ''c'')"
  "map_option (map_option dn_id) (result_ok (mem_get_node_by_prefix ''C'' (mem_view (example_sql_env no_sql_fault) example_nodes_world))) =
     Some None"
  "map_option (map_option dn_id) (result_ok (sql_get_node_by_prefix (example_sql_env no_sql_fault) ''_b1'' example_nodes_world)) =
     Some (Some ''ab1'')"
  by code_simp+

end
