(* ===== verification/Repository.thy ===== *)
theory Repository
  imports Registry Readiness Effects
begin

text \<open>
  The registry's persistence interface (\<open>domain/registry_repository.rs\<close>): the trait
  \<open>RegistryRepository\<close> as a record of operations over a repository state, the stored forms of a model
  and an agent, and the contract \<open>registry_repository\<close> the persistent registry relies on.  JSON and base64
  are codecs; their error texts are whatever the codec reports.
\<close>

section \<open>Stored forms\<close>

fun repository_error_display :: "repository_error \<Rightarrow> string" where
  "repository_error_display (RepoDatabase msg) = ''database error: '' @ msg"
| "repository_error_display (RepoSerialization msg) = ''serialization error: '' @ msg"

record stored_model =
  stm_name :: string
  stm_type :: model_type
  stm_provider :: provider
  stm_path :: string
  stm_digest :: string

definition stored_from_model :: "model \<Rightarrow> stored_model" where
  "stored_from_model m =
     \<lparr>stm_name = md_name m, stm_type = md_type m, stm_provider = md_provider m, stm_path = md_path m,
      stm_digest = md_digest m\<rparr>"

definition stored_to_model :: "stored_model \<Rightarrow> model" where
  "stored_to_model m =
     \<lparr>md_id = model_placeholder_id (stm_name m), md_name = stm_name m, md_type = stm_type m,
      md_provider = stm_provider m, md_path = stm_path m, md_digest = stm_digest m\<rparr>"

lemma stored_model_roundtrip: "stored_to_model (stored_from_model m) = m\<lparr>md_id := model_placeholder_id (md_name m)\<rparr>"
  by (simp add: stored_to_model_def stored_from_model_def)

record stored_agent =
  sta_name :: string
  sta_description :: string
  sta_source :: "string option"
  sta_runtime :: string
  sta_executable :: string
  sta_image_digest :: "string option"
  sta_object_storage :: "string option"
  sta_vector_storage :: "string option"
  sta_requirements_json :: string
  sta_prompts_json :: "string option"
  sta_public_key :: "string option"

text \<open>Encoding base64 cannot fail, so its encoder is a function; the other two codecs may.\<close>

record agent_codecs =
  ac_requirements :: "(requirements, string) codec"
  ac_base64 :: "bytes \<Rightarrow> string"
  ac_unbase64 :: "string \<Rightarrow> (string, bytes) rust_result"

definition stored_from_agent :: "agent_codecs \<Rightarrow> agent \<Rightarrow> (repository_error, stored_agent) rust_result" where
  "stored_from_agent cs a =
     (case enc (ac_requirements cs) (ag_requirements a) of
        Inl e \<Rightarrow> Inl (RepoSerialization e)
      | Inr requirements_json \<Rightarrow> Inr
          \<lparr>sta_name = ag_name a, sta_description = ag_description a, sta_source = ag_source a,
           sta_runtime = runtime_as_str (ag_runtime a), sta_executable = ag_executable a,
           sta_image_digest = ag_image_digest a, sta_object_storage = ag_object_storage a,
           sta_vector_storage = ag_vector_storage a, sta_requirements_json = requirements_json,
           sta_prompts_json = None, sta_public_key = map_option (ac_base64 cs) (ag_public_key a)\<rparr>)"

definition transpose :: "('e, 'a) rust_result option \<Rightarrow> ('e, 'a option) rust_result" where
  "transpose x = (case x of None \<Rightarrow> Inr None | Some (Inl e) \<Rightarrow> Inl e | Some (Inr a) \<Rightarrow> Inr (Some a))"

definition stored_to_agent :: "agent_codecs \<Rightarrow> stored_agent \<Rightarrow> (repository_error, agent) rust_result" where
  "stored_to_agent cs s =
     (case runtime_from_str (sta_runtime s) of
        Inl _ \<Rightarrow> Inl (RepoSerialization (''unknown runtime: '' @ sta_runtime s))
      | Inr runtime \<Rightarrow>
      (case transpose (map_option image_digest_parse (sta_image_digest s)) of
        Inl e \<Rightarrow> Inl (RepoSerialization e)
      | Inr image_digest \<Rightarrow>
      (case dec (ac_requirements cs) (sta_requirements_json s) of
        Inl e \<Rightarrow> Inl (RepoSerialization e)
      | Inr requirements \<Rightarrow>
      (case transpose (map_option (ac_unbase64 cs) (sta_public_key s)) of
        Inl e \<Rightarrow> Inl (RepoSerialization (''invalid public_key base64: '' @ e))
      | Inr public_key \<Rightarrow> Inr
          \<lparr>ag_name = sta_name s, ag_description = sta_description s, ag_source = sta_source s,
           ag_requirements = requirements, ag_id = agent_placeholder_id (sta_name s), ag_runtime = runtime,
           ag_executable = sta_executable s, ag_image_digest = image_digest, ag_public_key = public_key,
           ag_object_storage = sta_object_storage s, ag_vector_storage = sta_vector_storage s\<rparr>))))"

text \<open>What the codecs keep of an agent; two agents that differ in nothing a registry asks about.\<close>

definition same_agent :: "agent \<Rightarrow> agent \<Rightarrow> bool" where
  "same_agent a b \<longleftrightarrow>
     agent_config_eq a b \<and> ag_source a = ag_source b \<and> ag_image_digest a = ag_image_digest b \<and>
     ag_public_key a = ag_public_key b"

definition kept_agent :: "agent_codecs \<Rightarrow> agent \<Rightarrow> bool" where
  "kept_agent cs a \<longleftrightarrow>
     (case enc (ac_requirements cs) (ag_requirements a) of
        Inl _ \<Rightarrow> False
      | Inr j \<Rightarrow> (case dec (ac_requirements cs) j of Inl _ \<Rightarrow> False | Inr r \<Rightarrow> requirements_eq (ag_requirements a) r)) \<and>
     (case ag_public_key a of None \<Rightarrow> True | Some k \<Rightarrow> ac_unbase64 cs (ac_base64 cs k) = Inr k) \<and>
     (case ag_image_digest a of None \<Rightarrow> True | Some d \<Rightarrow> image_digest_parse d = Inr d)"

lemma stored_agent_roundtrip:
  assumes "kept_agent cs a"
  shows "\<exists>s b. stored_from_agent cs a = Inr s \<and> sta_name s = ag_name a \<and> stored_to_agent cs s = Inr b \<and>
           ag_name b = ag_name a \<and> same_agent a b"
proof -
  obtain j r where "enc (ac_requirements cs) (ag_requirements a) = Inr j" "dec (ac_requirements cs) j = Inr r"
      "requirements_eq (ag_requirements a) r"
    using assms by (auto simp: kept_agent_def split: sum.splits)
  then show ?thesis
    using assms
    by (cases "ag_public_key a"; cases "ag_image_digest a")
      (simp_all add: stored_from_agent_def stored_to_agent_def transpose_def kept_agent_def same_agent_def
        agent_config_eq_def)
qed

lemma stored_from_agent_name: "stored_from_agent cs a = Inr s \<Longrightarrow> sta_name s = ag_name a"
  by (auto simp: stored_from_agent_def split: sum.splits)

lemma stored_to_agent_name: "stored_to_agent cs s = Inr a \<Longrightarrow> ag_name a = sta_name s"
  by (auto simp: stored_to_agent_def split: sum.splits)

lemma same_agent_config: "same_agent a b \<Longrightarrow> agent_config_eq a b"
  by (simp add: same_agent_def)

section \<open>The trait\<close>

type_synonym ('r, 'a) repo_op = "('r, repository_error, 'a) fallible"

record 'r repository =
  rp_save_mcp_server :: "mcp_server \<Rightarrow> ('r, unit) repo_op"
  rp_load_mcp_servers :: "('r, mcp_server list) repo_op"
  rp_delete_mcp_server :: "string \<Rightarrow> ('r, bool) repo_op"
  rp_mcp_server_exists :: "string \<Rightarrow> ('r, bool) repo_op"
  rp_save_model :: "model \<Rightarrow> ('r, unit) repo_op"
  rp_load_models :: "('r, model list) repo_op"
  rp_delete_model :: "string \<Rightarrow> ('r, bool) repo_op"
  rp_model_exists :: "string \<Rightarrow> ('r, bool) repo_op"
  rp_save_agent :: "agent \<Rightarrow> ('r, unit) repo_op"
  rp_load_agents :: "('r, agent list) repo_op"
  rp_delete_agent :: "string \<Rightarrow> ('r, bool) repo_op"
  rp_agent_exists :: "string \<Rightarrow> ('r, bool) repo_op"
  rp_append_readiness_check :: "readiness_check \<Rightarrow> ('r, unit) repo_op"
  rp_all_checks_ready :: "string \<Rightarrow> ('r, bool) repo_op"
  rp_get_derived_status :: "string \<Rightarrow> ('r, agent_status option) repo_op"
  rp_get_derived_status_with_error :: "string \<Rightarrow> ('r, agent_status option \<times> string option) repo_op"

section \<open>The contract\<close>

text \<open>
  What is on disk: the names of the rows, and the agent or model each reads back as (\<open>None\<close> when the row
  does not decode).  A call that succeeds does what it says to these and nothing else; a call that
  fails changes none of them.  \<open>ok\<close> is what the repository itself needs to hold, and keeps.
\<close>

record repo_view =
  rv_agent_names :: "string set"
  rv_agents :: "string \<Rightarrow> agent option"
  rv_model_names :: "string set"
  rv_models :: "string \<Rightarrow> model option"

locale registry_repository =
  fixes ops :: "'r repository"
    and view :: "'r \<Rightarrow> repo_view"
    and ok :: "'r \<Rightarrow> bool"
    and kept :: "agent \<Rightarrow> bool"
  assumes view_named:
      "rv_agents (view r) n = Some a \<Longrightarrow> n \<in> rv_agent_names (view r) \<and> ag_name a = n"
      "rv_models (view r) n = Some m \<Longrightarrow> n \<in> rv_model_names (view r) \<and> md_name m = n"
    and save_agent:
      "rp_save_agent ops a r = (Inr u, r') \<Longrightarrow>
         \<exists>b. view r' = (view r)\<lparr>rv_agent_names := insert (ag_name a) (rv_agent_names (view r)),
                              rv_agents := (rv_agents (view r))(ag_name a := b)\<rparr> \<and>
             (kept a \<longrightarrow> (\<exists>x. b = Some x \<and> same_agent a x))"
    and delete_agent:
      "rp_delete_agent ops n r = (Inr b, r') \<Longrightarrow>
         (b \<longleftrightarrow> n \<in> rv_agent_names (view r)) \<and>
         view r' = (view r)\<lparr>rv_agent_names := rv_agent_names (view r) - {n}, rv_agents := (rv_agents (view r))(n := None)\<rparr>"
    and load_agents:
      "ok r \<Longrightarrow> rp_load_agents ops r = (Inr as, r') \<Longrightarrow>
         distinct (map ag_name as) \<and> rv_agent_names (view r) = ag_name ` set as \<and>
         (\<forall>a \<in> set as. rv_agents (view r) (ag_name a) = Some a)"
    and save_model:
      "rp_save_model ops m r = (Inr u, r') \<Longrightarrow>
         view r' = (view r)\<lparr>rv_model_names := insert (md_name m) (rv_model_names (view r)),
                          rv_models := (rv_models (view r))(md_name m \<mapsto> m\<lparr>md_id := model_placeholder_id (md_name m)\<rparr>)\<rparr>"
    and delete_model:
      "rp_delete_model ops n r = (Inr b, r') \<Longrightarrow>
         (b \<longleftrightarrow> n \<in> rv_model_names (view r)) \<and>
         view r' = (view r)\<lparr>rv_model_names := rv_model_names (view r) - {n}, rv_models := (rv_models (view r))(n := None)\<rparr>"
    and load_models:
      "ok r \<Longrightarrow> rp_load_models ops r = (Inr ms, r') \<Longrightarrow>
         distinct (map md_name ms) \<and> rv_model_names (view r) = md_name ` set ms \<and>
         (\<forall>m \<in> set ms. rv_models (view r) (md_name m) = Some m)"
    and failures:
      "rp_save_agent ops a r = (Inl e, r') \<Longrightarrow> view r' = view r"
      "rp_delete_agent ops n r = (Inl e, r') \<Longrightarrow> view r' = view r"
      "rp_save_model ops m r = (Inl e, r') \<Longrightarrow> view r' = view r"
      "rp_delete_model ops n r = (Inl e, r') \<Longrightarrow> view r' = view r"
    and frames:
      "view (snd (rp_load_agents ops r)) = view r"
      "view (snd (rp_load_models ops r)) = view r"
      "view (snd (rp_load_mcp_servers ops r)) = view r"
      "view (snd (rp_append_readiness_check ops c r)) = view r"
      "view (snd (rp_save_mcp_server ops srv r)) = view r"
      "view (snd (rp_delete_mcp_server ops n r)) = view r"
    and keeps_ok:
      "ok r \<Longrightarrow> ok (snd (rp_save_agent ops a r))" "ok r \<Longrightarrow> ok (snd (rp_delete_agent ops n r))"
      "ok r \<Longrightarrow> ok (snd (rp_load_agents ops r))" "ok r \<Longrightarrow> ok (snd (rp_save_model ops m r))"
      "ok r \<Longrightarrow> ok (snd (rp_delete_model ops n r))" "ok r \<Longrightarrow> ok (snd (rp_load_models ops r))"
      "ok r \<Longrightarrow> ok (snd (rp_load_mcp_servers ops r))" "ok r \<Longrightarrow> ok (snd (rp_append_readiness_check ops c r))"
      "ok r \<Longrightarrow> ok (snd (rp_save_mcp_server ops srv r))" "ok r \<Longrightarrow> ok (snd (rp_delete_mcp_server ops n r))"

end
