(* ===== verification/RegTables.thy ===== *)
theory RegTables
  imports Repository "HOL-Library.AList"
begin

text \<open>
  \<open>RegistryRepository for SqliteDagStore\<close> (\<open>crates/vlinder-sql-state/src/registry_store.rs\<close>): the tables
  of agents, models, MCP servers and readiness checks, one statement per call of diesel, and the
  interpretation of the contract \<open>registry_repository\<close>.  The order of an unordered \<open>SELECT\<close> is a
  parameter.
\<close>

section \<open>Tables\<close>

record model_row =
  mrow_name :: string
  mrow_type :: string
  mrow_provider :: string
  mrow_path :: string
  mrow_digest :: string

record mcp_row =
  xrow_name :: string
  xrow_url :: string
  xrow_tools_json :: string

record check_row =
  crow_id :: int
  crow_agent :: string
  crow_worker :: string
  crow_status :: string
  crow_updated_at :: string
  crow_error :: "string option"

text \<open>\<open>AgentRow\<close>, \<open>NewAgent\<close> and \<open>StoredAgent\<close> have the same fields.\<close>

record reg_db =
  rdb_agents :: "stored_agent list"
  rdb_models :: "model_row list"
  rdb_mcp :: "mcp_row list"
  rdb_checks :: "check_row list"
  rdb_next_check :: int

definition reg_db_empty :: reg_db where
  "reg_db_empty = \<lparr>rdb_agents = [], rdb_models = [], rdb_mcp = [], rdb_checks = [], rdb_next_check = 1\<rparr>"

record repo_env =
  re_fault :: "nat \<Rightarrow> string option"
  re_agent_codecs :: agent_codecs
  re_tools :: "(string list, string) codec"
  re_unknown_variant :: "string \<Rightarrow> string"
  re_time :: "timestamp \<Rightarrow> string"
  re_agent_scan :: "stored_agent list \<Rightarrow> stored_agent list"
  re_model_scan :: "model_row list \<Rightarrow> model_row list"
  re_mcp_scan :: "mcp_row list \<Rightarrow> mcp_row list"
  re_check_scan :: "check_row list \<Rightarrow> check_row list"

type_synonym 'a reg_sql = "(reg_db sql_world, 'a) repo_op"

definition db_error :: "('s, string, 'a) fallible \<Rightarrow> ('s, 'a) repo_op" where
  "db_error m w = (case m w of (r, w') \<Rightarrow> (map_sum RepoDatabase id r, w'))"

definition reg_stmt :: "repo_env \<Rightarrow> (reg_db \<Rightarrow> 'a \<times> reg_db) \<Rightarrow> 'a reg_sql" where
  "reg_stmt env f = db_error (sql (re_fault env) [] f)"

definition reg_query :: "repo_env \<Rightarrow> (reg_db \<Rightarrow> 'a) \<Rightarrow> 'a reg_sql" where
  "reg_query env q = reg_stmt env (\<lambda>db. (q db, db))"

text \<open>\<open>REPLACE INTO\<close>: the row with the same primary key goes, the new one is appended.\<close>

definition replace_row :: "('r \<Rightarrow> string) \<Rightarrow> 'r \<Rightarrow> 'r list \<Rightarrow> 'r list" where
  "replace_row key r rows = filter (\<lambda>x. key x \<noteq> key r) rows @ [r]"

definition delete_rows :: "('r \<Rightarrow> bool) \<Rightarrow> 'r list \<Rightarrow> nat \<times> 'r list" where
  "delete_rows p rows = (length (filter p rows), filter (\<lambda>r. \<not> p r) rows)"

text \<open>\<open>collect::<Result<Vec<_>, _>>()\<close>: the first error, or all the values.\<close>

fun collect_results :: "('e, 'a) rust_result list \<Rightarrow> ('e, 'a list) rust_result" where
  "collect_results [] = Inr []"
| "collect_results (Inl e # rs) = Inl e"
| "collect_results (Inr x # rs) = map_sum id (\<lambda>xs. x # xs) (collect_results rs)"

section \<open>MCP servers\<close>

definition sql_save_mcp_server :: "repo_env \<Rightarrow> mcp_server \<Rightarrow> unit reg_sql" where
  "sql_save_mcp_server env server =
     (case enc (re_tools env) (ms_tools server) of
        Inl e \<Rightarrow> efail (RepoSerialization e)
      | Inr tools_json \<Rightarrow>
          reg_stmt env (\<lambda>db. ((), db\<lparr>rdb_mcp := replace_row xrow_name
            \<lparr>xrow_name = ms_name server, xrow_url = ms_url server, xrow_tools_json = tools_json\<rparr> (rdb_mcp db)\<rparr>)))"

definition mcp_row_to_domain :: "repo_env \<Rightarrow> mcp_row \<Rightarrow> (repository_error, mcp_server) rust_result" where
  "mcp_row_to_domain env r =
     (case dec (re_tools env) (xrow_tools_json r) of
        Inl e \<Rightarrow> Inl (RepoSerialization e)
      | Inr tools \<Rightarrow> Inr \<lparr>ms_id = mcp_server_placeholder_id (xrow_name r), ms_name = xrow_name r,
                         ms_url = xrow_url r, ms_tools = tools\<rparr>)"

definition sql_load_mcp_servers :: "repo_env \<Rightarrow> mcp_server list reg_sql" where
  "sql_load_mcp_servers env =
     ebind (reg_query env (\<lambda>db. re_mcp_scan env (rdb_mcp db))) (\<lambda>rows.
       elift (collect_results (map (mcp_row_to_domain env) rows)))"

definition sql_delete_mcp_server :: "repo_env \<Rightarrow> string \<Rightarrow> bool reg_sql" where
  "sql_delete_mcp_server env name =
     ebind (reg_stmt env (\<lambda>db. let (n, rows) = delete_rows (\<lambda>r. xrow_name r = name) (rdb_mcp db)
                               in (n, db\<lparr>rdb_mcp := rows\<rparr>))) (\<lambda>affected. eret (affected > 0))"

definition sql_mcp_server_exists :: "repo_env \<Rightarrow> string \<Rightarrow> bool reg_sql" where
  "sql_mcp_server_exists env name =
     ebind (reg_query env (\<lambda>db. length (filter (\<lambda>r. xrow_name r = name) (rdb_mcp db)))) (\<lambda>n. eret (n > 0))"

section \<open>Models\<close>

fun model_type_text :: "model_type \<Rightarrow> string" where
  "model_type_text MInference = ''inference''"
| "model_type_text MEmbedding = ''embedding''"

fun provider_text :: "provider \<Rightarrow> string" where
  "provider_text POllama = ''ollama''"
| "provider_text POpenRouter = ''openrouter''"

definition model_row_of :: "stored_model \<Rightarrow> model_row" where
  "model_row_of m =
     \<lparr>mrow_name = stm_name m, mrow_type = model_type_text (stm_type m),
      mrow_provider = provider_text (stm_provider m), mrow_path = stm_path m, mrow_digest = stm_digest m\<rparr>"

definition sql_save_model :: "repo_env \<Rightarrow> model \<Rightarrow> unit reg_sql" where
  "sql_save_model env m =
     reg_stmt env (\<lambda>db. ((), db\<lparr>rdb_models := replace_row mrow_name (model_row_of (stored_from_model m)) (rdb_models db)\<rparr>))"

text \<open>The lower-case names serde gives the two enums.\<close>

definition model_type_from_json :: "repo_env \<Rightarrow> string \<Rightarrow> (string, model_type) rust_result" where
  "model_type_from_json env s =
     (if s = ''inference'' then Inr MInference else if s = ''embedding'' then Inr MEmbedding
      else Inl (re_unknown_variant env s))"

definition provider_from_json :: "repo_env \<Rightarrow> string \<Rightarrow> (string, provider) rust_result" where
  "provider_from_json env s =
     (if s = ''ollama'' then Inr POllama else if s = ''openrouter'' then Inr POpenRouter
      else Inl (re_unknown_variant env s))"

definition model_row_to_domain :: "repo_env \<Rightarrow> model_row \<Rightarrow> (repository_error, model) rust_result" where
  "model_row_to_domain env r =
     (case model_type_from_json env (mrow_type r) of
        Inl e \<Rightarrow> Inl (RepoSerialization e)
      | Inr t \<Rightarrow>
          (case provider_from_json env (mrow_provider r) of
             Inl e \<Rightarrow> Inl (RepoSerialization e)
           | Inr p \<Rightarrow> Inr (stored_to_model \<lparr>stm_name = mrow_name r, stm_type = t, stm_provider = p,
                                            stm_path = mrow_path r, stm_digest = mrow_digest r\<rparr>)))"

definition sql_load_models :: "repo_env \<Rightarrow> model list reg_sql" where
  "sql_load_models env =
     ebind (reg_query env (\<lambda>db. re_model_scan env (rdb_models db))) (\<lambda>rows.
       elift (collect_results (map (model_row_to_domain env) rows)))"

definition sql_delete_model :: "repo_env \<Rightarrow> string \<Rightarrow> bool reg_sql" where
  "sql_delete_model env name =
     ebind (reg_stmt env (\<lambda>db. let (n, rows) = delete_rows (\<lambda>r. mrow_name r = name) (rdb_models db)
                               in (n, db\<lparr>rdb_models := rows\<rparr>))) (\<lambda>affected. eret (affected > 0))"

definition sql_model_exists :: "repo_env \<Rightarrow> string \<Rightarrow> bool reg_sql" where
  "sql_model_exists env name =
     ebind (reg_query env (\<lambda>db. length (filter (\<lambda>r. mrow_name r = name) (rdb_models db)))) (\<lambda>n. eret (n > 0))"

section \<open>Agents\<close>

definition sql_save_agent :: "repo_env \<Rightarrow> agent \<Rightarrow> unit reg_sql" where
  "sql_save_agent env a =
     ebind (elift (stored_from_agent (re_agent_codecs env) a)) (\<lambda>stored.
       reg_stmt env (\<lambda>db. ((), db\<lparr>rdb_agents := replace_row sta_name stored (rdb_agents db)\<rparr>)))"

definition sql_load_agents :: "repo_env \<Rightarrow> agent list reg_sql" where
  "sql_load_agents env =
     ebind (reg_query env (\<lambda>db. re_agent_scan env (rdb_agents db))) (\<lambda>rows.
       elift (collect_results (map (stored_to_agent (re_agent_codecs env)) rows)))"

text \<open>Two statements: the checks go first.\<close>

definition sql_delete_agent :: "repo_env \<Rightarrow> string \<Rightarrow> bool reg_sql" where
  "sql_delete_agent env name =
     ebind (reg_stmt env (\<lambda>db. ((), db\<lparr>rdb_checks := filter (\<lambda>c. crow_agent c \<noteq> name) (rdb_checks db)\<rparr>))) (\<lambda>_.
     ebind (reg_stmt env (\<lambda>db. let (n, rows) = delete_rows (\<lambda>r. sta_name r = name) (rdb_agents db)
                               in (n, db\<lparr>rdb_agents := rows\<rparr>))) (\<lambda>affected. eret (affected > 0)))"

definition sql_agent_exists :: "repo_env \<Rightarrow> string \<Rightarrow> bool reg_sql" where
  "sql_agent_exists env name =
     ebind (reg_query env (\<lambda>db. length (filter (\<lambda>r. sta_name r = name) (rdb_agents db)))) (\<lambda>n. eret (n > 0))"

section \<open>Readiness\<close>

definition check_row_of :: "repo_env \<Rightarrow> int \<Rightarrow> readiness_check \<Rightarrow> check_row" where
  "check_row_of env i c =
     \<lparr>crow_id = i, crow_agent = rk_agent c, crow_worker = rk_worker c,
      crow_status = readiness_as_str (rk_status c), crow_updated_at = re_time env (rk_updated_at c),
      crow_error = rk_error c\<rparr>"

definition sql_append_readiness_check :: "repo_env \<Rightarrow> readiness_check \<Rightarrow> unit reg_sql" where
  "sql_append_readiness_check env c =
     reg_stmt env (\<lambda>db. ((), db\<lparr>rdb_checks := rdb_checks db @ [check_row_of env (rdb_next_check db) c],
                              rdb_next_check := rdb_next_check db + 1\<rparr>))"

text \<open>The subquery: the greatest id of each worker of the agent.\<close>

definition max_ids :: "string \<Rightarrow> reg_db \<Rightarrow> int list" where
  "max_ids agent db =
     (let rows = filter (\<lambda>r. crow_agent r = agent) (rdb_checks db)
      in map (\<lambda>w. Max (set (map crow_id (filter (\<lambda>r. crow_worker r = w) rows)))) (remdups (map crow_worker rows)))"

definition latest_checks :: "repo_env \<Rightarrow> string \<Rightarrow> check_row list reg_sql" where
  "latest_checks env agent =
     reg_query env (\<lambda>db. re_check_scan env (filter (\<lambda>r. crow_id r \<in> set (max_ids agent db)) (rdb_checks db)))"

definition check_pairs :: "check_row list \<Rightarrow> (string \<times> string) list" where
  "check_pairs rows = map (\<lambda>r. (crow_worker r, crow_status r)) rows"

definition sql_get_derived_status :: "repo_env \<Rightarrow> string \<Rightarrow> agent_status option reg_sql" where
  "sql_get_derived_status env agent =
     ebind (latest_checks env agent) (\<lambda>rows. elift (derive_status (check_pairs rows)))"

definition sql_all_checks_ready :: "repo_env \<Rightarrow> string \<Rightarrow> bool reg_sql" where
  "sql_all_checks_ready env agent = ebind (sql_get_derived_status env agent) (\<lambda>s. eret (s = Some AsLive))"

definition sql_get_derived_status_with_error ::
    "repo_env \<Rightarrow> string \<Rightarrow> (agent_status option \<times> string option) reg_sql" where
  "sql_get_derived_status_with_error env agent =
     ebind (latest_checks env agent) (\<lambda>rows.
     ebind (elift (derive_status (check_pairs rows))) (\<lambda>status.
       eret (status,
         if status = Some AsFailed
         then Option.bind (find (\<lambda>r. crow_status r = readiness_as_str RsFailed) rows) crow_error
         else None)))"

definition sqlite_repository :: "repo_env \<Rightarrow> reg_db sql_world repository" where
  "sqlite_repository env =
     \<lparr>rp_save_mcp_server = sql_save_mcp_server env,
      rp_load_mcp_servers = sql_load_mcp_servers env,
      rp_delete_mcp_server = sql_delete_mcp_server env,
      rp_mcp_server_exists = sql_mcp_server_exists env,
      rp_save_model = sql_save_model env,
      rp_load_models = sql_load_models env,
      rp_delete_model = sql_delete_model env,
      rp_model_exists = sql_model_exists env,
      rp_save_agent = sql_save_agent env,
      rp_load_agents = sql_load_agents env,
      rp_delete_agent = sql_delete_agent env,
      rp_agent_exists = sql_agent_exists env,
      rp_append_readiness_check = sql_append_readiness_check env,
      rp_all_checks_ready = sql_all_checks_ready env,
      rp_get_derived_status = sql_get_derived_status env,
      rp_get_derived_status_with_error = sql_get_derived_status_with_error env\<rparr>"

section \<open>The contract\<close>

definition sql_view :: "repo_env \<Rightarrow> reg_db sql_world \<Rightarrow> repo_view" where
  "sql_view env w =
     (let db = sw_data w
      in \<lparr>rv_agent_names = sta_name ` set (rdb_agents db),
          rv_agents = (\<lambda>n. Option.bind (find (\<lambda>r. sta_name r = n) (rdb_agents db))
                         (result_ok \<circ> stored_to_agent (re_agent_codecs env))),
          rv_model_names = mrow_name ` set (rdb_models db),
          rv_models = (\<lambda>n. Option.bind (find (\<lambda>r. mrow_name r = n) (rdb_models db))
                         (result_ok \<circ> model_row_to_domain env))\<rparr>)"

definition sql_repo_ok :: "repo_env \<Rightarrow> reg_db sql_world \<Rightarrow> bool" where
  "sql_repo_ok env w \<longleftrightarrow>
     (\<forall>rs. mset (re_agent_scan env rs) = mset rs) \<and> (\<forall>rs. mset (re_model_scan env rs) = mset rs) \<and>
     distinct (map sta_name (rdb_agents (sw_data w))) \<and> distinct (map mrow_name (rdb_models (sw_data w)))"

lemma reg_stmt_cases:
  assumes "reg_stmt env f w = (r, w')"
  obtains (fault) e where "r = Inl (RepoDatabase e)" "sw_data w' = sw_data w"
  | (ok) "r = Inr (fst (f (sw_data w)))" "sw_data w' = snd (f (sw_data w))"
  using assms by (auto simp: reg_stmt_def db_error_def sql_def split_beta split: option.splits)

lemma find_replace_row:
  "find (\<lambda>x. key x = n) (replace_row key r rows) = (if key r = n then Some r else find (\<lambda>x. key x = n) rows)"
proof -
  have "find (\<lambda>x. key x = n) (filter (\<lambda>x. key x \<noteq> k) rows) = (if k = n then None else find (\<lambda>x. key x = n) rows)" for k
    by (induction rows) auto
  then show ?thesis by (auto simp: replace_row_def find_append split: option.split)
qed

lemma keys_replace_row: "key ` set (replace_row key r rows) = insert (key r) (key ` set rows)"
  by (auto simp: replace_row_def)

lemma distinct_replace_row: "distinct (map key rows) \<Longrightarrow> distinct (map key (replace_row key r rows))"
  by (auto simp: replace_row_def distinct_map_filter)

lemma delete_key_rows:
  "0 < fst (delete_rows (\<lambda>r. key r = n) rows) \<longleftrightarrow> n \<in> key ` set rows"
  "key ` set (snd (delete_rows (\<lambda>r. key r = n) rows)) = key ` set rows - {n}"
  "find (\<lambda>x. key x = i) (snd (delete_rows (\<lambda>r. key r = n) rows)) = (if i = n then None else find (\<lambda>x. key x = i) rows)"
  "distinct (map key rows) \<Longrightarrow> distinct (map key (snd (delete_rows (\<lambda>r. key r = n) rows)))"
proof -
  show "find (\<lambda>x. key x = i) (snd (delete_rows (\<lambda>r. key r = n) rows)) = (if i = n then None else find (\<lambda>x. key x = i) rows)"
    by (induction rows) (auto simp: delete_rows_def)
qed (auto simp: delete_rows_def filter_empty_conv distinct_map_filter)

lemma collect_results_Inr: "collect_results rs = Inr xs \<longleftrightarrow> rs = map Inr xs"
proof
  show "rs = map Inr xs" if "collect_results rs = Inr xs"
    using that
  proof (induction rs arbitrary: xs rule: collect_results.induct)
    case (3 x rs)
    then obtain ys where "collect_results rs = Inr ys" "xs = x # ys"
      by (cases "collect_results rs") simp_all
    with 3 show ?case by simp
  qed simp_all
  have "collect_results (map Inr xs) = Inr xs" by (induction xs) simp_all
  then show "collect_results rs = Inr xs" if "rs = map Inr xs" using that by simp
qed

text \<open>What a scan of a keyed table gives, decoded row by row.\<close>

lemma loaded_rows:
  assumes "mset (scan rows) = mset rows" and "distinct (map key rows)"
    and "collect_results (map decode (scan rows)) = Inr xs" and "\<And>r x. decode r = Inr x \<Longrightarrow> name x = key r"
  shows "distinct (map name xs)" and "name ` set xs = key ` set rows"
    and "\<forall>x \<in> set xs. Option.bind (find (\<lambda>r. key r = name x) rows) (result_ok \<circ> decode) = Some x"
proof -
  have eq: "map decode (scan rows) = map Inr xs" using assms(3) by (simp add: collect_results_Inr)
  then have len: "length (scan rows) = length xs" by (metis length_map)
  have nth: "decode (scan rows ! i) = Inr (xs ! i)" if "i < length xs" for i
    using eq that len by (metis nth_map)
  have keys: "map key (scan rows) = map name xs"
    using assms(4) [OF nth] by (intro nth_equalityI) (simp_all add: len)
  have "mset (map key (scan rows)) = mset (map key rows)" using assms(1) by simp
  with assms(2) keys show "distinct (map name xs)" by (metis mset_eq_imp_distinct_iff)
  have sets: "set (scan rows) = set rows" using assms(1) by (rule mset_eq_setD)
  with keys show "name ` set xs = key ` set rows" by (metis list.set_map)
  show "\<forall>x \<in> set xs. Option.bind (find (\<lambda>r. key r = name x) rows) (result_ok \<circ> decode) = Some x"
  proof
    fix x assume "x \<in> set xs"
    then obtain i where i: "i < length xs" "x = xs ! i" by (metis in_set_conv_nth)
    let ?r = "scan rows ! i"
    have "?r \<in> set rows" using i len sets by (metis nth_mem)
    moreover have "key ?r = name x" using assms(4) [OF nth [OF i(1)]] i(2) by simp
    ultimately have "find (\<lambda>r. key r = name x) rows = Some ?r"
      using find_key_distinct [OF assms(2)] by metis
    then show "Option.bind (find (\<lambda>r. key r = name x) rows) (result_ok \<circ> decode) = Some x"
      using nth [OF i(1)] i(2) by simp
  qed
qed

lemma model_row_name: "model_row_to_domain env r = Inr m \<Longrightarrow> md_name m = mrow_name r"
  by (auto simp: model_row_to_domain_def stored_to_model_def split: sum.splits)

lemma model_row_roundtrip:
  "model_row_to_domain env (model_row_of (stored_from_model m)) = Inr (m\<lparr>md_id := model_placeholder_id (md_name m)\<rparr>)"
  by (cases "md_type m"; cases "md_provider m")
    (simp_all add: model_row_to_domain_def model_row_of_def stored_from_model_def stored_to_model_def
      model_type_from_json_def provider_from_json_def)

lemma sql_view_frame:
  "rdb_agents (sw_data w') = rdb_agents (sw_data w) \<Longrightarrow> rdb_models (sw_data w') = rdb_models (sw_data w) \<Longrightarrow>
   sql_view env w' = sql_view env w"
  by (simp add: sql_view_def Let_def)

text \<open>What a method does to the two tables, on success and on failure.\<close>

lemma sql_save_agent_run:
  assumes "sql_save_agent env a w = (r, w')"
  shows "(case r of
      Inl _ \<Rightarrow> sw_data w' = sw_data w
    | Inr _ \<Rightarrow> \<exists>s. stored_from_agent (re_agent_codecs env) a = Inr s \<and>
               sw_data w' = (sw_data w)\<lparr>rdb_agents := replace_row sta_name s (rdb_agents (sw_data w))\<rparr>)"
proof (cases "stored_from_agent (re_agent_codecs env) a")
  case (Inl e)
  with assms show ?thesis by (auto simp: sql_save_agent_def)
next
  case (Inr s)
  with assms have "reg_stmt env (\<lambda>db. ((), db\<lparr>rdb_agents := replace_row sta_name s (rdb_agents db)\<rparr>)) w = (r, w')"
    by (simp add: sql_save_agent_def)
  then show ?thesis using Inr by (cases rule: reg_stmt_cases) auto
qed

lemma sql_delete_agent_run:
  assumes "sql_delete_agent env n w = (r, w')"
  shows "rdb_models (sw_data w') = rdb_models (sw_data w) \<and>
    (case r of
      Inl _ \<Rightarrow> rdb_agents (sw_data w') = rdb_agents (sw_data w)
    | Inr b \<Rightarrow> (b \<longleftrightarrow> n \<in> sta_name ` set (rdb_agents (sw_data w))) \<and>
               rdb_agents (sw_data w') = snd (delete_rows (\<lambda>r. sta_name r = n) (rdb_agents (sw_data w))))"
  using assms unfolding sql_delete_agent_def
  by (auto elim!: ebindE reg_stmt_cases simp: split_beta delete_key_rows)

lemma sql_save_model_run:
  assumes "sql_save_model env m w = (r, w')"
  shows "rdb_agents (sw_data w') = rdb_agents (sw_data w) \<and>
    (case r of
      Inl _ \<Rightarrow> rdb_models (sw_data w') = rdb_models (sw_data w)
    | Inr _ \<Rightarrow> rdb_models (sw_data w') = replace_row mrow_name (model_row_of (stored_from_model m)) (rdb_models (sw_data w)))"
  using assms unfolding sql_save_model_def by (auto elim!: reg_stmt_cases)

lemma sql_delete_model_run:
  assumes "sql_delete_model env n w = (r, w')"
  shows "rdb_agents (sw_data w') = rdb_agents (sw_data w) \<and>
    (case r of
      Inl _ \<Rightarrow> rdb_models (sw_data w') = rdb_models (sw_data w)
    | Inr b \<Rightarrow> (b \<longleftrightarrow> n \<in> mrow_name ` set (rdb_models (sw_data w))) \<and>
               rdb_models (sw_data w') = snd (delete_rows (\<lambda>r. mrow_name r = n) (rdb_models (sw_data w))))"
  using assms unfolding sql_delete_model_def
  by (auto elim!: ebindE reg_stmt_cases simp: split_beta delete_key_rows)

lemma query_keeps: "sw_data (snd (ebind (reg_query env q) (\<lambda>rows. elift (f rows)) w)) = sw_data w"
  by (auto simp: ebind_def reg_query_def reg_stmt_def db_error_def sql_def split_beta split: option.split sum.split)

lemma query_Inr_rows: "ebind (reg_query env q) (\<lambda>rows. elift (f rows)) w = (Inr x, w') \<Longrightarrow> f (q (sw_data w)) = Inr x"
  by (auto simp: reg_query_def elim!: ebindE reg_stmt_cases)

lemma other_tables:
  "rdb_agents (sw_data (snd (sql_append_readiness_check env c w))) = rdb_agents (sw_data w)"
  "rdb_models (sw_data (snd (sql_append_readiness_check env c w))) = rdb_models (sw_data w)"
  "rdb_agents (sw_data (snd (sql_save_mcp_server env srv w))) = rdb_agents (sw_data w)"
  "rdb_models (sw_data (snd (sql_save_mcp_server env srv w))) = rdb_models (sw_data w)"
  "rdb_agents (sw_data (snd (sql_delete_mcp_server env n w))) = rdb_agents (sw_data w)"
  "rdb_models (sw_data (snd (sql_delete_mcp_server env n w))) = rdb_models (sw_data w)"
  by (auto simp: sql_append_readiness_check_def sql_save_mcp_server_def sql_delete_mcp_server_def ebind_def
      reg_stmt_def db_error_def sql_def split_beta Let_def split: option.split sum.split)

lemma sql_view_fields [simp]:
  "rv_agent_names (sql_view env w) = sta_name ` set (rdb_agents (sw_data w))"
  "rv_agents (sql_view env w) n = Option.bind (find (\<lambda>r. sta_name r = n) (rdb_agents (sw_data w)))
     (result_ok \<circ> stored_to_agent (re_agent_codecs env))"
  "rv_model_names (sql_view env w) = mrow_name ` set (rdb_models (sw_data w))"
  "rv_models (sql_view env w) n = Option.bind (find (\<lambda>r. mrow_name r = n) (rdb_models (sw_data w)))
     (result_ok \<circ> model_row_to_domain env)"
  by (simp_all add: sql_view_def Let_def)

lemma sql_view_named:
  "rv_agents (sql_view env w) n = Some a \<Longrightarrow> n \<in> rv_agent_names (sql_view env w) \<and> ag_name a = n"
  "rv_models (sql_view env w) n = Some m \<Longrightarrow> n \<in> rv_model_names (sql_view env w) \<and> md_name m = n"
  by (auto simp: bind_eq_Some_conv result_ok_Some dest!: find_Some_set stored_to_agent_name model_row_name)

lemma sql_view_save_agent:
  assumes "sql_save_agent env a w = (Inr u, w')"
  shows "\<exists>b. sql_view env w' = (sql_view env w)\<lparr>rv_agent_names := insert (ag_name a) (rv_agent_names (sql_view env w)),
                rv_agents := (rv_agents (sql_view env w))(ag_name a := b)\<rparr> \<and>
             (kept_agent (re_agent_codecs env) a \<longrightarrow> (\<exists>x. b = Some x \<and> same_agent a x))"
proof -
  obtain s where s: "stored_from_agent (re_agent_codecs env) a = Inr s"
      "sw_data w' = (sw_data w)\<lparr>rdb_agents := replace_row sta_name s (rdb_agents (sw_data w))\<rparr>"
    using sql_save_agent_run [OF assms] by auto
  let ?b = "result_ok (stored_to_agent (re_agent_codecs env) s)"
  have n: "sta_name s = ag_name a" by (rule stored_from_agent_name [OF s(1)])
  have "sql_view env w' = (sql_view env w)\<lparr>rv_agent_names := insert (ag_name a) (rv_agent_names (sql_view env w)),
                rv_agents := (rv_agents (sql_view env w))(ag_name a := ?b)\<rparr>"
    by (rule repo_view.equality)
      (auto simp: s(2) n find_replace_row keys_replace_row fun_eq_iff simp del: image_insert)
  moreover have "\<exists>x. ?b = Some x \<and> same_agent a x" if "kept_agent (re_agent_codecs env) a"
    using stored_agent_roundtrip [OF that] s(1) by (auto simp: result_ok_def)
  ultimately show ?thesis by blast
qed

lemma sql_view_delete_agent:
  assumes "sql_delete_agent env n w = (Inr b, w')"
  shows "(b \<longleftrightarrow> n \<in> rv_agent_names (sql_view env w)) \<and>
    sql_view env w' = (sql_view env w)\<lparr>rv_agent_names := rv_agent_names (sql_view env w) - {n},
                                        rv_agents := (rv_agents (sql_view env w))(n := None)\<rparr>"
  using sql_delete_agent_run [OF assms]
  by (auto simp: delete_key_rows fun_eq_iff intro!: repo_view.equality)

lemma sql_view_save_model:
  assumes "sql_save_model env m w = (Inr u, w')"
  shows "sql_view env w' = (sql_view env w)\<lparr>rv_model_names := insert (md_name m) (rv_model_names (sql_view env w)),
      rv_models := (rv_models (sql_view env w))(md_name m \<mapsto> m\<lparr>md_id := model_placeholder_id (md_name m)\<rparr>)\<rparr>"
proof -
  have n: "mrow_name (model_row_of (stored_from_model m)) = md_name m"
    by (simp add: model_row_of_def stored_from_model_def)
  show ?thesis
    using sql_save_model_run [OF assms]
    by (intro repo_view.equality)
      (auto simp: n find_replace_row keys_replace_row model_row_roundtrip result_ok_def fun_eq_iff simp del: image_insert)
qed

lemma sql_view_delete_model:
  assumes "sql_delete_model env n w = (Inr b, w')"
  shows "(b \<longleftrightarrow> n \<in> rv_model_names (sql_view env w)) \<and>
    sql_view env w' = (sql_view env w)\<lparr>rv_model_names := rv_model_names (sql_view env w) - {n},
                                        rv_models := (rv_models (sql_view env w))(n := None)\<rparr>"
  using sql_delete_model_run [OF assms]
  by (auto simp: delete_key_rows fun_eq_iff intro!: repo_view.equality)

lemma sql_view_load_agents:
  assumes "sql_repo_ok env w" "sql_load_agents env w = (Inr as, w')"
  shows "distinct (map ag_name as) \<and> rv_agent_names (sql_view env w) = ag_name ` set as \<and>
         (\<forall>a \<in> set as. rv_agents (sql_view env w) (ag_name a) = Some a)"
proof -
  have "collect_results (map (stored_to_agent (re_agent_codecs env)) (re_agent_scan env (rdb_agents (sw_data w)))) = Inr as"
    using query_Inr_rows [OF assms(2) [unfolded sql_load_agents_def]] .
  note loaded = loaded_rows [of "re_agent_scan env" "rdb_agents (sw_data w)" sta_name "stored_to_agent (re_agent_codecs env)" as ag_name,
      OF _ _ this stored_to_agent_name]
  from assms(1) show ?thesis
    by (intro conjI; simp add: sql_repo_ok_def loaded)
qed

lemma sql_view_load_models:
  assumes "sql_repo_ok env w" "sql_load_models env w = (Inr ms, w')"
  shows "distinct (map md_name ms) \<and> rv_model_names (sql_view env w) = md_name ` set ms \<and>
         (\<forall>m \<in> set ms. rv_models (sql_view env w) (md_name m) = Some m)"
proof -
  have "collect_results (map (model_row_to_domain env) (re_model_scan env (rdb_models (sw_data w)))) = Inr ms"
    using query_Inr_rows [OF assms(2) [unfolded sql_load_models_def]] .
  note loaded = loaded_rows [of "re_model_scan env" "rdb_models (sw_data w)" mrow_name "model_row_to_domain env" ms md_name,
      OF _ _ this model_row_name]
  from assms(1) show ?thesis
    by (intro conjI; simp add: sql_repo_ok_def loaded)
qed

text \<open>A failed call leaves both tables alone, and every call keeps the keys distinct.\<close>

lemma sql_failed_view:
  "sql_save_agent env a w = (Inl e, w') \<Longrightarrow> sql_view env w' = sql_view env w"
  "sql_delete_agent env n w = (Inl e, w') \<Longrightarrow> sql_view env w' = sql_view env w"
  "sql_save_model env m w = (Inl e, w') \<Longrightarrow> sql_view env w' = sql_view env w"
  "sql_delete_model env n w = (Inl e, w') \<Longrightarrow> sql_view env w' = sql_view env w"
  by (drule sql_save_agent_run sql_delete_agent_run sql_save_model_run sql_delete_model_run,
      rule sql_view_frame, simp, simp)+

lemma sql_repo_ok_frame:
  "sql_repo_ok env w \<Longrightarrow> rdb_agents (sw_data w') = rdb_agents (sw_data w) \<Longrightarrow>
   rdb_models (sw_data w') = rdb_models (sw_data w) \<Longrightarrow> sql_repo_ok env w'"
  by (simp add: sql_repo_ok_def)

lemma sql_mutations_ok:
  assumes "sql_repo_ok env w"
  shows "sql_repo_ok env (snd (sql_save_agent env a w))" "sql_repo_ok env (snd (sql_delete_agent env n w))"
    "sql_repo_ok env (snd (sql_save_model env m w))" "sql_repo_ok env (snd (sql_delete_model env n w))"
proof -
  obtain r w' where "sql_save_agent env a w = (r, w')" by (cases "sql_save_agent env a w")
  then show "sql_repo_ok env (snd (sql_save_agent env a w))"
    using assms sql_save_agent_run [of env a w r w'] by (auto simp: sql_repo_ok_def distinct_replace_row split: sum.splits)
next
  obtain r w' where "sql_delete_agent env n w = (r, w')" by (cases "sql_delete_agent env n w")
  then show "sql_repo_ok env (snd (sql_delete_agent env n w))"
    using assms sql_delete_agent_run [of env n w r w'] by (auto simp: sql_repo_ok_def delete_key_rows split: sum.splits)
next
  obtain r w' where "sql_save_model env m w = (r, w')" by (cases "sql_save_model env m w")
  then show "sql_repo_ok env (snd (sql_save_model env m w))"
    using assms sql_save_model_run [of env m w r w'] by (auto simp: sql_repo_ok_def distinct_replace_row split: sum.splits)
next
  obtain r w' where "sql_delete_model env n w = (r, w')" by (cases "sql_delete_model env n w")
  then show "sql_repo_ok env (snd (sql_delete_model env n w))"
    using assms sql_delete_model_run [of env n w r w'] by (auto simp: sql_repo_ok_def delete_key_rows split: sum.splits)
qed

lemma sql_loads_keep:
  "sw_data (snd (sql_load_agents env w)) = sw_data w" "sw_data (snd (sql_load_models env w)) = sw_data w"
  "sw_data (snd (sql_load_mcp_servers env w)) = sw_data w"
  by (simp_all add: sql_load_agents_def sql_load_models_def sql_load_mcp_servers_def query_keeps)

interpretation sql_repo: registry_repository "sqlite_repository env" "sql_view env" "sql_repo_ok env"
  "kept_agent (re_agent_codecs env)" for env
  by (unfold_locales, simp_all only: sqlite_repository_def repository.simps)
    (fact sql_view_named sql_view_save_agent sql_view_delete_agent sql_view_save_model sql_view_delete_model
       sql_view_load_agents sql_view_load_models sql_failed_view sql_mutations_ok |
     (rule sql_view_frame; simp add: other_tables sql_loads_keep) |
     (erule sql_repo_ok_frame; simp add: other_tables sql_loads_keep))+

end
