(* ===== verification/Persistent.thy ===== *)
theory Persistent
  imports RegTables
begin

text \<open>
  \<open>PersistentRegistry\<close> (\<open>crates/vlinder-sql-registry/src/persistent.rs\<close>): the in-memory registry as a
  cache over a \<open>RegistryRepository\<close>, whose operations are the parameter \<open>ops\<close>, and the default methods
  of the trait \<open>Registry\<close> it inherits.  The times of the checks are arguments.
\<close>

section \<open>State\<close>

record ('k, 'r) preg =
  pr_inner :: registry_state
  pr_secrets :: 'k
  pr_repo :: 'r

type_synonym ('k, 'r, 'a) preg_op = "(('k, 'r) preg, registration_error, 'a) fallible"

record registry_config =
  rcf_inference :: "provider list"
  rcf_embedding :: "provider list"

definition on_repo :: "string \<Rightarrow> ('r, 'a) repo_op \<Rightarrow> ('k, 'r, 'a) preg_op" where
  "on_repo context m p =
     (case m (pr_repo p) of (r, repo) \<Rightarrow>
        (map_sum (\<lambda>e. Persistence (context @ repository_error_display e)) id r, p\<lparr>pr_repo := repo\<rparr>))"

definition on_inner ::
    "(registry_state \<Rightarrow> (registration_error, 'a) rust_result \<times> registry_state) \<Rightarrow> ('k, 'r, 'a) preg_op" where
  "on_inner f p = (case f (pr_inner p) of (r, s) \<Rightarrow> (r, p\<lparr>pr_inner := s\<rparr>))"

definition inner_do :: "(registry_state \<Rightarrow> 'a \<times> registry_state) \<Rightarrow> ('k, 'r, 'a) preg_op" where
  "inner_do f = on_inner (\<lambda>s. case f s of (x, s') \<Rightarrow> (Inr x, s'))"

definition inner_get :: "(registry_state \<Rightarrow> 'a) \<Rightarrow> ('k, 'r, 'a) preg_op" where
  "inner_get f p = (Inr (f (pr_inner p)), p)"

section \<open>Opening\<close>

definition preg_start :: "registry_config \<Rightarrow> 'k \<Rightarrow> 'r \<Rightarrow> ('k, 'r) preg" where
  "preg_start config secrets repo =
     \<lparr>pr_inner = fold register_embedding_engine (rcf_embedding config)
        (fold register_inference_engine (rcf_inference config) registry_new),
      pr_secrets = secrets, pr_repo = repo\<rparr>"

definition preg_load :: "'r repository \<Rightarrow> ('k, 'r, unit) preg_op" where
  "preg_load ops =
     ebind (on_repo ''failed to load models: '' (rp_load_models ops)) (\<lambda>models.
     ebind (efor (\<lambda>m. on_inner (register_model m)) models) (\<lambda>_.
     ebind (on_repo ''failed to load agents: '' (rp_load_agents ops)) (\<lambda>agents.
     ebind (efor (\<lambda>a. on_inner (restore_agent a)) agents) (\<lambda>_.
     ebind (on_repo ''failed to load mcp servers: '' (rp_load_mcp_servers ops)) (\<lambda>servers.
       efor (\<lambda>m. on_inner (register_mcp_server m)) servers)))))"

text \<open>The repository lives on when opening fails; the registry does not.\<close>

definition preg_new ::
    "'r repository \<Rightarrow> registry_config \<Rightarrow> 'k \<Rightarrow> 'r \<Rightarrow> (registration_error, ('k, 'r) preg) rust_result" where
  "preg_new ops config secrets repo =
     (case preg_load ops (preg_start config secrets repo) of (Inl e, _) \<Rightarrow> Inl e | (Inr _, p) \<Rightarrow> Inr p)"

section \<open>Agents\<close>

definition inner_register_agent ::
    "(string \<Rightarrow> 'k \<Rightarrow> (identity_error, bytes) rust_result \<times> 'k) \<Rightarrow> agent \<Rightarrow> ('k, 'r, unit) preg_op" where
  "inner_register_agent identity a p =
     (case register_agent identity a (pr_inner p, pr_secrets p) of
        (r, s, k) \<Rightarrow> (r, p\<lparr>pr_inner := s, pr_secrets := k\<rparr>))"

definition preg_register_agent ::
    "'r repository \<Rightarrow> (string \<Rightarrow> 'k \<Rightarrow> (identity_error, bytes) rust_result \<times> 'k) \<Rightarrow>
     timestamp \<times> timestamp \<times> timestamp \<Rightarrow> agent \<Rightarrow> ('k, 'r, unit) preg_op" where
  "preg_register_agent ops identity at a =
     ebind (inner_register_agent identity a) (\<lambda>_.
     ebind (on_repo [] (rp_save_agent ops a)) (\<lambda>_.
     ebind (ecatch (on_repo [] (rp_append_readiness_check ops
       (check_ready (fst (snd at)) (check_pending (fst at) (ag_name a) ''registry''))))
         :: ('k, 'r, (registration_error, unit) rust_result) preg_op) (\<lambda>_.
     ebind (ecatch (on_repo [] (rp_append_readiness_check ops
       (check_pending (snd (snd at)) (ag_name a) (runtime_as_str (ag_runtime a)))))
         :: ('k, 'r, (registration_error, unit) rust_result) preg_op) (\<lambda>_. eret ()))))"

text \<open>The default \<open>register_manifest\<close> of the trait; \<open>parse_error\<close> is \<open>{e:?}\<close> of the load error.\<close>

definition preg_register_manifest ::
    "'r repository \<Rightarrow> (string \<Rightarrow> 'k \<Rightarrow> (identity_error, bytes) rust_result \<times> 'k) \<Rightarrow>
     timestamp \<times> timestamp \<times> timestamp \<Rightarrow> (string \<Rightarrow> string) \<Rightarrow> agent_manifest \<Rightarrow> ('k, 'r, agent) preg_op" where
  "preg_register_manifest ops identity at parse_error manifest =
     (case agent_from_manifest manifest of
        Inl e \<Rightarrow> efail (Persistence (parse_error e))
      | Inr a \<Rightarrow>
          ebind (preg_register_agent ops identity at a) (\<lambda>_.
          ebind (inner_get (get_agent_by_name (mf_name manifest))) (\<lambda>found.
            elift (ok_or (Persistence (''agent '' @ [CHR 0x27] @ mf_name manifest @ [CHR 0x27] @
              '' not found after registration'')) found))))"

text \<open>\<open>None\<close> is the panic of the \<open>expect\<close> on \<open>agent_id\<close>.\<close>

definition preg_delete_agent ::
    "'r repository \<Rightarrow> string \<Rightarrow> ('k, 'r) preg \<Rightarrow>
     ((registration_error, bool) rust_result \<times> ('k, 'r) preg) option" where
  "preg_delete_agent ops name p =
     (case get_agent_by_name name (pr_inner p) of
        None \<Rightarrow> Some (Inr False, p)
      | Some _ \<Rightarrow>
          (case agent_id name (pr_inner p) of
             None \<Rightarrow> None
           | Some i \<Rightarrow>
               (let dependent = map fl_name (filter (\<lambda>f. i \<in> fl_agents f) (get_fleets (pr_inner p)))
                in if dependent \<noteq> [] then Some (Inl (AgentInUse name dependent), p)
                   else Some (ebind (on_repo [] (rp_delete_agent ops name)) (\<lambda>deleted.
                     ebind (if deleted then inner_do (remove_agent name) else eret False)
                       (\<lambda>_. eret deleted)) p))))"

section \<open>Models\<close>

definition preg_register_model :: "'r repository \<Rightarrow> model \<Rightarrow> ('k, 'r, unit) preg_op" where
  "preg_register_model ops m =
     ebind (on_inner (register_model m)) (\<lambda>_. on_repo [] (rp_save_model ops m))"

definition preg_delete_model :: "'r repository \<Rightarrow> string \<Rightarrow> ('k, 'r, bool) preg_op" where
  "preg_delete_model ops name =
     ebind (inner_get (get_model name)) (\<lambda>found.
       if found = None then eret False
       else ebind (inner_get (get_agents_requiring_model name)) (\<lambda>agents.
         let dependent = map ag_name agents
         in if dependent \<noteq> [] then efail (ModelInUse name dependent)
            else ebind (on_repo [] (rp_delete_model ops name)) (\<lambda>deleted.
              ebind (if deleted then inner_do (remove_model name) else eret False) (\<lambda>_. eret deleted))))"

section \<open>MCP servers\<close>

definition preg_register_mcp_server :: "'r repository \<Rightarrow> mcp_server \<Rightarrow> ('k, 'r, unit) preg_op" where
  "preg_register_mcp_server ops server =
     ebind (on_repo [] (rp_save_mcp_server ops server)) (\<lambda>_.
     ebind (on_inner (register_mcp_server server)) (\<lambda>_. eret ()))"

definition preg_delete_mcp_server :: "'r repository \<Rightarrow> string \<Rightarrow> ('k, 'r, bool) preg_op" where
  "preg_delete_mcp_server ops name =
     ebind (inner_get (get_mcp_server name)) (\<lambda>found.
       if found = None then eret False
       else ebind (on_repo [] (rp_delete_mcp_server ops name)) (\<lambda>deleted.
         ebind (if deleted then inner_do (remove_mcp_server name) else eret False) (\<lambda>_. eret deleted)))"

section \<open>Delegation\<close>

text \<open>The methods that only touch the cache: fleets, jobs, capabilities, and every lookup.\<close>

definition preg_register_fleet ::
    "(resource_id set \<Rightarrow> resource_id list) \<Rightarrow> fleet \<Rightarrow> ('k, 'r, unit) preg_op" where
  "preg_register_fleet elems f = on_inner (register_fleet elems f)"

definition preg_create_job :: "string \<Rightarrow> submission_id \<Rightarrow> resource_id \<Rightarrow> string \<Rightarrow> ('k, 'r, string) preg_op" where
  "preg_create_job uuid submission agent input = inner_do (create_job uuid submission agent input)"

definition preg_update_job_status :: "string \<Rightarrow> job_status \<Rightarrow> ('k, 'r, unit) preg_op" where
  "preg_update_job_status i st = inner_do (\<lambda>s. ((), update_job_status i st s))"

definition preg_register_runtime :: "runtime_type \<Rightarrow> ('k, 'r, unit) preg_op" where
  "preg_register_runtime t = inner_do (\<lambda>s. ((), register_runtime t s))"

definition preg_register_object_storage :: "object_storage_type \<Rightarrow> ('k, 'r, unit) preg_op" where
  "preg_register_object_storage t = inner_do (\<lambda>s. ((), register_object_storage t s))"

definition preg_register_vector_storage :: "vector_storage_type \<Rightarrow> ('k, 'r, unit) preg_op" where
  "preg_register_vector_storage t = inner_do (\<lambda>s. ((), register_vector_storage t s))"

definition preg_register_inference_engine :: "provider \<Rightarrow> ('k, 'r, unit) preg_op" where
  "preg_register_inference_engine t = inner_do (\<lambda>s. ((), register_inference_engine t s))"

definition preg_register_embedding_engine :: "provider \<Rightarrow> ('k, 'r, unit) preg_op" where
  "preg_register_embedding_engine t = inner_do (\<lambda>s. ((), register_embedding_engine t s))"

definition preg_get_agent :: "resource_id \<Rightarrow> ('k, 'r, agent option) preg_op" where
  "preg_get_agent i = inner_get (get_agent i)"

definition preg_get_agents :: "('k, 'r, agent list) preg_op" where
  "preg_get_agents = inner_get get_agents"

definition preg_agent_id :: "string \<Rightarrow> ('k, 'r, resource_id option) preg_op" where
  "preg_agent_id name = inner_get (agent_id name)"

definition preg_select_runtime :: "agent \<Rightarrow> ('k, 'r, runtime_type option) preg_op" where
  "preg_select_runtime a = inner_get (select_runtime a)"

definition preg_get_model :: "string \<Rightarrow> ('k, 'r, model option) preg_op" where
  "preg_get_model name = inner_get (get_model name)"

definition preg_get_models :: "('k, 'r, model list) preg_op" where
  "preg_get_models = inner_get get_models"

definition preg_get_model_by_path :: "resource_id \<Rightarrow> ('k, 'r, model option) preg_op" where
  "preg_get_model_by_path path = inner_get (get_model_by_path path)"

definition preg_get_fleet :: "string \<Rightarrow> ('k, 'r, fleet option) preg_op" where
  "preg_get_fleet name = inner_get (get_fleet name)"

definition preg_get_fleets :: "('k, 'r, fleet list) preg_op" where
  "preg_get_fleets = inner_get get_fleets"

definition preg_get_job :: "string \<Rightarrow> ('k, 'r, job option) preg_op" where
  "preg_get_job i = inner_get (get_job i)"

definition preg_pending_jobs :: "('k, 'r, job list) preg_op" where
  "preg_pending_jobs = inner_get pending_jobs"

definition preg_get_mcp_server :: "string \<Rightarrow> ('k, 'r, mcp_server option) preg_op" where
  "preg_get_mcp_server name = inner_get (get_mcp_server name)"

definition preg_get_mcp_servers :: "('k, 'r, mcp_server list) preg_op" where
  "preg_get_mcp_servers = inner_get get_mcp_servers"

end
