(* ===== verification/PersistentLaws.thy ===== *)
theory PersistentLaws
  imports Persistent RegistryLaws
begin

text \<open>
  Cache and disk of the persistent registry.  The lemmas are proved once in the locale
  \<open>registry_repository\<close>: after any calls, failed ones included, what is on disk is in the cache with
  the same configuration (\<open>disk_within\<close>); when no persistence error was answered, cache and disk agree
  (\<open>disk_equals\<close>), and opening the registry again gives the agents and models back.
\<close>

section \<open>What the cache answers\<close>

definition cached_agents :: "registry_state \<Rightarrow> string \<Rightarrow> agent option" where
  "cached_agents s n = map_of (rg_agents s) (agent_id_internal s n)"

definition cached_models :: "registry_state \<Rightarrow> string \<Rightarrow> model option" where
  "cached_models s n = get_model n s"

definition cache_ok :: "registry_state \<Rightarrow> bool" where
  "cache_ok s \<longleftrightarrow>
     rg_id s = rg_id registry_new \<and> distinct (map fst (rg_agents s)) \<and>
     (\<forall>i a. map_of (rg_agents s) i = Some a \<longrightarrow> i = agent_id_internal s (ag_name a)) \<and>
     models_ok (reg_model_id s) (map_of (rg_models s))"

lemma cached_agents_name: "cache_ok s \<Longrightarrow> cached_agents s n = Some a \<Longrightarrow> ag_name a = n"
  unfolding cache_ok_def cached_agents_def by (metis injD reg_ids_inj(1))

lemma cached_models_name:
  assumes "cache_ok s" and "cached_models s n = Some m"
  shows "md_name m = n \<and> md_id m = reg_model_id s n"
proof -
  have "map_of (rg_models s) (reg_model_id s n) = Some m" using assms(2) by (simp add: cached_models_def get_model_def)
  then have "reg_model_id s n = reg_model_id s (md_name m)" "md_id m = reg_model_id s n"
    using assms(1) unfolding cache_ok_def models_ok_def by blast+
  then show ?thesis by (metis injD reg_ids_inj(2))
qed

lemma cached_by_name:
  assumes "cache_ok s"
  shows "get_agent_by_name n s = cached_agents s n"
proof (cases "get_agent_by_name n s")
  case (Some a)
  then have "a \<in> snd ` set (rg_agents s)" "ag_name a = n"
    by (auto simp: get_agent_by_name_def get_agents_def dest!: find_Some_set)
  then obtain i where "(i, a) \<in> set (rg_agents s)" by force
  with assms have m: "map_of (rg_agents s) i = Some a" by (auto simp: cache_ok_def)
  then have "i = agent_id_internal s n" using assms \<open>ag_name a = n\<close> unfolding cache_ok_def by blast
  with m Some show ?thesis by (simp add: cached_agents_def)
next
  case None
  have "cached_agents s n = None"
  proof (rule ccontr)
    assume "cached_agents s n \<noteq> None"
    then obtain a where a: "cached_agents s n = Some a" by blast
    then have "ag_name a = n" "a \<in> snd ` set (rg_agents s)"
      using cached_agents_name [OF assms a] map_of_value by (auto simp: cached_agents_def)
    with None show False by (auto simp: get_agent_by_name_def get_agents_def find_None_set)
  qed
  with None show ?thesis by simp
qed

lemma agent_id_cached: "agent_id n s \<noteq> None \<longleftrightarrow> cached_agents s n \<noteq> None"
  by (simp add: agent_id_def cached_agents_def Let_def)

text \<open>The cache's own operations, seen through the two maps.\<close>

lemma preg_start_inner:
  "(\<lambda>s. rg_id s = rg_id registry_new \<and> rg_agents s = [] \<and> rg_models s = [] \<and> rg_fleets s = [] \<and> rg_jobs s = [] \<and>
     rg_runtimes s = {}) (pr_inner (preg_start config k r))"
proof -
  have f: "P (fold register_embedding_engine es s)" if "P s" "\<And>t s. P s \<Longrightarrow> P (register_embedding_engine t s)" for es s P
    using that by (induction es arbitrary: s) auto
  have g: "P (fold register_inference_engine es s)" if "P s" "\<And>t s. P s \<Longrightarrow> P (register_inference_engine t s)" for es s P
    using that by (induction es arbitrary: s) auto
  show ?thesis
    unfolding preg_start_def preg.simps
    by (rule f; (rule g)?) (simp_all add: registry_new_def register_embedding_engine_def register_inference_engine_def)
qed

lemma cache_ok_start [simp]: "cache_ok (pr_inner (preg_start config k r))"
  "cached_agents (pr_inner (preg_start config k r)) n = None"
  "cached_models (pr_inner (preg_start config k r)) n = None"
  using preg_start_inner [of config k r]
  by (simp_all add: cache_ok_def cached_agents_def cached_models_def get_model_def models_ok_def)

lemma cache_frame:
  assumes "rg_agents s' = rg_agents s" "rg_models s' = rg_models s" "rg_id s' = rg_id s"
  shows "cached_agents s' = cached_agents s" "cached_models s' = cached_models s" "cache_ok s' = cache_ok s"
  using assms
  by (simp_all add: cached_agents_def [abs_def] cached_models_def [abs_def] get_model_def agent_id_internal_def [abs_def]
      reg_model_id_def [abs_def] cache_ok_def)

lemma cache_put_agent:
  assumes "cache_ok s" and "i = agent_id_internal s (ag_name a)"
    and "s' = s\<lparr>rg_agents := AList.update i a (rg_agents s)\<rparr>"
  shows "cache_ok s'" "cached_agents s' = (cached_agents s)(ag_name a \<mapsto> a)" "cached_models s' = cached_models s"
proof -
  have "agent_id_internal s n = agent_id_internal s (ag_name a) \<longleftrightarrow> n = ag_name a" for n by (metis injD reg_ids_inj(1))
  with assms show "cache_ok s'" "cached_agents s' = (cached_agents s)(ag_name a \<mapsto> a)" "cached_models s' = cached_models s"
    by (auto simp: cache_ok_def cached_agents_def cached_models_def get_model_def reg_defs fun_eq_iff)
qed

lemma cache_remove_agent:
  assumes "cache_ok s"
  shows "cache_ok (snd (remove_agent n s)) \<and> cached_agents (snd (remove_agent n s)) = (cached_agents s)(n := None) \<and>
    cached_models (snd (remove_agent n s)) = cached_models s"
proof (cases "cached_agents s n")
  case None
  then show ?thesis using assms by (auto simp: remove_agent_def Let_def cached_agents_def)
next
  case (Some a)
  then have eq: "snd (remove_agent n s) = s\<lparr>rg_agents := AList.delete (agent_id_internal s n) (rg_agents s),
      rg_manifests := AList.delete n (rg_manifests s)\<rparr>" (is "_ = ?s")
    by (simp add: remove_agent_def Let_def cached_agents_def)
  have "agent_id_internal s m = agent_id_internal s n \<longleftrightarrow> m = n" for m by (metis injD reg_ids_inj(1))
  then have "cached_agents ?s = (cached_agents s)(n := None)" by (simp add: cached_agents_def [abs_def] reg_defs fun_eq_iff)
  moreover have "cache_ok ?s" using assms by (simp add: cache_ok_def reg_defs)
  moreover have "cached_models ?s = cached_models s" by (simp add: cached_models_def [abs_def] get_model_def)
  ultimately show ?thesis unfolding eq by blast
qed

lemma cache_remove_model:
  assumes "cache_ok s"
  shows "cache_ok (snd (remove_model n s))" "cached_agents (snd (remove_model n s)) = cached_agents s"
    "cached_models (snd (remove_model n s)) = (cached_models s)(n := None)"
proof -
  have "reg_model_id s m = reg_model_id s n \<longleftrightarrow> m = n" for m by (metis injD reg_ids_inj(2))
  with assms show "cache_ok (snd (remove_model n s))" "cached_agents (snd (remove_model n s)) = cached_agents s"
    "cached_models (snd (remove_model n s)) = (cached_models s)(n := None)"
    by (auto simp: cache_ok_def cached_agents_def cached_models_def get_model_def remove_model_def reg_defs models_ok_def
        fun_eq_iff)
qed

lemma cache_register_model:
  assumes "cache_ok s" and "register_model m s = (r, s')"
  shows "cache_ok s' \<and> cached_agents s' = cached_agents s \<and>
    (case r of
       Inl e \<Rightarrow> s' = s \<and> (\<forall>t. e \<noteq> Persistence t)
     | Inr _ \<Rightarrow> cached_models s' = (cached_models s)(md_name m \<mapsto> m\<lparr>md_id := reg_model_id s (md_name m)\<rparr>))"
proof -
  have inj: "reg_model_id s n = reg_model_id s (md_name m) \<longleftrightarrow> n = md_name m" for n by (metis injD reg_ids_inj(2))
  let ?s = "s\<lparr>rg_models := AList.update (reg_model_id s (md_name m)) (m\<lparr>md_id := reg_model_id s (md_name m)\<rparr>) (rg_models s)\<rparr>"
  have "cache_ok ?s \<and> cached_agents ?s = cached_agents s \<and>
      cached_models ?s = (cached_models s)(md_name m \<mapsto> m\<lparr>md_id := reg_model_id s (md_name m)\<rparr>)"
    using assms(1) inj
    by (auto simp: cache_ok_def cached_agents_def cached_models_def get_model_def reg_defs models_ok_def fun_eq_iff)
  moreover have "s' = s \<and> (\<exists>e. r = Inl e \<and> (\<forall>t. e \<noteq> Persistence t)) \<or> s' = ?s \<and> (\<exists>u. r = Inr u)"
    using assms(2) by (auto simp: register_model_def Let_def split: model_type.splits if_splits)
  ultimately show ?thesis using assms(1) by auto
qed

lemma validate_not_persistence: "register_validate a s = Inl e \<Longrightarrow> e \<noteq> Persistence t"
proof -
  have "check_models s a ms \<noteq> Inl (Persistence t)" for ms
    by (induction s a ms rule: check_models.induct) (auto split: option.splits model_type.splits if_splits)
  then show "register_validate a s = Inl e \<Longrightarrow> e \<noteq> Persistence t"
    by (auto simp: register_validate_def check_object_storage_def check_vector_storage_def check_services_def
        split: option.splits sum.splits if_splits)
qed

lemma cache_register_agent:
  assumes ok: "cache_ok s" and reg: "register_agent identity a (s, k) = (r, s', k')"
  shows "cache_ok s' \<and> cached_models s' = cached_models s \<and>
    (case r of
       Inl e \<Rightarrow> s' = s \<and> (\<forall>t. e \<noteq> Persistence t)
     | Inr _ \<Rightarrow> \<exists>b. cached_agents s' = (cached_agents s)(ag_name a \<mapsto> b) \<and> agent_config_eq b a \<and>
                 cached_agents s (ag_name a) \<in> {None, Some b})"
proof (cases "register_validate a s")
  case (Inl e)
  with assms validate_not_persistence [OF Inl] show ?thesis by (auto simp: register_agent_def)
next
  case (Inr known)
  show ?thesis
  proof (cases known)
    case True
    then obtain b where "cached_agents s (ag_name a) = Some b" "agent_config_eq b a"
      using validate_same [of a s] Inr by (auto simp: cached_agents_def)
    moreover have "s' = s" "r = Inr ()" using reg Inr True by (simp_all add: register_agent_def)
    ultimately show ?thesis using ok by (auto simp: map_upd_triv)
  next
    case False
    with Inr have v: "register_validate a s = Inr False" by simp
    show ?thesis
    proof (cases "identity (ag_name a) k")
      case (Pair ri k1)
      show ?thesis
      proof (cases ri)
        case (Inl e)
        with reg v Pair ok show ?thesis by (auto simp: register_agent_def)
      next
        case ri: (Inr pk)
        let ?b = "a\<lparr>ag_public_key := Some pk, ag_id := agent_id_internal s (ag_name a)\<rparr>"
        have eqs: "s' = s\<lparr>rg_agents := AList.update (agent_id_internal s (ag_name a)) ?b (rg_agents s)\<rparr>" "r = Inr ()"
          using reg v Pair ri by (simp_all add: register_agent_def register_commit_def Let_def)
        have "cached_agents s (ag_name a) = None" using validate_fresh(1) [OF v] by (simp add: cached_agents_def)
        moreover note cache_put_agent [OF ok _ eqs(1)]
        ultimately show ?thesis using eqs(2) by auto
      qed
    qed
  qed
qed

lemma cache_restore_agent:
  assumes "cache_ok s" and "restore_agent a s = (r, s')"
  shows "cache_ok s' \<and> cached_models s' = cached_models s \<and>
    (case r of
       Inl e \<Rightarrow> s' = s \<and> cached_agents s (ag_name a) \<noteq> None
     | Inr _ \<Rightarrow> cached_agents s' = (cached_agents s)(ag_name a \<mapsto> a\<lparr>ag_id := agent_id_internal s (ag_name a)\<rparr>))"
proof (cases "cached_agents s (ag_name a)")
  case (Some b)
  with assms show ?thesis by (auto simp: restore_agent_def Let_def cached_agents_def)
next
  case None
  let ?a = "a\<lparr>ag_id := agent_id_internal s (ag_name a)\<rparr>"
  from None assms(2) have eqs: "s' = s\<lparr>rg_agents := AList.update (agent_id_internal s (ag_name a)) ?a (rg_agents s)\<rparr>" "r = Inr ()"
    by (auto simp: restore_agent_def Let_def cached_agents_def)
  from cache_put_agent [OF assms(1) _ eqs(1)] eqs(2) show ?thesis by simp
qed

section \<open>Disk and cache\<close>

definition same_model :: "model \<Rightarrow> model \<Rightarrow> bool" where
  "same_model m m' \<longleftrightarrow> m\<lparr>md_id := md_id m'\<rparr> = m'"

definition disk_within :: "repo_view \<Rightarrow> (string \<Rightarrow> agent option) \<Rightarrow> (string \<Rightarrow> model option) \<Rightarrow> bool" where
  "disk_within v A M \<longleftrightarrow>
     rv_agent_names v \<subseteq> dom A \<and> rv_model_names v \<subseteq> dom M \<and>
     (\<forall>n x. rv_agents v n = Some x \<longrightarrow> (\<exists>b. A n = Some b \<and> agent_config_eq b x))"

definition disk_equals :: "repo_view \<Rightarrow> (string \<Rightarrow> agent option) \<Rightarrow> (string \<Rightarrow> model option) \<Rightarrow> bool" where
  "disk_equals v A M \<longleftrightarrow>
     rv_agent_names v = dom A \<and> rv_model_names v = dom M \<and>
     (\<forall>n. rel_option agent_config_eq (A n) (rv_agents v n)) \<and> (\<forall>n. rel_option same_model (rv_models v n) (M n))"

lemma disk_equals_within: "disk_equals v A M \<Longrightarrow> disk_within v A M"
  unfolding disk_equals_def disk_within_def by (metis option.rel_distinct(1) option.rel_cases option.inject subset_refl)

lemma disk_within_updates:
  "disk_within v A M \<Longrightarrow> agent_config_eq b x \<Longrightarrow>
     disk_within (v\<lparr>rv_agent_names := insert n (rv_agent_names v), rv_agents := (rv_agents v)(n \<mapsto> x)\<rparr>) (A(n \<mapsto> b)) M"
  "disk_within v A M \<Longrightarrow> A n \<in> {None, Some b} \<Longrightarrow> disk_within v (A(n \<mapsto> b)) M"
  "disk_within v A M \<Longrightarrow>
     disk_within (v\<lparr>rv_agent_names := rv_agent_names v - {n}, rv_agents := (rv_agents v)(n := None)\<rparr>) (A(n := None)) M"
  "disk_within v A M \<Longrightarrow>
     disk_within (v\<lparr>rv_agents := (rv_agents v)(n := None)\<rparr>) A M"
  "disk_within v A M \<Longrightarrow>
     disk_within (v\<lparr>rv_model_names := insert n (rv_model_names v), rv_models := V\<rparr>) A (M(n \<mapsto> m))"
  "disk_within v A M \<Longrightarrow> disk_within v A (M(n \<mapsto> m))"
  "disk_within v A M \<Longrightarrow>
     disk_within (v\<lparr>rv_model_names := rv_model_names v - {n}, rv_models := V\<rparr>) A (M(n := None))"
  "disk_within v A M \<Longrightarrow> disk_within (v\<lparr>rv_models := V\<rparr>) A M"
  unfolding disk_within_def by (force split: if_splits)+

lemma disk_equals_updates:
  "disk_equals v A M \<Longrightarrow> agent_config_eq b x \<Longrightarrow>
     disk_equals (v\<lparr>rv_agent_names := insert n (rv_agent_names v), rv_agents := (rv_agents v)(n \<mapsto> x)\<rparr>) (A(n \<mapsto> b)) M"
  "disk_equals v A M \<Longrightarrow>
     disk_equals (v\<lparr>rv_agent_names := rv_agent_names v - {n}, rv_agents := (rv_agents v)(n := None)\<rparr>) (A(n := None)) M"
  "disk_equals v A M \<Longrightarrow> same_model y m \<Longrightarrow>
     disk_equals (v\<lparr>rv_model_names := insert n (rv_model_names v), rv_models := (rv_models v)(n \<mapsto> y)\<rparr>) A (M(n \<mapsto> m))"
  "disk_equals v A M \<Longrightarrow>
     disk_equals (v\<lparr>rv_model_names := rv_model_names v - {n}, rv_models := (rv_models v)(n := None)\<rparr>) A (M(n := None))"
  unfolding disk_equals_def by auto

lemma same_model_ids [simp]: "same_model (m\<lparr>md_id := i\<rparr>) (m\<lparr>md_id := j\<rparr>)" "same_model m (m\<lparr>md_id := j\<rparr>)"
  by (simp_all add: same_model_def)

section \<open>The step relation\<close>

text \<open>
  One call of the trait.  \<open>allowed\<close> says which errors may be answered, \<open>kept\<close> which agents survive the
  codecs.  The queries change nothing and are left out.
\<close>

inductive preg_step ::
    "'r repository \<Rightarrow> (string \<Rightarrow> 'k \<Rightarrow> (identity_error, bytes) rust_result \<times> 'k) \<Rightarrow>
     (resource_id set \<Rightarrow> resource_id list) \<Rightarrow> (string \<Rightarrow> string) \<Rightarrow> (agent \<Rightarrow> bool) \<Rightarrow> (registration_error \<Rightarrow> bool) \<Rightarrow>
     ('k, 'r) preg \<Rightarrow> ('k, 'r) preg \<Rightarrow> bool"
  for ops identity elems pe kept allowed where
  ps_agent: "preg_register_agent ops identity t a p = (r, p') \<Longrightarrow> kept a \<Longrightarrow> (\<forall>e. r = Inl e \<longrightarrow> allowed e) \<Longrightarrow>
     preg_step ops identity elems pe kept allowed p p'"
| ps_manifest: "preg_register_manifest ops identity t pe mf p = (rm, p') \<Longrightarrow>
     (\<forall>a. agent_from_manifest mf = Inr a \<longrightarrow> kept a) \<Longrightarrow> (\<forall>e. rm = Inl e \<longrightarrow> allowed e) \<Longrightarrow>
     preg_step ops identity elems pe kept allowed p p'"
| ps_delete_agent: "preg_delete_agent ops n p = Some (rd, p') \<Longrightarrow> (\<forall>e. rd = Inl e \<longrightarrow> allowed e) \<Longrightarrow>
     preg_step ops identity elems pe kept allowed p p'"
| ps_model: "preg_register_model ops m p = (r, p') \<Longrightarrow> (\<forall>e. r = Inl e \<longrightarrow> allowed e) \<Longrightarrow>
     preg_step ops identity elems pe kept allowed p p'"
| ps_delete_model: "preg_delete_model ops n p = (rd, p') \<Longrightarrow> (\<forall>e. rd = Inl e \<longrightarrow> allowed e) \<Longrightarrow>
     preg_step ops identity elems pe kept allowed p p'"
| ps_mcp: "preg_register_mcp_server ops srv p = (r, p') \<Longrightarrow> preg_step ops identity elems pe kept allowed p p'"
| ps_delete_mcp: "preg_delete_mcp_server ops n p = (rd, p') \<Longrightarrow> preg_step ops identity elems pe kept allowed p p'"
| ps_fleet: "preg_register_fleet elems f p = (r, p') \<Longrightarrow> preg_step ops identity elems pe kept allowed p p'"
| ps_job: "preg_create_job u sub i inp p = (rj, p') \<Longrightarrow> preg_step ops identity elems pe kept allowed p p'"
| ps_job_status: "preg_update_job_status i st p = (r, p') \<Longrightarrow> preg_step ops identity elems pe kept allowed p p'"
| ps_runtime: "preg_register_runtime rt p = (r, p') \<Longrightarrow> preg_step ops identity elems pe kept allowed p p'"
| ps_object: "preg_register_object_storage os p = (r, p') \<Longrightarrow> preg_step ops identity elems pe kept allowed p p'"
| ps_vector: "preg_register_vector_storage vs p = (r, p') \<Longrightarrow> preg_step ops identity elems pe kept allowed p p'"
| ps_inference: "preg_register_inference_engine pv p = (r, p') \<Longrightarrow> preg_step ops identity elems pe kept allowed p p'"
| ps_embedding: "preg_register_embedding_engine pv p = (r, p') \<Longrightarrow> preg_step ops identity elems pe kept allowed p p'"

definition no_persistence_error :: "registration_error \<Rightarrow> bool" where
  "no_persistence_error e \<longleftrightarrow> (case e of Persistence _ \<Rightarrow> False | _ \<Rightarrow> True)"

lemma no_persistence_error_iff: "no_persistence_error e \<longleftrightarrow> (\<forall>t. e \<noteq> Persistence t)"
  by (cases e) (simp_all add: no_persistence_error_def)

lemma on_repoE:
  assumes "on_repo c m p = (r, p')"
  obtains x repo where "m (pr_repo p) = (x, repo)" "r = map_sum (\<lambda>e. Persistence (c @ repository_error_display e)) id x"
    "p' = p\<lparr>pr_repo := repo\<rparr>"
  using assms by (auto simp: on_repo_def split: prod.splits)

lemma on_innerE:
  assumes "on_inner f p = (r, p')"
  obtains s where "f (pr_inner p) = (r, s)" "p' = p\<lparr>pr_inner := s\<rparr>"
  using assms by (auto simp: on_inner_def split: prod.splits)

lemma on_inner_run: "f (pr_inner p) = (r, s) \<Longrightarrow> on_inner f p = (r, p\<lparr>pr_inner := s\<rparr>)"
  by (simp add: on_inner_def)

lemma inner_getE [simp]: "ebind (inner_get f) g p = g (f (pr_inner p)) p" "inner_get f p = (Inr (f (pr_inner p)), p)"
  by (simp_all add: inner_get_def ebind_def)

lemma inner_do_run: "inner_do f p = (Inr (fst (f (pr_inner p))), p\<lparr>pr_inner := snd (f (pr_inner p))\<rparr>)"
  by (simp add: inner_do_def on_inner_def split_beta)

section \<open>One call\<close>

definition preg_within :: "('r \<Rightarrow> repo_view) \<Rightarrow> ('r \<Rightarrow> bool) \<Rightarrow> ('k, 'r) preg \<Rightarrow> bool" where
  "preg_within view ok p \<longleftrightarrow>
     cache_ok (pr_inner p) \<and> ok (pr_repo p) \<and>
     disk_within (view (pr_repo p)) (cached_agents (pr_inner p)) (cached_models (pr_inner p))"

definition preg_exact :: "('r \<Rightarrow> repo_view) \<Rightarrow> ('r \<Rightarrow> bool) \<Rightarrow> ('k, 'r) preg \<Rightarrow> bool" where
  "preg_exact view ok p \<longleftrightarrow>
     cache_ok (pr_inner p) \<and> ok (pr_repo p) \<and>
     disk_equals (view (pr_repo p)) (cached_agents (pr_inner p)) (cached_models (pr_inner p))"

lemma preg_frame:
  assumes "cache_ok (pr_inner p) \<Longrightarrow> cache_ok (pr_inner p')" "ok (pr_repo p) \<Longrightarrow> ok (pr_repo p')"
    and "view (pr_repo p') = view (pr_repo p)" "cached_agents (pr_inner p') = cached_agents (pr_inner p)"
    and "cached_models (pr_inner p') = cached_models (pr_inner p)"
  shows "preg_within view ok p \<Longrightarrow> preg_within view ok p'" "preg_exact view ok p \<Longrightarrow> preg_exact view ok p'"
  using assms by (auto simp: preg_within_def preg_exact_def)

lemma inner_frame:
  assumes "pr_repo p' = pr_repo p" and "rg_agents (pr_inner p') = rg_agents (pr_inner p)"
    and "rg_models (pr_inner p') = rg_models (pr_inner p)" and "rg_id (pr_inner p') = rg_id (pr_inner p)"
  shows "(preg_within view ok p \<longrightarrow> preg_within view ok p') \<and> (preg_exact view ok p \<longrightarrow> preg_exact view ok p')"
  using cache_frame [OF assms(2-4)] assms(1) by (auto simp: preg_within_def preg_exact_def)

context registry_repository
begin

lemma register_agent_effect:
  assumes run: "preg_register_agent ops identity t a p = (r, p')" and c: "cache_ok (pr_inner p)"
  shows "cache_ok (pr_inner p') \<and> cached_models (pr_inner p') = cached_models (pr_inner p) \<and>
    (ok (pr_repo p) \<longrightarrow> ok (pr_repo p')) \<and>
    ((\<exists>e. r = Inl e \<and> no_persistence_error e) \<and> cached_agents (pr_inner p') = cached_agents (pr_inner p) \<and>
       view (pr_repo p') = view (pr_repo p) \<or>
     (\<exists>b. cached_agents (pr_inner p') = (cached_agents (pr_inner p))(ag_name a \<mapsto> b) \<and> agent_config_eq b a \<and>
        cached_agents (pr_inner p) (ag_name a) \<in> {None, Some b} \<and>
        ((\<exists>m. r = Inl (Persistence m)) \<and> view (pr_repo p') = view (pr_repo p) \<or>
         r = Inr () \<and>
         (\<exists>x. view (pr_repo p') = (view (pr_repo p))\<lparr>rv_agent_names := insert (ag_name a) (rv_agent_names (view (pr_repo p))),
                rv_agents := (rv_agents (view (pr_repo p)))(ag_name a := x)\<rparr> \<and>
              (kept a \<longrightarrow> (\<exists>y. x = Some y \<and> same_agent a y))))))"
proof -
  obtain r1 s1 k1 where in1: "register_agent identity a (pr_inner p, pr_secrets p) = (r1, s1, k1)"
    by (cases "register_agent identity a (pr_inner p, pr_secrets p)") auto
  note eff = cache_register_agent [OF c in1]
  let ?p1 = "p\<lparr>pr_inner := s1, pr_secrets := k1\<rparr>"
  have in2: "inner_register_agent identity a p = (r1, ?p1)" by (simp add: inner_register_agent_def in1)
  show ?thesis
  proof (cases r1)
    case (Inl e)
    then have "r = Inl e" "p' = ?p1" using run in2 by (simp_all add: preg_register_agent_def ebind_def)
    with eff Inl show ?thesis by (auto simp: no_persistence_error_iff)
  next
    case (Inr u)
    obtain x repo where sv: "rp_save_agent ops a (pr_repo p) = (x, repo)" by (cases "rp_save_agent ops a (pr_repo p)")
    have okr: "ok (pr_repo p) \<Longrightarrow> ok repo" using keeps_ok(1) [of "pr_repo p" a] sv by simp
    show ?thesis
    proof (cases x)
      case (Inl e)
      then have "r = Inl (Persistence (repository_error_display e))" "p' = ?p1\<lparr>pr_repo := repo\<rparr>"
        using run in2 Inr sv by (simp_all add: preg_register_agent_def ebind_def on_repo_def)
      with eff Inr Inl failures(1) sv okr show ?thesis by auto
    next
      case x: (Inr u')
      let ?p2 = "?p1\<lparr>pr_repo := repo\<rparr>"
      have fin: "r = Inr ()" "view (pr_repo p') = view repo" "ok repo \<Longrightarrow> ok (pr_repo p')" "pr_inner p' = s1"
        using run in2 Inr sv x
        by (auto simp: preg_register_agent_def ebind_def on_repo_def split_beta frames keeps_ok)
      from save_agent [OF sv [unfolded x]] fin eff Inr okr show ?thesis by auto
    qed
  qed
qed

lemma register_agent_keeps:
  assumes "preg_register_agent ops identity t a p = (r, p')" and "kept a"
  shows "(preg_within view ok p \<longrightarrow> preg_within view ok p') \<and>
    (preg_exact view ok p \<longrightarrow> (\<forall>e. r = Inl e \<longrightarrow> no_persistence_error e) \<longrightarrow> preg_exact view ok p')"
proof -
  have eq: "agent_config_eq b x" if "agent_config_eq b a" "same_agent a x" for b x
    using that same_agent_config agent_config_eq_sym_trans(2) by blast
  have w: "preg_within view ok p'" if "preg_within view ok p"
    using register_agent_effect [OF assms(1)] that assms(2) disk_within_updates(1,2) eq
    unfolding preg_within_def by auto
  have "preg_exact view ok p'" if "preg_exact view ok p" "\<forall>e. r = Inl e \<longrightarrow> no_persistence_error e"
    using register_agent_effect [OF assms(1)] that assms(2) disk_equals_updates(1) eq
    unfolding preg_exact_def by (auto simp: no_persistence_error_iff)
  with w show ?thesis by blast
qed

lemma register_manifest_keeps:
  assumes run: "preg_register_manifest ops identity t pe mf p = (rm, p')"
    and kept: "\<And>a. agent_from_manifest mf = Inr a \<Longrightarrow> kept a"
  shows "(preg_within view ok p \<longrightarrow> preg_within view ok p') \<and>
    (preg_exact view ok p \<longrightarrow> (\<forall>e. rm = Inl e \<longrightarrow> no_persistence_error e) \<longrightarrow> preg_exact view ok p')"
proof (cases "agent_from_manifest mf")
  case (Inl e)
  with run show ?thesis by (simp add: preg_register_manifest_def)
next
  case (Inr a)
  obtain r p1 where reg: "preg_register_agent ops identity t a p = (r, p1)" by (cases "preg_register_agent ops identity t a p")
  have "p' = p1 \<and> (\<forall>e. r = Inl e \<longrightarrow> rm = Inl e)"
    using run Inr reg by (cases r) (auto simp: preg_register_manifest_def ebind_run ebind_run)
  with register_agent_keeps [OF reg kept [OF Inr]] show ?thesis by auto
qed

lemma delete_agent_effect:
  assumes c: "cache_ok (pr_inner p)" and cached: "cached_agents (pr_inner p) n = Some a"
    and free: "filter (\<lambda>f. agent_id_internal (pr_inner p) n \<in> fl_agents f) (get_fleets (pr_inner p)) = []"
    and del: "rp_delete_agent ops n (pr_repo p) = (x, repo)"
  shows "preg_delete_agent ops n p =
    Some (map_sum (\<lambda>e. Persistence (repository_error_display e)) id x,
          p\<lparr>pr_inner := (if x = Inr True then snd (remove_agent n (pr_inner p)) else pr_inner p), pr_repo := repo\<rparr>)"
proof -
  have "agent_id n (pr_inner p) = Some (agent_id_internal (pr_inner p) n)"
    using cached by (simp add: agent_id_def Let_def cached_agents_def)
  then show ?thesis
    using free del cached_by_name [OF c, of n] cached
    by (cases x; cases "projr x")
      (auto simp: preg_delete_agent_def Let_def ebind_def on_repo_def inner_do_run filter_empty_conv)
qed

lemma delete_agent_cases:
  assumes c: "cache_ok (pr_inner p)"
  shows "(cached_agents (pr_inner p) n = None \<and> preg_delete_agent ops n p = Some (Inr False, p)) \<or>
    (\<exists>fs. preg_delete_agent ops n p = Some (Inl (AgentInUse n fs), p)) \<or>
    (\<exists>a. cached_agents (pr_inner p) n = Some a \<and>
       filter (\<lambda>f. agent_id_internal (pr_inner p) n \<in> fl_agents f) (get_fleets (pr_inner p)) = [])"
proof (cases "cached_agents (pr_inner p) n")
  case None
  then show ?thesis using cached_by_name [OF c, of n] by (simp add: preg_delete_agent_def)
next
  case (Some a)
  then have "agent_id n (pr_inner p) = Some (agent_id_internal (pr_inner p) n)"
    by (simp add: agent_id_def Let_def cached_agents_def)
  then show ?thesis
    using Some cached_by_name [OF c, of n]
    by (cases "filter (\<lambda>f. agent_id_internal (pr_inner p) n \<in> fl_agents f) (get_fleets (pr_inner p))")
      (simp_all add: preg_delete_agent_def Let_def)
qed

lemma delete_agent_keeps:
  assumes run: "preg_delete_agent ops n p = Some (r, p')"
  shows "(preg_within view ok p \<longrightarrow> preg_within view ok p') \<and>
    (preg_exact view ok p \<longrightarrow> (\<forall>e. r = Inl e \<longrightarrow> no_persistence_error e) \<longrightarrow> preg_exact view ok p')"
proof (cases "cache_ok (pr_inner p)")
  case False
  then show ?thesis by (simp add: preg_within_def preg_exact_def)
next
  case c: True
  show ?thesis
  proof (cases "\<exists>a. cached_agents (pr_inner p) n = Some a \<and>
       filter (\<lambda>f. agent_id_internal (pr_inner p) n \<in> fl_agents f) (get_fleets (pr_inner p)) = []")
    case False
    then have "p' = p" using delete_agent_cases [OF c, of n] run by auto
    then show ?thesis by simp
  next
    case True
    then obtain a where a: "cached_agents (pr_inner p) n = Some a"
      and free: "filter (\<lambda>f. agent_id_internal (pr_inner p) n \<in> fl_agents f) (get_fleets (pr_inner p)) = []" by blast
    obtain x repo where del: "rp_delete_agent ops n (pr_repo p) = (x, repo)" by (cases "rp_delete_agent ops n (pr_repo p)")
    note eff = delete_agent_effect [OF c a free del]
    have okr: "ok (pr_repo p) \<Longrightarrow> ok repo" using keeps_ok(2) [of "pr_repo p" n] del by simp
    show ?thesis
    proof (cases x)
      case (Inl e)
      with run eff okr failures(2) [OF del [unfolded Inl]] show ?thesis
        by (auto simp: preg_within_def preg_exact_def no_persistence_error_iff)
    next
      case (Inr b)
      note d = delete_agent [OF del [unfolded Inr]]
      have p': "p' = p\<lparr>pr_inner := (if b then snd (remove_agent n (pr_inner p)) else pr_inner p), pr_repo := repo\<rparr>"
        using run eff Inr by simp
      have "b" if "preg_exact view ok p"
        using that d a by (auto simp: preg_exact_def disk_equals_def)
      then show ?thesis
        using p' d okr cache_remove_agent [OF c, of n] disk_within_updates(3,4) disk_equals_updates(2)
        by (auto simp: preg_within_def preg_exact_def)
    qed
  qed
qed

lemma register_model_keeps:
  assumes run: "preg_register_model ops m p = (r, p')"
  shows "(preg_within view ok p \<longrightarrow> preg_within view ok p') \<and>
    (preg_exact view ok p \<longrightarrow> (\<forall>e. r = Inl e \<longrightarrow> no_persistence_error e) \<longrightarrow> preg_exact view ok p')"
proof (cases "cache_ok (pr_inner p)")
  case False
  then show ?thesis by (simp add: preg_within_def preg_exact_def)
next
  case c: True
  obtain r1 s1 where in1: "register_model m (pr_inner p) = (r1, s1)" by (cases "register_model m (pr_inner p)")
  note eff = cache_register_model [OF c in1]
  show ?thesis
  proof (cases r1)
    case (Inl e)
    with run in1 eff show ?thesis by (auto simp: preg_register_model_def ebind_def on_inner_def)
  next
    case (Inr u)
    obtain x repo where sv: "rp_save_model ops m (pr_repo p) = (x, repo)" by (cases "rp_save_model ops m (pr_repo p)")
    have p': "p' = p\<lparr>pr_inner := s1, pr_repo := repo\<rparr>" "r = map_sum (\<lambda>e. Persistence (repository_error_display e)) id x"
      using run in1 Inr sv by (auto simp: preg_register_model_def ebind_def on_inner_def on_repo_def)
    have okr: "ok (pr_repo p) \<Longrightarrow> ok repo" using keeps_ok(4) [of "pr_repo p" m] sv by simp
    show ?thesis
    proof (cases x)
      case (Inl e)
      with p' eff Inr okr failures(3) [OF sv [unfolded Inl]] disk_within_updates(6) show ?thesis
        by (auto simp: preg_within_def preg_exact_def no_persistence_error_iff)
    next
      case x: (Inr u')
      show ?thesis
        using p' eff Inr okr save_model [OF sv [unfolded x]] disk_within_updates(5) disk_equals_updates(3)
        by (auto simp: preg_within_def preg_exact_def)
    qed
  qed
qed

lemma delete_model_keeps:
  assumes run: "preg_delete_model ops n p = (r, p')"
  shows "(preg_within view ok p \<longrightarrow> preg_within view ok p') \<and>
    (preg_exact view ok p \<longrightarrow> (\<forall>e. r = Inl e \<longrightarrow> no_persistence_error e) \<longrightarrow> preg_exact view ok p')"
proof (cases "cache_ok (pr_inner p) \<and> get_model n (pr_inner p) \<noteq> None \<and> get_agents_requiring_model n (pr_inner p) = []")
  case False
  with run show ?thesis
    by (auto simp: preg_delete_model_def Let_def preg_within_def preg_exact_def split: if_splits)
next
  case True
  then have c: "cache_ok (pr_inner p)" and m: "cached_models (pr_inner p) n \<noteq> None" by (simp_all add: cached_models_def)
  obtain x repo where del: "rp_delete_model ops n (pr_repo p) = (x, repo)" by (cases "rp_delete_model ops n (pr_repo p)")
  have p': "p' = p\<lparr>pr_inner := (if x = Inr True then snd (remove_model n (pr_inner p)) else pr_inner p), pr_repo := repo\<rparr>"
      "r = map_sum (\<lambda>e. Persistence (repository_error_display e)) id x"
    using run True del
    by (cases x; cases "projr x"; force simp: preg_delete_model_def Let_def ebind_def on_repo_def inner_do_run)+
  have okr: "ok (pr_repo p) \<Longrightarrow> ok repo" using keeps_ok(5) [of "pr_repo p" n] del by simp
  show ?thesis
  proof (cases x)
    case (Inl e)
    with p' okr failures(4) [OF del [unfolded Inl]] show ?thesis
      by (auto simp: preg_within_def preg_exact_def no_persistence_error_iff)
  next
    case (Inr b)
    note d = delete_model [OF del [unfolded Inr]]
    have "b" if "preg_exact view ok p"
      using that d m by (auto simp: preg_exact_def disk_equals_def)
    then show ?thesis
      using p' Inr d okr cache_remove_model [OF c, of n] disk_within_updates(7,8) disk_equals_updates(4)
      by (auto simp: preg_within_def preg_exact_def)
  qed
qed

lemma mcp_keeps:
  assumes "preg_register_mcp_server ops srv p = (r, p') \<or> preg_delete_mcp_server ops n p = (rd, p')"
  shows "(preg_within view ok p \<longrightarrow> preg_within view ok p') \<and> (preg_exact view ok p \<longrightarrow> preg_exact view ok p')"
proof -
  have "view (pr_repo p') = view (pr_repo p) \<and> (ok (pr_repo p) \<longrightarrow> ok (pr_repo p')) \<and>
      rg_agents (pr_inner p') = rg_agents (pr_inner p) \<and> rg_models (pr_inner p') = rg_models (pr_inner p) \<and>
      rg_id (pr_inner p') = rg_id (pr_inner p)"
    using assms frames(5) [of srv "pr_repo p"] frames(6) [of n "pr_repo p"] keeps_ok(9) [of "pr_repo p" srv]
      keeps_ok(10) [of "pr_repo p" n]
    by (auto simp: preg_register_mcp_server_def preg_delete_mcp_server_def ebind_def on_repo_def on_inner_def inner_do_run
        register_mcp_server_def remove_mcp_server_def Let_def split: prod.splits sum.splits if_splits)
  then show ?thesis
    using cache_frame [of "pr_inner p'" "pr_inner p"] by (auto simp: preg_within_def preg_exact_def)
qed

lemmas cache_only_defs = preg_register_fleet_def preg_create_job_def preg_update_job_status_def
  preg_register_runtime_def preg_register_object_storage_def preg_register_vector_storage_def
  preg_register_inference_engine_def preg_register_embedding_engine_def inner_do_def on_inner_def
  register_fleet_def create_job_def update_job_status_def register_runtime_def register_object_storage_def
  register_vector_storage_def register_inference_engine_def register_embedding_engine_def

lemma step_keeps:
  assumes "preg_step ops identity elems pe kept allowed p p'"
  shows "(preg_within view ok p \<longrightarrow> preg_within view ok p') \<and>
    ((\<forall>e. allowed e \<longrightarrow> no_persistence_error e) \<longrightarrow> preg_exact view ok p \<longrightarrow> preg_exact view ok p')"
  using assms
proof cases
  case ps_agent
  with register_agent_keeps [OF ps_agent(1,2)] show ?thesis by blast
next
  case ps_manifest
  with register_manifest_keeps [OF ps_manifest(1)] show ?thesis by blast
next
  case ps_delete_agent
  with delete_agent_keeps [OF ps_delete_agent(1)] show ?thesis by blast
next
  case ps_model
  with register_model_keeps [OF ps_model(1)] show ?thesis by blast
next
  case ps_delete_model
  with delete_model_keeps [OF ps_delete_model(1)] show ?thesis by blast
next
  case ps_mcp
  with mcp_keeps [OF disjI1] show ?thesis by blast
next
  case ps_delete_mcp
  with mcp_keeps [OF disjI2] show ?thesis by blast
next
  case ps_fleet
  then show ?thesis using inner_frame [of p' p]
    by (auto simp: cache_only_defs split: option.splits prod.splits if_splits)
next
  case ps_job_status
  then show ?thesis using inner_frame [of p' p]
    by (auto simp: cache_only_defs split: option.splits prod.splits)
qed (use inner_frame [of p' p] in \<open>auto simp: cache_only_defs Let_def\<close>)

end

section \<open>Opening\<close>

lemma map_add_cons: "k \<notin> dom (map_of xs) \<Longrightarrow> m(k \<mapsto> v) ++ map_of xs = m ++ map_of ((k, v) # xs)"
  by (simp add: map_add_upd_left map_add_upd)

lemma register_models_run:
  assumes "efor (\<lambda>m. on_inner (register_model m)) ms p = (r, p')" and "cache_ok (pr_inner p)"
    and "distinct (map md_name ms)"
  shows "cache_ok (pr_inner p') \<and> pr_repo p' = pr_repo p \<and> cached_agents (pr_inner p') = cached_agents (pr_inner p) \<and>
    (r = Inr () \<longrightarrow> cached_models (pr_inner p') = cached_models (pr_inner p) ++
       map_of (map (\<lambda>m. (md_name m, m\<lparr>md_id := reg_model_id registry_new (md_name m)\<rparr>)) ms))"
  using assms
proof (induction ms arbitrary: p)
  case Nil
  then show ?case by simp
next
  case (Cons m ms)
  obtain r1 s1 where in1: "register_model m (pr_inner p) = (r1, s1)" by (cases "register_model m (pr_inner p)")
  note eff = cache_register_model [OF Cons.prems(2) in1]
  have rid: "reg_model_id (pr_inner p) n = reg_model_id registry_new n" for n
    using Cons.prems(2) by (simp add: cache_ok_def reg_model_id_def)
  show ?case
  proof (cases r1)
    case (Inl e)
    with Cons.prems on_inner_run [of "register_model m", OF in1] eff show ?thesis by (auto simp: ebind_def)
  next
    case (Inr u)
    then have rest: "efor (\<lambda>m. on_inner (register_model m)) ms (p\<lparr>pr_inner := s1\<rparr>) = (r, p')"
      using Cons.prems(1) on_inner_run [of "register_model m", OF in1] by (simp add: ebind_def)
    have fresh: "md_name m \<notin> dom (map_of (map (\<lambda>m. (md_name m, m\<lparr>md_id := reg_model_id registry_new (md_name m)\<rparr>)) ms))"
      using Cons.prems(3) by (auto simp: dom_map_of_conv_image_fst image_image)
    from Cons.IH [OF rest] Cons.prems(3) eff Inr rid show ?thesis
      by (simp add: map_add_cons [OF fresh] del: map_of.simps)
  qed
qed

lemma restore_agents_run:
  assumes "efor (\<lambda>a. on_inner (restore_agent a)) as p = (r, p')" and "cache_ok (pr_inner p)"
    and "distinct (map ag_name as)" and "ag_name ` set as \<inter> dom (cached_agents (pr_inner p)) = {}"
  shows "r = Inr () \<and> cache_ok (pr_inner p') \<and> pr_repo p' = pr_repo p \<and>
    cached_models (pr_inner p') = cached_models (pr_inner p) \<and>
    cached_agents (pr_inner p') = cached_agents (pr_inner p) ++
       map_of (map (\<lambda>a. (ag_name a, a\<lparr>ag_id := agent_id_internal registry_new (ag_name a)\<rparr>)) as)"
  using assms
proof (induction as arbitrary: p)
  case Nil
  then show ?case by simp
next
  case (Cons a as)
  obtain r1 s1 where in1: "restore_agent a (pr_inner p) = (r1, s1)" by (cases "restore_agent a (pr_inner p)")
  note eff = cache_restore_agent [OF Cons.prems(2) in1]
  have rid: "agent_id_internal (pr_inner p) n = agent_id_internal registry_new n" for n
    using Cons.prems(2) by (simp add: cache_ok_def agent_id_internal_def)
  have "cached_agents (pr_inner p) (ag_name a) = None" using Cons.prems(4) by auto
  with eff obtain u where Inr: "r1 = Inr u" by (cases r1) auto
  then have rest: "efor (\<lambda>a. on_inner (restore_agent a)) as (p\<lparr>pr_inner := s1\<rparr>) = (r, p')"
    using Cons.prems(1) on_inner_run [of "restore_agent a", OF in1] by (simp add: ebind_def)
  have fresh: "ag_name a \<notin> dom (map_of (map (\<lambda>a. (ag_name a, a\<lparr>ag_id := agent_id_internal registry_new (ag_name a)\<rparr>)) as))"
    using Cons.prems(3) by (auto simp: dom_map_of_conv_image_fst image_image)
  have "ag_name ` set as \<inter> dom (cached_agents s1) = {}" using eff Inr Cons.prems(3,4) by auto
  with Cons.IH [OF rest] Cons.prems(3) eff Inr rid show ?case
    by (simp add: map_add_cons [OF fresh] del: map_of.simps)
qed

lemma register_servers_run:
  "efor (\<lambda>m. on_inner (register_mcp_server m)) ms p = (r, p') \<Longrightarrow>
     r = Inr () \<and> pr_repo p' = pr_repo p \<and> rg_agents (pr_inner p') = rg_agents (pr_inner p) \<and>
     rg_models (pr_inner p') = rg_models (pr_inner p) \<and> rg_id (pr_inner p') = rg_id (pr_inner p)"
proof (induction ms arbitrary: p)
  case Nil
  then show ?case by simp
next
  case (Cons m ms)
  obtain s1 where s1: "register_mcp_server m (pr_inner p) = (Inr (), s1)" "rg_agents s1 = rg_agents (pr_inner p)"
      "rg_models s1 = rg_models (pr_inner p)" "rg_id s1 = rg_id (pr_inner p)"
    by (simp add: register_mcp_server_def Let_def)
  have "efor (\<lambda>m. on_inner (register_mcp_server m)) ms (p\<lparr>pr_inner := s1\<rparr>) = (r, p')"
    using Cons.prems on_inner_run [of "register_mcp_server m", OF s1(1)] by (simp add: ebind_def)
  from Cons.IH [OF this] s1 show ?case by simp
qed

lemma map_of_named:
  "map_of (map (\<lambda>x. (key x, f x)) xs) n = map_option f (find (\<lambda>x. key x = n) xs)"
  by (induction xs) auto

lemma on_repo_Inr: "on_repo c m p = (Inr x, p') \<longleftrightarrow> (\<exists>repo. m (pr_repo p) = (Inr x, repo) \<and> p' = p\<lparr>pr_repo := repo\<rparr>)"
  by (cases "m (pr_repo p)"; cases "fst (m (pr_repo p))") (auto simp: on_repo_def)

lemma preg_start_repo [simp]: "pr_repo (preg_start config k r) = r"
  by (simp add: preg_start_def)

context registry_repository
begin

text \<open>What opening reads into the cache: the disk's agents and models under their registry ids.\<close>

lemma read_back:
  assumes "distinct (map key xs)" and "names = key ` set xs" and "\<forall>x \<in> set xs. lookup (key x) = Some x"
    and "\<And>n x. lookup n = Some x \<Longrightarrow> n \<in> names"
  shows "find (\<lambda>x. key x = n) xs = lookup n" and "names = dom lookup"
proof -
  show "find (\<lambda>x. key x = n) xs = lookup n"
  proof (cases "find (\<lambda>x. key x = n) xs")
    case None
    then have "n \<notin> names" using assms(2) by (auto simp: find_None_set)
    with None assms(4) show ?thesis by (cases "lookup n") auto
  next
    case (Some x)
    then have "x \<in> set xs" "key x = n" by (auto dest: find_Some_set)
    with Some assms(3) show ?thesis by auto
  qed
  show "names = dom lookup" using assms by force
qed

lemma load_run:
  assumes run: "preg_load ops (preg_start config k r) = (Inr u, p')" and ok: "ok r"
  shows "cache_ok (pr_inner p') \<and> ok (pr_repo p') \<and> view (pr_repo p') = view r \<and>
    rv_agent_names (view r) = dom (rv_agents (view r)) \<and> rv_model_names (view r) = dom (rv_models (view r)) \<and>
    cached_agents (pr_inner p') =
       (\<lambda>n. map_option (\<lambda>a. a\<lparr>ag_id := agent_id_internal registry_new (ag_name a)\<rparr>) (rv_agents (view r) n)) \<and>
    cached_models (pr_inner p') =
       (\<lambda>n. map_option (\<lambda>m. m\<lparr>md_id := reg_model_id registry_new (md_name m)\<rparr>) (rv_models (view r) n))"
proof -
  obtain ms r1 p1 as r2 p2 ss r3 where
    m: "rp_load_models ops r = (Inr ms, r1)" and
    ml: "efor (\<lambda>m. on_inner (register_model m)) ms ((preg_start config k r)\<lparr>pr_repo := r1\<rparr>) = (Inr (), p1)" and
    a: "rp_load_agents ops (pr_repo p1) = (Inr as, r2)" and
    al: "efor (\<lambda>a. on_inner (restore_agent a)) as (p1\<lparr>pr_repo := r2\<rparr>) = (Inr (), p2)" and
    s: "rp_load_mcp_servers ops (pr_repo p2) = (Inr ss, r3)" and
    sl: "efor (\<lambda>m. on_inner (register_mcp_server m)) ss (p2\<lparr>pr_repo := r3\<rparr>) = (Inr (), p')"
    using run by (auto simp: preg_load_def ebind_Inr on_repo_Inr)
  note lm = load_models [OF ok m]
  have r1: "view r1 = view r" "ok r1" using frames(2) [of r] keeps_ok(6) [OF ok] m by simp_all
  note M = register_models_run [OF ml]
  have p1: "cache_ok (pr_inner p1)" "pr_repo p1 = r1" "cached_agents (pr_inner p1) = Map.empty"
    "cached_models (pr_inner p1) = map_of (map (\<lambda>m. (md_name m, m\<lparr>md_id := reg_model_id registry_new (md_name m)\<rparr>)) ms)"
    using M lm by (auto simp: fun_eq_iff map_add_def split: option.split)
  have la: "distinct (map ag_name as) \<and> rv_agent_names (view r) = ag_name ` set as \<and>
      (\<forall>a \<in> set as. rv_agents (view r) (ag_name a) = Some a)"
    using load_agents [of r1] a p1(2) r1 by simp
  have r2: "view r2 = view r" "ok r2" using frames(1) [of r1] keeps_ok(3) [OF r1(2)] a p1(2) r1 by simp_all
  note A = restore_agents_run [OF al]
  have p2: "cache_ok (pr_inner p2)" "pr_repo p2 = r2" "cached_models (pr_inner p2) = cached_models (pr_inner p1)"
    "cached_agents (pr_inner p2) = map_of (map (\<lambda>a. (ag_name a, a\<lparr>ag_id := agent_id_internal registry_new (ag_name a)\<rparr>)) as)"
    using A p1 la by auto
  have r3: "view r3 = view r" "ok r3" using frames(3) [of r2] keeps_ok(7) [OF r2(2)] s p2(2) r2 by simp_all
  note S = register_servers_run [OF sl]
  have fin: "cache_ok (pr_inner p') = cache_ok (pr_inner p2)" "pr_repo p' = r3"
      "cached_agents (pr_inner p') = cached_agents (pr_inner p2)" "cached_models (pr_inner p') = cached_models (pr_inner p2)"
    using S cache_frame [of "pr_inner p'" "pr_inner p2"] by simp_all
  note ra = read_back [where key = ag_name and xs = as and names = "rv_agent_names (view r)" and lookup = "rv_agents (view r)"]
  note rm = read_back [where key = md_name and xs = ms and names = "rv_model_names (view r)" and lookup = "rv_models (view r)"]
  show ?thesis
    using fin p2 p1(4) r3 la lm ra rm view_named(1) [of r] view_named(2) [of r] by (simp add: map_of_named fun_eq_iff)
qed

lemma load_exact:
  assumes run: "preg_load ops (preg_start config k r) = (Inr u, p')" and ok: "ok r"
  shows "preg_exact view ok p'"
proof -
  have "rel_option agent_config_eq (map_option (\<lambda>a. a\<lparr>ag_id := i a\<rparr>) x) x" for i x
    by (cases x) simp_all
  moreover have "rel_option same_model x (map_option (\<lambda>m. m\<lparr>md_id := i m\<rparr>) x)" for i x
    by (cases x) simp_all
  ultimately show ?thesis
    using load_run [OF assms] by (simp add: preg_exact_def disk_equals_def dom_def)
qed

lemma exact_within: "preg_exact view ok p \<Longrightarrow> preg_within view ok p"
  by (simp add: preg_exact_def preg_within_def disk_equals_within)

lemma steps_within: "(preg_step ops identity elems pe kept allowed)\<^sup>*\<^sup>* p p' \<Longrightarrow> preg_within view ok p \<Longrightarrow> preg_within view ok p'"
  by (induction rule: rtranclp_induct) (use step_keeps in blast)+

lemma steps_exact:
  "(preg_step ops identity elems pe kept no_persistence_error)\<^sup>*\<^sup>* p p' \<Longrightarrow> preg_exact view ok p \<Longrightarrow> preg_exact view ok p'"
  by (induction rule: rtranclp_induct) (use step_keeps in blast)+

text \<open>Opening what an exact registry left behind.\<close>

lemma reopened:
  assumes "preg_exact view ok p" and "preg_load ops (preg_start config k (pr_repo p)) = (Inr u, p')"
  shows "rel_option agent_config_eq (get_agent_by_name n (pr_inner p)) (get_agent_by_name n (pr_inner p')) \<and>
    get_model n (pr_inner p') = get_model n (pr_inner p)"
proof -
  have ex: "cache_ok (pr_inner p)" "ok (pr_repo p)"
      "disk_equals (view (pr_repo p)) (cached_agents (pr_inner p)) (cached_models (pr_inner p))"
    using assms(1) by (simp_all add: preg_exact_def)
  note ld = load_run [OF assms(2) ex(2)]
  have "rel_option agent_config_eq (cached_agents (pr_inner p) n) (cached_agents (pr_inner p') n)"
    using ex(3) ld by (cases "cached_agents (pr_inner p) n"; cases "rv_agents (view (pr_repo p)) n")
      (auto simp: disk_equals_def dest!: spec [where x = n])
  moreover have "cached_models (pr_inner p') n = cached_models (pr_inner p) n"
  proof -
    have rel: "rel_option same_model (rv_models (view (pr_repo p)) n) (cached_models (pr_inner p) n)"
      using ex(3) by (simp add: disk_equals_def)
    have "m\<lparr>md_id := reg_model_id registry_new (md_name m)\<rparr> = m'"
      if "cached_models (pr_inner p) n = Some m'" "same_model m m'" for m m'
    proof -
      have "md_name m = md_name m'" using that(2) unfolding same_model_def by (metis model.ext_inject model.surjective model.update_convs(1))
      moreover have "md_id m' = reg_model_id registry_new (md_name m')"
        using cached_models_name [OF ex(1) that(1)] ex(1) by (auto simp: cache_ok_def reg_model_id_def)
      ultimately show ?thesis using that(2) by (simp add: same_model_def)
    qed
    with rel ld show ?thesis
      by (cases "rv_models (view (pr_repo p)) n"; cases "cached_models (pr_inner p) n") auto
  qed
  then have "get_model n (pr_inner p') = get_model n (pr_inner p)" by (simp only: cached_models_def)
  ultimately show ?thesis
    using cached_by_name ex(1) ld by simp
qed

text \<open>An agent whose save failed stays in the cache and cannot be deleted: the disk has never heard of it.\<close>

lemma ghost_not_deleted:
  assumes within: "preg_within view ok p" and fresh: "get_agent_by_name (ag_name a) (pr_inner p) = None"
    and fail: "preg_register_agent ops identity t a p = (Inl (Persistence m), p1)"
  shows "get_agent_by_name (ag_name a) (pr_inner p1) \<noteq> None \<and>
    (\<exists>r p2. preg_delete_agent ops (ag_name a) p1 = Some (r, p2) \<and> r \<noteq> Inr True \<and>
       get_agent_by_name (ag_name a) (pr_inner p2) \<noteq> None)"
proof -
  have c: "cache_ok (pr_inner p)" using within by (simp add: preg_within_def)
  have "ag_name a \<notin> rv_agent_names (view (pr_repo p))"
    using within fresh cached_by_name [OF c] by (auto simp: preg_within_def disk_within_def)
  with register_agent_effect [OF fail c] obtain b where
    c1: "cache_ok (pr_inner p1)" and b: "cached_agents (pr_inner p1) (ag_name a) = Some b"
    and gone: "ag_name a \<notin> rv_agent_names (view (pr_repo p1))"
    by (auto simp: no_persistence_error_iff)
  obtain x repo where del: "rp_delete_agent ops (ag_name a) (pr_repo p1) = (x, repo)"
    by (cases "rp_delete_agent ops (ag_name a) (pr_repo p1)")
  then have "x \<noteq> Inr True" using delete_agent [of "ag_name a" "pr_repo p1" True repo] gone by auto
  then show ?thesis
    using delete_agent_cases [OF c1, of "ag_name a"] delete_agent_effect [OF c1 b _ del] cached_by_name [OF c1] b
    by (cases x) auto
qed

end

end
