(* ===== verification/PersistentRun.thy ===== *)
theory PersistentRun
  imports PersistentLaws
begin

text \<open>
  The persistent registry over SQLite: what a run leaves on disk, what opening again brings back, and
  what an interrupted registration leaves behind.
\<close>

section \<open>Opening forgets the rest\<close>

lemma epreserves_efor [epreserves_rules]: "(\<And>x. epreserves I (f x)) \<Longrightarrow> epreserves I (efor f xs)"
  by (induction xs) (auto intro!: epreserves_rules)

definition nothing_running :: "('k, 'r) preg \<Rightarrow> bool" where
  "nothing_running p \<longleftrightarrow>
     get_fleets (pr_inner p) = [] \<and> rg_jobs (pr_inner p) = [] \<and> rg_runtimes (pr_inner p) = {}"

lemma nothing_running_on_repo: "epreserves nothing_running (on_repo c m)"
  by (auto simp: epreserves_def nothing_running_def on_repo_def split_beta)

lemma nothing_running_load: "epreserves nothing_running (preg_load ops)"
proof -
  have "epreserves nothing_running (on_inner (register_model m))" for m
    by (auto simp: epreserves_def nothing_running_def on_inner_def register_model_def get_fleets_def Let_def
        split: prod.split model_type.split)
  moreover have "epreserves nothing_running (on_inner (restore_agent a))" for a
    by (auto simp: epreserves_def nothing_running_def on_inner_def restore_agent_def get_fleets_def Let_def)
  moreover have "epreserves nothing_running (on_inner (register_mcp_server s))" for s
    by (auto simp: epreserves_def nothing_running_def on_inner_def register_mcp_server_def get_fleets_def Let_def)
  ultimately show ?thesis unfolding preg_load_def by (intro epreserves_rules nothing_running_on_repo)
qed

lemma nothing_running_start: "nothing_running (preg_start config k r)"
  using preg_start_inner [of config k r] by (simp add: nothing_running_def get_fleets_def)

lemma preg_new_load: "preg_new ops config k r = Inr p \<longleftrightarrow> (\<exists>u. preg_load ops (preg_start config k r) = (Inr u, p))"
  by (auto simp: preg_new_def split: prod.splits sum.splits)

lemma opened_exact:
  assumes "preg_new (sqlite_repository env) config k w = Inr p0" and "sql_repo_ok env w"
  shows "preg_exact (sql_view env) (sql_repo_ok env) p0"
proof -
  obtain u where "preg_load (sqlite_repository env) (preg_start config k w) = (Inr u, p0)"
    using assms(1) by (auto simp: preg_new_load)
  then show ?thesis using assms(2) by (rule sql_repo.load_exact)
qed

lemma run_within:
  assumes "preg_new (sqlite_repository env) config k w = Inr p0" and "sql_repo_ok env w"
    and "(preg_step (sqlite_repository env) identity elems pe (kept_agent (re_agent_codecs env)) allowed)\<^sup>*\<^sup>* p0 p"
  shows "preg_within (sql_view env) (sql_repo_ok env) p"
  by (rule sql_repo.steps_within [OF assms(3) sql_repo.exact_within [OF opened_exact [OF assms(1,2)]]])

section \<open>Examples\<close>

text \<open>
  A repository whose statements fail where \<open>fault\<close> says, with a codec that knows the empty requirements;
  one agent without requirements, a run that registers it.
\<close>

definition no_requirements :: requirements where
  "no_requirements = \<lparr>req_models = [], req_services = [], req_mounts = [], req_mcp = []\<rparr>"

definition example_repo_env :: "(nat \<Rightarrow> string option) \<Rightarrow> repo_env" where
  "example_repo_env fault =
     \<lparr>re_fault = fault,
      re_agent_codecs =
        \<lparr>ac_requirements =
           \<lparr>enc = (\<lambda>r. if r = no_requirements then Inr ''{}'' else Inl ''unsupported''),
            dec = (\<lambda>s. if s = ''{}'' then Inr no_requirements else Inl ''expected value'')\<rparr>,
         ac_base64 = (\<lambda>b. b), ac_unbase64 = Inr\<rparr>,
      re_tools = \<lparr>enc = (\<lambda>_. Inr ''[]''), dec = (\<lambda>_. Inr [])\<rparr>,
      re_unknown_variant = (\<lambda>s. ''unknown variant '' @ s), re_time = show_int,
      re_agent_scan = (\<lambda>rs. rs), re_model_scan = (\<lambda>rs. rs), re_mcp_scan = (\<lambda>rs. rs), re_check_scan = rev\<rparr>"

definition example_plain_agent :: agent where
  "example_plain_agent =
     \<lparr>ag_name = ''echo'', ag_description = ''echoes'', ag_source = None, ag_requirements = no_requirements,
      ag_id = agent_placeholder_id ''echo'', ag_runtime = RtContainer, ag_executable = ''localhost/echo:latest'',
      ag_image_digest = None, ag_public_key = None, ag_object_storage = None, ag_vector_storage = None\<rparr>"

definition example_repo_config :: registry_config where
  "example_repo_config = \<lparr>rcf_inference = [POllama], rcf_embedding = [POllama]\<rparr>"

definition example_repo_start :: "reg_db sql_world" where
  "example_repo_start = \<lparr>sw_tick = 0, sw_data = reg_db_empty\<rparr>"

definition example_opened :: "(nat \<Rightarrow> string option) \<Rightarrow> (unit, reg_db sql_world) preg" where
  "example_opened fault =
     snd (preg_register_runtime RtContainer
       (projr (preg_new (sqlite_repository (example_repo_env fault)) example_repo_config () example_repo_start)))"

definition example_deploy ::
    "(nat \<Rightarrow> string option) \<Rightarrow> (registration_error, unit) rust_result \<times> (unit, reg_db sql_world) preg" where
  "example_deploy fault =
     preg_register_agent (sqlite_repository (example_repo_env fault)) example_identity (1, 2, 3) example_plain_agent
       (example_opened fault)"

lemma example_repo_ok [simp]:
  "sql_repo_ok (example_repo_env fault) example_repo_start"
  "kept_agent (re_agent_codecs (example_repo_env fault)) example_plain_agent"
  by (simp_all add: sql_repo_ok_def example_repo_env_def example_repo_start_def reg_db_empty_def kept_agent_def
      example_plain_agent_def requirements_eq_def)

lemma example_opened_new:
  "\<exists>p0. preg_new (sqlite_repository (example_repo_env fault)) example_repo_config () example_repo_start = Inr p0 \<and>
     preg_step (sqlite_repository (example_repo_env fault)) example_identity sorted_list_of_set (\<lambda>e. e) kept allowed p0
       (example_opened fault)"
  if "fault 0 = None" "fault (Suc 0) = None" "fault (Suc (Suc 0)) = None"
proof -
  have "\<exists>p0. preg_new (sqlite_repository (example_repo_env fault)) example_repo_config () example_repo_start = Inr p0"
    using that
    by (simp add: preg_new_def preg_load_def ebind_def on_repo_def preg_start_def sqlite_repository_def
        sql_load_models_def sql_load_agents_def sql_load_mcp_servers_def reg_query_def reg_stmt_def db_error_def sql_def
        example_repo_env_def example_repo_start_def reg_db_empty_def)
  then obtain p0 where p0:
    "preg_new (sqlite_repository (example_repo_env fault)) example_repo_config () example_repo_start = Inr p0" ..
  have "preg_register_runtime RtContainer p0 = (Inr (), example_opened fault)"
    by (simp add: example_opened_def p0 preg_register_runtime_def inner_do_run)
  then show ?thesis using p0 ps_runtime by blast
qed

lemma example_deploy_step:
  assumes "\<forall>e. fst (example_deploy fault) = Inl e \<longrightarrow> allowed e"
    and "fault 0 = None" "fault (Suc 0) = None" "fault (Suc (Suc 0)) = None"
  shows "\<exists>p0. preg_new (sqlite_repository (example_repo_env fault)) example_repo_config () example_repo_start = Inr p0 \<and>
    (preg_step (sqlite_repository (example_repo_env fault)) example_identity sorted_list_of_set (\<lambda>e. e)
       (kept_agent (re_agent_codecs (example_repo_env fault))) allowed)\<^sup>*\<^sup>* p0 (snd (example_deploy fault))"
proof -
  obtain p0 where p0:
    "preg_new (sqlite_repository (example_repo_env fault)) example_repo_config () example_repo_start = Inr p0"
    "preg_step (sqlite_repository (example_repo_env fault)) example_identity sorted_list_of_set (\<lambda>e. e)
       (kept_agent (re_agent_codecs (example_repo_env fault))) allowed p0 (example_opened fault)"
    using example_opened_new [OF assms(2-4)] by blast
  have "preg_step (sqlite_repository (example_repo_env fault)) example_identity sorted_list_of_set (\<lambda>e. e)
       (kept_agent (re_agent_codecs (example_repo_env fault))) allowed (example_opened fault)
       (snd (example_deploy fault))"
    by (rule ps_agent [where a = example_plain_agent and t = "(1, 2, 3)" and r = "fst (example_deploy fault)"])
      (use assms(1) in \<open>simp_all add: example_deploy_def\<close>)
  with p0 show ?thesis by (meson rtranclp.rtrancl_into_rtrancl rtranclp.rtrancl_refl)
qed

section \<open>Properties\<close>

text \<open>
  C8: whatever calls are made on a persistent registry over SQLite, and whichever statements fail on the
  way, every agent row on disk is of an agent the cache knows, with the same configuration if the row
  can be read, and every model row of a model the cache knows: the disk is never ahead of the cache.
\<close>

theorem disk_never_ahead_of_cache:
  assumes "preg_new (sqlite_repository env) config k w = Inr p0" and "sql_repo_ok env w"
    and "(preg_step (sqlite_repository env) identity elems pe (kept_agent (re_agent_codecs env)) (\<lambda>_. True))\<^sup>*\<^sup>* p0 p"
  shows "(\<forall>row \<in> set (rdb_agents (sw_data (pr_repo p))).
            get_agent_by_name (sta_name row) (pr_inner p) \<noteq> None) \<and>
         (\<forall>row a. find (\<lambda>r. sta_name r = n) (rdb_agents (sw_data (pr_repo p))) = Some row \<longrightarrow>
            stored_to_agent (re_agent_codecs env) row = Inr a \<longrightarrow>
            (\<exists>b. get_agent_by_name n (pr_inner p) = Some b \<and> agent_config_eq b a)) \<and>
         (\<forall>row \<in> set (rdb_models (sw_data (pr_repo p))). get_model (mrow_name row) (pr_inner p) \<noteq> None)"
proof -
  from run_within [OF assms(1-3)] have c: "cache_ok (pr_inner p)" and d: "disk_within (sql_view env (pr_repo p)) (cached_agents (pr_inner p)) (cached_models (pr_inner p))"
    by (simp_all add: preg_within_def)
  have "rv_agents (sql_view env (pr_repo p)) n = Some a"
    if "find (\<lambda>r. sta_name r = n) (rdb_agents (sw_data (pr_repo p))) = Some row"
      "stored_to_agent (re_agent_codecs env) row = Inr a" for row a
    using that by (simp add: result_ok_def)
  then show ?thesis
    using d by (auto simp: disk_within_def cached_by_name [OF c] cached_models_def)
qed

theorem disk_never_ahead_of_cache_witness:
  "let p = snd (example_deploy no_fault)
   in map sta_name (rdb_agents (sw_data (pr_repo p))) = [''echo''] \<and> get_agent_by_name ''echo'' (pr_inner p) \<noteq> None"
proof -
  obtain p0 where p0:
    "preg_new (sqlite_repository (example_repo_env no_fault)) example_repo_config () example_repo_start = Inr p0"
    and run: "(preg_step (sqlite_repository (example_repo_env no_fault)) example_identity sorted_list_of_set (\<lambda>e. e)
       (kept_agent (re_agent_codecs (example_repo_env no_fault))) (\<lambda>_. True))\<^sup>*\<^sup>* p0 (snd (example_deploy no_fault))"
    using example_deploy_step [of no_fault "\<lambda>_. True"] by (auto simp: no_fault_def)
  have rows: "map sta_name (rdb_agents (sw_data (pr_repo (snd (example_deploy no_fault))))) = [''echo'']" by code_simp
  then obtain row where "row \<in> set (rdb_agents (sw_data (pr_repo (snd (example_deploy no_fault)))))" "sta_name row = ''echo''"
    by (cases "rdb_agents (sw_data (pr_repo (snd (example_deploy no_fault))))") auto
  with disk_never_ahead_of_cache [OF p0 example_repo_ok(1) run] rows show ?thesis by (auto simp: Let_def)
qed

text \<open>
  C9: when no call of the run answered a persistence error, opening the registry again on the same
  database, under any configuration that opens, gives the same agents up to configuration and exactly
  the same models; fleets, jobs and registered runtimes are gone.
\<close>

theorem restart_gives_registry_back:
  assumes "preg_new (sqlite_repository env) config k w = Inr p0" and "sql_repo_ok env w"
    and "(preg_step (sqlite_repository env) identity elems pe (kept_agent (re_agent_codecs env)) no_persistence_error)\<^sup>*\<^sup>* p0 p"
    and "preg_new (sqlite_repository env) config' k' (pr_repo p) = Inr p'"
  shows "rel_option agent_config_eq (get_agent_by_name n (pr_inner p)) (get_agent_by_name n (pr_inner p')) \<and>
         get_model n (pr_inner p') = get_model n (pr_inner p) \<and>
         get_fleets (pr_inner p') = [] \<and> rg_jobs (pr_inner p') = [] \<and> rg_runtimes (pr_inner p') = {}"
proof -
  have ex: "preg_exact (sql_view env) (sql_repo_ok env) p"
    by (rule sql_repo.steps_exact [OF assms(3) opened_exact [OF assms(1,2)]])
  obtain u where ld: "preg_load (sqlite_repository env) (preg_start config' k' (pr_repo p)) = (Inr u, p')"
    using assms(4) by (auto simp: preg_new_load)
  have "nothing_running p'"
    using epreservesD [OF nothing_running_load nothing_running_start, of "sqlite_repository env" config' k' "pr_repo p"] ld
    by simp
  with sql_repo.reopened [OF ex ld, of n] show ?thesis by (simp add: nothing_running_def)
qed

theorem restart_gives_registry_back_witness:
  "case preg_new (sqlite_repository (example_repo_env no_fault)) example_repo_config ()
          (pr_repo (snd (example_deploy no_fault))) of
     Inl _ \<Rightarrow> False
   | Inr p' \<Rightarrow> get_agent_by_name ''echo'' (pr_inner p') \<noteq> None \<and> rg_runtimes (pr_inner p') = {} \<and>
               rg_runtimes (pr_inner (snd (example_deploy no_fault))) = {RtContainer}"
proof -
  obtain p0 where run:
    "preg_new (sqlite_repository (example_repo_env no_fault)) example_repo_config () example_repo_start = Inr p0"
    "(preg_step (sqlite_repository (example_repo_env no_fault)) example_identity sorted_list_of_set (\<lambda>e. e)
       (kept_agent (re_agent_codecs (example_repo_env no_fault))) no_persistence_error)\<^sup>*\<^sup>* p0 (snd (example_deploy no_fault))"
  proof -
    have "fst (example_deploy no_fault) = Inr ()" by code_simp
    then show thesis using example_deploy_step [of no_fault no_persistence_error] that by (auto simp: no_fault_def)
  qed
  have "result_ok (map_sum id (\<lambda>p. ()) (preg_new (sqlite_repository (example_repo_env no_fault)) example_repo_config ()
          (pr_repo (snd (example_deploy no_fault))))) = Some ()" by code_simp
  then obtain p' where p': "preg_new (sqlite_repository (example_repo_env no_fault)) example_repo_config ()
          (pr_repo (snd (example_deploy no_fault))) = Inr p'"
    by (cases "preg_new (sqlite_repository (example_repo_env no_fault)) example_repo_config ()
          (pr_repo (snd (example_deploy no_fault)))") (simp_all add: result_ok_def)
  have "map_option ag_name (get_agent_by_name ''echo'' (pr_inner (snd (example_deploy no_fault)))) = Some ''echo''" by code_simp
  moreover have "rg_runtimes (pr_inner (snd (example_deploy no_fault))) = {RtContainer}" by code_simp
  moreover note restart_gives_registry_back [OF run(1) example_repo_ok(1) run(2) p', of "''echo''"]
  ultimately show ?thesis using p' by (auto simp: rel_option_iff split: option.splits)
qed

text \<open>
  A registration whose write to disk fails has already put the agent in the cache, and there it stays:
  the registry lists the agent, and deleting it never answers that it was deleted and never removes it,
  since the disk has no such row.
\<close>

theorem failed_save_leaves_undeletable_agent:
  assumes "preg_new (sqlite_repository env) config k w = Inr p0" and "sql_repo_ok env w"
    and "(preg_step (sqlite_repository env) identity elems pe (kept_agent (re_agent_codecs env)) (\<lambda>_. True))\<^sup>*\<^sup>* p0 p"
    and "get_agent_by_name (ag_name a) (pr_inner p) = None"
    and "preg_register_agent (sqlite_repository env) identity t a p = (Inl (Persistence m), p1)"
  shows "get_agent_by_name (ag_name a) (pr_inner p1) \<noteq> None \<and>
    (\<exists>r p2. preg_delete_agent (sqlite_repository env) (ag_name a) p1 = Some (r, p2) \<and> r \<noteq> Inr True \<and>
       get_agent_by_name (ag_name a) (pr_inner p2) \<noteq> None)"
proof -
  show ?thesis by (rule sql_repo.ghost_not_deleted [OF run_within [OF assms(1-3)] assms(4,5)])
qed

text \<open>The disk is full when the fourth statement, the save, is issued.\<close>

definition save_fails :: "nat \<Rightarrow> string option" where
  "save_fails n = (if n = 3 then Some ''disk full'' else None)"

theorem failed_save_leaves_undeletable_agent_witness:
  "map_option (result_ok \<circ> fst) (preg_delete_agent (sqlite_repository (example_repo_env save_fails)) ''echo''
      (snd (example_deploy save_fails))) = Some (Some False) \<and>
   get_agent_by_name ''echo'' (pr_inner (snd (example_deploy save_fails))) \<noteq> None"
proof -
  obtain p0 where p0:
    "preg_new (sqlite_repository (example_repo_env save_fails)) example_repo_config () example_repo_start = Inr p0"
    "preg_step (sqlite_repository (example_repo_env save_fails)) example_identity sorted_list_of_set (\<lambda>e. e)
       (kept_agent (re_agent_codecs (example_repo_env save_fails))) (\<lambda>_. True) p0 (example_opened save_fails)"
    using example_opened_new [of save_fails] by (auto simp: save_fails_def)
  have fail: "preg_register_agent (sqlite_repository (example_repo_env save_fails)) example_identity (1, 2, 3)
      example_plain_agent (example_opened save_fails) =
      (Inl (Persistence ''database error: disk full''), snd (example_deploy save_fails))"
  proof -
    have "fst (example_deploy save_fails) = Inl (Persistence ''database error: disk full'')" by code_simp
    then show ?thesis by (simp add: example_deploy_def prod_eq_iff)
  qed
  have "get_agents (pr_inner (example_opened save_fails)) = []" by code_simp
  then have "get_agent_by_name (ag_name example_plain_agent) (pr_inner (example_opened save_fails)) = None"
    by (simp add: get_agent_by_name_def)
  from failed_save_leaves_undeletable_agent [OF p0(1) example_repo_ok(1) r_into_rtranclp [where r = "preg_step _ _ _ _ _ _", OF p0(2)] this fail]
  have "get_agent_by_name ''echo'' (pr_inner (snd (example_deploy save_fails))) \<noteq> None"
    by (simp add: example_plain_agent_def)
  moreover have "map_option (result_ok \<circ> fst) (preg_delete_agent (sqlite_repository (example_repo_env save_fails)) ''echo''
      (snd (example_deploy save_fails))) = Some (Some False)" by code_simp
  ultimately show ?thesis by blast
qed

text \<open>
  The public key a registration provisions is in the cache only: the row is written from the agent as
  it was passed in, so after opening again the agent has the key it came with, which for an agent built
  from a manifest is none.
\<close>

theorem restart_forgets_public_key:
  assumes "preg_new (sqlite_repository env) config k w = Inr p0" and "sql_repo_ok env w"
    and "(preg_step (sqlite_repository env) identity elems pe (kept_agent (re_agent_codecs env)) (\<lambda>_. True))\<^sup>*\<^sup>* p0 p"
    and "get_agent_by_name (ag_name a) (pr_inner p) = None" and "kept_agent (re_agent_codecs env) a"
    and "preg_register_agent (sqlite_repository env) identity t a p = (Inr (), p1)"
    and "preg_new (sqlite_repository env) config' k' (pr_repo p1) = Inr p2"
  shows "(\<exists>pk. fst (identity (ag_name a) (pr_secrets p)) = Inr pk \<and>
            map_option ag_public_key (get_agent_by_name (ag_name a) (pr_inner p1)) = Some (Some pk)) \<and>
         map_option ag_public_key (get_agent_by_name (ag_name a) (pr_inner p2)) = Some (ag_public_key a)"
proof
  from run_within [OF assms(1-3)] have c: "cache_ok (pr_inner p)" and okp: "sql_repo_ok env (pr_repo p)" by (simp_all add: preg_within_def)
  note eff = sql_repo.register_agent_effect [OF assms(6) c]
  then obtain y where y: "rv_agents (sql_view env (pr_repo p1)) (ag_name a) = Some y" "same_agent a y"
    using assms(5) by (auto simp del: sql_view_fields)
  obtain u where ld: "preg_load (sqlite_repository env) (preg_start config' k' (pr_repo p1)) = (Inr u, p2)"
    using assms(7) by (auto simp: preg_new_load)
  have ok1: "sql_repo_ok env (pr_repo p1)" using eff okp by blast
  note run = sql_repo.load_run [OF ld ok1]
  then have "get_agent_by_name (ag_name a) (pr_inner p2) = Some (y\<lparr>ag_id := agent_id_internal registry_new (ag_name y)\<rparr>)"
    using cached_by_name [of "pr_inner p2" "ag_name a"] y(1) by (simp del: sql_view_fields)
  with y(2) show "map_option ag_public_key (get_agent_by_name (ag_name a) (pr_inner p2)) = Some (ag_public_key a)"
    by (simp add: same_agent_def)
  have fresh: "map_of (rg_agents (pr_inner p)) (agent_id_internal (pr_inner p) (ag_name a)) = None"
    using cached_by_name [OF c, of "ag_name a"] assms(4) by (simp add: cached_agents_def)
  obtain r1 s1 k1 where reg: "register_agent identity a (pr_inner p, pr_secrets p) = (r1, s1, k1)"
    by (cases "register_agent identity a (pr_inner p, pr_secrets p)") auto
  have in1: "pr_inner p1 = s1" "r1 = Inr ()"
    using assms(6) reg
    by (auto simp: preg_register_agent_def inner_register_agent_def ebind_def on_repo_def split_beta split: sum.splits)
  then obtain pk where pk: "fst (identity (ag_name a) (pr_secrets p)) = Inr pk" "s1 = register_commit pk a (pr_inner p)"
    using reg fresh validate_same [of a "pr_inner p"]
    by (auto simp: register_agent_def split: sum.splits bool.splits prod.splits)
  have "cached_agents s1 (ag_name a) = Some (a\<lparr>ag_public_key := Some pk, ag_id := agent_id_internal (pr_inner p) (ag_name a)\<rparr>)"
    by (simp add: pk(2) register_commit_def Let_def cached_agents_def reg_defs)
  then have "get_agent_by_name (ag_name a) (pr_inner p1) =
      Some (a\<lparr>ag_public_key := Some pk, ag_id := agent_id_internal (pr_inner p) (ag_name a)\<rparr>)"
    using cached_by_name [of "pr_inner p1" "ag_name a"] eff in1 by simp
  with pk(1) show "\<exists>pk. fst (identity (ag_name a) (pr_secrets p)) = Inr pk \<and>
      map_option ag_public_key (get_agent_by_name (ag_name a) (pr_inner p1)) = Some (Some pk)" by simp
qed

theorem restart_forgets_public_key_witness:
  "map_option ag_public_key (get_agent_by_name ''echo'' (pr_inner (snd (example_deploy no_fault)))) = Some (Some ''echo'') \<and>
   (case preg_new (sqlite_repository (example_repo_env no_fault)) example_repo_config ()
           (pr_repo (snd (example_deploy no_fault))) of
      Inl _ \<Rightarrow> False
    | Inr p' \<Rightarrow> map_option ag_public_key (get_agent_by_name ''echo'' (pr_inner p')) = Some None)"
proof -
  obtain p0 where p0:
    "preg_new (sqlite_repository (example_repo_env no_fault)) example_repo_config () example_repo_start = Inr p0"
    "preg_step (sqlite_repository (example_repo_env no_fault)) example_identity sorted_list_of_set (\<lambda>e. e)
       (kept_agent (re_agent_codecs (example_repo_env no_fault))) (\<lambda>_. True) p0 (example_opened no_fault)"
    using example_opened_new [of no_fault] by (auto simp: no_fault_def)
  have reg: "preg_register_agent (sqlite_repository (example_repo_env no_fault)) example_identity (1, 2, 3)
      example_plain_agent (example_opened no_fault) = (Inr (), snd (example_deploy no_fault))"
  proof -
    have "fst (example_deploy no_fault) = Inr ()" by code_simp
    then show ?thesis by (simp add: example_deploy_def prod_eq_iff)
  qed
  have "result_ok (map_sum id (\<lambda>p. ()) (preg_new (sqlite_repository (example_repo_env no_fault)) example_repo_config ()
          (pr_repo (snd (example_deploy no_fault))))) = Some ()" by code_simp
  then obtain p' where p': "preg_new (sqlite_repository (example_repo_env no_fault)) example_repo_config ()
          (pr_repo (snd (example_deploy no_fault))) = Inr p'"
    by (cases "preg_new (sqlite_repository (example_repo_env no_fault)) example_repo_config ()
          (pr_repo (snd (example_deploy no_fault)))") (simp_all add: result_ok_def)
  have "get_agents (pr_inner (example_opened no_fault)) = []" by code_simp
  then have fresh: "get_agent_by_name (ag_name example_plain_agent) (pr_inner (example_opened no_fault)) = None"
    by (simp add: get_agent_by_name_def)
  have name: "ag_name example_plain_agent = ''echo''" "ag_public_key example_plain_agent = None"
    by (simp_all add: example_plain_agent_def)
  from restart_forgets_public_key [OF p0(1) example_repo_ok(1) r_into_rtranclp [where r = "preg_step _ _ _ _ _ _", OF p0(2)] fresh
      example_repo_ok(2) reg p']
  show ?thesis using p' by (simp add: example_identity_def name)
qed

end
