(* ===== verification/RegReadiness.thy ===== *)
theory RegReadiness
  imports PersistentRun
begin

text \<open>
  Readiness over SQLite refines the in-memory repository: when the check rows are the checks in the order
  of their ids, the query that takes the greatest id per worker finds the latest check per worker, and
  the derived status is the one the in-memory store computes for some iteration order of the workers.
\<close>

section \<open>Rows and checks\<close>

definition row_of_check :: "repo_env \<Rightarrow> check_row \<Rightarrow> readiness_check \<Rightarrow> bool" where
  "row_of_check env r c \<longleftrightarrow> r = check_row_of env (crow_id r) c"

definition check_rows_ok :: "repo_env \<Rightarrow> reg_db \<Rightarrow> readiness_check list \<Rightarrow> bool" where
  "check_rows_ok env db cs \<longleftrightarrow>
     list_all2 (row_of_check env) (rdb_checks db) cs \<and>
     sorted_wrt (<) (map crow_id (rdb_checks db)) \<and> (\<forall>r \<in> set (rdb_checks db). crow_id r < rdb_next_check db)"

lemma row_of_check_fields:
  "row_of_check env r c \<Longrightarrow> crow_agent r = rk_agent c \<and> crow_worker r = rk_worker c \<and>
     crow_status r = readiness_as_str (rk_status c) \<and> crow_error r = rk_error c"
  unfolding row_of_check_def check_row_of_def by (metis check_row.select_convs(2,3,4,6))

lemma check_rows_ok_empty [simp]: "check_rows_ok env reg_db_empty []"
  by (simp add: check_rows_ok_def reg_db_empty_def)

lemma find_rev_last: "find p (rev xs) = (if filter p xs = [] then None else Some (last (filter p xs)))"
  by (induction xs) (auto simp: find_append split: option.split)

lemma find_list_all2:
  assumes "list_all2 R xs ys" and "\<And>x y. R x y \<Longrightarrow> P x = Q y"
  shows "rel_option R (find P xs) (find Q ys)"
  using assms by (induction rule: list_all2_induct) auto

lemma map_list_all2: "list_all2 R xs ys \<Longrightarrow> (\<And>x y. R x y \<Longrightarrow> f x = g y) \<Longrightarrow> map f xs = map g ys"
  by (induction rule: list_all2_induct) auto

lemma filter_map_list_all2:
  "list_all2 R xs ys \<Longrightarrow> (\<And>x y. R x y \<Longrightarrow> f x = g y) \<Longrightarrow> (\<And>x y. R x y \<Longrightarrow> P x = Q y) \<Longrightarrow>
   map f (filter P xs) = map g (filter Q ys)"
  by (induction rule: list_all2_induct) auto

lemma Max_sorted_last:
  fixes ids :: "int list"
  assumes "sorted_wrt (<) ids" and "ids \<noteq> []"
  shows "Max (set ids) = last ids"
proof (rule Max_eqI)
  show "i \<le> last ids" if "i \<in> set ids" for i
    using assms that by (induction ids) (auto split: if_splits simp: less_imp_le)
qed (use assms(2) in auto)

text \<open>The newest row of a worker.\<close>

definition newest_row :: "string \<Rightarrow> string \<Rightarrow> check_row list \<Rightarrow> check_row option" where
  "newest_row agent w rows = find (\<lambda>r. crow_agent r = agent \<and> crow_worker r = w) (rev rows)"

lemma max_ids_newest:
  assumes sorted: "sorted_wrt (<) (map crow_id (rdb_checks db))" and r: "r \<in> set (rdb_checks db)"
  shows "crow_id r \<in> set (max_ids agent db) \<longleftrightarrow>
    crow_agent r = agent \<and> newest_row agent (crow_worker r) (rdb_checks db) = Some r"
proof -
  let ?rows = "rdb_checks db"
  let ?mine = "\<lambda>w. filter (\<lambda>r. crow_agent r = agent \<and> crow_worker r = w) ?rows"
  have inj: "x = y" if "x \<in> set ?rows" "y \<in> set ?rows" "crow_id x = crow_id y" for x y
  proof -
    have "distinct (map crow_id ?rows)" using sorted by (simp add: strict_sorted_iff)
    with that show ?thesis by (metis distinct_map inj_on_def)
  qed
  have mine: "filter (\<lambda>r. crow_worker r = w) (filter (\<lambda>r. crow_agent r = agent) ?rows) = ?mine w" for w
    by (simp add: conj_commute)
  have max: "Max (set (map crow_id (?mine w))) = crow_id (last (?mine w))" if "?mine w \<noteq> []" for w
    using Max_sorted_last [of "map crow_id (?mine w)"] that sorted
    by (simp add: sorted_wrt_map sorted_wrt_filter last_map)
  have ids: "i \<in> set (max_ids agent db) \<longleftrightarrow> (\<exists>w. ?mine w \<noteq> [] \<and> i = crow_id (last (?mine w)))" for i
  proof -
    have "i \<in> set (max_ids agent db) \<longleftrightarrow>
        (\<exists>w \<in> crow_worker ` set (filter (\<lambda>r. crow_agent r = agent) ?rows). i = Max (set (map crow_id (?mine w))))"
      unfolding max_ids_def Let_def mine by (simp add: image_iff)
    also have "\<dots> \<longleftrightarrow> (\<exists>w. ?mine w \<noteq> [] \<and> i = Max (set (map crow_id (?mine w))))"
      by (auto simp: filter_empty_conv)
    also have "\<dots> \<longleftrightarrow> (\<exists>w. ?mine w \<noteq> [] \<and> i = crow_id (last (?mine w)))"
      by (rule iff_exI, rule conj_cong, rule refl, drule max, erule arg_cong)
    finally show ?thesis .
  qed
  have last_in: "last (?mine w) \<in> set ?rows \<and> crow_agent (last (?mine w)) = agent \<and> crow_worker (last (?mine w)) = w"
    if "?mine w \<noteq> []" for w
    using last_in_set [OF that] by auto
  show ?thesis
  proof
    assume "crow_id r \<in> set (max_ids agent db)"
    then obtain w where w: "?mine w \<noteq> []" "crow_id r = crow_id (last (?mine w))" using ids by blast
    then have "r = last (?mine w)" using inj last_in r by blast
    with w last_in [OF w(1)] show "crow_agent r = agent \<and> newest_row agent (crow_worker r) ?rows = Some r"
      by (simp add: newest_row_def find_rev_last)
  next
    assume a: "crow_agent r = agent \<and> newest_row agent (crow_worker r) ?rows = Some r"
    then have ne: "?mine (crow_worker r) \<noteq> []" and l: "r = last (?mine (crow_worker r))"
      by (simp_all add: newest_row_def find_rev_last split: if_splits)
    show "crow_id r \<in> set (max_ids agent db)"
      unfolding ids by (intro exI conjI, rule ne, rule arg_cong [OF l])
  qed
qed

lemma newest_row_latest:
  assumes "check_rows_ok env db cs"
  shows "rel_option (row_of_check env) (newest_row agent w (rdb_checks db)) (latest_check agent w cs)"
  unfolding newest_row_def latest_check_def
  by (rule find_list_all2) (use assms in \<open>simp_all add: check_rows_ok_def list_all2_rev row_of_check_fields\<close>)

section \<open>The derived status\<close>

definition found_checks :: "repo_env \<Rightarrow> string \<Rightarrow> reg_db \<Rightarrow> check_row list" where
  "found_checks env agent db = re_check_scan env (filter (\<lambda>r. crow_id r \<in> set (max_ids agent db)) (rdb_checks db))"

lemma latest_checks_found:
  "re_fault env (sw_tick w) = None \<Longrightarrow> fst (latest_checks env agent w) = Inr (found_checks env agent (sw_data w))"
  by (simp add: latest_checks_def reg_query_def reg_stmt_def db_error_def sql_def found_checks_def)

lemma found_checks_workers:
  assumes ok: "check_rows_ok env db cs" and scan: "\<forall>rs. mset (re_check_scan env rs) = mset rs"
  shows "set (map crow_worker (found_checks env agent db)) = set (agent_workers agent cs)"
    and "distinct (map crow_worker (found_checks env agent db))"
    and "\<forall>r \<in> set (found_checks env agent db). \<exists>c. latest_check agent (crow_worker r) cs = Some c \<and> row_of_check env r c"
proof -
  let ?rows = "rdb_checks db"
  have sorted: "sorted_wrt (<) (map crow_id ?rows)" using ok by (simp add: check_rows_ok_def)
  let ?kept = "filter (\<lambda>r. crow_id r \<in> set (max_ids agent db)) ?rows"
  have ms: "mset (found_checks env agent db) = mset ?kept" using scan by (simp add: found_checks_def)
  have kept: "set ?kept = {r \<in> set ?rows. crow_agent r = agent \<and> newest_row agent (crow_worker r) ?rows = Some r}"
    using max_ids_newest [OF sorted] by auto
  have sets: "set (found_checks env agent db) = set ?kept" using ms by (rule mset_eq_setD)
  have dk: "distinct ?kept" using sorted by (simp add: strict_sorted_iff distinct_map)
  have "distinct (found_checks env agent db)" using dk ms mset_eq_imp_distinct_iff by blast
  moreover have "inj_on crow_worker (set (found_checks env agent db))"
    unfolding sets kept by (rule inj_onI) auto
  ultimately show "distinct (map crow_worker (found_checks env agent db))" by (simp add: distinct_map)
  have workers: "set (agent_workers agent cs) = crow_worker ` {r \<in> set ?rows. crow_agent r = agent}"
  proof -
    have "map crow_worker (filter (\<lambda>r. crow_agent r = agent) ?rows) =
        map rk_worker (filter (\<lambda>c. rk_agent c = agent) cs)"
      by (rule filter_map_list_all2 [where R = "row_of_check env"])
        (use ok in \<open>simp_all add: check_rows_ok_def row_of_check_fields\<close>)
    then have "set (map crow_worker (filter (\<lambda>r. crow_agent r = agent) ?rows)) = set (agent_workers agent cs)"
      unfolding agent_workers_def set_remdups by (rule arg_cong)
    then show ?thesis by auto
  qed
  show "set (map crow_worker (found_checks env agent db)) = set (agent_workers agent cs)"
  proof
    show "set (map crow_worker (found_checks env agent db)) \<subseteq> set (agent_workers agent cs)"
      unfolding set_map sets kept workers by auto
    show "set (agent_workers agent cs) \<subseteq> set (map crow_worker (found_checks env agent db))"
    proof
      fix w assume "w \<in> set (agent_workers agent cs)"
      then obtain x where x: "x \<in> set ?rows" "crow_agent x = agent" "crow_worker x = w" unfolding workers by auto
      then have "newest_row agent w ?rows \<noteq> None" by (auto simp: newest_row_def find_None_set)
      then obtain r where r: "newest_row agent w ?rows = Some r" by blast
      then have "r \<in> set ?rows" "crow_agent r = agent" "crow_worker r = w"
        unfolding newest_row_def by (auto dest!: find_Some_set)
      with r have "r \<in> set ?kept" unfolding kept by auto
      with sets \<open>crow_worker r = w\<close> show "w \<in> set (map crow_worker (found_checks env agent db))" by auto
    qed
  qed
  show "\<forall>r \<in> set (found_checks env agent db). \<exists>c. latest_check agent (crow_worker r) cs = Some c \<and> row_of_check env r c"
  proof
    fix r assume "r \<in> set (found_checks env agent db)"
    then have "newest_row agent (crow_worker r) ?rows = Some r" unfolding sets kept by blast
    with newest_row_latest [OF ok, of agent "crow_worker r"]
    show "\<exists>c. latest_check agent (crow_worker r) cs = Some c \<and> row_of_check env r c"
      by (auto simp: option_rel_Some1)
  qed
qed

lemma found_checks_latest:
  assumes ok: "check_rows_ok env db cs" and scan: "\<forall>rs. mset (re_check_scan env rs) = mset rs"
    and iter: "iter (agent_workers agent cs) = map crow_worker (found_checks env agent db)"
  shows "check_pairs (found_checks env agent db) = latest_per_worker iter agent cs"
proof -
  have "List.map_filter (\<lambda>w. map_option (\<lambda>c. (rk_worker c, readiness_as_str (rk_status c))) (latest_check agent w cs))
      (map crow_worker rs) = map (\<lambda>r. (crow_worker r, crow_status r)) rs"
    if "\<forall>r \<in> set rs. \<exists>c. latest_check agent (crow_worker r) cs = Some c \<and> row_of_check env r c" for rs
    using that by (induction rs) (auto simp: List.map_filter_simps dest!: row_of_check_fields)
  with found_checks_workers(3) [OF ok scan] show ?thesis
    by (simp add: check_pairs_def latest_per_worker_def iter)
qed

lemma sql_status_found:
  "re_fault env (sw_tick w) = None \<Longrightarrow>
     fst (sql_get_derived_status env agent w) = derive_status (check_pairs (found_checks env agent (sw_data w)))"
  using latest_checks_found [of env w agent]
  by (cases "latest_checks env agent w") (auto simp: sql_get_derived_status_def ebind_def)

lemma agent_workers_found:
  assumes "check_rows_ok env db cs" and "\<forall>rs. mset (re_check_scan env rs) = mset rs"
  shows "mset (map crow_worker (found_checks env agent db)) = mset (agent_workers agent cs)"
  using found_checks_workers [OF assms, of agent]
  by (intro set_eq_iff_mset_eq_distinct [THEN iffD1]) (simp_all add: agent_workers_def)

lemma check_rows_append:
  assumes "check_rows_ok env db cs"
  shows "check_rows_ok env (db\<lparr>rdb_checks := rdb_checks db @ [check_row_of env (rdb_next_check db) c],
    rdb_next_check := rdb_next_check db + 1\<rparr>) (cs @ [c])"
  using assms
  by (auto simp: check_rows_ok_def sorted_wrt_append row_of_check_def check_row_of_def intro!: list_all2_appendI)

lemma check_rows_delete:
  assumes "check_rows_ok env db cs"
  shows "check_rows_ok env (db\<lparr>rdb_checks := filter (\<lambda>r. crow_agent r \<noteq> n) (rdb_checks db)\<rparr>) (filter (\<lambda>c. rk_agent c \<noteq> n) cs)"
proof -
  have "list_all2 (row_of_check env) (filter (\<lambda>r. crow_agent r \<noteq> n) rs) (filter (\<lambda>c. rk_agent c \<noteq> n) cs)"
    if "list_all2 (row_of_check env) rs cs" for rs
    using that by (induction rule: list_all2_induct) (auto dest: row_of_check_fields)
  then show ?thesis
    using assms by (simp add: check_rows_ok_def sorted_wrt_map sorted_wrt_filter)
qed

section \<open>Properties\<close>

text \<open>
  C20: over check rows written in order the two queries SQLite runs give exactly what the in-memory
  repository computes from the list of checks, for some order of its workers; appending a check and
  deleting an agent's checks keep rows and list in step, so this goes on holding.
\<close>

theorem sql_readiness_refines_memory:
  assumes "check_rows_ok env (sw_data w) cs" and "\<forall>rs. mset (re_check_scan env rs) = mset rs"
    and "re_fault env (sw_tick w) = None"
  shows "(\<exists>iter. mset (iter (agent_workers agent cs)) = mset (agent_workers agent cs) \<and>
            fst (sql_get_derived_status env agent w) = mem_get_derived_status iter agent cs \<and>
            fst (sql_all_checks_ready env agent w) = mem_all_checks_ready iter agent cs) \<and>
         check_rows_ok env (sw_data (snd (sql_append_readiness_check env c w))) (snd (mem_append_readiness_check c cs)) \<and>
         (fst (sql_delete_agent env n w) = Inr b \<longrightarrow>
            check_rows_ok env (sw_data (snd (sql_delete_agent env n w))) (filter (\<lambda>c. rk_agent c \<noteq> n) cs))"
proof (intro conjI impI)
  define iter where "iter = (\<lambda>_ :: string list. map crow_worker (found_checks env agent (sw_data w)))"
  have pairs: "check_pairs (found_checks env agent (sw_data w)) = latest_per_worker iter agent cs"
    by (rule found_checks_latest [OF assms(1,2)]) (simp add: iter_def)
  have ms: "mset (iter (agent_workers agent cs)) = mset (agent_workers agent cs)"
    unfolding iter_def by (rule agent_workers_found [OF assms(1,2)])
  have none: "latest_per_worker iter agent cs = []" if "agent_workers agent cs = []"
    using ms that by (simp add: latest_per_worker_def List.map_filter_simps)
  have st: "fst (sql_get_derived_status env agent w) = mem_get_derived_status iter agent cs"
    using sql_status_found [OF assms(3), of agent] pairs none
    by (simp add: mem_get_derived_status_def derive_status_def)
  moreover have "fst (sql_all_checks_ready env agent w) = mem_all_checks_ready iter agent cs"
    using st by (cases "sql_get_derived_status env agent w")
      (auto simp: sql_all_checks_ready_def mem_all_checks_ready_def ebind_def split: sum.splits)
  ultimately show "\<exists>iter. mset (iter (agent_workers agent cs)) = mset (agent_workers agent cs) \<and>
      fst (sql_get_derived_status env agent w) = mem_get_derived_status iter agent cs \<and>
      fst (sql_all_checks_ready env agent w) = mem_all_checks_ready iter agent cs"
    using ms by blast
  show "check_rows_ok env (sw_data (snd (sql_append_readiness_check env c w))) (snd (mem_append_readiness_check c cs))"
    using check_rows_append [OF assms(1)] assms(3)
    by (simp add: sql_append_readiness_check_def reg_stmt_def db_error_def sql_def mem_append_readiness_check_def)
  show "check_rows_ok env (sw_data (snd (sql_delete_agent env n w))) (filter (\<lambda>c. rk_agent c \<noteq> n) cs)"
    if "fst (sql_delete_agent env n w) = Inr b"
    using that check_rows_delete [OF assms(1), of n]
    by (auto simp: sql_delete_agent_def ebind_def reg_stmt_def db_error_def sql_def split_beta check_rows_ok_def
        split: option.splits)
qed

definition example_check_world :: "reg_db sql_world" where
  "example_check_world =
     \<lparr>sw_tick = 0, sw_data = reg_db_empty\<lparr>
        rdb_checks := [check_row_of (example_repo_env no_fault) 1 (check_pending 1 ''todo'' ''container''),
                       check_row_of (example_repo_env no_fault) 2 (check_ready 2 (check_pending 1 ''todo'' ''registry'')),
                       check_row_of (example_repo_env no_fault) 3 (check_ready 3 (check_pending 1 ''todo'' ''container''))],
        rdb_next_check := 4\<rparr>\<rparr>"

theorem sql_readiness_refines_memory_witness:
  "fst (sql_get_derived_status (example_repo_env no_fault) ''todo'' example_check_world) = Inr (Some AsLive) \<and>
   (\<exists>iter. mem_get_derived_status iter ''todo''
      [check_pending 1 ''todo'' ''container'', check_ready 2 (check_pending 1 ''todo'' ''registry''),
       check_ready 3 (check_pending 1 ''todo'' ''container'')] = Inr (Some AsLive))"
proof -
  have st: "fst (sql_get_derived_status (example_repo_env no_fault) ''todo'' example_check_world) = Inr (Some AsLive)"
    by code_simp
  have rows: "check_rows_ok (example_repo_env no_fault) (sw_data example_check_world)
      [check_pending 1 ''todo'' ''container'', check_ready 2 (check_pending 1 ''todo'' ''registry''),
       check_ready 3 (check_pending 1 ''todo'' ''container'')]"
    by (simp add: check_rows_ok_def example_check_world_def row_of_check_def check_row_of_def)
  have "\<forall>rs. mset (re_check_scan (example_repo_env no_fault) rs) = mset rs"
      "re_fault (example_repo_env no_fault) (sw_tick example_check_world) = None"
    by (simp_all add: example_repo_env_def no_fault_def)
  from sql_readiness_refines_memory [OF rows this, of "''todo''"] st show ?thesis by metis
qed

text \<open>A pending check anywhere keeps the status from Live and from Deleted.\<close>

lemma derive_loop_pending:
  "(v, readiness_as_str RsPending) \<in> set cs \<Longrightarrow> derive_loop r d a cs \<noteq> AsLive"
proof -
  have "derive_loop False d a cs \<noteq> AsLive" for d a cs
    by (induction cs arbitrary: d a) (auto split: if_splits)
  then show "(v, readiness_as_str RsPending) \<in> set cs \<Longrightarrow> derive_loop r d a cs \<noteq> AsLive"
    by (induction cs arbitrary: r d a) (auto split: if_splits)
qed

text \<open>
  Registering an agent, also one that is Live already with the same configuration, appends a pending
  check for its runtime: once the call has succeeded, no statement failing, the derived status exists and
  is not Live until the runtime reports again.
\<close>

theorem registering_makes_agent_not_live:
  assumes "preg_register_agent (sqlite_repository env) identity t a p = (Inr (), p')"
    and "re_fault env = no_fault" and "\<forall>rs. mset (re_check_scan env rs) = mset rs"
    and "check_rows_ok env (sw_data (pr_repo p)) cs"
  shows "\<exists>st. fst (sql_get_derived_status env (ag_name a) (pr_repo p')) = Inr (Some st) \<and> st \<noteq> AsLive"
proof -
  let ?c1 = "check_ready (fst (snd t)) (check_pending (fst t) (ag_name a) ''registry'')"
  let ?c2 = "check_pending (snd (snd t)) (ag_name a) (runtime_as_str (ag_runtime a))"
  have rows: "check_rows_ok env (sw_data (pr_repo p')) (cs @ [?c1] @ [?c2])"
  proof -
    have "rdb_checks (sw_data (pr_repo p')) = (rdb_checks (sw_data (pr_repo p)) @
          [check_row_of env (rdb_next_check (sw_data (pr_repo p))) ?c1]) @
          [check_row_of env (rdb_next_check (sw_data (pr_repo p)) + 1) ?c2] \<and>
        rdb_next_check (sw_data (pr_repo p')) = rdb_next_check (sw_data (pr_repo p)) + 1 + 1"
      using assms(1)
      by (auto simp: preg_register_agent_def inner_register_agent_def sqlite_repository_def on_repo_def ebind_def
          sql_save_agent_def sql_append_readiness_check_def reg_stmt_def db_error_def assms(2) split_beta Let_def
          split: sum.splits prod.splits)
    with check_rows_append [OF check_rows_append [OF assms(4)], of ?c1 ?c2] show ?thesis
      by (simp add: check_rows_ok_def)
  qed
  let ?cs = "cs @ [?c1] @ [?c2]"
  let ?w = "runtime_as_str (ag_runtime a)"
  have latest: "latest_check (ag_name a) ?w ?cs = Some ?c2" by (simp add: latest_check_def check_pending_def)
  have worker: "?w \<in> set (agent_workers (ag_name a) ?cs)" by (simp add: agent_workers_def check_pending_def)
  then have "?w \<in> crow_worker ` set (found_checks env (ag_name a) (sw_data (pr_repo p')))"
    using found_checks_workers(1) [OF rows assms(3), of "ag_name a"] by simp
  then obtain r where r: "r \<in> set (found_checks env (ag_name a) (sw_data (pr_repo p')))" "crow_worker r = ?w"
    by (metis imageE)
  then have "row_of_check env r ?c2"
    using found_checks_workers(3) [OF rows assms(3), of "ag_name a"] latest by fastforce
  then have "(?w, readiness_as_str RsPending) \<in> set (check_pairs (found_checks env (ag_name a) (sw_data (pr_repo p'))))"
    using r row_of_check_fields [of env r ?c2] by (force simp: check_pairs_def check_pending_def)
  moreover from this have "check_pairs (found_checks env (ag_name a) (sw_data (pr_repo p'))) \<noteq> []" by auto
  moreover have "fst (sql_get_derived_status env (ag_name a) (pr_repo p')) =
      derive_status (check_pairs (found_checks env (ag_name a) (sw_data (pr_repo p'))))"
    by (rule sql_status_found) (simp add: assms(2) no_fault_def)
  ultimately show ?thesis using derive_loop_pending by (auto simp: derive_status_def)
qed

text \<open>The example agent, provisioned by its runtime; then registered once more.\<close>

definition example_live :: "(unit, reg_db sql_world) preg" where
  "example_live =
     (let p = snd (example_deploy no_fault)
      in p\<lparr>pr_repo := snd (sql_append_readiness_check (example_repo_env no_fault)
             (check_ready 5 (check_pending 4 ''echo'' ''container'')) (pr_repo p))\<rparr>)"

theorem registering_makes_agent_not_live_witness:
  "fst (sql_get_derived_status (example_repo_env no_fault) ''echo'' (pr_repo example_live)) = Inr (Some AsLive) \<and>
   fst (sql_get_derived_status (example_repo_env no_fault) ''echo'' (pr_repo (snd
     (preg_register_agent (sqlite_repository (example_repo_env no_fault)) example_identity (6, 7, 8) example_plain_agent
        example_live)))) \<noteq> Inr (Some AsLive)"
proof -
  let ?r = "preg_register_agent (sqlite_repository (example_repo_env no_fault)) example_identity (6, 7, 8)
      example_plain_agent example_live"
  have "fst ?r = Inr ()" by code_simp
  then have run: "?r = (Inr (), snd ?r)" by (simp add: prod_eq_iff)
  have st: "fst (sql_get_derived_status (example_repo_env no_fault) ''echo'' (pr_repo example_live)) = Inr (Some AsLive)"
    by code_simp
  have env: "re_fault (example_repo_env no_fault) = no_fault"
      "\<forall>rs. mset (re_check_scan (example_repo_env no_fault) rs) = mset rs"
    by (simp_all add: example_repo_env_def)
  have "rdb_checks (sw_data (pr_repo example_live)) =
      [check_row_of (example_repo_env no_fault) 1 (check_ready 2 (check_pending 1 ''echo'' ''registry'')),
       check_row_of (example_repo_env no_fault) 2 (check_pending 3 ''echo'' ''container''),
       check_row_of (example_repo_env no_fault) 3 (check_ready 5 (check_pending 4 ''echo'' ''container''))]"
    "rdb_next_check (sw_data (pr_repo example_live)) = 4"
    by code_simp+
  then have rows: "check_rows_ok (example_repo_env no_fault) (sw_data (pr_repo example_live))
      [check_ready 2 (check_pending 1 ''echo'' ''registry''), check_pending 3 ''echo'' ''container'',
       check_ready 5 (check_pending 4 ''echo'' ''container'')]"
    by (simp add: check_rows_ok_def row_of_check_def check_row_of_def)
  have "ag_name example_plain_agent = ''echo''" by (simp add: example_plain_agent_def)
  with registering_makes_agent_not_live [OF run env rows] st show ?thesis by auto
qed

end
