(* ===== verification/Git.thy ===== *)
theory Git
  imports Effects "HOL-Library.AList"
begin

text \<open>
  libgit2 (crate \<open>git2\<close>) as a parameter: the calls the DAG worker makes are the record \<open>git_ops\<close> over a
  repository state, and \<open>git_documented\<close> is what its documentation says of a call that succeeds, in terms
  of what a repository shows: its commits in the order they were made (a commit's id is its position),
  its branches, and the branch \<open>HEAD\<close> points to.  Blobs and trees are values, as an object id stands for
  its content.  Every call may fail, the reading ones included; one that fails shows no change.  What the
  theorems assume of reads is apart, in \<open>git_readable\<close>: a commit, and an object in the tree of a commit, can
  be read back.
\<close>

datatype git_obj = GBlob string | GTree "(string \<times> git_obj) list"

type_synonym git_tree = "(string \<times> git_obj) list"

record git_commit =
  gc_tree :: git_tree
  gc_parents :: "nat list"
  gc_author :: "string \<times> string"
  gc_committer :: "string \<times> string"
  gc_time :: int
  gc_message :: string

record git_repo =
  gr_commits :: "git_commit list"
  gr_branches :: "(string \<times> nat) list"
  gr_head :: string

record 'r git_ops =
  go_head :: "'r \<Rightarrow> nat option"
  go_find_commit :: "nat \<Rightarrow> ('r, unit) eff"
  go_commit_tree :: "nat \<Rightarrow> ('r, git_tree) eff"
  go_has_branch :: "string \<Rightarrow> 'r \<Rightarrow> bool"
  go_blob :: "string \<Rightarrow> ('r, git_obj) eff"
  go_treebuilder :: "git_tree option \<Rightarrow> ('r, git_tree) eff"
  go_insert :: "string \<Rightarrow> git_obj \<Rightarrow> git_tree \<Rightarrow> ('r, git_tree) eff"
  go_write_tree :: "git_tree \<Rightarrow> ('r, git_obj) eff"
  go_find_tree :: "git_obj \<Rightarrow> ('r, git_tree) eff"
  go_find_blob :: "git_obj \<Rightarrow> ('r, string) eff"
  go_get_path :: "git_tree \<Rightarrow> string list \<Rightarrow> ('r, git_obj) eff"
  go_signature :: "string \<Rightarrow> string \<Rightarrow> ('r, string \<times> string) eff"
  go_commit :: "string option \<Rightarrow> git_commit \<Rightarrow> ('r, nat) eff"
  go_branch :: "string \<Rightarrow> nat \<Rightarrow> bool \<Rightarrow> ('r, unit) eff"
  go_rename_branch :: "string \<Rightarrow> string \<Rightarrow> ('r, unit) eff"
  go_checkout_head :: "('r, unit) eff"

section \<open>What a repository shows\<close>

definition head_tip :: "git_repo \<Rightarrow> nat option" where
  "head_tip v = map_of (gr_branches v) (gr_head v)"

definition committed_on :: "string \<Rightarrow> git_commit \<Rightarrow> git_repo \<Rightarrow> git_repo" where
  "committed_on branch c v =
     v\<lparr>gr_commits := gr_commits v @ [c],
       gr_branches := AList.update branch (length (gr_commits v)) (gr_branches v)\<rparr>"

definition git_committed :: "git_commit \<Rightarrow> git_repo \<Rightarrow> git_repo" where
  "git_committed c v = committed_on (gr_head v) c v"

text \<open>The branch a commit call updates: a named one, or what \<open>HEAD\<close> points to.\<close>

definition commit_branch :: "string option \<Rightarrow> git_repo \<Rightarrow> string" where
  "commit_branch ref v = (case ref of None \<Rightarrow> gr_head v | Some b \<Rightarrow> b)"

definition git_renamed :: "string \<Rightarrow> string \<Rightarrow> git_repo \<Rightarrow> git_repo" where
  "git_renamed old new v =
     (case map_of (gr_branches v) old of
        None \<Rightarrow> v
      | Some oid \<Rightarrow>
          v\<lparr>gr_branches := AList.update new oid (AList.delete old (gr_branches v)),
            gr_head := (if gr_head v = old then new else gr_head v)\<rparr>)"

text \<open>A call that changes nothing a repository shows, and whose result when it succeeds is \<open>x\<close>.\<close>

definition git_pure :: "('r \<Rightarrow> git_repo) \<Rightarrow> ('r, 'a) eff \<Rightarrow> 'a \<Rightarrow> bool" where
  "git_pure view m x \<longleftrightarrow> (\<forall>r. view (snd (m r)) = view r \<and> (\<forall>y. fst (m r) = Inr y \<longrightarrow> y = x))"

text \<open>A call that on success changes what is shown by \<open>f\<close> and otherwise changes nothing.\<close>

definition git_change :: "('r \<Rightarrow> git_repo) \<Rightarrow> ('r, 'a) eff \<Rightarrow> (git_repo \<Rightarrow> git_repo) \<Rightarrow> bool" where
  "git_change view m f \<longleftrightarrow>
     (\<forall>r. view (snd (m r)) = (case fst (m r) of Inl _ \<Rightarrow> view r | Inr _ \<Rightarrow> f (view r)))"

text \<open>What is stored: the trees of commits, and all that is in them.\<close>

inductive git_within :: "git_obj \<Rightarrow> git_obj \<Rightarrow> bool" where
  within_self: "git_within x x"
| within_entry: "map_of t n = Some y \<Longrightarrow> git_within y z \<Longrightarrow> git_within (GTree t) z"

definition holds :: "git_repo \<Rightarrow> git_obj \<Rightarrow> bool" where
  "holds v x \<longleftrightarrow> (\<exists>c \<in> set (gr_commits v). git_within (GTree (gc_tree c)) x)"

fun tree_path :: "git_tree \<Rightarrow> string list \<Rightarrow> git_obj option" where
  "tree_path t [] = None"
| "tree_path t [n] = map_of t n"
| "tree_path t (n # m # ns) = (case map_of t n of Some (GTree t') \<Rightarrow> tree_path t' (m # ns) | _ \<Rightarrow> None)"

text \<open>From the view \<open>v\<close> the call changes nothing, and succeeds with \<open>x\<close> or, when there is none, fails.\<close>

definition git_answers :: "('r \<Rightarrow> git_repo) \<Rightarrow> git_repo \<Rightarrow> ('r, 'a) eff \<Rightarrow> 'a option \<Rightarrow> bool" where
  "git_answers view v m x \<longleftrightarrow> (\<forall>r. view r = v \<longrightarrow> view (snd (m r)) = v \<and> result_ok (fst (m r)) = x)"

definition git_readable :: "'r git_ops \<Rightarrow> ('r \<Rightarrow> git_repo) \<Rightarrow> bool" where
  "git_readable git view \<longleftrightarrow>
     (\<forall>r. go_head git r = head_tip (view r)) \<and>
     (\<forall>v oid. oid < length (gr_commits v) \<longrightarrow>
        git_answers view v (go_find_commit git oid) (Some ()) \<and>
        git_answers view v (go_commit_tree git oid) (Some (gc_tree (gr_commits v ! oid)))) \<and>
     (\<forall>v t. holds v (GTree t) \<longrightarrow>
        git_answers view v (go_find_tree git (GTree t)) (Some t) \<and>
        (\<forall>path. git_answers view v (go_get_path git t path) (tree_path t path))) \<and>
     (\<forall>v x. holds v x \<longrightarrow>
        git_answers view v (go_find_blob git x) (case x of GBlob d \<Rightarrow> Some d | GTree _ \<Rightarrow> None))"

definition git_documented :: "'r git_ops \<Rightarrow> ('r \<Rightarrow> git_repo) \<Rightarrow> bool" where
  "git_documented git view \<longleftrightarrow>
     git_readable git view \<and>
     (\<forall>oid. git_pure view (go_find_commit git oid) ()) \<and>
     (\<forall>n r. go_has_branch git n r \<longleftrightarrow> map_of (gr_branches (view r)) n \<noteq> None) \<and>
     (\<forall>d. git_pure view (go_blob git d) (GBlob d)) \<and>
     (\<forall>b. git_pure view (go_treebuilder git b) (case b of None \<Rightarrow> [] | Some t \<Rightarrow> t)) \<and>
     (\<forall>n obj tb. git_pure view (go_insert git n obj tb) (AList.update n obj tb)) \<and>
     (\<forall>tb. git_pure view (go_write_tree git tb) (GTree tb)) \<and>
     (\<forall>t. git_pure view (go_find_tree git (GTree t)) t) \<and>
     (\<forall>n e. git_pure view (go_signature git n e) (n, e)) \<and>
     (\<forall>ref c r. view (snd (go_commit git ref c r)) =
        (case fst (go_commit git ref c r) of
           Inl _ \<Rightarrow> view r | Inr _ \<Rightarrow> committed_on (commit_branch ref (view r)) c (view r))) \<and>
     (\<forall>ref c r oid. fst (go_commit git ref c r) = Inr oid \<longrightarrow>
        oid = length (gr_commits (view r)) \<and>
        map_of (gr_branches (view r)) (commit_branch ref (view r)) = (case gc_parents c of [] \<Rightarrow> None | p # _ \<Rightarrow> Some p)) \<and>
     (\<forall>n oid force. git_change view (go_branch git n oid force)
        (\<lambda>v. v\<lparr>gr_branches := AList.update n oid (gr_branches v)\<rparr>)) \<and>
     (\<forall>n oid r u. fst (go_branch git n oid False r) = Inr u \<longrightarrow> map_of (gr_branches (view r)) n = None) \<and>
     (\<forall>old new. git_change view (go_rename_branch git old new) (git_renamed old new)) \<and>
     (\<forall>old new r u. fst (go_rename_branch git old new r) = Inr u \<longrightarrow> map_of (gr_branches (view r)) new = None) \<and>
     git_pure view (go_checkout_head git) ()"

lemma git_documentedD:
  assumes "git_documented git view"
  shows "go_head git r = head_tip (view r)"
    and "git_pure view (go_find_commit git oid) ()"
    and "go_has_branch git n r \<longleftrightarrow> map_of (gr_branches (view r)) n \<noteq> None"
    and "git_pure view (go_blob git d) (GBlob d)"
    and "git_pure view (go_treebuilder git b) (case b of None \<Rightarrow> [] | Some t \<Rightarrow> t)"
    and "git_pure view (go_insert git n obj tb) (AList.update n obj tb)"
    and "git_pure view (go_write_tree git tb) (GTree tb)"
    and "git_pure view (go_find_tree git (GTree tb)) tb"
    and "git_pure view (go_signature git n e) (n, e)"
    and "view (snd (go_commit git None c r)) =
        (case fst (go_commit git None c r) of Inl _ \<Rightarrow> view r | Inr _ \<Rightarrow> git_committed c (view r))"
    and "fst (go_commit git None c r) = Inr oid \<Longrightarrow>
        oid = length (gr_commits (view r)) \<and>
        head_tip (view r) = (case gc_parents c of [] \<Rightarrow> None | p # _ \<Rightarrow> Some p)"
    and "git_change view (go_branch git n oid force) (\<lambda>v. v\<lparr>gr_branches := AList.update n oid (gr_branches v)\<rparr>)"
    and "fst (go_branch git n oid False r) = Inr u \<Longrightarrow> map_of (gr_branches (view r)) n = None"
    and "git_change view (go_rename_branch git old new) (git_renamed old new)"
    and "git_pure view (go_checkout_head git) ()"
    and "fst (go_rename_branch git old new r) = Inr u \<Longrightarrow> map_of (gr_branches (view r)) new = None"
    and "view (snd (go_commit git (Some br) c r)) =
        (case fst (go_commit git (Some br) c r) of Inl _ \<Rightarrow> view r | Inr _ \<Rightarrow> committed_on br c (view r))"
proof -
  have c: "view (snd (go_commit git ref c r)) = (case fst (go_commit git ref c r) of
        Inl _ \<Rightarrow> view r | Inr _ \<Rightarrow> committed_on (commit_branch ref (view r)) c (view r))"
      "fst (go_commit git ref c r) = Inr oid \<Longrightarrow> oid = length (gr_commits (view r)) \<and>
        map_of (gr_branches (view r)) (commit_branch ref (view r)) = (case gc_parents c of [] \<Rightarrow> None | p # _ \<Rightarrow> Some p)"
    for ref using assms unfolding git_documented_def by blast+
  show "view (snd (go_commit git None c r)) =
        (case fst (go_commit git None c r) of Inl _ \<Rightarrow> view r | Inr _ \<Rightarrow> git_committed c (view r))"
      "view (snd (go_commit git (Some br) c r)) =
        (case fst (go_commit git (Some br) c r) of Inl _ \<Rightarrow> view r | Inr _ \<Rightarrow> committed_on br c (view r))"
    by (simp_all add: c(1) commit_branch_def git_committed_def split: sum.split)
  show "fst (go_commit git None c r) = Inr oid \<Longrightarrow> oid = length (gr_commits (view r)) \<and>
        head_tip (view r) = (case gc_parents c of [] \<Rightarrow> None | p # _ \<Rightarrow> Some p)"
    using c(2) [of None] by (simp add: commit_branch_def head_tip_def)
qed (use assms in \<open>auto simp: git_documented_def git_readable_def\<close>)

lemma git_readableD:
  assumes "git_documented git view"
  shows "oid < length (gr_commits v) \<Longrightarrow> git_answers view v (go_find_commit git oid) (Some ())"
    and "oid < length (gr_commits v) \<Longrightarrow> git_answers view v (go_commit_tree git oid) (Some (gc_tree (gr_commits v ! oid)))"
    and "holds v (GTree t) \<Longrightarrow> git_answers view v (go_find_tree git (GTree t)) (Some t)"
    and "holds v (GTree t) \<Longrightarrow> git_answers view v (go_get_path git t path) (tree_path t path)"
    and "holds v x \<Longrightarrow> git_answers view v (go_find_blob git x) (case x of GBlob d \<Rightarrow> Some d | GTree _ \<Rightarrow> None)"
  using assms by (simp_all add: git_documented_def git_readable_def)

lemma git_within_trans: "git_within x y \<Longrightarrow> git_within y z \<Longrightarrow> git_within x z"
  by (induction rule: git_within.induct) (auto intro: within_entry)

lemma holds_entry: "holds v (GTree t) \<Longrightarrow> map_of t n = Some x \<Longrightarrow> holds v x"
  unfolding holds_def by (blast intro: git_within_trans within_entry within_self)

lemma holds_path: "holds v (GTree t) \<Longrightarrow> tree_path t ns = Some x \<Longrightarrow> holds v x"
  by (induction t ns rule: tree_path.induct) (auto intro: holds_entry split: option.splits git_obj.splits)

lemma holds_commit: "oid < length (gr_commits v) \<Longrightarrow> holds v (GTree (gc_tree (gr_commits v ! oid)))"
  unfolding holds_def by (rule bexI [of _ "gr_commits v ! oid"]) (auto intro: within_self)

section \<open>What is in a tree\<close>

definition subtree_at :: "git_tree \<Rightarrow> string \<Rightarrow> git_tree option" where
  "subtree_at tree name = (case map_of tree name of Some (GTree t) \<Rightarrow> Some t | _ \<Rightarrow> None)"

definition blob_at :: "git_tree \<Rightarrow> string \<Rightarrow> string option" where
  "blob_at tree name = (case map_of tree name of Some (GBlob d) \<Rightarrow> Some d | _ \<Rightarrow> None)"

lemma subtree_at_update:
  "subtree_at (AList.update k (GTree t) tree) n = (if n = k then Some t else subtree_at tree n)"
  "n \<noteq> k \<Longrightarrow> subtree_at (AList.update k v tree) n = subtree_at tree n"
  "n \<noteq> k \<Longrightarrow> subtree_at (AList.delete k tree) n = subtree_at tree n"
  by (simp_all add: subtree_at_def update_conv' delete_conv')

lemma blob_at_update:
  "blob_at (AList.update k (GBlob d) tree) n = (if n = k then Some d else blob_at tree n)"
  by (simp add: blob_at_def update_conv')

lemma holds_subtree: "holds v (GTree t) \<Longrightarrow> subtree_at t n = Some t' \<Longrightarrow> holds v (GTree t')"
  by (auto simp: subtree_at_def intro: holds_entry split: option.splits git_obj.splits)

section \<open>A repository in memory\<close>

text \<open>
  An implementation of the calls that does what is documented, over which concrete runs are computed:
  writing calls are counted, and \<open>fault\<close> says which of them fail and how; what is stored can be read.
\<close>

definition ref_call :: "(nat \<Rightarrow> string option) \<Rightarrow> (git_repo \<Rightarrow> 'a \<times> git_repo) \<Rightarrow> (git_repo sql_world, 'a) eff" where
  "ref_call fault f = sql fault [] f"

definition ref_commit :: "(nat \<Rightarrow> string option) \<Rightarrow> string option \<Rightarrow> git_commit \<Rightarrow> (git_repo sql_world, nat) eff" where
  "ref_commit fault ref c w =
     (if map_of (gr_branches (sw_data w)) (commit_branch ref (sw_data w)) =
         (case gc_parents c of [] \<Rightarrow> None | p # _ \<Rightarrow> Some p)
      then ref_call fault (\<lambda>v. (length (gr_commits v), committed_on (commit_branch ref v) c v)) w
      else (Inl ''current tip is not the first parent'', w))"

definition ref_git :: "(nat \<Rightarrow> string option) \<Rightarrow> git_repo sql_world git_ops" where
  "ref_git fault =
     \<lparr>go_head = (\<lambda>w. head_tip (sw_data w)),
      go_find_commit = (\<lambda>oid w. (if oid < length (gr_commits (sw_data w)) then Inr () else Inl ''not found'', w)),
      go_commit_tree = (\<lambda>oid w.
        (if oid < length (gr_commits (sw_data w)) then Inr (gc_tree (gr_commits (sw_data w) ! oid)) else Inl ''not found'', w)),
      go_has_branch = (\<lambda>n w. map_of (gr_branches (sw_data w)) n \<noteq> None),
      go_blob = (\<lambda>d. ref_call fault (\<lambda>v. (GBlob d, v))),
      go_treebuilder = (\<lambda>b. ref_call fault (\<lambda>v. (case b of None \<Rightarrow> [] | Some t \<Rightarrow> t, v))),
      go_insert = (\<lambda>n obj tb. ref_call fault (\<lambda>v. (AList.update n obj tb, v))),
      go_write_tree = (\<lambda>tb. ref_call fault (\<lambda>v. (GTree tb, v))),
      go_find_tree = (\<lambda>obj. case obj of GTree t \<Rightarrow> eret t | GBlob _ \<Rightarrow> efail ''not a tree''),
      go_find_blob = (\<lambda>obj. case obj of GTree _ \<Rightarrow> efail ''not a blob'' | GBlob d \<Rightarrow> eret d),
      go_get_path = (\<lambda>t path. elift (ok_or ''not found'' (tree_path t path))),
      go_signature = (\<lambda>n e. ref_call fault (\<lambda>v. ((n, e), v))),
      go_commit = ref_commit fault,
      go_branch = (\<lambda>n oid force w.
        if map_of (gr_branches (sw_data w)) n \<noteq> None \<and> \<not> force then (Inl ''branch exists'', w)
        else ref_call fault (\<lambda>v. ((), v\<lparr>gr_branches := AList.update n oid (gr_branches v)\<rparr>)) w),
      go_rename_branch = (\<lambda>old new w.
        if map_of (gr_branches (sw_data w)) new \<noteq> None then (Inl ''branch exists'', w)
        else ref_call fault (\<lambda>v. ((), git_renamed old new v)) w),
      go_checkout_head = ref_call fault (\<lambda>v. ((), v))\<rparr>"

lemma ref_call_pure: "git_pure sw_data (ref_call fault (\<lambda>v. (x, v))) x"
  by (auto simp: git_pure_def ref_call_def sql_def split: option.split)

lemma ref_git_readable: "git_readable (ref_git fault) sw_data"
  by (auto simp: git_readable_def ref_git_def git_answers_def ok_or_def result_ok_def split: git_obj.split option.split)

lemma ref_git_documented: "git_documented (ref_git fault) sw_data"
  unfolding git_documented_def
  by (intro conjI ref_git_readable; unfold ref_git_def git_ops.simps; (intro allI impI)?; (rule ref_call_pure)?)
    (auto simp: git_pure_def git_change_def ref_commit_def ref_call_def sql_def split: option.splits if_splits)

end
