(* ===== verification/GitDag.thy ===== *)
theory GitDag
  imports Git Recording Registry NatsRouting "HOL-Library.List_Lexorder" "HOL-Library.Char_ord"
begin

text \<open>
  The DAG worker that writes every message as a git commit (\<open>crates/vlinder-git-dag/src/git_dag.rs\<close>), over
  any implementation \<open>git\<close> of libgit2's calls, and the daemon's loop that feeds it
  (\<open>run_dag_git_worker\<close> in \<open>crates/vlinderd/src/worker_async.rs\<close>).  A handler logs its error and returns.
\<close>

section \<open>The worker\<close>

text \<open>The serialisers and formatters beyond those of the recording queue; an error of one is \<open>None\<close>.\<close>

record git_ext = rec_ext +
  gx_svc_request_diag_json :: "svc_request_diagnostics \<Rightarrow> bytes option"
  gx_svc_response_diag_json :: "svc_response_diagnostics \<Rightarrow> bytes option"
  gx_invoke_diag_toml :: "invoke_diagnostics \<Rightarrow> (string, string) rust_result"
  gx_runtime_diag_toml :: "runtime_diagnostics \<Rightarrow> (string, string) rust_result"
  gx_request_diag_toml :: "request_diagnostics \<Rightarrow> (string, string) rust_result"
  gx_service_diag_toml :: "service_diagnostics \<Rightarrow> (string, string) rust_result"
  gx_svc_request_diag_toml :: "svc_request_diagnostics \<Rightarrow> (string, string) rust_result"
  gx_svc_response_diag_toml :: "svc_response_diagnostics \<Rightarrow> (string, string) rust_result"
  gx_agent_toml :: "agent \<Rightarrow> string option"
  gx_model_toml :: "model \<Rightarrow> string option"
  gx_rfc3339 :: "timestamp \<Rightarrow> string"
  gx_epoch :: "timestamp \<Rightarrow> int"
  gx_lossy :: "bytes \<Rightarrow> string"
  gx_sealed_name :: "timestamp \<Rightarrow> string"
  gx_version :: string
  gx_git_sha :: string

record git_worker =
  gw_registry_host :: string
  gw_registry :: "registry_state option"

definition git_ctx :: "string \<Rightarrow> ('r, 'a) eff \<Rightarrow> ('r, 'a) eff" where
  "git_ctx context m r = (case m r of (x, r') \<Rightarrow> (map_sum (\<lambda>e. context @ e) id x, r'))"

text \<open>Creating the empty first commit when the repository is fresh; \<open>now\<close> is in seconds.\<close>

definition git_open :: "'r git_ops \<Rightarrow> int \<Rightarrow> ('r, unit) eff" where
  "git_open git now r =
     (if go_head git r = None
      then ebind (git_ctx ''empty tree failed: '' (ebind (go_treebuilder git None) (\<lambda>tb.
             ebind (go_write_tree git tb) (go_find_tree git)))) (\<lambda>empty_tree.
           ebind (git_ctx ''signature failed: '' (go_signature git ''vlinder'' ''vlinder@localhost'')) (\<lambda>sig.
           ebind (git_ctx ''initial commit failed: '' (go_commit git (Some ''main'')
             \<lparr>gc_tree = empty_tree, gc_parents = [], gc_author = sig, gc_committer = sig, gc_time = now,
              gc_message = ''Initialize conversations repository''\<rparr>)) (\<lambda>_. eret ()))) r
      else (Inr (), r))"

section \<open>Reading a session\<close>

definition ascii_digit :: "char \<Rightarrow> bool" where
  "ascii_digit c = (let n = (of_char c :: nat) in 48 \<le> n \<and> n \<le> 57)"

definition message_dir_name :: "string \<Rightarrow> bool" where
  "message_dir_name n \<longleftrightarrow> length n \<ge> 4 \<and> list_all ascii_digit (take 3 n) \<and> n ! 3 = CHR ''-''"

definition message_dirs :: "git_tree \<Rightarrow> git_tree" where
  "message_dirs session_tree = filter (\<lambda>(n, e). (case e of GTree _ \<Rightarrow> True | GBlob _ \<Rightarrow> False) \<and> message_dir_name n) session_tree"

definition session_message_count :: "git_tree \<Rightarrow> nat" where
  "session_message_count session_tree = length (message_dirs session_tree)"

text \<open>A subtree that cannot be read is taken for one that is not there (\<open>.ok()\<close>).\<close>

definition get_subtree :: "'r git_ops \<Rightarrow> git_tree \<Rightarrow> string \<Rightarrow> ('r, git_tree option) eff" where
  "get_subtree git tree name =
     (case map_of tree name of
        Some (GTree t) \<Rightarrow> ebind (ecatch (go_find_tree git (GTree t))) (\<lambda>x. eret (result_ok x))
      | _ \<Rightarrow> eret None)"

text \<open>The hash of the last message, or nothing when any step of the way to it cannot be read.\<close>

definition session_canonical_hash ::
    "'r git_ops \<Rightarrow> (bytes \<Rightarrow> string) \<Rightarrow> git_tree \<Rightarrow> string \<Rightarrow> string \<Rightarrow> ('r, string) eff" where
  "session_canonical_hash git lossy root_tree agent_name session_id =
     ebind (get_subtree git root_tree agent_name) (\<lambda>x.
       case x of None \<Rightarrow> eret [] | Some agent_tree \<Rightarrow>
     ebind (get_subtree git agent_tree session_id) (\<lambda>y.
       case y of None \<Rightarrow> eret [] | Some session_tree \<Rightarrow>
     (let msg_dirs = sort (map fst (message_dirs session_tree))
      in if msg_dirs = [] then eret []
         else ebind (ecatch (go_get_path git root_tree [agent_name, session_id, last msg_dirs, ''hash''])) (\<lambda>entry.
           case entry of Inl _ \<Rightarrow> eret [] | Inr obj \<Rightarrow>
         ebind (ecatch (go_find_blob git obj)) (\<lambda>blob.
           case blob of Inl _ \<Rightarrow> eret [] | Inr content \<Rightarrow> eret (lossy content))))))"

definition resolve_canonical_parent :: "'r git_ops \<Rightarrow> git_ext \<Rightarrow> string \<Rightarrow> string \<Rightarrow> ('r, dag_node_id) eff" where
  "resolve_canonical_parent git ext agent_name session_id r =
     (case go_head git r of
        None \<Rightarrow> (Inr dag_node_id_root, r)
      | Some oid \<Rightarrow>
          ebind (git_ctx ''find commit failed: '' (go_find_commit git oid)) (\<lambda>_.
          ebind (git_ctx ''tree lookup failed: '' (go_commit_tree git oid)) (\<lambda>tree.
            session_canonical_hash git (gx_lossy ext) tree agent_name session_id)) r)"

section \<open>Writing fields\<close>

definition write_blob :: "'r git_ops \<Rightarrow> string \<Rightarrow> ('r, git_obj) eff" where
  "write_blob git data = git_ctx ''blob write failed: '' (go_blob git data)"

definition insert_field :: "'r git_ops \<Rightarrow> git_tree \<Rightarrow> string \<Rightarrow> string \<Rightarrow> ('r, git_tree) eff" where
  "insert_field git tb name v =
     ebind (write_blob git v) (\<lambda>oid.
       git_ctx (''insert field '' @ [CHR 0x27] @ name @ [CHR 0x27] @ '' failed: '') (go_insert git name oid tb))"

text \<open>Consecutive calls of \<open>insert_field\<close>; a field under \<open>if let Some\<close> is there or not.\<close>

fun insert_fields :: "'r git_ops \<Rightarrow> git_tree \<Rightarrow> (string \<times> string) list \<Rightarrow> ('r, git_tree) eff" where
  "insert_fields git tb [] = eret tb"
| "insert_fields git tb ((name, v) # fs) = ebind (insert_field git tb name v) (\<lambda>tb. insert_fields git tb fs)"

definition opt_field :: "string \<Rightarrow> string option \<Rightarrow> (string \<times> string) list" where
  "opt_field name v = (case v of None \<Rightarrow> [] | Some x \<Rightarrow> [(name, x)])"

definition insert_diagnostics_toml :: "'r git_ops \<Rightarrow> git_tree \<Rightarrow> (string, string) rust_result \<Rightarrow> ('r, git_tree) eff" where
  "insert_diagnostics_toml git tb toml =
     ebind (git_ctx ''diagnostics TOML serialize failed: '' (elift toml)) (\<lambda>toml_str.
     ebind (write_blob git toml_str) (\<lambda>oid.
       git_ctx ''insert diagnostics.toml failed: '' (go_insert git ''diagnostics.toml'' oid tb)))"

definition insert_common_fields ::
    "'r git_ops \<Rightarrow> git_ext \<Rightarrow> git_tree \<Rightarrow> string \<Rightarrow> string \<Rightarrow> timestamp \<Rightarrow> ('r, git_tree) eff" where
  "insert_common_fields git ext tb session_id submission_id created_at =
     insert_fields git tb
       [(''session_id'', session_id), (''submission_id'', submission_id), (''protocol_version'', ''v1''),
        (''created_at'', gx_rfc3339 ext created_at)]"

definition insert_payload :: "'r git_ops \<Rightarrow> git_tree \<Rightarrow> bytes \<Rightarrow> ('r, git_tree) eff" where
  "insert_payload git tb payload =
     ebind (write_blob git payload) (\<lambda>oid. git_ctx ''insert payload failed: '' (go_insert git ''payload'' oid tb))"

section \<open>Nesting and committing\<close>

definition pad3 :: "nat \<Rightarrow> string" where
  "pad3 n = replicate (3 - length (show_nat n)) CHR ''0'' @ show_nat n"

definition next_seq :: "git_tree option \<Rightarrow> nat" where
  "next_seq session_tree = (case session_tree of None \<Rightarrow> 0 | Some t \<Rightarrow> session_message_count t) + 1"

text \<open>The index file of a timeline is started anew when the old one cannot be read.\<close>

definition timeline_content ::
    "'r git_ops \<Rightarrow> (bytes \<Rightarrow> string) \<Rightarrow> git_tree option \<Rightarrow> string \<Rightarrow> string \<Rightarrow> ('r, string) eff" where
  "timeline_content git lossy timelines active msg_dir =
     (case Option.bind timelines (\<lambda>t. map_of t active) of
        None \<Rightarrow> eret msg_dir
      | Some obj \<Rightarrow> ebind (ecatch (go_find_blob git obj)) (\<lambda>blob.
          eret (case blob of Inl _ \<Rightarrow> msg_dir | Inr existing \<Rightarrow> lossy existing @ [CHR 0x0A] @ msg_dir)))"

definition nest_session ::
    "'r git_ops \<Rightarrow> git_ext \<Rightarrow> git_tree option \<Rightarrow> git_tree option \<Rightarrow> git_obj \<Rightarrow> string \<Rightarrow> string \<Rightarrow> ('r, git_obj) eff" where
  "nest_session git ext session_tree timelines msg_tree msg_dir active_timeline =
     ebind (git_ctx ''session treebuilder failed: '' (go_treebuilder git session_tree)) (\<lambda>session_tb.
     let session_tb = AList.delete ''timelines'' session_tb in
     ebind (git_ctx ''insert message dir failed: '' (go_insert git msg_dir msg_tree session_tb)) (\<lambda>session_tb.
     ebind (git_ctx ''timelines treebuilder failed: '' (go_treebuilder git timelines)) (\<lambda>timelines_tb.
     ebind (timeline_content git (gx_lossy ext) timelines active_timeline msg_dir) (\<lambda>content.
     ebind (write_blob git content) (\<lambda>timeline_oid.
     ebind (git_ctx (''insert timeline '' @ [CHR 0x27] @ active_timeline @ [CHR 0x27] @ '' failed: '')
       (go_insert git active_timeline timeline_oid timelines_tb)) (\<lambda>timelines_tb.
     ebind (write_blob git active_timeline) (\<lambda>active_oid.
     ebind (git_ctx ''insert ACTIVE failed: '' (go_insert git ''ACTIVE'' active_oid timelines_tb)) (\<lambda>timelines_tb.
     ebind (git_ctx ''write timelines tree failed: '' (go_write_tree git timelines_tb)) (\<lambda>timelines_oid.
     ebind (git_ctx ''insert timelines dir failed: '' (go_insert git ''timelines'' timelines_oid session_tb)) (\<lambda>session_tb.
       git_ctx ''write session tree failed: '' (go_write_tree git session_tb)))))))))))"

text \<open>A write and an insertion whose errors are dropped.\<close>

definition try_insert :: "'r git_ops \<Rightarrow> string \<Rightarrow> string \<Rightarrow> git_tree \<Rightarrow> ('r, git_tree) eff" where
  "try_insert git name content tb r =
     (case write_blob git content r of
        (Inl _, r') \<Rightarrow> (Inr tb, r')
      | (Inr oid, r') \<Rightarrow> (case go_insert git name oid tb r' of (x, r'') \<Rightarrow> (Inr (case x of Inl _ \<Rightarrow> tb | Inr tb' \<Rightarrow> tb'), r'')))"

fun model_entries ::
    "'r git_ops \<Rightarrow> git_ext \<Rightarrow> registry_state \<Rightarrow> (string \<times> string) list \<Rightarrow> bool \<Rightarrow> git_tree \<Rightarrow> ('r, bool \<times> git_tree) eff" where
  "model_entries git ext reg [] has_entries tb = eret (has_entries, tb)"
| "model_entries git ext reg ((model_alias, model_name) # ms) has_entries tb =
     (case Option.bind (get_model model_name reg) (gx_model_toml ext) of
        None \<Rightarrow> model_entries git ext reg ms has_entries tb
      | Some model_toml \<Rightarrow>
          ebind (write_blob git model_toml) (\<lambda>oid.
          ebind (git_ctx ''insert model failed: ''
            (go_insert git (map (\<lambda>c. if c = CHR ''/'' then CHR ''-'' else c) model_alias @ ''.toml'') oid tb)) (\<lambda>tb.
            model_entries git ext reg ms True tb)))"

definition build_models_subtree ::
    "'r git_ops \<Rightarrow> git_ext \<Rightarrow> registry_state \<Rightarrow> (string \<times> string) list \<Rightarrow> ('r, git_obj) eff" where
  "build_models_subtree git ext reg models =
     ebind (git_ctx ''treebuilder failed: '' (go_treebuilder git None)) (\<lambda>tb.
     ebind (model_entries git ext reg models False tb) (\<lambda>(has_entries, tb).
       if \<not> has_entries then efail ''no models to write''
       else git_ctx ''write models subtree failed: '' (go_write_tree git tb)))"

definition platform_toml :: "git_ext \<Rightarrow> git_worker \<Rightarrow> string" where
  "platform_toml ext gw =
     ''version = '' @ [CHR 0x22] @ gx_version ext @ [CHR 0x22, CHR 0x0A] @
     ''commit = '' @ [CHR 0x22] @ gx_git_sha ext @ [CHR 0x22, CHR 0x0A] @
     ''registry_host = '' @ [CHR 0x22] @ gw_registry_host gw @ [CHR 0x22, CHR 0x0A]"

definition root_metadata :: "'r git_ops \<Rightarrow> git_ext \<Rightarrow> git_worker \<Rightarrow> string \<Rightarrow> git_tree \<Rightarrow> ('r, git_tree) eff" where
  "root_metadata git ext gw agent_name root_tb =
     (let root_tb = AList.delete ''models'' (AList.delete ''platform.toml'' (AList.delete ''agent.toml'' root_tb))
      in case gw_registry gw of
           None \<Rightarrow> eret root_tb
         | Some reg \<Rightarrow>
             ebind (case get_agent_by_name agent_name reg of
                None \<Rightarrow> eret root_tb
              | Some a \<Rightarrow>
                  ebind (case gx_agent_toml ext a of None \<Rightarrow> eret root_tb | Some t \<Rightarrow> try_insert git ''agent.toml'' t root_tb)
                    (\<lambda>root_tb.
                  if req_models (ag_requirements a) = [] then eret root_tb
                  else ebind (ecatch (build_models_subtree git ext reg (req_models (ag_requirements a)))
                           :: ('r, (string, git_obj) rust_result) eff) (\<lambda>x.
                    case x of
                      Inl _ \<Rightarrow> eret root_tb
                    | Inr oid \<Rightarrow>
                        ebind (ecatch (go_insert git ''models'' oid root_tb) :: ('r, (string, git_tree) rust_result) eff)
                          (\<lambda>y. eret (case y of Inl _ \<Rightarrow> root_tb | Inr tb \<Rightarrow> tb))))) (\<lambda>root_tb.
               try_insert git ''platform.toml'' (platform_toml ext gw) root_tb))"

definition git_commit_message ::
    "string \<Rightarrow> string \<Rightarrow> string \<Rightarrow> string \<Rightarrow> string \<Rightarrow> string option \<Rightarrow> string option \<Rightarrow> string \<Rightarrow> string" where
  "git_commit_message msg_type sender recipient session_id submission state checkpoint protocol_version =
     msg_type @ '': '' @ sender @ [CHR 0x20, CHR 0xE2, CHR 0x86, CHR 0x92, CHR 0x20] @ recipient @ [CHR 0x0A, CHR 0x0A] @
     ''Session: '' @ session_id @ [CHR 0x0A] @ ''Submission: '' @ submission @
     (case state of None \<Rightarrow> [] | Some st \<Rightarrow> [CHR 0x0A] @ ''State: '' @ st) @
     (case checkpoint of None \<Rightarrow> [] | Some cp \<Rightarrow> [CHR 0x0A] @ ''Checkpoint: '' @ cp) @
     (if protocol_version = [] then [] else [CHR 0x0A] @ ''Protocol-Version: '' @ protocol_version)"

text \<open>After the commit: the branch of a fork, the renaming of a promote, the working tree.\<close>

definition after_commit ::
    "'r git_ops \<Rightarrow> git_ext \<Rightarrow> timestamp \<Rightarrow> string \<Rightarrow> string option \<Rightarrow> nat \<Rightarrow> ('r, unit) eff" where
  "after_commit git ext now msg_type fork_branch commit_oid =
     ebind (case fork_branch of
         None \<Rightarrow> eret ()
       | Some branch_name \<Rightarrow>
           ebind (git_ctx ''find fork commit failed: '' (go_find_commit git commit_oid)) (\<lambda>_.
             git_ctx (''create branch '' @ [CHR 0x27] @ branch_name @ [CHR 0x27] @ '' failed: '')
               (go_branch git branch_name commit_oid False))) (\<lambda>_.
     ebind (if msg_type \<noteq> ''promote'' then eret ()
       else ebind (git_ctx ''find promote commit failed: '' (go_find_commit git commit_oid)) (\<lambda>_ r. ebind (if go_has_branch git ''main'' r
             then git_ctx (''rename main to '' @ [CHR 0x27] @ gx_sealed_name ext now @ [CHR 0x27] @ '' failed: '')
                    (go_rename_branch git ''main'' (gx_sealed_name ext now))
             else eret ()) (\<lambda>_.
           git_ctx ''create promoted main branch failed: '' (go_branch git ''main'' commit_oid True)) r)) (\<lambda>_.
       git_ctx ''checkout HEAD failed: '' (go_checkout_head git)))"

text \<open>What the callers pass along; \<open>nm_now\<close> is the clock a promote reads for the sealed name.\<close>

record nest_message =
  nm_agent :: string
  nm_session :: string
  nm_from :: string
  nm_to :: string
  nm_type :: string
  nm_timeline :: string
  nm_created_at :: timestamp
  nm_submission :: string
  nm_state :: "string option"
  nm_checkpoint :: "string option"
  nm_protocol :: string
  nm_fork_branch :: "string option"
  nm_now :: timestamp

text \<open>What is read of the parent: its tree, its subtrees, and in the end the commit itself once more.\<close>

definition read_parent_tree :: "'r git_ops \<Rightarrow> nat option \<Rightarrow> ('r, git_tree option) eff" where
  "read_parent_tree git parent_oid =
     (case parent_oid of
        None \<Rightarrow> eret None
      | Some oid \<Rightarrow> ebind (ecatch (go_find_commit git oid)) (\<lambda>commit.
          case commit of
            Inl _ \<Rightarrow> eret None
          | Inr _ \<Rightarrow> ebind (ecatch (go_commit_tree git oid)) (\<lambda>tree. eret (result_ok tree))))"

definition subtree_of :: "'r git_ops \<Rightarrow> git_tree option \<Rightarrow> string \<Rightarrow> ('r, git_tree option) eff" where
  "subtree_of git tree name = (case tree of None \<Rightarrow> eret None | Some t \<Rightarrow> get_subtree git t name)"

definition read_parents :: "'r git_ops \<Rightarrow> nat option \<Rightarrow> ('r, nat list) eff" where
  "read_parents git parent_oid =
     (case parent_oid of
        None \<Rightarrow> eret []
      | Some oid \<Rightarrow> ebind (ecatch (go_find_commit git oid)) (\<lambda>commit.
          eret (case commit of Inl _ \<Rightarrow> [] | Inr _ \<Rightarrow> [oid])))"

definition nest_and_commit ::
    "'r git_ops \<Rightarrow> git_ext \<Rightarrow> git_worker \<Rightarrow> git_obj \<Rightarrow> nat option \<Rightarrow> nest_message \<Rightarrow> ('r, unit) eff" where
  "nest_and_commit git ext gw msg_tree parent_oid m =
     ebind (read_parent_tree git parent_oid) (\<lambda>parent_tree.
     ebind (subtree_of git parent_tree (nm_agent m)) (\<lambda>agent_tree.
     ebind (subtree_of git agent_tree (nm_session m)) (\<lambda>session_tree.
     ebind (subtree_of git session_tree ''timelines'') (\<lambda>timelines.
     let msg_dir = pad3 (next_seq session_tree) @ ''-'' @ nm_from m @ ''-'' @ nm_type m in
     ebind (nest_session git ext session_tree timelines msg_tree msg_dir (nm_timeline m)) (\<lambda>session_oid.
     ebind (git_ctx ''agent treebuilder failed: '' (go_treebuilder git agent_tree)) (\<lambda>agent_tb.
     ebind (git_ctx ''insert session dir failed: '' (go_insert git (nm_session m) session_oid agent_tb)) (\<lambda>agent_tb.
     ebind (git_ctx ''write agent tree failed: '' (go_write_tree git agent_tb)) (\<lambda>agent_oid.
     ebind (git_ctx ''root treebuilder failed: '' (go_treebuilder git parent_tree)) (\<lambda>root_tb.
     ebind (git_ctx ''insert agent dir failed: '' (go_insert git (nm_agent m) agent_oid root_tb)) (\<lambda>root_tb.
     ebind (root_metadata git ext gw (nm_agent m) root_tb) (\<lambda>root_tb.
     ebind (git_ctx ''write root tree failed: '' (go_write_tree git root_tb)) (\<lambda>tree_oid.
     ebind (git_ctx ''find tree failed: '' (go_find_tree git tree_oid)) (\<lambda>tree.
     ebind (git_ctx ''author signature failed: ''
       (go_signature git (nm_from m) (nm_from m @ ''@'' @ gw_registry_host gw))) (\<lambda>author.
     ebind (git_ctx ''committer signature failed: '' (go_signature git ''vlinder'' ''vlinder@localhost'')) (\<lambda>committer.
     ebind (read_parents git parent_oid) (\<lambda>parents.
     ebind (git_ctx ''commit failed: '' (go_commit git None
       \<lparr>gc_tree = tree, gc_parents = parents, gc_author = author, gc_committer = committer,
        gc_time = gx_epoch ext (nm_created_at m),
        gc_message = git_commit_message (nm_type m) (nm_from m) (nm_to m) (nm_session m) (nm_submission m)
          (nm_state m) (nm_checkpoint m) (nm_protocol m)\<rparr>)) (\<lambda>commit_oid.
       after_commit git ext (nm_now m) (nm_type m) (nm_fork_branch m) commit_oid)))))))))))))))))"

section \<open>Handlers\<close>

text \<open>
  The six data and service handlers build the same subtree: common fields, payload, their own fields,
  diagnostics, hash.
\<close>

definition message_subtree ::
    "'r git_ops \<Rightarrow> git_ext \<Rightarrow> string \<Rightarrow> string \<Rightarrow> timestamp \<Rightarrow> bytes \<Rightarrow> (string \<times> string) list \<Rightarrow>
     (string, string) rust_result \<Rightarrow> string \<Rightarrow> ('r, git_obj) eff" where
  "message_subtree git ext session_id submission created_at payload own diagnostics_toml canonical_hash =
     ebind (git_ctx ''treebuilder failed: '' (go_treebuilder git None)) (\<lambda>tb.
     ebind (insert_common_fields git ext tb session_id submission created_at) (\<lambda>tb.
     ebind (insert_payload git tb payload) (\<lambda>tb.
     ebind (insert_fields git tb own) (\<lambda>tb.
     ebind (insert_diagnostics_toml git tb diagnostics_toml) (\<lambda>tb.
     ebind (insert_field git tb ''hash'' canonical_hash) (\<lambda>tb.
       git_ctx ''write message subtree failed: '' (go_write_tree git tb)))))))"

definition git_hash :: "git_ext \<Rightarrow> bytes \<Rightarrow> dag_node_id \<Rightarrow> message_type \<Rightarrow> bytes option \<Rightarrow> session_id \<Rightarrow> dag_node_id" where
  "git_hash ext payload parent mt diagnostics session =
     hash_dag_node (rx_sha256 ext) payload parent mt (unwrap_or [] diagnostics) session"

definition on_invoke ::
    "'r git_ops \<Rightarrow> git_ext \<Rightarrow> git_worker \<Rightarrow> data_routing_key \<Rightarrow> invoke_message \<Rightarrow> timestamp \<Rightarrow> 'r \<Rightarrow> 'r" where
  "on_invoke git ext gw key invoke created_at r =
     (case dk_kind key of
        DkInvoke harness runtime agent_name \<Rightarrow>
          (let parent_oid = go_head git r; payload = unwrap_or [] (rx_invoke_json ext invoke)
           in snd (ebind (resolve_canonical_parent git ext agent_name (dk_session key)) (\<lambda>canonical_parent.
                ebind (message_subtree git ext (dk_session key) (dk_submission key) created_at payload
                  ([(''type'', ''invoke''), (''harness'', harness_as_str harness), (''runtime'', runtime_as_str runtime),
                    (''agent_id'', agent_name)] @ opt_field ''state'' (iv_state invoke))
                  (gx_invoke_diag_toml ext (iv_diagnostics invoke))
                  (git_hash ext payload canonical_parent MtInvoke (rx_invoke_diag_json ext (iv_diagnostics invoke))
                    (dk_session key))) (\<lambda>msg_tree.
                  nest_and_commit git ext gw msg_tree parent_oid
                    \<lparr>nm_agent = agent_name, nm_session = dk_session key, nm_from = harness_as_str harness,
                     nm_to = agent_name, nm_type = ''invoke'', nm_timeline = ''main'', nm_created_at = created_at,
                     nm_submission = dk_submission key, nm_state = iv_state invoke, nm_checkpoint = None,
                     nm_protocol = ''v1'', nm_fork_branch = None, nm_now = created_at\<rparr>)) r))
      | _ \<Rightarrow> r)"

definition on_complete ::
    "'r git_ops \<Rightarrow> git_ext \<Rightarrow> git_worker \<Rightarrow> data_routing_key \<Rightarrow> complete_message \<Rightarrow> timestamp \<Rightarrow> 'r \<Rightarrow> 'r" where
  "on_complete git ext gw key complete created_at r =
     (case dk_kind key of
        DkComplete agent_name harness \<Rightarrow>
          (let parent_oid = go_head git r; payload = cm_payload complete
           in snd (ebind (resolve_canonical_parent git ext agent_name (dk_session key)) (\<lambda>canonical_parent.
                ebind (message_subtree git ext (dk_session key) (dk_submission key) created_at payload
                  ([(''type'', ''complete''), (''harness'', harness_as_str harness), (''agent_id'', agent_name)] @
                    opt_field ''state'' (cm_state complete))
                  (gx_runtime_diag_toml ext (cm_diagnostics complete))
                  (git_hash ext payload canonical_parent MtComplete (rx_runtime_diag_json ext (cm_diagnostics complete))
                    (dk_session key))) (\<lambda>msg_tree.
                  nest_and_commit git ext gw msg_tree parent_oid
                    \<lparr>nm_agent = agent_name, nm_session = dk_session key, nm_from = agent_name,
                     nm_to = harness_as_str harness, nm_type = ''complete'', nm_timeline = ''main'',
                     nm_created_at = created_at, nm_submission = dk_submission key, nm_state = cm_state complete,
                     nm_checkpoint = None, nm_protocol = ''v1'', nm_fork_branch = None, nm_now = created_at\<rparr>)) r))
      | _ \<Rightarrow> r)"

definition service_name :: "service_backend \<Rightarrow> string" where
  "service_name b = service_type_as_str (service_backend_service_type b) @ ''.'' @ service_backend_str b"

definition on_request ::
    "'r git_ops \<Rightarrow> git_ext \<Rightarrow> git_worker \<Rightarrow> data_routing_key \<Rightarrow> request_message \<Rightarrow> timestamp \<Rightarrow> 'r \<Rightarrow> 'r" where
  "on_request git ext gw key request created_at r =
     (case dk_kind key of
        DkRequest agent_name service op seq \<Rightarrow>
          (let parent_oid = go_head git r; payload = rq_payload request
           in snd (ebind (resolve_canonical_parent git ext agent_name (dk_session key)) (\<lambda>canonical_parent.
                ebind (message_subtree git ext (dk_session key) (dk_submission key) created_at payload
                  ([(''type'', ''request''), (''agent_id'', agent_name),
                    (''service'', service_type_as_str (service_backend_service_type service)),
                    (''backend'', service_backend_str service), (''operation'', operation_as_str op),
                    (''sequence'', show_nat (unat seq))] @ opt_field ''state'' (rq_state request) @
                    opt_field ''checkpoint'' (rq_checkpoint request))
                  (gx_request_diag_toml ext (rq_diagnostics request))
                  (git_hash ext payload canonical_parent MtRequest (rx_request_diag_json ext (rq_diagnostics request))
                    (dk_session key))) (\<lambda>msg_tree.
                  nest_and_commit git ext gw msg_tree parent_oid
                    \<lparr>nm_agent = agent_name, nm_session = dk_session key, nm_from = agent_name,
                     nm_to = service_name service, nm_type = ''request'', nm_timeline = ''main'',
                     nm_created_at = created_at, nm_submission = dk_submission key, nm_state = rq_state request,
                     nm_checkpoint = rq_checkpoint request, nm_protocol = ''v1'', nm_fork_branch = None,
                     nm_now = created_at\<rparr>)) r))
      | _ \<Rightarrow> r)"

definition on_response ::
    "'r git_ops \<Rightarrow> git_ext \<Rightarrow> git_worker \<Rightarrow> data_routing_key \<Rightarrow> response_message \<Rightarrow> timestamp \<Rightarrow> 'r \<Rightarrow> 'r" where
  "on_response git ext gw key response created_at r =
     (case dk_kind key of
        DkResponse agent_name service op seq \<Rightarrow>
          (let parent_oid = go_head git r; payload = rs_payload response
           in snd (ebind (resolve_canonical_parent git ext agent_name (dk_session key)) (\<lambda>canonical_parent.
                ebind (message_subtree git ext (dk_session key) (dk_submission key) created_at payload
                  ([(''type'', ''response''), (''agent_id'', agent_name),
                    (''service'', service_type_as_str (service_backend_service_type service)),
                    (''backend'', service_backend_str service), (''operation'', operation_as_str op),
                    (''sequence'', show_nat (unat seq)), (''correlation_id'', rs_correlation_id response)] @
                    opt_field ''state'' (rs_state response) @ opt_field ''checkpoint'' (rs_checkpoint response))
                  (gx_service_diag_toml ext (rs_diagnostics response))
                  (git_hash ext payload canonical_parent MtResponse (rx_service_diag_json ext (rs_diagnostics response))
                    (dk_session key))) (\<lambda>msg_tree.
                  nest_and_commit git ext gw msg_tree parent_oid
                    \<lparr>nm_agent = agent_name, nm_session = dk_session key, nm_from = service_name service,
                     nm_to = agent_name, nm_type = ''response'', nm_timeline = ''main'',
                     nm_created_at = created_at, nm_submission = dk_submission key, nm_state = rs_state response,
                     nm_checkpoint = rs_checkpoint response, nm_protocol = ''v1'', nm_fork_branch = None,
                     nm_now = created_at\<rparr>)) r))
      | _ \<Rightarrow> r)"

definition service_v2_name :: "service_backend_v2 \<Rightarrow> string" where
  "service_v2_name b = service_backend_v2_type_str b @ ''.'' @ service_backend_v2_str b"

definition on_svc_request ::
    "'r git_ops \<Rightarrow> git_ext \<Rightarrow> git_worker \<Rightarrow> svc_routing_key \<Rightarrow> request_v2 \<Rightarrow> timestamp \<Rightarrow> 'r \<Rightarrow> 'r" where
  "on_svc_request git ext gw key request created_at r =
     (case vk_kind key of
        VkSvcRequest agent_name service op seq \<Rightarrow>
          (let parent_oid = go_head git r; payload = rq2_payload request
           in snd (ebind (resolve_canonical_parent git ext agent_name (vk_session key)) (\<lambda>canonical_parent.
                ebind (message_subtree git ext (vk_session key) (vk_submission key) created_at payload
                  ([(''type'', ''svc_request''), (''agent_id'', agent_name),
                    (''service'', service_backend_v2_type_str service),
                    (''backend'', service_backend_v2_str service), (''operation'', op),
                    (''sequence'', show_nat (unat seq)), (''tool_call_id'', rq2_tool_call_id request)] @
                    opt_field ''state'' (rq2_state request))
                  (gx_svc_request_diag_toml ext (rq2_diagnostics request))
                  (git_hash ext payload canonical_parent MtSvcRequest
                    (gx_svc_request_diag_json ext (rq2_diagnostics request)) (vk_session key))) (\<lambda>msg_tree.
                  nest_and_commit git ext gw msg_tree parent_oid
                    \<lparr>nm_agent = agent_name, nm_session = vk_session key, nm_from = agent_name,
                     nm_to = service_v2_name service, nm_type = ''svc_request'', nm_timeline = ''main'',
                     nm_created_at = created_at, nm_submission = vk_submission key, nm_state = rq2_state request,
                     nm_checkpoint = None, nm_protocol = ''v1'', nm_fork_branch = None, nm_now = created_at\<rparr>)) r))
      | _ \<Rightarrow> r)"

definition on_svc_response ::
    "'r git_ops \<Rightarrow> git_ext \<Rightarrow> git_worker \<Rightarrow> svc_routing_key \<Rightarrow> response_v2 \<Rightarrow> timestamp \<Rightarrow> 'r \<Rightarrow> 'r" where
  "on_svc_response git ext gw key response created_at r =
     (case vk_kind key of
        VkSvcResponse agent_name service op seq \<Rightarrow>
          (let parent_oid = go_head git r; payload = rs2_payload response
           in snd (ebind (resolve_canonical_parent git ext agent_name (vk_session key)) (\<lambda>canonical_parent.
                ebind (message_subtree git ext (vk_session key) (vk_submission key) created_at payload
                  ([(''type'', ''svc_response''), (''agent_id'', agent_name),
                    (''service'', service_backend_v2_type_str service),
                    (''backend'', service_backend_v2_str service), (''operation'', op),
                    (''sequence'', show_nat (unat seq)), (''correlation_id'', rs2_correlation_id response)] @
                    opt_field ''state'' (rs2_state response))
                  (gx_svc_response_diag_toml ext (rs2_diagnostics response))
                  (git_hash ext payload canonical_parent MtSvcResponse
                    (gx_svc_response_diag_json ext (rs2_diagnostics response)) (vk_session key))) (\<lambda>msg_tree.
                  nest_and_commit git ext gw msg_tree parent_oid
                    \<lparr>nm_agent = agent_name, nm_session = vk_session key, nm_from = service_v2_name service,
                     nm_to = agent_name, nm_type = ''svc_response'', nm_timeline = ''main'',
                     nm_created_at = created_at, nm_submission = vk_submission key, nm_state = rs2_state response,
                     nm_checkpoint = None, nm_protocol = ''v1'', nm_fork_branch = None, nm_now = created_at\<rparr>)) r))
      | _ \<Rightarrow> r)"

text \<open>Fork and promote: their fields come first, the payload is empty, there are no diagnostics.\<close>

definition session_message_subtree ::
    "'r git_ops \<Rightarrow> string \<Rightarrow> (string \<times> string) list \<Rightarrow> string \<Rightarrow> ('r, git_obj) eff" where
  "session_message_subtree git context own canonical_hash =
     ebind (git_ctx ''treebuilder failed: '' (go_treebuilder git None)) (\<lambda>tb.
     ebind (insert_fields git tb own) (\<lambda>tb.
     ebind (insert_payload git tb []) (\<lambda>tb.
     ebind (insert_field git tb ''hash'' canonical_hash) (\<lambda>tb.
       git_ctx context (go_write_tree git tb)))))"

definition on_fork ::
    "'r git_ops \<Rightarrow> git_ext \<Rightarrow> git_worker \<Rightarrow> session_routing_key \<Rightarrow> fork_message \<Rightarrow> timestamp \<Rightarrow> 'r \<Rightarrow> 'r" where
  "on_fork git ext gw key msg created_at r =
     (case sk_kind key of
        SkFork agent_name \<Rightarrow>
          (let parent_oid = go_head git r
           in snd (ebind (resolve_canonical_parent git ext agent_name (sk_session key)) (\<lambda>canonical_parent.
                ebind (session_message_subtree git ''write fork subtree failed: ''
                  [(''session_id'', sk_session key), (''submission_id'', sk_submission key),
                   (''created_at'', gx_rfc3339 ext created_at), (''type'', ''fork''),
                   (''branch_name'', fk_branch_name msg), (''fork_point'', fk_fork_point msg)]
                  (git_hash ext [] canonical_parent MtFork (Some []) (sk_session key))) (\<lambda>msg_tree.
                  nest_and_commit git ext gw msg_tree parent_oid
                    \<lparr>nm_agent = agent_name, nm_session = sk_session key, nm_from = ''platform'',
                     nm_to = agent_name, nm_type = ''fork'', nm_timeline = fk_branch_name msg,
                     nm_created_at = created_at, nm_submission = sk_submission key, nm_state = None,
                     nm_checkpoint = None, nm_protocol = ''v1'', nm_fork_branch = Some (fk_branch_name msg),
                     nm_now = created_at\<rparr>)) r))
      | _ \<Rightarrow> r)"

definition on_promote ::
    "'r git_ops \<Rightarrow> git_ext \<Rightarrow> git_worker \<Rightarrow> timestamp \<Rightarrow> session_routing_key \<Rightarrow> promote_message \<Rightarrow> timestamp \<Rightarrow> 'r \<Rightarrow> 'r" where
  "on_promote git ext gw now key msg created_at r =
     (case sk_kind key of
        SkPromote agent_name \<Rightarrow>
          (let parent_oid = go_head git r
           in snd (ebind (resolve_canonical_parent git ext agent_name (sk_session key)) (\<lambda>canonical_parent.
                ebind (session_message_subtree git ''write promote subtree failed: ''
                  [(''session_id'', sk_session key), (''submission_id'', sk_submission key),
                   (''created_at'', gx_rfc3339 ext created_at), (''type'', ''promote'')]
                  (git_hash ext [] canonical_parent MtPromote (Some []) (sk_session key))) (\<lambda>msg_tree.
                  nest_and_commit git ext gw msg_tree parent_oid
                    \<lparr>nm_agent = agent_name, nm_session = sk_session key, nm_from = ''platform'',
                     nm_to = agent_name, nm_type = ''promote'', nm_timeline = ''main'',
                     nm_created_at = created_at, nm_submission = sk_submission key, nm_state = None,
                     nm_checkpoint = None, nm_protocol = ''v1'', nm_fork_branch = None, nm_now = now\<rparr>)) r))
      | _ \<Rightarrow> r)"

section \<open>The daemon's loop\<close>

text \<open>\<open>serde_json::from_slice\<close> of each payload; an undecodable one is logged and dropped.\<close>

record git_decoders =
  gd_complete :: "bytes \<Rightarrow> complete_message option"
  gd_request :: "bytes \<Rightarrow> request_message option"
  gd_response :: "bytes \<Rightarrow> response_message option"
  gd_invoke :: "bytes \<Rightarrow> invoke_message option"
  gd_fork :: "bytes \<Rightarrow> fork_message option"
  gd_promote :: "bytes \<Rightarrow> promote_message option"
  gd_svc_request :: "bytes \<Rightarrow> request_v2 option"
  gd_svc_response :: "bytes \<Rightarrow> response_v2 option"

definition handle_decoded :: "('m \<Rightarrow> 'r \<Rightarrow> 'r) \<Rightarrow> 'm option \<Rightarrow> 'r \<Rightarrow> 'r" where
  "handle_decoded handler m r = (case m of None \<Rightarrow> r | Some x \<Rightarrow> handler x r)"

definition dag_git_step ::
    "(string \<Rightarrow> bool) \<Rightarrow> git_decoders \<Rightarrow> 'r git_ops \<Rightarrow> git_ext \<Rightarrow> git_worker \<Rightarrow> timestamp \<Rightarrow> timestamp \<Rightarrow>
     string \<Rightarrow> bytes \<Rightarrow> 'r \<Rightarrow> 'r" where
  "dag_git_step is_uuid gd git ext gw created_at now subject payload =
     (case complete_parse_subject is_uuid subject of
        Some key \<Rightarrow> handle_decoded (\<lambda>m. on_complete git ext gw key m created_at) (gd_complete gd payload)
      | None \<Rightarrow>
     (case request_parse_subject is_uuid subject of
        Some key \<Rightarrow> handle_decoded (\<lambda>m. on_request git ext gw key m created_at) (gd_request gd payload)
      | None \<Rightarrow>
     (case response_parse_subject is_uuid subject of
        Some key \<Rightarrow> handle_decoded (\<lambda>m. on_response git ext gw key m created_at) (gd_response gd payload)
      | None \<Rightarrow>
     (case invoke_parse_subject is_uuid subject of
        Some key \<Rightarrow> handle_decoded (\<lambda>m. on_invoke git ext gw key m created_at) (gd_invoke gd payload)
      | None \<Rightarrow>
     (case fork_parse_subject is_uuid subject of
        Some key \<Rightarrow> handle_decoded (\<lambda>m. on_fork git ext gw key m created_at) (gd_fork gd payload)
      | None \<Rightarrow>
     (case promote_parse_subject is_uuid subject of
        Some key \<Rightarrow> handle_decoded (\<lambda>m. on_promote git ext gw now key m created_at) (gd_promote gd payload)
      | None \<Rightarrow>
     (case svc_request_parse_subject is_uuid subject of
        Some key \<Rightarrow> handle_decoded (\<lambda>m. on_svc_request git ext gw key m created_at) (gd_svc_request gd payload)
      | None \<Rightarrow>
     (case svc_response_parse_subject is_uuid subject of
        Some key \<Rightarrow> handle_decoded (\<lambda>m. on_svc_response git ext gw key m created_at) (gd_svc_response gd payload)
      | None \<Rightarrow> (\<lambda>r. r)))))))))"

end
