(* ===== verification/GitDagLaws.thy ===== *)
theory GitDagLaws
  imports GitDag
begin

text \<open>
  What a handler of the git worker does to the repository: nothing, or one commit on \<open>HEAD\<close> whose tree
  holds all there was and the new message; the numbering of a session's messages and the chain of their
  hashes, up to the thousandth message, where the numbering stops.
\<close>

section \<open>Calls that show nothing, calls that commit\<close>

definition git_quiet :: "('r \<Rightarrow> git_repo) \<Rightarrow> ('r, 'a) eff \<Rightarrow> ('a \<Rightarrow> bool) \<Rightarrow> bool" where
  "git_quiet view m P \<longleftrightarrow> (\<forall>r. view (snd (m r)) = view r \<and> (\<forall>y. fst (m r) = Inr y \<longrightarrow> P y))"

named_theorems git_quiet_rules

lemma git_quietI:
  "(\<And>r x r'. m r = (x, r') \<Longrightarrow> view r' = view r \<and> (\<forall>y. x = Inr y \<longrightarrow> P y)) \<Longrightarrow> git_quiet view m P"
  by (simp add: git_quiet_def split_beta prod_eq_iff)

lemma git_quietD: "git_quiet view m P \<Longrightarrow> m r = (x, r') \<Longrightarrow> view r' = view r \<and> (\<forall>y. x = Inr y \<longrightarrow> P y)"
  unfolding git_quiet_def by (metis fst_conv snd_conv)

lemma git_quiet_pure: "git_pure view m x \<Longrightarrow> git_quiet view m (\<lambda>y. y = x)"
  by (simp add: git_pure_def git_quiet_def)

lemma git_quiet_bind:
  assumes "git_quiet view m P" and "\<And>x. P x \<Longrightarrow> git_quiet view (f x) Q"
  shows "git_quiet view (ebind m f) Q"
proof (rule git_quietI)
  fix r x r' assume "ebind m f r = (x, r')"
  then show "view r' = view r \<and> (\<forall>y. x = Inr y \<longrightarrow> Q y)"
  proof (cases rule: ebindE)
    case (fail e)
    then show ?thesis using git_quietD [OF assms(1)] by blast
  next
    case (ok z r1)
    then have "view r1 = view r" "P z" using git_quietD [OF assms(1) ok(1)] by auto
    then show ?thesis using git_quietD [OF assms(2) ok(2)] by auto
  qed
qed

lemma git_quiet_ctx: "git_quiet view m P \<Longrightarrow> git_quiet view (git_ctx c m) P"
  by (auto simp: git_quiet_def git_ctx_def split_beta map_sum_def split: sum.splits)

lemma git_quiet_catch:
  assumes "git_quiet view m P"
  shows "git_quiet view (ecatch m) (\<lambda>x. \<forall>y. x = Inr y \<longrightarrow> P y)"
  using assms by (simp add: git_quiet_def)

lemma git_quiet_eret: "P x \<Longrightarrow> git_quiet view (eret x) P"
  by (simp add: git_quiet_def)

lemma git_quiet_efail: "git_quiet view (efail e) P"
  by (simp add: git_quiet_def)

lemma git_quiet_elift: "(\<And>x. r = Inr x \<Longrightarrow> P x) \<Longrightarrow> git_quiet view (elift r) P"
  by (simp add: git_quiet_def)

lemma git_quiet_weaken: "git_quiet view m P \<Longrightarrow> (\<And>x. P x \<Longrightarrow> Q x) \<Longrightarrow> git_quiet view m Q"
  by (auto simp: git_quiet_def)

text \<open>The calls whose result is known, wrapped in their error context and chained.\<close>

lemma git_quiet_call_bind:
  assumes "git_pure view m x" and "git_quiet view (f x) Q"
  shows "git_quiet view (ebind (git_ctx c m) f) Q" "git_quiet view (ebind m f) Q"
  by (rule git_quiet_bind [OF git_quiet_ctx [OF git_quiet_pure [OF assms(1)]]], use assms(2) in simp)
    (rule git_quiet_bind [OF git_quiet_pure [OF assms(1)]], use assms(2) in simp)

text \<open>From a view \<open>v\<close> the computation ends in \<open>v\<close> or in one of the views \<open>S\<close>.\<close>

definition git_writes :: "('r \<Rightarrow> git_repo) \<Rightarrow> git_repo \<Rightarrow> ('r, 'a) eff \<Rightarrow> (git_repo \<Rightarrow> bool) \<Rightarrow> bool" where
  "git_writes view v m S \<longleftrightarrow> (\<forall>r. view r = v \<longrightarrow> view (snd (m r)) = v \<or> S (view (snd (m r))))"

lemma git_writesI:
  "(\<And>r x r'. view r = v \<Longrightarrow> m r = (x, r') \<Longrightarrow> view r' = v \<or> S (view r')) \<Longrightarrow> git_writes view v m S"
  by (simp add: git_writes_def split_beta prod_eq_iff)

lemma git_writesD: "git_writes view v m S \<Longrightarrow> view r = v \<Longrightarrow> m r = (x, r') \<Longrightarrow> view r' = v \<or> S (view r')"
  unfolding git_writes_def by (metis snd_conv)

lemma git_writes_bind:
  assumes "git_quiet view m P" and "\<And>x. P x \<Longrightarrow> git_writes view v (f x) S"
  shows "git_writes view v (ebind m f) S"
proof (rule git_writesI)
  fix r x r' assume v: "view r = v" and run: "ebind m f r = (x, r')"
  from run show "view r' = v \<or> S (view r')"
  proof (cases rule: ebindE)
    case (fail e)
    then show ?thesis using git_quietD [OF assms(1)] v by blast
  next
    case (ok z r1)
    then have "view r1 = v" "P z" using git_quietD [OF assms(1) ok(1)] v by auto
    then show ?thesis using git_writesD [OF assms(2) _ ok(2)] by blast
  qed
qed

section \<open>Reads\<close>

text \<open>From the view \<open>v\<close> the computation changes nothing and gives \<open>x\<close>.\<close>

definition git_gives :: "('r \<Rightarrow> git_repo) \<Rightarrow> git_repo \<Rightarrow> ('r, 'a) eff \<Rightarrow> 'a \<Rightarrow> bool" where
  "git_gives view v m x \<longleftrightarrow> (\<forall>r. view r = v \<longrightarrow> view (snd (m r)) = v \<and> fst (m r) = Inr x)"

lemma git_givesD: "git_gives view v m x \<Longrightarrow> view r = v \<Longrightarrow> \<exists>r'. m r = (Inr x, r') \<and> view r' = v"
  unfolding git_gives_def by (metis prod.collapse)

lemma gives_eret: "git_gives view v (eret x) x"
  by (simp add: git_gives_def)

lemma gives_answer: "git_answers view v m (Some x) \<Longrightarrow> git_gives view v (git_ctx c m) x"
  by (auto simp: git_gives_def git_answers_def git_ctx_def split_beta)

lemma gives_bind: "git_gives view v m x \<Longrightarrow> git_gives view v (f x) y \<Longrightarrow> git_gives view v (ebind m f) y"
  by (auto simp: git_gives_def ebind_def split_beta)

lemma gives_catch:
  assumes "git_answers view v m z" and "\<And>x. result_ok x = z \<Longrightarrow> git_gives view v (f x) y"
  shows "git_gives view v (ebind (ecatch m) f) y"
  unfolding git_gives_def
proof (intro allI impI)
  fix r assume "view r = v"
  then have "view (snd (m r)) = v" "result_ok (fst (m r)) = z" using assms(1) by (simp_all add: git_answers_def)
  then show "view (snd (ebind (ecatch m) f r)) = v \<and> fst (ebind (ecatch m) f r) = Inr y"
    using assms(2) [of "fst (m r)"] by (auto simp: git_gives_def ebind_def ecatch_def split_beta)
qed

lemma git_writes_gives: "git_gives view v m x \<Longrightarrow> git_writes view v (f x) S \<Longrightarrow> git_writes view v (ebind m f) S"
  by (auto simp: git_gives_def git_writes_def ebind_def split_beta)

lemma gives_subtree:
  assumes doc: "git_documented git view" and t: "holds v (GTree t)"
  shows "git_gives view v (get_subtree git t n) (subtree_at t n)"
proof -
  have "git_gives view v (ebind (ecatch (go_find_tree git (GTree t'))) (\<lambda>x. eret (result_ok x))) (Some t')"
    if "map_of t n = Some (GTree t')" for t'
    by (rule gives_catch [OF git_readableD(3) [OF doc holds_entry [OF t that]]])
      (metis gives_eret)
  then show ?thesis
    by (auto simp: get_subtree_def subtree_at_def gives_eret split: option.split git_obj.split)
qed

lemma gives_subtree_of:
  assumes "git_documented git view" and "\<And>t. tree = Some t \<Longrightarrow> holds v (GTree t)"
  shows "git_gives view v (subtree_of git tree n) (Option.bind tree (\<lambda>t. subtree_at t n))"
  using gives_subtree [OF assms(1)] assms(2) by (cases tree) (simp_all add: subtree_of_def gives_eret)

text \<open>What the reads find when nothing fails.\<close>

definition canonical_hash_at :: "(bytes \<Rightarrow> string) \<Rightarrow> git_tree \<Rightarrow> string \<Rightarrow> string \<Rightarrow> string" where
  "canonical_hash_at lossy root_tree agent_name session_id =
     (case subtree_at root_tree agent_name of
        None \<Rightarrow> []
      | Some agent_tree \<Rightarrow>
          (case subtree_at agent_tree session_id of
             None \<Rightarrow> []
           | Some session_tree \<Rightarrow>
               (let msg_dirs = sort (map fst (message_dirs session_tree))
                in if msg_dirs = [] then []
                   else (case Option.bind (subtree_at session_tree (last msg_dirs)) (\<lambda>t. blob_at t ''hash'') of
                           None \<Rightarrow> []
                         | Some content \<Rightarrow> lossy content))))"

definition timeline_text :: "(bytes \<Rightarrow> string) \<Rightarrow> git_tree option \<Rightarrow> string \<Rightarrow> string \<Rightarrow> string" where
  "timeline_text lossy timelines active msg_dir =
     (case Option.bind timelines (\<lambda>t. blob_at t active) of
        None \<Rightarrow> msg_dir
      | Some existing \<Rightarrow> lossy existing @ [CHR 0x0A] @ msg_dir)"

lemma gives_timeline:
  assumes doc: "git_documented git view" and t: "\<And>t. timelines = Some t \<Longrightarrow> holds v (GTree t)"
  shows "git_gives view v (timeline_content git lossy timelines active dir) (timeline_text lossy timelines active dir)"
proof (cases "Option.bind timelines (\<lambda>t. map_of t active)")
  case None
  then have "Option.bind timelines (\<lambda>t. blob_at t active) = None"
    by (cases timelines) (simp_all add: blob_at_def)
  with None show ?thesis by (simp add: timeline_content_def timeline_text_def gives_eret)
next
  case (Some obj)
  then have obj: "holds v obj" using t by (auto simp: bind_eq_Some_conv intro: holds_entry)
  have at: "Option.bind timelines (\<lambda>t. blob_at t active) = (case obj of GBlob d \<Rightarrow> Some d | GTree _ \<Rightarrow> None)"
    using Some by (auto simp: bind_eq_Some_conv blob_at_def)
  show ?thesis
    unfolding timeline_content_def timeline_text_def Some at option.case
  proof (rule gives_catch [OF git_readableD(5) [OF doc obj]])
    fix x :: "(string, string) rust_result"
    assume "result_ok x = (case obj of GBlob d \<Rightarrow> Some d | GTree _ \<Rightarrow> None)"
    then show "git_gives view v (eret (case x of Inl _ \<Rightarrow> dir | Inr existing \<Rightarrow> lossy existing @ [CHR 0x0A] @ dir))
        (case case obj of GBlob d \<Rightarrow> Some d | GTree _ \<Rightarrow> None of None \<Rightarrow> dir
         | Some existing \<Rightarrow> lossy existing @ [CHR 0x0A] @ dir)"
      by (cases x; cases obj) (simp_all add: gives_eret)
  qed
qed

lemma path_of_hash:
  assumes "subtree_at root a = Some at" and "subtree_at at s = Some st"
  shows "Option.bind (tree_path root [a, s, n, ''hash'']) (\<lambda>x. case x of GBlob d \<Rightarrow> Some d | GTree _ \<Rightarrow> None) =
    Option.bind (subtree_at st n) (\<lambda>t. blob_at t ''hash'')"
proof -
  have "map_of root a = Some (GTree at)" "map_of at s = Some (GTree st)"
    using assms by (auto simp: subtree_at_def split: option.splits git_obj.splits)
  then show ?thesis by (auto simp: subtree_at_def blob_at_def split: option.split git_obj.split)
qed

lemma gives_canonical_hash:
  assumes doc: "git_documented git view" and root: "holds v (GTree root)"
  shows "git_gives view v (session_canonical_hash git lossy root agent session) (canonical_hash_at lossy root agent session)"
proof -
  have last: "git_gives view v
      (ebind (ecatch (go_get_path git root [agent, session, n, ''hash''])) (\<lambda>entry.
         case entry of Inl _ \<Rightarrow> eret [] | Inr obj \<Rightarrow>
       ebind (ecatch (go_find_blob git obj)) (\<lambda>blob. case blob of Inl _ \<Rightarrow> eret [] | Inr content \<Rightarrow> eret (lossy content))))
      (case Option.bind (subtree_at st n) (\<lambda>t. blob_at t ''hash'') of None \<Rightarrow> [] | Some content \<Rightarrow> lossy content)"
    if "subtree_at root agent = Some at" "subtree_at at session = Some st" for at st n
    unfolding path_of_hash [OF that, symmetric]
  proof (rule gives_catch [OF git_readableD(4) [OF doc root]])
    fix e :: "(string, git_obj) rust_result"
    assume e: "result_ok e = tree_path root [agent, session, n, ''hash'']"
    show "git_gives view v
        (case e of Inl _ \<Rightarrow> eret [] | Inr obj \<Rightarrow>
           ebind (ecatch (go_find_blob git obj)) (\<lambda>blob. case blob of Inl _ \<Rightarrow> eret [] | Inr content \<Rightarrow> eret (lossy content)))
        (case Option.bind (tree_path root [agent, session, n, ''hash'']) (\<lambda>x. case x of GBlob d \<Rightarrow> Some d | GTree _ \<Rightarrow> None)
         of None \<Rightarrow> [] | Some content \<Rightarrow> lossy content)"
    proof (cases e)
      case (Inl x)
      then show ?thesis using e [symmetric] by (simp add: gives_eret)
    next
      case (Inr obj)
      then have path: "tree_path root [agent, session, n, ''hash''] = Some obj" using e by simp
      show ?thesis
        unfolding Inr path sum.case bind.bind_lunit
      proof (rule gives_catch [OF git_readableD(5) [OF doc holds_path [OF root path]]])
        fix b :: "(string, string) rust_result"
        assume "result_ok b = (case obj of GBlob d \<Rightarrow> Some d | GTree _ \<Rightarrow> None)"
        then show "git_gives view v (case b of Inl _ \<Rightarrow> eret [] | Inr content \<Rightarrow> eret (lossy content))
            (case case obj of GBlob d \<Rightarrow> Some d | GTree _ \<Rightarrow> None of None \<Rightarrow> [] | Some content \<Rightarrow> lossy content)"
          by (cases b; cases obj) (simp_all add: gives_eret)
      qed
    qed
  qed
  show ?thesis
  proof (cases "subtree_at root agent")
    case None
    show ?thesis
      unfolding session_canonical_hash_def canonical_hash_at_def
      by (rule gives_bind [OF gives_subtree [OF doc root]]) (simp add: None gives_eret)
  next
    case (Some at)
    have at: "holds v (GTree at)" using holds_subtree [OF root Some] .
    show ?thesis
    proof (cases "subtree_at at session")
      case None
      show ?thesis
        unfolding session_canonical_hash_def canonical_hash_at_def
        by (rule gives_bind [OF gives_subtree [OF doc root]], unfold Some option.case,
            rule gives_bind [OF gives_subtree [OF doc at]]) (simp add: None gives_eret)
    next
      case st: (Some st)
      show ?thesis
        unfolding session_canonical_hash_def canonical_hash_at_def
        by (rule gives_bind [OF gives_subtree [OF doc root]], unfold Some option.case,
            rule gives_bind [OF gives_subtree [OF doc at]], unfold st option.case Let_def,
            cases "sort (map fst (message_dirs st)) = []")
          (simp_all only: if_True if_False simp_thms, rule gives_eret, rule last [OF Some st])
    qed
  qed
qed

section \<open>The trees a handler writes\<close>

definition with_fields :: "(string \<times> string) list \<Rightarrow> git_tree \<Rightarrow> git_tree" where
  "with_fields fs tb = fold (\<lambda>(n, v). AList.update n (GBlob v)) fs tb"

text \<open>One step each: the call shows nothing and its result, when there is one, is known.\<close>

lemma quiet_step:
  assumes "git_pure view m x" and "git_quiet view (f x) Q"
  shows "git_quiet view (ebind (git_ctx c m) f) Q"
  by (rule git_quiet_bind [OF git_quiet_ctx [OF git_quiet_pure [OF assms(1)]]]) (use assms(2) in simp)

lemma quiet_last: "git_pure view m x \<Longrightarrow> Q x \<Longrightarrow> git_quiet view (git_ctx c m) Q"
  by (erule git_quiet_weaken [OF git_quiet_ctx [OF git_quiet_pure]], hypsubst, assumption)

lemma quiet_blob:
  "git_documented git view \<Longrightarrow> git_quiet view (f (GBlob d)) Q \<Longrightarrow> git_quiet view (ebind (write_blob git d) f) Q"
  unfolding write_blob_def by (rule quiet_step [OF git_documentedD(4)])

lemma quiet_field:
  "git_documented git view \<Longrightarrow> git_quiet view (f (AList.update n (GBlob v) tb)) Q \<Longrightarrow>
   git_quiet view (ebind (insert_field git tb n v) f) Q"
  unfolding insert_field_def ebind_assoc by (rule quiet_blob) (auto intro: quiet_step git_documentedD(6))

lemma quiet_fields:
  assumes doc: "git_documented git view" and "git_quiet view (f (with_fields fs tb)) Q"
  shows "git_quiet view (ebind (insert_fields git tb fs) f) Q"
  using assms(2)
proof (induction fs arbitrary: tb)
  case Nil
  then show ?case by (simp add: with_fields_def del: eff_simps(5) insert_fields.simps) (simp add: eff_simps(1) del: eff_simps(5))
next
  case (Cons x fs)
  obtain n v where x: "x = (n, v)" by (cases x)
  show ?case
    unfolding x insert_fields.simps ebind_assoc
    by (rule quiet_field [OF doc]) (use Cons x in \<open>simp add: with_fields_def\<close>)
qed

lemma quiet_toml:
  "git_documented git view \<Longrightarrow> (\<And>d. git_quiet view (f (AList.update ''diagnostics.toml'' (GBlob d) tb)) Q) \<Longrightarrow>
   git_quiet view (ebind (insert_diagnostics_toml git tb toml) f) Q"
  unfolding insert_diagnostics_toml_def ebind_assoc
  by (rule git_quiet_bind [where P = "\<lambda>_. True", OF git_quiet_ctx [OF git_quiet_elift]], rule TrueI, rule quiet_blob)
    (auto intro: quiet_step git_documentedD(6))

lemma message_subtree_quiet:
  assumes doc: "git_documented git view"
  shows "git_quiet view (message_subtree git ext session sub at payload own toml hash)
    (\<lambda>obj. \<exists>d. obj = GTree (with_fields
       ([(''session_id'', session), (''submission_id'', sub), (''protocol_version'', ''v1''),
         (''created_at'', gx_rfc3339 ext at), (''payload'', payload)] @ own @
        [(''diagnostics.toml'', d), (''hash'', hash)]) []))"
  unfolding message_subtree_def insert_common_fields_def insert_payload_def ebind_assoc
  by (rule quiet_step [OF git_documentedD(5) [OF doc]], rule quiet_fields [OF doc], rule quiet_blob [OF doc],
      rule quiet_step [OF git_documentedD(6) [OF doc]], rule quiet_fields [OF doc], rule quiet_toml [OF doc],
      rule quiet_field [OF doc], rule quiet_last [OF git_documentedD(7) [OF doc]])
    (auto simp: with_fields_def)

lemma session_message_subtree_quiet:
  assumes doc: "git_documented git view"
  shows "git_quiet view (session_message_subtree git c own hash)
    (\<lambda>obj. obj = GTree (with_fields (own @ [(''payload'', []), (''hash'', hash)]) []))"
  unfolding session_message_subtree_def insert_payload_def ebind_assoc
  by (rule quiet_step [OF git_documentedD(5) [OF doc]], rule quiet_fields [OF doc], rule quiet_blob [OF doc],
      rule quiet_step [OF git_documentedD(6) [OF doc]], rule quiet_field [OF doc],
      rule quiet_last [OF git_documentedD(7) [OF doc]])
    (simp add: with_fields_def)

text \<open>The session's tree after a message.\<close>

definition entries_of :: "git_tree option \<Rightarrow> git_tree" where
  "entries_of t = (case t of None \<Rightarrow> [] | Some t \<Rightarrow> t)"

definition nested_session :: "(bytes \<Rightarrow> string) \<Rightarrow> git_tree option \<Rightarrow> git_obj \<Rightarrow> string \<Rightarrow> string \<Rightarrow> git_tree" where
  "nested_session lossy session_tree msg_tree msg_dir active =
     (let timelines = Option.bind session_tree (\<lambda>t. subtree_at t ''timelines'')
      in AList.update ''timelines''
           (GTree (AList.update ''ACTIVE'' (GBlob active)
             (AList.update active (GBlob (timeline_text lossy timelines active msg_dir)) (entries_of timelines))))
           (AList.update msg_dir msg_tree (AList.delete ''timelines'' (entries_of session_tree))))"

lemma git_writes_step:
  assumes "git_pure view m x" and "git_writes view v (f x) S"
  shows "git_writes view v (ebind (git_ctx c m) f) S"
  by (rule git_writes_bind [OF git_quiet_ctx [OF git_quiet_pure [OF assms(1)]]]) (use assms(2) in simp)

lemma nest_session_writes:
  assumes doc: "git_documented git view"
    and tls: "timelines = Option.bind session_tree (\<lambda>t. subtree_at t ''timelines'')" "\<And>t. timelines = Some t \<Longrightarrow> holds v (GTree t)"
    and rest: "git_writes view v (f (GTree (nested_session (gx_lossy ext) session_tree msg_tree msg_dir active))) S"
  shows "git_writes view v (ebind (nest_session git ext session_tree timelines msg_tree msg_dir active) f) S"
  unfolding nest_session_def Let_def ebind_assoc write_blob_def
  by (rule git_writes_step [OF git_documentedD(5) [OF doc]],
      rule git_writes_step [OF git_documentedD(6) [OF doc]],
      rule git_writes_step [OF git_documentedD(5) [OF doc]],
      rule git_writes_gives [OF gives_timeline [OF doc tls(2)]], assumption,
      rule git_writes_step [OF git_documentedD(4) [OF doc]],
      rule git_writes_step [OF git_documentedD(6) [OF doc]],
      rule git_writes_step [OF git_documentedD(4) [OF doc]],
      rule git_writes_step [OF git_documentedD(6) [OF doc]],
      rule git_writes_step [OF git_documentedD(7) [OF doc]],
      rule git_writes_step [OF git_documentedD(6) [OF doc]],
      rule git_writes_step [OF git_documentedD(7) [OF doc]])
    (use rest in \<open>simp add: nested_session_def entries_of_def Let_def tls(1)\<close>)

text \<open>The metadata at the root: whatever it is, only the three reserved names are touched.\<close>

definition reserved_names :: "string set" where
  "reserved_names = {''agent.toml'', ''platform.toml'', ''models''}"

definition same_unreserved :: "git_tree \<Rightarrow> git_tree \<Rightarrow> bool" where
  "same_unreserved t t' \<longleftrightarrow> (\<forall>n. n \<notin> reserved_names \<longrightarrow> map_of t' n = map_of t n)"

lemma same_unreserved_steps:
  "same_unreserved t t" "same_unreserved t t' \<Longrightarrow> n \<in> reserved_names \<Longrightarrow> same_unreserved t (AList.update n v t')"
  "same_unreserved t t' \<Longrightarrow> n \<in> reserved_names \<Longrightarrow> same_unreserved t (AList.delete n t')"
  by (auto simp: same_unreserved_def update_conv' delete_conv')

lemma try_insert_quiet:
  assumes doc: "git_documented git view" and "same_unreserved t tb" and "n \<in> reserved_names"
  shows "git_quiet view (try_insert git n c tb) (same_unreserved t)"
proof (rule git_quietI)
  fix r x r' assume run: "try_insert git n c tb r = (x, r')"
  have b: "git_quiet view (write_blob git c) (\<lambda>_. True)"
    unfolding write_blob_def by (rule quiet_last [OF git_documentedD(4) [OF doc]]) simp
  have i: "git_quiet view (go_insert git n oid tb) (\<lambda>t'. t' = AList.update n oid tb)" for oid
    by (rule git_quiet_pure [OF git_documentedD(6) [OF doc]])
  show "view r' = view r \<and> (\<forall>y. x = Inr y \<longrightarrow> same_unreserved t y)"
    using run assms(2,3) same_unreserved_steps(2) git_quietD [OF b, of r] git_quietD [OF i]
    by (fastforce simp: try_insert_def split: prod.splits sum.splits)
qed

lemma model_entries_quiet:
  assumes doc: "git_documented git view"
  shows "git_quiet view (model_entries git ext reg ms has tb) (\<lambda>_. True)"
proof (induction ms arbitrary: has tb)
  case Nil
  then show ?case unfolding model_entries.simps by (intro git_quiet_eret TrueI)
next
  case (Cons m ms)
  obtain a n where m: "m = (a, n)" by (cases m)
  show ?case
    by (cases "Option.bind (get_model n reg) (gx_model_toml ext)")
      (auto simp: m intro!: Cons quiet_blob [OF doc] quiet_step [OF git_documentedD(6) [OF doc]])
qed

lemma build_models_quiet:
  assumes doc: "git_documented git view"
  shows "git_quiet view (build_models_subtree git ext reg ms) (\<lambda>_. True)"
  unfolding build_models_subtree_def
  by (rule quiet_step [OF git_documentedD(5) [OF doc]], rule git_quiet_bind [OF model_entries_quiet [OF doc]])
    (auto simp: split_beta intro!: git_quiet_efail quiet_last [OF git_documentedD(7) [OF doc]] split: if_splits)

lemma root_metadata_quiet:
  assumes doc: "git_documented git view"
  shows "git_quiet view (root_metadata git ext gw agent tb) (same_unreserved tb)"
proof -
  let ?t0 = "AList.delete ''models'' (AList.delete ''platform.toml'' (AList.delete ''agent.toml'' tb))"
  have t0: "same_unreserved tb ?t0" by (intro same_unreserved_steps) (simp_all add: reserved_names_def)
  have names: "''agent.toml'' \<in> reserved_names" "''platform.toml'' \<in> reserved_names" "''models'' \<in> reserved_names"
    by (simp_all add: reserved_names_def)
  show ?thesis
  proof (cases "gw_registry gw")
    case None
    then show ?thesis using t0 unfolding root_metadata_def Let_def by (simp only: option.case) (rule git_quiet_eret)
  next
    case (Some reg)
    have models: "git_quiet view (ebind (ecatch (build_models_subtree git ext reg ms)
             :: ('a, (string, git_obj) rust_result) eff) (\<lambda>x.
          case x of
            Inl _ \<Rightarrow> eret t
          | Inr oid \<Rightarrow> ebind (ecatch (go_insert git ''models'' oid t) :: ('a, (string, git_tree) rust_result) eff)
                (\<lambda>y. eret (case y of Inl _ \<Rightarrow> t | Inr tb \<Rightarrow> tb)))) (same_unreserved tb)"
      if "same_unreserved tb t" for ms t
    proof (rule git_quiet_bind [OF git_quiet_catch [OF build_models_quiet [OF doc]]])
      fix x :: "(string, git_obj) rust_result"
      show "git_quiet view (case x of Inl _ \<Rightarrow> eret t
          | Inr oid \<Rightarrow> ebind (ecatch (go_insert git ''models'' oid t) :: ('a, (string, git_tree) rust_result) eff)
                (\<lambda>y. eret (case y of Inl _ \<Rightarrow> t | Inr tb \<Rightarrow> tb))) (same_unreserved tb)"
        using that names(3)
        by (cases x) (auto intro!: git_quiet_eret git_quiet_bind [OF git_quiet_catch [OF git_quiet_pure [OF git_documentedD(6) [OF doc]]]]
            same_unreserved_steps split: sum.split simp del: eff_simps)
    qed
    show ?thesis
      unfolding root_metadata_def Let_def Some option.case
    proof (rule git_quiet_bind [where P = "same_unreserved tb"])
      show "git_quiet view (case get_agent_by_name agent reg of
                None \<Rightarrow> eret ?t0
              | Some a \<Rightarrow>
                  ebind (case gx_agent_toml ext a of None \<Rightarrow> eret ?t0 | Some t \<Rightarrow> try_insert git ''agent.toml'' t ?t0)
                    (\<lambda>root_tb.
                  if req_models (ag_requirements a) = [] then eret root_tb
                  else ebind (ecatch (build_models_subtree git ext reg (req_models (ag_requirements a)))
                           :: ('a, (string, git_obj) rust_result) eff) (\<lambda>x.
                    case x of
                      Inl _ \<Rightarrow> eret root_tb
                    | Inr oid \<Rightarrow>
                        ebind (ecatch (go_insert git ''models'' oid root_tb) :: ('a, (string, git_tree) rust_result) eff)
                          (\<lambda>y. eret (case y of Inl _ \<Rightarrow> root_tb | Inr tb \<Rightarrow> tb))))) (same_unreserved tb)"
      proof (cases "get_agent_by_name agent reg")
        case None
        then show ?thesis using t0 by (simp only: option.case) (rule git_quiet_eret)
      next
        case (Some a)
        have "git_quiet view (case gx_agent_toml ext a of None \<Rightarrow> eret ?t0 | Some t \<Rightarrow> try_insert git ''agent.toml'' t ?t0)
            (same_unreserved tb)"
          using t0 names(1) by (cases "gx_agent_toml ext a")
            (simp_all only: option.case, rule git_quiet_eret, assumption, rule try_insert_quiet [OF doc])
        then show ?thesis
          unfolding Some option.case
          by (rule git_quiet_bind) (use models in \<open>simp only: split: if_split, blast intro: git_quiet_eret\<close>)
      qed
    next
      show "git_quiet view (try_insert git ''platform.toml'' (platform_toml ext gw) t) (same_unreserved tb)"
        if "same_unreserved tb t" for t
        using try_insert_quiet [OF doc that names(2)] .
    qed
  qed
qed

lemma root_metadata_quiet_none:
  assumes doc: "git_documented git view"
  shows "git_quiet view (root_metadata git ext gw agent tb)
    (\<lambda>t. same_unreserved tb t \<and> (gw_registry gw = None \<longrightarrow> (\<forall>n \<in> reserved_names. map_of t n = None)))"
proof (cases "gw_registry gw")
  case None
  have "git_quiet view (root_metadata git ext gw agent tb) (\<lambda>t. \<forall>n \<in> reserved_names. map_of t n = None)"
    unfolding root_metadata_def Let_def None option.case
    by (rule git_quiet_eret) (auto simp: reserved_names_def delete_conv')
  then show ?thesis using root_metadata_quiet [OF doc, of ext gw agent tb] by (auto simp: git_quiet_def)
next
  case (Some reg)
  then show ?thesis using root_metadata_quiet [OF doc, of ext gw agent tb] by simp
qed

section \<open>The commit\<close>

definition head_tree :: "git_repo \<Rightarrow> git_tree option" where
  "head_tree v = map_option (\<lambda>oid. gc_tree (gr_commits v ! oid)) (head_tip v)"

definition session_of :: "git_tree option \<Rightarrow> string \<Rightarrow> string \<Rightarrow> git_tree option" where
  "session_of root agent session = Option.bind (Option.bind root (\<lambda>t. subtree_at t agent)) (\<lambda>t. subtree_at t session)"

definition message_dir :: "git_tree option \<Rightarrow> nest_message \<Rightarrow> string" where
  "message_dir session_tree m = pad3 (next_seq session_tree) @ ''-'' @ nm_from m @ ''-'' @ nm_type m"

definition nested_root :: "(bytes \<Rightarrow> string) \<Rightarrow> git_tree option \<Rightarrow> git_obj \<Rightarrow> nest_message \<Rightarrow> git_tree" where
  "nested_root lossy root msg_tree m =
     (let session_tree = session_of root (nm_agent m) (nm_session m)
      in AList.update (nm_agent m)
           (GTree (AList.update (nm_session m)
             (GTree (nested_session lossy session_tree msg_tree (message_dir session_tree m) (nm_timeline m)))
             (entries_of (Option.bind root (\<lambda>t. subtree_at t (nm_agent m))))))
           (entries_of root))"

definition nested_commit :: "git_ext \<Rightarrow> git_worker \<Rightarrow> git_repo \<Rightarrow> git_obj \<Rightarrow> nest_message \<Rightarrow> git_commit \<Rightarrow> bool" where
  "nested_commit ext gw v msg_tree m c \<longleftrightarrow>
     same_unreserved (nested_root (gx_lossy ext) (head_tree v) msg_tree m) (gc_tree c) \<and>
     (gw_registry gw = None \<longrightarrow> (\<forall>n \<in> reserved_names. map_of (gc_tree c) n = None)) \<and>
     gc_parents c = (case head_tip v of None \<Rightarrow> [] | Some oid \<Rightarrow> [oid]) \<and>
     gc_author c = (nm_from m, nm_from m @ ''@'' @ gw_registry_host gw) \<and>
     gc_time c = gx_epoch ext (nm_created_at m) \<and>
     gc_message c = git_commit_message (nm_type m) (nm_from m) (nm_to m) (nm_session m) (nm_submission m)
       (nm_state m) (nm_checkpoint m) (nm_protocol m)"

definition on_branch :: "string \<Rightarrow> nat \<Rightarrow> git_repo \<Rightarrow> git_repo" where
  "on_branch n oid v = v\<lparr>gr_branches := AList.update n oid (gr_branches v)\<rparr>"

definition refs_after :: "string \<Rightarrow> nest_message \<Rightarrow> nat \<Rightarrow> git_repo \<Rightarrow> git_repo \<Rightarrow> bool" where
  "refs_after sealed m oid v v' \<longleftrightarrow>
     v' = v \<or>
     (\<exists>n. nm_fork_branch m = Some n \<and> map_of (gr_branches v) n = None \<and> v' = on_branch n oid v) \<or>
     (nm_type m = ''promote'' \<and>
       (map_of (gr_branches v) ''main'' \<noteq> None \<longrightarrow> map_of (gr_branches v) sealed = None) \<and>
       (v' = git_renamed ''main'' sealed v \<or> v' = on_branch ''main'' oid (git_renamed ''main'' sealed v)))"

lemma git_changeD:
  "git_change view m f \<Longrightarrow> m r = (x, r') \<Longrightarrow> view r' = (case x of Inl _ \<Rightarrow> view r | Inr _ \<Rightarrow> f (view r))"
  unfolding git_change_def by (metis fst_conv snd_conv)

lemma git_ctxE:
  assumes "git_ctx c m r = (x, r')"
  obtains y where "m r = (y, r')" "x = map_sum (\<lambda>e. c @ e) id y"
  using assms by (auto simp: git_ctx_def split: prod.splits)

lemma rename_main:
  assumes doc: "git_documented git view"
    and ren: "(if go_has_branch git old r then git_ctx c (go_rename_branch git old new) else eret ()) r = (y, r1)"
  shows "view r1 = (case y of Inl _ \<Rightarrow> view r | Inr _ \<Rightarrow> git_renamed old new (view r)) \<and>
    ((\<exists>u. y = Inr u) \<longrightarrow> map_of (gr_branches (view r)) old \<noteq> None \<longrightarrow> map_of (gr_branches (view r)) new = None)"
proof (cases "map_of (gr_branches (view r)) old")
  case None
  then show ?thesis using ren git_documentedD(3) [OF doc, of old r] by (auto simp: git_renamed_def)
next
  case (Some oid)
  with ren git_documentedD(3) [OF doc, of old r] obtain z where z: "go_rename_branch git old new r = (z, r1)"
      "y = map_sum (\<lambda>e. c @ e) id z"
    by (auto elim: git_ctxE)
  show ?thesis
    using git_changeD [OF git_documentedD(14) [OF doc] z(1)] git_documentedD(16) [OF doc, of old new r] z
    by (cases z) simp_all
qed

lemma pure_ctx_run:
  assumes "git_pure view m u" and "ebind (git_ctx c m) f r = (x, r')"
  obtains (fail) e where "x = Inl e" "view r' = view r" | (ok) r1 where "view r1 = view r" "f u r1 = (x, r')"
proof (cases "m r")
  case (Pair y r1)
  have v: "view r1 = view r" "\<And>z. y = Inr z \<Longrightarrow> z = u"
    using assms(1) Pair unfolding git_pure_def by (metis snd_conv, metis fst_conv)
  show thesis
    using assms(2) Pair v that by (cases y) (auto simp: ebind_def git_ctx_def)
qed

lemma after_commit_refs:
  assumes doc: "git_documented git view" and one: "nm_type m \<noteq> ''promote'' \<or> nm_fork_branch m = None"
    and run: "after_commit git ext now (nm_type m) (nm_fork_branch m) oid r = (x, r')"
  shows "refs_after (gx_sealed_name ext now) m oid (view r) (view r')"
proof -
  have checkout: "view r3 = view r2" if "git_ctx c (go_checkout_head git) r2 = (z, r3)" for c r2 z r3
    using git_quietD [OF git_quiet_ctx [OF git_quiet_pure [OF git_documentedD(15) [OF doc]]] that] by simp
  note find = git_documentedD(2) [OF doc, of oid]
  show ?thesis
  proof (cases "nm_fork_branch m")
    case (Some n)
    with one have np: "nm_type m \<noteq> ''promote''" by simp
    note run = run [unfolded after_commit_def Some option.case ebind_assoc]
    from find run show ?thesis
    proof (cases rule: pure_ctx_run)
      case (ok r0)
      obtain y r1 where b: "go_branch git n oid False r0 = (y, r1)" by (cases "go_branch git n oid False r0")
      have "view r' = view r1"
        using ok(2) b np checkout by (cases y) (auto simp: ebind_def git_ctx_def split: prod.splits)
      moreover have "view r1 = view r0 \<or> map_of (gr_branches (view r0)) n = None \<and> view r1 = on_branch n oid (view r0)"
        using git_changeD [OF git_documentedD(12) [OF doc] b] git_documentedD(13) [OF doc, of n oid r0] b
        by (cases y) (simp_all add: on_branch_def)
      ultimately show ?thesis using Some ok(1) by (auto simp: refs_after_def)
    qed (simp add: refs_after_def)
  next
    case None
    show ?thesis
    proof (cases "nm_type m = ''promote''")
      case False
      then have "view r' = view r" using run None checkout by (auto simp: after_commit_def)
      then show ?thesis by (simp add: refs_after_def)
    next
      case True
      let ?s = "gx_sealed_name ext now"
      from run None True have "ebind (git_ctx ''find promote commit failed: '' (go_find_commit git oid)) (\<lambda>_.
          ebind (\<lambda>r. ebind (if go_has_branch git ''main'' r
               then git_ctx (''rename main to '' @ [CHR 0x27] @ ?s @ [CHR 0x27] @ '' failed: '') (go_rename_branch git ''main'' ?s)
               else eret ()) (\<lambda>_. git_ctx ''create promoted main branch failed: '' (go_branch git ''main'' oid True)) r)
            (\<lambda>_. git_ctx ''checkout HEAD failed: '' (go_checkout_head git))) r = (x, r')"
        by (simp add: after_commit_def ebind_assoc)
      with find show ?thesis
      proof (cases rule: pure_ctx_run)
        case (ok r0)
        obtain y r1 where ren: "(if go_has_branch git ''main'' r0
               then git_ctx (''rename main to '' @ [CHR 0x27] @ ?s @ [CHR 0x27] @ '' failed: '') (go_rename_branch git ''main'' ?s)
               else eret ()) r0 = (y, r1)" by (metis surj_pair)
        let ?f = "map_of (gr_branches (view r)) ''main'' \<noteq> None \<longrightarrow> map_of (gr_branches (view r)) ?s = None"
        have v1: "view r1 = view r \<or> view r1 = git_renamed ''main'' ?s (view r) \<and> ?f"
            "\<And>u. y = Inr u \<Longrightarrow> view r1 = git_renamed ''main'' ?s (view r) \<and> ?f"
          using rename_main [OF doc ren] ok(1) by (cases y; fastforce)+
        show ?thesis
        proof (cases y)
          case (Inl e)
          then have "view r' = view r1" using ok(2) ren by (auto simp: ebind_def)
          with v1(1) True show ?thesis by (auto simp: refs_after_def)
        next
          case (Inr u)
          obtain z r2 where br: "git_ctx ''create promoted main branch failed: '' (go_branch git ''main'' oid True) r1 = (z, r2)"
            by (metis surj_pair)
          have "view r' = view r2"
            using ok(2) ren Inr br checkout by (cases z) (auto simp: ebind_def split: prod.splits sum.splits)
          moreover have "view r2 = view r1 \<or> view r2 = on_branch ''main'' oid (view r1)"
            using br git_changeD [OF git_documentedD(12) [OF doc]] by (auto simp: on_branch_def elim!: git_ctxE split: sum.splits)
          ultimately show ?thesis using v1(2) [OF Inr] True by (auto simp: refs_after_def)
        qed
      qed (simp add: refs_after_def)
    qed
  qed
qed

definition refs_ok :: "git_repo \<Rightarrow> bool" where
  "refs_ok v \<longleftrightarrow> (\<forall>n oid. map_of (gr_branches v) n = Some oid \<longrightarrow> oid < length (gr_commits v))"

lemma git_writes_weaken: "git_writes view v m S \<Longrightarrow> (\<And>v'. S v' \<Longrightarrow> T v') \<Longrightarrow> git_writes view v m T"
  by (auto simp: git_writes_def)

lemma commit_writes:
  assumes doc: "git_documented git view" and one: "nm_type m \<noteq> ''promote'' \<or> nm_fork_branch m = None"
  shows "git_writes view v (ebind (git_ctx c (go_commit git None cm))
      (\<lambda>oid. after_commit git ext now (nm_type m) (nm_fork_branch m) oid))
    (refs_after (gx_sealed_name ext now) m (length (gr_commits v)) (git_committed cm v))"
proof (rule git_writesI)
  fix r x r' assume v: "view r = v"
    and run: "ebind (git_ctx c (go_commit git None cm)) (\<lambda>oid. after_commit git ext now (nm_type m) (nm_fork_branch m) oid) r = (x, r')"
  obtain y r1 where cm: "go_commit git None cm r = (y, r1)" by (metis surj_pair)
  show "view r' = v \<or> refs_after (gx_sealed_name ext now) m (length (gr_commits v)) (git_committed cm v) (view r')"
  proof (cases y)
    case (Inl e)
    then have "r' = r1" using run cm by (auto simp: ebind_def git_ctx_def)
    then show ?thesis using git_documentedD(10) [OF doc, of cm r] cm Inl v by simp
  next
    case (Inr oid)
    have v1: "view r1 = git_committed cm v" using git_documentedD(10) [OF doc, of cm r] cm Inr v by simp
    have oid: "oid = length (gr_commits v)" using git_documentedD(11) [OF doc, of cm r oid] cm Inr v by simp
    have "after_commit git ext now (nm_type m) (nm_fork_branch m) oid r1 = (x, r')"
      using run cm Inr by (auto simp: ebind_def git_ctx_def)
    from after_commit_refs [OF doc one this] show ?thesis by (simp add: v1 oid)
  qed
qed

text \<open>What a handler reads of \<open>HEAD\<close>.\<close>

lemma head_commit: "refs_ok v \<Longrightarrow> head_tip v = Some oid \<Longrightarrow> oid < length (gr_commits v)"
  by (simp add: refs_ok_def head_tip_def)

lemma holds_head: "refs_ok v \<Longrightarrow> head_tree v = Some t \<Longrightarrow> holds v (GTree t)"
  by (auto simp: head_tree_def dest: head_commit intro: holds_commit)

lemma gives_parent_tree:
  assumes doc: "git_documented git view" and ok: "refs_ok v"
  shows "git_gives view v (read_parent_tree git (head_tip v)) (head_tree v)"
proof (cases "head_tip v")
  case (Some oid)
  note l = head_commit [OF ok Some]
  have "git_gives view v (ebind (ecatch (go_commit_tree git oid)) (\<lambda>tree. eret (result_ok tree))) (head_tree v)"
    by (rule gives_catch [OF git_readableD(2) [OF doc l]]) (simp add: head_tree_def Some gives_eret)
  then have "git_gives view v (case c of Inl _ \<Rightarrow> eret None
      | Inr _ \<Rightarrow> ebind (ecatch (go_commit_tree git oid)) (\<lambda>tree. eret (result_ok tree))) (head_tree v)"
    if "result_ok c = Some ()" for c :: "(string, unit) rust_result" using that by simp
  then show ?thesis
    unfolding read_parent_tree_def Some option.case by (rule gives_catch [OF git_readableD(1) [OF doc l]])
qed (simp add: read_parent_tree_def head_tree_def gives_eret)

lemma gives_parents:
  assumes doc: "git_documented git view" and ok: "refs_ok v"
  shows "git_gives view v (read_parents git (head_tip v)) (case head_tip v of None \<Rightarrow> [] | Some oid \<Rightarrow> [oid])"
proof (cases "head_tip v")
  case (Some oid)
  show ?thesis
    unfolding read_parents_def Some option.case
    by (rule gives_catch [OF git_readableD(1) [OF doc head_commit [OF ok Some]]]) (auto simp: gives_eret)
qed (simp add: read_parents_def gives_eret)

lemma nest_and_commit_writes:
  assumes doc: "git_documented git view" and one: "nm_type m \<noteq> ''promote'' \<or> nm_fork_branch m = None"
    and v: "view r = v" and ok: "refs_ok v" and run: "nest_and_commit git ext gw msg_tree (head_tip v) m r = (x, r')"
  shows "view r' = v \<or> (\<exists>c. nested_commit ext gw v msg_tree m c \<and>
    refs_after (gx_sealed_name ext (nm_now m)) m (length (gr_commits v)) (git_committed c v) (view r'))"
proof -
  let ?S = "\<lambda>v'. \<exists>c. nested_commit ext gw v msg_tree m c \<and>
    refs_after (gx_sealed_name ext (nm_now m)) m (length (gr_commits v)) (git_committed c v) v'"
  note d = git_documentedD [OF doc]
  let ?agent = "Option.bind (head_tree v) (\<lambda>t. subtree_at t (nm_agent m))"
  let ?session = "Option.bind ?agent (\<lambda>t. subtree_at t (nm_session m))"
  let ?timelines = "Option.bind ?session (\<lambda>t. subtree_at t ''timelines'')"
  have agent: "?agent = Some t \<Longrightarrow> holds v (GTree t)" for t
    using holds_head [OF ok] by (auto simp: bind_eq_Some_conv intro: holds_subtree)
  have session: "?session = Some t \<Longrightarrow> holds v (GTree t)" for t
    using agent by (auto simp: bind_eq_Some_conv intro: holds_subtree)
  have timelines: "?timelines = Some t \<Longrightarrow> holds v (GTree t)" for t
    using session by (auto simp: bind_eq_Some_conv intro: holds_subtree)
  from run show ?thesis
    unfolding nest_and_commit_def Let_def
    apply -
    apply (erule git_writesD [of view v _ ?S, OF _ v, rotated])
    apply (rule git_writes_gives [OF gives_parent_tree [OF doc ok]])
    apply (rule git_writes_gives [OF gives_subtree_of [OF doc holds_head [OF ok]]], assumption)
    apply (rule git_writes_gives [OF gives_subtree_of [OF doc agent]], assumption)
    apply (rule git_writes_gives [OF gives_subtree_of [OF doc session]], assumption)
    apply (rule nest_session_writes [OF doc refl timelines], assumption)
    apply (rule git_writes_step [OF d(5)], rule git_writes_step [OF d(6)], rule git_writes_step [OF d(7)])
    apply (rule git_writes_step [OF d(5)], rule git_writes_step [OF d(6)])
    apply (rule git_writes_bind [OF root_metadata_quiet_none [OF doc]])
    apply (rule git_writes_step [OF d(7)], rule git_writes_step [OF d(8)])
    apply (rule git_writes_step [OF d(9)], rule git_writes_step [OF d(9)])
    apply (rule git_writes_gives [OF gives_parents [OF doc ok]])
    apply (rule git_writes_weaken [OF commit_writes [OF doc one]])
    apply (rule exI, rule conjI [rotated], assumption)
    apply (simp add: nested_commit_def nested_root_def Let_def message_dir_def entries_of_def session_of_def)
    done
qed

end
