(* ===== verification/GitDagSteps.thy ===== *)
theory GitDagSteps
  imports GitDagLaws
begin

text \<open>
  One handler, one step of the daemon's loop: nothing, or one commit.  A session's tree is at every moment
  its numbered messages, at most 999 of them, each sealed by a hash over its predecessor's; what comes after
  them is stored under \<open>1000-\<close> and counts no more.
\<close>

section \<open>One message\<close>

definition git_canonical_parent :: "git_ext \<Rightarrow> git_tree option \<Rightarrow> string \<Rightarrow> string \<Rightarrow> dag_node_id" where
  "git_canonical_parent ext root agent session =
     (case root of None \<Rightarrow> dag_node_id_root | Some t \<Rightarrow> canonical_hash_at (gx_lossy ext) t agent session)"

text \<open>The fields from which a reader checks a message: its hash covers payload, parent, type and session.\<close>

definition sealed_fields :: "git_ext \<Rightarrow> dag_node_id \<Rightarrow> string \<Rightarrow> git_tree \<Rightarrow> bool" where
  "sealed_fields ext parent session fs \<longleftrightarrow>
     (\<exists>payload mt diagnostics.
        blob_at fs ''session_id'' = Some session \<and>
        blob_at fs ''type'' = Some (message_type_as_str mt) \<and>
        blob_at fs ''payload'' = Some payload \<and>
        blob_at fs ''hash'' = Some (git_hash ext payload parent mt diagnostics session))"

definition git_logs :: "git_ext \<Rightarrow> git_worker \<Rightarrow> git_repo \<Rightarrow> git_repo \<Rightarrow> nest_message \<Rightarrow> bool" where
  "git_logs ext gw v v' m \<longleftrightarrow>
     (\<exists>fs c.
        sealed_fields ext (git_canonical_parent ext (head_tree v) (nm_agent m) (nm_session m)) (nm_session m) fs \<and>
        (nm_fork_branch m \<noteq> None \<longrightarrow> nm_type m = ''fork'') \<and>
        nested_commit ext gw v (GTree fs) m c \<and>
        refs_after (gx_sealed_name ext (nm_now m)) m (length (gr_commits v)) (git_committed c v) v')"

lemma blob_at_with_fields:
  "blob_at (with_fields fs tb) n = (case map_of (rev fs) n of Some v \<Rightarrow> Some v | None \<Rightarrow> blob_at tb n)"
proof (induction fs arbitrary: tb)
  case Nil
  then show ?case by (simp add: with_fields_def)
next
  case (Cons x fs)
  then show ?case
    by (cases x) (auto simp: with_fields_def blob_at_update map_add_def split: option.splits)
qed

lemma resolve_canonical_parent_at:
  assumes doc: "git_documented git view" and ok: "refs_ok (view r)"
  shows "\<exists>r0. resolve_canonical_parent git ext agent session r =
    (Inr (git_canonical_parent ext (head_tree (view r)) agent session), r0) \<and> view r0 = view r"
proof (cases "head_tip (view r)")
  case None
  then show ?thesis
    by (simp add: resolve_canonical_parent_def git_documentedD(1) [OF doc] head_tree_def git_canonical_parent_def)
next
  case (Some oid)
  note l = head_commit [OF ok Some]
  have "git_gives view (view r)
      (ebind (git_ctx ''find commit failed: '' (go_find_commit git oid)) (\<lambda>_.
       ebind (git_ctx ''tree lookup failed: '' (go_commit_tree git oid)) (\<lambda>tree.
         session_canonical_hash git (gx_lossy ext) tree agent session)))
      (canonical_hash_at (gx_lossy ext) (gc_tree (gr_commits (view r) ! oid)) agent session)"
    by (rule gives_bind [OF gives_answer [OF git_readableD(1) [OF doc l]]],
        rule gives_bind [OF gives_answer [OF git_readableD(2) [OF doc l]]],
        rule gives_canonical_hash [OF doc holds_commit [OF l]])
  from git_givesD [OF this refl] show ?thesis
    by (simp add: resolve_canonical_parent_def git_documentedD(1) [OF doc] Some head_tree_def git_canonical_parent_def)
qed

lemma handler_logs:
  assumes doc: "git_documented git view" and ok: "refs_ok (view r)"
    and r': "r' = snd (ebind (resolve_canonical_parent git ext agent session) (\<lambda>cp.
      ebind (mk cp) (\<lambda>mt. nest_and_commit git ext gw mt (go_head git r) m)) r)"
    and m: "nm_agent m = agent" "nm_session m = session" and ty: "R m"
    and fork: "nm_fork_branch m \<noteq> None \<longrightarrow> nm_type m = ''fork''"
    and tree: "\<And>cp. git_quiet view (mk cp) (\<lambda>obj. \<exists>fs. obj = GTree fs \<and> sealed_fields ext cp session fs)"
  shows "view r' = view r \<or> (\<exists>m. R m \<and> git_logs ext gw (view r) (view r') m)"
proof -
  let ?cp = "git_canonical_parent ext (head_tree (view r)) agent session"
  obtain r0 where r0: "resolve_canonical_parent git ext agent session r = (Inr ?cp, r0)" "view r0 = view r"
    using resolve_canonical_parent_at [OF doc ok] by blast
  obtain x where x: "ebind (mk ?cp) (\<lambda>mt. nest_and_commit git ext gw mt (head_tip (view r)) m) r0 = (x, r')"
    using r' m by (simp add: ebind_def r0(1) git_documentedD(1) [OF doc] split_beta prod_eq_iff)
  from x show ?thesis
  proof (cases rule: ebindE)
    case (fail e)
    then show ?thesis using git_quietD [OF tree] r0(2) by metis
  next
    case (ok obj r1)
    from git_quietD [OF tree ok(1)] r0(2) obtain fs
      where fs: "view r1 = view r" "obj = GTree fs" "sealed_fields ext ?cp session fs" by auto
    have one: "nm_type m \<noteq> ''promote'' \<or> nm_fork_branch m = None" using fork by auto
    note run = ok(2) [unfolded fs(2)]
    from nest_and_commit_writes [OF doc one fs(1) assms(2) run] show ?thesis
    proof
      assume "\<exists>c. nested_commit ext gw (view r) (GTree fs) m c \<and>
        refs_after (gx_sealed_name ext (nm_now m)) m (length (gr_commits (view r))) (git_committed c (view r)) (view r')"
      then have "git_logs ext gw (view r) (view r') m" using fs(3) fork m unfolding git_logs_def by metis
      then show ?thesis using ty by blast
    qed simp
  qed
qed

lemma message_subtree_sealed:
  assumes doc: "git_documented git view" and t: "map_of (rev own) ''type'' = Some (message_type_as_str mt)"
    and own: "map_of (rev own) ''session_id'' = None" "map_of (rev own) ''payload'' = None"
  shows "git_quiet view (message_subtree git ext session sub at payload own toml
      (git_hash ext payload cp mt diag session))
    (\<lambda>obj. \<exists>fs. obj = GTree fs \<and> sealed_fields ext cp session fs)"
  by (rule git_quiet_weaken [OF message_subtree_quiet [OF doc]])
    (use t own in \<open>auto simp: sealed_fields_def blob_at_with_fields map_add_def\<close>)

lemma session_message_subtree_sealed:
  assumes doc: "git_documented git view"
    and own: "map_of (rev own) ''type'' = Some (message_type_as_str mt)" "map_of (rev own) ''session_id'' = Some session"
  shows "git_quiet view (session_message_subtree git c own (git_hash ext [] cp mt diag session))
    (\<lambda>obj. \<exists>fs. obj = GTree fs \<and> sealed_fields ext cp session fs)"
  by (rule git_quiet_weaken [OF session_message_subtree_quiet [OF doc]])
    (use own in \<open>auto simp: sealed_fields_def blob_at_with_fields\<close>)

section \<open>Each handler\<close>

lemma opt_field_map_of: "map_of (rev (opt_field n v)) k = (if k = n then v else None)"
  by (simp add: opt_field_def split: option.split)

lemma on_invoke_logs:
  assumes doc: "git_documented git view" and ok: "refs_ok (view r)" and r': "r' = on_invoke git ext gw key msg at r"
  shows "view r' = view r \<or> (\<exists>m. nm_type m = ''invoke'' \<and> git_logs ext gw (view r) (view r') m)"
proof (cases "dk_kind key")
  case DkInvoke
  show ?thesis
    by (rule handler_logs [OF doc ok r' [unfolded on_invoke_def Let_def DkInvoke data_message_kind.case]])
      (simp_all, rule message_subtree_sealed [OF doc], simp_all add: opt_field_map_of map_add_def split: option.split)
qed (use r' in \<open>simp_all add: on_invoke_def\<close>)

lemma on_complete_logs:
  assumes doc: "git_documented git view" and ok: "refs_ok (view r)" and r': "r' = on_complete git ext gw key msg at r"
  shows "view r' = view r \<or> (\<exists>m. nm_type m = ''complete'' \<and> git_logs ext gw (view r) (view r') m)"
proof (cases "dk_kind key")
  case DkComplete
  show ?thesis
    by (rule handler_logs [OF doc ok r' [unfolded on_complete_def Let_def DkComplete data_message_kind.case]])
      (simp_all, rule message_subtree_sealed [OF doc], simp_all add: opt_field_map_of map_add_def split: option.split)
qed (use r' in \<open>simp_all add: on_complete_def\<close>)

lemma on_request_logs:
  assumes doc: "git_documented git view" and ok: "refs_ok (view r)" and r': "r' = on_request git ext gw key msg at r"
  shows "view r' = view r \<or> (\<exists>m. nm_type m = ''request'' \<and> git_logs ext gw (view r) (view r') m)"
proof (cases "dk_kind key")
  case DkRequest
  show ?thesis
    by (rule handler_logs [OF doc ok r' [unfolded on_request_def Let_def DkRequest data_message_kind.case]])
      (simp_all, rule message_subtree_sealed [OF doc], simp_all add: opt_field_map_of map_add_def split: option.split)
qed (use r' in \<open>simp_all add: on_request_def\<close>)

lemma on_response_logs:
  assumes doc: "git_documented git view" and ok: "refs_ok (view r)" and r': "r' = on_response git ext gw key msg at r"
  shows "view r' = view r \<or> (\<exists>m. nm_type m = ''response'' \<and> git_logs ext gw (view r) (view r') m)"
proof (cases "dk_kind key")
  case DkResponse
  show ?thesis
    by (rule handler_logs [OF doc ok r' [unfolded on_response_def Let_def DkResponse data_message_kind.case]])
      (simp_all, rule message_subtree_sealed [OF doc], simp_all add: opt_field_map_of map_add_def split: option.split)
qed (use r' in \<open>simp_all add: on_response_def\<close>)

lemma on_svc_request_logs:
  assumes doc: "git_documented git view" and ok: "refs_ok (view r)" and r': "r' = on_svc_request git ext gw key msg at r"
  shows "view r' = view r \<or> (\<exists>m. nm_type m = ''svc_request'' \<and> git_logs ext gw (view r) (view r') m)"
proof (cases "vk_kind key")
  case VkSvcRequest
  show ?thesis
    by (rule handler_logs [OF doc ok r' [unfolded on_svc_request_def Let_def VkSvcRequest svc_message_kind.case]])
      (simp_all, rule message_subtree_sealed [OF doc], simp_all add: opt_field_map_of map_add_def split: option.split)
qed (use r' in \<open>simp_all add: on_svc_request_def\<close>)

lemma on_svc_response_logs:
  assumes doc: "git_documented git view" and ok: "refs_ok (view r)" and r': "r' = on_svc_response git ext gw key msg at r"
  shows "view r' = view r \<or> (\<exists>m. nm_type m = ''svc_response'' \<and> git_logs ext gw (view r) (view r') m)"
proof (cases "vk_kind key")
  case VkSvcResponse
  show ?thesis
    by (rule handler_logs [OF doc ok r' [unfolded on_svc_response_def Let_def VkSvcResponse svc_message_kind.case]])
      (simp_all, rule message_subtree_sealed [OF doc], simp_all add: opt_field_map_of map_add_def split: option.split)
qed (use r' in \<open>simp_all add: on_svc_response_def\<close>)

lemma on_fork_logs:
  assumes doc: "git_documented git view" and ok: "refs_ok (view r)" and r': "r' = on_fork git ext gw key msg at r"
  shows "view r' = view r \<or> (\<exists>m. nm_type m = ''fork'' \<and> git_logs ext gw (view r) (view r') m)"
proof (cases "sk_kind key")
  case SkFork
  show ?thesis
    by (rule handler_logs [OF doc ok r' [unfolded on_fork_def Let_def SkFork session_message_kind.case]])
      (simp_all, rule session_message_subtree_sealed [OF doc], simp_all add: opt_field_map_of map_add_def split: option.split)
qed (use r' in \<open>simp_all add: on_fork_def\<close>)

lemma on_promote_logs:
  assumes doc: "git_documented git view" and ok: "refs_ok (view r)" and r': "r' = on_promote git ext gw now key msg at r"
  shows "view r' = view r \<or> (\<exists>m. (nm_type m = ''promote'' \<and> nm_now m = now) \<and> git_logs ext gw (view r) (view r') m)"
proof (cases "sk_kind key")
  case SkPromote
  show ?thesis
    by (rule handler_logs [OF doc ok r' [unfolded on_promote_def Let_def SkPromote session_message_kind.case]])
      (simp_all, rule session_message_subtree_sealed [OF doc], simp_all add: opt_field_map_of map_add_def split: option.split)
qed (use r' in \<open>simp_all add: on_promote_def\<close>)

end
