(* ===== verification/GitSession.thy ===== *)
theory GitSession
  imports GitDagSteps
begin

text \<open>
  The tree of one session: its numbered message directories in order, then whatever was stored after the
  numbering ran out, then \<open>timelines\<close>.
\<close>

section \<open>Names of message directories\<close>

lemma digit_char_order: "a < b \<Longrightarrow> b < 10 \<Longrightarrow> digit_char a < digit_char b"
  by (simp add: digit_char_def less_char_def)

lemma ascii_digit_char: "d < 10 \<Longrightarrow> ascii_digit (digit_char d)"
  by (simp add: ascii_digit_def digit_char_def)

lemma pad3_digits:
  "n < 1000 \<Longrightarrow> pad3 n = [digit_char (n div 100), digit_char (n div 10 mod 10), digit_char (n mod 10)]"
proof -
  assume n: "n < 1000"
  have z: "digit_char 0 = CHR ''0''" by code_simp
  consider "n < 10" | "10 \<le> n" "n < 100" | "100 \<le> n" by linarith
  then show ?thesis
  proof cases
    case 1
    then have "show_nat n = [digit_char n]" by (subst show_nat.simps) simp
    then show ?thesis using 1 z by (simp add: pad3_def numeral_2_eq_2)
  next
    case 2
    then have "show_nat n = [digit_char (n div 10), digit_char (n mod 10)]"
      by (subst show_nat.simps, subst show_nat.simps) simp
    then show ?thesis using 2 z by (simp add: pad3_def)
  next
    case 3
    have "10 \<le> n div 10" "n div 100 < 10" using 3 n by linarith+
    then have "show_nat (n div 10) = [digit_char (n div 100), digit_char (n div 10 mod 10)]"
      by (subst show_nat.simps, subst show_nat.simps) (use 3 n in \<open>simp add: div_mult2_eq [symmetric]\<close>)
    then have "show_nat n = [digit_char (n div 100), digit_char (n div 10 mod 10), digit_char (n mod 10)]"
      using 3 by (subst show_nat.simps) simp
    then show ?thesis by (simp add: pad3_def)
  qed
qed

lemma pad3_1000: "pad3 1000 = ''1000''"
proof -
  have "show_nat 1000 = ''1000''"
    by code_simp
  then show ?thesis by (simp add: pad3_def)
qed

lemma pad3_length: "n < 1000 \<Longrightarrow> length (pad3 n) = 3"
  by (simp add: pad3_digits)

lemma pad3_order:
  assumes "a < b" "b < 1000"
  shows "pad3 a < pad3 b"
proof -
  have d: "x div 100 < 10" "x div 10 mod 10 < 10" "x mod 10 < 10" if "x < 1000" for x :: nat
    using that by auto
  have e: "x = 100 * (x div 100) + 10 * (x div 10 mod 10) + x mod 10" for x :: nat
  proof -
    have h: "x div 100 = x div 10 div 10" by (simp add: div_mult2_eq [symmetric])
    show ?thesis unfolding h using div_mult_mod_eq [of x 10] div_mult_mod_eq [of "x div 10" 10] by linarith
  qed
  consider "a div 100 < b div 100" | "a div 100 = b div 100" "a div 10 mod 10 < b div 10 mod 10"
    | "a div 100 = b div 100" "a div 10 mod 10 = b div 10 mod 10" "a mod 10 < b mod 10"
    | "b div 100 < a div 100" | "a div 100 = b div 100" "b div 10 mod 10 < a div 10 mod 10"
    | "a div 100 = b div 100" "a div 10 mod 10 = b div 10 mod 10" "b mod 10 \<le> a mod 10"
    by (metis less_linear order.strict_implies_order order_refl)
  then show ?thesis
  proof cases
    case 4
    then show ?thesis using assms d [of a] d [of b] e [of a] e [of b] by linarith
  next
    case 5
    then show ?thesis using assms d [of a] d [of b] e [of a] e [of b] by linarith
  next
    case 6
    then show ?thesis using assms e [of a] e [of b] by linarith
  qed (use assms d [of b] in \<open>simp_all add: pad3_digits digit_char_order\<close>)
qed

lemma less_of_prefix: "take k (a :: string) < take k b \<Longrightarrow> length b \<ge> k \<Longrightarrow> length a \<ge> k \<Longrightarrow> a < b"
proof -
  assume less: "take k a < take k b" and l: "length b \<ge> k" "length a \<ge> k"
  have "(take k a @ drop k a, take k b @ drop k b) \<in> lexord {(u, v). u < v}"
    using less l by (intro lexord_sufI) (simp_all add: list_less_def)
  then show "a < b" by (simp add: list_less_def)
qed

text \<open>Number \<open>i\<close> of the session, counted from 1.\<close>

definition numbered :: "nat \<Rightarrow> string \<Rightarrow> bool" where
  "numbered i n \<longleftrightarrow> take 4 n = pad3 i @ ''-''"

lemma numbered_length: "i < 1000 \<Longrightarrow> numbered i n \<Longrightarrow> length n \<ge> 4"
  by (auto simp: numbered_def pad3_digits dest: arg_cong [where f = length])

lemma numbered_dir:
  assumes "i < 1000" "numbered i n"
  shows "message_dir_name n"
proof -
  from numbered_length [OF assms] obtain a b c d r where n: "n = a # b # c # d # r"
    by (auto simp: numeral_eq_Suc Suc_le_length_iff)
  have "i div 100 < 10" "i div 10 mod 10 < 10" "i mod 10 < 10" using assms(1) by auto
  moreover have "a = digit_char (i div 100)" "b = digit_char (i div 10 mod 10)" "c = digit_char (i mod 10)" "d = CHR ''-''"
    using assms by (simp_all add: n numbered_def pad3_digits)
  ultimately have d: "ascii_digit a" "ascii_digit b" "ascii_digit c" "d = CHR ''-''" by (simp_all add: ascii_digit_char)
  show ?thesis
    unfolding message_dir_name_def n by (simp add: d)
qed

lemma numbered_order:
  assumes l: "i < j" "j < 1000" and n: "numbered i a" "numbered j b"
  shows "a < b"
proof (rule less_of_prefix [of 4])
  have "(pad3 i @ ''-'', pad3 j @ ''-'') \<in> lexord {(u, v). u < v}"
    using pad3_order [OF l] l by (intro lexord_sufI) (simp_all add: list_less_def pad3_length)
  then show "take 4 a < take 4 b" using n by (simp add: numbered_def list_less_def)
  show "length b \<ge> 4" "length a \<ge> 4" using numbered_length [OF _ n(1)] numbered_length [OF _ n(2)] l by simp_all
qed

section \<open>Well-formed sessions\<close>

definition read_hash :: "git_ext \<Rightarrow> git_tree \<Rightarrow> dag_node_id" where
  "read_hash ext fs = (case blob_at fs ''hash'' of None \<Rightarrow> [] | Some h \<Rightarrow> gx_lossy ext h)"

text \<open>Messages from number \<open>i + 1\<close> on, the first of them sealed over \<open>parent\<close>.\<close>

fun sealed_chain :: "git_ext \<Rightarrow> string \<Rightarrow> nat \<Rightarrow> dag_node_id \<Rightarrow> git_tree \<Rightarrow> bool" where
  "sealed_chain ext session i parent [] \<longleftrightarrow> True"
| "sealed_chain ext session i parent ((n, obj) # ms) \<longleftrightarrow>
     numbered (Suc i) n \<and>
     (case obj of
        GBlob _ \<Rightarrow> False
      | GTree fs \<Rightarrow> sealed_fields ext parent session fs \<and> sealed_chain ext session (Suc i) (read_hash ext fs) ms)"

fun chain_end :: "git_ext \<Rightarrow> dag_node_id \<Rightarrow> git_tree \<Rightarrow> dag_node_id" where
  "chain_end ext parent [] = parent"
| "chain_end ext parent ((n, obj) # ms) =
     chain_end ext (case obj of GBlob _ \<Rightarrow> [] | GTree fs \<Rightarrow> read_hash ext fs) ms"

lemma sealed_chain_snoc:
  "sealed_chain ext session i parent (ms @ [(n, GTree fs)]) \<longleftrightarrow>
     sealed_chain ext session i parent ms \<and> numbered (Suc (i + length ms)) n \<and>
     sealed_fields ext (chain_end ext parent ms) session fs"
  by (induction ms arbitrary: i parent) (auto split: git_obj.splits)

lemma sealed_chain_nth:
  "sealed_chain ext session i parent ms \<Longrightarrow> k < length ms \<Longrightarrow>
     numbered (Suc (i + k)) (fst (ms ! k)) \<and> (\<exists>fs. snd (ms ! k) = GTree fs)"
proof (induction ms arbitrary: i parent k)
  case Nil
  then show ?case by simp
next
  case (Cons x ms)
  obtain n fs where x: "x = (n, GTree fs)" using Cons.prems(1) by (cases x) (auto split: git_obj.splits)
  show ?case
    using Cons.prems Cons.IH [of "Suc i" "read_hash ext fs" "k - 1"] by (cases k) (simp_all add: x)
qed

lemma chain_end_last:
  "chain_end ext parent ms = (if ms = [] then parent
     else case snd (last ms) of GBlob _ \<Rightarrow> [] | GTree fs \<Rightarrow> read_hash ext fs)"
  by (induction ms arbitrary: parent) auto

lemma sealed_chain_names:
  assumes "sealed_chain ext session 0 parent ms" "length ms \<le> 999"
  shows "sorted_wrt (<) (map fst ms)" and "\<forall>(n, e) \<in> set ms. message_dir_name n \<and> (\<exists>fs. e = GTree fs)"
proof -
  have n: "numbered (Suc k) (fst (ms ! k))" "\<exists>fs. snd (ms ! k) = GTree fs" if "k < length ms" for k
    using sealed_chain_nth [OF assms(1) that] by simp_all
  show "sorted_wrt (<) (map fst ms)"
    unfolding sorted_wrt_iff_nth_less proof (intro allI impI)
    fix i j assume "i < j" "j < length (map fst ms)"
    then show "map fst ms ! i < map fst ms ! j"
      using numbered_order [of "Suc i" "Suc j" "fst (ms ! i)" "fst (ms ! j)"] n(1) [of i] n(1) [of j] assms(2) by simp
  qed
  show "\<forall>(n, e) \<in> set ms. message_dir_name n \<and> (\<exists>fs. e = GTree fs)"
  proof
    fix x assume "x \<in> set ms"
    then obtain k where k: "k < length ms" "x = ms ! k" by (auto simp: in_set_conv_nth)
    with n [OF k(1)] numbered_dir [OF _ n(1) [OF k(1)]] assms(2)
    show "case x of (n, e) \<Rightarrow> message_dir_name n \<and> (\<exists>fs. e = GTree fs)" by (simp add: split_beta)
  qed
qed

definition session_wf :: "git_ext \<Rightarrow> string \<Rightarrow> git_tree \<Rightarrow> git_tree \<Rightarrow> git_tree \<Rightarrow> git_obj \<Rightarrow> bool" where
  "session_wf ext session t ms xs tls \<longleftrightarrow>
     t = ms @ xs @ [(''timelines'', tls)] \<and> length ms \<le> 999 \<and> sealed_chain ext session 0 dag_node_id_root ms \<and>
     (xs \<noteq> [] \<longrightarrow> length ms = 999) \<and> (\<forall>n \<in> fst ` set xs. take 5 n = ''1000-'')"

lemma overflow_name: "take 5 n = ''1000-'' \<Longrightarrow> \<not> message_dir_name n \<and> n \<noteq> ''timelines''"
proof -
  assume a: "take 5 n = ''1000-''"
  then obtain r where "n = ''1000-'' @ r" by (metis append_take_drop_id)
  then show ?thesis by (simp add: message_dir_name_def)
qed

lemma session_wf_dirs:
  assumes "session_wf ext session t ms xs tls"
  shows "message_dirs t = ms" "session_message_count t = length ms" "next_seq (Some t) = Suc (length ms)"
    and "AList.delete ''timelines'' t = ms @ xs" "distinct (map fst ms)"
proof -
  have ms: "sorted_wrt (<) (map fst ms)" "\<forall>(n, e) \<in> set ms. message_dir_name n \<and> (\<exists>fs. e = GTree fs)"
    using assms sealed_chain_names [of ext session dag_node_id_root ms] by (simp_all add: session_wf_def)
  have xs: "\<not> message_dir_name n \<and> n \<noteq> ''timelines''" if "(n, e) \<in> set xs" for n e
    using assms that by (intro overflow_name) (auto simp: session_wf_def image_iff)
  have tln: "\<not> message_dir_name ''timelines''" by (simp add: message_dir_name_def ascii_digit_def)
  show d: "message_dirs t = ms"
  proof -
    have "filter (\<lambda>(n, e). (case e of GTree _ \<Rightarrow> True | GBlob _ \<Rightarrow> False) \<and> message_dir_name n) ms = ms"
      using ms(2) by (auto intro!: filter_True split: git_obj.splits)
    moreover have "filter (\<lambda>(n, e). (case e of GTree _ \<Rightarrow> True | GBlob _ \<Rightarrow> False) \<and> message_dir_name n) xs = []"
      using xs by (auto simp: filter_empty_conv)
    ultimately show ?thesis using assms tln by (simp add: message_dirs_def session_wf_def)
  qed
  then show "session_message_count t = length ms" by (simp add: session_message_count_def)
  then show "next_seq (Some t) = Suc (length ms)" by (simp add: next_seq_def)
  have "''timelines'' \<notin> fst ` set (ms @ xs)" using ms(2) xs tln by fastforce
  then have "AList.delete ''timelines'' (ms @ xs) = ms @ xs" by (rule AList.delete_id)
  then show "AList.delete ''timelines'' t = ms @ xs"
    using assms by (simp add: session_wf_def AList.delete_eq)
  show "distinct (map fst ms)" using ms(1) by (simp add: strict_sorted_iff)
qed

lemma session_wf_hash:
  assumes wf: "session_wf ext session t ms xs tls"
    and t: "subtree_at root agent = Some at" "subtree_at at session' = Some t"
  shows "canonical_hash_at (gx_lossy ext) root agent session' = chain_end ext dag_node_id_root ms"
proof (cases "ms = []")
  case True
  then show ?thesis
    using t session_wf_dirs(1) [OF wf] by (simp add: canonical_hash_at_def dag_node_id_root_def)
next
  case False
  have sorted: "sorted_wrt (<) (map fst ms)" and last: "\<exists>fs. snd (last ms) = GTree fs"
    using wf sealed_chain_names [of ext session dag_node_id_root ms] False last_in_set [OF False]
    by (auto simp: session_wf_def split_beta)
  have s: "sort (map fst ms) = map fst ms"
    using sorted by (intro sorted_sort_id) (simp add: strict_sorted_iff)
  obtain fs where fs: "last ms = (fst (last ms), GTree fs)" using last by (metis prod.collapse)
  have "map_of t (fst (last ms)) = Some (GTree fs)"
    using wf session_wf_dirs(5) [OF wf] last_in_set [OF False] fs
    by (auto simp: session_wf_def map_add_Some_iff intro!: map_of_is_SomeI)
  then have "subtree_at t (fst (last ms)) = Some fs" by (simp add: subtree_at_def)
  moreover have "snd (last ms) = GTree fs" using fs by (metis snd_conv)
  ultimately show ?thesis
    using t False session_wf_dirs(1) [OF wf] s
    by (simp add: canonical_hash_at_def Let_def last_map chain_end_last read_hash_def split: option.split)
qed

lemma update_append:
  "k \<notin> fst ` set xs \<Longrightarrow> AList.update k v (xs @ ys) = xs @ AList.update k v ys"
  by (induction xs) auto

lemma update_fresh: "k \<notin> fst ` set xs \<Longrightarrow> AList.update k v xs = xs @ [(k, v)]"
  using update_append [of k xs v "[]"] by simp

lemma update_names: "fst ` set (AList.update k v xs) = insert k (fst ` set xs)"
  by (induction xs) auto

text \<open>A message filed in a session that is well formed, or not there yet.\<close>

lemma nested_session_wf:
  assumes old: "case st of None \<Rightarrow> ms = [] \<and> xs = [] | Some t \<Rightarrow> \<exists>tls. session_wf ext session t ms xs tls"
    and fs: "sealed_fields ext (chain_end ext dag_node_id_root ms) session fs"
    and ty: "msg_dir = message_dir st m"
  shows "length ms < 999 \<Longrightarrow> \<exists>tls. session_wf ext session (nested_session lossy st (GTree fs) msg_dir active) (ms @ [(msg_dir, GTree fs)]) [] tls"
    and "length ms = 999 \<Longrightarrow> \<exists>tls. session_wf ext session (nested_session lossy st (GTree fs) msg_dir active) ms (AList.update msg_dir (GTree fs) xs) tls"
    and "length ms = 999 \<Longrightarrow> msg_dir = ''1000-'' @ nm_from m @ ''-'' @ nm_type m"
proof -
  have body: "AList.delete ''timelines'' (entries_of st) = ms @ xs"
    using old session_wf_dirs(4) by (cases st) (auto simp: entries_of_def)
  have seq: "next_seq st = Suc (length ms)"
    using old session_wf_dirs(3) by (cases st) (auto simp: next_seq_def)
  have basic: "length ms \<le> 999" "sealed_chain ext session 0 dag_node_id_root ms" "xs \<noteq> [] \<longrightarrow> length ms = 999"
      "\<forall>n \<in> fst ` set xs. take 5 n = ''1000-''"
    using old by (cases st; auto simp: session_wf_def)+
  have names: "message_dir_name n" if "n \<in> fst ` set ms" for n
    using that sealed_chain_names(2) [OF basic(2,1)] by auto
  obtain tls where new: "nested_session lossy st (GTree fs) msg_dir active =
      AList.update ''timelines'' tls (AList.update msg_dir (GTree fs) (ms @ xs))"
    by (simp add: nested_session_def Let_def body)
  have tln: "\<not> message_dir_name ''timelines''" by (simp add: message_dir_name_def ascii_digit_def)
  {
    assume l: "length ms < 999"
    have n: "numbered (Suc (length ms)) msg_dir"
      using l by (simp add: ty message_dir_def seq numbered_def pad3_length)
    have "msg_dir \<notin> fst ` set ms"
    proof
      assume "msg_dir \<in> fst ` set ms"
      then obtain k where k: "k < length ms" "msg_dir = fst (ms ! k)" by (auto simp: in_set_conv_nth)
      then have "fst (ms ! k) < msg_dir"
        using numbered_order [OF _ _ conjunct1 [OF sealed_chain_nth [OF basic(2) k(1)]] n] l by simp
      with k show False by simp
    qed
    moreover have "msg_dir \<noteq> ''timelines''" using numbered_dir [OF _ n] l tln by auto
    moreover have "''timelines'' \<notin> fst ` set ms" using names tln by blast
    ultimately show "\<exists>tls. session_wf ext session (nested_session lossy st (GTree fs) msg_dir active) (ms @ [(msg_dir, GTree fs)]) [] tls"
      using l n fs basic by (intro exI [of _ tls]) (auto simp: session_wf_def new update_append update_fresh sealed_chain_snoc)
  }
  assume l: "length ms = 999"
  show d: "msg_dir = ''1000-'' @ nm_from m @ ''-'' @ nm_type m"
    using l pad3_1000 by (simp add: ty message_dir_def seq)
  have t5: "take 5 msg_dir = ''1000-''" by (simp add: d)
  have nd: "msg_dir \<notin> fst ` set ms" using names overflow_name [OF t5] by blast
  have "''timelines'' \<notin> fst ` set (ms @ AList.update msg_dir (GTree fs) xs)"
  proof -
    have "n \<noteq> ''timelines''" if "n \<in> insert msg_dir (fst ` set xs)" for n
      using that overflow_name basic(4) t5 by blast
    then show ?thesis using names tln unfolding set_append image_Un update_names by blast
  qed
  from update_fresh [OF this]
  show "\<exists>tls. session_wf ext session (nested_session lossy st (GTree fs) msg_dir active) ms (AList.update msg_dir (GTree fs) xs) tls"
    using nd l basic t5 by (intro exI [of _ tls]) (auto simp: session_wf_def new update_append [OF nd] update_names)
qed

end
