(* ===== verification/GitDagRun.thy ===== *)
theory GitDagRun
  imports GitSession RecordingMem
begin

text \<open>
  Runs of the daemon's git loop: what a session's tree is after any of them, where its numbering stops, what
  becomes of branches, and the agents whose history is lost.
\<close>

section \<open>One step\<close>

definition dag_git_run ::
    "(string \<Rightarrow> bool) \<Rightarrow> git_decoders \<Rightarrow> 'r git_ops \<Rightarrow> git_ext \<Rightarrow> git_worker \<Rightarrow>
     (timestamp \<times> timestamp \<times> string \<times> bytes) list \<Rightarrow> 'r \<Rightarrow> 'r" where
  "dag_git_run is_uuid gd git ext gw evs =
     fold (\<lambda>(at, now, subject, payload). dag_git_step is_uuid gd git ext gw at now subject payload) evs"

lemma dag_git_step_logs:
  assumes doc: "git_documented git view" and ok: "refs_ok (view r)"
    and r': "r' = dag_git_step is_uuid gd git ext gw at now subject payload r"
  shows "view r' = view r \<or> (\<exists>m. git_logs ext gw (view r) (view r') m \<and>
    (promote_parse_subject is_uuid subject = None \<longrightarrow> nm_type m \<noteq> ''promote''))"
proof -
  let ?Q = "\<lambda>r'. view r' = view r \<or> (\<exists>m. git_logs ext gw (view r) (view r') m \<and>
    (promote_parse_subject is_uuid subject = None \<longrightarrow> nm_type m \<noteq> ''promote''))"
  have h: "?Q (handle_decoded f x r)"
    if "\<And>y. view (f y r) = view r \<or> (\<exists>m. nm_type m = ty \<and> git_logs ext gw (view r) (view (f y r)) m)"
      "promote_parse_subject is_uuid subject = None \<Longrightarrow> ty \<noteq> ''promote''" for f and x :: "'m option" and ty
  proof (cases x)
    case (Some y)
    from that(1) [of y] show ?thesis
      unfolding handle_decoded_def Some option.case
    proof (elim disjE exE conjE)
      fix m assume "nm_type m = ty" "git_logs ext gw (view r) (view (f y r)) m"
      then show "?Q (f y r)" using that(2) by (intro disjI2 exI [of _ m]) simp
    qed simp
  qed (simp add: handle_decoded_def)
  have none: "?Q r" by simp
  have logs:
      "?Q (handle_decoded (\<lambda>m. on_complete git ext gw key_complete m at) x_complete r)"
      "?Q (handle_decoded (\<lambda>m. on_request git ext gw key_request m at) x_request r)"
      "?Q (handle_decoded (\<lambda>m. on_response git ext gw key_response m at) x_response r)"
      "?Q (handle_decoded (\<lambda>m. on_invoke git ext gw key_invoke m at) x_invoke r)"
      "?Q (handle_decoded (\<lambda>m. on_fork git ext gw key_fork m at) x_fork r)"
      "?Q (handle_decoded (\<lambda>m. on_svc_request git ext gw key_svc_request m at) x_svc_request r)"
      "?Q (handle_decoded (\<lambda>m. on_svc_response git ext gw key_svc_response m at) x_svc_response r)"
    for key_complete x_complete key_request x_request key_response x_response key_invoke x_invoke key_fork x_fork key_svc_request x_svc_request key_svc_response x_svc_response
    by ((rule h, (rule on_complete_logs [OF doc ok refl] on_request_logs [OF doc ok refl] on_response_logs [OF doc ok refl] on_invoke_logs [OF doc ok refl] on_fork_logs [OF doc ok refl] on_svc_request_logs [OF doc ok refl] on_svc_response_logs [OF doc ok refl]), simp)+)
  have promote: "promote_parse_subject is_uuid subject = Some key \<Longrightarrow>
      ?Q (handle_decoded (\<lambda>m. on_promote git ext gw now key m at) x r)" for key x
  proof (rule h)
    show "view (on_promote git ext gw now key y at r) = view r \<or>
        (\<exists>m. nm_type m = ''promote'' \<and> git_logs ext gw (view r) (view (on_promote git ext gw now key y at r)) m)" for y
      using on_promote_logs [OF doc ok refl, of ext gw now key y at] by (elim disjE exE conjE) (simp_all, metis)
  qed simp
  show ?thesis
    unfolding r' dag_git_step_def
    by (simp only: split: option.split) (intro conjI impI allI none logs promote; assumption)
qed

text \<open>\<open>HEAD\<close> follows the commit through whatever is done to the branches.\<close>

lemma branches_update: "map_of (AList.update k v xs) n = (if n = k then Some v else map_of xs n)"
  by (simp add: update_conv')

lemma branches_delete: "map_of (AList.delete k xs) n = (if n = k then None else map_of xs n)"
  by (simp add: delete_conv')

lemma refs_after_head:
  assumes refs: "refs_after sealed m oid v v'" and head: "head_tip v = Some oid"
  shows "head_tip v' = Some oid" "gr_commits v' = gr_commits v"
    and "map_of (gr_branches v') n \<in> {Some oid, map_of (gr_branches v) n, map_of (gr_branches v) ''main'', None}"
proof -
  have r: "head_tip (git_renamed ''main'' sealed v) = Some oid"
    if "map_of (gr_branches v) ''main'' \<noteq> None \<longrightarrow> map_of (gr_branches v) sealed = None"
    using that head by (auto simp: git_renamed_def head_tip_def branches_update branches_delete split: option.splits)
  have b: "head_tip (on_branch n oid w) = Some oid" if "head_tip w = Some oid" for n w
    using that by (simp add: on_branch_def head_tip_def branches_update)
  show "head_tip v' = Some oid" using refs head r b unfolding refs_after_def by blast
  show "gr_commits v' = gr_commits v"
    using refs by (auto simp: refs_after_def on_branch_def git_renamed_def split: option.splits)
  show "map_of (gr_branches v') n \<in> {Some oid, map_of (gr_branches v) n, map_of (gr_branches v) ''main'', None}"
    using refs
    by (auto simp: refs_after_def on_branch_def git_renamed_def branches_update branches_delete split: option.splits if_splits)
qed

lemma git_logs_effect:
  assumes log: "git_logs ext gw v v' m" and ok: "refs_ok v"
  obtains fs c where "sealed_fields ext (git_canonical_parent ext (head_tree v) (nm_agent m) (nm_session m)) (nm_session m) fs"
    and "nested_commit ext gw v (GTree fs) m c" "head_tree v' = Some (gc_tree c)" "gr_commits v' = gr_commits v @ [c]"
    and "refs_ok v'" "refs_after (gx_sealed_name ext (nm_now m)) m (length (gr_commits v)) (git_committed c v) v'"
proof -
  from log obtain fs c
    where fs: "sealed_fields ext (git_canonical_parent ext (head_tree v) (nm_agent m) (nm_session m)) (nm_session m) fs"
      and c: "nested_commit ext gw v (GTree fs) m c"
      and refs: "refs_after (gx_sealed_name ext (nm_now m)) m (length (gr_commits v)) (git_committed c v) v'"
    unfolding git_logs_def by blast
  have h: "head_tip (git_committed c v) = Some (length (gr_commits v))"
    by (simp add: git_committed_def committed_on_def head_tip_def branches_update)
  note after = refs_after_head [OF refs h]
  have commits: "gr_commits v' = gr_commits v @ [c]" using after(2) by (simp add: git_committed_def committed_on_def)
  have "oid < length (gr_commits v')" if "map_of (gr_branches v') n = Some oid" for n oid
    using after(3) [of n] that ok
    by (fastforce simp: refs_ok_def commits git_committed_def committed_on_def branches_update split: if_splits)
  then have "refs_ok v'" by (simp add: refs_ok_def)
  moreover have "head_tree v' = Some (gc_tree c)" using after(1) commits by (simp add: head_tree_def)
  ultimately show thesis using that fs c refs commits by blast
qed

section \<open>Runs\<close>

text \<open>An invariant of every step that commits, and of what a repository shows, is one of every run.\<close>

lemma dag_git_run_inv:
  assumes doc: "git_documented git view" and ok: "refs_ok (view r)" and start: "P (view r)"
    and step: "\<And>v v' m. refs_ok v \<Longrightarrow> P v \<Longrightarrow> git_logs ext gw v v' m \<Longrightarrow>
      ((\<forall>e \<in> set evs. promote_parse_subject is_uuid (fst (snd (snd e))) = None) \<Longrightarrow> nm_type m \<noteq> ''promote'') \<Longrightarrow> P v'"
  shows "refs_ok (view (dag_git_run is_uuid gd git ext gw evs r)) \<and> P (view (dag_git_run is_uuid gd git ext gw evs r))"
  using ok start step
proof (induction evs arbitrary: r)
  case Nil
  then show ?case by (simp add: dag_git_run_def)
next
  case (Cons e evs)
  obtain at now subject payload where e: "e = (at, now, subject, payload)" by (cases e)
  define r1 where "r1 = dag_git_step is_uuid gd git ext gw at now subject payload r"
  have "refs_ok (view r1) \<and> P (view r1)"
    using dag_git_step_logs [OF doc Cons.prems(1) r1_def]
  proof
    assume "\<exists>m. git_logs ext gw (view r) (view r1) m \<and>
      (promote_parse_subject is_uuid subject = None \<longrightarrow> nm_type m \<noteq> ''promote'')"
    then obtain m where m: "git_logs ext gw (view r) (view r1) m"
      "promote_parse_subject is_uuid subject = None \<longrightarrow> nm_type m \<noteq> ''promote''" by (elim exE conjE)
    have "P (view r1)" by (rule Cons.prems(3) [OF Cons.prems(1,2) m(1)]) (use m(2) e in simp)
    moreover have "refs_ok (view r1)" by (rule git_logs_effect [OF m(1) Cons.prems(1)])
    ultimately show ?thesis by (rule conjI [rotated])
  qed (use Cons.prems(1,2) in simp)
  then have "refs_ok (view (dag_git_run is_uuid gd git ext gw evs r1)) \<and> P (view (dag_git_run is_uuid gd git ext gw evs r1))"
    by (intro Cons.IH) (use Cons.prems(3) in auto)
  then show ?case by (simp add: dag_git_run_def e r1_def)
qed

section \<open>Sessions along a run\<close>

definition history_wf :: "git_ext \<Rightarrow> git_tree option \<Rightarrow> bool" where
  "history_wf ext root \<longleftrightarrow>
     (\<forall>agent session t. agent \<notin> reserved_names \<longrightarrow> session_of root agent session = Some t \<longrightarrow>
        (\<exists>ms xs tls. session_wf ext session t ms xs tls))"

definition filed :: "git_ext \<Rightarrow> nest_message \<Rightarrow> git_tree option \<Rightarrow> git_tree \<Rightarrow> git_tree" where
  "filed ext m st fs = nested_session (gx_lossy ext) st (GTree fs) (message_dir st m) (nm_timeline m)"

lemma session_of_same:
  "same_unreserved t t' \<Longrightarrow> agent \<notin> reserved_names \<Longrightarrow> session_of (Some t') agent session = session_of (Some t) agent session"
  by (simp add: session_of_def same_unreserved_def subtree_at_def)

lemma subtree_at_simple:
  "subtree_at [] n = None" "subtree_at [(k, GTree t)] n = (if n = k then Some t else None)"
  by (simp_all add: subtree_at_def)

lemma session_of_nested:
  "session_of (Some (nested_root (gx_lossy ext) root (GTree fs) m)) agent session =
     (if agent = nm_agent m \<and> session = nm_session m then Some (filed ext m (session_of root agent session) fs)
      else session_of root agent session)"
  by (cases root; cases "subtree_at (the root) (nm_agent m)")
    (auto simp: session_of_def nested_root_def filed_def Let_def subtree_at_update subtree_at_simple entries_of_def)

lemma git_logs_session:
  assumes log: "git_logs ext gw v v' m" and ok: "refs_ok v" and agent: "agent \<notin> reserved_names"
  obtains (filed) fs where "agent = nm_agent m" "session = nm_session m"
      "sealed_fields ext (git_canonical_parent ext (head_tree v) agent session) session fs"
      "session_of (head_tree v') agent session = Some (filed ext m (session_of (head_tree v) agent session) fs)"
    | (other) "session_of (head_tree v') agent session = session_of (head_tree v) agent session"
proof -
  from git_logs_effect [OF log ok] obtain fs c where
    fs: "sealed_fields ext (git_canonical_parent ext (head_tree v) (nm_agent m) (nm_session m)) (nm_session m) fs"
    and c: "nested_commit ext gw v (GTree fs) m c" and h: "head_tree v' = Some (gc_tree c)" by blast
  have "session_of (head_tree v') agent session =
      session_of (Some (nested_root (gx_lossy ext) (head_tree v) (GTree fs) m)) agent session"
    using session_of_same [OF _ agent] c unfolding h nested_commit_def by blast
  then show thesis using fs that unfolding session_of_nested by (cases "agent = nm_agent m \<and> session = nm_session m") auto
qed

text \<open>The parent a handler hashes over is the end of the session's chain.\<close>

lemma canonical_parent_of_session:
  "case session_of root agent session of None \<Rightarrow> ms = [] | Some t \<Rightarrow> \<exists>xs tls. session_wf ext session t ms xs tls \<Longrightarrow>
   git_canonical_parent ext root agent session = chain_end ext dag_node_id_root ms"
proof -
  assume a: "case session_of root agent session of None \<Rightarrow> ms = [] | Some t \<Rightarrow> \<exists>xs tls. session_wf ext session t ms xs tls"
  show ?thesis
  proof (cases "session_of root agent session")
    case None
    then show ?thesis
      using a by (auto simp: session_of_def git_canonical_parent_def canonical_hash_at_def dag_node_id_root_def
        bind_eq_None_conv split: option.split)
  next
    case (Some t)
    then obtain rt at xs tls where "root = Some rt" "subtree_at rt agent = Some at" "subtree_at at session = Some t"
        "session_wf ext session t ms xs tls"
      using a by (auto simp: session_of_def bind_eq_Some_conv)
    then show ?thesis by (simp add: git_canonical_parent_def session_wf_hash)
  qed
qed

lemma git_logs_history:
  assumes log: "git_logs ext gw v v' m" and ok: "refs_ok v" and hist: "history_wf ext (head_tree v)"
    and agent: "agent \<notin> reserved_names"
    and old: "case session_of (head_tree v) agent session of None \<Rightarrow> ms = [] \<and> xs = []
      | Some t \<Rightarrow> \<exists>tls. session_wf ext session t ms xs tls"
  shows "session_of (head_tree v') agent session = session_of (head_tree v) agent session \<or>
    (\<exists>t' x xs' tls. session_of (head_tree v') agent session = Some t' \<and>
       session_wf ext session t' (take 999 (ms @ [x])) xs' tls)"
proof (rule git_logs_session [OF log ok agent, of session])
  fix fs assume fs: "sealed_fields ext (git_canonical_parent ext (head_tree v) agent session) session fs"
    and new: "session_of (head_tree v') agent session = Some (filed ext m (session_of (head_tree v) agent session) fs)"
  have p: "git_canonical_parent ext (head_tree v) agent session = chain_end ext dag_node_id_root ms"
    by (rule canonical_parent_of_session) (use old in \<open>auto split: option.splits\<close>)
  note wf = nested_session_wf [OF old fs [unfolded p] refl [of "message_dir _ m"]]
  have "length ms \<le> 999" using old by (auto simp: session_wf_def split: option.splits)
  then consider "length ms < 999" | "length ms = 999" by linarith
  then show ?thesis
  proof cases
    case 1
    then show ?thesis
      using wf(1) [OF 1, of "gx_lossy ext" "nm_timeline m"] new by (auto simp: filed_def)
  next
    case 2
    then show ?thesis
      using wf(2) [OF 2, of "gx_lossy ext" "nm_timeline m"] new by (auto simp: filed_def)
  qed
qed simp

lemma history_wf_step:
  assumes log: "git_logs ext gw v v' m" and ok: "refs_ok v" and hist: "history_wf ext (head_tree v)"
  shows "history_wf ext (head_tree v')"
  unfolding history_wf_def
proof (intro allI impI)
  fix agent session t' assume agent: "agent \<notin> reserved_names" and t': "session_of (head_tree v') agent session = Some t'"
  obtain ms xs where old: "case session_of (head_tree v) agent session of None \<Rightarrow> ms = [] \<and> xs = []
      | Some t \<Rightarrow> \<exists>tls. session_wf ext session t ms xs tls"
    using hist agent that [of "[]" "[]"] that
    by (cases "session_of (head_tree v) agent session") (simp_all add: history_wf_def, meson)
  show "\<exists>ms xs tls. session_wf ext session t' ms xs tls"
    using git_logs_history [OF log ok hist agent old] t' old by (auto split: option.splits)
qed

lemma canonical_length:
  "session_wf ext session t ms xs tls \<Longrightarrow> message_dirs t = ms \<and> session_message_count t = length ms \<and> length ms \<le> 999"
  by (frule session_wf_dirs(1), frule session_wf_dirs(2)) (simp only: session_wf_def)

text \<open>Opening: a repository that shows commits is left as it is, a fresh one gets its empty first commit.\<close>

lemma git_open_view:
  assumes doc: "git_documented git view" and run: "git_open git now r = (x, r')"
  shows "view r' = view r \<or> (head_tip (view r) = None \<and> (\<exists>c. gc_tree c = [] \<and> view r' = committed_on ''main'' c (view r)))"
proof (cases "go_head git r")
  case None
  note d = git_documentedD [OF doc]
  have c: "git_writes view v (ebind (git_ctx m (go_commit git (Some ''main'') c)) (\<lambda>_. eret ()))
      (\<lambda>v'. v' = committed_on ''main'' c v)" for v c m
  proof (rule git_writesI)
    fix r x r' assume v: "view r = v"
      and run: "ebind (git_ctx m (go_commit git (Some ''main'') c)) (\<lambda>_. eret ()) r = (x, r')"
    obtain y r1 where y: "go_commit git (Some ''main'') c r = (y, r1)" by (metis surj_pair)
    then have "r' = r1" using run by (cases y) (auto simp: ebind_def git_ctx_def)
    then show "view r' = v \<or> view r' = committed_on ''main'' c v"
      using d(17) [of "''main''" c r] y v by (cases y) simp_all
  qed
  have t: "git_quiet view (ebind (go_treebuilder git None) (\<lambda>tb. ebind (go_write_tree git tb) (go_find_tree git))) (\<lambda>t. t = [])"
    by (rule git_quiet_bind [OF git_quiet_pure [OF d(5)]], simp, rule git_quiet_bind [OF git_quiet_pure [OF d(7)]], simp,
        rule git_quiet_pure [OF d(8)])
  let ?S = "\<lambda>v'. \<exists>c. gc_tree c = [] \<and> v' = committed_on ''main'' c (view r)"
  from run None have "view r' = view r \<or> ?S (view r')"
    unfolding git_open_def
    apply simp
    apply (erule git_writesD [of view "view r" _ ?S, OF _ refl, rotated])
    apply (rule git_writes_bind [OF git_quiet_ctx [OF t]])
    apply (rule git_writes_bind [OF git_quiet_ctx [OF git_quiet_pure [OF d(9)]]])
    apply (rule git_writes_weaken [OF c])
    apply (rule exI, rule conjI [rotated], assumption, simp)
    done
  then show ?thesis using None d(1) [of r] by auto
next
  case (Some oid)
  then show ?thesis using run by (auto simp: git_open_def)
qed

definition git_fresh :: "git_repo \<Rightarrow> bool" where
  "git_fresh v \<longleftrightarrow> gr_commits v = [] \<and> gr_branches v = []"

lemma git_open_fresh:
  assumes doc: "git_documented git view" and fresh: "git_fresh (view r)"
    and r1: "r1 = snd (git_open git now r)"
  shows "refs_ok (view r1)" "session_of (head_tree (view r1)) agent session = None" "history_wf ext (head_tree (view r1))"
proof -
  obtain x where "git_open git now r = (x, r1)" by (simp add: r1 prod_eq_iff)
  from git_open_view [OF doc this] fresh
  have v: "view r1 = view r \<or> (\<exists>c. gc_tree c = [] \<and> view r1 = committed_on ''main'' c (view r))" by blast
  then show "refs_ok (view r1)" using fresh by (auto simp: refs_ok_def git_fresh_def committed_on_def split: if_splits)
  show n: "session_of (head_tree (view r1)) agent session = None" for agent session
    using v fresh
    by (auto simp: session_of_def head_tree_def head_tip_def git_fresh_def committed_on_def subtree_at_simple split: if_splits)
  show "history_wf ext (head_tree (view r1))" by (simp add: history_wf_def n)
qed

section \<open>The history of a run\<close>

text \<open>A concrete daemon: one agent's completions and promotes, a repository in memory whose calls succeed.\<close>

definition example_git_ext :: git_ext where
  "example_git_ext = rec_ext.extend example_ext
     (git_ext.fields (\<lambda>_. None) (\<lambda>_. None) (\<lambda>_. Inr []) (\<lambda>_. Inr []) (\<lambda>_. Inr []) (\<lambda>_. Inr []) (\<lambda>_. Inr []) (\<lambda>_. Inr [])
       (\<lambda>_. None) (\<lambda>_. None) (\<lambda>_. []) (\<lambda>t. t) (\<lambda>b. b) (\<lambda>_. ''broken-1'') [] [])"

definition example_gw :: git_worker where
  "example_gw = \<lparr>gw_registry_host = ''host'', gw_registry = None\<rparr>"

definition example_decoders :: git_decoders where
  "example_decoders =
     \<lparr>gd_complete = (\<lambda>_. Some example_complete), gd_request = (\<lambda>_. None), gd_response = (\<lambda>_. None),
      gd_invoke = (\<lambda>_. None), gd_fork = (\<lambda>b. Some \<lparr>fk_id = [], fk_branch_name = b, fk_fork_point = []\<rparr>),
      gd_promote = (\<lambda>_. Some example_promote), gd_svc_request = (\<lambda>_. None), gd_svc_response = (\<lambda>_. None)\<rparr>"

definition example_git :: "git_repo sql_world git_ops" where
  "example_git = ref_git (\<lambda>_. None)"

definition example_git_start :: "git_repo sql_world" where
  "example_git_start = snd (git_open example_git 0
     \<lparr>sw_tick = 0, sw_data = \<lparr>gr_commits = [], gr_branches = [], gr_head = ''main''\<rparr>\<rparr>)"

definition example_git_run :: "(timestamp \<times> timestamp \<times> string \<times> bytes) list \<Rightarrow> git_repo sql_world" where
  "example_git_run evs = dag_git_run (\<lambda>_. True) example_decoders example_git example_git_ext example_gw evs example_git_start"

definition example_completed :: "timestamp \<times> timestamp \<times> string \<times> bytes" where
  "example_completed = (1, 1, ''vlinder.data.v1.s.1.u.complete.a.cli'', [])"

definition example_promoted :: "timestamp \<times> timestamp \<times> string \<times> bytes" where
  "example_promoted = (2, 2, ''vlinder.s.1.u.promote.a'', [])"

definition example_shown :: "git_repo sql_world \<Rightarrow> string list option \<times> (string \<times> nat) list \<times> string" where
  "example_shown w =
     (map_option (map fst) (session_of (head_tree (sw_data w)) ''a'' ''s''), gr_branches (sw_data w), gr_head (sw_data w))"

lemma example_git_ran:
  "example_shown (example_git_run [example_completed, example_promoted]) =
   (Some [''001-a-complete'', ''002-platform-promote'', ''timelines''], [(''broken-1'', 2), (''main'', 2)], ''broken-1'')"
  by code_simp

lemma example_git_doc: "git_documented example_git sw_data"
  unfolding example_git_def by (rule ref_git_documented)

text \<open>
  C10: the git worker keeps every session auditable.  Whatever messages the daemon's loop is fed from a fresh
  repository on, and whichever writing calls of libgit2 fail, the session trees at \<open>HEAD\<close> of every agent that
  has no reserved name are numbered messages in order, each with the hash over its payload, type and session
  and the hash of the message before it; and beyond number 999 only entries named \<open>1000-\<close>.  This is so as
  long as what the repository holds can be read back (\<open>git_readable\<close>, part of \<open>git_documented\<close>): the code
  takes a failed read for an empty answer, and then the statement is false (\<open>failed_read_loses_history\<close>).
\<close>

theorem git_history_sealed:
  assumes doc: "git_documented git view" and fresh: "git_fresh (view r)"
  shows "history_wf ext (head_tree (view (dag_git_run is_uuid gd git ext gw evs (snd (git_open git now r)))))"
proof -
  note start = git_open_fresh [OF doc fresh refl, where now = now]
  show ?thesis
    by (rule conjunct2 [OF dag_git_run_inv [OF doc start(1), of "\<lambda>v. history_wf ext (head_tree v)"]])
      (rule start(3), rule history_wf_step)
qed

theorem git_history_sealed_witness:
  "history_wf example_git_ext (head_tree (sw_data (example_git_run [example_completed, example_promoted]))) \<and>
   map_option (map fst) (session_of (head_tree (sw_data (example_git_run [example_completed, example_promoted]))) ''a'' ''s'') =
     Some [''001-a-complete'', ''002-platform-promote'', ''timelines'']"
proof -
  have "history_wf example_git_ext (head_tree (sw_data (example_git_run [example_completed, example_promoted])))"
    unfolding example_git_run_def example_git_start_def
    by (rule git_history_sealed [OF example_git_doc]) (simp add: git_fresh_def)
  then show ?thesis using example_git_ran by (simp add: example_shown_def)
qed

text \<open>
  A read that fails.  When the tree of the agent cannot be read while the second message is handled,
  \<open>get_subtree\<close> takes it for absent: the message becomes number 1, sealed over the root, and the first message
  is no longer at \<open>HEAD\<close>.  When only the blob with the last hash cannot be read, the second message keeps its
  number and is sealed over the root.
\<close>

definition blind_to_agent_tree :: "'r git_ops \<Rightarrow> 'r git_ops" where
  "blind_to_agent_tree git =
     git\<lparr>go_find_tree := \<lambda>obj. case obj of
       GTree t \<Rightarrow> if map_of t ''s'' \<noteq> None then efail ''read error'' else go_find_tree git obj
     | GBlob _ \<Rightarrow> go_find_tree git obj\<rparr>"

definition blind_to_blobs :: "'r git_ops \<Rightarrow> 'r git_ops" where
  "blind_to_blobs git = git\<lparr>go_find_blob := \<lambda>_. efail ''read error''\<rparr>"

definition example_second :: "git_repo sql_world git_ops \<Rightarrow> (string \<times> string option) list option" where
  "example_second git =
     map_option (map (\<lambda>(n, obj). (n, case obj of GTree fs \<Rightarrow> blob_at fs ''hash'' | GBlob _ \<Rightarrow> None)))
       (session_of (head_tree (sw_data (dag_git_run (\<lambda>_. True) example_decoders git example_git_ext example_gw
          [example_promoted] (example_git_run [example_completed])))) ''a'' ''s'')"

definition example_root_seal :: string where
  "example_root_seal = git_hash example_git_ext [] dag_node_id_root MtPromote (Some []) ''s''"

theorem failed_read_loses_history:
  "example_second (blind_to_agent_tree example_git) =
     Some [(''001-platform-promote'', Some example_root_seal), (''timelines'', None)]"
  by code_simp

theorem failed_read_restarts_chain:
  "map_option (map fst) (example_second (blind_to_blobs example_git)) =
     Some [''001-a-complete'', ''002-platform-promote'', ''timelines''] \<and>
   map_option (\<lambda>l. map_of l ''002-platform-promote'') (example_second (blind_to_blobs example_git)) =
     Some (Some (Some example_root_seal)) \<and>
   map_option (\<lambda>l. map_of l ''002-platform-promote'') (example_second example_git) \<noteq>
     Some (Some (Some example_root_seal))"
  by code_simp

text \<open>
  C11: a session's numbered messages are only ever appended to, and only 999 of them: with 999 there every
  later message of the session leaves them, and so the hash that is the next message's parent, as they are.
\<close>

theorem git_numbering_stops:
  assumes doc: "git_documented git view" and ok: "refs_ok (view r)" and hist: "history_wf ext (head_tree (view r))"
    and agent: "agent \<notin> reserved_names" and old: "session_of (head_tree (view r)) agent session = Some t"
  shows "\<exists>t' new. session_of (head_tree (view (dag_git_run is_uuid gd git ext gw evs r))) agent session = Some t' \<and>
    message_dirs t' = take 999 (message_dirs t @ new) \<and> session_message_count t' \<le> 999"
proof -
  let ?P = "\<lambda>v. history_wf ext (head_tree v) \<and> (\<exists>t' new. session_of (head_tree v) agent session = Some t' \<and>
    message_dirs t' = take 999 (message_dirs t @ new))"
  obtain ms xs tls where "session_wf ext session t ms xs tls" using hist agent old unfolding history_wf_def by blast
  then have "message_dirs t = take 999 (message_dirs t @ [])" using canonical_length by fastforce
  then have start: "?P (view r)" using hist old by blast
  have "refs_ok (view (dag_git_run is_uuid gd git ext gw evs r)) \<and> ?P (view (dag_git_run is_uuid gd git ext gw evs r))"
  proof (rule dag_git_run_inv [OF doc ok, of ?P])
    show "?P (view r)" by (rule start)
    fix v v' m assume ok: "refs_ok v" and P: "?P v" and log: "git_logs ext gw v v' m"
    then have hist: "history_wf ext (head_tree v)" by blast
    from P obtain t1 new where t1: "session_of (head_tree v) agent session = Some t1"
      "message_dirs t1 = take 999 (message_dirs t @ new)" by blast
    obtain ms xs tls where wf: "session_wf ext session t1 ms xs tls"
      using hist agent t1(1) unfolding history_wf_def by blast
    have "session_of (head_tree v') agent session = Some t1 \<or>
        (\<exists>t' x xs' tls. session_of (head_tree v') agent session = Some t' \<and>
          session_wf ext session t' (take 999 (ms @ [x])) xs' tls)"
      using git_logs_history [OF log ok hist agent, where session = session and ms = ms and xs = xs] wf t1(1) by auto
    moreover have "\<exists>new. take 999 (ms @ [x]) = take 999 (message_dirs t @ new)" for x
    proof (cases "length (message_dirs t @ new) \<le> 999")
      case True
      then show ?thesis using t1(2) canonical_length [OF wf] by (intro exI [of _ "new @ [x]"]) simp
    next
      case False
      then have "length ms = 999" using t1(2) canonical_length [OF wf] by simp
      then have "take 999 (ms @ [x]) = ms" by simp
      moreover have "ms = take 999 (message_dirs t @ new)" using t1(2) canonical_length [OF wf] by (simp only:)
      ultimately show ?thesis by (intro exI) (rule trans)
    qed
    ultimately have "\<exists>t' new. session_of (head_tree v') agent session = Some t' \<and>
        message_dirs t' = take 999 (message_dirs t @ new)"
      using t1(2) session_wf_dirs(1) by metis
    then show "?P v'" using history_wf_step [OF log ok hist] by blast
  qed
  then obtain t' new where "history_wf ext (head_tree (view (dag_git_run is_uuid gd git ext gw evs r)))"
      "session_of (head_tree (view (dag_git_run is_uuid gd git ext gw evs r))) agent session = Some t'"
      "message_dirs t' = take 999 (message_dirs t @ new)" by blast
  then show ?thesis by (intro exI [of _ t'] exI [of _ new]) (simp add: session_message_count_def)
qed

lemma example_git_one:
  "example_shown (example_git_run [example_completed]) =
   (Some [''001-a-complete'', ''timelines''], [(''main'', 1)], ''main'')"
  by code_simp

theorem git_numbering_stops_witness:
  "\<exists>t t' new. session_of (head_tree (sw_data (example_git_run [example_completed]))) ''a'' ''s'' = Some t \<and>
    session_of (head_tree (sw_data (example_git_run [example_completed, example_promoted]))) ''a'' ''s'' = Some t' \<and>
    message_dirs t' = take 999 (message_dirs t @ new) \<and> session_message_count t' \<le> 999 \<and>
    map fst t' = [''001-a-complete'', ''002-platform-promote'', ''timelines'']"
proof -
  let ?r = "example_git_run [example_completed]"
  obtain t where t: "session_of (head_tree (sw_data ?r)) ''a'' ''s'' = Some t" "map fst t = [''001-a-complete'', ''timelines'']"
    using example_git_one by (auto simp: example_shown_def)
  have fresh: "git_fresh (sw_data \<lparr>sw_tick = 0, sw_data = \<lparr>gr_commits = [], gr_branches = [], gr_head = ''main''\<rparr>\<rparr>)"
    by (simp add: git_fresh_def)
  note start = git_open_fresh [OF example_git_doc fresh example_git_start_def]
  have "refs_ok (sw_data ?r) \<and> history_wf example_git_ext (head_tree (sw_data ?r))"
    unfolding example_git_run_def
    by (rule dag_git_run_inv [OF example_git_doc start(1)]) (rule start(3), rule history_wf_step)
  then have ok: "refs_ok (sw_data ?r)" and hist: "history_wf example_git_ext (head_tree (sw_data ?r))" by blast+
  have a: "''a'' \<notin> reserved_names" by (simp add: reserved_names_def)
  have "example_git_run [example_completed, example_promoted] =
      dag_git_run (\<lambda>_. True) example_decoders example_git example_git_ext example_gw [example_promoted] ?r"
    by (simp add: example_git_run_def dag_git_run_def)
  with git_numbering_stops [OF example_git_doc ok hist a t(1), of "\<lambda>_. True" example_decoders example_gw "[example_promoted]"]
  obtain t' new where t': "session_of (head_tree (sw_data (example_git_run [example_completed, example_promoted]))) ''a'' ''s'' = Some t'"
      "message_dirs t' = take 999 (message_dirs t @ new)" "session_message_count t' \<le> 999" by auto
  have "map fst t' = [''001-a-complete'', ''002-platform-promote'', ''timelines'']"
    using example_git_ran t'(1) by (simp add: example_shown_def)
  with t(1) t' show ?thesis by (intro exI conjI)
qed

section \<open>Branches\<close>

text \<open>
  C34: a branch made by a fork never advances: no message the daemon handles after it, be it of the session
  that was forked, commits to a branch other than the one \<open>HEAD\<close> is on, and nothing ever moves \<open>HEAD\<close> to
  the fork.
\<close>

theorem fork_branch_never_advances:
  assumes doc: "git_documented git view" and ok: "refs_ok (view r)"
    and n: "map_of (gr_branches (view r)) n = Some oid" "n \<noteq> gr_head (view r)" "n \<noteq> ''main''"
  shows "map_of (gr_branches (view (dag_git_run is_uuid gd git ext gw evs r))) n = Some oid \<and>
    n \<noteq> gr_head (view (dag_git_run is_uuid gd git ext gw evs r))"
proof (rule conjunct2 [OF dag_git_run_inv [OF doc ok, of "\<lambda>v. map_of (gr_branches v) n = Some oid \<and> n \<noteq> gr_head v"]])
  show "map_of (gr_branches (view r)) n = Some oid \<and> n \<noteq> gr_head (view r)" using n by simp
  fix v v' m assume ok: "refs_ok v" and P: "map_of (gr_branches v) n = Some oid \<and> n \<noteq> gr_head v"
    and log: "git_logs ext gw v v' m"
  from log ok obtain c where "refs_after (gx_sealed_name ext (nm_now m)) m (length (gr_commits v)) (git_committed c v) v'"
    by (rule git_logs_effect)
  then show "map_of (gr_branches v') n = Some oid \<and> n \<noteq> gr_head v'"
    using P n(3)
    by (auto simp: refs_after_def on_branch_def git_renamed_def git_committed_def committed_on_def branches_update branches_delete
        split: option.splits if_splits)
qed

text \<open>
  C33: after a promote that succeeded on \<open>main\<close>, \<open>HEAD\<close> is on the branch that was sealed: \<open>main\<close> stays at the
  promote's commit, and every message until the next promote is committed to the sealed branch.
\<close>

theorem promote_leaves_head_on_sealed:
  assumes doc: "git_documented git view" and ok: "refs_ok (view r)" and head: "gr_head (view r) = ''main''"
    and r1: "r1 = on_promote git ext gw now key msg at r"
    and ok1: "map_of (gr_branches (view r1)) (gx_sealed_name ext now) \<noteq> None" "map_of (gr_branches (view r1)) ''main'' \<noteq> None"
    and sealed: "map_of (gr_branches (view r)) (gx_sealed_name ext now) = None" "gx_sealed_name ext now \<noteq> ''main''"
    and evs: "\<forall>e \<in> set evs. promote_parse_subject is_uuid (fst (snd (snd e))) = None"
  shows "gr_head (view (dag_git_run is_uuid gd git ext gw evs r1)) = gx_sealed_name ext now \<and>
    map_of (gr_branches (view (dag_git_run is_uuid gd git ext gw evs r1))) ''main'' = Some (length (gr_commits (view r)))"
proof -
  let ?s = "gx_sealed_name ext now"
  let ?P = "\<lambda>v. gr_head v = ?s \<and> map_of (gr_branches v) ''main'' = Some (length (gr_commits (view r)))"
  have "view r1 \<noteq> view r" using ok1(1) sealed(1) by auto
  with on_promote_logs [OF doc ok r1] obtain m
    where log: "git_logs ext gw (view r) (view r1) m" and m: "nm_now m = now" and ty: "nm_type m = ''promote''" by blast
  have nf: "nm_fork_branch m = None" using log ty unfolding git_logs_def by auto
  from log ok obtain c where ok2: "refs_ok (view r1)"
    and refs: "refs_after ?s m (length (gr_commits (view r))) (git_committed c (view r)) (view r1)"
    unfolding m [symmetric] by (rule git_logs_effect)
  have start: "?P (view r1)"
    using refs head ok1 sealed nf
    by (auto simp: refs_after_def on_branch_def git_renamed_def git_committed_def committed_on_def branches_update branches_delete
        split: option.splits if_splits)
  show ?thesis
  proof (rule conjunct2 [OF dag_git_run_inv [OF doc ok2, of ?P]])
    show "?P (view r1)" by (rule start)
    fix v v' m assume P: "?P v" and ok: "refs_ok v" and log: "git_logs ext gw v v' m"
      and "(\<forall>e\<in>set evs. promote_parse_subject is_uuid (fst (snd (snd e))) = None) \<Longrightarrow> nm_type m \<noteq> ''promote''"
    then have "nm_type m \<noteq> ''promote''" using evs by blast
    moreover from log ok obtain c
      where "refs_after (gx_sealed_name ext (nm_now m)) m (length (gr_commits v)) (git_committed c v) v'"
      by (rule git_logs_effect)
    ultimately show "?P v'"
      using P sealed(2)
      by (auto simp: refs_after_def on_branch_def git_committed_def committed_on_def branches_update split: if_splits)
  qed
qed

text \<open>A repository with a branch at each of two commits, \<open>HEAD\<close> on \<open>main\<close>.\<close>

definition example_forked :: "git_repo sql_world" where
  "example_forked =
     (let c = \<lparr>gc_tree = [], gc_parents = [], gc_author = ([], []), gc_committer = ([], []), gc_time = 0, gc_message = []\<rparr>
      in \<lparr>sw_tick = 0,
          sw_data = \<lparr>gr_commits = [c, c\<lparr>gc_parents := [0]\<rparr>], gr_branches = [(''side'', 0), (''main'', 1)], gr_head = ''main''\<rparr>\<rparr>)"

lemma example_forked_ok: "refs_ok (sw_data example_forked)"
  by (auto simp: refs_ok_def example_forked_def Let_def split: if_splits)

theorem fork_branch_never_advances_witness:
  "map_of (gr_branches (sw_data (dag_git_run (\<lambda>_. True) example_decoders example_git example_git_ext example_gw
     [example_completed, example_promoted] example_forked))) ''side'' = Some 0"
  by (rule conjunct1 [OF fork_branch_never_advances [OF example_git_doc example_forked_ok]])
    (simp_all add: example_forked_def Let_def)

definition example_promoting :: session_routing_key where
  "example_promoting = \<lparr>sk_session = ''s'', sk_submission = ''u'', sk_kind = SkPromote ''a''\<rparr>"

lemma example_promoting_ran:
  "example_shown (on_promote example_git example_git_ext example_gw 2 example_promoting example_promote 2 example_forked) =
   (Some [''001-platform-promote'', ''timelines''], [(''side'', 0), (''broken-1'', 2), (''main'', 2)], ''broken-1'')"
  by code_simp

theorem promote_leaves_head_on_sealed_witness:
  "let w = dag_git_run (\<lambda>_. True) example_decoders example_git example_git_ext example_gw [example_completed]
     (on_promote example_git example_git_ext example_gw 2 example_promoting example_promote 2 example_forked)
   in gr_head (sw_data w) = ''broken-1'' \<and> map_of (gr_branches (sw_data w)) ''main'' = Some 2"
proof -
  have s: "gx_sealed_name example_git_ext 2 = ''broken-1''"
    by (simp add: example_git_ext_def rec_ext.defs git_ext.defs example_ext_def)
  have b: "gr_branches (sw_data (on_promote example_git example_git_ext example_gw 2 example_promoting example_promote 2 example_forked)) =
      [(''side'', 0), (''broken-1'', 2), (''main'', 2)]"
    using example_promoting_ran by (simp add: example_shown_def)
  have e: "\<forall>e \<in> set [example_completed]. promote_parse_subject (\<lambda>_. True) (fst (snd (snd e))) = None"
    by (simp add: example_completed_def) code_simp
  have l: "length (gr_commits (sw_data example_forked)) = 2" by (simp add: example_forked_def Let_def)
  show ?thesis
    using promote_leaves_head_on_sealed [OF example_git_doc example_forked_ok _ refl _ _ _ _ e,
        where ext = example_git_ext and now = 2 and gw = example_gw and key = example_promoting and msg = example_promote
          and at = 2 and gd = example_decoders] b
    unfolding Let_def s l by (simp add: example_forked_def Let_def)
qed

section \<open>Reserved names\<close>

text \<open>
  As the daemon runs the worker, without a registry, an agent called \<open>models\<close>, \<open>agent.toml\<close> or
  \<open>platform.toml\<close> has no history: every commit removes these names from the root of the tree, so that none of
  its sessions is ever there at \<open>HEAD\<close>.
\<close>

theorem reserved_agent_has_no_history:
  assumes doc: "git_documented git view" and fresh: "git_fresh (view r)" and gw: "gw_registry gw = None"
    and agent: "agent \<in> {''agent.toml'', ''platform.toml'', ''models''}"
  shows "session_of (head_tree (view (dag_git_run is_uuid gd git ext gw evs (snd (git_open git now r))))) agent session = None"
proof (rule conjunct2 [OF dag_git_run_inv [OF doc git_open_fresh(1) [OF doc fresh refl],
      of "\<lambda>v. session_of (head_tree v) agent session = None"]])
  show "session_of (head_tree (view (snd (git_open git now r)))) agent session = None"
    by (rule git_open_fresh(2) [OF doc fresh refl])
  fix v v' m assume "refs_ok v" and "git_logs ext gw v v' m"
  then obtain fs c where "nested_commit ext gw v (GTree fs) m c" "head_tree v' = Some (gc_tree c)"
    by (blast elim: git_logs_effect)
  then have "map_of (gc_tree c) agent = None" using gw agent by (auto simp: nested_commit_def reserved_names_def)
  then show "session_of (head_tree v') agent session = None"
    using \<open>head_tree v' = Some (gc_tree c)\<close> by (simp add: session_of_def subtree_at_def)
qed

theorem reserved_agent_has_no_history_witness:
  "session_of (head_tree (sw_data (example_git_run [(1, 1, ''vlinder.data.v1.s.1.u.complete.models.cli'', [])])))
     ''models'' ''s'' = None"
  unfolding example_git_run_def example_git_start_def
  by (rule reserved_agent_has_no_history [OF example_git_doc]) (simp_all add: git_fresh_def example_gw_def)

end
