(* ===== verification/StateProto.thy ===== *)
theory StateProto
  imports SqlDag
begin

text \<open>
  The messages of the state service (\<open>crates/vlinder-sql-state/proto/state.proto\<close>) and the conversions
  between them and domain values (\<open>state_service/convert.rs\<close>, \<open>session_to_proto\<close> of \<open>server.rs\<close>,
  \<open>proto_to_session\<close> of \<open>client.rs\<close>).  A message with one field is that field; the replies of all
  writing calls have one shape, \<open>write_reply\<close>.

  Parameters, in \<open>rpc_env\<close>: chrono's printer and its two parsers of a time stamp, serde's codecs, the
  UUID check, the random session id, the random name and the server's clock behind \<open>Session::new\<close>, the
  text of an external-id error and of a gRPC status, and what the network does to each call.
\<close>

section \<open>Statuses and the environment\<close>

text \<open>A handler's status, or the panic that ends its task, which the caller sees as a failed call.\<close>

datatype status = InvalidArgument string | Internal string | Panicked string

text \<open>
  A call is delivered and answered, or it fails at the caller: before the server has seen it, or after
  the server has carried it out (the connection broke, or the deadline passed, on the way back).
\<close>

datatype delivery = Delivered | RequestLost string | ReplyLost string

record rpc_env =
  re_to_rfc3339 :: "timestamp \<Rightarrow> string"
  re_parse_time :: "string \<Rightarrow> (string, timestamp) rust_result"
  re_parse_rfc3339 :: "string \<Rightarrow> (string, timestamp) rust_result"
  re_snapshot :: "(snapshot, string) codec"
  re_invoke :: "(invoke_message, bytes) codec"
  re_complete :: "(complete_message, bytes) codec"
  re_request_v2 :: "(request_v2, bytes) codec"
  re_response_v2 :: "(response_v2, bytes) codec"
  re_invoke_diag :: "(invoke_diagnostics, bytes) codec"
  re_runtime_diag :: "(runtime_diagnostics, bytes) codec"
  re_request_diag :: "(request_diagnostics, bytes) codec"
  re_service_diag :: "(service_diagnostics, bytes) codec"
  re_svc_request_diag :: "(svc_request_diagnostics, bytes) codec"
  re_svc_response_diag :: "(svc_response_diagnostics, bytes) codec"
  re_manifest :: "(agent_manifest, string) codec"
  re_is_uuid :: "string \<Rightarrow> bool"
  re_random_session :: session_id
  re_petname :: "session_id \<Rightarrow> string"
  re_clock :: "nat \<Rightarrow> timestamp"
  re_external_id_error :: "external_id_error \<Rightarrow> string"
  re_status :: "status \<Rightarrow> string"
  re_net :: "nat \<Rightarrow> string \<Rightarrow> delivery"

text \<open>The diagnostics put in place of bytes that do not parse.\<close>

definition no_invoke_diag :: invoke_diagnostics where
  "no_invoke_diag = \<lparr>idg_harness_version = []\<rparr>"

definition no_request_diag :: request_diagnostics where
  "no_request_diag = \<lparr>rqd_sequence = 0, rqd_endpoint = [], rqd_request_bytes = 0, rqd_received_at_ms = 0\<rparr>"

definition no_service_diag :: service_diagnostics where
  "no_service_diag = service_diagnostics_storage StKv ''unknown'' OpGet 0 0"

definition no_svc_request_diag :: svc_request_diagnostics where
  "no_svc_request_diag = \<lparr>srd_server = [], srd_tool = [], srd_arguments_bytes = 0, srd_sent_at_ms = 0\<rparr>"

definition no_svc_response_diag :: svc_response_diagnostics where
  "no_svc_response_diag = \<lparr>spd_server = [], spd_tool = [], spd_round_trip_ms = 0, spd_content_bytes = 0\<rparr>"

text \<open>\<open>Result::map\<close>, \<open>Result::and_then\<close>, and \<open>collect\<close> of a list of results.\<close>

definition rmap :: "('a \<Rightarrow> 'b) \<Rightarrow> ('e, 'a) rust_result \<Rightarrow> ('e, 'b) rust_result" where
  "rmap f r = (case r of Inl e \<Rightarrow> Inl e | Inr x \<Rightarrow> Inr (f x))"

definition rbind :: "('e, 'a) rust_result \<Rightarrow> ('a \<Rightarrow> ('e, 'b) rust_result) \<Rightarrow> ('e, 'b) rust_result" where
  "rbind r f = (case r of Inl e \<Rightarrow> Inl e | Inr x \<Rightarrow> f x)"

fun collect_results :: "('a \<Rightarrow> ('e, 'b) rust_result) \<Rightarrow> 'a list \<Rightarrow> ('e, 'b list) rust_result" where
  "collect_results f [] = Inr []"
| "collect_results f (x # xs) = rbind (f x) (\<lambda>y. rmap ((#) y) (collect_results f xs))"

fun transpose_result :: "('a \<Rightarrow> ('e, 'b) rust_result) \<Rightarrow> 'a option \<Rightarrow> ('e, 'b option) rust_result" where
  "transpose_result f None = Inr None"
| "transpose_result f (Some x) = rmap Some (f x)"

lemma result_simps [simp]:
  "rmap f (Inl e) = Inl e" "rmap f (Inr x) = Inr (f x)" "rbind (Inl e) g = Inl e" "rbind (Inr x) g = g x"
  by (simp_all add: rmap_def rbind_def)

section \<open>Nodes, branches, sessions\<close>

record proto_node =
  pn_hash :: string
  pn_parent_hash :: string
  pn_message_type :: string
  pn_sender :: string
  pn_receiver :: string
  pn_session_id :: string
  pn_submission_id :: string
  pn_payload :: bytes
  pn_diagnostics :: bytes
  pn_stderr :: bytes
  pn_created_at :: string
  pn_state :: "string option"
  pn_protocol_version :: string
  pn_checkpoint :: "string option"
  pn_operation :: "string option"
  pn_message_blob :: "string option"
  pn_branch_id :: int

definition dag_node_to_proto :: "rpc_env \<Rightarrow> dag_node \<Rightarrow> proto_node" where
  "dag_node_to_proto env n =
     \<lparr>pn_hash = dn_id n, pn_parent_hash = dn_parent_id n,
      pn_message_type = message_type_as_str (dn_msg_type n), pn_sender = [], pn_receiver = [],
      pn_session_id = dn_session n, pn_submission_id = dn_submission n, pn_payload = [],
      pn_diagnostics = [], pn_stderr = [], pn_created_at = re_to_rfc3339 env (dn_created_at n),
      pn_state = None, pn_protocol_version = dn_protocol_version n, pn_checkpoint = None,
      pn_operation = None, pn_message_blob = None, pn_branch_id = dn_branch n\<rparr>"

definition dag_node_from_proto :: "rpc_env \<Rightarrow> proto_node \<Rightarrow> (string, dag_node) rust_result" where
  "dag_node_from_proto env p =
     (case re_parse_time env (pn_created_at p) of
        Inl e \<Rightarrow> Inl (''invalid created_at: '' @ e)
      | Inr created_at \<Rightarrow>
          Inr \<lparr>dn_id = pn_hash p, dn_parent_id = pn_parent_hash p, dn_created_at = created_at,
               dn_state = snapshot_empty,
               dn_msg_type = result_or MtComplete (message_type_from_str (pn_message_type p)),
               dn_session = result_or nil_session (session_id_try_from (re_is_uuid env) (pn_session_id p)),
               dn_submission = pn_submission_id p, dn_branch = pn_branch_id p,
               dn_protocol_version = pn_protocol_version p\<rparr>)"

record proto_branch =
  pb_id :: int
  pb_name :: string
  pb_session_id :: string
  pb_fork_point :: "string option"
  pb_head :: "string option"
  pb_created_at :: string
  pb_broken_at :: "string option"

definition branch_to_proto :: "rpc_env \<Rightarrow> branch \<Rightarrow> proto_branch" where
  "branch_to_proto env b =
     \<lparr>pb_id = br_id b, pb_name = br_name b, pb_session_id = br_session_id b,
      pb_fork_point = br_fork_point b, pb_head = br_head b,
      pb_created_at = re_to_rfc3339 env (br_created_at b),
      pb_broken_at = map_option (re_to_rfc3339 env) (br_broken_at b)\<rparr>"

definition branch_from_proto :: "rpc_env \<Rightarrow> proto_branch \<Rightarrow> (string, branch) rust_result" where
  "branch_from_proto env p =
     (case re_parse_time env (pb_created_at p) of
        Inl e \<Rightarrow> Inl (''invalid created_at: '' @ e)
      | Inr created_at \<Rightarrow>
          (case (case pb_broken_at p of
                   None \<Rightarrow> Inr None
                 | Some s \<Rightarrow> (case re_parse_time env s of Inl e \<Rightarrow> Inl e | Inr t \<Rightarrow> Inr (Some t))) of
             Inl e \<Rightarrow> Inl (''invalid broken_at: '' @ e)
           | Inr broken_at \<Rightarrow>
               (case session_id_try_from (re_is_uuid env) (pb_session_id p) of
                  Inl e \<Rightarrow> Inl e
                | Inr session \<Rightarrow>
                    Inr \<lparr>br_id = pb_id p, br_name = pb_name p, br_session_id = session,
                         br_fork_point = pb_fork_point p, br_head = pb_head p, br_broken_at = broken_at,
                         br_created_at = created_at\<rparr>)))"

record proto_session =
  ps_id :: string
  ps_external_id :: string
  ps_name :: string
  ps_agent_name :: string
  ps_default_branch :: int
  ps_created_at :: string

definition session_to_proto :: "rpc_env \<Rightarrow> session \<Rightarrow> proto_session" where
  "session_to_proto env s =
     \<lparr>ps_id = se_id s, ps_external_id = se_external_id s, ps_name = se_name s,
      ps_agent_name = se_agent s, ps_default_branch = se_default_branch s,
      ps_created_at = re_to_rfc3339 env (se_created_at s)\<rparr>"

definition proto_to_session :: "rpc_env \<Rightarrow> proto_session \<Rightarrow> (string, session) rust_result" where
  "proto_to_session env p =
     (case session_id_try_from (re_is_uuid env) (ps_id p) of
        Inl e \<Rightarrow> Inl e
      | Inr i \<Rightarrow>
          (case external_session_id_new (ps_external_id p) of
             Inl e \<Rightarrow> Inl (''invalid external_id: '' @ re_external_id_error env e)
           | Inr external_id \<Rightarrow>
               (case re_parse_time env (ps_created_at p) of
                  Inl e \<Rightarrow> Inl (''invalid created_at: '' @ e)
                | Inr created_at \<Rightarrow>
                    Inr \<lparr>se_id = i, se_external_id = external_id, se_name = ps_name p,
                         se_agent = ps_agent_name p, se_default_branch = ps_default_branch p,
                         se_created_at = created_at\<rparr>)))"

record proto_summary =
  py_session_id :: string
  py_agent_name :: string
  py_started_at :: string
  py_message_count :: "64 word"
  py_is_open :: bool

definition summary_to_proto :: "rpc_env \<Rightarrow> session_summary \<Rightarrow> proto_summary" where
  "summary_to_proto env s =
     \<lparr>py_session_id = sm_session_id s, py_agent_name = sm_agent_name s,
      py_started_at = re_to_rfc3339 env (sm_started_at s), py_message_count = of_nat (sm_message_count s),
      py_is_open = sm_is_open s\<rparr>"

definition summary_from_proto :: "rpc_env \<Rightarrow> proto_summary \<Rightarrow> (string, session_summary) rust_result" where
  "summary_from_proto env p =
     (case re_parse_time env (py_started_at p) of
        Inl e \<Rightarrow> Inl (''invalid started_at: '' @ e)
      | Inr started_at \<Rightarrow>
          (case session_id_try_from (re_is_uuid env) (py_session_id p) of
             Inl e \<Rightarrow> Inl e
           | Inr i \<Rightarrow>
               Inr \<lparr>sm_session_id = i, sm_agent_name = py_agent_name p, sm_started_at = started_at,
                    sm_message_count = unat (py_message_count p), sm_is_open = py_is_open p\<rparr>))"

section \<open>Messages without their keys\<close>

record proto_message =
  pm_msg_id :: string
  pm_dag_id :: string
  pm_dag_parent :: string
  pm_state :: "string option"
  pm_diagnostics :: bytes
  pm_payload :: bytes

text \<open>\<open>InvokeMessageProto\<close> and \<open>CompleteMessageProto\<close> have these fields; the other two one more.\<close>

record proto_request_v2 = proto_message +
  pm_tool_call_id :: string

record proto_response_v2 = proto_message +
  pm_correlation_id :: string

definition invoke_message_to_proto :: "rpc_env \<Rightarrow> invoke_message \<Rightarrow> proto_message" where
  "invoke_message_to_proto env m =
     \<lparr>pm_msg_id = iv_id m, pm_dag_id = iv_dag_id m, pm_dag_parent = iv_dag_parent m, pm_state = iv_state m,
      pm_diagnostics = bytes_of (re_invoke_diag env) (iv_diagnostics m),
      pm_payload = bytes_of (re_invoke env) m\<rparr>"

definition proto_to_invoke_message :: "rpc_env \<Rightarrow> proto_message \<Rightarrow> invoke_message" where
  "proto_to_invoke_message env p =
     result_or
       \<lparr>iv_id = pm_msg_id p, iv_dag_id = pm_dag_id p, iv_state = pm_state p,
        iv_diagnostics = result_or no_invoke_diag (dec (re_invoke_diag env) (pm_diagnostics p)),
        iv_dag_parent = pm_dag_parent p, iv_current_input = []\<rparr>
       (dec (re_invoke env) (pm_payload p))"

definition complete_message_to_proto :: "rpc_env \<Rightarrow> complete_message \<Rightarrow> proto_message" where
  "complete_message_to_proto env m =
     \<lparr>pm_msg_id = cm_id m, pm_dag_id = cm_dag_id m, pm_dag_parent = cm_dag_parent m, pm_state = cm_state m,
      pm_diagnostics = bytes_of (re_runtime_diag env) (cm_diagnostics m),
      pm_payload = bytes_of (re_complete env) m\<rparr>"

definition proto_to_complete_message :: "rpc_env \<Rightarrow> proto_message \<Rightarrow> complete_message" where
  "proto_to_complete_message env p =
     result_or
       \<lparr>cm_id = pm_msg_id p, cm_dag_id = pm_dag_id p, cm_dag_parent = pm_dag_parent p, cm_state = pm_state p,
        cm_diagnostics = result_or (runtime_diagnostics_placeholder 0) (dec (re_runtime_diag env) (pm_diagnostics p)),
        cm_content = None, cm_tool_calls = None, cm_payload = []\<rparr>
       (dec (re_complete env) (pm_payload p))"

definition request_v2_to_proto :: "rpc_env \<Rightarrow> request_v2 \<Rightarrow> proto_request_v2" where
  "request_v2_to_proto env m =
     \<lparr>pm_msg_id = rq2_id m, pm_dag_id = rq2_dag_id m, pm_dag_parent = rq2_dag_parent m,
      pm_state = rq2_state m, pm_diagnostics = bytes_of (re_svc_request_diag env) (rq2_diagnostics m),
      pm_payload = bytes_of (re_request_v2 env) m, pm_tool_call_id = rq2_tool_call_id m\<rparr>"

definition proto_to_request_v2 :: "rpc_env \<Rightarrow> proto_request_v2 \<Rightarrow> request_v2" where
  "proto_to_request_v2 env p =
     result_or
       \<lparr>rq2_id = pm_msg_id p, rq2_dag_id = pm_dag_id p, rq2_dag_parent = pm_dag_parent p,
        rq2_tool_call_id = pm_tool_call_id p, rq2_state = pm_state p,
        rq2_diagnostics = result_or no_svc_request_diag (dec (re_svc_request_diag env) (pm_diagnostics p)),
        rq2_payload = []\<rparr>
       (dec (re_request_v2 env) (pm_payload p))"

definition response_v2_to_proto :: "rpc_env \<Rightarrow> response_v2 \<Rightarrow> proto_response_v2" where
  "response_v2_to_proto env m =
     \<lparr>pm_msg_id = rs2_id m, pm_dag_id = rs2_dag_id m, pm_dag_parent = rs2_dag_parent m,
      pm_state = rs2_state m, pm_diagnostics = bytes_of (re_svc_response_diag env) (rs2_diagnostics m),
      pm_payload = bytes_of (re_response_v2 env) m, pm_correlation_id = rs2_correlation_id m\<rparr>"

definition proto_to_response_v2 :: "rpc_env \<Rightarrow> proto_response_v2 \<Rightarrow> response_v2" where
  "proto_to_response_v2 env p =
     result_or
       \<lparr>rs2_id = pm_msg_id p, rs2_dag_id = pm_dag_id p, rs2_dag_parent = pm_dag_parent p,
        rs2_correlation_id = pm_correlation_id p, rs2_state = pm_state p,
        rs2_diagnostics = result_or no_svc_response_diag (dec (re_svc_response_diag env) (pm_diagnostics p)),
        rs2_payload = []\<rparr>
       (dec (re_response_v2 env) (pm_payload p))"

end
