(* ===== verification/StateServer.thy ===== *)
theory StateServer
  imports StateProto
begin

text \<open>
  The gRPC server in front of a DAG store (\<open>state_service/server.rs\<close>): one definition per handler, in
  the order of its parses and early returns.  A handler that only reads is a query on the store's
  state; one that writes returns the new state, also when the store reports an error.
\<close>

section \<open>The whole store interface\<close>

text \<open>The provided methods of the trait that only the service calls, added to the record of \<open>Dag\<close>.\<close>

record 's full_dag_store = "'s dag_store" +
  fs_list_sessions :: "'s \<Rightarrow> (string, session_summary list) rust_result"
  fs_get_request_node ::
    "dag_node_id \<Rightarrow> 's \<Rightarrow> (string, (data_routing_key \<times> request_message) option) rust_result"
  fs_get_response_node ::
    "dag_node_id \<Rightarrow> 's \<Rightarrow> (string, (data_routing_key \<times> response_message) option) rust_result"
  fs_get_svc_request_node ::
    "dag_node_id \<Rightarrow> 's \<Rightarrow> (string, (svc_routing_key \<times> request_v2) option) rust_result"
  fs_get_svc_response_node ::
    "dag_node_id \<Rightarrow> 's \<Rightarrow> (string, (svc_routing_key \<times> response_v2) option) rust_result"
  fs_get_invoke_message :: "dag_node_id \<Rightarrow> 's \<Rightarrow> (string, invoke_message option) rust_result"
  fs_get_complete_message :: "dag_node_id \<Rightarrow> 's \<Rightarrow> (string, complete_message option) rust_result"
  fs_get_request_v2 :: "dag_node_id \<Rightarrow> 's \<Rightarrow> (string, request_v2 option) rust_result"
  fs_get_response_v2 :: "dag_node_id \<Rightarrow> 's \<Rightarrow> (string, response_v2 option) rust_result"

definition sql_full_store :: "(string \<Rightarrow> string) \<Rightarrow> sql_env \<Rightarrow> dag_db sql_world full_dag_store" where
  "sql_full_store quote env =
     dag_store.extend (sql_dag_store env)
       (full_dag_store.fields (sql_list_sessions env) (sql_get_request_node env) (sql_get_response_node env)
          (sql_get_svc_request_node quote env) (sql_get_svc_response_node quote env)
          (sql_get_invoke_message env) (sql_get_complete_message env) (sql_get_request_v2 env)
          (sql_get_response_v2 env))"

section \<open>Requests and replies\<close>

record write_reply =
  wr_success :: bool
  wr_error :: "string option"

definition write_answer :: "(string, unit) rust_result \<Rightarrow> write_reply" where
  "write_answer r =
     (case r of
        Inr _ \<Rightarrow> \<lparr>wr_success = True, wr_error = None\<rparr>
      | Inl e \<Rightarrow> \<lparr>wr_success = False, wr_error = Some e\<rparr>)"

type_synonym ('s, 'a) handler = "('s, status, 'a) fallible"

type_synonym ('s, 'a) reader = "'s \<Rightarrow> (status, 'a) rust_result"

text \<open>\<open>map_err(Status::invalid_argument)?\<close> with the text put before the error, and \<open>Status::internal\<close>.\<close>

definition bad_arg :: "string \<Rightarrow> (string, 'a) rust_result \<Rightarrow> (status, 'a) rust_result" where
  "bad_arg what r = (case r of Inl e \<Rightarrow> Inl (InvalidArgument (what @ e)) | Inr x \<Rightarrow> Inr x)"

definition internal :: "(string, 'a) rust_result \<Rightarrow> (status, 'a) rust_result" where
  "internal r = (case r of Inl e \<Rightarrow> Inl (Internal e) | Inr x \<Rightarrow> Inr x)"

definition arg :: "string \<Rightarrow> (string, 'a) rust_result \<Rightarrow> ('s, 'a) handler" where
  "arg what r = elift (bad_arg what r)"

definition store_write :: "('s \<Rightarrow> (string, unit) rust_result \<times> 's) \<Rightarrow> ('s, write_reply) handler" where
  "store_write m s = (case m s of (r, s') \<Rightarrow> (Inr (write_answer r), s'))"

record invoke_node_proto =
  xi_session_id :: string
  xi_branch :: int
  xi_submission_id :: string
  xi_harness :: string
  xi_runtime :: string
  xi_agent :: string
  xi_message_id :: string
  xi_state :: "string option"
  xi_diagnostics :: bytes
  xi_payload :: bytes
  xi_dag_parent :: string
  xi_dag_hash :: string

record insert_invoke_request =
  ii_node :: "invoke_node_proto option"
  ii_parent_hash :: string
  ii_created_at :: string
  ii_snapshot :: string

text \<open>The four fields every other insert starts with, and the further ones of the data plane.\<close>

record insert_request =
  ih_dag_hash :: string
  ih_parent_hash :: string
  ih_created_at :: string
  ih_snapshot :: string

record insert_data_request = insert_request +
  id_session_id :: string
  id_submission_id :: string
  id_branch_id :: int
  id_agent :: string
  id_message_id :: string
  id_state :: "string option"

record insert_complete_request = insert_data_request +
  ic_harness :: string
  ic_diagnostics :: bytes
  ic_payload :: bytes

record insert_request_request = insert_data_request +
  iq_service :: string
  iq_operation :: string
  iq_sequence :: "32 word"
  iq_diagnostics :: bytes
  iq_payload :: bytes
  iq_checkpoint :: "string option"

record insert_response_request = insert_request_request +
  ip_correlation_id :: string
  ip_status_code :: "32 word"

text \<open>
  The two service inserts have one shape: \<open>arguments\<close> or \<open>payload\<close>, \<open>tool_call_id\<close> or
  \<open>correlation_id\<close>.  So do the two service nodes below.
\<close>

record insert_svc_request = insert_data_request +
  is_service_type :: string
  is_service_backend :: string
  is_operation :: string
  is_sequence :: "32 word"
  is_payload :: bytes
  is_diagnostics :: "string option"
  is_tool_call_or_correlation_id :: string

record insert_fork_request = insert_request +
  if_session_id :: string
  if_submission_id :: string
  if_agent_name :: string
  if_message_id :: string
  if_branch_name :: string
  if_fork_point :: string

record insert_promote_request = insert_request +
  io_session_id :: string
  io_submission_id :: string
  io_agent_name :: string
  io_message_id :: string
  io_branch_id :: int

record insert_deploy_request = insert_request +
  iy_submission_id :: string
  iy_agent_name :: string
  iy_manifest_json :: string
  iy_message_id :: string

record insert_delete_request = insert_request +
  ie_submission_id :: string
  ie_agent_name :: string
  ie_message_id :: string

section \<open>Node, branch and session queries\<close>

definition srv_ping :: "nat \<times> nat \<times> nat" where
  "srv_ping = (0, 0, 1)"

definition srv_get_node :: "rpc_env \<Rightarrow> 's full_dag_store \<Rightarrow> string \<Rightarrow> ('s, proto_node option) reader" where
  "srv_get_node env ds hash s = rmap (map_option (dag_node_to_proto env)) (internal (ds_get_node ds hash s))"

definition srv_get_session_nodes :: "rpc_env \<Rightarrow> 's full_dag_store \<Rightarrow> string \<Rightarrow> ('s, proto_node list) reader" where
  "srv_get_session_nodes env ds session_id s =
     (case bad_arg [] (session_id_try_from (re_is_uuid env) session_id) of
        Inl e \<Rightarrow> Inl e
      | Inr session \<Rightarrow> rmap (map (dag_node_to_proto env)) (internal (ds_get_session_nodes ds session s)))"

definition srv_get_children :: "rpc_env \<Rightarrow> 's full_dag_store \<Rightarrow> string \<Rightarrow> ('s, proto_node list) reader" where
  "srv_get_children env ds parent_hash s =
     rmap (map (dag_node_to_proto env)) (internal (ds_get_children ds parent_hash s))"

definition srv_get_branch_by_name :: "rpc_env \<Rightarrow> 's full_dag_store \<Rightarrow> string \<Rightarrow> ('s, proto_branch option) reader" where
  "srv_get_branch_by_name env ds name s =
     rmap (map_option (branch_to_proto env)) (internal (ds_get_branch_by_name ds name s))"

definition srv_get_branch :: "rpc_env \<Rightarrow> 's full_dag_store \<Rightarrow> int \<Rightarrow> ('s, proto_branch option) reader" where
  "srv_get_branch env ds i s = rmap (map_option (branch_to_proto env)) (internal (ds_get_branch ds i s))"

definition srv_list_sessions :: "rpc_env \<Rightarrow> 's full_dag_store \<Rightarrow> ('s, proto_summary list) reader" where
  "srv_list_sessions env ds s = rmap (map (summary_to_proto env)) (internal (fs_list_sessions ds s))"

definition srv_get_nodes_by_submission :: "rpc_env \<Rightarrow> 's full_dag_store \<Rightarrow> string \<Rightarrow> ('s, proto_node list) reader" where
  "srv_get_nodes_by_submission env ds submission s =
     rmap (map (dag_node_to_proto env)) (internal (ds_get_nodes_by_submission ds submission s))"

definition srv_get_node_by_prefix :: "rpc_env \<Rightarrow> 's full_dag_store \<Rightarrow> string \<Rightarrow> ('s, proto_node option) reader" where
  "srv_get_node_by_prefix env ds pre s =
     rmap (map_option (dag_node_to_proto env)) (internal (ds_get_node_by_prefix ds pre s))"

definition srv_get_branches_for_session ::
    "rpc_env \<Rightarrow> 's full_dag_store \<Rightarrow> string \<Rightarrow> ('s, proto_branch list) reader" where
  "srv_get_branches_for_session env ds session_id s =
     (case bad_arg [] (session_id_try_from (re_is_uuid env) session_id) of
        Inl e \<Rightarrow> Inl e
      | Inr session \<Rightarrow> rmap (map (branch_to_proto env)) (internal (ds_get_branches_for_session ds session s)))"

definition srv_get_session :: "rpc_env \<Rightarrow> 's full_dag_store \<Rightarrow> string \<Rightarrow> ('s, proto_session option) reader" where
  "srv_get_session env ds session_id s =
     (case bad_arg [] (session_id_try_from (re_is_uuid env) session_id) of
        Inl e \<Rightarrow> Inl e
      | Inr session \<Rightarrow> rmap (map_option (session_to_proto env)) (internal (ds_get_session ds session s)))"

definition srv_get_session_by_name :: "rpc_env \<Rightarrow> 's full_dag_store \<Rightarrow> string \<Rightarrow> ('s, proto_session option) reader" where
  "srv_get_session_by_name env ds name s =
     rmap (map_option (session_to_proto env)) (internal (ds_get_session_by_name ds name s))"

definition srv_latest_node_on_branch ::
    "rpc_env \<Rightarrow> 's full_dag_store \<Rightarrow> int \<Rightarrow> string option \<Rightarrow> ('s, proto_node option) reader" where
  "srv_latest_node_on_branch env ds branch message_type s =
     (case (case message_type of None \<Rightarrow> Inr None | Some t \<Rightarrow> rmap Some (bad_arg [] (message_type_from_str t))) of
        Inl e \<Rightarrow> Inl e
      | Inr mt \<Rightarrow> rmap (map_option (dag_node_to_proto env)) (internal (ds_latest_node_on_branch ds branch mt s)))"

definition srv_latest_nodes_on_branch ::
    "rpc_env \<Rightarrow> 's full_dag_store \<Rightarrow> int \<Rightarrow> 32 word \<Rightarrow> ('s, proto_node list) reader" where
  "srv_latest_nodes_on_branch env ds branch n s =
     rmap (map (dag_node_to_proto env)) (internal (ds_latest_nodes_on_branch ds branch n s))"

section \<open>Typed queries\<close>

definition srv_get_invoke_node :: "rpc_env \<Rightarrow> 's full_dag_store \<Rightarrow> string \<Rightarrow> ('s, invoke_node_proto option) reader" where
  "srv_get_invoke_node env ds dag_hash s =
     (case internal (ds_get_invoke_node ds dag_hash s) of
        Inl e \<Rightarrow> Inl e
      | Inr None \<Rightarrow> Inr None
      | Inr (Some (key, msg)) \<Rightarrow>
          (case dk_kind key of
             DkInvoke harness runtime agent \<Rightarrow>
               Inr (Some
                 \<lparr>xi_session_id = dk_session key, xi_branch = dk_branch key,
                  xi_submission_id = dk_submission key, xi_harness = harness_as_str harness,
                  xi_runtime = runtime_as_str runtime, xi_agent = agent, xi_message_id = iv_id msg,
                  xi_state = iv_state msg, xi_diagnostics = bytes_of (re_invoke_diag env) (iv_diagnostics msg),
                  xi_payload = bytes_of (re_invoke env) msg, xi_dag_parent = iv_dag_parent msg,
                  xi_dag_hash = iv_dag_id msg\<rparr>)
           | _ \<Rightarrow> Inl (Panicked ''get_invoke_node returned non-Invoke key'')))"

text \<open>The routing fields every other typed node starts with.\<close>

record node_proto =
  xn_session_id :: string
  xn_branch :: int
  xn_submission_id :: string
  xn_agent :: string
  xn_message_id :: string
  xn_state :: "string option"

record complete_node_proto = node_proto +
  xc_harness :: string
  xc_diagnostics :: bytes
  xc_payload :: bytes
  xc_dag_hash :: string

record request_node_proto = node_proto +
  xq_service :: string
  xq_operation :: string
  xq_sequence :: "32 word"
  xq_diagnostics :: bytes
  xq_payload :: bytes
  xq_dag_hash :: string
  xq_checkpoint :: "string option"

record response_node_proto = request_node_proto +
  xp_correlation_id :: string
  xp_status_code :: "32 word"

record svc_node_proto = node_proto +
  xs_service_type :: string
  xs_service_backend :: string
  xs_operation :: string
  xs_sequence :: "32 word"
  xs_payload :: bytes
  xs_diagnostics :: "string option"
  xs_tool_call_or_correlation_id :: string

definition srv_get_complete_node :: "rpc_env \<Rightarrow> 's full_dag_store \<Rightarrow> string \<Rightarrow> ('s, complete_node_proto option) reader" where
  "srv_get_complete_node env ds dag_hash s =
     rmap (map_option (\<lambda>(key, msg).
       (let (agent, harness) =
              (case dk_kind key of DkComplete a h \<Rightarrow> (a, harness_as_str h) | _ \<Rightarrow> ([], []))
        in \<lparr>xn_session_id = dk_session key, xn_branch = dk_branch key, xn_submission_id = dk_submission key,
            xn_agent = agent, xn_message_id = cm_id msg, xn_state = cm_state msg, xc_harness = harness,
            xc_diagnostics = bytes_of (re_runtime_diag env) (cm_diagnostics msg),
            xc_payload = bytes_of (re_complete env) msg, xc_dag_hash = cm_dag_id msg\<rparr>)))
       (internal (ds_get_complete_node ds dag_hash s))"

definition srv_get_request_node :: "rpc_env \<Rightarrow> 's full_dag_store \<Rightarrow> string \<Rightarrow> ('s, request_node_proto option) reader" where
  "srv_get_request_node env ds dag_hash s =
     rmap (map_option (\<lambda>(key, msg).
       (let (agent, service, operation, sequence) =
              (case dk_kind key of
                 DkRequest a sb op q \<Rightarrow> (a, service_backend_display sb, operation_as_str op, q)
               | _ \<Rightarrow> ([], [], [], 0))
        in \<lparr>xn_session_id = dk_session key, xn_branch = dk_branch key, xn_submission_id = dk_submission key,
            xn_agent = agent, xn_message_id = rq_id msg, xn_state = rq_state msg, xq_service = service,
            xq_operation = operation, xq_sequence = sequence,
            xq_diagnostics = bytes_of (re_request_diag env) (rq_diagnostics msg),
            xq_payload = rq_payload msg, xq_dag_hash = rq_dag_id msg, xq_checkpoint = rq_checkpoint msg\<rparr>)))
       (internal (fs_get_request_node ds dag_hash s))"

definition srv_get_response_node :: "rpc_env \<Rightarrow> 's full_dag_store \<Rightarrow> string \<Rightarrow> ('s, response_node_proto option) reader" where
  "srv_get_response_node env ds dag_hash s =
     rmap (map_option (\<lambda>(key, msg).
       (let (agent, service, operation, sequence) =
              (case dk_kind key of
                 DkResponse a sb op q \<Rightarrow> (a, service_backend_display sb, operation_as_str op, q)
               | _ \<Rightarrow> ([], [], [], 0))
        in \<lparr>xn_session_id = dk_session key, xn_branch = dk_branch key, xn_submission_id = dk_submission key,
            xn_agent = agent, xn_message_id = rs_id msg, xn_state = rs_state msg, xq_service = service,
            xq_operation = operation, xq_sequence = sequence,
            xq_diagnostics = bytes_of (re_service_diag env) (rs_diagnostics msg),
            xq_payload = rs_payload msg, xq_dag_hash = rs_dag_id msg, xq_checkpoint = rs_checkpoint msg,
            xp_correlation_id = rs_correlation_id msg, xp_status_code = ucast (rs_status_code msg)\<rparr>)))
       (internal (fs_get_response_node ds dag_hash s))"

definition srv_get_svc_request_node :: "rpc_env \<Rightarrow> 's full_dag_store \<Rightarrow> string \<Rightarrow> ('s, svc_node_proto option) reader" where
  "srv_get_svc_request_node env ds dag_hash s =
     rmap (map_option (\<lambda>(key, msg).
       (let (agent, service_type, backend, operation, sequence) =
              (case vk_kind key of
                 VkSvcRequest a sv op q \<Rightarrow>
                   (a, service_backend_v2_type_str sv, service_backend_v2_str sv, op, q)
               | VkSvcResponse _ _ _ _ \<Rightarrow> ([], [], [], [], 0))
        in \<lparr>xn_session_id = vk_session key, xn_branch = vk_branch key, xn_submission_id = vk_submission key,
            xn_agent = agent, xn_message_id = rq2_id msg, xn_state = rq2_state msg,
            xs_service_type = service_type, xs_service_backend = backend, xs_operation = operation,
            xs_sequence = sequence, xs_payload = rq2_payload msg,
            xs_diagnostics = Some (bytes_of (re_svc_request_diag env) (rq2_diagnostics msg)),
            xs_tool_call_or_correlation_id = rq2_tool_call_id msg\<rparr>)))
       (internal (fs_get_svc_request_node ds dag_hash s))"

definition srv_get_svc_response_node :: "rpc_env \<Rightarrow> 's full_dag_store \<Rightarrow> string \<Rightarrow> ('s, svc_node_proto option) reader" where
  "srv_get_svc_response_node env ds dag_hash s =
     rmap (map_option (\<lambda>(key, msg).
       (let (agent, service_type, backend, operation, sequence) =
              (case vk_kind key of
                 VkSvcResponse a sv op q \<Rightarrow>
                   (a, service_backend_v2_type_str sv, service_backend_v2_str sv, op, q)
               | VkSvcRequest _ _ _ _ \<Rightarrow> ([], [], [], [], 0))
        in \<lparr>xn_session_id = vk_session key, xn_branch = vk_branch key, xn_submission_id = vk_submission key,
            xn_agent = agent, xn_message_id = rs2_id msg, xn_state = rs2_state msg,
            xs_service_type = service_type, xs_service_backend = backend, xs_operation = operation,
            xs_sequence = sequence, xs_payload = rs2_payload msg,
            xs_diagnostics = Some (bytes_of (re_svc_response_diag env) (rs2_diagnostics msg)),
            xs_tool_call_or_correlation_id = rs2_correlation_id msg\<rparr>)))
       (internal (fs_get_svc_response_node ds dag_hash s))"

definition srv_get_invoke_message :: "rpc_env \<Rightarrow> 's full_dag_store \<Rightarrow> string \<Rightarrow> ('s, proto_message option) reader" where
  "srv_get_invoke_message env ds i s =
     rmap (map_option (invoke_message_to_proto env)) (internal (fs_get_invoke_message ds i s))"

definition srv_get_complete_message :: "rpc_env \<Rightarrow> 's full_dag_store \<Rightarrow> string \<Rightarrow> ('s, proto_message option) reader" where
  "srv_get_complete_message env ds i s =
     rmap (map_option (complete_message_to_proto env)) (internal (fs_get_complete_message ds i s))"

definition srv_get_request_v2 :: "rpc_env \<Rightarrow> 's full_dag_store \<Rightarrow> string \<Rightarrow> ('s, proto_request_v2 option) reader" where
  "srv_get_request_v2 env ds i s =
     rmap (map_option (request_v2_to_proto env)) (internal (fs_get_request_v2 ds i s))"

definition srv_get_response_v2 :: "rpc_env \<Rightarrow> 's full_dag_store \<Rightarrow> string \<Rightarrow> ('s, proto_response_v2 option) reader" where
  "srv_get_response_v2 env ds i s =
     rmap (map_option (response_v2_to_proto env)) (internal (fs_get_response_v2 ds i s))"

section \<open>Branch and session rows\<close>

text \<open>The store reads its clock for a new branch; the server for a new session.\<close>

definition srv_create_branch ::
    "rpc_env \<Rightarrow> 's full_dag_store \<Rightarrow> timestamp \<Rightarrow> string \<Rightarrow> string \<Rightarrow> string option \<Rightarrow> ('s, int) handler" where
  "srv_create_branch env ds now name session_id fork_point =
     ebind (arg [] (session_id_try_from (re_is_uuid env) session_id)) (\<lambda>session s.
       case ds_create_branch ds now name session fork_point s of (r, s') \<Rightarrow> (internal r, s'))"

definition srv_create_session ::
    "rpc_env \<Rightarrow> 's full_dag_store \<Rightarrow> timestamp \<Rightarrow> proto_session option \<Rightarrow> ('s, write_reply) handler" where
  "srv_create_session env ds now session =
     (case session of
        None \<Rightarrow> efail (InvalidArgument ''missing session'')
      | Some p \<Rightarrow>
          ebind (arg [] (session_id_try_from (re_is_uuid env) (ps_id p))) (\<lambda>i.
          ebind (arg ''invalid external_id: ''
                   (case external_session_id_new (ps_external_id p) of
                      Inl e \<Rightarrow> Inl (re_external_id_error env e) | Inr x \<Rightarrow> Inr x)) (\<lambda>external_id.
            let session = session_new (re_petname env) now i external_id (ps_agent_name p) (ps_default_branch p)
            in store_write (ds_create_session ds (session\<lparr>se_name := ps_name p\<rparr>)))))"

definition srv_rename_branch ::
    "'s full_dag_store \<Rightarrow> int \<Rightarrow> string \<Rightarrow> ('s, write_reply) handler" where
  "srv_rename_branch ds i new_name = store_write (ds_rename_branch ds i new_name)"

definition srv_seal_branch ::
    "rpc_env \<Rightarrow> 's full_dag_store \<Rightarrow> int \<Rightarrow> string \<Rightarrow> ('s, write_reply) handler" where
  "srv_seal_branch env ds i broken_at =
     ebind (arg ''invalid broken_at: '' (re_parse_time env broken_at)) (\<lambda>t.
       store_write (ds_seal_branch ds i t))"

definition srv_update_session_default_branch ::
    "rpc_env \<Rightarrow> 's full_dag_store \<Rightarrow> string \<Rightarrow> int \<Rightarrow> ('s, write_reply) handler" where
  "srv_update_session_default_branch env ds session_id branch_id =
     ebind (arg [] (session_id_try_from (re_is_uuid env) session_id)) (\<lambda>session.
       store_write (ds_update_session_default_branch ds session branch_id))"

section \<open>Inserts\<close>

text \<open>The time stamp and the snapshot, which every insert parses first, with the parser it uses.\<close>

definition read_header ::
    "rpc_env \<Rightarrow> (string \<Rightarrow> (string, timestamp) rust_result) \<Rightarrow> string \<Rightarrow> string \<Rightarrow>
     ('s, timestamp \<times> snapshot) handler" where
  "read_header env parse created_at snapshot =
     ebind (arg ''invalid created_at: '' (parse created_at)) (\<lambda>t.
     ebind (arg ''invalid snapshot: '' (dec (re_snapshot env) snapshot)) (\<lambda>st. eret (t, st)))"

definition srv_insert_invoke_node ::
    "rpc_env \<Rightarrow> 's full_dag_store \<Rightarrow> insert_invoke_request \<Rightarrow> ('s, write_reply) handler" where
  "srv_insert_invoke_node env ds req =
     (case ii_node req of
        None \<Rightarrow> efail (InvalidArgument ''missing node'')
      | Some n \<Rightarrow>
          ebind (arg [] (harness_from_str (xi_harness n))) (\<lambda>harness.
          ebind (arg [] (runtime_from_str (xi_runtime n))) (\<lambda>runtime.
          ebind (read_header env (re_parse_time env) (ii_created_at req) (ii_snapshot req)) (\<lambda>(t, st).
          ebind (arg [] (session_id_try_from (re_is_uuid env) (xi_session_id n))) (\<lambda>session.
            let key = \<lparr>dk_session = session, dk_branch = xi_branch n, dk_submission = xi_submission_id n,
                       dk_kind = DkInvoke harness runtime (xi_agent n)\<rparr>;
                diagnostics = result_or no_invoke_diag (dec (re_invoke_diag env) (xi_diagnostics n));
                msg = result_or
                        \<lparr>iv_id = xi_message_id n, iv_dag_id = xi_dag_hash n, iv_state = xi_state n,
                         iv_diagnostics = diagnostics, iv_dag_parent = xi_dag_parent n, iv_current_input = []\<rparr>
                        (dec (re_invoke env) (xi_payload n))
            in store_write (ds_insert_invoke_node ds (xi_dag_hash n) (ii_parent_hash req) t st key msg))))))"

definition srv_insert_complete_node ::
    "rpc_env \<Rightarrow> 's full_dag_store \<Rightarrow> insert_complete_request \<Rightarrow> ('s, write_reply) handler" where
  "srv_insert_complete_node env ds req =
     ebind (read_header env (re_parse_time env) (ih_created_at req) (ih_snapshot req)) (\<lambda>(t, st).
     ebind (arg [] (session_id_try_from (re_is_uuid env) (id_session_id req))) (\<lambda>session.
     ebind (arg [] (harness_from_str (ic_harness req))) (\<lambda>harness.
       let msg = result_or
             \<lparr>cm_id = id_message_id req, cm_dag_id = ih_dag_hash req, cm_dag_parent = dag_node_id_root,
              cm_state = id_state req,
              cm_diagnostics = result_or (runtime_diagnostics_placeholder 0)
                                 (dec (re_runtime_diag env) (ic_diagnostics req)),
              cm_content = None, cm_tool_calls = None, cm_payload = ic_payload req\<rparr>
             (dec (re_complete env) (ic_payload req))
       in store_write (ds_insert_complete_node ds (ih_dag_hash req) (ih_parent_hash req) t st session
            (id_submission_id req) (id_branch_id req) (id_agent req) harness msg))))"

definition srv_insert_request_node ::
    "rpc_env \<Rightarrow> 's full_dag_store \<Rightarrow> insert_request_request \<Rightarrow> ('s, write_reply) handler" where
  "srv_insert_request_node env ds req =
     ebind (read_header env (re_parse_time env) (ih_created_at req) (ih_snapshot req)) (\<lambda>(t, st).
     ebind (arg [] (session_id_try_from (re_is_uuid env) (id_session_id req))) (\<lambda>session.
     ebind (arg [] (service_backend_from_str (iq_service req))) (\<lambda>service.
     ebind (arg [] (operation_from_str (iq_operation req))) (\<lambda>operation.
       let msg =
             \<lparr>rq_id = id_message_id req, rq_dag_id = ih_dag_hash req, rq_dag_parent = dag_node_id_root,
              rq_state = id_state req,
              rq_diagnostics = result_or no_request_diag (dec (re_request_diag env) (iq_diagnostics req)),
              rq_payload = iq_payload req, rq_checkpoint = iq_checkpoint req\<rparr>
       in store_write (ds_insert_request_node ds (ih_dag_hash req) (ih_parent_hash req) t st session
            (id_submission_id req) (id_branch_id req) (id_agent req) service operation (iq_sequence req) msg)))))"

text \<open>\<open>u16::try_from(status_code).unwrap_or(200)\<close>\<close>

definition status_u16 :: "32 word \<Rightarrow> 16 word" where
  "status_u16 c = (if unat c < 2 ^ 16 then ucast c else 200)"

definition srv_insert_response_node ::
    "rpc_env \<Rightarrow> 's full_dag_store \<Rightarrow> insert_response_request \<Rightarrow> ('s, write_reply) handler" where
  "srv_insert_response_node env ds req =
     ebind (read_header env (re_parse_time env) (ih_created_at req) (ih_snapshot req)) (\<lambda>(t, st).
     ebind (arg [] (session_id_try_from (re_is_uuid env) (id_session_id req))) (\<lambda>session.
     ebind (arg [] (service_backend_from_str (iq_service req))) (\<lambda>service.
     ebind (arg [] (operation_from_str (iq_operation req))) (\<lambda>operation.
       let msg =
             \<lparr>rs_id = id_message_id req, rs_dag_id = ih_dag_hash req, rs_dag_parent = dag_node_id_root,
              rs_correlation_id = ip_correlation_id req, rs_state = id_state req,
              rs_diagnostics = result_or no_service_diag (dec (re_service_diag env) (iq_diagnostics req)),
              rs_payload = iq_payload req, rs_status_code = status_u16 (ip_status_code req),
              rs_checkpoint = iq_checkpoint req\<rparr>
       in store_write (ds_insert_response_node ds (ih_dag_hash req) (ih_parent_hash req) t st session
            (id_submission_id req) (id_branch_id req) (id_agent req) service operation (iq_sequence req) msg)))))"

definition srv_insert_fork_node ::
    "rpc_env \<Rightarrow> 's full_dag_store \<Rightarrow> insert_fork_request \<Rightarrow> ('s, write_reply) handler" where
  "srv_insert_fork_node env ds req =
     ebind (read_header env (re_parse_rfc3339 env) (ih_created_at req) (ih_snapshot req)) (\<lambda>(t, st).
     ebind (arg [] (session_id_try_from (re_is_uuid env) (if_session_id req))) (\<lambda>session.
       let key = \<lparr>sk_session = session, sk_submission = if_submission_id req, sk_kind = SkFork (if_agent_name req)\<rparr>;
           msg = \<lparr>fk_id = if_message_id req, fk_branch_name = if_branch_name req, fk_fork_point = if_fork_point req\<rparr>
       in store_write (ds_insert_fork_node ds (ih_dag_hash req) (ih_parent_hash req) t st key msg)))"

definition srv_insert_promote_node ::
    "rpc_env \<Rightarrow> 's full_dag_store \<Rightarrow> insert_promote_request \<Rightarrow> ('s, write_reply) handler" where
  "srv_insert_promote_node env ds req =
     ebind (read_header env (re_parse_rfc3339 env) (ih_created_at req) (ih_snapshot req)) (\<lambda>(t, st).
     ebind (arg [] (session_id_try_from (re_is_uuid env) (io_session_id req))) (\<lambda>session.
       let key = \<lparr>sk_session = session, sk_submission = io_submission_id req,
                  sk_kind = SkPromote (io_agent_name req)\<rparr>;
           msg = \<lparr>pm_id = io_message_id req, pm_branch_id = io_branch_id req\<rparr>
       in store_write (ds_insert_promote_node ds (ih_dag_hash req) (ih_parent_hash req) t st key msg)))"

definition srv_insert_deploy_agent_node ::
    "rpc_env \<Rightarrow> 's full_dag_store \<Rightarrow> insert_deploy_request \<Rightarrow> ('s, write_reply) handler" where
  "srv_insert_deploy_agent_node env ds req =
     ebind (read_header env (re_parse_rfc3339 env) (ih_created_at req) (ih_snapshot req)) (\<lambda>(t, st).
     ebind (arg ''invalid manifest: '' (dec (re_manifest env) (iy_manifest_json req))) (\<lambda>manifest.
       let key = \<lparr>ik_submission = iy_submission_id req, ik_kind = IkDeployAgent\<rparr>;
           msg = \<lparr>dp_id = iy_message_id req, dp_manifest = manifest\<rparr>
       in store_write (ds_insert_deploy_agent_node ds (ih_dag_hash req) (ih_parent_hash req) t st key msg)))"

definition srv_insert_delete_agent_node ::
    "rpc_env \<Rightarrow> 's full_dag_store \<Rightarrow> insert_delete_request \<Rightarrow> ('s, write_reply) handler" where
  "srv_insert_delete_agent_node env ds req =
     ebind (read_header env (re_parse_rfc3339 env) (ih_created_at req) (ih_snapshot req)) (\<lambda>(t, st).
       let key = \<lparr>ik_submission = ie_submission_id req, ik_kind = IkDeleteAgent\<rparr>;
           msg = \<lparr>da_id = ie_message_id req, da_agent = ie_agent_name req\<rparr>
       in store_write (ds_insert_delete_agent_node ds (ih_dag_hash req) (ih_parent_hash req) t st key msg))"

definition svc_backend_of ::
    "string \<Rightarrow> string \<Rightarrow> ('s, service_backend_v2) handler" where
  "svc_backend_of service_type backend =
     (case service_backend_v2_from_parts service_type backend of
        None \<Rightarrow> efail (InvalidArgument ''invalid service_type or service_backend'')
      | Some sv \<Rightarrow> eret sv)"

definition srv_insert_svc_request_node ::
    "rpc_env \<Rightarrow> 's full_dag_store \<Rightarrow> insert_svc_request \<Rightarrow> ('s, write_reply) handler" where
  "srv_insert_svc_request_node env ds req =
     ebind (read_header env (re_parse_rfc3339 env) (ih_created_at req) (ih_snapshot req)) (\<lambda>(t, st).
     ebind (arg [] (session_id_try_from (re_is_uuid env) (id_session_id req))) (\<lambda>session.
     ebind (svc_backend_of (is_service_type req) (is_service_backend req)) (\<lambda>service.
       let msg =
             \<lparr>rq2_id = id_message_id req, rq2_dag_id = ih_dag_hash req, rq2_dag_parent = dag_node_id_root,
              rq2_tool_call_id = is_tool_call_or_correlation_id req, rq2_state = id_state req,
              rq2_diagnostics = unwrap_or no_svc_request_diag
                (Option.bind (is_diagnostics req) (\<lambda>d. result_ok (dec (re_svc_request_diag env) d))),
              rq2_payload = is_payload req\<rparr>
       in store_write (ds_insert_svc_request_node ds (ih_dag_hash req) (ih_parent_hash req) t st session
            (id_submission_id req) (id_branch_id req) (id_agent req) service (is_operation req)
            (is_sequence req) msg))))"

definition srv_insert_svc_response_node ::
    "rpc_env \<Rightarrow> 's full_dag_store \<Rightarrow> insert_svc_request \<Rightarrow> ('s, write_reply) handler" where
  "srv_insert_svc_response_node env ds req =
     ebind (read_header env (re_parse_rfc3339 env) (ih_created_at req) (ih_snapshot req)) (\<lambda>(t, st).
     ebind (arg [] (session_id_try_from (re_is_uuid env) (id_session_id req))) (\<lambda>session.
     ebind (svc_backend_of (is_service_type req) (is_service_backend req)) (\<lambda>service.
       let msg =
             \<lparr>rs2_id = id_message_id req, rs2_dag_id = ih_dag_hash req, rs2_dag_parent = dag_node_id_root,
              rs2_correlation_id = is_tool_call_or_correlation_id req, rs2_state = id_state req,
              rs2_diagnostics = unwrap_or no_svc_response_diag
                (Option.bind (is_diagnostics req) (\<lambda>d. result_ok (dec (re_svc_response_diag env) d))),
              rs2_payload = is_payload req\<rparr>
       in store_write (ds_insert_svc_response_node ds (ih_dag_hash req) (ih_parent_hash req) t st session
            (id_submission_id req) (id_branch_id req) (id_agent req) service (is_operation req)
            (is_sequence req) msg))))"

end
