(* ===== verification/StateClient.thy ===== *)
theory StateClient
  imports StateServer
begin

text \<open>
  \<open>GrpcStateClient\<close> (\<open>state_service/client.rs\<close>): the \<open>DagStore\<close> of the command line and of the
  daemon's workers that do not open the database themselves.  Its state is the server's store behind the network; each method builds a request, has the
  server's handler run on it, and decodes the reply.  The methods are one value of the trait's record.
\<close>

section \<open>Calls\<close>

record 's net_world =
  nw_tick :: nat
  nw_server :: 's

text \<open>
  A writing call is numbered; the handler sees the server's clock at that number.  A call whose request
  is lost never reaches the handler, one whose reply is lost does.
\<close>

definition rpc ::
    "rpc_env \<Rightarrow> string \<Rightarrow> (timestamp \<Rightarrow> ('s, 'a) handler) \<Rightarrow> ('s net_world, 'a) eff" where
  "rpc env method h w =
     (let n = nw_tick w; w' = w\<lparr>nw_tick := Suc n\<rparr>; (r, s') = h (re_clock env n) (nw_server w)
      in case re_net env n method of
           RequestLost e \<Rightarrow> (Inl e, w')
         | ReplyLost e \<Rightarrow> (Inl e, w'\<lparr>nw_server := s'\<rparr>)
         | Delivered \<Rightarrow>
             (case r of Inl st \<Rightarrow> Inl (re_status env st) | Inr x \<Rightarrow> Inr x, w'\<lparr>nw_server := s'\<rparr>))"

text \<open>A reading call changes nothing; it meets the network as it is at the present number.\<close>

definition rpc_read ::
    "rpc_env \<Rightarrow> string \<Rightarrow> ('s, 'a) reader \<Rightarrow> 's net_world \<Rightarrow> (string, 'a) rust_result" where
  "rpc_read env method q w =
     (case re_net env (nw_tick w) method of
        Delivered \<Rightarrow> (case q (nw_server w) of Inl st \<Rightarrow> Inl (re_status env st) | Inr x \<Rightarrow> Inr x)
      | RequestLost e \<Rightarrow> Inl e
      | ReplyLost e \<Rightarrow> Inl e)"

definition write_result :: "write_reply \<Rightarrow> (string, unit) rust_result" where
  "write_result r = (if wr_success r then Inr () else Inl (unwrap_or ''unknown error'' (wr_error r)))"

definition rpc_write ::
    "rpc_env \<Rightarrow> string \<Rightarrow> (timestamp \<Rightarrow> ('s, write_reply) handler) \<Rightarrow> ('s net_world, unit) eff" where
  "rpc_write env method h = ebind (rpc env method h) (\<lambda>r. elift (write_result r))"

definition to_json :: "string \<Rightarrow> ('a, string) codec \<Rightarrow> 'a \<Rightarrow> ('w, string) eff" where
  "to_json what c x = elift (case enc c x of Inl e \<Rightarrow> Inl (''serialize '' @ what @ '': '' @ e) | Inr j \<Rightarrow> Inr j)"

definition ping_state_service :: "rpc_env \<Rightarrow> 's net_world \<Rightarrow> (nat \<times> nat \<times> nat) option" where
  "ping_state_service env w = result_ok (rpc_read env ''ping'' (\<lambda>s. Inr srv_ping) w)"

section \<open>Queries\<close>

type_synonym ('s, 'a) client_read = "'s net_world \<Rightarrow> (string, 'a) rust_result"

definition cl_get_node :: "rpc_env \<Rightarrow> 's full_dag_store \<Rightarrow> dag_node_id \<Rightarrow> ('s, dag_node option) client_read" where
  "cl_get_node env ds hash w =
     rbind (rpc_read env ''get_node'' (srv_get_node env ds hash) w) (transpose_result (dag_node_from_proto env))"

definition cl_get_session_nodes ::
    "rpc_env \<Rightarrow> 's full_dag_store \<Rightarrow> session_id \<Rightarrow> ('s, dag_node list) client_read" where
  "cl_get_session_nodes env ds session w =
     rbind (rpc_read env ''get_session_nodes'' (srv_get_session_nodes env ds session) w)
       (collect_results (dag_node_from_proto env))"

definition cl_get_children ::
    "rpc_env \<Rightarrow> 's full_dag_store \<Rightarrow> dag_node_id \<Rightarrow> ('s, dag_node list) client_read" where
  "cl_get_children env ds parent w =
     rbind (rpc_read env ''get_children'' (srv_get_children env ds parent) w)
       (collect_results (dag_node_from_proto env))"

definition cl_get_branch_by_name ::
    "rpc_env \<Rightarrow> 's full_dag_store \<Rightarrow> string \<Rightarrow> ('s, branch option) client_read" where
  "cl_get_branch_by_name env ds name w =
     rbind (rpc_read env ''get_branch_by_name'' (srv_get_branch_by_name env ds name) w)
       (transpose_result (branch_from_proto env))"

definition cl_get_branch ::
    "rpc_env \<Rightarrow> 's full_dag_store \<Rightarrow> branch_id \<Rightarrow> ('s, branch option) client_read" where
  "cl_get_branch env ds i w =
     rbind (rpc_read env ''get_branch'' (srv_get_branch env ds i) w) (transpose_result (branch_from_proto env))"

definition cl_list_sessions :: "rpc_env \<Rightarrow> 's full_dag_store \<Rightarrow> ('s, session_summary list) client_read" where
  "cl_list_sessions env ds w =
     rbind (rpc_read env ''list_sessions'' (srv_list_sessions env ds) w)
       (collect_results (summary_from_proto env))"

definition cl_get_nodes_by_submission ::
    "rpc_env \<Rightarrow> 's full_dag_store \<Rightarrow> string \<Rightarrow> ('s, dag_node list) client_read" where
  "cl_get_nodes_by_submission env ds submission w =
     rbind (rpc_read env ''get_nodes_by_submission'' (srv_get_nodes_by_submission env ds submission) w)
       (collect_results (dag_node_from_proto env))"

definition cl_get_node_by_prefix ::
    "rpc_env \<Rightarrow> 's full_dag_store \<Rightarrow> string \<Rightarrow> ('s, dag_node option) client_read" where
  "cl_get_node_by_prefix env ds pre w =
     rbind (rpc_read env ''get_node_by_prefix'' (srv_get_node_by_prefix env ds pre) w)
       (transpose_result (dag_node_from_proto env))"

definition cl_get_branches_for_session ::
    "rpc_env \<Rightarrow> 's full_dag_store \<Rightarrow> session_id \<Rightarrow> ('s, branch list) client_read" where
  "cl_get_branches_for_session env ds session w =
     rbind (rpc_read env ''get_branches_for_session'' (srv_get_branches_for_session env ds session) w)
       (collect_results (branch_from_proto env))"

definition cl_latest_nodes_on_branch ::
    "rpc_env \<Rightarrow> 's full_dag_store \<Rightarrow> branch_id \<Rightarrow> 32 word \<Rightarrow> ('s, dag_node list) client_read" where
  "cl_latest_nodes_on_branch env ds branch n w =
     rbind (rpc_read env ''latest_nodes_on_branch'' (srv_latest_nodes_on_branch env ds branch n) w)
       (collect_results (dag_node_from_proto env))"

definition cl_latest_node_on_branch ::
    "rpc_env \<Rightarrow> 's full_dag_store \<Rightarrow> branch_id \<Rightarrow> message_type option \<Rightarrow> ('s, dag_node option) client_read" where
  "cl_latest_node_on_branch env ds branch mt w =
     rbind (rpc_read env ''latest_node_on_branch''
              (srv_latest_node_on_branch env ds branch (map_option message_type_as_str mt)) w)
       (transpose_result (dag_node_from_proto env))"

definition cl_get_session ::
    "rpc_env \<Rightarrow> 's full_dag_store \<Rightarrow> session_id \<Rightarrow> ('s, session option) client_read" where
  "cl_get_session env ds session w =
     rbind (rpc_read env ''get_session'' (srv_get_session env ds session) w) (transpose_result (proto_to_session env))"

definition cl_get_session_by_name ::
    "rpc_env \<Rightarrow> 's full_dag_store \<Rightarrow> string \<Rightarrow> ('s, session option) client_read" where
  "cl_get_session_by_name env ds name w =
     rbind (rpc_read env ''get_session_by_name'' (srv_get_session_by_name env ds name) w)
       (transpose_result (proto_to_session env))"

text \<open>The client inherits the provided method of the trait.\<close>

definition cl_get_session_by_external_id :: "external_session_id \<Rightarrow> ('s, session option) client_read" where
  "cl_get_session_by_external_id external_id w =
     Inl ''session lookup by external ID not supported by this store''"

definition cl_get_invoke_node ::
    "rpc_env \<Rightarrow> 's full_dag_store \<Rightarrow> dag_node_id \<Rightarrow> ('s, (data_routing_key \<times> invoke_message) option) client_read" where
  "cl_get_invoke_node env ds dag_hash w =
     rbind (rpc_read env ''get_invoke_node'' (srv_get_invoke_node env ds dag_hash) w) (transpose_result (\<lambda>n.
       rbind (harness_from_str (xi_harness n)) (\<lambda>harness.
       rbind (runtime_from_str (xi_runtime n)) (\<lambda>runtime.
       rbind (session_id_try_from (re_is_uuid env) (xi_session_id n)) (\<lambda>session.
         let diagnostics = result_or no_invoke_diag (dec (re_invoke_diag env) (xi_diagnostics n))
         in Inr
              (\<lparr>dk_session = session, dk_branch = xi_branch n, dk_submission = xi_submission_id n,
                dk_kind = DkInvoke harness runtime (xi_agent n)\<rparr>,
               result_or
                 \<lparr>iv_id = xi_message_id n, iv_dag_id = xi_dag_hash n, iv_state = xi_state n,
                  iv_diagnostics = diagnostics, iv_dag_parent = xi_dag_parent n, iv_current_input = []\<rparr>
                 (dec (re_invoke env) (xi_payload n))))))))"

definition data_key_of_proto :: "rpc_env \<Rightarrow> 'a node_proto_scheme \<Rightarrow> data_message_kind \<Rightarrow> data_routing_key" where
  "data_key_of_proto env n kind =
     \<lparr>dk_session = result_or (re_random_session env) (session_id_try_from (re_is_uuid env) (xn_session_id n)),
      dk_branch = xn_branch n, dk_submission = xn_submission_id n, dk_kind = kind\<rparr>"

definition cl_get_complete_node ::
    "rpc_env \<Rightarrow> 's full_dag_store \<Rightarrow> dag_node_id \<Rightarrow>
     ('s, (data_routing_key \<times> complete_message) option) client_read" where
  "cl_get_complete_node env ds dag_hash w =
     rmap (map_option (\<lambda>n.
         (data_key_of_proto env n (DkComplete (xn_agent n) (result_or HCli (harness_from_str (xc_harness n)))),
          result_or
            \<lparr>cm_id = xn_message_id n, cm_dag_id = xc_dag_hash n, cm_dag_parent = dag_node_id_root,
             cm_state = xn_state n,
             cm_diagnostics = result_or (runtime_diagnostics_placeholder 0)
                                (dec (re_runtime_diag env) (xc_diagnostics n)),
             cm_content = None, cm_tool_calls = None, cm_payload = []\<rparr>
            (dec (re_complete env) (xc_payload n)))))
       (rpc_read env ''get_complete_node'' (srv_get_complete_node env ds dag_hash) w)"

text \<open>\<open><method>(<hash>): <field> = <text> unparseable: <error>\<close>\<close>

definition unparseable :: "string \<Rightarrow> dag_node_id \<Rightarrow> string \<Rightarrow> string \<Rightarrow> (string, 'a) rust_result \<Rightarrow> (string, 'a) rust_result" where
  "unparseable method dag_hash what text r =
     (case r of
        Inl e \<Rightarrow> Inl (method @ ''('' @ dag_hash @ ''): '' @ what @ '' = '' @ text @ '' unparseable: '' @ e)
      | Inr x \<Rightarrow> Inr x)"

definition cl_get_request_node ::
    "rpc_env \<Rightarrow> 's full_dag_store \<Rightarrow> dag_node_id \<Rightarrow>
     ('s, (data_routing_key \<times> request_message) option) client_read" where
  "cl_get_request_node env ds dag_hash w =
     rbind (rpc_read env ''get_request_node'' (srv_get_request_node env ds dag_hash) w) (transpose_result (\<lambda>n.
       rbind (unparseable ''get_request_node'' dag_hash ''service'' (xq_service n)
                (service_backend_from_str (xq_service n))) (\<lambda>service.
       rbind (unparseable ''get_request_node'' dag_hash ''operation'' (xq_operation n)
                (operation_from_str (xq_operation n))) (\<lambda>operation.
         Inr (data_key_of_proto env n (DkRequest (xn_agent n) service operation (xq_sequence n)),
              \<lparr>rq_id = xn_message_id n, rq_dag_id = xq_dag_hash n, rq_dag_parent = dag_node_id_root,
               rq_state = xn_state n,
               rq_diagnostics = result_or no_request_diag (dec (re_request_diag env) (xq_diagnostics n)),
               rq_payload = xq_payload n, rq_checkpoint = xq_checkpoint n\<rparr>)))))"

definition cl_get_response_node ::
    "rpc_env \<Rightarrow> 's full_dag_store \<Rightarrow> dag_node_id \<Rightarrow>
     ('s, (data_routing_key \<times> response_message) option) client_read" where
  "cl_get_response_node env ds dag_hash w =
     rbind (rpc_read env ''get_response_node'' (srv_get_response_node env ds dag_hash) w) (transpose_result (\<lambda>n.
       rbind (unparseable ''get_response_node'' dag_hash ''service'' (xq_service n)
                (service_backend_from_str (xq_service n))) (\<lambda>service.
       rbind (unparseable ''get_response_node'' dag_hash ''operation'' (xq_operation n)
                (operation_from_str (xq_operation n))) (\<lambda>operation.
         Inr (data_key_of_proto env n (DkResponse (xn_agent n) service operation (xq_sequence n)),
              \<lparr>rs_id = xn_message_id n, rs_dag_id = xq_dag_hash n, rs_dag_parent = dag_node_id_root,
               rs_correlation_id = xp_correlation_id n, rs_state = xn_state n,
               rs_diagnostics = result_or no_service_diag (dec (re_service_diag env) (xq_diagnostics n)),
               rs_payload = xq_payload n, rs_status_code = status_u16 (xp_status_code n),
               rs_checkpoint = xq_checkpoint n\<rparr>)))))"

text \<open>The service and the session of a service node; the error names what does not parse.\<close>

definition svc_key_of_proto ::
    "rpc_env \<Rightarrow> string \<Rightarrow> dag_node_id \<Rightarrow> svc_node_proto \<Rightarrow>
     (agent_name \<Rightarrow> service_backend_v2 \<Rightarrow> service_operation \<Rightarrow> sequence \<Rightarrow> svc_message_kind) \<Rightarrow>
     (string, svc_routing_key) rust_result" where
  "svc_key_of_proto env method dag_hash n kind =
     rbind (ok_or (method @ ''('' @ dag_hash @ ''): service_type='' @ xs_service_type n @ '' backend='' @
                   xs_service_backend n @ '' unparseable'')
              (service_backend_v2_from_parts (xs_service_type n) (xs_service_backend n))) (\<lambda>service.
     rbind (case session_id_try_from (re_is_uuid env) (xn_session_id n) of
              Inl e \<Rightarrow> Inl (method @ ''('' @ dag_hash @ ''): session_id unparseable: '' @ e)
            | Inr x \<Rightarrow> Inr x) (\<lambda>session.
       Inr \<lparr>vk_session = session, vk_branch = xn_branch n, vk_submission = xn_submission_id n,
            vk_kind = kind (xn_agent n) service (xs_operation n) (xs_sequence n)\<rparr>))"

definition cl_get_svc_request_node ::
    "rpc_env \<Rightarrow> 's full_dag_store \<Rightarrow> dag_node_id \<Rightarrow> ('s, (svc_routing_key \<times> request_v2) option) client_read" where
  "cl_get_svc_request_node env ds dag_hash w =
     rbind (rpc_read env ''get_svc_request_node'' (srv_get_svc_request_node env ds dag_hash) w)
       (transpose_result (\<lambda>n.
         rmap (\<lambda>key.
           (key,
            \<lparr>rq2_id = xn_message_id n, rq2_dag_id = dag_hash, rq2_dag_parent = dag_node_id_root,
             rq2_tool_call_id = xs_tool_call_or_correlation_id n, rq2_state = xn_state n,
             rq2_diagnostics = unwrap_or no_svc_request_diag
               (Option.bind (xs_diagnostics n) (\<lambda>d. result_ok (dec (re_svc_request_diag env) d))),
             rq2_payload = xs_payload n\<rparr>))
           (svc_key_of_proto env ''get_svc_request_node'' dag_hash n VkSvcRequest)))"

definition cl_get_svc_response_node ::
    "rpc_env \<Rightarrow> 's full_dag_store \<Rightarrow> dag_node_id \<Rightarrow> ('s, (svc_routing_key \<times> response_v2) option) client_read" where
  "cl_get_svc_response_node env ds dag_hash w =
     rbind (rpc_read env ''get_svc_response_node'' (srv_get_svc_response_node env ds dag_hash) w)
       (transpose_result (\<lambda>n.
         rmap (\<lambda>key.
           (key,
            \<lparr>rs2_id = xn_message_id n, rs2_dag_id = dag_hash, rs2_dag_parent = dag_node_id_root,
             rs2_correlation_id = xs_tool_call_or_correlation_id n, rs2_state = xn_state n,
             rs2_diagnostics = unwrap_or no_svc_response_diag
               (Option.bind (xs_diagnostics n) (\<lambda>d. result_ok (dec (re_svc_response_diag env) d))),
             rs2_payload = xs_payload n\<rparr>))
           (svc_key_of_proto env ''get_svc_response_node'' dag_hash n VkSvcResponse)))"

definition cl_get_invoke_message ::
    "rpc_env \<Rightarrow> 's full_dag_store \<Rightarrow> dag_node_id \<Rightarrow> ('s, invoke_message option) client_read" where
  "cl_get_invoke_message env ds i w =
     rmap (map_option (proto_to_invoke_message env))
       (rpc_read env ''get_invoke_message'' (srv_get_invoke_message env ds i) w)"

definition cl_get_complete_message ::
    "rpc_env \<Rightarrow> 's full_dag_store \<Rightarrow> dag_node_id \<Rightarrow> ('s, complete_message option) client_read" where
  "cl_get_complete_message env ds i w =
     rmap (map_option (proto_to_complete_message env))
       (rpc_read env ''get_complete_message'' (srv_get_complete_message env ds i) w)"

definition cl_get_request_v2 ::
    "rpc_env \<Rightarrow> 's full_dag_store \<Rightarrow> dag_node_id \<Rightarrow> ('s, request_v2 option) client_read" where
  "cl_get_request_v2 env ds i w =
     rmap (map_option (proto_to_request_v2 env))
       (rpc_read env ''get_request_v2'' (srv_get_request_v2 env ds i) w)"

definition cl_get_response_v2 ::
    "rpc_env \<Rightarrow> 's full_dag_store \<Rightarrow> dag_node_id \<Rightarrow> ('s, response_v2 option) client_read" where
  "cl_get_response_v2 env ds i w =
     rmap (map_option (proto_to_response_v2 env))
       (rpc_read env ''get_response_v2'' (srv_get_response_v2 env ds i) w)"

section \<open>Writes\<close>

text \<open>An insert: the snapshot is serialised before the call.\<close>

definition rpc_insert ::
    "rpc_env \<Rightarrow> string \<Rightarrow> snapshot \<Rightarrow> (string \<Rightarrow> ('s, write_reply) handler) \<Rightarrow> 's net_world typed_insert" where
  "rpc_insert env method st h =
     ebind (to_json ''snapshot'' (re_snapshot env) st) (\<lambda>snapshot_json.
       rpc_write env method (\<lambda>_. h snapshot_json))"

definition cl_insert_invoke_node ::
    "rpc_env \<Rightarrow> 's full_dag_store \<Rightarrow> dag_node_id \<Rightarrow> dag_node_id \<Rightarrow> timestamp \<Rightarrow> snapshot \<Rightarrow>
     data_routing_key \<Rightarrow> invoke_message \<Rightarrow> 's net_world typed_insert" where
  "cl_insert_invoke_node env ds dag_id parent_id created_at st key msg =
     (case dk_kind key of
        DkInvoke harness runtime agent \<Rightarrow>
          rpc_insert env ''insert_invoke_node'' st (\<lambda>snapshot_json.
            srv_insert_invoke_node env ds
              \<lparr>ii_node = Some
                 \<lparr>xi_session_id = dk_session key, xi_branch = dk_branch key, xi_submission_id = dk_submission key,
                  xi_harness = harness_as_str harness, xi_runtime = runtime_as_str runtime, xi_agent = agent,
                  xi_message_id = iv_id msg, xi_state = iv_state msg,
                  xi_diagnostics = bytes_of (re_invoke_diag env) (iv_diagnostics msg),
                  xi_payload = bytes_of (re_invoke env) msg, xi_dag_parent = iv_dag_parent msg,
                  xi_dag_hash = dag_id\<rparr>,
               ii_parent_hash = parent_id, ii_created_at = re_to_rfc3339 env created_at,
               ii_snapshot = snapshot_json\<rparr>)
      | _ \<Rightarrow> efail ''insert_invoke_node: expected Invoke key'')"

definition cl_insert_complete_node ::
    "rpc_env \<Rightarrow> 's full_dag_store \<Rightarrow> dag_node_id \<Rightarrow> dag_node_id \<Rightarrow> timestamp \<Rightarrow> snapshot \<Rightarrow> session_id \<Rightarrow>
     submission_id \<Rightarrow> branch_id \<Rightarrow> agent_name \<Rightarrow> harness_type \<Rightarrow> complete_message \<Rightarrow> 's net_world typed_insert" where
  "cl_insert_complete_node env ds dag_id parent_id created_at st session submission branch agent harness msg =
     rpc_insert env ''insert_complete_node'' st (\<lambda>snapshot_json.
       srv_insert_complete_node env ds
         \<lparr>ih_dag_hash = dag_id, ih_parent_hash = parent_id, ih_created_at = re_to_rfc3339 env created_at,
          ih_snapshot = snapshot_json, id_session_id = session, id_submission_id = submission,
          id_branch_id = branch, id_agent = agent, id_message_id = cm_id msg, id_state = cm_state msg,
          ic_harness = harness_as_str harness,
          ic_diagnostics = bytes_of (re_runtime_diag env) (cm_diagnostics msg),
          ic_payload = bytes_of (re_complete env) msg\<rparr>)"

definition cl_insert_request_node ::
    "rpc_env \<Rightarrow> 's full_dag_store \<Rightarrow> dag_node_id \<Rightarrow> dag_node_id \<Rightarrow> timestamp \<Rightarrow> snapshot \<Rightarrow> session_id \<Rightarrow>
     submission_id \<Rightarrow> branch_id \<Rightarrow> agent_name \<Rightarrow> service_backend \<Rightarrow> operation \<Rightarrow> sequence \<Rightarrow>
     request_message \<Rightarrow> 's net_world typed_insert" where
  "cl_insert_request_node env ds dag_id parent_id created_at st session submission branch agent service
     operation sequence msg =
     rpc_insert env ''insert_request_node'' st (\<lambda>snapshot_json.
       srv_insert_request_node env ds
         \<lparr>ih_dag_hash = dag_id, ih_parent_hash = parent_id, ih_created_at = re_to_rfc3339 env created_at,
          ih_snapshot = snapshot_json, id_session_id = session, id_submission_id = submission,
          id_branch_id = branch, id_agent = agent, id_message_id = rq_id msg, id_state = rq_state msg,
          iq_service = service_backend_display service, iq_operation = operation_as_str operation,
          iq_sequence = sequence, iq_diagnostics = bytes_of (re_request_diag env) (rq_diagnostics msg),
          iq_payload = rq_payload msg, iq_checkpoint = rq_checkpoint msg\<rparr>)"

definition cl_insert_response_node ::
    "rpc_env \<Rightarrow> 's full_dag_store \<Rightarrow> dag_node_id \<Rightarrow> dag_node_id \<Rightarrow> timestamp \<Rightarrow> snapshot \<Rightarrow> session_id \<Rightarrow>
     submission_id \<Rightarrow> branch_id \<Rightarrow> agent_name \<Rightarrow> service_backend \<Rightarrow> operation \<Rightarrow> sequence \<Rightarrow>
     response_message \<Rightarrow> 's net_world typed_insert" where
  "cl_insert_response_node env ds dag_id parent_id created_at st session submission branch agent service
     operation sequence msg =
     rpc_insert env ''insert_response_node'' st (\<lambda>snapshot_json.
       srv_insert_response_node env ds
         \<lparr>ih_dag_hash = dag_id, ih_parent_hash = parent_id, ih_created_at = re_to_rfc3339 env created_at,
          ih_snapshot = snapshot_json, id_session_id = session, id_submission_id = submission,
          id_branch_id = branch, id_agent = agent, id_message_id = rs_id msg, id_state = rs_state msg,
          iq_service = service_backend_display service, iq_operation = operation_as_str operation,
          iq_sequence = sequence, iq_diagnostics = bytes_of (re_service_diag env) (rs_diagnostics msg),
          iq_payload = rs_payload msg, iq_checkpoint = rs_checkpoint msg,
          ip_correlation_id = rs_correlation_id msg, ip_status_code = ucast (rs_status_code msg)\<rparr>)"

definition cl_insert_fork_node ::
    "rpc_env \<Rightarrow> 's full_dag_store \<Rightarrow> dag_node_id \<Rightarrow> dag_node_id \<Rightarrow> timestamp \<Rightarrow> snapshot \<Rightarrow>
     session_routing_key \<Rightarrow> fork_message \<Rightarrow> 's net_world typed_insert" where
  "cl_insert_fork_node env ds dag_id parent_id created_at st key msg =
     ebind (to_json ''snapshot'' (re_snapshot env) st) (\<lambda>snapshot_json.
       case sk_kind key of
         SkFork agent_name \<Rightarrow>
           rpc_write env ''insert_fork_node'' (\<lambda>_. srv_insert_fork_node env ds
             \<lparr>ih_dag_hash = dag_id, ih_parent_hash = parent_id, ih_created_at = re_to_rfc3339 env created_at,
              ih_snapshot = snapshot_json, if_session_id = sk_session key, if_submission_id = sk_submission key,
              if_agent_name = agent_name, if_message_id = fk_id msg, if_branch_name = fk_branch_name msg,
              if_fork_point = fk_fork_point msg\<rparr>)
       | _ \<Rightarrow> efail ''insert_fork_node: expected Fork key'')"

definition cl_insert_promote_node ::
    "rpc_env \<Rightarrow> 's full_dag_store \<Rightarrow> dag_node_id \<Rightarrow> dag_node_id \<Rightarrow> timestamp \<Rightarrow> snapshot \<Rightarrow>
     session_routing_key \<Rightarrow> promote_message \<Rightarrow> 's net_world typed_insert" where
  "cl_insert_promote_node env ds dag_id parent_id created_at st key msg =
     ebind (to_json ''snapshot'' (re_snapshot env) st) (\<lambda>snapshot_json.
       case sk_kind key of
         SkPromote agent_name \<Rightarrow>
           rpc_write env ''insert_promote_node'' (\<lambda>_. srv_insert_promote_node env ds
             \<lparr>ih_dag_hash = dag_id, ih_parent_hash = parent_id, ih_created_at = re_to_rfc3339 env created_at,
              ih_snapshot = snapshot_json, io_session_id = sk_session key, io_submission_id = sk_submission key,
              io_agent_name = agent_name, io_message_id = pm_id msg, io_branch_id = pm_branch_id msg\<rparr>)
       | _ \<Rightarrow> efail ''insert_promote_node: expected Promote key'')"

definition cl_insert_deploy_agent_node ::
    "rpc_env \<Rightarrow> 's full_dag_store \<Rightarrow> dag_node_id \<Rightarrow> dag_node_id \<Rightarrow> timestamp \<Rightarrow> snapshot \<Rightarrow>
     infra_routing_key \<Rightarrow> deploy_agent_message \<Rightarrow> 's net_world typed_insert" where
  "cl_insert_deploy_agent_node env ds dag_id parent_id created_at st key msg =
     ebind (to_json ''snapshot'' (re_snapshot env) st) (\<lambda>snapshot_json.
     ebind (to_json ''manifest'' (re_manifest env) (dp_manifest msg)) (\<lambda>manifest_json.
       rpc_write env ''insert_deploy_agent_node'' (\<lambda>_. srv_insert_deploy_agent_node env ds
         \<lparr>ih_dag_hash = dag_id, ih_parent_hash = parent_id, ih_created_at = re_to_rfc3339 env created_at,
          ih_snapshot = snapshot_json, iy_submission_id = ik_submission key,
          iy_agent_name = mf_name (dp_manifest msg), iy_manifest_json = manifest_json, iy_message_id = dp_id msg\<rparr>)))"

definition cl_insert_delete_agent_node ::
    "rpc_env \<Rightarrow> 's full_dag_store \<Rightarrow> dag_node_id \<Rightarrow> dag_node_id \<Rightarrow> timestamp \<Rightarrow> snapshot \<Rightarrow>
     infra_routing_key \<Rightarrow> delete_agent_message \<Rightarrow> 's net_world typed_insert" where
  "cl_insert_delete_agent_node env ds dag_id parent_id created_at st key msg =
     rpc_insert env ''insert_delete_agent_node'' st (\<lambda>snapshot_json.
       srv_insert_delete_agent_node env ds
         \<lparr>ih_dag_hash = dag_id, ih_parent_hash = parent_id, ih_created_at = re_to_rfc3339 env created_at,
          ih_snapshot = snapshot_json, ie_submission_id = ik_submission key, ie_agent_name = da_agent msg,
          ie_message_id = da_id msg\<rparr>)"

definition cl_insert_svc_request_node ::
    "rpc_env \<Rightarrow> 's full_dag_store \<Rightarrow> dag_node_id \<Rightarrow> dag_node_id \<Rightarrow> timestamp \<Rightarrow> snapshot \<Rightarrow> session_id \<Rightarrow>
     submission_id \<Rightarrow> branch_id \<Rightarrow> agent_name \<Rightarrow> service_backend_v2 \<Rightarrow> service_operation \<Rightarrow> sequence \<Rightarrow>
     request_v2 \<Rightarrow> 's net_world typed_insert" where
  "cl_insert_svc_request_node env ds dag_id parent_id created_at st session submission branch agent service
     operation sequence msg =
     rpc_insert env ''insert_svc_request_node'' st (\<lambda>snapshot_json.
       srv_insert_svc_request_node env ds
         \<lparr>ih_dag_hash = dag_id, ih_parent_hash = parent_id, ih_created_at = re_to_rfc3339 env created_at,
          ih_snapshot = snapshot_json, id_session_id = session, id_submission_id = submission,
          id_branch_id = branch, id_agent = agent, id_message_id = rq2_id msg, id_state = rq2_state msg,
          is_service_type = service_backend_v2_type_str service,
          is_service_backend = service_backend_v2_str service, is_operation = operation,
          is_sequence = sequence, is_payload = rq2_payload msg,
          is_diagnostics = Some (bytes_of (re_svc_request_diag env) (rq2_diagnostics msg)),
          is_tool_call_or_correlation_id = rq2_tool_call_id msg\<rparr>)"

definition cl_insert_svc_response_node ::
    "rpc_env \<Rightarrow> 's full_dag_store \<Rightarrow> dag_node_id \<Rightarrow> dag_node_id \<Rightarrow> timestamp \<Rightarrow> snapshot \<Rightarrow> session_id \<Rightarrow>
     submission_id \<Rightarrow> branch_id \<Rightarrow> agent_name \<Rightarrow> service_backend_v2 \<Rightarrow> service_operation \<Rightarrow> sequence \<Rightarrow>
     response_v2 \<Rightarrow> 's net_world typed_insert" where
  "cl_insert_svc_response_node env ds dag_id parent_id created_at st session submission branch agent service
     operation sequence msg =
     rpc_insert env ''insert_svc_response_node'' st (\<lambda>snapshot_json.
       srv_insert_svc_response_node env ds
         \<lparr>ih_dag_hash = dag_id, ih_parent_hash = parent_id, ih_created_at = re_to_rfc3339 env created_at,
          ih_snapshot = snapshot_json, id_session_id = session, id_submission_id = submission,
          id_branch_id = branch, id_agent = agent, id_message_id = rs2_id msg, id_state = rs2_state msg,
          is_service_type = service_backend_v2_type_str service,
          is_service_backend = service_backend_v2_str service, is_operation = operation,
          is_sequence = sequence, is_payload = rs2_payload msg,
          is_diagnostics = Some (bytes_of (re_svc_response_diag env) (rs2_diagnostics msg)),
          is_tool_call_or_correlation_id = rs2_correlation_id msg\<rparr>)"

definition cl_create_branch ::
    "rpc_env \<Rightarrow> 's full_dag_store \<Rightarrow> timestamp \<Rightarrow> string \<Rightarrow> session_id \<Rightarrow> dag_node_id option \<Rightarrow>
     ('s net_world, branch_id) eff" where
  "cl_create_branch env ds own_clock name session fork_point =
     rpc env ''create_branch'' (\<lambda>now. srv_create_branch env ds now name session fork_point)"

definition cl_rename_branch ::
    "rpc_env \<Rightarrow> 's full_dag_store \<Rightarrow> branch_id \<Rightarrow> string \<Rightarrow> ('s net_world, unit) eff" where
  "cl_rename_branch env ds i new_name = rpc_write env ''rename_branch'' (\<lambda>_. srv_rename_branch ds i new_name)"

definition cl_seal_branch ::
    "rpc_env \<Rightarrow> 's full_dag_store \<Rightarrow> branch_id \<Rightarrow> timestamp \<Rightarrow> ('s net_world, unit) eff" where
  "cl_seal_branch env ds i broken_at =
     rpc_write env ''seal_branch'' (\<lambda>_. srv_seal_branch env ds i (re_to_rfc3339 env broken_at))"

definition cl_update_session_default_branch ::
    "rpc_env \<Rightarrow> 's full_dag_store \<Rightarrow> session_id \<Rightarrow> branch_id \<Rightarrow> ('s net_world, unit) eff" where
  "cl_update_session_default_branch env ds session branch =
     rpc_write env ''update_session_default_branch'' (\<lambda>_. srv_update_session_default_branch env ds session branch)"

definition cl_create_session ::
    "rpc_env \<Rightarrow> 's full_dag_store \<Rightarrow> session \<Rightarrow> ('s net_world, unit) eff" where
  "cl_create_session env ds session =
     rpc_write env ''create_session'' (\<lambda>now. srv_create_session env ds now (Some (session_to_proto env session)))"

section \<open>The client as a store\<close>

definition grpc_store :: "rpc_env \<Rightarrow> 's full_dag_store \<Rightarrow> 's net_world full_dag_store" where
  "grpc_store env ds =
     \<lparr>ds_insert_invoke_node = cl_insert_invoke_node env ds,
      ds_insert_complete_node = cl_insert_complete_node env ds,
      ds_insert_request_node = cl_insert_request_node env ds,
      ds_insert_response_node = cl_insert_response_node env ds,
      ds_insert_fork_node = cl_insert_fork_node env ds,
      ds_insert_promote_node = cl_insert_promote_node env ds,
      ds_insert_deploy_agent_node = cl_insert_deploy_agent_node env ds,
      ds_insert_delete_agent_node = cl_insert_delete_agent_node env ds,
      ds_insert_svc_request_node = cl_insert_svc_request_node env ds,
      ds_insert_svc_response_node = cl_insert_svc_response_node env ds,
      ds_get_node = cl_get_node env ds,
      ds_get_node_by_prefix = cl_get_node_by_prefix env ds,
      ds_get_session_nodes = cl_get_session_nodes env ds,
      ds_get_children = cl_get_children env ds,
      ds_create_branch = cl_create_branch env ds,
      ds_get_branch_by_name = cl_get_branch_by_name env ds,
      ds_get_branch = cl_get_branch env ds,
      ds_get_nodes_by_submission = cl_get_nodes_by_submission env ds,
      ds_get_invoke_node = cl_get_invoke_node env ds,
      ds_get_complete_node = cl_get_complete_node env ds,
      ds_get_branches_for_session = cl_get_branches_for_session env ds,
      ds_latest_nodes_on_branch = cl_latest_nodes_on_branch env ds,
      ds_latest_node_on_branch = cl_latest_node_on_branch env ds,
      ds_rename_branch = cl_rename_branch env ds,
      ds_seal_branch = cl_seal_branch env ds,
      ds_update_session_default_branch = cl_update_session_default_branch env ds,
      ds_create_session = cl_create_session env ds,
      ds_get_session = cl_get_session env ds,
      ds_get_session_by_name = cl_get_session_by_name env ds,
      ds_get_session_by_external_id = cl_get_session_by_external_id,
      fs_list_sessions = cl_list_sessions env ds,
      fs_get_request_node = cl_get_request_node env ds,
      fs_get_response_node = cl_get_response_node env ds,
      fs_get_svc_request_node = cl_get_svc_request_node env ds,
      fs_get_svc_response_node = cl_get_svc_response_node env ds,
      fs_get_invoke_message = cl_get_invoke_message env ds,
      fs_get_complete_message = cl_get_complete_message env ds,
      fs_get_request_v2 = cl_get_request_v2 env ds,
      fs_get_response_v2 = cl_get_response_v2 env ds\<rparr>"

end
