(* ===== verification/StateGrpcLaws.thy ===== *)
theory StateGrpcLaws
  imports StateClient SqlDagLaws
begin

text \<open>
  The state service as a store.  Whatever calls are lost, the client over the server of an append-only
  store is again an append-only store, over the nodes as they look after the wire (\<open>wire_node\<close>), and it
  keeps every invariant that the server's store keeps.  When no call is lost, every writing method is the
  server's own method on a normalised message (\<open>relay\<close>).
\<close>

section \<open>Nodes over the wire\<close>

definition wire_node :: "rpc_env \<Rightarrow> dag_node \<Rightarrow> dag_node" where
  "wire_node env n = result_or n (dag_node_from_proto env (dag_node_to_proto env n))"

lemma dag_node_from_to:
  "dag_node_from_proto env (dag_node_to_proto env n) = Inr m \<Longrightarrow>
     m = wire_node env n \<and> dn_id m = dn_id n \<and> dn_parent_id m = dn_parent_id n \<and>
     dn_state m = snapshot_empty \<and> dn_msg_type m = dn_msg_type n \<and> dn_branch m = dn_branch n"
  by (auto simp: wire_node_def dag_node_from_proto_def dag_node_to_proto_def split: sum.splits)

lemma wire_node_simps [simp]:
  "dn_id (wire_node env n) = dn_id n" "dn_parent_id (wire_node env n) = dn_parent_id n"
  by (auto simp: wire_node_def dag_node_from_proto_def dag_node_to_proto_def result_or_def split: sum.split)

lemma chain_ok_map:
  assumes "\<And>n. dn_id (f n) = dn_id n" and "\<And>n. dn_parent_id (f n) = dn_parent_id n"
  shows "chain_ok seen (map f ns) \<longleftrightarrow> chain_ok seen ns"
  using assms by (induction ns arbitrary: seen) auto

lemma wire_chain_wf [simp]: "chain_wf (map (wire_node env) ns) \<longleftrightarrow> chain_wf ns"
  by (simp add: chain_wf_def chain_ok_map)

lemma one_node_wire:
  assumes "one_node i p ns ns'"
  shows "one_node i p (map (wire_node env) ns) (map (wire_node env) ns')"
  using assms unfolding one_node_def
proof (elim disjE exE conjE)
  fix n assume n: "dn_id n = i" "dn_parent_id n = p" "ns' = add_node n ns"
  have "map (wire_node env) (add_node n ns) = add_node (wire_node env n) (map (wire_node env) ns)"
    by (simp add: add_node_def list_ex_iff)
  with n show "map (wire_node env) ns' = map (wire_node env) ns \<or>
      (\<exists>m. dn_id m = i \<and> dn_parent_id m = p \<and> map (wire_node env) ns' = add_node m (map (wire_node env) ns))"
    by (metis wire_node_simps)
qed simp

section \<open>What a handler does to the server's state\<close>

text \<open>A relation between the state before and after, whatever the result.\<close>

definition moves :: "('s \<Rightarrow> 's \<Rightarrow> bool) \<Rightarrow> ('s, 'e, 'a) fallible \<Rightarrow> bool" where
  "moves R m \<longleftrightarrow> (\<forall>s. R s (snd (m s)))"

named_theorems moves_rules

lemma movesD: "moves R m \<Longrightarrow> m s = (r, s') \<Longrightarrow> R s s'"
  by (metis moves_def snd_conv)

lemma moves_elift [moves_rules]: "reflp R \<Longrightarrow> moves R (elift r)" "reflp R \<Longrightarrow> moves R (efail e)"
  by (simp_all add: moves_def reflp_def)

definition stays :: "('s, 'e, 'a) fallible \<Rightarrow> bool" where
  "stays m \<longleftrightarrow> (\<forall>s. snd (m s) = s)"

lemma stays_basic [simp]: "stays (elift r)" "stays (efail e)" "stays (eret x)" "stays (arg w r)"
  by (simp_all add: stays_def arg_def)

lemma stays_ebind: "stays m \<Longrightarrow> (\<And>x. stays (f x)) \<Longrightarrow> stays (ebind m f)"
  by (auto simp: stays_def ebind_def split_beta split: sum.split)

lemma stays_read_header [simp]: "stays (read_header env parse t sn)"
  unfolding read_header_def by (intro stays_ebind) simp_all

lemma stays_svc_backend [simp]: "stays (svc_backend_of t b)"
  by (simp add: stays_def svc_backend_of_def split: option.split)

lemma stays_to_json [simp]: "stays (to_json what c x)"
  by (simp add: to_json_def)

lemma moves_after: "reflp R \<Longrightarrow> stays m \<Longrightarrow> (\<And>x. moves R (f x)) \<Longrightarrow> moves R (ebind m f)"
  by (auto simp: moves_def stays_def reflp_def ebind_def split_beta split: sum.split)

lemma moves_store_write: "moves R m \<Longrightarrow> moves R (store_write m)"
  by (simp add: moves_def store_write_def split_beta)

lemma moves_efail: "reflp R \<Longrightarrow> moves R (efail e)"
  by (simp add: moves_def reflp_def)

text \<open>The network in between: the state of the server, seen from the client.\<close>

definition over_net :: "('s \<Rightarrow> 's \<Rightarrow> bool) \<Rightarrow> 's net_world \<Rightarrow> 's net_world \<Rightarrow> bool" where
  "over_net R w w' \<longleftrightarrow> R (nw_server w) (nw_server w')"

lemma over_net_reflp: "reflp R \<Longrightarrow> reflp (over_net R)"
  by (simp add: over_net_def reflp_def)

lemma moves_rpc:
  assumes "reflp R" and "\<And>now. moves R (h now)"
  shows "moves (over_net R) (rpc env call h)"
  using assms
  by (auto simp: moves_def over_net_def rpc_def reflp_def Let_def split_beta split: delivery.split)

lemma moves_rpc_write:
  assumes "reflp R" and "\<And>now. moves R (h now)"
  shows "moves (over_net R) (rpc_write env call h)"
  using moves_rpc [OF assms, of env call]
  by (auto simp: rpc_write_def moves_def ebind_def split_beta split: sum.split)

lemma moves_rpc_insert:
  assumes "reflp R" and "\<And>sn. moves R (h sn)"
  shows "moves (over_net R) (rpc_insert env call st h)"
  unfolding rpc_insert_def
  by (intro moves_after moves_rpc_write over_net_reflp assms stays_to_json)

lemma moves_internal: "moves R m \<Longrightarrow> moves R (\<lambda>s. case m s of (r, s') \<Rightarrow> (internal r, s'))"
  by (simp add: moves_def split_beta)

lemmas handler_moves = moves_after moves_store_write moves_internal moves_efail stays_basic stays_read_header stays_svc_backend

lemmas client_moves = moves_rpc_insert moves_rpc_write moves_rpc moves_after moves_efail over_net_reflp
  stays_to_json

section \<open>The client's writing methods\<close>

lemma cl_inserts_move:
  assumes "reflp R"
  shows "(\<And>t st key msg. moves R (ds_insert_invoke_node ds i p t st key msg)) \<Longrightarrow>
      moves (over_net R) (cl_insert_invoke_node env ds i p t st key iv)"
    and "(\<And>t st se sub br a h msg. moves R (ds_insert_complete_node ds i p t st se sub br a h msg)) \<Longrightarrow>
      moves (over_net R) (cl_insert_complete_node env ds i p t st se sub br a h cm)"
    and "(\<And>t st se sub br a sb op q msg. moves R (ds_insert_request_node ds i p t st se sub br a sb op q msg)) \<Longrightarrow>
      moves (over_net R) (cl_insert_request_node env ds i p t st se sub br a sb op q rq)"
    and "(\<And>t st se sub br a sb op q msg. moves R (ds_insert_response_node ds i p t st se sub br a sb op q msg)) \<Longrightarrow>
      moves (over_net R) (cl_insert_response_node env ds i p t st se sub br a sb op q rs)"
    and "(\<And>t st se sub br a sv so q msg. moves R (ds_insert_svc_request_node ds i p t st se sub br a sv so q msg)) \<Longrightarrow>
      moves (over_net R) (cl_insert_svc_request_node env ds i p t st se sub br a sv so q rq2)"
    and "(\<And>t st se sub br a sv so q msg. moves R (ds_insert_svc_response_node ds i p t st se sub br a sv so q msg)) \<Longrightarrow>
      moves (over_net R) (cl_insert_svc_response_node env ds i p t st se sub br a sv so q rs2)"
    and "(\<And>t st key msg. moves R (ds_insert_fork_node ds i p t st key msg)) \<Longrightarrow>
      moves (over_net R) (cl_insert_fork_node env ds i p t st sk fk)"
    and "(\<And>t st key msg. moves R (ds_insert_promote_node ds i p t st key msg)) \<Longrightarrow>
      moves (over_net R) (cl_insert_promote_node env ds i p t st sk pm)"
    and "(\<And>t st key msg. moves R (ds_insert_deploy_agent_node ds i p t st key msg)) \<Longrightarrow>
      moves (over_net R) (cl_insert_deploy_agent_node env ds i p t st ik dp)"
    and "(\<And>t st key msg. moves R (ds_insert_delete_agent_node ds i p t st key msg)) \<Longrightarrow>
      moves (over_net R) (cl_insert_delete_agent_node env ds i p t st ik da)"
  using assms
  by (auto simp: cl_insert_invoke_node_def srv_insert_invoke_node_def cl_insert_complete_node_def
      srv_insert_complete_node_def cl_insert_request_node_def srv_insert_request_node_def
      cl_insert_response_node_def srv_insert_response_node_def cl_insert_svc_request_node_def
      srv_insert_svc_request_node_def cl_insert_svc_response_node_def srv_insert_svc_response_node_def
      cl_insert_fork_node_def srv_insert_fork_node_def cl_insert_promote_node_def srv_insert_promote_node_def
      cl_insert_deploy_agent_node_def srv_insert_deploy_agent_node_def cl_insert_delete_agent_node_def
      srv_insert_delete_agent_node_def Let_def split_beta
      split: data_message_kind.split session_message_kind.split
      intro!: client_moves handler_moves)

lemma cl_rows_move:
  assumes "reflp R"
  shows "(\<And>t nm se fp. moves R (ds_create_branch ds t nm se fp)) \<Longrightarrow>
      moves (over_net R) (cl_create_branch env ds t nm se fp)"
    and "(\<And>br nm. moves R (ds_rename_branch ds br nm)) \<Longrightarrow> moves (over_net R) (cl_rename_branch env ds br nm)"
    and "(\<And>br t. moves R (ds_seal_branch ds br t)) \<Longrightarrow> moves (over_net R) (cl_seal_branch env ds br t)"
    and "(\<And>se br. moves R (ds_update_session_default_branch ds se br)) \<Longrightarrow>
      moves (over_net R) (cl_update_session_default_branch env ds se br)"
    and "(\<And>ses. moves R (ds_create_session ds ses)) \<Longrightarrow> moves (over_net R) (cl_create_session env ds ses)"
  using assms
  by (auto simp: cl_create_branch_def srv_create_branch_def cl_rename_branch_def srv_rename_branch_def
      cl_seal_branch_def srv_seal_branch_def cl_update_session_default_branch_def
      srv_update_session_default_branch_def cl_create_session_def srv_create_session_def Let_def
      intro!: client_moves handler_moves)

section \<open>The client as an append-only store\<close>

lemma truncate_simps [simp]:
  "ds_insert_invoke_node (dag_store.truncate fs) = ds_insert_invoke_node fs"
  "ds_insert_complete_node (dag_store.truncate fs) = ds_insert_complete_node fs"
  "ds_insert_request_node (dag_store.truncate fs) = ds_insert_request_node fs"
  "ds_insert_response_node (dag_store.truncate fs) = ds_insert_response_node fs"
  "ds_insert_svc_request_node (dag_store.truncate fs) = ds_insert_svc_request_node fs"
  "ds_insert_svc_response_node (dag_store.truncate fs) = ds_insert_svc_response_node fs"
  "ds_insert_fork_node (dag_store.truncate fs) = ds_insert_fork_node fs"
  "ds_insert_promote_node (dag_store.truncate fs) = ds_insert_promote_node fs"
  "ds_insert_deploy_agent_node (dag_store.truncate fs) = ds_insert_deploy_agent_node fs"
  "ds_insert_delete_agent_node (dag_store.truncate fs) = ds_insert_delete_agent_node fs"
  "ds_get_node (dag_store.truncate fs) = ds_get_node fs"
  "ds_latest_node_on_branch (dag_store.truncate fs) = ds_latest_node_on_branch fs"
  "ds_create_branch (dag_store.truncate fs) = ds_create_branch fs"
  "ds_rename_branch (dag_store.truncate fs) = ds_rename_branch fs"
  "ds_seal_branch (dag_store.truncate fs) = ds_seal_branch fs"
  "ds_update_session_default_branch (dag_store.truncate fs) = ds_update_session_default_branch fs"
  "ds_create_session (dag_store.truncate fs) = ds_create_session fs"
  by (cases fs; simp add: dag_store.defs)+

lemma grpc_store_simps [simp]:
  "ds_insert_invoke_node (grpc_store env fs) = cl_insert_invoke_node env fs"
  "ds_insert_complete_node (grpc_store env fs) = cl_insert_complete_node env fs"
  "ds_insert_request_node (grpc_store env fs) = cl_insert_request_node env fs"
  "ds_insert_response_node (grpc_store env fs) = cl_insert_response_node env fs"
  "ds_insert_svc_request_node (grpc_store env fs) = cl_insert_svc_request_node env fs"
  "ds_insert_svc_response_node (grpc_store env fs) = cl_insert_svc_response_node env fs"
  "ds_insert_fork_node (grpc_store env fs) = cl_insert_fork_node env fs"
  "ds_insert_promote_node (grpc_store env fs) = cl_insert_promote_node env fs"
  "ds_insert_deploy_agent_node (grpc_store env fs) = cl_insert_deploy_agent_node env fs"
  "ds_insert_delete_agent_node (grpc_store env fs) = cl_insert_delete_agent_node env fs"
  "ds_get_node (grpc_store env fs) = cl_get_node env fs"
  "ds_latest_node_on_branch (grpc_store env fs) = cl_latest_node_on_branch env fs"
  "ds_create_branch (grpc_store env fs) = cl_create_branch env fs"
  "ds_rename_branch (grpc_store env fs) = cl_rename_branch env fs"
  "ds_seal_branch (grpc_store env fs) = cl_seal_branch env fs"
  "ds_update_session_default_branch (grpc_store env fs) = cl_update_session_default_branch env fs"
  "ds_create_session (grpc_store env fs) = cl_create_session env fs"
  by (simp_all add: grpc_store_def)

lemma rpc_read_Inr:
  "rpc_read env call q w = Inr x \<longleftrightarrow> re_net env (nw_tick w) call = Delivered \<and> q (nw_server w) = Inr x"
  by (auto simp: rpc_read_def split: delivery.split sum.split)

lemma rbind_Inr: "rbind r f = Inr y \<longleftrightarrow> (\<exists>x. r = Inr x \<and> f x = Inr y)"
  by (cases r) simp_all

lemma rmap_Inr: "rmap f r = Inr y \<longleftrightarrow> (\<exists>x. r = Inr x \<and> y = f x)"
  by (cases r) auto

lemma internal_Inr: "internal r = Inr x \<longleftrightarrow> r = Inr x"
  by (auto simp: internal_def split: sum.split)

lemma transpose_Some: "transpose_result f z = Inr (Some y) \<longleftrightarrow> (\<exists>x. z = Some x \<and> f x = Inr y)"
  by (cases z) (auto simp: rmap_Inr)

lemmas read_Inr = rpc_read_Inr rbind_Inr rmap_Inr internal_Inr transpose_Some

lemma cl_get_node_Some:
  assumes "cl_get_node env fs i w = Inr (Some m)"
  shows "\<exists>n. ds_get_node fs i (nw_server w) = Inr (Some n) \<and> m = wire_node env n \<and> dn_state m = snapshot_empty"
  using assms
  by (auto simp: cl_get_node_def srv_get_node_def read_Inr dest: dag_node_from_to)

lemma cl_latest_Some:
  assumes "cl_latest_node_on_branch env fs b mt w = Inr (Some m)"
  shows "\<exists>n. ds_latest_node_on_branch fs b mt (nw_server w) = Inr (Some n) \<and> m = wire_node env n \<and>
     dn_state m = snapshot_empty"
proof -
  have "message_type_from_str (message_type_as_str t) = Inr t" for t by simp
  then show ?thesis using assms
    by (cases mt)
      (auto simp: cl_latest_node_on_branch_def srv_latest_node_on_branch_def read_Inr bad_arg_def
        dest: dag_node_from_to)
qed

definition wire_nodes :: "rpc_env \<Rightarrow> ('s \<Rightarrow> dag_node list) \<Rightarrow> 's net_world \<Rightarrow> dag_node list" where
  "wire_nodes env nodes w = map (wire_node env) (nodes (nw_server w))"

lemma moves_one_node:
  assumes "moves (over_net (\<lambda>s s'. one_node i p (nodes s) (nodes s'))) m" and "m w = (r, w')"
  shows "one_node i p (wire_nodes env nodes w) (wire_nodes env nodes w')"
  using movesD [OF assms] by (simp add: over_net_def wire_nodes_def one_node_wire)

lemma moves_same_nodes:
  assumes "moves (over_net (\<lambda>s s'. nodes s' = nodes s)) m" and "m w = (r, w')"
  shows "wire_nodes env nodes w' = wire_nodes env nodes w"
  using movesD [OF assms] by (simp add: over_net_def wire_nodes_def)

lemma one_node_reflp: "reflp (\<lambda>s s'. one_node i p (nodes s) (nodes s'))" "reflp (\<lambda>s s'. nodes s' = nodes s)"
  by (simp_all add: reflp_def)

lemma movesI: "(\<And>s r s'. m s = (r, s') \<Longrightarrow> R s s') \<Longrightarrow> moves R m"
  by (metis moves_def surjective_pairing)

locale served_store =
  fixes fs :: "'s full_dag_store"
    and nodes :: "'s \<Rightarrow> dag_node list"
  assumes served: "append_only_store (dag_store.truncate fs) nodes"
begin

lemma adds:
  "moves (\<lambda>s s'. one_node i p (nodes s) (nodes s')) (ds_insert_invoke_node fs i p t st dk iv)"
  "moves (\<lambda>s s'. one_node i p (nodes s) (nodes s')) (ds_insert_complete_node fs i p t st se sub br a h cm)"
  "moves (\<lambda>s s'. one_node i p (nodes s) (nodes s')) (ds_insert_request_node fs i p t st se sub br a sb op q rq)"
  "moves (\<lambda>s s'. one_node i p (nodes s) (nodes s')) (ds_insert_response_node fs i p t st se sub br a sb op q rs)"
  "moves (\<lambda>s s'. one_node i p (nodes s) (nodes s')) (ds_insert_svc_request_node fs i p t st se sub br a sv so q rq2)"
  "moves (\<lambda>s s'. one_node i p (nodes s) (nodes s')) (ds_insert_svc_response_node fs i p t st se sub br a sv so q rs2)"
  "moves (\<lambda>s s'. one_node i p (nodes s) (nodes s')) (ds_insert_fork_node fs i p t st sk fk)"
  "moves (\<lambda>s s'. one_node i p (nodes s) (nodes s')) (ds_insert_promote_node fs i p t st sk pm)"
  "moves (\<lambda>s s'. one_node i p (nodes s) (nodes s')) (ds_insert_deploy_agent_node fs i p t st ik dp)"
  "moves (\<lambda>s s'. one_node i p (nodes s) (nodes s')) (ds_insert_delete_agent_node fs i p t st ik da)"
  by (rule movesI, erule append_only_store.adds [OF served, simplified])+

lemma frames:
  "moves (\<lambda>s s'. nodes s' = nodes s) (ds_create_branch fs t nm se fp)"
  "moves (\<lambda>s s'. nodes s' = nodes s) (ds_rename_branch fs br nm)"
  "moves (\<lambda>s s'. nodes s' = nodes s) (ds_seal_branch fs br t)"
  "moves (\<lambda>s s'. nodes s' = nodes s) (ds_update_session_default_branch fs se br)"
  "moves (\<lambda>s s'. nodes s' = nodes s) (ds_create_session fs ses)"
  by (rule movesI, erule append_only_store.nodes_frame [OF served, simplified])+

text \<open>The client's methods move the wire's view of the nodes the same way.\<close>

lemmas client_adds = cl_inserts_move [OF one_node_reflp(1), of _ _ nodes, THEN moves_one_node]

lemmas client_frames = cl_rows_move [OF one_node_reflp(2), of nodes, THEN moves_same_nodes]

lemma client_append_only: "append_only_store (dag_store.truncate (grpc_store env fs)) (wire_nodes env nodes)"
proof (unfold_locales, goal_cases)
  case (1 i w m)
  then have "cl_get_node env fs i w = Inr (Some m)" by simp
  then obtain n where n: "ds_get_node fs i (nw_server w) = Inr (Some n)" "m = wire_node env n"
    using cl_get_node_Some [of env fs i w m] by blast
  then have "n \<in> set (nodes (nw_server w)) \<and> dn_id n = i"
    using append_only_store.got_node [OF served, of i "nw_server w" n] by simp
  with n show ?case by (simp add: wire_nodes_def)
next
  case (2 b w m)
  then have "cl_latest_node_on_branch env fs b None w = Inr (Some m)" by simp
  then obtain n where n: "ds_latest_node_on_branch fs b None (nw_server w) = Inr (Some n)" "m = wire_node env n"
    using cl_latest_Some [of env fs b None w m] by blast
  then have "n \<in> set (nodes (nw_server w))"
    using append_only_store.got_latest [OF served, of b "nw_server w" n] by simp
  with n show ?case by (simp add: wire_nodes_def)
qed (simp_all only: truncate_simps grpc_store_simps, (erule client_adds [rotated] client_frames [rotated], rule adds frames)+)

end

section \<open>The stores that are served\<close>

text \<open>The in-memory store has no typed rows to give back.\<close>

definition no_typed_getters :: "dag_node_id \<Rightarrow> mem_store \<Rightarrow> (string, 'a) rust_result" where
  "no_typed_getters dag_hash s =
     Inl (''InMemoryDagStore does not implement typed routing-key getters; '' @
          ''configure tests with SqliteDagStore + tempdir for routing coverage'')"

definition no_typed_payloads :: "dag_node_id \<Rightarrow> mem_store \<Rightarrow> (string, 'a) rust_result" where
  "no_typed_payloads dag_id s =
     Inl (''InMemoryDagStore does not store typed payloads '' @ [CHR 0xE2, CHR 0x80, CHR 0x94] @
          '' use SqliteDagStore'')"

definition mem_full_store :: "(session_id list \<Rightarrow> session_id list) \<Rightarrow> mem_store full_dag_store" where
  "mem_full_store iter =
     dag_store.extend mem_dag_store
       (full_dag_store.fields (mem_list_sessions iter) no_typed_getters no_typed_getters no_typed_getters
          no_typed_getters no_typed_payloads no_typed_payloads no_typed_payloads no_typed_payloads)"

lemma truncate_mem_full [simp]: "dag_store.truncate (mem_full_store iter) = mem_dag_store"
  by (simp add: mem_full_store_def dag_store.defs mem_dag_store_def)

interpretation mem_served: served_store "mem_full_store iter" ims_nodes for iter
  by (rule served_store.intro) (simp add: mem.append_only_store_axioms)

lemma truncate_sql_full [simp]: "dag_store.truncate (sql_full_store quote env) = sql_dag_store env"
  by (simp add: sql_full_store_def dag_store.defs)

lemma sql_served: "scans_ok env \<Longrightarrow> served_store (sql_full_store quote env) (sql_nodes env)"
  by (simp add: served_store_def sql_append_only)

section \<open>What the server keeps, the client keeps\<close>

lemma moves_invariant:
  "moves (\<lambda>s s'. I s \<longrightarrow> I s') m \<longleftrightarrow> epreserves I m"
  "moves (over_net (\<lambda>s s'. I s \<longrightarrow> I s')) m' \<longleftrightarrow> epreserves (\<lambda>w. I (nw_server w)) m'"
  by (simp_all add: moves_def epreserves_def over_net_def)

lemma invariant_reflp: "reflp (\<lambda>s s'. I s \<longrightarrow> I s')"
  by (simp add: reflp_def)

lemma grpc_store_invariant:
  assumes "store_invariant (dag_store.truncate fs) I"
  shows "store_invariant (dag_store.truncate (grpc_store env fs)) (\<lambda>w. I (nw_server w))"
proof -
  note keeps = store_invariant.keep_inserts [OF assms, simplified, folded moves_invariant(1)]
    store_invariant.keep_rows [OF assms, simplified, folded moves_invariant(1)]
  show ?thesis
    by (unfold_locales; simp only: truncate_simps grpc_store_simps;
        rule cl_inserts_move [OF invariant_reflp [of I], unfolded moves_invariant(2)]
          cl_rows_move [OF invariant_reflp [of I], unfolded moves_invariant(2)]; rule keeps)
qed

interpretation grpc_rows: store_invariant
  "dag_store.truncate (grpc_store env (sql_full_store quote senv))" "\<lambda>w. sql_ok (nw_server w)"
  for env quote senv
  by (rule grpc_store_invariant) (simp add: sql_rows.store_invariant_axioms)

text \<open>An append-only store keeps every earlier list of nodes as a prefix.\<close>

lemma one_node_prefix: "one_node i p ns ns' \<Longrightarrow> prefix ms ns \<Longrightarrow> prefix ms ns'"
  by (auto simp: one_node_def intro: prefix_order.order_trans add_node_prefix)

lemma append_only_prefix:
  assumes "append_only_store ds nodes"
  shows "store_invariant ds (\<lambda>s. prefix ms (nodes s))"
proof -
  have adds: "epreserves (\<lambda>s. prefix ms (nodes s)) m"
    if "\<And>s r s'. m s = (r, s') \<Longrightarrow> one_node i p (nodes s) (nodes s')"
    for m :: "('a, string, 'b) fallible" and i p
    using that one_node_prefix unfolding epreserves_def by (metis surjective_pairing)
  have keeps: "epreserves (\<lambda>s. prefix ms (nodes s)) m"
    if "\<And>s r s'. m s = (r, s') \<Longrightarrow> nodes s' = nodes s" for m :: "('a, string, 'b) fallible"
    using that unfolding epreserves_def by (metis surjective_pairing)
  show ?thesis
    by (unfold_locales;
        (rule adds, erule append_only_store.adds [OF assms] | rule keeps, erule append_only_store.nodes_frame [OF assms]))
qed

lemma grpc_run_prefix:
  assumes "append_only_store (dag_store.truncate fs) nodes"
    and "(rec_step ext (dag_store.truncate (grpc_store env fs)) mq)\<^sup>*\<^sup>* c c'"
  shows "prefix (nodes (nw_server (rc_store c))) (nodes (nw_server (rc_store c')))"
  using store_invariant.rec_run_keeps [OF grpc_store_invariant [OF append_only_prefix [OF assms(1)]] assms(2)]
  by blast

section \<open>A call that is delivered\<close>

definition relay :: "('s \<Rightarrow> (string, 'a) rust_result \<times> 's) \<Rightarrow> ('s net_world, 'a) eff" where
  "relay m w = (case m (nw_server w) of (r, s') \<Rightarrow> (r, \<lparr>nw_tick = Suc (nw_tick w), nw_server = s'\<rparr>))"

text \<open>What chrono and serde promise of the values that travel: what was printed is parsed back.\<close>

definition same_codec :: "('a, 'b) codec \<Rightarrow> 'a \<Rightarrow> bool" where
  "same_codec c x \<longleftrightarrow> (case enc c x of Inl _ \<Rightarrow> False | Inr j \<Rightarrow> dec c j = Inr x)"

lemma same_codecE: "same_codec c x \<Longrightarrow> (\<And>j. enc c x = Inr j \<Longrightarrow> dec c j = Inr x \<Longrightarrow> P) \<Longrightarrow> P"
  by (auto simp: same_codec_def split: sum.splits)

definition times_travel :: "rpc_env \<Rightarrow> bool" where
  "times_travel env \<longleftrightarrow>
     (\<forall>t. re_parse_time env (re_to_rfc3339 env t) = Inr t \<and> re_parse_rfc3339 env (re_to_rfc3339 env t) = Inr t)"

definition wire_codecs :: "rpc_env \<Rightarrow> snapshot \<Rightarrow> bool" where
  "wire_codecs env st \<longleftrightarrow> times_travel env \<and> same_codec (re_snapshot env) st"

definition network_up :: "rpc_env \<Rightarrow> bool" where
  "network_up env \<longleftrightarrow> (\<forall>n m. re_net env n m = Delivered)"

lemma rpc_delivered:
  "network_up env \<Longrightarrow> rpc env call h w =
     (case h (re_clock env (nw_tick w)) (nw_server w) of
        (r, s') \<Rightarrow> (case r of Inl st \<Rightarrow> Inl (re_status env st) | Inr x \<Rightarrow> Inr x,
                   \<lparr>nw_tick = Suc (nw_tick w), nw_server = s'\<rparr>))"
  by (cases w) (simp add: rpc_def network_up_def Let_def split_beta)

lemma write_answer_result [simp]: "write_result (write_answer r) = r"
  by (auto simp: write_result_def write_answer_def split: sum.split)

lemma store_write_run [simp]: "store_write m s = (Inr (write_answer (fst (m s))), snd (m s))"
  by (simp add: store_write_def split_beta)

text \<open>A delivered write is the server's method under the client's decoding of the reply.\<close>

lemma rpc_write_relay:
  assumes "network_up env" and "\<And>now s. h now s = store_write (m now) s"
  shows "rpc_write env call h w = relay (m (re_clock env (nw_tick w))) w"
  by (simp add: rpc_write_def ebind_def rpc_delivered [OF assms(1)] assms(2) relay_def split_beta)

lemma rpc_insert_relay:
  assumes "network_up env" and "enc (re_snapshot env) st = Inr j" and "\<And>s. h j s = store_write m s"
  shows "rpc_insert env call st h w = relay m w"
  unfolding rpc_insert_def to_json_def assms(2)
  using rpc_write_relay [of env "\<lambda>_. h j" "\<lambda>_. m" call w] assms(1,3) by simp

lemma arg_Inr [simp]: "ebind (arg what (Inr x)) f = f x"
  by (simp add: arg_def bad_arg_def)

lemma arg_Inl: "ebind (arg what (Inl e)) f = efail (InvalidArgument (what @ e))"
  by (simp add: arg_def bad_arg_def)

lemma header_Inr:
  "parse t = Inr t' \<Longrightarrow> dec (re_snapshot env) j = Inr st \<Longrightarrow> ebind (read_header env parse t j) f = f (t', st)"
  by (simp add: read_header_def ebind_def fun_eq_iff arg_def bad_arg_def)

lemma session_id_uuid: "re_is_uuid env se \<Longrightarrow> session_id_try_from (re_is_uuid env) se = Inr se"
  by (simp add: session_id_try_from_def)

text \<open>The message as the server sees it: parent and id are not sent, or the codec loses the rest.\<close>

definition wire_diag :: "('a, bytes) codec \<Rightarrow> 'a \<Rightarrow> 'a \<Rightarrow> 'a" where
  "wire_diag c d x = result_or d (dec c (bytes_of c x))"

definition wire_request :: "rpc_env \<Rightarrow> dag_node_id \<Rightarrow> request_message \<Rightarrow> request_message" where
  "wire_request env i m =
     m\<lparr>rq_dag_id := i, rq_dag_parent := dag_node_id_root,
       rq_diagnostics := wire_diag (re_request_diag env) no_request_diag (rq_diagnostics m)\<rparr>"

definition wire_response :: "rpc_env \<Rightarrow> dag_node_id \<Rightarrow> response_message \<Rightarrow> response_message" where
  "wire_response env i m =
     m\<lparr>rs_dag_id := i, rs_dag_parent := dag_node_id_root,
       rs_diagnostics := wire_diag (re_service_diag env) no_service_diag (rs_diagnostics m)\<rparr>"

definition wire_request_v2 :: "rpc_env \<Rightarrow> dag_node_id \<Rightarrow> request_v2 \<Rightarrow> request_v2" where
  "wire_request_v2 env i m =
     m\<lparr>rq2_dag_id := i, rq2_dag_parent := dag_node_id_root,
       rq2_diagnostics := wire_diag (re_svc_request_diag env) no_svc_request_diag (rq2_diagnostics m)\<rparr>"

definition wire_response_v2 :: "rpc_env \<Rightarrow> dag_node_id \<Rightarrow> response_v2 \<Rightarrow> response_v2" where
  "wire_response_v2 env i m =
     m\<lparr>rs2_dag_id := i, rs2_dag_parent := dag_node_id_root,
       rs2_diagnostics := wire_diag (re_svc_response_diag env) no_svc_response_diag (rs2_diagnostics m)\<rparr>"

lemma unwrap_result_ok: "unwrap_or d (result_ok r) = result_or d r"
  by (cases r) simp_all

lemma status_u16_ucast [simp]: "status_u16 (ucast (c :: 16 word)) = c"
proof -
  have c: "unat c < 2 ^ 16" using unsigned_less [of c, where 'a = nat] by simp
  then have up: "unat (ucast c :: 32 word) = unat c" by (simp add: unsigned_ucast_eq take_bit_nat_eq_self)
  then have "unat (ucast (ucast c :: 32 word) :: 16 word) = unat c"
    using c by (simp add: unsigned_ucast_eq [of "ucast c :: 32 word"] take_bit_nat_eq_self)
  then have "ucast (ucast c :: 32 word) = c" by (rule unsigned_word_eqI)
  with up c show ?thesis by (simp add: status_u16_def)
qed

definition wire_invoke :: "rpc_env \<Rightarrow> dag_node_id \<Rightarrow> invoke_message \<Rightarrow> invoke_message" where
  "wire_invoke env i m =
     result_or
       (m\<lparr>iv_dag_id := i, iv_diagnostics := wire_diag (re_invoke_diag env) no_invoke_diag (iv_diagnostics m),
          iv_current_input := []\<rparr>)
       (dec (re_invoke env) (bytes_of (re_invoke env) m))"

definition wire_complete :: "rpc_env \<Rightarrow> dag_node_id \<Rightarrow> complete_message \<Rightarrow> complete_message" where
  "wire_complete env i m =
     result_or
       (m\<lparr>cm_dag_id := i, cm_dag_parent := dag_node_id_root,
          cm_diagnostics := wire_diag (re_runtime_diag env) (runtime_diagnostics_placeholder 0) (cm_diagnostics m),
          cm_content := None, cm_tool_calls := None, cm_payload := bytes_of (re_complete env) m\<rparr>)
       (dec (re_complete env) (bytes_of (re_complete env) m))"

lemma rpc_insert_header:
  assumes "network_up env" and "wire_codecs env st"
    and "\<And>j s. dec (re_snapshot env) j = Inr st \<Longrightarrow> h j s = store_write m s"
  shows "rpc_insert env call st h w = relay m w"
proof -
  obtain j where j: "enc (re_snapshot env) st = Inr j" "dec (re_snapshot env) j = Inr st"
    using assms(2) by (auto simp: wire_codecs_def elim: same_codecE)
  show ?thesis by (rule rpc_insert_relay [OF assms(1) j(1)]) (rule assms(3) [OF j(2)])
qed

lemma wire_times:
  assumes "times_travel env"
  shows "re_parse_time env (re_to_rfc3339 env t) = Inr t" "re_parse_rfc3339 env (re_to_rfc3339 env t) = Inr t"
  using assms by (simp_all add: times_travel_def)

lemma wire_codecs_times: "wire_codecs env st \<Longrightarrow> times_travel env"
  by (simp add: wire_codecs_def)

lemmas relay_simps = header_Inr session_id_uuid wire_times [OF wire_codecs_times] unwrap_result_ok wire_diag_def Let_def

lemma rpc_keyed_insert:
  assumes "network_up env" and "wire_codecs env st"
    and "\<And>j s. dec (re_snapshot env) j = Inr st \<Longrightarrow> h j s = store_write m s"
  shows "ebind (to_json ''snapshot'' (re_snapshot env) st) (\<lambda>j. rpc_write env call (\<lambda>_. h j)) w = relay m w"
  using rpc_insert_header [OF assms] by (simp add: rpc_insert_def)

lemma invoke_relay:
  assumes "network_up env" and "wire_codecs env st" and "re_is_uuid env (dk_session key)" and "dk_kind key = DkInvoke h rt a"
  shows "cl_insert_invoke_node env ds i p t st key msg w =
     relay (ds_insert_invoke_node ds i p t st key (wire_invoke env i msg)) w"
  unfolding cl_insert_invoke_node_def assms(4) data_message_kind.case
  using assms(2-4)
  by (intro rpc_insert_header [OF assms(1,2)])
    (cases key; cases msg; simp add: srv_insert_invoke_node_def relay_simps wire_invoke_def)

lemma complete_relay:
  assumes "network_up env" and "wire_codecs env st" and "re_is_uuid env se"
  shows "cl_insert_complete_node env ds i p t st se sub br a h msg w =
     relay (ds_insert_complete_node ds i p t st se sub br a h (wire_complete env i msg)) w"
  unfolding cl_insert_complete_node_def
  using assms(2-)
  by (intro rpc_insert_header [OF assms(1,2)])
    (cases msg; simp add: srv_insert_complete_node_def relay_simps wire_complete_def)

lemma request_relay:
  assumes "network_up env" and "wire_codecs env st" and "re_is_uuid env se" and "sb \<noteq> SbKv ObjS3"
  shows "cl_insert_request_node env ds i p t st se sub br a sb op q msg w =
     relay (ds_insert_request_node ds i p t st se sub br a sb op q (wire_request env i msg)) w"
  unfolding cl_insert_request_node_def
  using assms(2-) service_backend_roundtrip [of sb]
  by (intro rpc_insert_header [OF assms(1,2)])
    (cases msg; simp add: srv_insert_request_node_def relay_simps wire_request_def)

lemma response_relay:
  assumes "network_up env" and "wire_codecs env st" and "re_is_uuid env se" and "sb \<noteq> SbKv ObjS3"
  shows "cl_insert_response_node env ds i p t st se sub br a sb op q msg w =
     relay (ds_insert_response_node ds i p t st se sub br a sb op q (wire_response env i msg)) w"
  unfolding cl_insert_response_node_def
  using assms(2-) service_backend_roundtrip [of sb]
  by (intro rpc_insert_header [OF assms(1,2)])
    (cases msg; simp add: srv_insert_response_node_def relay_simps wire_response_def)

lemma svc_request_relay:
  assumes "network_up env" and "wire_codecs env st" and "re_is_uuid env se"
  shows "cl_insert_svc_request_node env ds i p t st se sub br a sv so q msg w =
     relay (ds_insert_svc_request_node ds i p t st se sub br a sv so q (wire_request_v2 env i msg)) w"
  unfolding cl_insert_svc_request_node_def
  using assms(2-)
  by (intro rpc_insert_header [OF assms(1,2)])
    (cases msg; cases sv; simp add: srv_insert_svc_request_node_def svc_backend_of_def
        service_backend_v2_from_parts_def relay_simps wire_request_v2_def)

lemma svc_response_relay:
  assumes "network_up env" and "wire_codecs env st" and "re_is_uuid env se"
  shows "cl_insert_svc_response_node env ds i p t st se sub br a sv so q msg w =
     relay (ds_insert_svc_response_node ds i p t st se sub br a sv so q (wire_response_v2 env i msg)) w"
  unfolding cl_insert_svc_response_node_def
  using assms(2-)
  by (intro rpc_insert_header [OF assms(1,2)])
    (cases msg; cases sv; simp add: srv_insert_svc_response_node_def svc_backend_of_def
        service_backend_v2_from_parts_def relay_simps wire_response_v2_def)

lemma fork_relay:
  assumes "network_up env" and "wire_codecs env st" and "re_is_uuid env (sk_session key)" and "sk_kind key = SkFork a"
  shows "cl_insert_fork_node env ds i p t st key msg w = relay (ds_insert_fork_node ds i p t st key msg) w"
  unfolding cl_insert_fork_node_def assms(4) session_message_kind.case
  using assms(2-)
  by (intro rpc_keyed_insert [OF assms(1,2)])
    (cases key; cases msg; simp add: srv_insert_fork_node_def relay_simps)

lemma promote_relay:
  assumes "network_up env" and "wire_codecs env st" and "re_is_uuid env (sk_session key)" and "sk_kind key = SkPromote a"
  shows "cl_insert_promote_node env ds i p t st key msg w = relay (ds_insert_promote_node ds i p t st key msg) w"
  unfolding cl_insert_promote_node_def assms(4) session_message_kind.case
  using assms(2-)
  by (intro rpc_keyed_insert [OF assms(1,2)])
    (cases key; cases msg; simp add: srv_insert_promote_node_def relay_simps)

lemma delete_agent_relay:
  assumes "network_up env" and "wire_codecs env st"
  shows "cl_insert_delete_agent_node env ds i p t st key msg w =
     relay (ds_insert_delete_agent_node ds i p t st (key\<lparr>ik_kind := IkDeleteAgent\<rparr>) msg) w"
  unfolding cl_insert_delete_agent_node_def
  using assms(2-)
  by (intro rpc_insert_header [OF assms(1,2)])
    (cases key; cases msg; simp add: srv_insert_delete_agent_node_def relay_simps)

lemma deploy_agent_relay:
  assumes "network_up env" and "wire_codecs env st"
    and "enc (re_manifest env) (dp_manifest msg) = Inr j" and "dec (re_manifest env) j = Inr (dp_manifest msg)"
  shows "cl_insert_deploy_agent_node env ds i p t st key msg w =
     relay (ds_insert_deploy_agent_node ds i p t st (key\<lparr>ik_kind := IkDeployAgent\<rparr>) msg) w"
proof -
  have j: "to_json ''manifest'' (re_manifest env) (dp_manifest msg) = elift (Inr j)"
    by (simp add: to_json_def assms(3))
  show ?thesis
    unfolding cl_insert_deploy_agent_node_def j eff_simps
    using assms(2-)
    by (intro rpc_keyed_insert [OF assms(1,2)])
      (cases key; cases msg; simp add: srv_insert_deploy_agent_node_def relay_simps)
qed

text \<open>The branch and session rows.\<close>

lemma rows_relay:
  assumes "network_up env"
  shows "cl_rename_branch env ds b nm w = relay (ds_rename_branch ds b nm) w"
    and "times_travel env \<Longrightarrow> cl_seal_branch env ds b t w = relay (ds_seal_branch ds b t) w"
    and "re_is_uuid env se \<Longrightarrow> cl_update_session_default_branch env ds se b w =
      relay (ds_update_session_default_branch ds se b) w"
    and "re_is_uuid env (se_id ses) \<Longrightarrow> external_session_id_new (se_external_id ses) = Inr (se_external_id ses) \<Longrightarrow>
      cl_create_session env ds ses w = relay (ds_create_session ds (ses\<lparr>se_created_at := re_clock env (nw_tick w)\<rparr>)) w"
proof -
  show "cl_rename_branch env ds b nm w = relay (ds_rename_branch ds b nm) w"
    unfolding cl_rename_branch_def by (rule rpc_write_relay [OF assms]) (simp add: srv_rename_branch_def)
  show "cl_seal_branch env ds b t w = relay (ds_seal_branch ds b t) w" if "times_travel env"
    unfolding cl_seal_branch_def
    by (rule rpc_write_relay [OF assms]) (simp add: srv_seal_branch_def wire_times [OF that])
  show "cl_update_session_default_branch env ds se b w = relay (ds_update_session_default_branch ds se b) w"
    if "re_is_uuid env se"
    unfolding cl_update_session_default_branch_def
    by (rule rpc_write_relay [OF assms]) (simp add: srv_update_session_default_branch_def session_id_uuid that)
  show "cl_create_session env ds ses w = relay (ds_create_session ds (ses\<lparr>se_created_at := re_clock env (nw_tick w)\<rparr>)) w"
    if "re_is_uuid env (se_id ses)" "external_session_id_new (se_external_id ses) = Inr (se_external_id ses)"
    unfolding cl_create_session_def
    by (rule rpc_write_relay [OF assms])
      (cases ses; use that in \<open>simp add: srv_create_session_def session_to_proto_def session_id_uuid session_new_def Let_def\<close>)
qed

text \<open>The answer to \<open>create_branch\<close> is no reply record: an error of the store comes as a status.\<close>

definition map_error :: "('e \<Rightarrow> 'f) \<Rightarrow> ('s, 'e, 'a) fallible \<Rightarrow> ('s, 'f, 'a) fallible" where
  "map_error f m s = (case m s of (r, s') \<Rightarrow> (case r of Inl e \<Rightarrow> Inl (f e) | Inr x \<Rightarrow> Inr x, s'))"

lemma create_branch_relay:
  assumes "network_up env" and "re_is_uuid env se"
  shows "cl_create_branch env ds t nm se fp w =
     relay (map_error (\<lambda>e. re_status env (Internal e)) (ds_create_branch ds (re_clock env (nw_tick w)) nm se fp)) w"
  using assms(2)
  by (simp add: cl_create_branch_def rpc_delivered [OF assms(1)] srv_create_branch_def session_id_uuid
      relay_def map_error_def split_beta internal_def split: sum.split)

end
