(* ===== verification/StateGrpcRun.thy ===== *)
theory StateGrpcRun
  imports StateGrpcLaws SqlDagRun
begin

text \<open>
  The state service at work: the recording queue over \<open>GrpcStateClient\<close> over \<open>StateServiceServer\<close> over
  \<open>SqliteDagStore\<close>, which is what the workers of the daemon run that get their queue from
  \<open>recording_from_config_async\<close> (the API server opens the database itself), and what the detour over
  the network changes.
\<close>

section \<open>The chain\<close>

text \<open>
  C4: a recording queue whose store is the gRPC client keeps the server's tables consistent and its nodes
  a growing, well-formed, acyclic chain, whatever calls or replies the network loses, whatever statements
  SQLite rejects and whatever is sent.
\<close>

theorem grpc_chain_invariant:
  assumes "scans_ok senv" and "\<forall>x. rx_sha256 ext x \<noteq> []"
    and "(rec_step ext (dag_store.truncate (grpc_store env (sql_full_store quote senv))) mq)\<^sup>*\<^sup>* c c'"
    and "chain_wf (sql_nodes senv (nw_server (rc_store c)))"
    and "sql_db_ok (sw_data (nw_server (rc_store c)))"
  shows "prefix (sql_nodes senv (nw_server (rc_store c))) (sql_nodes senv (nw_server (rc_store c'))) \<and>
         chain_wf (sql_nodes senv (nw_server (rc_store c'))) \<and>
         acyclic (parent_edges (sql_nodes senv (nw_server (rc_store c')))) \<and>
         sql_db_ok (sw_data (nw_server (rc_store c')))"
proof (intro conjI)
  let ?nodes = "\<lambda>c. sql_nodes senv (nw_server (rc_store c))"
  have "append_only_store (dag_store.truncate (sql_full_store quote senv)) (sql_nodes senv)"
    by (simp add: sql_append_only [OF assms(1)])
  then show "prefix (?nodes c) (?nodes c')" using assms(3) by (rule grpc_run_prefix)
  note client = served_store.client_append_only [OF sql_served [OF assms(1), of quote], of env]
  have "chain_wf (wire_nodes env (sql_nodes senv) (rc_store c'))"
    using append_only_store.rec_run_chain_wf [OF client assms(3,2)] assms(4) by (simp add: wire_nodes_def)
  then show wf: "chain_wf (?nodes c')" by (simp add: wire_nodes_def)
  then show "acyclic (parent_edges (?nodes c'))" by (rule parent_edges_acyclic)
  show "sql_db_ok (sw_data (nw_server (rc_store c')))"
    using grpc_rows.rec_run_keeps [OF assms(3,5)] .
qed

section \<open>What is not sent\<close>

lemma invoke_stored:
  assumes "se_fault senv = no_sql_fault" and "enc (se_snapshot senv) st = Inr sn" and "dec (se_snapshot senv) sn = Inr st"
    and "insertable senv (sw_data w) i p (dk_session key) (dk_branch key)"
    and "dk_kind key = DkInvoke h rt a" and "iv_id iv \<notin> ir_message_id ` set (db_invokes (sw_data w))"
  shows "\<exists>n. sql_get_node senv i (snd (sql_insert_invoke_node senv i p t st key iv w)) = Inr (Some n) \<and> dn_state n = st"
proof -
  let ?r = "\<lparr>ir_dag_hash = i, ir_harness = harness_as_str h, ir_runtime = runtime_as_str rt, ir_agent = a,
      ir_message_id = iv_id iv, ir_state = iv_state iv,
      ir_diagnostics = bytes_of (se_invoke_diag senv) (iv_diagnostics iv), ir_payload = bytes_of (se_invoke senv) iv\<rparr>"
  let ?n = "new_node_row i p ''invoke'' (Some (dk_session key)) (dk_submission key) (Some (dk_branch key))
      (time_str senv t) ''v1''"
  have "\<exists>w'. insert_both senv st ?n
        (insert_typed_row ir_dag_hash ir_message_id db_invokes (\<lambda>rs. db_invokes_update (\<lambda>_. rs)) ?r)
        ''insert invoke_nodes failed: '' w = (Inr (), w') \<and>
      joined ir_dag_hash db_invokes i (sw_data w') = Some (?r, ?n sn)"
    by (rule typed_insert_run [OF assms(1,2,4)]) (use assms(6) insertable_typed(1) [OF assms(4)] in simp_all)
  then obtain w' where w': "sql_insert_invoke_node senv i p t st key iv w = (Inr (), w')"
      "joined ir_dag_hash db_invokes i (sw_data w') = Some (?r, ?n sn)"
    using assms(5) by (auto simp: sql_insert_invoke_node_def insert_both_def)
  then have "find (\<lambda>n. nr_hash n = i) (db_nodes (sw_data w')) = Some (?n sn)"
    by (auto simp: joined_def bind_eq_Some_conv)
  with w'(1) assms(3) show ?thesis
    by (simp add: sql_get_node_def query_no_fault [OF assms(1)] dag_node_row_to_domain_def)
qed

text \<open>The same queue, with its store moved behind the network.\<close>

definition remote :: "nat \<Rightarrow> ('s, 'q) rec_state \<Rightarrow> ('s net_world, 'q) rec_state" where
  "remote k c =
     \<lparr>rc_store = \<lparr>nw_tick = k, nw_server = rc_store c\<rparr>, rc_inner = rc_inner c, rc_ticks = rc_ticks c\<rparr>"

lemma wire_invoke_same: "same_codec (re_invoke env) m \<Longrightarrow> wire_invoke env i m = m"
  by (auto simp: wire_invoke_def bytes_of_def elim: same_codecE)

lemma grpc_get_node_delivered:
  assumes "network_up env" and "times_travel env" and "ds_get_node ds i (nw_server w) = Inr (Some n)"
  shows "\<exists>m. cl_get_node env ds i w = Inr (Some m) \<and> dn_id m = dn_id n \<and> dn_state m = snapshot_empty"
  using assms
  by (simp add: cl_get_node_def srv_get_node_def rpc_read_def network_up_def internal_def
      dag_node_from_proto_def dag_node_to_proto_def wire_times)

text \<open>
  C32: a node's state does not cross the wire (\<open>dag_node_to_proto\<close> does not send it, the conversion back
  puts an empty snapshot), so a message without a state of its own, recorded through the client, does
  not inherit its parent's snapshot: recorded directly it does, and the two nodes have the same id.
\<close>

theorem grpc_recording_forgets_state:
  fixes senv env quote
  defines "direct \<equiv> sql_dag_store senv"
    and "client \<equiv> dag_store.truncate (grpc_store env (sql_full_store quote senv))"
  assumes env: "network_up env" "wire_codecs env snapshot_empty" "re_is_uuid env (dk_session key)" "same_codec (re_invoke env) msg"
    and sql: "se_fault senv = no_sql_fault" "same_codec (se_snapshot senv) snapshot_empty"
      "same_codec (se_snapshot senv) (dn_state n)"
    and parent: "iv_dag_parent msg \<noteq> []" "sql_get_node senv (iv_dag_parent msg) (rc_store c) = Inr (Some n)"
    and msg: "dk_kind key = DkInvoke h rt a" "iv_state msg = None"
      "iv_id msg \<notin> ir_message_id ` set (db_invokes (sw_data (rc_store c)))"
    and new: "insertable senv (sw_data (rc_store c)) (fst (record_invoke ext direct key msg c))
      (iv_dag_parent msg) (dk_session key) (dk_branch key)"
  shows "\<exists>i near far.
     fst (record_invoke ext direct key msg c) = i \<and> fst (record_invoke ext client key msg (remote k c)) = i \<and>
     sql_get_node senv i (rc_store (snd (record_invoke ext direct key msg c))) = Inr (Some near) \<and>
     sql_get_node senv i (nw_server (rc_store (snd (record_invoke ext client key msg (remote k c))))) = Inr (Some far) \<and>
     dn_state near = dn_state n \<and> dn_state far = snapshot_empty"
proof -
  let ?p = "iv_dag_parent msg"
  let ?i = "hash_node ext (rx_invoke_json ext msg) ?p MtInvoke (rx_invoke_diag_json ext (iv_diagnostics msg)) (dk_session key)"
  let ?now = "rx_clock ext (rc_ticks c)"
  have nid: "dn_id n = ?p"
    using parent(2) by (auto simp: sql_get_node_def query_Inr dest: find_Some_set)
  obtain m where m: "cl_get_node env (sql_full_store quote senv) ?p (rc_store (remote k c)) = Inr (Some m)"
      "dn_id m = ?p" "dn_state m = snapshot_empty"
    using grpc_get_node_delivered [OF env(1) wire_codecs_times [OF env(2)], of "sql_full_store quote senv" ?p "rc_store (remote k c)" n] parent(2) nid
    by (auto simp: remote_def sql_full_store_def dag_store.defs sql_dag_store_def)
  have near: "record_invoke ext direct key msg c =
      (?i, rec_insert ext (\<lambda>now. sql_insert_invoke_node senv ?i ?p now (dn_state n) key msg) c)"
    using parent msg(2) nid
    by (simp add: record_invoke_def direct_def sql_dag_store_def Let_def dag_node_id_is_empty_def parent_id_of_def
        node_state_def parent_state_of_def)
  have far: "record_invoke ext client key msg (remote k c) =
      (?i, rec_insert ext (\<lambda>now. cl_insert_invoke_node env (sql_full_store quote senv) ?i ?p now snapshot_empty key msg)
             (remote k c))"
    using parent(1) m msg(2)
    by (simp add: record_invoke_def client_def Let_def dag_node_id_is_empty_def parent_id_of_def
        node_state_def parent_state_of_def)
  have served: "nw_server (rc_store (snd (record_invoke ext client key msg (remote k c)))) =
      snd (sql_insert_invoke_node senv ?i ?p ?now snapshot_empty key msg (rc_store c))"
    unfolding far
    by (simp add: rec_insert_store invoke_relay [OF env(1-3) msg(1)] wire_invoke_same [OF env(4)] relay_def remote_def
        split_beta sql_full_store_def dag_store.defs sql_dag_store_def)
  have "insertable senv (sw_data (rc_store c)) ?i ?p (dk_session key) (dk_branch key)"
    using new near by simp
  then have stored: "\<exists>n. sql_get_node senv ?i (snd (sql_insert_invoke_node senv ?i ?p ?now st key msg (rc_store c))) =
      Inr (Some n) \<and> dn_state n = st" if "same_codec (se_snapshot senv) st" for st
    using that by (elim same_codecE) (rule invoke_stored [OF sql(1) _ _ _ msg(1,3)])
  obtain a b where
      "sql_get_node senv ?i (snd (sql_insert_invoke_node senv ?i ?p ?now (dn_state n) key msg (rc_store c))) = Inr (Some a)"
      "dn_state a = dn_state n"
      "sql_get_node senv ?i (snd (sql_insert_invoke_node senv ?i ?p ?now snapshot_empty key msg (rc_store c))) = Inr (Some b)"
      "dn_state b = snapshot_empty"
    using stored [OF sql(3)] stored [OF sql(2)] by blast
  with served near far show ?thesis
    by (intro exI [of _ ?i] exI [of _ a] exI [of _ b]) (simp add: rec_insert_store)
qed

section \<open>What a delivered write does\<close>

text \<open>
  C6: when every call is delivered, each of the fifteen writes through the client is the write of the
  server's store, whatever store that is: the same result, the same effect.  The message is the one that
  survives the wire.  A request, response or service message loses its \<open>dag_parent\<close> (the root is put in
  its place) and gets the node's id as its own, and diagnostics that do not parse become empty ones.  An
  invoke and a complete travel as JSON and arrive as serde reads them back (with placeholders where it
  cannot), forks, promotes, deploys and deletes arrive as they are, and the kind in the routing key of a
  deploy or delete is set anew.  A session and a branch are created at the server's time, not the
  client's, and an error of \<open>create_branch\<close> comes back wrapped in a status.  This is so for every service
  backend but S3, for session ids that are UUIDs, for routing keys of the kind the write expects, and for
  time stamps, snapshots, manifests and external ids that are read back as they were written.
\<close>

theorem grpc_writes_relay:
  assumes "network_up env" and "wire_codecs env st" and "re_is_uuid env se" and "sb \<noteq> SbKv ObjS3"
    and "sk_session sk = se" and "sk_kind sk = SkFork a" and "dk_session dk = se" and "dk_kind dk = DkInvoke h rt a"
    and "se_id ses = se" and "external_session_id_new (se_external_id ses) = Inr (se_external_id ses)"
    and "sk_session pk = se" and "sk_kind pk = SkPromote a" and "same_codec (re_manifest env) (dp_manifest dp)"
  shows "ds_insert_invoke_node (grpc_store env ds) i p t st dk iv w =
           relay (ds_insert_invoke_node ds i p t st dk (wire_invoke env i iv)) w \<and>
         ds_insert_complete_node (grpc_store env ds) i p t st se sub br a h cm w =
           relay (ds_insert_complete_node ds i p t st se sub br a h (wire_complete env i cm)) w \<and>
         ds_insert_request_node (grpc_store env ds) i p t st se sub br a sb op q rq w =
           relay (ds_insert_request_node ds i p t st se sub br a sb op q (wire_request env i rq)) w \<and>
         ds_insert_response_node (grpc_store env ds) i p t st se sub br a sb op q rs w =
           relay (ds_insert_response_node ds i p t st se sub br a sb op q (wire_response env i rs)) w \<and>
         ds_insert_svc_request_node (grpc_store env ds) i p t st se sub br a sv so q rq2 w =
           relay (ds_insert_svc_request_node ds i p t st se sub br a sv so q (wire_request_v2 env i rq2)) w \<and>
         ds_insert_svc_response_node (grpc_store env ds) i p t st se sub br a sv so q rs2 w =
           relay (ds_insert_svc_response_node ds i p t st se sub br a sv so q (wire_response_v2 env i rs2)) w \<and>
         ds_insert_fork_node (grpc_store env ds) i p t st sk fk w = relay (ds_insert_fork_node ds i p t st sk fk) w \<and>
         ds_insert_promote_node (grpc_store env ds) i p t st pk pm w =
           relay (ds_insert_promote_node ds i p t st pk pm) w \<and>
         ds_insert_deploy_agent_node (grpc_store env ds) i p t st ik dp w =
           relay (ds_insert_deploy_agent_node ds i p t st (ik\<lparr>ik_kind := IkDeployAgent\<rparr>) dp) w \<and>
         ds_insert_delete_agent_node (grpc_store env ds) i p t st ik da w =
           relay (ds_insert_delete_agent_node ds i p t st (ik\<lparr>ik_kind := IkDeleteAgent\<rparr>) da) w \<and>
         ds_rename_branch (grpc_store env ds) br nm w = relay (ds_rename_branch ds br nm) w \<and>
         ds_seal_branch (grpc_store env ds) br t w = relay (ds_seal_branch ds br t) w \<and>
         ds_update_session_default_branch (grpc_store env ds) se br w =
           relay (ds_update_session_default_branch ds se br) w \<and>
         ds_create_branch (grpc_store env ds) t nm se fp w =
           relay (map_error (\<lambda>e. re_status env (Internal e)) (ds_create_branch ds (re_clock env (nw_tick w)) nm se fp)) w \<and>
         ds_create_session (grpc_store env ds) ses w =
           relay (ds_create_session ds (ses\<lparr>se_created_at := re_clock env (nw_tick w)\<rparr>)) w"
proof -
  obtain j where j: "enc (re_manifest env) (dp_manifest dp) = Inr j" "dec (re_manifest env) j = Inr (dp_manifest dp)"
    using assms(13) by (rule same_codecE)
  show ?thesis
    using assms
    by (intro conjI)
      (simp_all only: grpc_store_simps,
        simp_all add: invoke_relay complete_relay request_relay response_relay svc_request_relay svc_response_relay
          fork_relay promote_relay deploy_agent_relay [OF assms(1,2) j] delete_agent_relay create_branch_relay
          rows_relay wire_codecs_times)
qed

section \<open>What is refused\<close>

text \<open>
  A service call to the S3 object store cannot be recorded through the client: the server cannot parse
  the service name the client prints, so the request is answered with an error, whatever the network
  does, and the server's store is left as it was.
\<close>

theorem grpc_s3_refused:
  assumes "wire_codecs env st"
  shows "\<exists>e w'. cl_insert_request_node env ds i p t st se sub br a (SbKv ObjS3) op q msg w = (Inl e, w') \<and>
           nw_server w' = nw_server w"
proof -
  have "\<exists>e. service_backend_from_str (service_backend_display (SbKv ObjS3)) = Inl e"
    by (simp add: service_backend_from_str_def service_backend_display_def split_once_append
        ok_or_def)
  then obtain e where s3: "service_backend_from_str (service_backend_display (SbKv ObjS3)) = Inl e" by blast
  obtain j where j: "enc (re_snapshot env) st = Inr j" "dec (re_snapshot env) j = Inr st"
    using assms by (auto simp: wire_codecs_def elim: same_codecE)
  show ?thesis
    using wire_times [OF wire_codecs_times [OF assms]]
    by (auto simp: cl_insert_request_node_def rpc_insert_def to_json_def j rpc_write_def ebind_def rpc_def Let_def
        srv_insert_request_node_def header_Inr s3 arg_def bad_arg_def session_id_try_from_def
        split: delivery.split sum.split prod.split)
qed

section \<open>Sending again\<close>

text \<open>A method that, from a database or from what it made of it, ends in the same database without error.\<close>

definition settles :: "('d sql_world \<Rightarrow> (string, unit) rust_result \<times> 'd sql_world) \<Rightarrow> 'd \<Rightarrow> 'd \<Rightarrow> bool" where
  "settles m d d' \<longleftrightarrow> (\<forall>s. sw_data s = d \<or> sw_data s = d' \<longrightarrow> fst (m s) = Inr () \<and> sw_data (snd (m s)) = d')"

lemma insert_both_settles:
  fixes get :: "dag_db \<Rightarrow> 'r list"
  assumes "se_fault env = no_sql_fault" and "enc (se_snapshot env) st = Inr sn"
    and "insertable env d i p se br"
    and "hash_of r = i" and "msg_of r \<notin> msg_of ` set (get d)"
    and "hash_of ` set (get d) \<subseteq> nr_hash ` set (db_nodes d)"
    and "\<And>rs d. get (put rs d) = rs" and "\<And>rs d. db_nodes (put rs d) = db_nodes d"
    and "\<And>x d. get (d\<lparr>db_nodes := x\<rparr>) = get d"
  shows "\<exists>d'. settles (insert_both env st (new_node_row i p mt (Some se) sub (Some br) t v)
           (insert_typed_row hash_of msg_of get put r) ctx) d d'"
proof -
  let ?n = "new_node_row i p mt (Some se) sub (Some br) t v sn"
  let ?d1 = "d\<lparr>db_nodes := db_nodes d @ [?n]\<rparr>"
  let ?d2 = "put (get d @ [r]) ?d1"
  have new: "i \<notin> nr_hash ` set (db_nodes d)" using assms(3) by (simp add: insertable_def)
  with assms(6) have "i \<notin> hash_of ` set (get d)" by blast
  then have row: "insert_typed_row hash_of msg_of get put r ?d1 = Inr ((), ?d2)"
    using assms(4,5,9) by (simp add: insert_typed_row_def)
  have again: "insert_node_row ?n ?d2 = Inr ((), ?d2)" "insert_typed_row hash_of msg_of get put r ?d2 = Inr ((), ?d2)"
    using assms(7,8) by (simp_all add: insert_node_row_def insert_typed_row_def)
  show ?thesis
    unfolding settles_def
    using assms(2) row again insertable_row [OF assms(3)]
    by (intro exI [of _ ?d2])
      (auto simp: insert_both_def serialize_snapshot_def insert_dag_node_def ebind_def stmt_no_fault [OF assms(1)])
qed

lemma invoke_settles:
  assumes "se_fault senv = no_sql_fault" and "enc (se_snapshot senv) st = Inr sn"
    and "insertable senv d i p (dk_session key) (dk_branch key)"
    and "dk_kind key = DkInvoke h rt a" and "iv_id iv \<notin> ir_message_id ` set (db_invokes d)"
  shows "\<exists>d'. settles (sql_insert_invoke_node senv i p t st key iv) d d'"
proof -
  let ?r = "\<lparr>ir_dag_hash = i, ir_harness = harness_as_str h, ir_runtime = runtime_as_str rt, ir_agent = a,
      ir_message_id = iv_id iv, ir_state = iv_state iv,
      ir_diagnostics = bytes_of (se_invoke_diag senv) (iv_diagnostics iv), ir_payload = bytes_of (se_invoke senv) iv\<rparr>"
  have "\<exists>d'. settles (insert_both senv st (new_node_row i p ''invoke'' (Some (dk_session key)) (dk_submission key)
        (Some (dk_branch key)) (time_str senv t) ''v1'')
      (insert_typed_row ir_dag_hash ir_message_id db_invokes (\<lambda>rs. db_invokes_update (\<lambda>_. rs)) ?r)
      ''insert invoke_nodes failed: '') d d'"
    by (rule insert_both_settles [OF assms(1-3)]) (use assms(5) insertable_typed(1) [OF assms(3)] in simp_all)
  then show ?thesis using assms(4) by (simp add: sql_insert_invoke_node_def insert_both_def)
qed

text \<open>The three things the network can do to one insert of an invoke.\<close>

lemma invoke_call:
  assumes "wire_codecs env st" and "re_is_uuid env (dk_session key)" and "dk_kind key = DkInvoke h rt a"
    and "same_codec (re_invoke env) iv"
  shows "cl_insert_invoke_node env ds i p t st key iv w =
    (let (r, s') = ds_insert_invoke_node ds i p t st key iv (nw_server w); w' = w\<lparr>nw_tick := Suc (nw_tick w)\<rparr>
     in case re_net env (nw_tick w) ''insert_invoke_node'' of
          RequestLost e \<Rightarrow> (Inl e, w')
        | ReplyLost e \<Rightarrow> (Inl e, w'\<lparr>nw_server := s'\<rparr>)
        | Delivered \<Rightarrow> (r, w'\<lparr>nw_server := s'\<rparr>))"
proof -
  obtain j where j: "enc (re_snapshot env) st = Inr j" "dec (re_snapshot env) j = Inr st"
    using assms(1) by (auto simp: wire_codecs_def elim: same_codecE)
  obtain b where b: "enc (re_invoke env) iv = Inr b" "dec (re_invoke env) b = Inr iv"
    using assms(4) by (rule same_codecE)
  have key: "\<lparr>dk_session = dk_session key, dk_branch = dk_branch key, dk_submission = dk_submission key,
      dk_kind = DkInvoke h rt a\<rparr> = key" using assms(3) by (cases key) simp
  show ?thesis
    unfolding cl_insert_invoke_node_def assms(3) data_message_kind.case rpc_insert_def to_json_def j sum.case eff_simps
    using wire_times [OF wire_codecs_times [OF assms(1)]] assms(2)
    by (simp add: srv_insert_invoke_node_def header_Inr j(2) session_id_uuid bytes_of_def b key rpc_write_def ebind_def
        rpc_def Let_def split_beta split: delivery.split)
qed

lemma repeated_data:
  fixes f :: "'d sql_world net_world \<Rightarrow> 'd sql_world net_world"
  assumes "\<And>w. sw_data (nw_server (f w)) = sw_data (nw_server w) \<or> sw_data (nw_server (f w)) = sw_data (snd (m (nw_server w)))"
    and "settles m d d'" and "sw_data (nw_server w) = d"
  shows "sw_data (nw_server ((f ^^ k) w)) \<in> {d, d'}"
proof (induction k)
  case 0
  then show ?case using assms(3) by simp
next
  case (Suc k)
  then show ?case using assms(1) [of "(f ^^ k) w"] assms(2) by (auto simp: settles_def)
qed

text \<open>
  C31: take an invoke that the database accepts: its node id and its message id are new there, its parent,
  session and branch are rows of it, no SQL statement is rejected, its session id is a UUID, and message,
  snapshot and time stamp are read back as they were written.  Whatever the network does to the first \<open>k\<close>
  sends of it (carried out, lost on the way, or carried out with the reply lost), if send \<open>k\<close> is delivered
  it is answered without an error, and leaves the database that one single insert makes.
\<close>

theorem grpc_retry_converges:
  fixes senv env quote i p t st key iv
  defines "send \<equiv> cl_insert_invoke_node env (sql_full_store quote senv) i p t st key iv"
  assumes env: "wire_codecs env st" "re_is_uuid env (dk_session key)" "dk_kind key = DkInvoke h rt a"
      "same_codec (re_invoke env) iv"
    and sql: "se_fault senv = no_sql_fault" "same_codec (se_snapshot senv) st"
      "insertable senv (sw_data (nw_server w)) i p (dk_session key) (dk_branch key)"
      "iv_id iv \<notin> ir_message_id ` set (db_invokes (sw_data (nw_server w)))"
    and net: "re_net env (nw_tick w + k) ''insert_invoke_node'' = Delivered"
  shows "let w' = ((\<lambda>w. snd (send w)) ^^ k) w
     in fst (send w') = Inr () \<and>
        sw_data (nw_server (snd (send w'))) =
          sw_data (snd (sql_insert_invoke_node senv i p t st key iv (nw_server w)))"
proof -
  let ?m = "sql_insert_invoke_node senv i p t st key iv"
  let ?d = "sw_data (nw_server w)"
  let ?f = "\<lambda>w. snd (send w)"
  obtain sn where "enc (se_snapshot senv) st = Inr sn" using sql(2) by (rule same_codecE)
  then obtain d' where settles: "settles ?m ?d d'"
    using invoke_settles [OF sql(1) _ sql(3) env(3) sql(4)] by blast
  have send: "send w = (let (r, s') = ?m (nw_server w); w' = w\<lparr>nw_tick := Suc (nw_tick w)\<rparr>
     in case re_net env (nw_tick w) ''insert_invoke_node'' of
          RequestLost e \<Rightarrow> (Inl e, w')
        | ReplyLost e \<Rightarrow> (Inl e, w'\<lparr>nw_server := s'\<rparr>)
        | Delivered \<Rightarrow> (r, w'\<lparr>nw_server := s'\<rparr>))" for w
    unfolding send_def invoke_call [OF env]
    by (simp add: sql_full_store_def dag_store.defs sql_dag_store_def)
  have tick: "nw_tick ((?f ^^ n) w) = nw_tick w + n" for n
    by (induction n) (auto simp: send Let_def split_beta split: delivery.split)
  have "sw_data (nw_server ((?f ^^ k) w)) \<in> {?d, d'}"
    by (rule repeated_data [OF _ settles]) (auto simp: send Let_def split_beta split: delivery.split)
  with settles have "fst (?m (nw_server ((?f ^^ k) w))) = Inr ()" "sw_data (snd (?m (nw_server ((?f ^^ k) w)))) = d'"
      "sw_data (snd (?m (nw_server w))) = d'"
    by (auto simp: settles_def)
  with net tick [of k] have "fst (send ((?f ^^ k) w)) = Inr ()"
      "sw_data (nw_server (snd (send ((?f ^^ k) w)))) = sw_data (snd (?m (nw_server w)))"
    by (simp_all only: send [of "(?f ^^ k) w"]) (simp_all add: Let_def split_beta)
  then show ?thesis unfolding Let_def by blast
qed

section \<open>Examples\<close>

text \<open>Time stamps in unary, snapshots with at most the key-value store's entry, one message text.\<close>

definition unary_time :: "timestamp \<Rightarrow> string" where
  "unary_time t = (if t < 0 then CHR ''-'' # replicate (nat (- t)) CHR ''1'' else replicate (nat t) CHR ''1'')"

definition unary_parse :: "string \<Rightarrow> timestamp" where
  "unary_parse s =
     (case s of [] \<Rightarrow> 0 | c # cs \<Rightarrow> if c = CHR ''-'' then - int (length cs) else int (length s))"

lemma unary_roundtrip [simp]: "unary_parse (unary_time t) = t"
proof (cases "t < 0")
  case False
  then show ?thesis by (cases "nat t") (auto simp: unary_time_def unary_parse_def)
qed (simp add: unary_time_def unary_parse_def)

definition kv_codec :: "(snapshot, string) codec" where
  "kv_codec =
     \<lparr>enc = \<lambda>st. Inr (case st ''kv'' of None \<Rightarrow> ''{}'' | Some h \<Rightarrow> CHR ''k'' # h),
      dec = \<lambda>s. Inr (case s of [] \<Rightarrow> snapshot_empty
                      | c # h \<Rightarrow> if c = CHR ''k'' then snapshot_with_state snapshot_empty ''kv'' h else snapshot_empty)\<rparr>"

lemma kv_codec_same [simp]:
  "same_codec kv_codec snapshot_empty" "same_codec kv_codec (snapshot_with_state snapshot_empty ''kv'' h)"
  by (simp_all add: same_codec_def kv_codec_def snapshot_empty_def snapshot_with_state_def)

lemma example_codec_same [simp]: "same_codec (example_codec x y) x"
  by (simp add: same_codec_def example_codec_def)

definition example_manifest :: agent_manifest where
  "example_manifest =
     \<lparr>mf_name = ''todo'', mf_description = ''tasks'', mf_source = None, mf_runtime = ''container'',
      mf_executable = ''todo:latest'',
      mf_requirements = \<lparr>req_models = [], req_services = [], req_mounts = [], req_mcp = []\<rparr>,
      mf_object_storage = None, mf_vector_storage = None\<rparr>"

definition example_rpc_env :: "invoke_message \<Rightarrow> (nat \<Rightarrow> string \<Rightarrow> delivery) \<Rightarrow> rpc_env" where
  "example_rpc_env msg net =
     \<lparr>re_to_rfc3339 = unary_time, re_parse_time = \<lambda>s. Inr (unary_parse s), re_parse_rfc3339 = \<lambda>s. Inr (unary_parse s),
      re_snapshot = kv_codec, re_invoke = example_codec msg ''{1}'', re_complete = broken_codec,
      re_request_v2 = broken_codec, re_response_v2 = broken_codec, re_invoke_diag = broken_codec,
      re_runtime_diag = broken_codec, re_request_diag = broken_codec, re_service_diag = broken_codec,
      re_svc_request_diag = broken_codec, re_svc_response_diag = broken_codec, re_manifest = example_codec example_manifest ''{2}'',
      re_is_uuid = \<lambda>_. True, re_random_session = ''r'', re_petname = \<lambda>_. ''calm-otter'', re_clock = int,
      re_external_id_error = \<lambda>_. ''bad'',
      re_status = \<lambda>st. case st of InvalidArgument e \<Rightarrow> e | Internal e \<Rightarrow> e | Panicked e \<Rightarrow> e,
      re_net = net\<rparr>"

lemma example_rpc_env_simps [simp]:
  "re_net (example_rpc_env msg net) = net" "re_is_uuid (example_rpc_env msg net) se"
  "same_codec (re_invoke (example_rpc_env msg net)) msg" "same_codec (re_manifest (example_rpc_env msg net)) example_manifest"
  "re_snapshot (example_rpc_env msg net) = kv_codec"
  "times_travel (example_rpc_env msg net)" "wire_codecs (example_rpc_env msg net) snapshot_empty"
  by (simp_all add: example_rpc_env_def times_travel_def wire_codecs_def)

definition example_kv_env :: sql_env where
  "example_kv_env =
     (example_sql_env no_sql_fault)\<lparr>se_snapshot := kv_codec,
        se_time := \<lparr>enc = \<lambda>t. Inr (unary_time t), dec = \<lambda>s. Inr (unary_parse s)\<rparr>\<rparr>"

lemma example_kv_env_simps [simp]:
  "se_fault example_kv_env = no_sql_fault" "se_snapshot example_kv_env = kv_codec"
  "se_is_uuid example_kv_env se" "scans_ok example_kv_env"
  by (simp_all add: example_kv_env_def scans_ok_def example_sql_env_def)

text \<open>The reply to the first of two sends is lost; the second send is carried out and answered.\<close>

definition first_reply_lost :: "nat \<Rightarrow> string \<Rightarrow> delivery" where
  "first_reply_lost n m = (if n = 0 then ReplyLost ''connection reset'' else Delivered)"

abbreviation example_client :: "(nat \<Rightarrow> string \<Rightarrow> delivery) \<Rightarrow> dag_db sql_world net_world dag_store" where
  "example_client net \<equiv>
     dag_store.truncate (grpc_store (example_rpc_env (example_invoke ''1'') net) (sql_full_store id example_kv_env))"

definition grpc_after_invokes :: "(dag_db sql_world net_world, mem_queue) rec_state" where
  "grpc_after_invokes =
     (let send = (\<lambda>i c. snd (rec_send_invoke example_ext (example_client first_reply_lost) example_mq
                       example_sql_key (example_invoke i) c))
      in send ''2'' (send ''1'' (remote 0 sql_started)))"

lemma grpc_after_invokes_run:
  "(rec_step example_ext (example_client first_reply_lost) example_mq)\<^sup>*\<^sup>* (remote 0 sql_started) grpc_after_invokes"
  unfolding grpc_after_invokes_def Let_def
  by (rule rtranclp.rtrancl_refl | rule rtranclp.rtrancl_into_rtrancl [rotated], rule st_invoke)+

theorem grpc_chain_invariant_witness:
  "chain_wf (sql_nodes example_kv_env (nw_server (rc_store grpc_after_invokes))) \<and>
   sql_db_ok (sw_data (nw_server (rc_store grpc_after_invokes)))"
  using grpc_chain_invariant [OF _ _ grpc_after_invokes_run] sql_started_ok
  by (simp add: remote_def sql_started_data sql_nodes_def dag_db_empty_def example_ext_def)

definition example_parent_world :: "dag_db sql_world" where
  "example_parent_world =
     snd (sql_insert_invoke_node example_kv_env ''n1'' dag_node_id_root 5
       (snapshot_with_state snapshot_empty ''kv'' ''a1'') example_sql_key (example_invoke ''1'') (rc_store sql_started))"

lemma example_parent_keys:
  "map nr_hash (db_nodes (sw_data example_parent_world)) = [''n1'']"
  "map ir_message_id (db_invokes (sw_data example_parent_world)) = [''1'']"
  "map srow_id (db_sessions (sw_data example_parent_world)) = [''s1'']"
  "map brow_id (db_branches (sw_data example_parent_world)) = [1]"
  by code_simp+

lemma example_parent_insertable:
  "i \<noteq> ''n1'' \<Longrightarrow> insertable example_kv_env (sw_data example_parent_world) i ''n1'' ''s1'' 1"
proof -
  assume i: "i \<noteq> ''n1''"
  have "sql_db_ok (sw_data example_parent_world)"
    unfolding example_parent_world_def by (rule epreservesD [OF sql_inserts_ok(1) sql_started_ok])
  moreover have "i \<notin> set (map nr_hash (db_nodes (sw_data example_parent_world)))"
    "''n1'' \<in> set (map nr_hash (db_nodes (sw_data example_parent_world)))"
    "''s1'' \<in> set (map srow_id (db_sessions (sw_data example_parent_world)))"
    "1 \<in> set (map brow_id (db_branches (sw_data example_parent_world)))"
    unfolding example_parent_keys using i by simp_all
  ultimately show ?thesis by (simp add: insertable_def)
qed

definition example_child :: invoke_message where
  "example_child = (example_invoke ''2'')\<lparr>iv_dag_parent := ''n1''\<rparr>"

lemma example_parent_node:
  "\<exists>n. sql_get_node example_kv_env ''n1'' example_parent_world = Inr (Some n) \<and>
       dn_state n = snapshot_with_state snapshot_empty ''kv'' ''a1''"
proof -
  have "insertable example_kv_env (sw_data (rc_store sql_started)) ''n1'' dag_node_id_root ''s1'' 1"
    using sql_started_ok by (simp add: insertable_def sql_started_data dag_db_empty_def)
  then show ?thesis
    unfolding example_parent_world_def
    by (intro invoke_stored [where sn = "''ka1''" and h = HCli and rt = RtContainer and a = "''todo''"])
      (simp_all add: example_sql_key_def sql_started_data dag_db_empty_def kv_codec_def snapshot_with_state_def)
qed

theorem grpc_recording_forgets_state_witness:
  "\<exists>i near far c.
     c = \<lparr>rc_store = example_parent_world, rc_inner = mem_queue_new, rc_ticks = 7\<rparr> \<and>
     sql_get_node example_kv_env i
       (rc_store (snd (record_invoke example_ext (sql_dag_store example_kv_env) example_sql_key example_child c))) =
       Inr (Some near) \<and>
     sql_get_node example_kv_env i
       (nw_server (rc_store (snd (record_invoke example_ext
          (dag_store.truncate (grpc_store (example_rpc_env example_child (\<lambda>_ _. Delivered)) (sql_full_store id example_kv_env)))
          example_sql_key example_child (remote 0 c))))) = Inr (Some far) \<and>
     dn_state near = snapshot_with_state snapshot_empty ''kv'' ''a1'' \<and> dn_state far = snapshot_empty"
proof -
  let ?c = "\<lparr>rc_store = example_parent_world, rc_inner = mem_queue_new, rc_ticks = 7\<rparr>"
  obtain n where n: "sql_get_node example_kv_env ''n1'' example_parent_world = Inr (Some n)"
      "dn_state n = snapshot_with_state snapshot_empty ''kv'' ''a1''"
    using example_parent_node by blast
  have child: "iv_dag_parent example_child = ''n1''" "iv_state example_child = None" "iv_id example_child = ''2''"
    by (simp_all add: example_child_def example_invoke_def)
  have hash: "fst (record_invoke example_ext (sql_dag_store example_kv_env) example_sql_key example_child ?c) \<noteq> ''n1''"
    by (simp add: record_invoke_def Let_def hash_node_def hash_dag_node_def example_ext_def)
  have fresh: "''2'' \<notin> set (map ir_message_id (db_invokes (sw_data example_parent_world)))"
    unfolding example_parent_keys by simp
  have "network_up (example_rpc_env example_child (\<lambda>_ _. Delivered))" by (simp add: network_up_def)
  from grpc_recording_forgets_state [OF this, where key = example_sql_key and msg = example_child
      and senv = example_kv_env and n = n and c = ?c and h = HCli and rt = RtContainer and a = "''todo''"
      and ext = example_ext and quote = id and k = 0] n child fresh example_parent_insertable [OF hash]
  show ?thesis by (auto simp: example_sql_key_def)
qed

theorem grpc_s3_refused_witness:
  "\<exists>e w'. cl_insert_request_node (example_rpc_env (example_invoke ''1'') (\<lambda>_ _. Delivered)) (sql_full_store id example_kv_env)
       ''n1'' [] 5 snapshot_empty ''s1'' ''sub'' 1 ''todo'' (SbKv ObjS3) OpGet 1 example_request
       \<lparr>nw_tick = 0, nw_server = rc_store sql_started\<rparr> = (Inl e, w') \<and>
     nw_server w' = rc_store sql_started"
  using grpc_s3_refused [of "example_rpc_env (example_invoke ''1'') (\<lambda>_ _. Delivered)" snapshot_empty
      "sql_full_store id example_kv_env" "''n1''" "[]" 5 "''s1''" "''sub''" 1 "''todo''" OpGet 1 example_request
      "\<lparr>nw_tick = 0, nw_server = rc_store sql_started\<rparr>"]
  by simp

theorem grpc_retry_converges_witness:
  "let send = cl_insert_invoke_node (example_rpc_env (example_invoke ''1'') first_reply_lost)
                (sql_full_store id example_kv_env) ''n1'' [] 5 snapshot_empty example_sql_key (example_invoke ''1'');
       w = \<lparr>nw_tick = 0, nw_server = rc_store sql_started\<rparr>
   in fst (send w) = Inl ''connection reset'' \<and> fst (send (snd (send w))) = Inr ()"
proof -
  let ?env = "example_rpc_env (example_invoke ''1'') first_reply_lost"
  let ?w = "\<lparr>nw_tick = 0, nw_server = rc_store sql_started\<rparr>"
  have "insertable example_kv_env (sw_data (rc_store sql_started)) ''n1'' [] ''s1'' 1"
    using sql_started_ok by (simp add: insertable_def sql_started_data dag_db_empty_def dag_node_id_root_def)
  then have "fst (cl_insert_invoke_node ?env (sql_full_store id example_kv_env) ''n1'' [] 5 snapshot_empty example_sql_key
      (example_invoke ''1'') (snd (cl_insert_invoke_node ?env (sql_full_store id example_kv_env) ''n1'' [] 5 snapshot_empty
      example_sql_key (example_invoke ''1'') ?w))) = Inr ()"
    using grpc_retry_converges [where env = ?env and st = snapshot_empty and key = example_sql_key and h = HCli
        and rt = RtContainer and a = "''todo''" and iv = "example_invoke ''1''" and senv = example_kv_env and w = ?w
        and i = "''n1''" and p = "[]" and k = 1 and t = 5 and quote = id]
    by (simp add: example_sql_key_def sql_started_data dag_db_empty_def first_reply_lost_def Let_def)
  moreover have "fst (cl_insert_invoke_node ?env (sql_full_store id example_kv_env) ''n1'' [] 5 snapshot_empty
      example_sql_key (example_invoke ''1'') ?w) = Inl ''connection reset''"
    using invoke_call [where env = ?env and st = snapshot_empty and key = example_sql_key and h = HCli
        and rt = RtContainer and a = "''todo''" and iv = "example_invoke ''1''" and w = ?w
        and ds = "sql_full_store id example_kv_env" and i = "''n1''" and p = "[]" and t = 5]
    by (simp add: example_sql_key_def first_reply_lost_def Let_def split_beta)
  ultimately show ?thesis by (simp add: Let_def)
qed

lemma example_delivered [simp]: "network_up (example_rpc_env msg (\<lambda>_ _. Delivered))"
  by (simp add: network_up_def)

theorem grpc_writes_relay_witness:
  "let env = example_rpc_env (example_invoke ''1'') (\<lambda>_ _. Delivered); w = \<lparr>nw_tick = 3, nw_server = mem_store_new\<rparr>;
       ik = \<lparr>ik_submission = ''sub'', ik_kind = IkDeployAgent\<rparr>; dp = \<lparr>dp_id = ''d'', dp_manifest = example_manifest\<rparr>
   in ds_insert_deploy_agent_node (grpc_store env (mem_full_store id)) ''n1'' [] 5 snapshot_empty ik dp w =
        relay (ds_insert_deploy_agent_node (mem_full_store id) ''n1'' [] 5 snapshot_empty ik dp) w \<and>
      ds_rename_branch (grpc_store env (mem_full_store id)) 1 ''b'' w = relay (ds_rename_branch (mem_full_store id) 1 ''b'') w"
  using grpc_writes_relay [where env = "example_rpc_env (example_invoke ''1'') (\<lambda>_ _. Delivered)"
      and st = snapshot_empty and se = "''s1''" and sb = "SbKv ObjSqlite" and a = "''todo''"
      and sk = "\<lparr>sk_session = ''s1'', sk_submission = ''sub'', sk_kind = SkFork ''todo''\<rparr>"
      and dk = example_sql_key and h = HCli and rt = RtContainer
      and ses = "\<lparr>se_id = ''s1'', se_external_id = ''x'', se_name = ''n'', se_agent = ''todo'', se_default_branch = 1,
        se_created_at = 0\<rparr>" and ds = "mem_full_store id" and br = 1 and nm = "''b''"
      and pk = "\<lparr>sk_session = ''s1'', sk_submission = ''sub'', sk_kind = SkPromote ''todo''\<rparr>"
      and dp = "\<lparr>dp_id = ''d'', dp_manifest = example_manifest\<rparr>" and i = "''n1''" and p = "[]" and t = 5
      and ik = "\<lparr>ik_submission = ''sub'', ik_kind = IkDeployAgent\<rparr>"
      and w = "\<lparr>nw_tick = 3, nw_server = mem_store_new\<rparr>"]
  by (simp add: example_sql_key_def external_session_id_new_def ascii_alphanumeric_def Let_def)

end
