(* ===== verification/StateTyped.thy ===== *)
theory StateTyped
  imports StateGrpcRun
begin

text \<open>
  The state service over SQLite as a typed store: whatever requests arrive, from this client or from any
  other, every text the server stores in a column that is parsed on the way back is one that parses.
\<close>

section \<open>Requests\<close>

datatype state_request =
    SrInvoke insert_invoke_request
  | SrComplete insert_complete_request
  | SrRequest insert_request_request
  | SrResponse insert_response_request
  | SrSvcRequest insert_svc_request
  | SrSvcResponse insert_svc_request
  | SrFork insert_fork_request
  | SrPromote insert_promote_request
  | SrDeploy insert_deploy_request
  | SrDelete insert_delete_request
  | SrCreateBranch string string "string option"
  | SrCreateSession "proto_session option"
  | SrRenameBranch int string
  | SrSealBranch int string
  | SrDefaultBranch string int

text \<open>What a request leaves of the store; the reply is not looked at.\<close>

fun serve :: "rpc_env \<Rightarrow> 's full_dag_store \<Rightarrow> timestamp \<Rightarrow> state_request \<Rightarrow> 's \<Rightarrow> 's" where
  "serve env ds now (SrInvoke r) s = snd (srv_insert_invoke_node env ds r s)"
| "serve env ds now (SrComplete r) s = snd (srv_insert_complete_node env ds r s)"
| "serve env ds now (SrRequest r) s = snd (srv_insert_request_node env ds r s)"
| "serve env ds now (SrResponse r) s = snd (srv_insert_response_node env ds r s)"
| "serve env ds now (SrSvcRequest r) s = snd (srv_insert_svc_request_node env ds r s)"
| "serve env ds now (SrSvcResponse r) s = snd (srv_insert_svc_response_node env ds r s)"
| "serve env ds now (SrFork r) s = snd (srv_insert_fork_node env ds r s)"
| "serve env ds now (SrPromote r) s = snd (srv_insert_promote_node env ds r s)"
| "serve env ds now (SrDeploy r) s = snd (srv_insert_deploy_agent_node env ds r s)"
| "serve env ds now (SrDelete r) s = snd (srv_insert_delete_agent_node env ds r s)"
| "serve env ds now (SrCreateBranch name session fork_point) s =
     snd (srv_create_branch env ds now name session fork_point s)"
| "serve env ds now (SrCreateSession p) s = snd (srv_create_session env ds now p s)"
| "serve env ds now (SrRenameBranch i name) s = snd (srv_rename_branch ds i name s)"
| "serve env ds now (SrSealBranch i t) s = snd (srv_seal_branch env ds i t s)"
| "serve env ds now (SrDefaultBranch session b) s = snd (srv_update_session_default_branch env ds session b s)"

fun serve_all :: "rpc_env \<Rightarrow> 's full_dag_store \<Rightarrow> (timestamp \<times> state_request) list \<Rightarrow> 's \<Rightarrow> 's" where
  "serve_all env ds [] s = s"
| "serve_all env ds ((now, r) # rs) s = serve_all env ds rs (serve env ds now r s)"

section \<open>Typed tables\<close>

definition parses :: "(string \<Rightarrow> ('e, 'a) rust_result) \<Rightarrow> string \<Rightarrow> bool" where
  "parses f s \<longleftrightarrow> (case f s of Inl _ \<Rightarrow> False | Inr _ \<Rightarrow> True)"

lemma parses_iff: "parses f s \<longleftrightarrow> (\<exists>x. f s = Inr x)"
  by (auto simp: parses_def split: sum.split)

definition session_row_typed :: "sql_env \<Rightarrow> session_row \<Rightarrow> bool" where
  "session_row_typed senv r \<longleftrightarrow>
     se_is_uuid senv (srow_id r) \<and> parses external_session_id_new (srow_external_id r) \<and>
     parses (dec (se_time senv)) (srow_created_at r)"

definition node_row_typed :: "sql_env \<Rightarrow> node_row \<Rightarrow> bool" where
  "node_row_typed senv r \<longleftrightarrow>
     parses message_type_from_str (nr_message_type r) \<and> parses (dec (se_time senv)) (nr_created_at r) \<and>
     parses (dec (se_snapshot senv)) (nr_snapshot r) \<and>
     (case nr_session_id r of None \<Rightarrow> True | Some s \<Rightarrow> se_is_uuid senv s)"

definition branch_row_typed :: "sql_env \<Rightarrow> branch_row \<Rightarrow> bool" where
  "branch_row_typed senv r \<longleftrightarrow>
     se_is_uuid senv (brow_session_id r) \<and> parses (dec (se_time senv)) (brow_created_at r) \<and>
     (case brow_broken_at r of None \<Rightarrow> True | Some t \<Rightarrow> parses (dec (se_time senv)) t)"

definition typed_rows_typed :: "dag_db \<Rightarrow> bool" where
  "typed_rows_typed db \<longleftrightarrow>
     list_all (\<lambda>r. parses harness_from_str (ir_harness r) \<and> parses runtime_from_str (ir_runtime r)) (db_invokes db) \<and>
     list_all (\<lambda>r. parses harness_from_str (cr_harness r)) (db_completes db) \<and>
     list_all (\<lambda>r. parses service_backend_from_str (qr_service r) \<and> parses operation_from_str (qr_operation r))
       (db_requests db) \<and>
     list_all (\<lambda>r. parses service_backend_from_str (pr_service r) \<and> parses operation_from_str (pr_operation r))
       (db_responses db) \<and>
     list_all (\<lambda>r. sq_service_type r = ''mcp'') (db_svc_requests db) \<and>
     list_all (\<lambda>r. sp_service_type r = ''mcp'') (db_svc_responses db)"

definition db_typed :: "sql_env \<Rightarrow> dag_db \<Rightarrow> bool" where
  "db_typed senv db \<longleftrightarrow>
     list_all (session_row_typed senv) (db_sessions db) \<and> list_all (node_row_typed senv) (db_nodes db) \<and>
     list_all (branch_row_typed senv) (db_branches db) \<and> typed_rows_typed db"

lemma db_typed_empty [simp]: "db_typed senv dag_db_empty"
  by (simp add: db_typed_def typed_rows_typed_def dag_db_empty_def)

lemma list_all_map: "list_all P xs \<Longrightarrow> (\<And>x. P x \<Longrightarrow> P (f x)) \<Longrightarrow> list_all P (map f xs)"
  by (induction xs) auto

text \<open>What chrono and serde promise: a time stamp, and a snapshot once parsed, are printed so that they parse.\<close>

definition times_print :: "sql_env \<Rightarrow> bool" where
  "times_print senv \<longleftrightarrow> (\<forall>t. same_codec (se_time senv) t)"

definition snapshots_reprint :: "rpc_env \<Rightarrow> sql_env \<Rightarrow> bool" where
  "snapshots_reprint env senv \<longleftrightarrow>
     (\<forall>j. case dec (re_snapshot env) j of Inl _ \<Rightarrow> True | Inr st \<Rightarrow> same_codec (se_snapshot senv) st)"

lemma snapshots_reprintD:
  "snapshots_reprint env senv \<Longrightarrow> dec (re_snapshot env) j = Inr st \<Longrightarrow> same_codec (se_snapshot senv) st"
  unfolding snapshots_reprint_def by (drule spec [of _ j]) simp

lemma time_str_parses [simp]: "times_print senv \<Longrightarrow> parses (dec (se_time senv)) (time_str senv t)"
  by (auto simp: times_print_def time_str_def parses_iff same_codec_def result_or_def split: sum.splits)

section \<open>What the store keeps\<close>

abbreviation sql_typed :: "sql_env \<Rightarrow> dag_db sql_world \<Rightarrow> bool" where
  "sql_typed senv w \<equiv> db_typed senv (sw_data w)"

lemma node_row_insert_typed:
  assumes "db_typed senv d" and "insert_node_row r d = Inr (u, d')" and "node_row_typed senv r"
  shows "db_typed senv d'"
  using assms by (auto simp: insert_node_row_def db_typed_def typed_rows_typed_def split: if_splits)

lemma serialized_keeps:
  assumes "same_codec (se_snapshot senv) st"
    and "\<And>sn. parses (dec (se_snapshot senv)) sn \<Longrightarrow> epreserves I (f sn)"
  shows "epreserves I (ebind (serialize_snapshot senv st) f)"
proof -
  obtain j where j: "enc (se_snapshot senv) st = Inr j" "dec (se_snapshot senv) j = Inr st"
    using assms(1) by (rule same_codecE)
  then show ?thesis using assms(2) [of j] by (simp add: serialize_snapshot_def parses_iff)
qed

lemma inserted_node_typed:
  assumes "times_print senv" and "parses (dec (se_snapshot senv)) sn" and "parses message_type_from_str mt"
    and "case se of None \<Rightarrow> True | Some s \<Rightarrow> se_is_uuid senv s"
  shows "epreserves (sql_typed senv)
     (insert_dag_node senv (new_node_row i p mt se sub br (time_str senv t) v sn))"
  unfolding insert_dag_node_def
  using assms by (intro epreserves_stmt) (auto elim!: node_row_insert_typed simp: node_row_typed_def)

lemma message_types_parse [simp]:
  "parses message_type_from_str ''invoke''" "parses message_type_from_str ''complete''"
  "parses message_type_from_str ''request''" "parses message_type_from_str ''response''"
  "parses message_type_from_str ''svc_request''" "parses message_type_from_str ''svc_response''"
  "parses message_type_from_str ''fork''" "parses message_type_from_str ''promote''"
  "parses message_type_from_str ''deploy-agent''" "parses message_type_from_str ''delete-agent''"
  by (simp_all add: parses_def message_type_from_str_def)

lemma typed_row_insert_typed:
  assumes "insert_typed_row h m get put r d = Inr (u, d')"
    and "db_typed senv (put (get d @ [r]) d)" and "db_typed senv d"
  shows "db_typed senv d'"
  using assms by (auto simp: insert_typed_row_def split: if_splits)

lemma put_row_typed:
  assumes "db_typed senv d"
  shows "parses harness_from_str (ir_harness r1) \<Longrightarrow> parses runtime_from_str (ir_runtime r1) \<Longrightarrow>
      db_typed senv (d\<lparr>db_invokes := db_invokes d @ [r1]\<rparr>)"
    and "parses harness_from_str (cr_harness r2) \<Longrightarrow> db_typed senv (d\<lparr>db_completes := db_completes d @ [r2]\<rparr>)"
    and "parses service_backend_from_str (qr_service r3) \<Longrightarrow> parses operation_from_str (qr_operation r3) \<Longrightarrow>
      db_typed senv (d\<lparr>db_requests := db_requests d @ [r3]\<rparr>)"
    and "parses service_backend_from_str (pr_service r4) \<Longrightarrow> parses operation_from_str (pr_operation r4) \<Longrightarrow>
      db_typed senv (d\<lparr>db_responses := db_responses d @ [r4]\<rparr>)"
    and "sq_service_type r5 = ''mcp'' \<Longrightarrow> db_typed senv (d\<lparr>db_svc_requests := db_svc_requests d @ [r5]\<rparr>)"
    and "sp_service_type r6 = ''mcp'' \<Longrightarrow> db_typed senv (d\<lparr>db_svc_responses := db_svc_responses d @ [r6]\<rparr>)"
    and "db_typed senv (d\<lparr>db_forks := x7\<rparr>)" and "db_typed senv (d\<lparr>db_promotes := x8\<rparr>)"
    and "db_typed senv (d\<lparr>db_deploys := x9\<rparr>)" and "db_typed senv (d\<lparr>db_deletes := x10\<rparr>)"
  using assms by (simp_all add: db_typed_def typed_rows_typed_def)

lemma enums_parse [simp]:
  "parses harness_from_str (harness_as_str h)" "parses runtime_from_str (runtime_as_str r)"
  "parses operation_from_str (operation_as_str op)"
  "sb \<noteq> SbKv ObjS3 \<Longrightarrow> parses service_backend_from_str (service_backend_display sb)"
  using service_backend_roundtrip [of sb] by (simp_all add: parses_def)

lemma typed_stmt:
  assumes "\<And>d. db_typed senv d \<Longrightarrow> db_typed senv (put (get d @ [r]) d)"
  shows "epreserves (sql_typed senv) (stmt senv ctx (insert_typed_row h m get put r))"
  by (rule epreserves_stmt) (blast intro: typed_row_insert_typed assms)

text \<open>The three ways an insert goes on after the snapshot, each its own rule.\<close>

lemma insert_steps:
  "epreserves I (insert_dag_node senv r) \<Longrightarrow> epreserves I m \<Longrightarrow> epreserves I (ebind (insert_dag_node senv r) (\<lambda>_. m))"
  "(\<And>x. epreserves I (f x)) \<Longrightarrow> epreserves I (ebind (elift y) f)"
  "(\<And>x. epreserves I (f x)) \<Longrightarrow> epreserves I (ebind (\<lambda>w. (q w, w)) f)"
  by (auto intro!: epreserves_ebind epreserves_read epreserves_basic)

lemmas typed_insert_rules = serialized_keeps insert_steps inserted_node_typed typed_stmt put_row_typed

lemma sql_inserts_typed:
  assumes "times_print senv" and "same_codec (se_snapshot senv) st"
  shows "se_is_uuid senv (dk_session key) \<Longrightarrow> epreserves (sql_typed senv) (sql_insert_invoke_node senv i p t st key iv)"
    and "se_is_uuid senv se \<Longrightarrow> epreserves (sql_typed senv) (sql_insert_complete_node senv i p t st se sub br a h cm)"
    and "se_is_uuid senv se \<Longrightarrow> sb \<noteq> SbKv ObjS3 \<Longrightarrow>
      epreserves (sql_typed senv) (sql_insert_request_node senv i p t st se sub br a sb op q rq)"
    and "se_is_uuid senv se \<Longrightarrow> sb \<noteq> SbKv ObjS3 \<Longrightarrow>
      epreserves (sql_typed senv) (sql_insert_response_node senv i p t st se sub br a sb op q rs)"
    and "se_is_uuid senv se \<Longrightarrow>
      epreserves (sql_typed senv) (sql_insert_svc_request_node senv i p t st se sub br a sv so q rq2)"
    and "se_is_uuid senv se \<Longrightarrow>
      epreserves (sql_typed senv) (sql_insert_svc_response_node senv i p t st se sub br a sv so q rs2)"
    and "epreserves (sql_typed senv) (sql_insert_delete_agent_node senv i p t st ik da)"
    and "epreserves (sql_typed senv) (sql_insert_deploy_agent_node senv i p t st ik dp)"
  using assms
  by (auto simp: sql_inserts split: data_message_kind.split
      intro!: typed_insert_rules epreserves_basic)

lemma sql_fork_typed:
  assumes "times_print senv" and "same_codec (se_snapshot senv) st" and "se_is_uuid senv (sk_session key)"
  shows "epreserves (sql_typed senv) (sql_insert_fork_node senv i p t st key fk)"
  using assms unfolding sql_insert_fork_node_def Let_def
  by (auto split: session_message_kind.split intro!: typed_insert_rules epreserves_basic)

lemma sql_promote_typed:
  assumes "times_print senv" and "same_codec (se_snapshot senv) st" and "se_is_uuid senv (sk_session key)"
  shows "epreserves (sql_typed senv) (sql_insert_promote_node senv i p t st key pm)"
proof -
  have put: "db_typed senv d'" if "db_typed senv d"
      "insert_typed_row or_dag_hash or_message_id db_promotes (\<lambda>rs. db_promotes_update (\<lambda>_. rs)) r d = Inr (u, d')" for r d u d'
    using typed_row_insert_typed [OF that(2) put_row_typed(8) that(1)] that(1) by blast
  show ?thesis
    using assms put unfolding sql_insert_promote_node_def
    by (auto split: session_message_kind.split if_splits
        intro!: serialized_keeps insert_steps inserted_node_typed epreserves_stmt epreserves_basic)
qed

lemma branches_typed:
  assumes "list_all (branch_row_typed senv) bs" and "\<And>r. branch_row_typed senv r \<Longrightarrow> branch_row_typed senv (f r)"
  shows "list_all (branch_row_typed senv) (map (\<lambda>r. if c r then f r else r) bs)"
  using assms by (induction bs) auto

lemma sql_rows_typed:
  assumes "times_print senv"
  shows "se_is_uuid senv se \<Longrightarrow> epreserves (sql_typed senv) (sql_create_branch senv t nm se fp)"
    and "epreserves (sql_typed senv) (sql_rename_branch senv br nm)"
    and "epreserves (sql_typed senv) (sql_seal_branch senv br t)"
    and "epreserves (sql_typed senv) (sql_update_session_default_branch senv se br)"
    and "se_is_uuid senv (se_id ses) \<Longrightarrow> parses external_session_id_new (se_external_id ses) \<Longrightarrow>
      epreserves (sql_typed senv) (sql_create_session senv ses)"
  using assms
  by (auto simp: sql_row_ops insert_branch_row_def rename_branch_row_def update_branch_row_def insert_session_row_def
      db_typed_def typed_rows_typed_def branch_row_typed_def session_row_typed_def split: if_splits
      intro!: epreserves_ebind epreserves_basic epreserves_stmt epreserves_read epreserves_cases list_all_map)

section \<open>What the server keeps\<close>

lemma handler_keeps:
  "(\<And>x. r = Inr x \<Longrightarrow> epreserves I (f x)) \<Longrightarrow> epreserves I (ebind (arg what r) f)"
  "(\<And>t st. dec (re_snapshot env) j = Inr st \<Longrightarrow> epreserves I (g (t, st))) \<Longrightarrow> epreserves I (ebind (read_header env parse t' j) g)"
  "(\<And>sv. epreserves I (h sv)) \<Longrightarrow> epreserves I (ebind (svc_backend_of ty be) h)"
  "epreserves I m \<Longrightarrow> epreserves I (store_write m)"
  "epreserves I b \<Longrightarrow> epreserves I (\<lambda>s. case b s of (r, s') \<Rightarrow> (internal r, s'))"
  by (auto simp: epreserves_def arg_def bad_arg_def read_header_def svc_backend_of_def store_write_def ebind_def
      split_beta split: sum.split option.split)

lemma session_id_uuid_iff: "session_id_try_from is_uuid s = Inr x \<longleftrightarrow> is_uuid s \<and> x = s"
  by (auto simp: session_id_try_from_def)

lemma external_id_parses:
  "(case external_session_id_new s of Inl e \<Rightarrow> Inl (g e) | Inr x \<Rightarrow> Inr x) = Inr y \<Longrightarrow>
     parses external_session_id_new y"
  by (auto simp: external_session_id_new_def parses_def split: if_splits)

lemma service_backend_not_s3: "service_backend_from_str s = Inr sb \<Longrightarrow> sb \<noteq> SbKv ObjS3"
  by (auto simp: service_backend_from_str_def split: option.splits sum.splits dest: service_backend_from_parts_Some)

lemma sql_full_store_simps [simp]:
  "ds_insert_invoke_node (sql_full_store quote senv) = sql_insert_invoke_node senv"
  "ds_insert_complete_node (sql_full_store quote senv) = sql_insert_complete_node senv"
  "ds_insert_request_node (sql_full_store quote senv) = sql_insert_request_node senv"
  "ds_insert_response_node (sql_full_store quote senv) = sql_insert_response_node senv"
  "ds_insert_svc_request_node (sql_full_store quote senv) = sql_insert_svc_request_node senv"
  "ds_insert_svc_response_node (sql_full_store quote senv) = sql_insert_svc_response_node senv"
  "ds_insert_fork_node (sql_full_store quote senv) = sql_insert_fork_node senv"
  "ds_insert_promote_node (sql_full_store quote senv) = sql_insert_promote_node senv"
  "ds_insert_deploy_agent_node (sql_full_store quote senv) = sql_insert_deploy_agent_node senv"
  "ds_insert_delete_agent_node (sql_full_store quote senv) = sql_insert_delete_agent_node senv"
  "ds_create_branch (sql_full_store quote senv) = sql_create_branch senv"
  "ds_rename_branch (sql_full_store quote senv) = sql_rename_branch senv"
  "ds_seal_branch (sql_full_store quote senv) = sql_seal_branch senv"
  "ds_update_session_default_branch (sql_full_store quote senv) = sql_update_session_default_branch senv"
  "ds_create_session (sql_full_store quote senv) = sql_create_session senv"
  by (simp_all add: sql_full_store_def dag_store.defs sql_dag_store_def)

lemma handlers_typed:
  fixes quote senv
  assumes "times_print senv" and "re_is_uuid env = se_is_uuid senv" and "snapshots_reprint env senv"
  defines "ds \<equiv> sql_full_store quote senv"
  shows "epreserves (sql_typed senv) (srv_insert_invoke_node env ds r1)"
    and "epreserves (sql_typed senv) (srv_insert_complete_node env ds r2)"
    and "epreserves (sql_typed senv) (srv_insert_request_node env ds r3)"
    and "epreserves (sql_typed senv) (srv_insert_response_node env ds r4)"
    and "epreserves (sql_typed senv) (srv_insert_svc_request_node env ds r5)"
    and "epreserves (sql_typed senv) (srv_insert_svc_response_node env ds r6)"
    and "epreserves (sql_typed senv) (srv_insert_fork_node env ds r7)"
    and "epreserves (sql_typed senv) (srv_insert_promote_node env ds r8)"
    and "epreserves (sql_typed senv) (srv_insert_deploy_agent_node env ds r9)"
    and "epreserves (sql_typed senv) (srv_insert_delete_agent_node env ds r10)"
  using assms(1) snapshots_reprintD [OF assms(3)] unfolding ds_def
  by (auto simp: srv_insert_invoke_node_def srv_insert_complete_node_def srv_insert_request_node_def
      srv_insert_response_node_def srv_insert_svc_request_node_def srv_insert_svc_response_node_def
      srv_insert_fork_node_def srv_insert_promote_node_def srv_insert_deploy_agent_node_def
      srv_insert_delete_agent_node_def Let_def assms(2) session_id_uuid_iff split: option.split
      intro!: handler_keeps epreserves_basic sql_inserts_typed sql_fork_typed sql_promote_typed
      dest: service_backend_not_s3)

lemma row_handlers_typed:
  fixes quote senv
  assumes "times_print senv" and "re_is_uuid env = se_is_uuid senv" and "snapshots_reprint env senv"
  defines "ds \<equiv> sql_full_store quote senv"
  shows "epreserves (sql_typed senv) (srv_create_branch env ds now nm se fp)"
    and "epreserves (sql_typed senv) (srv_create_session env ds now p)"
    and "epreserves (sql_typed senv) (srv_rename_branch ds i nm)"
    and "epreserves (sql_typed senv) (srv_seal_branch env ds i t)"
    and "epreserves (sql_typed senv) (srv_update_session_default_branch env ds se i)"
  using assms(1) unfolding ds_def
  by (auto simp: srv_create_branch_def srv_create_session_def srv_rename_branch_def srv_seal_branch_def
      srv_update_session_default_branch_def Let_def assms(2) session_id_uuid_iff session_new_def
      split: option.split
      intro!: handler_keeps epreserves_basic sql_rows_typed intro: external_id_parses)

lemma serve_typed:
  assumes "times_print senv" and "re_is_uuid env = se_is_uuid senv" and "snapshots_reprint env senv"
    and "sql_typed senv s"
  shows "sql_typed senv (serve env (sql_full_store quote senv) now r s)"
  using handlers_typed [OF assms(1-3), THEN epreservesD, OF assms(4)]
    row_handlers_typed [OF assms(1-3), THEN epreservesD, OF assms(4)]
  by (cases r) simp_all

lemma serve_all_typed:
  assumes "times_print senv" and "re_is_uuid env = se_is_uuid senv" and "snapshots_reprint env senv"
    and "sql_typed senv s"
  shows "sql_typed senv (serve_all env (sql_full_store quote senv) rs s)"
  using assms(4)
proof (induction rs arbitrary: s)
  case Nil
  then show ?case by simp
next
  case (Cons nr rs)
  then show ?case by (cases nr) (simp add: serve_typed [OF assms(1-3)])
qed

section \<open>What typed tables are read as\<close>

lemma typed_session_to_domain:
  assumes "session_row_typed senv r"
  shows "\<exists>x. session_row_to_domain senv r = Inr x"
  using assms
  by (auto simp: session_row_typed_def parses_iff session_row_to_domain_def session_id_try_from_def)

lemma typed_session_lookup:
  assumes "se_fault senv = no_sql_fault" and "sql_typed senv w"
  shows "\<exists>x. session_lookup senv ctx p w = Inr x"
proof (cases "find p (db_sessions (sw_data w))")
  case None
  then show ?thesis by (simp add: session_lookup_def query_no_fault [OF assms(1)])
next
  case (Some r)
  then have "session_row_typed senv r"
    using assms(2) find_Some_set [OF Some] by (auto simp: db_typed_def list_all_iff)
  with Some typed_session_to_domain [of senv r] show ?thesis
    by (auto simp: session_lookup_def query_no_fault [OF assms(1)])
qed

lemma typed_summaries:
  assumes "\<forall>s \<in> set rs. se_is_uuid senv (ssr_session_id s)"
  shows "\<exists>x. summaries_to_domain senv rs = Inr x"
  using assms by (induction rs) (auto simp: session_id_try_from_def)

lemma typed_list_sessions:
  assumes "se_fault senv = no_sql_fault" and "sql_typed senv w"
  shows "\<exists>x. sql_list_sessions senv w = Inr x"
proof -
  have "session_row_typed senv s" if "s \<in> set (db_sessions (sw_data w))" for s
    using assms(2) that by (auto simp: db_typed_def list_all_iff)
  moreover have "\<exists>r \<in> set (db_sessions (sw_data w)). g = summary_row senv (sw_data w) r"
    if "g \<in> set (summary_groups senv (sw_data w))" for g
    using that by (auto simp: summary_groups_def map_filter_def Let_def dest: find_Some_set)
  ultimately have "\<forall>g \<in> set (summary_groups senv (sw_data w)). se_is_uuid senv (ssr_session_id g)"
    by (fastforce simp: session_row_typed_def summary_row_def Let_def)
  then show ?thesis
    by (simp add: sql_list_sessions_def query_no_fault [OF assms(1)] typed_summaries)
qed

lemma typed_svc_nodes:
  assumes "se_fault senv = no_sql_fault" and "sql_typed senv w"
  shows "\<exists>x. sql_get_svc_request_node quote senv i w = Inr x"
    and "\<exists>x. sql_get_svc_response_node quote senv i w = Inr x"
proof -
  have q: "sq_service_type r = ''mcp''" if "find (\<lambda>r. sq_dag_hash r = i) (db_svc_requests (sw_data w)) = Some r" for r
    using assms(2) find_Some_set [OF that] by (auto simp: db_typed_def typed_rows_typed_def list_all_iff)
  have p: "sp_service_type r = ''mcp''" if "find (\<lambda>r. sp_dag_hash r = i) (db_svc_responses (sw_data w)) = Some r" for r
    using assms(2) find_Some_set [OF that] by (auto simp: db_typed_def typed_rows_typed_def list_all_iff)
  show "\<exists>x. sql_get_svc_request_node quote senv i w = Inr x"
    by (auto simp: sql_get_svc_request_node_def query_no_fault [OF assms(1)] joined_def bind_eq_Some_conv
        service_backend_v2_from_parts_def dest!: q split: option.split)
  show "\<exists>x. sql_get_svc_response_node quote senv i w = Inr x"
    by (auto simp: sql_get_svc_response_node_def query_no_fault [OF assms(1)] joined_def bind_eq_Some_conv
        service_backend_v2_from_parts_def dest!: p split: option.split)
qed

text \<open>
  C5: starting from an empty or a typed database, no sequence of requests, well-formed or not, makes the
  server store a session id that is no UUID, or a time stamp, message type, external id, harness, runtime,
  service or operation that does not parse; so a query that fails on such a text (a session by id or name,
  the session list, a service node) never does.
\<close>

theorem served_tables_typed:
  fixes env senv quote rs s
  defines "s' \<equiv> serve_all env (sql_full_store quote senv) rs s"
  assumes codecs: "times_print senv" "re_is_uuid env = se_is_uuid senv" "snapshots_reprint env senv"
    and typed: "db_typed senv (sw_data s)" and faults: "se_fault senv = no_sql_fault"
  shows "db_typed senv (sw_data s') \<and>
         (\<exists>x. sql_get_session senv i s' = Inr x) \<and> (\<exists>x. sql_get_session_by_name senv nm s' = Inr x) \<and>
         (\<exists>x. sql_list_sessions senv s' = Inr x) \<and>
         (\<exists>x. sql_get_svc_request_node quote senv i s' = Inr x) \<and>
         (\<exists>x. sql_get_svc_response_node quote senv i s' = Inr x)"
proof -
  have "sql_typed senv s'" unfolding s'_def by (rule serve_all_typed [OF codecs typed])
  then show ?thesis
    using typed_session_lookup [OF faults] typed_list_sessions [OF faults] typed_svc_nodes [OF faults]
    by (simp add: sql_get_session_def sql_get_session_by_name_def)
qed

text \<open>Two requests, the second with a service type nobody knows.\<close>

definition example_requests :: "(timestamp \<times> state_request) list" where
  "example_requests =
     [(1, SrCreateSession (Some \<lparr>ps_id = ''s2'', ps_external_id = ''web-1'', ps_name = ''n'', ps_agent_name = ''todo'',
            ps_default_branch = 1, ps_created_at = ''yesterday''\<rparr>)),
      (2, SrSvcRequest \<lparr>ih_dag_hash = ''n1'', ih_parent_hash = [], ih_created_at = ''1'', ih_snapshot = ''{}'',
            id_session_id = ''s2'', id_submission_id = ''sub'', id_branch_id = 1, id_agent = ''todo'',
            id_message_id = ''m'', id_state = None, is_service_type = ''carrier-pigeon'', is_service_backend = ''x'',
            is_operation = ''fly'', is_sequence = 1, is_payload = [], is_diagnostics = None,
            is_tool_call_or_correlation_id = ''t''\<rparr>)]"

theorem served_tables_typed_witness:
  "db_typed example_kv_env (sw_data
     (serve_all (example_rpc_env (example_invoke ''1'') (\<lambda>_ _. Delivered)) (sql_full_store id example_kv_env)
        example_requests \<lparr>sw_tick = 0, sw_data = dag_db_empty\<rparr>))"
proof -
  let ?env = "example_rpc_env (example_invoke ''1'') (\<lambda>_ _. Delivered)"
  have "times_print example_kv_env"
    by (simp add: times_print_def example_kv_env_def same_codec_def)
  moreover have "re_is_uuid ?env = se_is_uuid example_kv_env" by (simp add: fun_eq_iff)
  moreover have "snapshots_reprint ?env example_kv_env"
    by (auto simp: snapshots_reprint_def kv_codec_def [THEN arg_cong [of _ _ dec]] split: list.split)
  ultimately show ?thesis
    using served_tables_typed [where env = ?env and senv = example_kv_env and rs = example_requests
        and s = "\<lparr>sw_tick = 0, sw_data = dag_db_empty\<rparr>" and quote = id]
    by simp
qed

end
