(* ===== verification/OpenAi.thy ===== *)
theory OpenAi
  imports Harness "HOL-Library.Sublist"
begin

text \<open>
  The OpenAI-compatible API (\<open>crates/vlinder-openai-server/src/lib.rs\<close>) over an arbitrary harness, registry
  and store: the translation of a request's messages and of a run's result, the session a request
  belongs to, and the three handlers.  The handlers run in the harness monad and never fail in it: every
  error is a response.  The store is the one the harness reads (\<open>he_store\<close>), as the daemon sets it up.

  Parameters, in \<open>oa_env\<close>: serde_json's parser and printer of a \<open>Value\<close> (the order in which the printer
  writes the keys of an object is its own), \<open>HeaderValue::to_str\<close>, the text of an external-id error, the
  UUID check and the clock.  Fresh uuids come from the harness environment.  A request reaches a handler
  after axum has parsed it: the header, when there is one, and the JSON body.
\<close>

section \<open>Environment and JSON\<close>

record oa_env =
  oa_parse_json :: "string \<Rightarrow> json option"
  oa_print_json :: "json \<Rightarrow> string"
  oa_header_str :: "bytes \<Rightarrow> string option"
  oa_external_id_error :: "external_id_error \<Rightarrow> string"
  oa_is_uuid :: "string \<Rightarrow> bool"
  oa_clock :: "nat \<Rightarrow> int"

fun json_as_array :: "json \<Rightarrow> json list option" where
  "json_as_array (JArray xs) = Some xs"
| "json_as_array _ = None"

fun json_as_bool :: "json \<Rightarrow> bool option" where
  "json_as_bool (JBool b) = Some b"
| "json_as_bool _ = None"

definition json_text :: "json \<Rightarrow> string \<Rightarrow> string option" where
  "json_text j k = Option.bind (json_get j k) json_as_str"

section \<open>From OpenAI messages\<close>

definition text_part :: "json \<Rightarrow> string option" where
  "text_part item = Option.bind (json_text item ''type'') (\<lambda>t. if t = ''text'' then json_text item ''text'' else None)"

definition extract_text_content :: "json \<Rightarrow> string" where
  "extract_text_content v =
     (case json_as_str v of
        Some s \<Rightarrow> s
      | None \<Rightarrow> (case json_as_array v of
                  Some arr \<Rightarrow> concat (List.map_filter text_part arr)
                | None \<Rightarrow> []))"

text \<open>Arguments that are a string are parsed; what does not parse, or is missing, becomes \<open>null\<close>.\<close>

definition tool_call_from_json :: "oa_env \<Rightarrow> json \<Rightarrow> tool_call option" where
  "tool_call_from_json oa tc =
     Option.bind (json_text tc ''id'') (\<lambda>i.
     Option.bind (json_get tc ''function'') (\<lambda>f.
     Option.bind (json_text f ''name'') (\<lambda>name.
       Some \<lparr>tc_id = i, tc_name = name,
             tc_arguments = unwrap_or JNull
               (Option.bind (json_get f ''arguments'')
                  (\<lambda>a. case a of JString s \<Rightarrow> oa_parse_json oa s | _ \<Rightarrow> Some a))\<rparr>)))"

text \<open>One message, or none for a role that is not known, and the next unused fresh id.\<close>

definition message_from_json ::
    "oa_env \<Rightarrow> (nat \<Rightarrow> tool_call_id) \<Rightarrow> nat \<Rightarrow> json \<Rightarrow> message option \<times> nat" where
  "message_from_json oa fresh k msg =
     (let role = unwrap_or [] (json_text msg ''role'');
          content = extract_text_content (unwrap_or JNull (json_get msg ''content''))
      in if role = ''user'' then (Some (User content), k)
         else if role = ''assistant''
         then (Some (Agent (Some content)
                 (map_option (List.map_filter (tool_call_from_json oa))
                    (Option.bind (json_get msg ''tool_calls'') json_as_array))), k)
         else if role = ''tool''
         then (case json_text msg ''tool_call_id'' of
                 Some i \<Rightarrow> (Some (Tool i content), k)
               | None \<Rightarrow> (Some (Tool (fresh k) content), Suc k))
         else if role = ''system'' then (Some (System content), k)
         else if role = ''function'' then (Some (User (''[function] '' @ content @ [CHR 0x0A])), k)
         else if role = ''developer'' then (Some (System content), k)
         else (None, k))"

fun messages_from_json ::
    "oa_env \<Rightarrow> (nat \<Rightarrow> tool_call_id) \<Rightarrow> nat \<Rightarrow> json list \<Rightarrow> message list \<times> nat" where
  "messages_from_json oa fresh k [] = ([], k)"
| "messages_from_json oa fresh k (msg # msgs) =
     (case message_from_json oa fresh k msg of (m, k1) \<Rightarrow>
      case messages_from_json oa fresh k1 msgs of (ms, k2) \<Rightarrow>
        ((case m of None \<Rightarrow> ms | Some x \<Rightarrow> x # ms), k2))"

section \<open>To OpenAI answers\<close>

definition json_opt_string :: "string option \<Rightarrow> json" where
  "json_opt_string x = (case x of None \<Rightarrow> JNull | Some s \<Rightarrow> JString s)"

definition tool_call_to_json :: "oa_env \<Rightarrow> tool_call \<Rightarrow> (string \<times> json) list" where
  "tool_call_to_json oa tc =
     [(''id'', JString (tc_id tc)), (''type'', JString ''function''),
      (''function'', JObject [(''name'', JString (tc_name tc)),
                              (''arguments'', JString (oa_print_json oa (tc_arguments tc)))])]"

definition finish_reason :: "run_result \<Rightarrow> json" where
  "finish_reason result = JString (if rr_pending_tool_calls result \<noteq> None then ''tool_calls'' else ''stop'')"

definition choices_to_json :: "oa_env \<Rightarrow> run_result \<Rightarrow> json" where
  "choices_to_json oa result =
     (let calls = \<lambda>tcs. JArray (map (\<lambda>tc. JObject (tool_call_to_json oa tc)) tcs);
          msg = (case (rr_content result, rr_pending_tool_calls result) of
                   (Some c, Some tcs) \<Rightarrow>
                     JObject [(''role'', JString ''assistant''), (''content'', JString c), (''tool_calls'', calls tcs)]
                 | (Some c, None) \<Rightarrow> JObject [(''role'', JString ''assistant''), (''content'', JString c)]
                 | (None, Some tcs) \<Rightarrow>
                     JObject [(''role'', JString ''assistant''), (''content'', JNull), (''tool_calls'', calls tcs)]
                 | (None, None) \<Rightarrow> JObject [(''role'', JString ''assistant''), (''content'', JNull)])
      in JArray [JObject [(''index'', JNumber ''0''), (''message'', msg), (''finish_reason'', finish_reason result)]])"

text \<open>The derived serialisers of \<open>ToolTrace\<close> and \<open>TurnTrace\<close>; bytes are an array of numbers.\<close>

definition tool_trace_to_json :: "tool_trace \<Rightarrow> json" where
  "tool_trace_to_json t =
     JObject
       [(''tool_call'', JObject [(''id'', JString (tc_id (tt_tool_call t))), (''name'', JString (tc_name (tt_tool_call t))),
                                 (''arguments'', tc_arguments (tt_tool_call t))]),
        (''result'', JObject [(''tool_call_id'', JString (tr_tool_call_id (tt_result t))),
                              (''content'', JArray (map (\<lambda>b. JNumber (show_nat (of_char b))) (tr_content (tt_result t))))]),
        (''duration_ms'', JNumber (show_nat (unat (tt_duration_ms t))))]"

definition turn_trace_to_json :: "turn_trace \<Rightarrow> json" where
  "turn_trace_to_json t =
     JObject ((case tn_assistant_content t of None \<Rightarrow> [] | Some c \<Rightarrow> [(''assistant_content'', JString c)]) @
              [(''tool_calls'', JArray (map tool_trace_to_json (tn_tool_calls t)))])"

definition vlinder_json :: "run_result \<Rightarrow> json" where
  "vlinder_json result =
     JObject [(''turns'', JArray (map turn_trace_to_json (rr_turns result))),
              (''state_snapshot'', json_opt_string (rr_state_snapshot result))]"

text \<open>Seconds since the epoch; a clock before it, or too far beyond it, reads 0.\<close>

definition epoch_secs :: "int \<Rightarrow> int" where
  "epoch_secs t = (if 0 \<le> t \<and> t < 2 ^ 63 then t else 0)"

definition build_chat_completion_response ::
    "('q, 'r, 's) h_env \<Rightarrow> oa_env \<Rightarrow> string \<Rightarrow> run_result \<Rightarrow> ('q, 'r, json) hm" where
  "build_chat_completion_response env oa model_str result =
     hbind (tick (\<lambda>t. epoch_secs (oa_clock oa t))) (\<lambda>created.
     hbind (tick (he_uuid env)) (\<lambda>uuid. hret (JObject
       [(''id'', JString (''chatcmpl-'' @ uuid)), (''object'', JString ''chat.completion''),
        (''created'', JNumber (show_int created)), (''model'', JString model_str),
        (''choices'', choices_to_json oa result),
        (''usage'', JObject [(''prompt_tokens'', JNumber ''0''), (''completion_tokens'', JNumber ''0''),
                             (''total_tokens'', JNumber ''0'')]),
        (''vlinder'', vlinder_json result)])))"

text \<open>A chunk of a streamed answer; every tool call of the content chunk has index 0.\<close>

definition chunk :: "string \<Rightarrow> int \<Rightarrow> string \<Rightarrow> json \<Rightarrow> json \<Rightarrow> json" where
  "chunk i created model_str delta reason =
     JObject
       [(''id'', JString i), (''object'', JString ''chat.completion.chunk''), (''created'', JNumber (show_int created)),
        (''model'', JString model_str),
        (''choices'', JArray [JObject [(''index'', JNumber ''0''), (''delta'', delta), (''finish_reason'', reason)]])]"

definition content_delta :: "oa_env \<Rightarrow> run_result \<Rightarrow> json" where
  "content_delta oa result =
     (let calls = \<lambda>tcs. JArray (map (\<lambda>tc. JObject ((''index'', JNumber ''0'') # tool_call_to_json oa tc)) tcs)
      in case (rr_content result, rr_pending_tool_calls result) of
           (Some c, Some tcs) \<Rightarrow> JObject [(''content'', JString c), (''tool_calls'', calls tcs)]
         | (Some c, None) \<Rightarrow> JObject [(''content'', JString c)]
         | (None, Some tcs) \<Rightarrow> JObject [(''content'', JNull), (''tool_calls'', calls tcs)]
         | (None, None) \<Rightarrow> JObject [(''content'', JNull)])"

definition sse_event :: "string \<Rightarrow> string" where
  "sse_event payload = ''data: '' @ payload @ [CHR 0x0A, CHR 0x0A]"

definition build_sse_response ::
    "('q, 'r, 's) h_env \<Rightarrow> oa_env \<Rightarrow> string \<Rightarrow> run_result \<Rightarrow> ('q, 'r, string) hm" where
  "build_sse_response env oa model_str result =
     hbind (tick (he_uuid env)) (\<lambda>uuid.
     hbind (tick (\<lambda>t. epoch_secs (oa_clock oa t))) (\<lambda>created.
       let i = ''chatcmpl-'' @ uuid;
           role_event = chunk i created model_str (JObject [(''role'', JString ''assistant'')]) JNull;
           content_event = chunk i created model_str (content_delta oa result) JNull;
           finish_event = chunk i created model_str (JObject []) (finish_reason result);
           vlinder_event = JObject [(''vlinder'', vlinder_json result)]
       in hret (sse_event (oa_print_json oa role_event) @ sse_event (oa_print_json oa content_event) @
                sse_event (oa_print_json oa finish_event) @ sse_event (oa_print_json oa vlinder_event) @
                sse_event ''[DONE]'')))"

section \<open>Responses\<close>

datatype http_body = JsonBody json | TextBody string

record http_response =
  hp_status :: nat
  hp_headers :: "(string \<times> string) list"
  hp_body :: http_body

definition json_response :: "nat \<Rightarrow> json \<Rightarrow> http_response" where
  "json_response status body = \<lparr>hp_status = status, hp_headers = [], hp_body = JsonBody body\<rparr>"

definition error_response :: "nat \<Rightarrow> string \<Rightarrow> string \<Rightarrow> http_response" where
  "error_response status text kind =
     json_response status (JObject [(''error'', JObject [(''message'', JString text), (''type'', JString kind)])])"

definition internal_error :: http_response where
  "internal_error = error_response 500 ''internal error'' ''internal_error''"

section \<open>The session of a request\<close>

definition check_agent_mismatch :: "session \<Rightarrow> string \<Rightarrow> string \<Rightarrow> (http_response, unit) rust_result" where
  "check_agent_mismatch session model identifier =
     (if se_agent session \<noteq> model
      then Inl (error_response 409
             (''session '' @ [CHR 0x27] @ identifier @ [CHR 0x27] @ '' is already associated with agent '' @ [CHR 0x27] @
              se_agent session @ [CHR 0x27] @ '', not '' @ [CHR 0x27] @ model @ [CHR 0x27]) ''invalid_request_error'')
      else Inr ())"

text \<open>The lookups: by external id, then by the session's own id when the header is a UUID.\<close>

definition find_session :: "'s dag_store \<Rightarrow> oa_env \<Rightarrow> string \<Rightarrow> external_session_id \<Rightarrow> 's \<Rightarrow>
     (string, session option) rust_result" where
  "find_session ops oa s external_id st =
     (case ds_get_session_by_external_id ops external_id st of
        Inr None \<Rightarrow>
          (case session_id_try_from (oa_is_uuid oa) s of
             Inl _ \<Rightarrow> Inr None
           | Inr sid \<Rightarrow> ds_get_session ops sid st)
      | r \<Rightarrow> r)"

definition resolve_or_create_session ::
    "('q, 'r, 's) h_env \<Rightarrow> oa_env \<Rightarrow> bytes option \<Rightarrow> string \<Rightarrow>
     ('q, 'r, (http_response, session_id) rust_result) hm" where
  "resolve_or_create_session env oa header model st =
     (case header of
        None \<Rightarrow> hret (Inl (error_response 400 ''X-Vlinder-Session header is required'' ''invalid_request_error'')) st
      | Some raw \<Rightarrow>
     (case oa_header_str oa raw of
        None \<Rightarrow> hret (Inl (error_response 400 ''X-Vlinder-Session header must be valid UTF-8'' ''invalid_request_error'')) st
      | Some s \<Rightarrow>
     (case external_session_id_new s of
        Inl e \<Rightarrow> hret (Inl (error_response 400 (''invalid X-Vlinder-Session header: '' @ oa_external_id_error oa e)
                              ''invalid_request_error'')) st
      | Inr external_id \<Rightarrow>
     (case find_session (he_store env) oa s external_id (he_store_of env (hs_queue st)) of
        Inl e \<Rightarrow> hret (Inl internal_error) st
      | Inr (Some session) \<Rightarrow>
          (case check_agent_mismatch session model external_id of
             Inl resp \<Rightarrow> hret (Inl resp) st
           | Inr _ \<Rightarrow> hret (Inr (se_id session)) st)
      | Inr None \<Rightarrow> hbind (start_session env model external_id) (\<lambda>(session_id, _). hret (Inr session_id)) st))))"

section \<open>Handlers\<close>

text \<open>\<open>str::trim_end_matches\<close> with a string: the suffix goes as often as it is there.\<close>

function trim_end_matches :: "string \<Rightarrow> string \<Rightarrow> string" where
  "trim_end_matches pat s =
     (if pat \<noteq> [] \<and> suffix pat s then trim_end_matches pat (take (length s - length pat) s) else s)"
  by pat_completeness auto
termination
  by (relation "measure (\<lambda>(pat, s). length s)") (auto simp: suffix_def)

declare trim_end_matches.simps [simp del]

definition take_messages ::
    "('q, 'r, 's) h_env \<Rightarrow> oa_env \<Rightarrow> json list \<Rightarrow> ('q, 'r, message list) hm" where
  "take_messages env oa msgs =
     hstep (\<lambda>s. case messages_from_json oa (he_uuid env) (hs_tick s) msgs of
                  (ms, k) \<Rightarrow> (ms, s\<lparr>hs_tick := k\<rparr>))"

definition chat_completions ::
    "('q, 'r, 's) h_env \<Rightarrow> oa_env \<Rightarrow> nat \<Rightarrow> bytes option \<Rightarrow> json \<Rightarrow> ('q, 'r, http_response) hm" where
  "chat_completions env oa n header req =
     (let stream = unwrap_or False (Option.bind (json_get req ''stream'') json_as_bool);
          model = trim_end_matches '':latest'' (unwrap_or [] (json_text req ''model''))
      in hbind (get_registry (ro_get_agent_by_name (he_registry env) model)) (\<lambda>agent.
         case agent of
           None \<Rightarrow> hret (error_response 404 (''agent not found: '' @ model) ''invalid_request_error'')
         | Some a \<Rightarrow>
         hbind (resolve_or_create_session env oa header model) (\<lambda>resolved.
         case resolved of
           Inl resp \<Rightarrow> hret resp
         | Inr session_id \<Rightarrow>
         hbind (take_messages env oa (unwrap_or [] (Option.bind (json_get req ''messages'') json_as_array))) (\<lambda>messages.
         hbind (hcatch (run_agent_with_messages env n ctl_quiet (ag_id a) messages session_id)) (\<lambda>res.
         case res of
           Inl e \<Rightarrow> hret (error_response 500 (''agent error: '' @ e) ''internal_error'')
         | Inr result \<Rightarrow>
             let model_str = unwrap_or model (json_text req ''model'')
             in if stream
                then hbind (build_sse_response env oa model_str result) (\<lambda>body. hret
                       \<lparr>hp_status = 200,
                        hp_headers = [(''content-type'', ''text/event-stream''), (''cache-control'', ''no-cache'')],
                        hp_body = TextBody body\<rparr>)
                else hbind (build_chat_completion_response env oa model_str result)
                       (\<lambda>body. hret (json_response 200 body)))))))"

text \<open>\<open>GET /v1/models\<close>, for a registry that lists its agents with \<open>all_agents\<close>.\<close>

definition models_endpoint ::
    "oa_env \<Rightarrow> ('r \<Rightarrow> agent list) \<Rightarrow> ('q, 'r, http_response) hm" where
  "models_endpoint oa all_agents =
     hbind (get_registry all_agents) (\<lambda>agents.
     hbind (tick (\<lambda>t. epoch_secs (oa_clock oa t))) (\<lambda>created.
       hret (json_response 200 (JObject
         [(''object'', JString ''list''),
          (''data'', JArray (map (\<lambda>a. JObject
             [(''id'', JString (ag_name a)), (''object'', JString ''model''), (''created'', JNumber (show_int created)),
              (''owned_by'', JString ''vlinder'')]) agents))]))))"

definition embeddings_endpoint :: http_response where
  "embeddings_endpoint = error_response 501 ''embeddings not yet implemented'' ''not_implemented''"

end
