(* ===== verification/SealedTimelines.thy ===== *)
theory SealedTimelines
  imports HarnessRun SqlDagRun
begin

text \<open>
  Sealed timelines: over \<open>SqliteDagStore\<close> a branch that was sealed stays sealed, whatever the recording
  queue is used for afterwards, and the harness does not invoke an agent on a session whose default branch is
  sealed (\<open>run_agent_with_messages\<close>, harness.rs:1021).
\<close>

section \<open>A seal is for good\<close>

text \<open>A seal counts when the row's \<open>broken_at\<close> parses: \<open>branch_row_to_domain\<close> drops one that does not.\<close>

definition sealed_in :: "sql_env \<Rightarrow> branch_id \<Rightarrow> dag_db \<Rightarrow> bool" where
  "sealed_in env b db \<longleftrightarrow>
     (\<exists>r \<in> set (db_branches db). brow_id r = b \<and> br_broken_at (branch_row_to_domain env r) \<noteq> None)"

text \<open>What chrono promises: a time stamp that was printed can be parsed.\<close>

definition times_parse :: "sql_env \<Rightarrow> bool" where
  "times_parse env \<longleftrightarrow> (\<forall>t. \<exists>t'. dec (se_time env) (time_str env t) = Inr t')"

abbreviation sealed_world :: "sql_env \<Rightarrow> branch_id \<Rightarrow> dag_db sql_world \<Rightarrow> bool" where
  "sealed_world env b w \<equiv> sealed_in env b (sw_data w)"

lemma sealed_frame: "sealed_in env b db \<Longrightarrow> db_branches db' = db_branches db \<Longrightarrow> sealed_in env b db'"
  by (simp add: sealed_in_def)

lemma insert_node_row_sealed: "sealed_in env b db \<Longrightarrow> insert_node_row r db = Inr (x, db') \<Longrightarrow> sealed_in env b db'"
  by (erule sealed_frame) (auto simp: insert_node_row_def split: if_splits)

lemma insert_typed_row_sealed:
  "sealed_in env b db \<Longrightarrow> insert_typed_row h m get put r db = Inr (x, db') \<Longrightarrow>
   (\<And>rs. db_branches (put rs db) = db_branches db) \<Longrightarrow> sealed_in env b db'"
  by (erule sealed_frame) (auto simp: insert_typed_row_def split: if_splits)

lemma update_branch_row_sealed:
  assumes "sealed_in env b db"
    and "\<And>r. brow_id (f r) = brow_id r"
    and "\<And>r. br_broken_at (branch_row_to_domain env r) \<noteq> None \<Longrightarrow> br_broken_at (branch_row_to_domain env (f r)) \<noteq> None"
  shows "sealed_in env b (snd (update_branch_row i f db))"
proof -
  obtain r where r: "r \<in> set (db_branches db)" "brow_id r = b" "br_broken_at (branch_row_to_domain env r) \<noteq> None"
    using assms(1) by (auto simp: sealed_in_def)
  let ?r = "if brow_id r = i then f r else r"
  have "?r \<in> set (db_branches (snd (update_branch_row i f db)))"
    using r(1) by (auto simp: update_branch_row_def)
  moreover have "brow_id ?r = b" "br_broken_at (branch_row_to_domain env ?r) \<noteq> None"
    using r(2,3) assms(2,3) by simp_all
  ultimately show ?thesis unfolding sealed_in_def by blast
qed

lemma broken_at_parses:
  "times_parse env \<Longrightarrow> br_broken_at (branch_row_to_domain env (r\<lparr>brow_broken_at := Some (time_str env t)\<rparr>)) \<noteq> None"
  by (auto simp: times_parse_def branch_row_to_domain_def elim: allE [of _ t])

lemma row_ops_sealed:
  assumes "sealed_in env b db"
  shows "insert_branch_row t nm se fp db = Inr (x, db') \<Longrightarrow> sealed_in env b db'"
    and "rename_branch_row i nm db = Inr (y, db') \<Longrightarrow> sealed_in env b db'"
    and "times_parse env \<Longrightarrow> update_branch_row i (\<lambda>r. r\<lparr>brow_broken_at := Some (time_str env u)\<rparr>) db = (y, db') \<Longrightarrow>
      sealed_in env b db'"
    and "sealed_in env b (insert_session_row r db)"
proof -
  show "insert_branch_row t nm se fp db = Inr (x, db') \<Longrightarrow> sealed_in env b db'"
    using assms by (auto simp: insert_branch_row_def sealed_in_def split: if_splits)
  show "rename_branch_row i nm db = Inr (y, db') \<Longrightarrow> sealed_in env b db'"
    using update_branch_row_sealed [OF assms, of "\<lambda>r. r\<lparr>brow_name := nm\<rparr>" i]
    by (simp add: rename_branch_row_def branch_row_to_domain_def split: if_splits)
  show "sealed_in env b db'" if "times_parse env"
    "update_branch_row i (\<lambda>r. r\<lparr>brow_broken_at := Some (time_str env u)\<rparr>) db = (y, db')"
    using update_branch_row_sealed [OF assms, of "\<lambda>r. r\<lparr>brow_broken_at := Some (time_str env u)\<rparr>" i]
      broken_at_parses [OF that(1)] that(2) by simp
  show "sealed_in env b (insert_session_row r db)"
    using assms by (rule sealed_frame) (simp add: insert_session_row_def)
qed

lemma sql_inserts_sealed:
  "epreserves (sealed_world env b) (sql_insert_invoke_node env i p t st dk iv)"
  "epreserves (sealed_world env b) (sql_insert_complete_node env i p t st se sub br a h cm)"
  "epreserves (sealed_world env b) (sql_insert_request_node env i p t st se sub br a sb op q rq)"
  "epreserves (sealed_world env b) (sql_insert_response_node env i p t st se sub br a sb op q rs)"
  "epreserves (sealed_world env b) (sql_insert_svc_request_node env i p t st se sub br a sv so q rq2)"
  "epreserves (sealed_world env b) (sql_insert_svc_response_node env i p t st se sub br a sv so q rs2)"
  "epreserves (sealed_world env b) (sql_insert_deploy_agent_node env i p t st ik dp)"
  "epreserves (sealed_world env b) (sql_insert_delete_agent_node env i p t st ik da)"
  unfolding sql_inserts serialize_snapshot_def insert_dag_node_def
  by (auto split: data_message_kind.split intro!: epreserves_rules intro: insert_node_row_sealed elim: insert_typed_row_sealed)

lemma sql_session_inserts_sealed:
  "epreserves (sealed_world env b) (sql_insert_fork_node env i p t st sk fk)"
  "epreserves (sealed_world env b) (sql_insert_promote_node env i p t st sk pm)"
  unfolding sql_insert_fork_node_def sql_insert_promote_node_def serialize_snapshot_def insert_dag_node_def Let_def
  by (auto split: session_message_kind.split if_splits intro!: epreserves_rules intro: insert_node_row_sealed
      elim: insert_typed_row_sealed)

lemma sql_rows_sealed:
  assumes "times_parse env"
  shows "epreserves (sealed_world env b) (sql_create_branch env t nm se fp)"
    and "epreserves (sealed_world env b) (sql_rename_branch env br nm)"
    and "epreserves (sealed_world env b) (sql_seal_branch env br t)"
    and "epreserves (sealed_world env b) (sql_update_session_default_branch env se br)"
    and "epreserves (sealed_world env b) (sql_create_session env ses)"
  unfolding sql_row_ops
  by (auto intro!: epreserves_rules intro: row_ops_sealed assms elim: sealed_frame)

lemma sql_sealed: "times_parse env \<Longrightarrow> store_invariant (sql_dag_store env) (sealed_world env b)"
  by (unfold_locales, simp_all only: sql_dag_store_def dag_store.simps)
    (rule sql_inserts_sealed sql_session_inserts_sealed sql_rows_sealed, assumption?)+

lemma seal_branch_seals:
  assumes "times_parse env" and "fst (sql_seal_branch env b t w) = Inr ()"
  shows "sealed_world env b (snd (sql_seal_branch env b t w))"
proof -
  let ?f = "\<lambda>r. r\<lparr>brow_broken_at := Some (time_str env t)\<rparr>"
  have no_fault: "se_fault env (sw_tick w) ''seal_branch failed: '' = None"
    using assms(2)
    by (cases "se_fault env (sw_tick w) ''seal_branch failed: ''") (simp_all add: sql_seal_branch_def stmt_def ebind_def Let_def)
  have data: "sw_data (snd (sql_seal_branch env b t w)) = snd (update_branch_row b ?f (sw_data w))"
    using no_fault by (simp add: sql_seal_branch_def stmt_def ebind_def update_branch_row_def Let_def split_beta)
  have "\<exists>r \<in> set (db_branches (sw_data w)). brow_id r = b"
    using assms(2) no_fault
    by (auto simp: sql_seal_branch_def stmt_def ebind_def update_branch_row_def Let_def filter_empty_conv split: if_splits)
  then obtain r where r: "r \<in> set (db_branches (sw_data w))" "brow_id r = b" by blast
  then have "?f r \<in> set (db_branches (snd (update_branch_row b ?f (sw_data w))))"
    by (auto simp: update_branch_row_def)
  moreover have "brow_id (?f r) = b" using r(2) by simp
  ultimately show ?thesis using broken_at_parses [OF assms(1), of t r] unfolding data sealed_in_def by blast
qed

section \<open>The harness on a sealed branch\<close>

text \<open>
  C17: take a database in which a branch is sealed, as a promote seals the old main, with time stamps that
  can be read back.  Whatever is sent over the recording queue afterwards, and whatever SQLite rejects, in the
  end \<open>run_agent_with_messages\<close> on any session whose default branch is that branch returns an error and
  leaves everything as it was: no event, no message, no job.  The error is the sealing error whenever
  the session's and the branch's row can be read.  (\<open>run_agent\<close> is not meant here: it trusts the flag its
  caller passes.)
\<close>

theorem sealed_timeline_not_invoked:
  assumes env: "he_store env = sql_dag_store senv" "he_store_of env = rc_store"
    and sealed: "times_parse senv" "sql_db_ok (sw_data (rc_store c))" "sealed_in senv b (sw_data (rc_store c))"
    and run: "(rec_step ext (sql_dag_store senv) mq)\<^sup>*\<^sup>* c (hs_queue s)"
    and default_branch: "\<forall>r \<in> set (db_sessions (sw_data (rc_store (hs_queue s)))). srow_id r = sid \<longrightarrow> srow_default_branch r = b"
  shows "\<exists>e. run_agent_with_messages env n ctl aid ms sid s = Some (Inl e, s) \<and>
     (\<forall>ses br. sql_get_session senv sid (rc_store (hs_queue s)) = Inr (Some ses) \<longrightarrow>
        sql_get_branch senv b (rc_store (hs_queue s)) = Inr br \<longrightarrow> e = sealed_error)"
proof -
  let ?w = "rc_store (hs_queue s)"
  have ok: "sql_db_ok (sw_data ?w)" using sql_rows.rec_run_keeps [OF run sealed(2)] .
  have "sealed_in senv b (sw_data ?w)"
    using store_invariant.rec_run_keeps [OF sql_sealed [OF sealed(1)] run, of b] sealed(3) .
  then obtain r where r: "r \<in> set (db_branches (sw_data ?w))" "brow_id r = b"
      "br_broken_at (branch_row_to_domain senv r) \<noteq> None"
    by (auto simp: sealed_in_def)
  have "find (\<lambda>x. brow_id x = b) (db_branches (sw_data ?w)) = Some r"
    using ok find_unique [of brow_id, OF _ r(1)] r(2) by (simp add: sql_db_ok_def branches_ok_def)
  then have branch: "sql_get_branch senv b ?w = Inr br \<Longrightarrow> br = Some (branch_row_to_domain senv r)" for br
    by (auto simp: sql_get_branch_def query_def split: option.splits)
  have session: "se_default_branch ses = b" if "sql_get_session senv sid ?w = Inr (Some ses)" for ses
    using that default_branch
    by (auto simp: sql_get_session_def session_lookup_def query_def session_row_to_domain_def find_Some_iff
        split: option.splits sum.splits)
  have ctx: "\<exists>e. resolve_session_context env sid ?w = Inl e \<and>
     (\<forall>ses br. sql_get_session senv sid ?w = Inr (Some ses) \<longrightarrow> sql_get_branch senv b ?w = Inr br \<longrightarrow> e = sealed_error)"
  proof (cases "sql_get_session senv sid ?w")
    case (Inr found)
    show ?thesis
    proof (cases found)
      case (Some ses)
      with Inr session have ses: "sql_get_session senv sid ?w = Inr (Some ses)" "se_default_branch ses = b" by auto
      then show ?thesis
        using branch r(3) env
        by (cases "sql_get_branch senv b ?w") (auto simp: resolve_session_context_def sql_dag_store_def Let_def)
    qed (use Inr env in \<open>auto simp: resolve_session_context_def sql_dag_store_def\<close>)
  qed (use env in \<open>auto simp: resolve_session_context_def sql_dag_store_def\<close>)
  then show ?thesis using env by (auto simp: run_agent_with_messages_def hbind_def)
qed

section \<open>Examples\<close>

text \<open>The harness of the API server: a recording queue over SQLite, an empty registry.\<close>

definition example_api_env :: "((dag_db sql_world, mem_queue) rec_state, unit, dag_db sql_world) h_env" where
  "example_api_env =
     \<lparr>he_type = HApi, he_queue = rec_mq_ops example_ext (sql_dag_store (example_sql_env no_sql_fault)) example_mq,
      he_registry = \<lparr>ro_get_agent = \<lambda>_ _. None, ro_get_agent_by_name = \<lambda>_ _. None,
        ro_select_runtime = \<lambda>_ _. None, ro_create_job = \<lambda>_ _ _ _ r. ([], r), ro_update_job_status = \<lambda>_ _ r. r\<rparr>,
      he_store = sql_dag_store (example_sql_env no_sql_fault), he_store_of = rc_store, he_version = ''0.1'',
      he_encode_tool_call = (\<lambda>n _. n), he_arguments_len = (\<lambda>_. 2), he_utf8_lossy = (\<lambda>b. b),
      he_uuid = (\<lambda>n. replicate (Suc n) CHR ''u''), he_now_ms = int, he_elapsed_ms = (\<lambda>_. 5),
      he_decide = (\<lambda>_. Some Approve), he_others = (\<lambda>_ _ w. w)\<rparr>"

text \<open>A session whose branch 1 is sealed, and that is sent an invoke all the same.\<close>

definition example_sealed :: "(dag_db sql_world, mem_queue) rec_state" where
  "example_sealed =
     sql_started\<lparr>rc_store := snd (sql_seal_branch (example_sql_env no_sql_fault) 1 5 (rc_store sql_started))\<rparr>"

definition example_sealed_state :: "((dag_db sql_world, mem_queue) rec_state, unit) h_state" where
  "example_sealed_state =
     \<lparr>hs_queue = snd (rec_send_invoke example_ext (sql_dag_store (example_sql_env no_sql_fault)) example_mq
        example_sql_key (example_invoke ''1'') example_sealed),
      hs_registry = (), hs_sequence = sequence_counter_new, hs_tick = 0, hs_events = []\<rparr>"

lemma example_sealed_rows:
  "map srow_default_branch (db_sessions (sw_data (rc_store (hs_queue example_sealed_state)))) = [1]"
  "sql_get_session (example_sql_env no_sql_fault) ''s1'' (rc_store (hs_queue example_sealed_state)) =
     Inr (Some \<lparr>se_id = ''s1'', se_external_id = ''ext'', se_name = rx_petname example_ext ''s1'', se_agent = ''todo'',
       se_default_branch = 1, se_created_at = 0\<rparr>)"
  "map_sum id (map_option br_id) (sql_get_branch (example_sql_env no_sql_fault) 1 (rc_store (hs_queue example_sealed_state))) =
     Inr (Some 1)"
  by code_simp+

theorem sealed_timeline_not_invoked_witness:
  "fst (sql_seal_branch (example_sql_env no_sql_fault) 1 5 (rc_store sql_started)) = Inr () \<and>
   run_agent_with_messages example_api_env 5 ctl_quiet ''todo'' [] ''s1'' example_sealed_state =
     Some (Inl sealed_error, example_sealed_state)"
proof -
  let ?env = "example_sql_env no_sql_fault"
  have sealing: "fst (sql_seal_branch ?env 1 5 (rc_store sql_started)) = Inr ()" by code_simp
  have times: "times_parse ?env" by (simp add: times_parse_def example_sql_env_def)
  have "sealed_in ?env 1 (sw_data (rc_store example_sealed))"
    using seal_branch_seals [OF times sealing] by (simp add: example_sealed_def)
  moreover have "sql_db_ok (sw_data (rc_store example_sealed))"
    using epreservesD [OF sql_row_ops_ok(3) sql_started_ok] by (simp add: example_sealed_def)
  moreover have "(rec_step example_ext (sql_dag_store ?env) example_mq)\<^sup>*\<^sup>* example_sealed (hs_queue example_sealed_state)"
    by (simp add: example_sealed_state_def r_into_rtranclp st_invoke)
  moreover have "\<forall>r \<in> set (db_sessions (sw_data (rc_store (hs_queue example_sealed_state)))). srow_default_branch r = 1"
    using example_sealed_rows(1) by (auto simp: map_eq_Cons_conv)
  ultimately obtain e where e:
      "run_agent_with_messages example_api_env 5 ctl_quiet ''todo'' [] ''s1'' example_sealed_state =
         Some (Inl e, example_sealed_state)"
      "\<forall>ses br. sql_get_session ?env ''s1'' (rc_store (hs_queue example_sealed_state)) = Inr (Some ses) \<longrightarrow>
         sql_get_branch ?env 1 (rc_store (hs_queue example_sealed_state)) = Inr br \<longrightarrow> e = sealed_error"
    using sealed_timeline_not_invoked [where env = example_api_env and senv = ?env and c = example_sealed and b = 1
        and ext = example_ext and mq = example_mq and s = example_sealed_state and sid = "''s1''" and n = 5
        and ctl = ctl_quiet and aid = "''todo''" and ms = "[]"] times
    by (auto simp: example_api_env_def)
  have "\<exists>br. sql_get_branch ?env 1 (rc_store (hs_queue example_sealed_state)) = Inr br"
    using example_sealed_rows(3) by (cases "sql_get_branch ?env 1 (rc_store (hs_queue example_sealed_state))") simp_all
  with e example_sealed_rows(2) have "e = sealed_error" by blast
  with e(1) sealing show ?thesis by simp
qed

end
