(* ===== verification/OpenAiRun.thy ===== *)
theory OpenAiRun
  imports OpenAi SealedTimelines
begin

text \<open>
  The OpenAI-compatible API at work: an answer that a client sends back is understood, a streamed answer is
  the unstreamed one, and a header names one session over the recording queue and \<open>SqliteDagStore\<close>.
\<close>

section \<open>Answers\<close>

lemma tool_call_roundtrip:
  "oa_parse_json oa (oa_print_json oa (tc_arguments tc)) = Some (tc_arguments tc) \<Longrightarrow>
     tool_call_from_json oa (JObject (tool_call_to_json oa tc)) = Some tc"
  by (simp add: tool_call_from_json_def tool_call_to_json_def json_text_def unwrap_or_def)

lemma tool_calls_roundtrip:
  "\<forall>tc \<in> set tcs. oa_parse_json oa (oa_print_json oa (tc_arguments tc)) = Some (tc_arguments tc) \<Longrightarrow>
     List.map_filter (tool_call_from_json oa) (map (\<lambda>tc. JObject (tool_call_to_json oa tc)) tcs) = tcs"
  by (induction tcs) (simp_all add: List.map_filter_simps tool_call_roundtrip)

text \<open>
  C30: the assistant message of an answer, sent back by the client as part of its history, is read as the
  content and the tool calls it was made from, ids and arguments included; only an answer without content
  comes back with the empty text.
\<close>

theorem assistant_answer_roundtrip:
  assumes "\<forall>tc \<in> set (unwrap_or [] (rr_pending_tool_calls result)).
             oa_parse_json oa (oa_print_json oa (tc_arguments tc)) = Some (tc_arguments tc)"
  shows "\<exists>msg. choices_to_json oa result =
             JArray [JObject [(''index'', JNumber ''0''), (''message'', msg), (''finish_reason'', finish_reason result)]] \<and>
           messages_from_json oa fresh k [msg] =
             ([Agent (Some (unwrap_or [] (rr_content result))) (rr_pending_tool_calls result)], k)"
  using assms
  by (auto simp: choices_to_json_def message_from_json_def json_text_def extract_text_content_def
      tool_calls_roundtrip split: option.splits)

section \<open>Streams\<close>

text \<open>What a client of server-sent events reads: the payload of every data line.\<close>

definition sse_data :: "string \<Rightarrow> string list" where
  "sse_data body =
     List.map_filter (\<lambda>l. if prefix ''data: '' l then Some (drop 6 l) else None) (split_on (CHR 0x0A) body)"

definition json_field :: "json \<Rightarrow> string \<Rightarrow> json" where
  "json_field v k = unwrap_or JNull (json_get v k)"

definition first_choice :: "json \<Rightarrow> json" where
  "first_choice v = (case json_field v ''choices'' of JArray (c # _) \<Rightarrow> c | _ \<Rightarrow> JNull)"

fun with_index_0 :: "json \<Rightarrow> json" where
  "with_index_0 (JObject kvs) = JObject ((''index'', JNumber ''0'') # kvs)"
| "with_index_0 v = v"

lemma sse_data_event:
  assumes "CHR 0x0A \<notin> set p"
  shows "sse_data (sse_event p @ rest) = p # sse_data rest"
  using assms by (simp add: sse_data_def sse_event_def List.map_filter_simps)

lemma sse_data_nil [simp]: "sse_data [] = []"
  by (simp add: sse_data_def List.map_filter_simps)

lemma sse_data_done: "sse_data (sse_event ''[DONE]'') = [''[DONE]'']"
  using sse_data_event [of "''[DONE]''" "[]"] by simp

lemma with_index_0_calls:
  "map with_index_0 (map (\<lambda>tc. JObject (tool_call_to_json oa tc)) tcs) =
     map (\<lambda>tc. JObject ((''index'', JNumber ''0'') # tool_call_to_json oa tc)) tcs"
  by simp

text \<open>
  C29: with a printer that writes no line feed, a streamed answer is four events and the end mark, and they
  carry what the unstreamed answer to the same run carries: its content, its tool calls, its finish reason
  and its traces.  Every tool call of the stream has the index 0, however many there are.
\<close>

theorem stream_carries_answer:
  assumes "\<forall>v. CHR 0x0A \<notin> set (oa_print_json oa v)"
  shows "\<exists>body s1 whole s2 role content finish extra.
     build_sse_response env oa model result s = Some (Inr body, s1) \<and>
     build_chat_completion_response env oa model result s = Some (Inr whole, s2) \<and>
     sse_data body = map (oa_print_json oa) [role, content, finish, extra] @ [''[DONE]''] \<and>
     (let delta = json_field (first_choice content) ''delta''; msg = json_field (first_choice whole) ''message''
      in json_field delta ''content'' = json_field msg ''content'' \<and>
         json_as_array (json_field delta ''tool_calls'') =
           map_option (map with_index_0) (json_as_array (json_field msg ''tool_calls''))) \<and>
     json_field (first_choice finish) ''finish_reason'' = json_field (first_choice whole) ''finish_reason'' \<and>
     json_field extra ''vlinder'' = json_field whole ''vlinder''"
proof -
  have data: "sse_data (sse_event (oa_print_json oa v) @ rest) = oa_print_json oa v # sse_data rest" for v rest
    using assms by (simp add: sse_data_event)
  show ?thesis
    by (intro exI conjI, (simp add: build_sse_response_def hbind_def tick_def hstep_def hret_def Let_def; fail),
        (simp add: build_chat_completion_response_def hbind_def tick_def hstep_def hret_def Let_def; fail),
        (simp add: data sse_data_done; fail))
      (auto simp: json_field_def first_choice_def chunk_def content_delta_def choices_to_json_def Let_def
        split: option.splits)
qed

section \<open>Sessions over SQLite\<close>

text \<open>What starting a session with a fresh id, name and external id stores.\<close>

lemma sql_session_started:
  assumes "se_fault senv = no_sql_fault" and "sk_kind key = SkStart agent"
    and "d = sw_data (rc_store c)" and "sql_db_ok d"
    and "sk_session key \<notin> srow_id ` set (db_sessions d)"
    and "rx_petname ext (sk_session key) \<notin> srow_name ` set (db_sessions d)"
    and "eid \<notin> srow_external_id ` set (db_sessions d)"
  shows "\<exists>c'. rec_send_session_start ext (sql_dag_store senv) mq key msg eid c = (Inr (db_next_branch d), c') \<and>
     sw_data (rc_store c') = d\<lparr>
       db_sessions := db_sessions d @
         [\<lparr>srow_id = sk_session key, srow_external_id = eid, srow_name = rx_petname ext (sk_session key),
           srow_agent_name = agent, srow_default_branch = db_next_branch d,
           srow_created_at = time_str senv (rx_clock ext (rc_ticks c))\<rparr>],
       db_branches := db_branches d @
         [\<lparr>brow_id = db_next_branch d, brow_name = ''main'', brow_session_id = sk_session key,
           brow_fork_point = None, brow_head = None,
           brow_created_at = time_str senv (rx_clock ext (Suc (rc_ticks c))), brow_broken_at = None\<rparr>],
       db_next_branch := db_next_branch d + 1\<rparr>"
proof -
  have main: "(''main'', sk_session key) \<notin> (\<lambda>r. (brow_name r, brow_session_id r)) ` set (db_branches d)"
    using assms(4,5) by (auto simp: sql_db_ok_def branches_ok_def)
  have others: "map (\<lambda>r. if srow_id r = sk_session key then r\<lparr>srow_default_branch := b\<rparr> else r) (db_sessions d)
      = db_sessions d" for b
    by (rule map_idI) (metis assms(5) image_eqI)
  have none: "filter (\<lambda>r. srow_id r = sk_session key) (db_sessions d) = []"
    by (simp add: filter_empty_conv) (metis assms(5) image_eqI)
  let ?ses = "session_new (rx_petname ext) (rx_clock ext (rc_ticks c)) (sk_session key) eid agent 1"
  let ?row = "\<lparr>srow_id = sk_session key, srow_external_id = eid, srow_name = rx_petname ext (sk_session key),
           srow_agent_name = agent, srow_default_branch = 1,
           srow_created_at = time_str senv (rx_clock ext (rc_ticks c))\<rparr>"
  let ?d1 = "d\<lparr>db_sessions := db_sessions d @ [?row]\<rparr>"
  have create: "sql_create_session senv ?ses w = (Inr (), \<lparr>sw_tick = Suc (sw_tick w), sw_data = ?d1\<rparr>)"
    if "sw_data w = d" for w
    using that assms(5-7)
    by (simp add: sql_create_session_def stmt_no_fault [OF assms(1)] insert_session_row_def session_new_def)
  have branch: "sql_create_branch senv now ''main'' (sk_session key) None w =
      (Inr (db_next_branch d), \<lparr>sw_tick = Suc (sw_tick w), sw_data = ?d1\<lparr>
         db_branches := db_branches d @ [\<lparr>brow_id = db_next_branch d, brow_name = ''main'',
           brow_session_id = sk_session key, brow_fork_point = None, brow_head = None,
           brow_created_at = time_str senv now, brow_broken_at = None\<rparr>],
         db_next_branch := db_next_branch d + 1\<rparr>\<rparr>)"
    if "sw_data w = ?d1" for w now
    using that main
    by (simp add: sql_create_branch_def ebind_def stmt_no_fault [OF assms(1)] query_no_fault [OF assms(1)]
        insert_branch_row_def)
  have update: "snd (sql_update_session_default_branch senv (sk_session key) b w) =
      \<lparr>sw_tick = Suc (sw_tick w), sw_data = d'\<lparr>db_sessions := db_sessions d @ [?row\<lparr>srow_default_branch := b\<rparr>]\<rparr>\<rparr>"
    if "sw_data w = d'" and "db_sessions d' = db_sessions d @ [?row]" for w b d'
    using that
    by (simp add: sql_update_session_default_branch_def ebind_def stmt_no_fault [OF assms(1)] none others)
  show ?thesis
    using assms(2)
    by (simp add: rec_send_session_start_def rec_now_def Let_def sql_dag_store_def create assms(3) [symmetric]
        branch update on_inner_def result_or_def split_beta)
qed

lemma session_lookup_run:
  assumes "se_fault senv = no_sql_fault"
  shows "session_lookup senv ctx p w =
    (case find p (db_sessions (sw_data w)) of
       None \<Rightarrow> Inr None
     | Some r \<Rightarrow> map_sum id Some (session_row_to_domain senv r))"
  by (simp add: session_lookup_def query_no_fault [OF assms] split: option.split sum.split)

lemma find_key_absent: "k \<notin> f ` set xs \<Longrightarrow> find (\<lambda>r. f r = k) xs = None"
  by (auto simp: find_None_iff)

lemma find_key_new: "k \<notin> f ` set xs \<Longrightarrow> f x = k \<Longrightarrow> find (\<lambda>r. f r = k) (xs @ [x]) = Some x"
  by (simp add: find_append find_key_absent)

lemma new_branch_unused:
  assumes "sql_db_ok d" and "r \<in> set (db_nodes d)"
  shows "nr_branch_id r \<noteq> Some (db_next_branch d)"
proof
  assume "nr_branch_id r = Some (db_next_branch d)"
  moreover have "references (brow_id ` set (db_branches d)) (nr_branch_id r)"
    using assms by (simp add: sql_db_ok_def nodes_ok_def)
  ultimately have "db_next_branch d \<in> brow_id ` set (db_branches d)" by (simp add: references_def)
  then show False using assms(1) by (auto simp: sql_db_ok_def branches_ok_def)
qed

lemma agent_match: "se_agent ses = m \<Longrightarrow> check_agent_mismatch ses m i = Inr ()"
  by (simp add: check_agent_mismatch_def)

lemma agent_mismatch:
  "se_agent ses \<noteq> m \<Longrightarrow> \<exists>resp. check_agent_mismatch ses m i = Inl resp \<and> hp_status resp = 409"
  by (simp add: check_agent_mismatch_def error_response_def json_response_def)

lemma resolve_known:
  assumes "oa_header_str oa raw = Some s" and "external_session_id_new s = Inr e"
    and "find_session (he_store env) oa s e (he_store_of env (hs_queue st)) = Inr (Some ses)"
  shows "resolve_or_create_session env oa (Some raw) m st =
           Some (Inr (map_sum id (\<lambda>_. se_id ses) (check_agent_mismatch ses m e)), st)"
  using assms by (simp add: resolve_or_create_session_def hret_def split: sum.split)

text \<open>However the queue is used afterwards, the row of a session is found by its external id.\<close>

lemma session_found_later:
  assumes run: "(rec_step ext (sql_dag_store senv) mq)\<^sup>*\<^sup>* c c'"
    and start: "sql_db_ok (sw_data (rc_store c))" "promotes_ok (sw_data (rc_store c))" "row \<in> set (db_sessions (sw_data (rc_store c)))"
    and sql: "se_fault senv = no_sql_fault" "se_is_uuid senv (srow_id row)"
      "external_session_id_new (srow_external_id row) = Inr (srow_external_id row)"
      "dec (se_time senv) (srow_created_at row) = Inr t"
  shows "\<exists>ses. find_session (sql_dag_store senv) oa s (srow_external_id row) (rc_store c') = Inr (Some ses) \<and>
     se_id ses = srow_id row \<and> se_agent ses = srow_agent_name row"
proof -
  have "sql_ok (rc_store c')" using sql_rows.rec_run_keeps [OF run start(1)] .
  then have distinct: "distinct (map srow_external_id (db_sessions (sw_data (rc_store c'))))"
    by (simp add: sql_db_ok_def sessions_ok_def)
  have "kept {srow_key row} (rc_store c)" using start by (auto simp: rows_kept_def)
  then have "kept {srow_key row} (rc_store c')" by (rule sql_kept.rec_run_keeps [OF run])
  then obtain r where r: "r \<in> set (db_sessions (sw_data (rc_store c')))" "srow_key r = srow_key row"
    by (force simp: rows_kept_def)
  then have found: "find (\<lambda>x. srow_external_id x = srow_external_id row) (db_sessions (sw_data (rc_store c'))) = Some r"
    using find_unique [OF distinct r(1)] by (simp add: srow_key_def)
  show ?thesis
    using r(2) sql(2-)
    by (simp add: find_session_def sql_dag_store_def sql_get_session_by_external_id_def session_lookup_run [OF sql(1)]
        found srow_key_def session_row_to_domain_def session_id_try_from_def)
qed

text \<open>
  C24: take a header whose text is an external id that no session of the database has, a fresh UUID and a
  petname that is free, and a database no statement of which is rejected.  The request starts a session
  with a branch of its own and nothing on it.  From then on, whatever is sent over the recording queue in
  between, runs and further sessions included, a request with that header gets that session, starts none and
  changes nothing, unless it asks for another agent, which is refused with 409.
\<close>

theorem header_names_one_session:
  fixes env oa ext senv mq st s model
  defines "sid \<equiv> he_uuid env (hs_tick st)" and "d \<equiv> sw_data (rc_store (hs_queue st))"
  assumes env: "he_queue env = rec_mq_ops ext (sql_dag_store senv) mq" "he_store env = sql_dag_store senv"
      "he_store_of env = rc_store"
    and header: "oa_header_str oa raw = Some s" "external_session_id_new s = Inr s"
    and sql: "se_fault senv = no_sql_fault" "scans_ok senv" "sql_db_ok d" "se_is_uuid senv sid"
      "dec (se_time senv) (time_str senv (rx_clock ext (rc_ticks (hs_queue st)))) = Inr t" "promotes_ok d"
    and fresh: "s \<notin> srow_external_id ` set (db_sessions d)" "s \<notin> srow_id ` set (db_sessions d)"
      "sid \<notin> srow_id ` set (db_sessions d)" "rx_petname ext sid \<notin> srow_name ` set (db_sessions d)"
  shows "\<exists>st'. resolve_or_create_session env oa (Some raw) model st = Some (Inr (Inr sid), st') \<and>
     resolve_session_context env sid (rc_store (hs_queue st')) = Inr (db_next_branch d, dag_node_id_root, None) \<and>
     (\<forall>later. (rec_step ext (sql_dag_store senv) mq)\<^sup>*\<^sup>* (hs_queue st') (hs_queue later) \<longrightarrow>
        resolve_or_create_session env oa (Some raw) model later = Some (Inr (Inr sid), later) \<and>
        (\<forall>other. other \<noteq> model \<longrightarrow> (\<exists>resp. resolve_or_create_session env oa (Some raw) other later =
           Some (Inr (Inl resp), later) \<and> hp_status resp = 409)))"
proof -
  let ?c = "hs_queue st"
  let ?row = "\<lparr>srow_id = sid, srow_external_id = s, srow_name = rx_petname ext sid, srow_agent_name = model,
    srow_default_branch = db_next_branch d, srow_created_at = time_str senv (rx_clock ext (rc_ticks ?c))\<rparr>"
  let ?key = "\<lparr>sk_session = sid, sk_submission = he_uuid env (Suc (hs_tick st)), sk_kind = SkStart model\<rparr>"
  let ?msg = "\<lparr>ss_id = he_uuid env (Suc (Suc (hs_tick st)))\<rparr>"
  obtain c' br where start: "rec_send_session_start ext (sql_dag_store senv) mq ?key ?msg s ?c =
        (Inr (db_next_branch d), c')"
    and ses: "db_sessions (sw_data (rc_store c')) = db_sessions d @ [?row]"
    and brs: "db_branches (sw_data (rc_store c')) = db_branches d @ [br]" "brow_id br = db_next_branch d"
      "brow_broken_at br = None" "brow_fork_point br = None"
    and nodes: "db_nodes (sw_data (rc_store c')) = db_nodes d"
    using sql_session_started [where senv = senv and key = ?key and agent = model and d = d and c = ?c
        and ext = ext and eid = s and mq = mq and msg = ?msg] sql fresh by (auto simp: d_def)
  have step: "(rec_step ext (sql_dag_store senv) mq)\<^sup>*\<^sup>* ?c c'"
    using st_session_start [of ext "sql_dag_store senv" mq ?c ?key ?msg s] by (simp add: start)
  have ok: "sql_db_ok (sw_data (rc_store c'))" "promotes_ok (sw_data (rc_store c'))"
    using sql_rows.rec_run_keeps [OF step] sql_kept.rec_run_keeps [OF step, of "{}"] sql(3,6)
    by (simp_all add: rows_kept_def d_def)
  define st' where "st' = st\<lparr>hs_tick := Suc (Suc (Suc (hs_tick st))), hs_queue := c'\<rparr>"
  note lookup = sql_dag_store_def sql_get_session_by_external_id_def sql_get_session_def
    session_lookup_run [OF sql(1)]
  have row: "session_row_to_domain senv ?row = Inr \<lparr>se_id = sid, se_external_id = s, se_name = rx_petname ext sid,
      se_agent = model, se_default_branch = db_next_branch d, se_created_at = t\<rparr>"
    using sql header by (simp add: session_row_to_domain_def session_id_try_from_def)
  have unknown: "find_session (sql_dag_store senv) oa s s (rc_store ?c) = Inr None"
    using fresh by (simp add: find_session_def lookup find_key_absent d_def session_id_try_from_def)
  have first: "resolve_or_create_session env oa (Some raw) model st = Some (Inr (Inr sid), st')"
    using env header
    by (simp add: resolve_or_create_session_def unknown start_session_def hbind_def tick_def hstep_def hret_def
        on_queue_def rec_mq_ops_def start [unfolded sid_def] st'_def sid_def)
  have later: "\<exists>ses. se_agent ses = model \<and> resolve_or_create_session env oa (Some raw) m later =
      Some (Inr (map_sum id (\<lambda>_. sid) (check_agent_mismatch ses m s)), later)"
    if "(rec_step ext (sql_dag_store senv) mq)\<^sup>*\<^sup>* (hs_queue st') (hs_queue later)" for later m
  proof -
    have "\<exists>ses. find_session (sql_dag_store senv) oa s s (rc_store (hs_queue later)) = Inr (Some ses) \<and>
        se_id ses = sid \<and> se_agent ses = model"
      using session_found_later [OF _ ok, where row = ?row, unfolded session_row.simps, OF _ _ sql(1,4) header(2) sql(5)]
        that ses by (simp add: st'_def)
    then show ?thesis using resolve_known [OF header, of env later] env by auto
  qed
  have "nr_branch_id r \<noteq> Some (db_next_branch d)" if "r \<in> set (db_nodes d)" for r
    using sql(3) that new_branch_unused by blast
  then have empty: "oldest_first senv (\<lambda>r. nr_branch_id r = Some (db_next_branch d)) (sw_data (rc_store c')) = []"
    using scans_ok_sets(1) [OF sql(2), of "[]"]
    by (simp add: oldest_first_def rows_where_def nodes filter_empty_conv)
  have "find (\<lambda>r. brow_id r = db_next_branch d) (db_branches d @ [br]) = Some br"
    using sql(3) brs(2) by (intro find_key_new) (auto simp: sql_db_ok_def branches_ok_def)
  then have "resolve_session_context env sid (rc_store (hs_queue st')) = Inr (db_next_branch d, dag_node_id_root, None)"
    using fresh env brs empty
    by (simp add: resolve_session_context_def st'_def lookup ses find_key_new row sql_get_branch_def
        query_no_fault [OF sql(1)] branch_row_to_domain_def sql_latest_node_on_branch_def result_or_def)
  moreover have "resolve_or_create_session env oa (Some raw) model w = Some (Inr (Inr sid), w) \<and>
      (\<forall>other. other \<noteq> model \<longrightarrow> (\<exists>resp. resolve_or_create_session env oa (Some raw) other w =
         Some (Inr (Inl resp), w) \<and> hp_status resp = 409))"
    if run: "(rec_step ext (sql_dag_store senv) mq)\<^sup>*\<^sup>* (hs_queue st') (hs_queue w)" for w
  proof (intro conjI allI impI)
    obtain ses where "se_agent ses = model" "resolve_or_create_session env oa (Some raw) model w =
        Some (Inr (map_sum id (\<lambda>_. sid) (check_agent_mismatch ses model s)), w)"
      using later [OF run] by blast
    then show "resolve_or_create_session env oa (Some raw) model w = Some (Inr (Inr sid), w)"
      by (simp add: agent_match)
  next
    fix other assume other: "other \<noteq> model"
    obtain ses where ses: "se_agent ses = model" "resolve_or_create_session env oa (Some raw) other w =
        Some (Inr (map_sum id (\<lambda>_. sid) (check_agent_mismatch ses other s)), w)"
      using later [OF run] by blast
    with other obtain resp where "check_agent_mismatch ses other s = Inl resp" "hp_status resp = 409"
      using agent_mismatch [of ses other s] by auto
    with ses(2) show "\<exists>resp. resolve_or_create_session env oa (Some raw) other w = Some (Inr (Inl resp), w) \<and>
        hp_status resp = 409" by simp
  qed
  ultimately show ?thesis using first by (intro exI [of _ st'] conjI allI impI) simp_all
qed

section \<open>Examples\<close>

text \<open>A printer and a parser for the JSON the examples need.\<close>

definition example_oa_env :: oa_env where
  "example_oa_env =
     \<lparr>oa_parse_json = (\<lambda>s. if s = ''{}'' then Some (JObject []) else None), oa_print_json = (\<lambda>_. ''{}''),
      oa_header_str = Some, oa_external_id_error = (\<lambda>_. []), oa_is_uuid = (\<lambda>_. False), oa_clock = int\<rparr>"

definition example_answer :: run_result where
  "example_answer =
     \<lparr>rr_content = Some ''hi'',
      rr_pending_tool_calls = Some [\<lparr>tc_id = ''c1'', tc_name = ''search'', tc_arguments = JObject []\<rparr>],
      rr_turns = [], rr_state_snapshot = None\<rparr>"

definition example_api_state :: "((dag_db sql_world, mem_queue) rec_state, unit) h_state" where
  "example_api_state =
     \<lparr>hs_queue = sql_start, hs_registry = (), hs_sequence = sequence_counter_new, hs_tick = 0, hs_events = []\<rparr>"

lemma example_oa_env_simps [simp]:
  "oa_parse_json example_oa_env ''{}'' = Some (JObject [])" "oa_print_json example_oa_env v = ''{}''"
  "oa_header_str example_oa_env = Some" "oa_is_uuid example_oa_env i = False"
  by (simp_all add: example_oa_env_def)

lemma example_answer_simps [simp]:
  "rr_content example_answer = Some ''hi''"
  "rr_pending_tool_calls example_answer =
     Some [\<lparr>tc_id = ''c1'', tc_name = ''search'', tc_arguments = JObject []\<rparr>]"
  by (simp_all add: example_answer_def)

lemma example_api_simps:
  "he_queue example_api_env = rec_mq_ops example_ext (sql_dag_store (example_sql_env no_sql_fault)) example_mq"
  "he_store example_api_env = sql_dag_store (example_sql_env no_sql_fault)" "he_store_of example_api_env = rc_store"
  "he_uuid example_api_env 0 = ''u''" "hs_tick example_api_state = 0" "hs_queue example_api_state = sql_start"
  "external_session_id_new ''my-chat'' = Inr ''my-chat''" "scans_ok (example_sql_env no_sql_fault)"
  "se_fault (example_sql_env no_sql_fault) = no_sql_fault" "se_is_uuid (example_sql_env no_sql_fault) i"
  "dec (se_time (example_sql_env no_sql_fault)) (time_str (example_sql_env no_sql_fault) (rx_clock example_ext 0)) = Inr 0"
  "sw_data (rc_store sql_start) = dag_db_empty" "rc_ticks sql_start = 0" "promotes_ok dag_db_empty"
  "db_sessions dag_db_empty = []" "db_next_branch dag_db_empty = 1"
  by (simp_all add: example_api_env_def example_api_state_def example_sql_env_def sql_start_def scans_ok_def
      external_session_id_new_def ascii_alphanumeric_def promotes_ok_def time_str_def result_or_def example_ext_def
      dag_db_empty_def)

theorem assistant_answer_roundtrip_witness:
  "\<exists>msg. messages_from_json example_oa_env (\<lambda>_. []) 0 [msg] =
     ([Agent (Some ''hi'') (Some [\<lparr>tc_id = ''c1'', tc_name = ''search'', tc_arguments = JObject []\<rparr>])], 0)"
  using assistant_answer_roundtrip [where result = example_answer and oa = example_oa_env and fresh = "\<lambda>_. []" and k = 0]
  by (simp del: messages_from_json.simps) blast

theorem stream_carries_answer_witness:
  "\<exists>body s1. build_sse_response example_api_env example_oa_env ''todo'' example_answer example_api_state =
     Some (Inr body, s1) \<and> sse_data body = [''{}'', ''{}'', ''{}'', ''{}'', ''[DONE]'']"
  using stream_carries_answer [where oa = example_oa_env and env = example_api_env and model = "''todo''"
      and result = example_answer and s = example_api_state]
  by simp blast

theorem header_names_one_session_witness:
  "\<exists>st'. resolve_or_create_session example_api_env example_oa_env (Some ''my-chat'') ''todo'' example_api_state =
       Some (Inr (Inr ''u''), st') \<and>
     resolve_session_context example_api_env ''u'' (rc_store (hs_queue st')) = Inr (1, dag_node_id_root, None) \<and>
     (\<forall>c. (rec_step example_ext (sql_dag_store (example_sql_env no_sql_fault)) example_mq)\<^sup>*\<^sup>* (hs_queue st') c \<longrightarrow>
        resolve_or_create_session example_api_env example_oa_env (Some ''my-chat'') ''todo'' (st'\<lparr>hs_queue := c\<rparr>) =
          Some (Inr (Inr ''u''), st'\<lparr>hs_queue := c\<rparr>))"
proof -
  have "\<exists>st'. resolve_or_create_session example_api_env example_oa_env (Some ''my-chat'') ''todo'' example_api_state =
        Some (Inr (Inr ''u''), st') \<and>
      resolve_session_context example_api_env ''u'' (rc_store (hs_queue st')) = Inr (1, dag_node_id_root, None) \<and>
      (\<forall>later. (rec_step example_ext (sql_dag_store (example_sql_env no_sql_fault)) example_mq)\<^sup>*\<^sup>* (hs_queue st')
          (hs_queue later) \<longrightarrow>
        resolve_or_create_session example_api_env example_oa_env (Some ''my-chat'') ''todo'' later =
          Some (Inr (Inr ''u''), later) \<and>
        (\<forall>other. other \<noteq> ''todo'' \<longrightarrow> (\<exists>resp. resolve_or_create_session example_api_env example_oa_env
           (Some ''my-chat'') other later = Some (Inr (Inl resp), later) \<and> hp_status resp = 409)))"
    using header_names_one_session [where env = example_api_env and oa = example_oa_env and ext = example_ext
        and senv = "example_sql_env no_sql_fault" and mq = example_mq and st = example_api_state and s = "''my-chat''"
        and raw = "''my-chat''" and model = "''todo''" and t = 0]
    by (simp add: example_api_simps del: split_paired_Ex)
  then show ?thesis by (elim exE) (rule exI, auto)
qed

section \<open>History\<close>

lemma messages_from_json_append:
  "messages_from_json oa fresh k (xs @ ys) =
     (case messages_from_json oa fresh k xs of (a, k1) \<Rightarrow>
      case messages_from_json oa fresh k1 ys of (b, k2) \<Rightarrow> (a @ b, k2))"
  by (induction xs arbitrary: k) (auto split: prod.split option.split)

lemma hbind_run_cong: "(\<And>x s'. f x s' = g x s') \<Longrightarrow> hbind m f s = hbind m g s"
  by (simp add: hbind_def split: option.split sum.split)

lemma json_text_cong: "json_get r k = json_get r' k \<Longrightarrow> json_text r k = json_text r' k"
  by (simp add: json_text_def)

definition request_messages :: "json \<Rightarrow> json list" where
  "request_messages req = unwrap_or [] (Option.bind (json_get req ''messages'') json_as_array)"

text \<open>
  Of the messages of a request only the last counts: two requests that differ in the messages before it
  get the same response and leave the same state, as long as those messages bring the ids of their tool
  results.
\<close>

theorem chat_history_ignored:
  assumes "\<forall>k. k \<noteq> ''messages'' \<longrightarrow> json_get req k = json_get req' k"
    and "request_messages req = ms @ [m]" and "request_messages req' = ms' @ [m]"
    and "\<forall>k. \<exists>x k'. message_from_json oa (he_uuid env) k m = (Some x, k')"
    and "\<forall>k. snd (messages_from_json oa (he_uuid env) k ms) = k"
    and "\<forall>k. snd (messages_from_json oa (he_uuid env) k ms') = k"
  shows "chat_completions env oa n header req s = chat_completions env oa n header req' s"
proof -
  have same: "json_text req ''model'' = json_text req' ''model''" "json_get req ''stream'' = json_get req' ''stream''"
    using assms(1) by (auto intro: json_text_cong)
  have run: "hbind (take_messages env oa (ms @ [m])) (\<lambda>messages.
        hbind (hcatch (run_agent_with_messages env n ctl_quiet aid messages sid)) f) s =
      hbind (take_messages env oa (ms' @ [m])) (\<lambda>messages.
        hbind (hcatch (run_agent_with_messages env n ctl_quiet aid messages sid)) f) s" for aid sid f s
  proof -
    obtain x k' where x: "message_from_json oa (he_uuid env) (hs_tick s) m = (Some x, k')" using assms(4) by blast
    obtain a where a: "messages_from_json oa (he_uuid env) (hs_tick s) ms = (a, hs_tick s)"
      using assms(5) by (metis prod.collapse)
    obtain b where b: "messages_from_json oa (he_uuid env) (hs_tick s) ms' = (b, hs_tick s)"
      using assms(6) by (metis prod.collapse)
    have t: "take_messages env oa (ms @ [m]) s = Some (Inr (a @ [x]), s\<lparr>hs_tick := k'\<rparr>)"
        "take_messages env oa (ms' @ [m]) s = Some (Inr (b @ [x]), s\<lparr>hs_tick := k'\<rparr>)"
      by (simp_all add: take_messages_def hstep_def messages_from_json_append a b x)
    show ?thesis
      using provided_history_ignored [of env n ctl_quiet aid a x sid "s\<lparr>hs_tick := k'\<rparr>" b]
      by (simp add: hbind_def t hcatch_def)
  qed
  note msgs = assms(2,3) [unfolded request_messages_def]
  show ?thesis
    unfolding chat_completions_def Let_def same msgs
    apply (rule hbind_run_cong)
    subgoal for agent s1
      apply (cases agent)
       apply (simp only: option.case)
      apply (simp only: option.case)
      apply (rule hbind_run_cong)
      subgoal for a resolved s2
        by (cases resolved) (simp_all only: sum.case run)
      done
    done
qed

theorem chat_history_ignored_witness:
  "chat_completions example_api_env example_oa_env n h
     (JObject [(''messages'', JArray [JObject [(''role'', JString ''system''), (''content'', JString ''be brief'')],
                                      JObject [(''role'', JString ''user''), (''content'', JString ''hi'')]])]) s =
   chat_completions example_api_env example_oa_env n h
     (JObject [(''messages'', JArray [JObject [(''role'', JString ''user''), (''content'', JString ''hi'')]])]) s"
  by (rule chat_history_ignored
        [where ms = "[JObject [(''role'', JString ''system''), (''content'', JString ''be brief'')]]" and ms' = "[]"
          and m = "JObject [(''role'', JString ''user''), (''content'', JString ''hi'')]"])
    (simp_all add: request_messages_def unwrap_or_def message_from_json_def json_text_def)

end
