(* ===== verification/ContainerPool.thy ===== *)
theory ContainerPool
  imports Repository "HOL-Library.AList" "HOL-Library.Sublist"
begin

text \<open>
  The container runtime (\<open>crates/vlinder-podman-runtime/src/pool.rs\<close>, with the trait and the credential
  files of \<open>podman_client.rs\<close>): one pod per agent, started, torn down and reconciled with the registry.

  The Podman engine is a parameter: a call is a value of \<open>podman_call\<close> and its answer may depend on every
  call made before and its answer, which the runtime's state keeps as a log.  \<open>Inl\<close> is a failed call
  (for \<open>PcIsPodLive\<close> a pod that is not live, for \<open>PcImageDigest\<close> an image without digest); calls whose
  outcome the code ignores are logged all the same.  The agents the registry holds are an argument of each
  \<open>tick\<close>, since others register and delete agents between ticks; the repository is the trait of
  \<open>Repository\<close>.  Parameters besides: the clock and the Unicode table of white space.
  The map of pods is an association list; its order shows in the order of the log's calls only.
\<close>

section \<open>Text\<close>

text \<open>\<open>str::replace\<close>, for a pattern that is not empty.\<close>

function replace_str :: "string \<Rightarrow> string \<Rightarrow> string \<Rightarrow> string" where
  "replace_str pat r [] = []"
| "replace_str pat r (c # s) =
     (if pat \<noteq> [] \<and> prefix pat (c # s) then r @ replace_str pat r (drop (length pat - 1) s)
      else c # replace_str pat r s)"
  by pat_completeness auto
termination
  by (relation "measure (\<lambda>(pat, r, s). length s)") auto

definition parse_u16 :: "string \<Rightarrow> nat option" where
  "parse_u16 s =
     (let ds = (case s of c # cs \<Rightarrow> if c = CHR ''+'' then cs else s | [] \<Rightarrow> s)
      in Option.bind (parse_digits ds) (\<lambda>n. if n < 2 ^ 16 then Some n else None))"

definition trim_end_slashes :: "string \<Rightarrow> string" where
  "trim_end_slashes s = rev (dropWhile (\<lambda>c. c = CHR ''/'') (rev s))"

definition extract_port :: "string \<Rightarrow> nat \<Rightarrow> nat" where
  "extract_port url fallback = unwrap_or fallback (parse_u16 (trim_end_slashes (last (split_on (CHR '':'') url))))"

definition rewrite_host_for_container :: "string \<Rightarrow> string" where
  "rewrite_host_for_container url =
     replace_str ''127.0.0.1'' ''host.containers.internal'' (replace_str ''localhost'' ''host.containers.internal'' url)"

section \<open>The Podman client\<close>

type_synonym pod_id = string

datatype podman_call =
    PcImageDigest string
  | PcPodCreate string "string list"
  | PcContainerInPod string pod_id "(string \<times> string) list" "(string \<times> string) list"
  | PcVolumeCreate string string "(string \<times> string) list"
  | PcVolumeRm string
  | PcIsPodLive pod_id
  | PcPodStart pod_id
  | PcPodStopAndRemove pod_id nat
  | PcWriteCredentials string string
  | PcRemoveCredentials string

type_synonym podman_log = "(podman_call \<times> (string, string) rust_result) list"

definition podman_error_display :: "string \<Rightarrow> string" where
  "podman_error_display msg = ''podman operation failed: '' @ msg"

datatype run_target = RunRef string | RunDigest string

fun run_target_as_str :: "run_target \<Rightarrow> string" where
  "run_target_as_str (RunRef r) = r"
| "run_target_as_str (RunDigest d) = d"

definition credentials_path :: "string \<Rightarrow> string" where
  "credentials_path name = ''/tmp/vlinder-s3-'' @ name @ ''.passwd''"

section \<open>The runtime\<close>

datatype image_policy = Mutable | Pinned

definition image_policy_from_config :: "string \<Rightarrow> image_policy" where
  "image_policy_from_config s = (if s = ''pinned'' then Pinned else Mutable)"

record podman_runtime_config =
  pc_image_policy :: string
  pc_podman_socket :: string
  pc_sidecar_image :: string
  pc_queue_backend :: string
  pc_nats_url :: string
  pc_amqp_url :: string
  pc_registry_addr :: string
  pc_state_addr :: string
  pc_secret_addr :: string

record 'r pool_env =
  pe_config :: podman_runtime_config
  pe_repo :: "'r repository"
  pe_podman :: "podman_log \<Rightarrow> podman_call \<Rightarrow> (string, string) rust_result"
  pe_now :: "nat \<Rightarrow> timestamp"
  pe_has_whitespace :: "string \<Rightarrow> bool"

record pod =
  pd_id :: pod_id
  pd_mount_volumes :: "string list"

record 'r pool =
  pl_pods :: "(string \<times> pod) list"
  pl_log :: podman_log
  pl_repo :: 'r
  pl_clock :: nat

type_synonym ('r, 'a) pool_eff = "('r pool, 'a) eff"

text \<open>\<open>ContainerRuntime::new\<close>: no pod is known.\<close>

definition pool_new :: "podman_log \<Rightarrow> 'r \<Rightarrow> nat \<Rightarrow> 'r pool" where
  "pool_new log r t = \<lparr>pl_pods = [], pl_log = log, pl_repo = r, pl_clock = t\<rparr>"

definition podman :: "'r pool_env \<Rightarrow> podman_call \<Rightarrow> ('r, (string, string) rust_result) pool_eff" where
  "podman env c p =
     (let a = pe_podman env (pl_log p) c in (Inr a, p\<lparr>pl_log := pl_log p @ [(c, a)]\<rparr>))"

text \<open>A call followed by \<open>map_err(|e| e.to_string())?\<close>.\<close>

definition podman_try :: "'r pool_env \<Rightarrow> podman_call \<Rightarrow> ('r, string) pool_eff" where
  "podman_try env c = ebind (podman env c) (\<lambda>a. elift (map_sum podman_error_display id a))"

definition pool_now :: "'r pool_env \<Rightarrow> ('r, timestamp) pool_eff" where
  "pool_now env p = (Inr (pe_now env (pl_clock p)), p\<lparr>pl_clock := Suc (pl_clock p)\<rparr>)"

definition image_ref_parse :: "(string \<Rightarrow> bool) \<Rightarrow> string \<Rightarrow> (string, string) rust_result" where
  "image_ref_parse has_whitespace s =
     (if s = [] then Inl ''image ref must not be empty''
      else if has_whitespace s then Inl (''image ref must not contain whitespace: '' @ s)
      else if CHR ''/'' \<notin> set s
      then Inl (''image ref must contain at least one '' @ [CHR 0x27, CHR ''/'', CHR 0x27] @ '': '' @ s)
      else Inr s)"

section \<open>Mounts\<close>

definition mount_volume_name :: "string \<Rightarrow> string \<Rightarrow> string" where
  "mount_volume_name agent_name mount_name = ''vlinder-mount-'' @ agent_name @ ''-'' @ mount_name"

definition mount_device :: "mount_config \<Rightarrow> string" where
  "mount_device mount =
     (case split_once (CHR ''/'') (mc_s3 mount) of
        Some (bucket, rest) \<Rightarrow> bucket @ '':/'' @ rest
      | None \<Rightarrow> mc_s3 mount @ '':/'')"

text \<open>
  Over ssh or on the local file system; the answer of a failed call is the whole text of the error, which
  names the write or the change of mode.
\<close>

definition write_s3_credentials :: "'r pool_env \<Rightarrow> string \<Rightarrow> string \<Rightarrow> ('r, string) pool_eff" where
  "write_s3_credentials env name credentials =
     ebind (podman env (PcWriteCredentials name credentials)) (\<lambda>a.
       case a of
         Inl e \<Rightarrow> efail e
       | Inr _ \<Rightarrow> eret (credentials_path name))"

text \<open>The secret is resolved to the fixed credentials \<open>test:test\<close>, as the code's TODO says.\<close>

definition provision_mount :: "'r pool_env \<Rightarrow> string \<Rightarrow> string \<Rightarrow> mount_config \<Rightarrow> ('r, string) pool_eff" where
  "provision_mount env agent_name mount_name mount =
     (let vol_name = mount_volume_name agent_name mount_name;
          endpoint = replace_str ''host.containers.internal'' ''localhost''
                       (unwrap_or ''https://s3.amazonaws.com'' (mc_endpoint mount));
          flags = [''ro,url='' @ endpoint @ '',connect_timeout=10,compat_dir,allow_other''] @
                  (if mc_endpoint mount \<noteq> None then [''use_path_request_style''] else [])
      in ebind (if mc_secret mount \<noteq> None
                then ebind (write_s3_credentials env vol_name ''test:test'')
                       (\<lambda>path. eret (flags @ [''passwd_file='' @ path]))
                else eret flags) (\<lambda>mount_flags.
         ebind (podman env (PcVolumeCreate vol_name ''local''
                  [(''type'', ''fuse.s3fs''), (''device'', mount_device mount),
                   (''o'', join_with (CHR '','') mount_flags)])) (\<lambda>a.
           case a of
             Inl e \<Rightarrow> efail (''failed to create volume '' @ vol_name @ '': '' @ podman_error_display e)
           | Inr _ \<Rightarrow> eret vol_name)))"

fun provision_mounts :: "'r pool_env \<Rightarrow> string \<Rightarrow> (string \<times> mount_config) list \<Rightarrow> ('r, string list) pool_eff" where
  "provision_mounts env agent_name [] = eret []"
| "provision_mounts env agent_name ((mount_name, mount) # rest) =
     ebind (provision_mount env agent_name mount_name mount) (\<lambda>v.
     ebind (provision_mounts env agent_name rest) (\<lambda>vs. eret (v # vs)))"

definition provision_mount_volumes :: "'r pool_env \<Rightarrow> string \<Rightarrow> agent \<Rightarrow> ('r, string list) pool_eff" where
  "provision_mount_volumes env agent_name agent = provision_mounts env agent_name (req_mounts (ag_requirements agent))"

definition cleanup_mount_volumes :: "'r pool_env \<Rightarrow> string list \<Rightarrow> ('r, unit) pool_eff" where
  "cleanup_mount_volumes env =
     efor (\<lambda>v. ebind (podman env (PcVolumeRm v)) (\<lambda>_.
               ebind (podman env (PcRemoveCredentials v)) (\<lambda>_. eret ())))"

section \<open>Starting a pod\<close>

definition pod_name :: "string \<Rightarrow> string" where
  "pod_name name = ''vlinder-'' @ name"

definition host_aliases :: "string list" where
  "host_aliases =
     [''vlinder.local:127.0.0.1'', ''metadata.vlinder.local:127.0.0.1'', ''runtime.vlinder.local:127.0.0.1'',
      ''ollama.vlinder.local:127.0.0.1'', ''openrouter.vlinder.local:127.0.0.1'',
      ''sqlite-vec.vlinder.local:127.0.0.1'', ''sqlite-kv.vlinder.local:127.0.0.1'']"

definition host_url :: "string \<Rightarrow> string \<Rightarrow> nat \<Rightarrow> string" where
  "host_url scheme url fallback = scheme @ ''://host.containers.internal:'' @ show_nat (extract_port url fallback)"

definition sidecar_env :: "podman_runtime_config \<Rightarrow> string \<Rightarrow> string \<Rightarrow> string \<Rightarrow> (string \<times> string) list" where
  "sidecar_env config name image_ref digest =
     [(''VLINDER_AGENT'', name), (''VLINDER_QUEUE_BACKEND'', pc_queue_backend config),
      (''VLINDER_REGISTRY_URL'', host_url ''http'' (pc_registry_addr config) 9090),
      (''VLINDER_STATE_URL'', host_url ''http'' (pc_state_addr config) 9092),
      (''VLINDER_SECRET_URL'', host_url ''http'' (pc_secret_addr config) 9093),
      (''VLINDER_CONTAINER_PORT'', ''8080''), (''VLINDER_IMAGE_REF'', image_ref),
      (''VLINDER_IMAGE_DIGEST'', digest)] @
     (if pc_queue_backend config = ''amqp''
      then [(''VLINDER_AMQP_URL'', rewrite_host_for_container (pc_amqp_url config))]
      else [(''VLINDER_NATS_URL'', host_url ''nats'' (pc_nats_url config) 4222)])"

definition start_in_pod ::
    "'r pool_env \<Rightarrow> string \<Rightarrow> pod_id \<Rightarrow> run_target \<Rightarrow> string \<Rightarrow> (string \<times> string) list \<Rightarrow> ('r, unit) pool_eff" where
  "start_in_pod env name pod target image_ref volumes =
     ebind (podman_try env (PcContainerInPod (run_target_as_str target) pod [] volumes)) (\<lambda>_.
       let sidecar = result_or ''localhost/vlinder-podman-sidecar:latest''
                       (image_ref_parse (pe_has_whitespace env) (pc_sidecar_image (pe_config env)))
       in ebind (podman env (PcImageDigest image_ref)) (\<lambda>digest.
          ebind (podman_try env (PcContainerInPod sidecar pod
                   (sidecar_env (pe_config env) name image_ref (result_or [] digest)) [])) (\<lambda>_.
          ebind (podman_try env (PcPodStart pod)) (\<lambda>_. eret ()))))"

definition run_target_of :: "image_policy \<Rightarrow> agent \<Rightarrow> string \<Rightarrow> run_target" where
  "run_target_of policy agent image_ref =
     (case policy of
        Mutable \<Rightarrow> RunRef image_ref
      | Pinned \<Rightarrow> (case ag_image_digest agent of Some d \<Rightarrow> RunDigest d | None \<Rightarrow> RunRef image_ref))"

definition forget_pod :: "string \<Rightarrow> ('r, unit) pool_eff" where
  "forget_pod name p = (Inr (), p\<lparr>pl_pods := AList.delete name (pl_pods p)\<rparr>)"

definition remember_pod :: "string \<Rightarrow> pod \<Rightarrow> ('r, unit) pool_eff" where
  "remember_pod name pod p = (Inr (), p\<lparr>pl_pods := AList.update name pod (pl_pods p)\<rparr>)"

definition known_pod :: "string \<Rightarrow> ('r, pod option) pool_eff" where
  "known_pod name p = (Inr (map_of (pl_pods p) name), p)"

text \<open>The first lines of \<open>start\<close>: is the agent's pod there and live; a dead one is dropped from the map.\<close>

definition pod_is_live :: "'r pool_env \<Rightarrow> string \<Rightarrow> ('r, bool) pool_eff" where
  "pod_is_live env name =
     ebind (known_pod name) (\<lambda>known.
       case known of
         None \<Rightarrow> eret False
       | Some pod \<Rightarrow>
           ebind (podman env (PcIsPodLive (pd_id pod))) (\<lambda>live.
             case live of
               Inr _ \<Rightarrow> eret True
             | Inl _ \<Rightarrow> ebind (forget_pod name) (\<lambda>_.
                         ebind (cleanup_mount_volumes env (pd_mount_volumes pod)) (\<lambda>_. eret False))))"

definition start :: "'r pool_env \<Rightarrow> string \<Rightarrow> agent \<Rightarrow> ('r, unit) pool_eff" where
  "start env name agent =
     ebind (pod_is_live env name) (\<lambda>live.
       if live then eret ()
       else
         let image_ref = result_or ''unknown/unknown'' (image_ref_parse (pe_has_whitespace env) (ag_executable agent));
             target = run_target_of (image_policy_from_config (pc_image_policy (pe_config env))) agent image_ref
         in ebind (provision_mount_volumes env name agent) (\<lambda>mount_volumes.
              let volumes = zip mount_volumes (map (mc_path \<circ> snd) (req_mounts (ag_requirements agent)))
              in ebind (podman_try env (PcPodCreate (pod_name name) host_aliases)) (\<lambda>pod.
                 ebind (ecatch (start_in_pod env name pod target image_ref volumes)) (\<lambda>r.
                   case r of
                     Inl e \<Rightarrow>
                       ebind (podman env (PcPodStopAndRemove pod 0)) (\<lambda>_.
                       ebind (cleanup_mount_volumes env mount_volumes) (\<lambda>_. efail e))
                   | Inr _ \<Rightarrow> remember_pod name \<lparr>pd_id = pod, pd_mount_volumes = mount_volumes\<rparr>))))"

section \<open>Reconciling\<close>

text \<open>\<open>let _ = repo.append_readiness_check(&check)\<close>.\<close>

definition append_check :: "'r pool_env \<Rightarrow> readiness_check \<Rightarrow> ('r, unit) pool_eff" where
  "append_check env check p =
     (Inr (), p\<lparr>pl_repo := snd (rp_append_readiness_check (pe_repo env) check (pl_repo p))\<rparr>)"

text \<open>The status, or none when the repository reports an error.\<close>

definition derived_status :: "'r pool_env \<Rightarrow> string \<Rightarrow> ('r, agent_status option) pool_eff" where
  "derived_status env name p =
     (case rp_get_derived_status (pe_repo env) name (pl_repo p) of
        (s, r) \<Rightarrow> (Inr (result_or None s), p\<lparr>pl_repo := r\<rparr>))"

definition container_check ::
    "'r pool_env \<Rightarrow> string \<Rightarrow> (timestamp \<Rightarrow> readiness_check \<Rightarrow> readiness_check) \<Rightarrow> ('r, unit) pool_eff" where
  "container_check env name f =
     ebind (pool_now env) (\<lambda>t1. ebind (pool_now env) (\<lambda>t2.
       append_check env (f t2 (check_pending t1 name (runtime_as_str RtContainer)))))"

definition stop_pod :: "'r pool_env \<Rightarrow> pod \<Rightarrow> ('r, unit) pool_eff" where
  "stop_pod env pod =
     ebind (podman env (PcPodStopAndRemove (pd_id pod) 5)) (\<lambda>_. cleanup_mount_volumes env (pd_mount_volumes pod))"

definition tear_down :: "'r pool_env \<Rightarrow> string \<Rightarrow> ('r, unit) pool_eff" where
  "tear_down env name =
     ebind (known_pod name) (\<lambda>known.
       case known of
         None \<Rightarrow> eret ()
       | Some pod \<Rightarrow> ebind (forget_pod name) (\<lambda>_. stop_pod env pod))"

definition reconcile_agent :: "'r pool_env \<Rightarrow> agent \<Rightarrow> ('r, unit) pool_eff" where
  "reconcile_agent env agent =
     ebind (derived_status env (ag_name agent)) (\<lambda>status.
       if status = Some AsDeploying
       then ebind (ecatch (start env (ag_name agent) agent)) (\<lambda>r.
              case r of
                Inr _ \<Rightarrow> container_check env (ag_name agent) check_ready
              | Inl e \<Rightarrow> container_check env (ag_name agent) (\<lambda>t. check_failed t e))
       else if status = Some AsDeleting
       then ebind (tear_down env (ag_name agent)) (\<lambda>_. container_check env (ag_name agent) check_deleted)
       else eret ())"

definition stop_orphans :: "'r pool_env \<Rightarrow> agent list \<Rightarrow> ('r, unit) pool_eff" where
  "stop_orphans env agents p =
     efor (tear_down env) (filter (\<lambda>n. n \<notin> ag_name ` set agents) (map fst (pl_pods p))) p"

definition ensure_containers :: "'r pool_env \<Rightarrow> agent list \<Rightarrow> ('r, unit) pool_eff" where
  "ensure_containers env agents = ebind (stop_orphans env agents) (\<lambda>_. efor (reconcile_agent env) agents)"

definition pool_tick :: "'r pool_env \<Rightarrow> agent list \<Rightarrow> 'r pool \<Rightarrow> bool \<times> 'r pool" where
  "pool_tick env agents p =
     (case ensure_containers env agents p of (_, p') \<Rightarrow> (length (pl_pods p') \<noteq> length (pl_pods p), p'))"

definition pool_shutdown :: "'r pool_env \<Rightarrow> 'r pool \<Rightarrow> 'r pool" where
  "pool_shutdown env p = snd (efor (stop_pod env) (map snd (pl_pods p)) (p\<lparr>pl_pods := []\<rparr>))"

end
