(* ===== verification/Reconcile.thy ===== *)
theory Reconcile
  imports Repository
begin

text \<open>
  What the two agent runtimes share: a tick acts on every agent of the registry in turn, appends readiness
  checks of one worker and starts or stops what runs.  The locale \<open>agent_loop\<close> is the frame contract of
  such an action, \<open>settling_loop\<close> adds that it answers a Deploying or Deleting agent.  The checks are read
  through the in-memory repository, which SQLite's refines (\<open>RegReadiness.sql_readiness_refines_memory\<close>).
\<close>

section \<open>The in-memory repository\<close>

text \<open>\<open>InMemoryDagStore\<close> as a \<open>RegistryRepository\<close>: it keeps the readiness checks and nothing else.\<close>

definition mem_repository :: "(string list \<Rightarrow> string list) \<Rightarrow> readiness_check list repository" where
  "mem_repository iter =
     \<lparr>rp_save_mcp_server = (\<lambda>_. efail (RepoDatabase ''save_mcp_server not implemented'')),
      rp_load_mcp_servers = eret [], rp_delete_mcp_server = (\<lambda>_. eret False), rp_mcp_server_exists = (\<lambda>_. eret False),
      rp_save_model = (\<lambda>_. eret ()), rp_load_models = eret [], rp_delete_model = (\<lambda>_. eret False),
      rp_model_exists = (\<lambda>_. eret False),
      rp_save_agent = (\<lambda>_. eret ()), rp_load_agents = eret [], rp_delete_agent = (\<lambda>_. eret False),
      rp_agent_exists = (\<lambda>_. eret False),
      rp_append_readiness_check = mem_append_readiness_check,
      rp_all_checks_ready = (\<lambda>n cs. (mem_all_checks_ready iter n cs, cs)),
      rp_get_derived_status = (\<lambda>n cs. (mem_get_derived_status iter n cs, cs)),
      rp_get_derived_status_with_error = (\<lambda>n cs. (mem_get_derived_status_with_error iter n cs, cs))\<rparr>"

lemma mem_repository_simps [simp]:
  "rp_append_readiness_check (mem_repository iter) c cs = (Inr (), cs @ [c])"
  "rp_get_derived_status (mem_repository iter) n cs = (mem_get_derived_status iter n cs, cs)"
  by (simp_all add: mem_repository_def mem_append_readiness_check_def)

section \<open>The checks of one agent\<close>

definition agent_checks :: "agent_name \<Rightarrow> readiness_check list \<Rightarrow> readiness_check list" where
  "agent_checks n cs = filter (\<lambda>c. rk_agent c = n) cs"

lemma agent_checks_append: "agent_checks n (cs @ ds) = agent_checks n cs @ agent_checks n ds"
  by (simp add: agent_checks_def)

lemma agent_checks_other: "\<forall>c \<in> set ds. rk_agent c \<noteq> n \<Longrightarrow> agent_checks n (cs @ ds) = agent_checks n cs"
  by (simp add: agent_checks_append) (simp add: agent_checks_def filter_empty_conv)

lemma find_filter: "find (\<lambda>x. P x \<and> Q x) (filter P xs) = find (\<lambda>x. P x \<and> Q x) xs"
  by (induction xs) auto

lemma latest_check_agent: "latest_check n w cs = latest_check n w (agent_checks n cs)"
  by (simp add: latest_check_def agent_checks_def rev_filter find_filter)

lemma derived_status_agent: "mem_get_derived_status iter n cs = mem_get_derived_status iter n (agent_checks n cs)"
proof -
  have "agent_workers n cs = agent_workers n (agent_checks n cs)"
    by (simp add: agent_workers_def agent_checks_def)
  then show ?thesis
    using latest_check_agent [of n _ cs]
    by (simp add: mem_get_derived_status_def latest_per_worker_def)
qed

lemma latest_check_appended [simp]:
  "rk_agent c = n \<Longrightarrow> rk_worker c = w \<Longrightarrow> latest_check n w (cs @ [c]) = Some c"
  by (simp add: latest_check_def)

section \<open>The frame of a tick\<close>

locale agent_loop =
  fixes act :: "agent \<Rightarrow> 'w \<Rightarrow> 'w"
    and running :: "'w \<Rightarrow> string set"
    and checks :: "'w \<Rightarrow> readiness_check list"
    and worker :: string
  assumes others_run: "n \<noteq> ag_name a \<Longrightarrow> n \<in> running (act a w) \<longleftrightarrow> n \<in> running w"
    and own_checks:
      "\<exists>cs. checks (act a w) = checks w @ cs \<and> (\<forall>c \<in> set cs. rk_agent c = ag_name a \<and> rk_worker c = worker)"
begin

definition agrees :: "string \<Rightarrow> 'w \<Rightarrow> 'w \<Rightarrow> bool" where
  "agrees n w w' \<longleftrightarrow> (n \<in> running w \<longleftrightarrow> n \<in> running w') \<and> agent_checks n (checks w) = agent_checks n (checks w')"

lemma agrees_refl: "agrees n w w"
  by (simp add: agrees_def)

lemma agrees_trans: "agrees n w w1 \<Longrightarrow> agrees n w1 w2 \<Longrightarrow> agrees n w w2"
  by (simp add: agrees_def)

lemma act_others: "n \<noteq> ag_name a \<Longrightarrow> agrees n (act a w) w"
  using others_run [of n a w] own_checks [of a w] by (auto simp: agrees_def agent_checks_other)

lemma loop_others: "n \<notin> ag_name ` set as \<Longrightarrow> agrees n (fold act as w) w"
proof (induction as arbitrary: w)
  case (Cons a as)
  then show ?case using agrees_trans [of n "fold act as (act a w)" "act a w" w] act_others [of n a w] by simp
qed (simp add: agrees_refl)

lemma loop_own:
  assumes "distinct (map ag_name as)" and "a \<in> set as"
  shows "\<exists>w1. agrees (ag_name a) w1 w \<and> agrees (ag_name a) (fold act as w) (act a w1)"
  using assms
proof (induction as arbitrary: w)
  case (Cons b as)
  show ?case
  proof (cases "a = b")
    case True
    then show ?thesis using Cons.prems loop_others [of "ag_name b" as] agrees_refl by fastforce
  next
    case False
    then have "ag_name a \<noteq> ag_name b" using Cons.prems by (metis distinct.simps(2) image_eqI list.simps(9) set_ConsD set_map)
    moreover obtain w1 where "agrees (ag_name a) w1 (act b w)"
        and "agrees (ag_name a) (fold act as (act b w)) (act a w1)"
      using Cons.IH [of "act b w"] Cons.prems False by auto
    ultimately show ?thesis using act_others [of "ag_name a" b w] agrees_trans by fastforce
  qed
qed simp

lemma loop_workers: "\<exists>cs. checks (fold act as w) = checks w @ cs \<and> (\<forall>c \<in> set cs. rk_worker c = worker)"
proof (induction as arbitrary: w)
  case (Cons a as)
  obtain cs where "checks (act a w) = checks w @ cs" "\<forall>c \<in> set cs. rk_worker c = worker"
    using own_checks [of a w] by blast
  moreover obtain ds where "checks (fold act as (act a w)) = checks (act a w) @ ds" "\<forall>c \<in> set ds. rk_worker c = worker"
    using Cons by blast
  ultimately show ?case by (intro exI [of _ "cs @ ds"]) auto
qed simp

end

section \<open>Settling\<close>

text \<open>
  \<open>answers b\<close> says whether the runtime answers a Deploying agent that it runs already (\<open>b\<close>) or does not run.
\<close>

locale settling_loop = agent_loop +
  fixes iter :: "string list \<Rightarrow> string list"
    and answers :: "bool \<Rightarrow> bool"
  assumes deploying:
      "mem_get_derived_status iter (ag_name a) (checks w) = Inr (Some AsDeploying) \<Longrightarrow>
         answers (ag_name a \<in> running w) \<Longrightarrow>
         \<exists>c. latest_check (ag_name a) worker (checks (act a w)) = Some c \<and>
             (rk_status c = RsReady \<and> ag_name a \<in> running (act a w) \<or>
              rk_status c = RsFailed \<and> ag_name a \<notin> running (act a w))"
    and deleting:
      "mem_get_derived_status iter (ag_name a) (checks w) = Inr (Some AsDeleting) \<Longrightarrow>
         \<exists>c. latest_check (ag_name a) worker (checks (act a w)) = Some c \<and>
             rk_status c = RsDeleted \<and> ag_name a \<notin> running (act a w)"
begin

lemma loop_settles:
  assumes "distinct (map ag_name as)" and "a \<in> set as"
  shows "(mem_get_derived_status iter (ag_name a) (checks w) = Inr (Some AsDeploying) \<and>
          answers (ag_name a \<in> running w) \<longrightarrow>
            (\<exists>c. latest_check (ag_name a) worker (checks (fold act as w)) = Some c \<and>
               (rk_status c = RsReady \<and> ag_name a \<in> running (fold act as w) \<or>
                rk_status c = RsFailed \<and> ag_name a \<notin> running (fold act as w)))) \<and>
         (mem_get_derived_status iter (ag_name a) (checks w) = Inr (Some AsDeleting) \<longrightarrow>
            (\<exists>c. latest_check (ag_name a) worker (checks (fold act as w)) = Some c \<and>
               rk_status c = RsDeleted \<and> ag_name a \<notin> running (fold act as w)))"
proof -
  obtain w1 where before: "agrees (ag_name a) w1 w" and after: "agrees (ag_name a) (fold act as w) (act a w1)"
    using loop_own [OF assms] by blast
  have st: "mem_get_derived_status iter (ag_name a) (checks w1) = mem_get_derived_status iter (ag_name a) (checks w)"
    using before derived_status_agent [of iter "ag_name a" "checks w1"] derived_status_agent [of iter "ag_name a" "checks w"]
    by (simp add: agrees_def)
  have "latest_check (ag_name a) worker (checks (fold act as w)) = latest_check (ag_name a) worker (checks (act a w1))"
    using after latest_check_agent [of "ag_name a" worker "checks (fold act as w)"]
      latest_check_agent [of "ag_name a" worker "checks (act a w1)"] by (simp add: agrees_def)
  moreover have "ag_name a \<in> running (fold act as w) \<longleftrightarrow> ag_name a \<in> running (act a w1)"
    using after by (simp add: agrees_def)
  moreover have "ag_name a \<in> running w1 \<longleftrightarrow> ag_name a \<in> running w" using before by (simp add: agrees_def)
  ultimately show ?thesis using deploying [of a w1] deleting [of a w1] st by simp
qed

end

section \<open>Effects that do not fail\<close>

lemma efor_total:
  assumes "\<And>x s. fst (f x s) = Inr ()"
  shows "efor f xs s = (Inr (), fold (\<lambda>x s. snd (f x s)) xs s)"
proof (induction xs arbitrary: s)
  case (Cons x xs)
  obtain s1 where "f x s = (Inr (), s1)" using assms [of x s] by (cases "f x s") auto
  then show ?case using Cons by (simp add: ebind_run)
qed simp

text \<open>What an effect does to the state, whatever its result.\<close>

definition relates :: "('s \<Rightarrow> 's \<Rightarrow> bool) \<Rightarrow> ('s, 'e, 'a) fallible \<Rightarrow> bool" where
  "relates R m \<longleftrightarrow> (\<forall>s. R s (snd (m s)))"

lemma relatesD: "relates R m \<Longrightarrow> R s (snd (m s))"
  by (simp add: relates_def)

lemma relates_ebind_cases:
  assumes "relates R m" and "ebind m f s = (r, s')"
  obtains (failed) e where "r = Inl e" "R s s'" | (went_on) x s1 where "R s s1" "f x s1 = (r, s')"
  using relatesD [OF assms(1), of s] assms(2) by (cases "m s") (auto simp: ebind_def split: sum.splits)

lemma relates_basic:
  "reflp R \<Longrightarrow> relates R (eret x)" "reflp R \<Longrightarrow> relates R (efail e)" "reflp R \<Longrightarrow> relates R (elift r)"
  by (simp_all add: relates_def reflp_def)

lemma relates_ebind:
  assumes "transp R" and "relates R m" and "\<And>x. relates R (f x)"
  shows "relates R (ebind m f)"
  unfolding relates_def
proof
  fix s
  have "R s (snd (m s))" using assms(2) by (rule relatesD)
  moreover have "R s1 (snd (f x s1))" for x s1 using assms(3) by (rule relatesD)
  ultimately show "R s (snd (ebind m f s))"
    using transpD [OF assms(1)] by (auto simp: ebind_def split: prod.split sum.split)
qed

lemma relates_ecatch: "relates R m \<Longrightarrow> relates R (ecatch m)"
  by (simp add: relates_def)

lemma relates_efor:
  assumes "reflp R" and "transp R" and "\<And>x. relates R (f x)"
  shows "relates R (efor f xs)"
  by (induction xs) (simp_all add: relates_basic(1) [OF assms(1)] relates_ebind [OF assms(2,3)] del: eff_simps)

end
