(* ===== verification/PoolLaws.thy ===== *)
theory PoolLaws
  imports ContainerPool Reconcile
begin

text \<open>
  What the container runtime does, operation by operation: most calls of Podman neither create, remove nor
  look at a pod (\<open>pool_quiet\<close>), starting and tearing down touch one name, and the log of all calls
  accounts for the pods in the map (\<open>accounted\<close>).
\<close>

section \<open>Quiet effects\<close>

fun neutral :: "podman_call \<times> (string, string) rust_result \<Rightarrow> bool" where
  "neutral (PcPodCreate _ _, Inr _) = False"
| "neutral (PcIsPodLive _, _) = False"
| "neutral (PcPodStopAndRemove _ _, _) = False"
| "neutral _ = True"

definition quiet_step :: "'r pool \<Rightarrow> 'r pool \<Rightarrow> bool" where
  "quiet_step p p' \<longleftrightarrow> pl_pods p' = pl_pods p \<and> pl_repo p' = pl_repo p \<and>
     (\<exists>ys. pl_log p' = pl_log p @ ys \<and> list_all neutral ys)"

lemma quiet_step_refl: "reflp quiet_step"
  by (simp add: quiet_step_def reflp_def)

lemma quiet_step_trans: "transp quiet_step"
proof (rule transpI)
  fix p p1 p2 :: "'r pool"
  assume "quiet_step p p1" and "quiet_step p1 p2"
  then obtain xs ys where "pl_log p1 = pl_log p @ xs" "pl_log p2 = pl_log p1 @ ys" "list_all neutral xs"
      "list_all neutral ys" "pl_pods p2 = pl_pods p" "pl_repo p2 = pl_repo p"
    by (auto simp: quiet_step_def)
  then show "quiet_step p p2" by (auto simp: quiet_step_def intro: exI [of _ "xs @ ys"])
qed

abbreviation pool_quiet :: "('r, 'a) pool_eff \<Rightarrow> bool" where
  "pool_quiet m \<equiv> relates quiet_step m"

lemmas quiet_basic = relates_basic [OF quiet_step_refl]
lemmas quiet_ebind = relates_ebind [OF quiet_step_trans]
lemmas quiet_efor = relates_efor [OF quiet_step_refl quiet_step_trans]

lemma quiet_podman: "(\<And>a. neutral (c, a)) \<Longrightarrow> pool_quiet (podman env c)"
  by (simp add: relates_def quiet_step_def podman_def Let_def)

lemma quiet_podman_try: "(\<And>a. neutral (c, a)) \<Longrightarrow> pool_quiet (podman_try env c)"
  unfolding podman_try_def by (intro quiet_ebind quiet_podman quiet_basic)

lemma quiet_provision_mount: "pool_quiet (provision_mount env n k m)"
proof -
  have "pool_quiet (write_s3_credentials env v c)" for v c
    unfolding write_s3_credentials_def
    by (rule quiet_ebind, rule quiet_podman, simp) (auto intro: quiet_basic split: sum.split)
  then show ?thesis
    unfolding provision_mount_def Let_def
    by (intro quiet_ebind quiet_podman)
      (auto intro: quiet_basic quiet_ebind simp del: eff_simps split: sum.split if_split)
qed

lemma quiet_provision: "pool_quiet (provision_mount_volumes env n a)"
proof -
  have "pool_quiet (provision_mounts env n ms)" for ms
    by (induction env n ms rule: provision_mounts.induct)
      (simp_all del: eff_simps add: quiet_basic quiet_ebind quiet_provision_mount)
  then show ?thesis by (simp add: provision_mount_volumes_def)
qed

lemma quiet_cleanup: "pool_quiet (cleanup_mount_volumes env vs)"
  unfolding cleanup_mount_volumes_def
  by (intro quiet_efor quiet_ebind quiet_podman quiet_basic) (simp_all)

lemma quiet_start_in_pod: "pool_quiet (start_in_pod env n pod target r vs)"
  unfolding start_in_pod_def Let_def
  by (intro quiet_ebind quiet_podman quiet_podman_try quiet_basic) (simp_all)

lemma quietE:
  assumes "pool_quiet m" and "m p = (r, p')"
  obtains ys where "pl_pods p' = pl_pods p" "pl_repo p' = pl_repo p" "pl_log p' = pl_log p @ ys" "list_all neutral ys"
  using relatesD [OF assms(1), of p] assms(2) by (auto simp: quiet_step_def)

lemma cleanup_total: "fst (cleanup_mount_volumes env vs p) = Inr ()"
  unfolding cleanup_mount_volumes_def by (subst efor_total) (simp_all add: podman_def Let_def ebind_def)

section \<open>Starting and tearing down\<close>

text \<open>
  What a start that did not find its pod live appends to the log: when it fails, nothing that shows or a pod
  that is created and removed again; when it succeeds, a pod.
\<close>

definition failed_start :: "string \<Rightarrow> podman_log \<Rightarrow> podman_log \<Rightarrow> bool" where
  "failed_start n log log' \<longleftrightarrow>
     (\<exists>xs. list_all neutral xs \<and> log' = log @ xs) \<or>
     (\<exists>xs al i ys t a zs. list_all neutral (xs @ ys @ zs) \<and>
        log' = log @ xs @ (PcPodCreate (pod_name n) al, Inr i) # ys @ (PcPodStopAndRemove i t, a) # zs)"

definition started :: "string \<Rightarrow> pod_id \<Rightarrow> podman_log \<Rightarrow> podman_log \<Rightarrow> bool" where
  "started n i log log' \<longleftrightarrow>
     (\<exists>xs al ys. list_all neutral (xs @ ys) \<and> log' = log @ xs @ (PcPodCreate (pod_name n) al, Inr i) # ys)"

lemma failed_startI:
  "list_all neutral xs \<Longrightarrow> list_all neutral ys \<Longrightarrow> list_all neutral zs \<Longrightarrow>
   log' = log @ xs @ (PcPodCreate (pod_name n) al, Inr i) # ys @ (PcPodStopAndRemove i t, a) # zs \<Longrightarrow>
   failed_start n log log'"
  unfolding failed_start_def by (rule disjI2, intro exI [of _ xs] exI) auto

lemma startedI:
  "list_all neutral xs \<Longrightarrow> list_all neutral ys \<Longrightarrow>
   log' = log @ xs @ (PcPodCreate (pod_name n) al, Inr i) # ys \<Longrightarrow> started n i log log'"
  unfolding started_def by (intro exI [of _ xs] exI) auto

text \<open>The part of \<open>start\<close> after the look at the old pod.\<close>

definition start_fresh :: "'r pool_env \<Rightarrow> string \<Rightarrow> agent \<Rightarrow> ('r, unit) pool_eff" where
  "start_fresh env name agent =
     (let image_ref = result_or ''unknown/unknown'' (image_ref_parse (pe_has_whitespace env) (ag_executable agent));
          target = run_target_of (image_policy_from_config (pc_image_policy (pe_config env))) agent image_ref
      in ebind (provision_mount_volumes env name agent) (\<lambda>mount_volumes.
           let volumes = zip mount_volumes (map (mc_path \<circ> snd) (req_mounts (ag_requirements agent)))
           in ebind (podman_try env (PcPodCreate (pod_name name) host_aliases)) (\<lambda>pod.
              ebind (ecatch (start_in_pod env name pod target image_ref volumes)) (\<lambda>r.
                case r of
                  Inl e \<Rightarrow>
                    ebind (podman env (PcPodStopAndRemove pod 0)) (\<lambda>_.
                    ebind (cleanup_mount_volumes env mount_volumes) (\<lambda>_. efail e))
                | Inr _ \<Rightarrow> remember_pod name \<lparr>pd_id = pod, pd_mount_volumes = mount_volumes\<rparr>))))"

lemma start_split: "start env n a = ebind (pod_is_live env n) (\<lambda>live. if live then eret () else start_fresh env n a)"
  unfolding start_def start_fresh_def Let_def ..

lemma start_fresh_cases:
  assumes "start_fresh env n a p = (r, p')"
  shows "pl_repo p' = pl_repo p \<and>
    ((\<exists>e. r = Inl e) \<and> pl_pods p' = pl_pods p \<and> failed_start n (pl_log p) (pl_log p') \<or>
     r = Inr () \<and> (\<exists>i vs. pl_pods p' = AList.update n \<lparr>pd_id = i, pd_mount_volumes = vs\<rparr> (pl_pods p) \<and>
        started n i (pl_log p) (pl_log p')))"
proof -
  let ?create = "PcPodCreate (pod_name n) host_aliases"
  obtain r1 p1 where prov: "provision_mount_volumes env n a p = (r1, p1)" by (cases "provision_mount_volumes env n a p")
  then obtain xs where p1: "pl_pods p1 = pl_pods p" "pl_repo p1 = pl_repo p" "pl_log p1 = pl_log p @ xs"
      "list_all neutral xs" by (rule quietE [OF quiet_provision])
  show ?thesis
  proof (cases r1)
    case (Inl e)
    then show ?thesis
      using assms prov p1 by (auto simp: start_fresh_def Let_def ebind_run failed_start_def)
  next
    case vs: (Inr vs)
    show ?thesis
    proof (cases "pe_podman env (pl_log p1) ?create")
      case (Inl e)
      then show ?thesis
        using assms prov p1 vs
        by (auto simp: start_fresh_def Let_def ebind_run podman_try_def podman_def failed_start_def
            intro: exI [of _ "xs @ [(?create, Inl e)]"])
    next
      case i: (Inr i)
      define p2 where "p2 = p1\<lparr>pl_log := pl_log p1 @ [(?create, Inr i)]\<rparr>"
      obtain target ref vols where rest: "start_fresh env n a p =
          ebind (ecatch (start_in_pod env n i target ref vols)) (\<lambda>r.
            case r of
              Inl e \<Rightarrow> ebind (podman env (PcPodStopAndRemove i 0)) (\<lambda>_. ebind (cleanup_mount_volumes env vs) (\<lambda>_. efail e))
            | Inr _ \<Rightarrow> remember_pod n \<lparr>pd_id = i, pd_mount_volumes = vs\<rparr>) p2"
        using prov vs i by (simp add: start_fresh_def Let_def ebind_run podman_try_def podman_def p2_def)
      obtain r3 p3 where inpod: "start_in_pod env n i target ref vols p2 = (r3, p3)"
        by (cases "start_in_pod env n i target ref vols p2")
      then obtain ys where p3: "pl_pods p3 = pl_pods p" "pl_repo p3 = pl_repo p"
          "pl_log p3 = pl_log p @ xs @ (?create, Inr i) # ys" "list_all neutral ys"
        by (rule quietE [OF quiet_start_in_pod]) (simp add: p2_def p1)
      show ?thesis
      proof (cases r3)
        case (Inl e)
        define p4 where "p4 = p3\<lparr>pl_log := pl_log p3 @
          [(PcPodStopAndRemove i 0, pe_podman env (pl_log p3) (PcPodStopAndRemove i 0))]\<rparr>"
        obtain p5 where clean: "cleanup_mount_volumes env vs p4 = (Inr (), p5)"
          using cleanup_total [of env vs p4] by (cases "cleanup_mount_volumes env vs p4") auto
        then obtain zs where p5: "pl_pods p5 = pl_pods p4" "pl_repo p5 = pl_repo p4" "pl_log p5 = pl_log p4 @ zs"
            "list_all neutral zs" by (rule quietE [OF quiet_cleanup])
        have "r = Inl e" "p' = p5"
          using assms rest inpod Inl clean by (simp_all add: ebind_run podman_def p4_def Let_def)
        moreover have "failed_start n (pl_log p) (pl_log p5)"
          by (rule failed_startI [where xs = xs and ys = ys and zs = zs]) (simp_all add: p1(4) p3 p5 p4_def)
        ultimately show ?thesis by (simp add: p3 p5 p4_def)
      next
        case (Inr u)
        have "r = Inr ()" "p' = p3\<lparr>pl_pods := AList.update n \<lparr>pd_id = i, pd_mount_volumes = vs\<rparr> (pl_pods p3)\<rparr>"
          using assms rest inpod Inr by (simp_all add: ebind_run remember_pod_def)
        moreover have "started n i (pl_log p) (pl_log p3)"
          by (rule startedI [where xs = xs and ys = ys]) (simp_all add: p1(4) p3)
        ultimately show ?thesis by (auto simp: p3)
      qed
    qed
  qed
qed

section \<open>Accounting for pods\<close>

fun hold :: "podman_call \<times> (string, string) rust_result \<Rightarrow> pod_id set \<Rightarrow> pod_id set" where
  "hold (PcPodCreate _ _, Inr i) S = insert i S"
| "hold (PcPodStopAndRemove i _, Inr _) S = S - {i}"
| "hold _ S = S"

text \<open>
  The pods that were created and whose removal Podman has not carried out since, those once found not to be
  live, and those whose removal failed: the runtime ignores the answer (\<open>pod_stop_and_remove\<close> returns nothing).
\<close>

definition held_pods :: "podman_log \<Rightarrow> pod_id set" where
  "held_pods log = fold hold log {}"

definition found_dead :: "podman_log \<Rightarrow> pod_id set" where
  "found_dead log = {i. \<exists>e. (PcIsPodLive i, Inl e) \<in> set log}"

definition removal_failed :: "podman_log \<Rightarrow> pod_id set" where
  "removal_failed log = {i. \<exists>t e. (PcPodStopAndRemove i t, Inl e) \<in> set log}"

text \<open>The pods the runtime does not know any more.\<close>

definition dropped :: "podman_log \<Rightarrow> pod_id set" where
  "dropped log = found_dead log \<union> removal_failed log"

definition created_as :: "string \<Rightarrow> podman_log \<Rightarrow> pod_id set" where
  "created_as pn log = {i. \<exists>al. (PcPodCreate pn al, Inr i) \<in> set log}"

definition created_pods :: "podman_log \<Rightarrow> pod_id set" where
  "created_pods log = (\<Union>pn. created_as pn log)"

lemma hold_neutral: "list_all neutral xs \<Longrightarrow> fold hold xs S = S"
proof (induction xs arbitrary: S)
  case (Cons x xs)
  then show ?case by (cases x rule: neutral.cases) simp_all
qed simp

lemma held_append: "held_pods (log @ xs) = fold hold xs (held_pods log)"
  by (simp add: held_pods_def)

lemma dead_append: "found_dead (log @ xs) = found_dead log \<union> found_dead xs"
  by (auto simp: found_dead_def)

lemma dropped_append: "dropped (log @ xs) = dropped log \<union> dropped xs"
  by (auto simp: dropped_def found_dead_def removal_failed_def)

lemma created_append: "created_as pn (log @ xs) = created_as pn log \<union> created_as pn xs"
  by (auto simp: created_as_def)

lemma created_pods_append: "created_pods (log @ xs) = created_pods log \<union> created_pods xs"
  by (auto simp: created_pods_def created_append)

lemma neutral_sets:
  "list_all neutral xs \<Longrightarrow> found_dead xs = {} \<and> dropped xs = {} \<and> created_as pn xs = {} \<and> created_pods xs = {}"
  by (auto simp: found_dead_def dropped_def removal_failed_def created_as_def created_pods_def list_all_iff)

lemma log_Cons:
  "found_dead (x # xs) = found_dead [x] \<union> found_dead xs" "created_as pn (x # xs) = created_as pn [x] \<union> created_as pn xs"
  "created_pods (x # xs) = created_pods [x] \<union> created_pods xs" "dropped (x # xs) = dropped [x] \<union> dropped xs"
  by (auto simp: found_dead_def created_as_def created_pods_def dropped_def removal_failed_def)

lemma log_single [simp]:
  "found_dead [(PcIsPodLive i, Inl e)] = {i}" "found_dead [(PcIsPodLive i, Inr x)] = {}"
  "found_dead [(PcPodCreate pn al, a)] = {}" "found_dead [(PcPodStopAndRemove i t, a)] = {}"
  "created_as pn [(PcIsPodLive i, a)] = {}" "created_as pn [(PcPodStopAndRemove i t, a)] = {}"
  "created_as pn [(PcPodCreate pn' al, Inr i)] = (if pn = pn' then {i} else {})"
  "created_pods [(PcIsPodLive i, a)] = {}" "created_pods [(PcPodStopAndRemove i t, a)] = {}"
  "created_pods [(PcPodCreate pn' al, Inr i)] = {i}"
  "dropped [(PcIsPodLive i, Inl e)] = {i}" "dropped [(PcIsPodLive i, Inr x)] = {}" "dropped [(PcPodCreate pn al, a)] = {}"
  "dropped [(PcPodStopAndRemove i t, Inr x)] = {}" "dropped [(PcPodStopAndRemove i t, Inl e)] = {i}"
  by (auto simp: found_dead_def created_as_def created_pods_def dropped_def removal_failed_def)

definition accounted :: "(string \<times> pod) list \<Rightarrow> podman_log \<Rightarrow> bool" where
  "accounted pods log \<longleftrightarrow>
     distinct (map fst pods) \<and> distinct (map (pd_id \<circ> snd) pods) \<and>
     (pd_id \<circ> snd) ` set pods = held_pods log - dropped log \<and>
     held_pods log \<subseteq> created_pods log \<and> dropped log \<subseteq> created_pods log \<and>
     (\<forall>(n, pod) \<in> set pods. pd_id pod \<in> created_as (pod_name n) log)"

lemma accounted_neutral: "accounted pods log \<Longrightarrow> list_all neutral xs \<Longrightarrow> accounted pods (log @ xs)"
  by (simp add: accounted_def held_append hold_neutral dropped_append created_append created_pods_append neutral_sets)

lemma accounted_live: "accounted pods log \<Longrightarrow> accounted pods (log @ [(PcIsPodLive i, Inr x)])"
  by (simp add: accounted_def held_append dropped_append created_append created_pods_append)

lemma set_delete: "set (AList.delete n ps) = {x \<in> set ps. fst x \<noteq> n}"
  by (auto simp: AList.delete_eq)

lemma deleted_pods:
  assumes "distinct (map (pd_id \<circ> snd) pods)" and "map_of pods n = Some pod" and "distinct (map fst pods)"
  shows "(pd_id \<circ> snd) ` set (AList.delete n pods) = (pd_id \<circ> snd) ` set pods - {pd_id pod}"
proof -
  have pod: "(n, pod) \<in> set pods" using assms(2) by (rule map_of_SomeD)
  have inj: "inj_on (pd_id \<circ> snd) (set pods)" "inj_on fst (set pods)" using assms(1,3) by (simp_all add: distinct_map)
  have "fst x = n \<longleftrightarrow> (pd_id \<circ> snd) x = pd_id pod" if "x \<in> set pods" for x
  proof
    assume "fst x = n"
    then have "x = (n, pod)" using inj_onD [OF inj(2), of x "(n, pod)"] that pod by simp
    then show "(pd_id \<circ> snd) x = pd_id pod" by simp
  next
    assume "(pd_id \<circ> snd) x = pd_id pod"
    then have "x = (n, pod)" using inj_onD [OF inj(1), of x "(n, pod)"] that pod by simp
    then show "fst x = n" by simp
  qed
  then show ?thesis by (auto simp: set_delete)
qed

lemma distinct_delete: "distinct (map f pods) \<Longrightarrow> distinct (map f (AList.delete n pods))"
  by (simp add: AList.delete_eq distinct_map_filter)

lemma accounted_dead:
  assumes "accounted pods log" and "map_of pods n = Some pod"
  shows "accounted (AList.delete n pods) (log @ [(PcIsPodLive (pd_id pod), Inl e)])"
proof -
  have "pd_id pod \<in> created_pods log"
    using assms map_of_SomeD [OF assms(2)] by (auto simp: accounted_def created_pods_def)
  then show ?thesis
    using assms deleted_pods [of pods n pod]
    by (auto simp: accounted_def held_append dropped_append created_append created_pods_append distinct_delete set_delete)
qed

lemma accounted_removed:
  assumes "accounted pods log" and "map_of pods n = Some pod"
  shows "accounted (AList.delete n pods) (log @ [(PcPodStopAndRemove (pd_id pod) t, a)])"
proof -
  have "pd_id pod \<in> created_pods log"
    using assms map_of_SomeD [OF assms(2)] by (auto simp: accounted_def created_pods_def)
  then show ?thesis
    using assms deleted_pods [of pods n pod]
    by (cases a)
      (auto simp: accounted_def held_append dropped_append created_append created_pods_append distinct_delete set_delete)
qed

lemma update_absent: "n \<notin> fst ` set ps \<Longrightarrow> AList.update n v ps = ps @ [(n, v)]"
  by (induction ps) auto

lemma accounted_started:
  assumes "accounted pods log" and "started n i log log'" and "i \<notin> created_pods log" and "n \<notin> fst ` set pods"
  shows "accounted (AList.update n \<lparr>pd_id = i, pd_mount_volumes = vs\<rparr> pods) log'"
proof -
  obtain xs al ys where log': "log' = (log @ xs) @ (PcPodCreate (pod_name n) al, Inr i) # ys"
      and n: "list_all neutral xs" "list_all neutral ys" using assms(2) by (auto simp: started_def)
  have "accounted (AList.update n \<lparr>pd_id = i, pd_mount_volumes = vs\<rparr> pods) (log @ [(PcPodCreate (pod_name n) al, Inr i)])"
    using assms by (auto simp: accounted_def update_absent held_append dropped_append created_append created_pods_append)
  then show ?thesis
    using n by (simp add: accounted_def log' held_append hold_neutral dropped_append created_append created_pods_append
        log_Cons(4) [of _ ys] log_Cons(2) [of _ _ ys] log_Cons(3) [of _ ys] neutral_sets)
qed

lemma accounted_failed:
  assumes "accounted pods log" and "failed_start n log log'"
    and "\<And>i al xs ys. log' = log @ xs @ (PcPodCreate (pod_name n) al, Inr i) # ys \<Longrightarrow> i \<notin> created_pods log"
  shows "accounted pods log'"
  using assms(2) unfolding failed_start_def
proof (elim disjE exE conjE)
  show "accounted pods log'" if "list_all neutral xs" "log' = log @ xs" for xs
    using assms(1) that accounted_neutral by simp
next
  fix xs al i ys t a zs
  assume n: "list_all neutral (xs @ ys @ zs)"
    and log': "log' = log @ xs @ (PcPodCreate (pod_name n) al, Inr i) # ys @ (PcPodStopAndRemove i t, a) # zs"
  have "i \<notin> created_pods log" using assms(3) log' by blast
  then show "accounted pods log'"
    using assms(1) n
    by (cases a) (auto simp: accounted_def log' held_append hold_neutral dropped_append created_append created_pods_append
        log_Cons(4) [of _ "_ @ _"] log_Cons(2) [of _ _ "_ @ _"] log_Cons(3) [of _ "_ @ _"]
        log_Cons(4) [of _ zs] log_Cons(2) [of _ _ zs] log_Cons(3) [of _ zs] neutral_sets)
qed

section \<open>Operations\<close>

lemma pod_is_live_cases:
  assumes "pod_is_live env n p = (r, p')"
  shows "pl_repo p' = pl_repo p \<and>
    (map_of (pl_pods p) n = None \<and> r = Inr False \<and> pl_pods p' = pl_pods p \<and> pl_log p' = pl_log p \<or>
     (\<exists>pod x. map_of (pl_pods p) n = Some pod \<and> r = Inr True \<and> pl_pods p' = pl_pods p \<and>
        pl_log p' = pl_log p @ [(PcIsPodLive (pd_id pod), Inr x)]) \<or>
     (\<exists>pod e ys. map_of (pl_pods p) n = Some pod \<and> r = Inr False \<and> pl_pods p' = AList.delete n (pl_pods p) \<and>
        pl_log p' = (pl_log p @ [(PcIsPodLive (pd_id pod), Inl e)]) @ ys \<and> list_all neutral ys))"
proof (cases "map_of (pl_pods p) n")
  case None
  then show ?thesis using assms by (simp add: pod_is_live_def known_pod_def ebind_def)
next
  case pod: (Some pod)
  let ?call = "PcIsPodLive (pd_id pod)"
  show ?thesis
  proof (cases "pe_podman env (pl_log p) ?call")
    case (Inr x)
    then show ?thesis
      using assms pod by (auto simp: pod_is_live_def known_pod_def ebind_def podman_def Let_def)
  next
    case (Inl e)
    define p1 where "p1 = p\<lparr>pl_log := pl_log p @ [(?call, Inl e)], pl_pods := AList.delete n (pl_pods p)\<rparr>"
    obtain p2 where clean: "cleanup_mount_volumes env (pd_mount_volumes pod) p1 = (Inr (), p2)"
      using cleanup_total [of env "pd_mount_volumes pod" p1] by (cases "cleanup_mount_volumes env (pd_mount_volumes pod) p1") auto
    then obtain ys where "pl_pods p2 = pl_pods p1" "pl_repo p2 = pl_repo p1" "pl_log p2 = pl_log p1 @ ys"
        "list_all neutral ys" by (rule quietE [OF quiet_cleanup])
    moreover have "r = Inr False" "p' = p2"
      using assms pod Inl clean
      by (simp_all add: pod_is_live_def known_pod_def ebind_def podman_def Let_def forget_pod_def p1_def)
    ultimately show ?thesis using pod by (simp add: p1_def)
  qed
qed

lemma tear_down_cases:
  obtains p' where "tear_down env n p = (Inr (), p')" and "pl_repo p' = pl_repo p"
    and "map_of (pl_pods p) n = None \<and> pl_pods p' = pl_pods p \<and> pl_log p' = pl_log p \<or>
     (\<exists>pod a ys. map_of (pl_pods p) n = Some pod \<and> pl_pods p' = AList.delete n (pl_pods p) \<and>
        pl_log p' = (pl_log p @ [(PcPodStopAndRemove (pd_id pod) 5, a)]) @ ys \<and> list_all neutral ys)"
proof (cases "map_of (pl_pods p) n")
  case None
  then show ?thesis using that [of p] by (simp add: tear_down_def known_pod_def ebind_def)
next
  case pod: (Some pod)
  let ?call = "PcPodStopAndRemove (pd_id pod) 5"
  define p1 where "p1 = p\<lparr>pl_pods := AList.delete n (pl_pods p), pl_log := pl_log p @ [(?call, pe_podman env (pl_log p) ?call)]\<rparr>"
  obtain p2 where clean: "cleanup_mount_volumes env (pd_mount_volumes pod) p1 = (Inr (), p2)"
    using cleanup_total [of env "pd_mount_volumes pod" p1] by (cases "cleanup_mount_volumes env (pd_mount_volumes pod) p1") auto
  then obtain ys where "pl_pods p2 = pl_pods p1" "pl_repo p2 = pl_repo p1" "pl_log p2 = pl_log p1 @ ys"
      "list_all neutral ys" by (rule quietE [OF quiet_cleanup])
  moreover have "tear_down env n p = (Inr (), p2)"
    using pod clean
    by (simp add: tear_down_def known_pod_def ebind_def forget_pod_def stop_pod_def podman_def Let_def p1_def)
  ultimately show ?thesis using that [of p2] pod by (simp add: p1_def)
qed

lemma map_of_name: "map_of ps n = Some v \<Longrightarrow> n \<in> fst ` set ps"
  by (metis map_of_SomeD fst_conv image_eqI)

text \<open>What a start and a teardown do to the map, whatever Podman answers.\<close>

lemma start_pods:
  assumes "start env n a p = (r, p')"
  shows "pl_repo p' = pl_repo p" and "m \<noteq> n \<Longrightarrow> map_of (pl_pods p') m = map_of (pl_pods p) m"
    and "r = Inr () \<Longrightarrow> n \<in> fst ` set (pl_pods p')" and "r = Inl e \<Longrightarrow> n \<notin> fst ` set (pl_pods p')"
proof -
  obtain r1 p1 where live: "pod_is_live env n p = (r1, p1)" by (cases "pod_is_live env n p")
  note c = pod_is_live_cases [OF live]
  have "pl_repo p' = pl_repo p \<and> (m \<noteq> n \<longrightarrow> map_of (pl_pods p') m = map_of (pl_pods p) m) \<and>
      (r = Inr () \<longrightarrow> n \<in> fst ` set (pl_pods p')) \<and> (\<forall>e. r = Inl e \<longrightarrow> n \<notin> fst ` set (pl_pods p'))"
  proof (cases "r1 = Inr True")
    case True
    then have "r = Inr ()" "p' = p1" using assms live by (simp_all add: start_split ebind_def)
    then show ?thesis using c True by (auto intro: map_of_name)
  next
    case False
    then have "r1 = Inr False" using c by auto
    then have rest: "start_fresh env n a p1 = (r, p')" using assms live by (simp add: start_split ebind_def)
    have none: "map_of (pl_pods p1) n = None" "m \<noteq> n \<Longrightarrow> map_of (pl_pods p1) m = map_of (pl_pods p) m"
        "pl_repo p1 = pl_repo p"
      using c False by (auto simp: delete_conv')
    have "n \<notin> fst ` set (pl_pods p1)" using none(1) by (simp add: map_of_eq_None_iff)
    then show ?thesis
      using start_fresh_cases [OF rest] none by (auto simp: update_conv' dom_update)
  qed
  then show "pl_repo p' = pl_repo p" and "m \<noteq> n \<Longrightarrow> map_of (pl_pods p') m = map_of (pl_pods p) m"
    and "r = Inr () \<Longrightarrow> n \<in> fst ` set (pl_pods p')" and "r = Inl e \<Longrightarrow> n \<notin> fst ` set (pl_pods p')" by blast+
qed

lemma tear_down_pods:
  assumes "tear_down env n p = (r, p')"
  shows "r = Inr ()" and "pl_repo p' = pl_repo p" and "m \<noteq> n \<Longrightarrow> map_of (pl_pods p') m = map_of (pl_pods p) m"
    and "n \<notin> fst ` set (pl_pods p')"
proof -
  obtain p1 where p1: "tear_down env n p = (Inr (), p1)" "pl_repo p1 = pl_repo p" and
    c: "map_of (pl_pods p) n = None \<and> pl_pods p1 = pl_pods p \<and> pl_log p1 = pl_log p \<or>
     (\<exists>pod a ys. map_of (pl_pods p) n = Some pod \<and> pl_pods p1 = AList.delete n (pl_pods p) \<and>
        pl_log p1 = (pl_log p @ [(PcPodStopAndRemove (pd_id pod) 5, a)]) @ ys \<and> list_all neutral ys)"
    by (rule tear_down_cases)
  have eq: "r = Inr ()" "p' = p1" using assms p1(1) by simp_all
  show "r = Inr ()" and "pl_repo p' = pl_repo p" using eq p1(2) by simp_all
  from c have pods: "pl_pods p' = pl_pods p \<and> map_of (pl_pods p) n = None \<or> pl_pods p' = AList.delete n (pl_pods p)"
    using eq by blast
  then show "m \<noteq> n \<Longrightarrow> map_of (pl_pods p') m = map_of (pl_pods p) m" by (auto simp: delete_conv')
  from pods show "n \<notin> fst ` set (pl_pods p')" by (auto simp: map_of_eq_None_iff set_delete)
qed

section \<open>An invariant of the runtime\<close>

text \<open>Every answer in the log is Podman's answer to that call after the calls before it.\<close>

definition honest :: "'r pool_env \<Rightarrow> podman_log \<Rightarrow> bool" where
  "honest env log \<longleftrightarrow> (\<forall>xs c a ys. log = xs @ (c, a) # ys \<longrightarrow> a = pe_podman env xs c)"

text \<open>Podman's documented ids: a pod gets one that no pod had before.\<close>

definition fresh_ids :: "'r pool_env \<Rightarrow> bool" where
  "fresh_ids env \<longleftrightarrow> (\<forall>log pn al i. pe_podman env log (PcPodCreate pn al) = Inr i \<longrightarrow> i \<notin> created_pods log)"

definition pool_ok :: "'r pool_env \<Rightarrow> 'r pool \<Rightarrow> bool" where
  "pool_ok env p \<longleftrightarrow> accounted (pl_pods p) (pl_log p) \<and> honest env (pl_log p)"

lemma honest_snoc: "honest env log \<Longrightarrow> honest env (log @ [(c, pe_podman env log c)])"
  unfolding honest_def
proof (intro allI impI)
  fix xs c' a ys
  assume h: "\<forall>xs c a ys. log = xs @ (c, a) # ys \<longrightarrow> a = pe_podman env xs c"
    and eq: "log @ [(c, pe_podman env log c)] = xs @ (c', a) # ys"
  show "a = pe_podman env xs c'"
  proof (cases ys rule: rev_cases)
    case Nil
    then show ?thesis using eq by auto
  next
    case (snoc zs z)
    then have "log = xs @ (c', a) # zs" using eq by (metis append_Cons append_assoc butlast_snoc)
    then show ?thesis using h by blast
  qed
qed

lemma created_fresh:
  assumes "fresh_ids env" and "honest env log'" and "log' = log @ xs @ (PcPodCreate pn al, Inr i) # ys"
  shows "i \<notin> created_pods log"
proof -
  have "pe_podman env (log @ xs) (PcPodCreate pn al) = Inr i"
    using assms(2,3) unfolding honest_def by (metis append.assoc)
  then have "i \<notin> created_pods (log @ xs)" using assms(1) by (auto simp: fresh_ids_def)
  then show ?thesis by (simp add: created_pods_append)
qed

abbreviation keeps_honest :: "'r pool_env \<Rightarrow> ('r, 'a) pool_eff \<Rightarrow> bool" where
  "keeps_honest env m \<equiv> epreserves (\<lambda>p. honest env (pl_log p)) m"

lemma epreserves_loop: "(\<And>x. epreserves I (f x)) \<Longrightarrow> epreserves I (efor f xs)"
  by (induction xs) (auto intro: epreserves_rules simp del: eff_simps)

lemma honest_podman: "keeps_honest env (podman env c)"
  by (simp add: epreserves_def podman_def Let_def honest_snoc)

lemma honest_frame:
  "keeps_honest env (known_pod n)" "keeps_honest env (forget_pod n)" "keeps_honest env (remember_pod n pod)"
  by (simp_all add: epreserves_def known_pod_def forget_pod_def remember_pod_def)

lemma honest_mounts:
  "keeps_honest env (podman_try env c)" "keeps_honest env (cleanup_mount_volumes env vs)"
  "keeps_honest env (provision_mount_volumes env n a)" "keeps_honest env (start_in_pod env n pod target r vols)"
proof -
  show attempt: "keeps_honest env (podman_try env c)" for c
    unfolding podman_try_def by (intro epreserves_rules honest_podman)
  show "keeps_honest env (cleanup_mount_volumes env vs)"
    unfolding cleanup_mount_volumes_def by (intro epreserves_loop epreserves_rules honest_podman)
  have "keeps_honest env (provision_mount env n k m)" for k m
    unfolding provision_mount_def Let_def write_s3_credentials_def by (intro epreserves_rules honest_podman)
  then have "keeps_honest env (provision_mounts env n ms)" for ms
    by (induction env n ms rule: provision_mounts.induct) (simp_all del: eff_simps add: epreserves_rules)
  then show "keeps_honest env (provision_mount_volumes env n a)" by (simp add: provision_mount_volumes_def)
  show "keeps_honest env (start_in_pod env n pod target r vols)"
    unfolding start_in_pod_def Let_def by (intro epreserves_rules honest_podman attempt)
qed

lemma honest_start: "keeps_honest env (start env n a)" "keeps_honest env (tear_down env n)"
  unfolding start_def Let_def pod_is_live_def tear_down_def stop_pod_def
  by (intro epreserves_rules honest_podman honest_frame honest_mounts)+

lemma tear_down_ok: "epreserves (pool_ok env) (tear_down env n)"
  unfolding epreserves_def
proof (intro allI impI)
  fix p assume ok: "pool_ok env p"
  obtain p' where run: "tear_down env n p = (Inr (), p')" and
    c: "map_of (pl_pods p) n = None \<and> pl_pods p' = pl_pods p \<and> pl_log p' = pl_log p \<or>
     (\<exists>pod a ys. map_of (pl_pods p) n = Some pod \<and> pl_pods p' = AList.delete n (pl_pods p) \<and>
        pl_log p' = (pl_log p @ [(PcPodStopAndRemove (pd_id pod) 5, a)]) @ ys \<and> list_all neutral ys)"
    by (rule tear_down_cases)
  have "honest env (pl_log p')" using epreservesD [OF honest_start(2)] ok run by (metis pool_ok_def snd_conv)
  moreover have "accounted (pl_pods p') (pl_log p')"
    using c ok by (auto simp: pool_ok_def simp del: append_assoc intro!: accounted_neutral accounted_removed)
  ultimately show "pool_ok env (snd (tear_down env n p))" by (simp add: run pool_ok_def)
qed

lemma start_ok:
  assumes "fresh_ids env"
  shows "epreserves (pool_ok env) (start env n a)"
  unfolding epreserves_def
proof (intro allI impI)
  fix p assume ok: "pool_ok env p"
  obtain r p' where run: "start env n a p = (r, p')" by (cases "start env n a p")
  obtain r1 p1 where live: "pod_is_live env n p = (r1, p1)" by (cases "pod_is_live env n p")
  note c = pod_is_live_cases [OF live]
  have acc1: "accounted (pl_pods p1) (pl_log p1)"
    using c ok by (auto simp: pool_ok_def simp del: append_assoc intro!: accounted_neutral accounted_dead accounted_live)
  have hon: "honest env (pl_log p')" using epreservesD [OF honest_start(1)] ok run by (metis pool_ok_def snd_conv)
  have "accounted (pl_pods p') (pl_log p')"
  proof (cases "r1 = Inr True")
    case True
    then show ?thesis using acc1 run live by (simp add: start_split ebind_def)
  next
    case False
    then have "r1 = Inr False" using c by auto
    then have rest: "start_fresh env n a p1 = (r, p')" using run live by (simp add: start_split ebind_def)
    have new: "n \<notin> fst ` set (pl_pods p1)"
      using c False by (auto simp: map_of_eq_None_iff set_delete)
    note fresh = created_fresh [OF assms hon]
    from start_fresh_cases [OF rest] show ?thesis
      using accounted_failed [OF acc1] accounted_started [OF acc1 _ _ new] fresh
      by (metis (no_types, lifting) append.assoc started_def)
  qed
  then show "pool_ok env (snd (start env n a p))" using hon by (simp add: run pool_ok_def)
qed

end
