(* ===== verification/PoolRun.thy ===== *)
theory PoolRun
  imports PoolLaws
begin

text \<open>
  The container runtime over any run of ticks, other writers of the repository in between: which pods it
  holds, that a tick answers every agent that waits for one, and where pods, volumes and names are lost.
  A tick is taken whole; the daemon may cancel one in the middle of it when it shuts down.
\<close>

section \<open>Runs\<close>

inductive pool_step :: "'r pool_env \<Rightarrow> 'r pool \<Rightarrow> 'r pool \<Rightarrow> bool" for env where
  pool_ticks: "pool_step env p (snd (pool_tick env agents p))"
| pool_others: "pool_step env p (p\<lparr>pl_repo := r\<rparr>)"

lemma pool_frames_ok:
  "epreserves (pool_ok env) (derived_status env n)" "epreserves (pool_ok env) (container_check env n f)"
  by (simp_all add: epreserves_def pool_ok_def derived_status_def container_check_def pool_now_def append_check_def
      ebind_def split_beta)

lemma reconcile_ok: "fresh_ids env \<Longrightarrow> epreserves (pool_ok env) (reconcile_agent env a)"
  unfolding reconcile_agent_def by (intro epreserves_rules pool_frames_ok start_ok tear_down_ok)

lemma tick_ok:
  assumes "fresh_ids env" and "pool_ok env p"
  shows "pool_ok env (snd (pool_tick env agents p))"
proof -
  have "epreserves (pool_ok env) (efor (tear_down env) ns)" for ns by (rule epreserves_loop) (rule tear_down_ok)
  then have "epreserves (pool_ok env) (stop_orphans env agents)" by (simp add: epreserves_def stop_orphans_def)
  then have "epreserves (pool_ok env) (ensure_containers env agents)"
    unfolding ensure_containers_def by (intro epreserves_rules epreserves_loop reconcile_ok assms(1))
  then show ?thesis using assms(2) by (auto simp: epreserves_def pool_tick_def split: prod.split)
qed

lemma step_ok: "pool_step env p p' \<Longrightarrow> fresh_ids env \<Longrightarrow> pool_ok env p \<Longrightarrow> pool_ok env p'"
  by (induction rule: pool_step.induct) (simp_all add: tick_ok, simp add: pool_ok_def)

lemma run_ok: "(pool_step env)\<^sup>*\<^sup>* p p' \<Longrightarrow> fresh_ids env \<Longrightarrow> pool_ok env p \<Longrightarrow> pool_ok env p'"
  by (induction rule: rtranclp_induct) (auto intro: step_ok)

lemma new_ok: "pool_ok env (pool_new [] r t)"
  by (simp add: pool_ok_def pool_new_def accounted_def honest_def held_pods_def dropped_def found_dead_def removal_failed_def
      created_pods_def created_as_def)

section \<open>Pods\<close>

lemma stop_pods_log:
  assumes "distinct (map pd_id pods)"
  shows "\<exists>ys. pl_log (snd (efor (stop_pod env) pods p)) = pl_log p @ ys \<and>
     held_pods (pl_log p @ ys) = held_pods (pl_log p) - (pd_id ` set pods - dropped ys) \<and> dropped ys \<subseteq> pd_id ` set pods \<and>
     found_dead ys = {}"
  using assms
proof (induction pods arbitrary: p)
  case (Cons pod pods)
  let ?call = "PcPodStopAndRemove (pd_id pod) 5"
  define a where "a = pe_podman env (pl_log p) ?call"
  define p1 where "p1 = p\<lparr>pl_log := pl_log p @ [(?call, a)]\<rparr>"
  obtain p2 where clean: "cleanup_mount_volumes env (pd_mount_volumes pod) p1 = (Inr (), p2)"
    using cleanup_total [of env "pd_mount_volumes pod" p1] by (cases "cleanup_mount_volumes env (pd_mount_volumes pod) p1") auto
  then obtain xs where xs: "pl_log p2 = pl_log p1 @ xs" "list_all neutral xs" by (rule quietE [OF quiet_cleanup])
  have run: "efor (stop_pod env) (pod # pods) p = efor (stop_pod env) pods p2"
    using clean by (simp add: stop_pod_def ebind_def podman_def Let_def p1_def a_def)
  obtain ys where ys: "pl_log (snd (efor (stop_pod env) pods p2)) = pl_log p2 @ ys"
      "held_pods (pl_log p2 @ ys) = held_pods (pl_log p2) - (pd_id ` set pods - dropped ys)"
      "dropped ys \<subseteq> pd_id ` set pods" "found_dead ys = {}"
    using Cons.IH [of p2] Cons.prems unfolding list.map distinct.simps by blast
  let ?zs = "(?call, a) # xs @ ys"
  have held: "held_pods (pl_log p2) = (case a of Inl _ \<Rightarrow> held_pods (pl_log p) | Inr _ \<Rightarrow> held_pods (pl_log p) - {pd_id pod})"
    using xs by (cases a) (simp_all add: p1_def held_append hold_neutral)
  have drops: "dropped ?zs = (case a of Inl _ \<Rightarrow> {pd_id pod} | Inr _ \<Rightarrow> {}) \<union> dropped ys"
    using xs by (cases a) (simp_all add: log_Cons(4) [of _ "_ @ _"] dropped_append neutral_sets)
  have log: "pl_log p @ ?zs = pl_log p2 @ ys" using xs by (simp add: p1_def)
  have new: "pd_id pod \<notin> pd_id ` set pods" using Cons.prems by simp
  show ?case
    unfolding run
  proof (intro exI conjI)
    show "pl_log (snd (efor (stop_pod env) pods p2)) = pl_log p @ ?zs" unfolding log by (rule ys(1))
    show "held_pods (pl_log p @ ?zs) = held_pods (pl_log p) - (pd_id ` set (pod # pods) - dropped ?zs)"
      unfolding log ys(2) held drops using new ys(3) by (cases a) auto
    show "dropped ?zs \<subseteq> pd_id ` set (pod # pods)"
      unfolding drops using ys(3) by (cases a) auto
    show "found_dead ?zs = {}"
      using xs ys(4) by (simp add: log_Cons(1) [of _ "_ @ _"] dead_append neutral_sets)
  qed
qed (simp add: found_dead_def dropped_def removal_failed_def)

text \<open>
  C21: over any run of ticks, whatever Podman answers to any call (but that it gives every new pod an id that
  no pod had before), the runtime's map names exactly the pods that were created and not removed, less those
  it dropped: a pod once found dead, and a pod whose removal failed, which the runtime forgets all the same.
  A shutdown asks for the removal of every pod of the map, so that the pods it leaves behind are those
  dropped before and those whose removal fails now.
\<close>

theorem pod_accounting:
  assumes "fresh_ids env" and "(pool_step env)\<^sup>*\<^sup>* (pool_new [] r t) p"
  shows "distinct (map fst (pl_pods p)) \<and>
         (pd_id \<circ> snd) ` set (pl_pods p) = held_pods (pl_log p) - (found_dead (pl_log p) \<union> removal_failed (pl_log p)) \<and>
         held_pods (pl_log (pool_shutdown env p)) =
           held_pods (pl_log p) \<inter> (found_dead (pl_log p) \<union> removal_failed (pl_log (pool_shutdown env p)))"
proof -
  have ok: "accounted (pl_pods p) (pl_log p)" using run_ok [OF assms(2,1) new_ok] by (simp add: pool_ok_def)
  then have "distinct (map pd_id (map snd (pl_pods p)))" by (simp add: accounted_def)
  from stop_pods_log [OF this, of env "p\<lparr>pl_pods := []\<rparr>"] obtain ys where
      ys: "pl_log (pool_shutdown env p) = pl_log p @ ys"
      "held_pods (pl_log p @ ys) = held_pods (pl_log p) - (pd_id ` set (map snd (pl_pods p)) - dropped ys)"
      "dropped ys \<subseteq> pd_id ` set (map snd (pl_pods p))" "found_dead ys = {}"
    by (auto simp: pool_shutdown_def)
  have "removal_failed (pl_log p @ ys) = removal_failed (pl_log p) \<union> dropped ys"
    using ys(4) by (auto simp: dropped_def removal_failed_def)
  with ys ok show ?thesis by (auto simp: accounted_def image_comp dropped_def)
qed

section \<open>A tick settles\<close>

abbreviation mem_pool_env :: "(string list \<Rightarrow> string list) \<Rightarrow> 'r pool_env \<Rightarrow> readiness_check list pool_env" where
  "mem_pool_env iter env \<equiv>
     \<lparr>pe_config = pe_config env, pe_repo = mem_repository iter, pe_podman = pe_podman env, pe_now = pe_now env,
      pe_has_whitespace = pe_has_whitespace env\<rparr>"

lemma container_check_run:
  "\<exists>t1 t2 k. container_check (mem_pool_env iter env) n f p =
     (Inr (), p\<lparr>pl_clock := k, pl_repo := pl_repo p @ [f t2 (check_pending t1 n ''container'')]\<rparr>)"
  by (auto simp: container_check_def ebind_def pool_now_def append_check_def)

lemma check_fields [simp]:
  "rk_agent (check_pending t n w) = n" "rk_worker (check_pending t n w) = w"
  "rk_agent (check_ready t c) = rk_agent c" "rk_worker (check_ready t c) = rk_worker c" "rk_status (check_ready t c) = RsReady"
  "rk_agent (check_failed t e c) = rk_agent c" "rk_worker (check_failed t e c) = rk_worker c"
  "rk_status (check_failed t e c) = RsFailed"
  "rk_agent (check_deleted t c) = rk_agent c" "rk_worker (check_deleted t c) = rk_worker c"
  "rk_status (check_deleted t c) = RsDeleted"
  by (simp_all add: check_pending_def check_ready_def check_failed_def check_deleted_def)

text \<open>One agent: no effect, or one check by the container worker, with a pod for the agent or without.\<close>

lemma reconcile_run:
  fixes iter env a p
  defines "n \<equiv> ag_name a" and "st \<equiv> mem_get_derived_status iter (ag_name a) (pl_repo p)"
  obtains p' where "reconcile_agent (mem_pool_env iter env) a p = (Inr (), p')"
    and "\<And>m. m \<noteq> n \<Longrightarrow> map_of (pl_pods p') m = map_of (pl_pods p) m"
    and "st \<noteq> Inr (Some AsDeploying) \<and> st \<noteq> Inr (Some AsDeleting) \<and> p' = p \<or>
         (\<exists>c. pl_repo p' = pl_repo p @ [c] \<and> rk_agent c = n \<and> rk_worker c = ''container'' \<and>
            (st = Inr (Some AsDeploying) \<and>
               (rk_status c = RsReady \<and> n \<in> fst ` set (pl_pods p') \<or> rk_status c = RsFailed \<and> n \<notin> fst ` set (pl_pods p')) \<or>
             st = Inr (Some AsDeleting) \<and> rk_status c = RsDeleted \<and> n \<notin> fst ` set (pl_pods p')))"
proof -
  let ?env = "mem_pool_env iter env"
  have status: "derived_status ?env n p = (Inr (result_or None st), p)"
    by (simp add: derived_status_def st_def n_def)
  consider (deploying) "st = Inr (Some AsDeploying)" | (deleting) "st = Inr (Some AsDeleting)"
    | (idle) "st \<noteq> Inr (Some AsDeploying)" "st \<noteq> Inr (Some AsDeleting)" by blast
  then show ?thesis
  proof cases
    case deploying
    obtain r p1 where start: "start ?env n a p = (r, p1)" by (cases "start ?env n a p")
    note s = start_pods [OF start]
    show ?thesis
    proof (cases r)
      case (Inl e)
      obtain t1 t2 k where run: "container_check ?env n (\<lambda>t. check_failed t e) p1 =
          (Inr (), p1\<lparr>pl_clock := k, pl_repo := pl_repo p1 @ [check_failed t2 e (check_pending t1 n ''container'')]\<rparr>)"
        using container_check_run [where iter = iter and env = env and n = n and f = "\<lambda>t. check_failed t e" and p = p1] by blast
      have "reconcile_agent ?env a p =
          (Inr (), p1\<lparr>pl_clock := k, pl_repo := pl_repo p1 @ [check_failed t2 e (check_pending t1 n ''container'')]\<rparr>)"
        using status start run Inl deploying by (simp add: reconcile_agent_def n_def [symmetric] ebind_run)
      then show ?thesis by (rule that) (use s Inl deploying in auto)
    next
      case (Inr u)
      obtain t1 t2 k where run: "container_check ?env n check_ready p1 =
          (Inr (), p1\<lparr>pl_clock := k, pl_repo := pl_repo p1 @ [check_ready t2 (check_pending t1 n ''container'')]\<rparr>)"
        using container_check_run [where iter = iter and env = env and n = n and f = check_ready and p = p1] by blast
      have "reconcile_agent ?env a p =
          (Inr (), p1\<lparr>pl_clock := k, pl_repo := pl_repo p1 @ [check_ready t2 (check_pending t1 n ''container'')]\<rparr>)"
        using status start run Inr deploying by (simp add: reconcile_agent_def n_def [symmetric] ebind_run)
      then show ?thesis by (rule that) (use s Inr deploying in auto)
    qed
  next
    case deleting
    obtain r p1 where down: "tear_down ?env n p = (r, p1)" by (cases "tear_down ?env n p")
    note d = tear_down_pods [OF down]
    obtain t1 t2 k where run: "container_check ?env n check_deleted p1 =
        (Inr (), p1\<lparr>pl_clock := k, pl_repo := pl_repo p1 @ [check_deleted t2 (check_pending t1 n ''container'')]\<rparr>)"
      using container_check_run [where iter = iter and env = env and n = n and f = check_deleted and p = p1] by blast
    have "reconcile_agent ?env a p =
        (Inr (), p1\<lparr>pl_clock := k, pl_repo := pl_repo p1 @ [check_deleted t2 (check_pending t1 n ''container'')]\<rparr>)"
      using status down run d(1) deleting by (simp add: reconcile_agent_def n_def [symmetric] ebind_run)
    then show ?thesis by (rule that) (use d deleting in auto)
  next
    case idle
    have "reconcile_agent ?env a p = (Inr (), p)"
      using status idle by (cases st) (auto simp: reconcile_agent_def n_def [symmetric] ebind_run)
    then show ?thesis by (rule that) (use idle in auto)
  qed
qed

lemma name_known: "n \<in> fst ` set ps \<longleftrightarrow> map_of ps n \<noteq> None"
  by (simp add: map_of_eq_None_iff)

interpretation pool: settling_loop "\<lambda>a p. snd (reconcile_agent (mem_pool_env iter env) a p)"
    "\<lambda>p. fst ` set (pl_pods p)" pl_repo "''container''" iter "\<lambda>_. True"
proof (unfold_locales, goal_cases)
  case (1 n a p)
  show ?case
    by (rule reconcile_run [where iter = iter and env = env and a = a and p = p]) (use 1 in \<open>simp add: name_known\<close>)
next
  case (2 a p)
  show ?case by (rule reconcile_run [where iter = iter and env = env and a = a and p = p]) auto
next
  case (3 a p)
  show ?case
    by (rule reconcile_run [where iter = iter and env = env and a = a and p = p]) (use 3 in auto)
next
  case (4 a p)
  show ?case
    by (rule reconcile_run [where iter = iter and env = env and a = a and p = p]) (use 4 in auto)
qed

lemma reconcile_total: "fst (reconcile_agent (mem_pool_env iter env) a p) = Inr ()"
  by (rule reconcile_run [where iter = iter and env = env and a = a and p = p]) simp

lemma tear_downs:
  defines "down \<equiv> \<lambda>env ns p. fold (\<lambda>n p. snd (tear_down env n p)) ns p"
  shows "efor (tear_down env) ns p = (Inr (), down env ns p)" and "pl_repo (down env ns p) = pl_repo p"
    and "m \<notin> set ns \<Longrightarrow> map_of (pl_pods (down env ns p)) m = map_of (pl_pods p) m"
    and "m \<in> set ns \<Longrightarrow> map_of (pl_pods (down env ns p)) m = None"
proof -
  have one: "fst (tear_down env n p) = Inr ()" "pl_repo (snd (tear_down env n p)) = pl_repo p"
      "m \<noteq> n \<Longrightarrow> map_of (pl_pods (snd (tear_down env n p))) m = map_of (pl_pods p) m"
      "map_of (pl_pods (snd (tear_down env n p))) n = None" for n m p
    using tear_down_pods [OF prod.collapse [symmetric], where env = env and n = n and p = p]
    by (auto simp: map_of_eq_None_iff)
  show "efor (tear_down env) ns p = (Inr (), down env ns p)"
    unfolding down_def by (rule efor_total) (rule one(1))
  show "pl_repo (down env ns p) = pl_repo p"
    unfolding down_def by (induction ns arbitrary: p) (simp_all add: one)
  show keep: "map_of (pl_pods (down env ns p)) m = map_of (pl_pods p) m" if "m \<notin> set ns" for ns m p
    using that unfolding down_def by (induction ns arbitrary: p) (simp_all add: one)
  show "map_of (pl_pods (down env ns p)) m = None" if "m \<in> set ns"
    using that
  proof (induction ns arbitrary: p)
    case (Cons n ns)
    then show ?case
      using keep [of m ns "snd (tear_down env n p)"] one(4) [of m p] by (cases "m \<in> set ns") (auto simp: down_def)
  qed simp
qed

lemma orphans_stopped:
  obtains p1 where "stop_orphans env agents p = (Inr (), p1)" and "pl_repo p1 = pl_repo p"
    and "fst ` set (pl_pods p1) \<subseteq> ag_name ` set agents"
    and "\<And>n. n \<in> ag_name ` set agents \<Longrightarrow> map_of (pl_pods p1) n = map_of (pl_pods p) n"
proof -
  let ?ns = "filter (\<lambda>n. n \<notin> ag_name ` set agents) (map fst (pl_pods p))"
  define p1 where "p1 = fold (\<lambda>n p. snd (tear_down env n p)) ?ns p"
  have run: "stop_orphans env agents p = (Inr (), p1)" "pl_repo p1 = pl_repo p"
    by (simp_all add: stop_orphans_def tear_downs(1,2) p1_def)
  have keep: "map_of (pl_pods p1) n = map_of (pl_pods p) n" if "n \<in> ag_name ` set agents" for n
    unfolding p1_def by (rule tear_downs(3)) (use that in auto)
  have gone: "map_of (pl_pods p1) n = None" if "n \<notin> ag_name ` set agents" for n
  proof (cases "n \<in> set ?ns")
    case True
    then show ?thesis unfolding p1_def by (rule tear_downs(4))
  next
    case False
    then have "map_of (pl_pods p1) n = map_of (pl_pods p) n" unfolding p1_def by (rule tear_downs(3))
    moreover have "n \<notin> fst ` set (pl_pods p)" using False that by auto
    ultimately show ?thesis by (simp add: map_of_eq_None_iff)
  qed
  have "n \<in> ag_name ` set agents" if "n \<in> fst ` set (pl_pods p1)" for n
    using gone [of n] that name_known [of n "pl_pods p1"] by (rule_tac ccontr) simp
  then have "fst ` set (pl_pods p1) \<subseteq> ag_name ` set agents" by (rule subsetI)
  then show ?thesis by (rule that [OF run _ keep])
qed

lemma pool_tick_run:
  obtains p1 where "snd (pool_tick (mem_pool_env iter env) agents p) =
      fold (\<lambda>a p. snd (reconcile_agent (mem_pool_env iter env) a p)) agents p1"
    and "pl_repo p1 = pl_repo p" and "fst ` set (pl_pods p1) \<subseteq> ag_name ` set agents"
proof -
  obtain p1 where "stop_orphans (mem_pool_env iter env) agents p = (Inr (), p1)" "pl_repo p1 = pl_repo p"
      "fst ` set (pl_pods p1) \<subseteq> ag_name ` set agents"
    by (rule orphans_stopped)
  moreover from this(1) have "snd (pool_tick (mem_pool_env iter env) agents p) =
      fold (\<lambda>a p. snd (reconcile_agent (mem_pool_env iter env) a p)) agents p1"
    by (simp add: pool_tick_def ensure_containers_def ebind_run efor_total reconcile_total split_beta)
  ultimately show ?thesis using that by blast
qed

text \<open>
  C22: one tick answers every agent that waits: one that was Deploying has a Ready check of the container
  worker and a pod, or a Failed check and none; one that was Deleting has a Deleted check and no pod; and
  no pod is kept for a name the registry does not hold.
\<close>

theorem tick_settles:
  fixes iter env agents p a
  defines "p' \<equiv> snd (pool_tick (mem_pool_env iter env) agents p)"
    and "st \<equiv> mem_get_derived_status iter (ag_name a) (pl_repo p)"
  assumes "distinct (map ag_name agents)" and "a \<in> set agents"
  shows "(st = Inr (Some AsDeploying) \<longrightarrow>
            (\<exists>c. latest_check (ag_name a) ''container'' (pl_repo p') = Some c \<and>
               (rk_status c = RsReady \<and> ag_name a \<in> fst ` set (pl_pods p') \<or>
                rk_status c = RsFailed \<and> ag_name a \<notin> fst ` set (pl_pods p')))) \<and>
         (st = Inr (Some AsDeleting) \<longrightarrow>
            (\<exists>c. latest_check (ag_name a) ''container'' (pl_repo p') = Some c \<and>
               rk_status c = RsDeleted \<and> ag_name a \<notin> fst ` set (pl_pods p'))) \<and>
         fst ` set (pl_pods p') \<subseteq> ag_name ` set agents"
proof -
  obtain p1 where p1: "p' = fold (\<lambda>a p. snd (reconcile_agent (mem_pool_env iter env) a p)) agents p1"
      "pl_repo p1 = pl_repo p" "fst ` set (pl_pods p1) \<subseteq> ag_name ` set agents"
    unfolding p'_def by (rule pool_tick_run)
  have "n \<notin> fst ` set (pl_pods p')" if "n \<notin> ag_name ` set agents" for n
    using pool.loop_others [OF that, where iter = iter and env = env and w = p1] p1 that
    by (auto simp: pool.agrees_def)
  then show ?thesis
    using pool.loop_settles [OF assms(3,4), where iter = iter and env = env and w = p1] p1 unfolding st_def by auto
qed

section \<open>After a restart\<close>

lemma stop_pods_frame: "pl_pods (snd (efor (stop_pod env) pods p)) = pl_pods p \<and> pl_repo (snd (efor (stop_pod env) pods p)) = pl_repo p"
proof (induction pods arbitrary: p)
  case (Cons pod pods)
  let ?call = "PcPodStopAndRemove (pd_id pod) 5"
  define p1 where "p1 = p\<lparr>pl_log := pl_log p @ [(?call, pe_podman env (pl_log p) ?call)]\<rparr>"
  obtain p2 where clean: "cleanup_mount_volumes env (pd_mount_volumes pod) p1 = (Inr (), p2)"
    using cleanup_total [of env "pd_mount_volumes pod" p1] by (cases "cleanup_mount_volumes env (pd_mount_volumes pod) p1") auto
  then have "pl_pods p2 = pl_pods p" "pl_repo p2 = pl_repo p"
    by (rule quietE [OF quiet_cleanup], simp add: p1_def)+
  moreover have "efor (stop_pod env) (pod # pods) p = efor (stop_pod env) pods p2"
    using clean by (simp add: stop_pod_def ebind_def podman_def Let_def p1_def)
  ultimately show ?case using Cons [of p2] by simp
qed simp

lemma idle_tick:
  assumes "pl_pods p = []"
    and "\<forall>a \<in> set agents. mem_get_derived_status iter (ag_name a) (pl_repo p) = Inr (Some AsLive)"
  shows "snd (pool_tick (mem_pool_env iter env) agents p) = p"
proof -
  have "reconcile_agent (mem_pool_env iter env) a p = (Inr (), p)" if "a \<in> set agents" for a
    using assms(2) that by (simp add: reconcile_agent_def derived_status_def ebind_run result_or_def)
  then have "efor (reconcile_agent (mem_pool_env iter env)) as p = (Inr (), p)" if "set as \<subseteq> set agents" for as
    using that by (induction as) (simp_all add: ebind_run)
  then show ?thesis
    using assms(1) by (simp add: pool_tick_def ensure_containers_def stop_orphans_def ebind_run)
qed

text \<open>
  C28: a shutdown removes the pods and leaves the checks; a runtime started afterwards over the same
  repository finds every agent Live and does nothing, in no number of ticks: no agent is started, and the
  status stays Live.
\<close>

theorem live_agents_not_restarted:
  fixes iter env p agents
  defines "q \<equiv> pool_shutdown (mem_pool_env iter env) p"
  assumes "\<forall>a \<in> set agents. mem_get_derived_status iter (ag_name a) (pl_repo p) = Inr (Some AsLive)"
  shows "pl_pods q = [] \<and> pl_repo q = pl_repo p \<and>
    ((\<lambda>p. snd (pool_tick (mem_pool_env iter env) agents p)) ^^ k) (pool_new (pl_log q) (pl_repo q) t) =
      pool_new (pl_log q) (pl_repo q) t"
proof -
  have q: "pl_pods q = []" "pl_repo q = pl_repo p"
    using stop_pods_frame [of "mem_pool_env iter env" "map snd (pl_pods p)" "p\<lparr>pl_pods := []\<rparr>"]
    by (simp_all add: q_def pool_shutdown_def)
  have "snd (pool_tick (mem_pool_env iter env) agents (pool_new (pl_log q) (pl_repo q) t)) = pool_new (pl_log q) (pl_repo q) t"
    by (rule idle_tick) (simp_all add: pool_new_def q assms(2))
  then show ?thesis using q by (induction k) simp_all
qed

section \<open>A dead pod\<close>

text \<open>
  The pods Podman has, with their names, after the calls of a log: a ghost parameter, since a pod may also be
  created or removed by others.  Podman's documented rule: no pod is created under the name of one that
  exists.  And an assumption on those others: the pod \<open>i\<close> is removed by nobody but the runtime.
\<close>

type_synonym podman_view = "podman_log \<Rightarrow> (string \<times> pod_id) set"

definition names_conflict :: "'r pool_env \<Rightarrow> podman_view \<Rightarrow> bool" where
  "names_conflict env there \<longleftrightarrow>
     (\<forall>log pn i al. (pn, i) \<in> there log \<longrightarrow> (\<exists>e. pe_podman env log (PcPodCreate pn al) = Inl e))"

definition left_alone :: "'r pool_env \<Rightarrow> podman_view \<Rightarrow> pod_id \<Rightarrow> bool" where
  "left_alone env there i \<longleftrightarrow>
     (\<forall>log pn c. (pn, i) \<in> there log \<longrightarrow> (\<forall>t. c \<noteq> PcPodStopAndRemove i t) \<longrightarrow>
        (pn, i) \<in> there (log @ [(c, pe_podman env log c)]))"

definition blocked :: "'r pool_env \<Rightarrow> podman_view \<Rightarrow> string \<Rightarrow> pod_id \<Rightarrow> 'r pool \<Rightarrow> bool" where
  "blocked env there n i p \<longleftrightarrow>
     pool_ok env p \<and> n \<notin> fst ` set (pl_pods p) \<and>
     (pod_name n, i) \<in> there (pl_log p) \<and> i \<in> dropped (pl_log p)"

definition asked_removal :: "podman_log \<Rightarrow> pod_id set" where
  "asked_removal xs = {i. \<exists>t a. (PcPodStopAndRemove i t, a) \<in> set xs}"

lemma asked_simps [simp]:
  "asked_removal [] = {}" "asked_removal (xs @ ys) = asked_removal xs \<union> asked_removal ys"
  "asked_removal ((PcPodStopAndRemove i t, a) # xs) = insert i (asked_removal xs)"
  "asked_removal ((PcPodCreate pn al, a) # xs) = asked_removal xs"
  "asked_removal ((PcIsPodLive i, a) # xs) = asked_removal xs"
  by (auto simp: asked_removal_def)

lemma asked_neutral: "list_all neutral xs \<Longrightarrow> asked_removal xs = {}"
  by (auto simp: asked_removal_def list_all_iff)

lemma honest_init: "honest env (log @ [(c, a)]) \<Longrightarrow> honest env log \<and> a = pe_podman env log c"
  unfolding honest_def by (metis append.assoc append_Cons append_Nil)

lemma still_there:
  assumes "left_alone env there i"
  shows "honest env (log @ xs) \<Longrightarrow> (pn, i) \<in> there log \<Longrightarrow> i \<notin> asked_removal xs \<Longrightarrow> (pn, i) \<in> there (log @ xs)"
proof (induction xs rule: rev_induct)
  case (snoc x xs)
  obtain c a where x: "x = (c, a)" by (cases x)
  from snoc.prems(1) have h: "honest env (log @ xs)" "a = pe_podman env (log @ xs) c"
    using honest_init [of env "log @ xs" c a] by (simp_all add: x)
  have "(pn, i) \<in> there (log @ xs)" by (rule snoc.IH [OF h(1) snoc.prems(2)]) (use snoc.prems(3) in simp)
  moreover have "\<forall>t. c \<noteq> PcPodStopAndRemove i t" using snoc.prems(3) by (auto simp: x)
  ultimately have "(pn, i) \<in> there ((log @ xs) @ [(c, pe_podman env (log @ xs) c)])"
    using assms unfolding left_alone_def by blast
  then show ?case by (simp add: x h(2))
qed simp

lemma start_fresh_asks:
  assumes "fresh_ids env" and "honest env log'" and "failed_start m log log' \<or> (\<exists>j. started m j log log')"
  shows "\<exists>xs. log' = log @ xs \<and> asked_removal xs \<inter> created_pods log = {}"
proof -
  consider (nothing) xs where "list_all neutral xs" "log' = log @ xs"
    | (undone) xs al j ys t a zs where "list_all neutral (xs @ ys @ zs)"
      "log' = log @ xs @ (PcPodCreate (pod_name m) al, Inr j) # ys @ (PcPodStopAndRemove j t, a) # zs"
    | (started) xs al j ys where "list_all neutral (xs @ ys)" "log' = log @ xs @ (PcPodCreate (pod_name m) al, Inr j) # ys"
    using assms(3) unfolding failed_start_def started_def by metis
  then show ?thesis
  proof cases
    case nothing
    then show ?thesis by (intro exI [of _ xs]) (simp add: asked_neutral)
  next
    case undone
    then have "j \<notin> created_pods log" using created_fresh [OF assms(1,2)] by blast
    then show ?thesis
      using undone by (intro exI [of _ "xs @ (PcPodCreate (pod_name m) al, Inr j) # ys @ (PcPodStopAndRemove j t, a) # zs"])
        (simp add: asked_neutral)
  next
    case started
    then show ?thesis
      by (intro exI [of _ "xs @ (PcPodCreate (pod_name m) al, Inr j) # ys"]) (simp add: asked_neutral)
  qed
qed

text \<open>A blocked name stays blocked when the log grows and does not ask for the pod's removal.\<close>

lemma blocked_grows:
  assumes "left_alone env there i" and "blocked env there n i p" and "pool_ok env p'"
    and "n \<notin> fst ` set (pl_pods p')" and "pl_log p' = pl_log p @ xs" and "i \<notin> asked_removal xs"
  shows "blocked env there n i p'"
  using assms still_there [OF assms(1), of "pl_log p" xs "pod_name n"]
  by (simp add: blocked_def dropped_append pool_ok_def)

lemma blocked_created: "blocked env there n i p \<Longrightarrow> i \<in> created_pods (pl_log p)"
  by (auto simp: blocked_def pool_ok_def accounted_def)

lemma blocked_start_fails:
  assumes "names_conflict env there" and "left_alone env there i" and "blocked env there n i p"
    and "start_fresh env n a p = (r, p')" and "honest env (pl_log p')"
  shows "\<exists>e. r = Inl e"
proof (rule ccontr)
  assume "\<not> ?thesis"
  then obtain j where "started n j (pl_log p) (pl_log p')" using start_fresh_cases [OF assms(4)] by auto
  then obtain xs al ys where xs: "list_all neutral xs"
      and log': "pl_log p' = (pl_log p @ xs) @ (PcPodCreate (pod_name n) al, Inr j) # ys"
    by (auto simp: started_def)
  have "Inr j = pe_podman env (pl_log p @ xs) (PcPodCreate (pod_name n) al)"
    using assms(5) log' unfolding honest_def by blast
  moreover have "honest env (pl_log p @ xs)"
    using assms(5) log' unfolding honest_def by (metis append.assoc append_Cons)
  then have "(pod_name n, i) \<in> there (pl_log p @ xs)"
    using still_there [OF assms(2)] assms(3) xs by (simp add: blocked_def asked_neutral)
  ultimately show False using assms(1) unfolding names_conflict_def by (metis Inl_Inr_False)
qed

lemma pod_is_live_ok: "epreserves (pool_ok env) (pod_is_live env n)"
  unfolding epreserves_def
proof (intro allI impI)
  fix p assume ok: "pool_ok env p"
  obtain r p' where run: "pod_is_live env n p = (r, p')" by (cases "pod_is_live env n p")
  have "keeps_honest env (pod_is_live env n)"
    unfolding pod_is_live_def by (intro epreserves_rules honest_podman honest_frame honest_mounts)
  then have "honest env (pl_log p')" using epreservesD ok run by (metis pool_ok_def snd_conv)
  moreover have "accounted (pl_pods p') (pl_log p')"
    using pod_is_live_cases [OF run] ok
    by (auto simp: pool_ok_def simp del: append_assoc intro!: accounted_neutral accounted_dead accounted_live)
  ultimately show "pool_ok env (snd (pod_is_live env n p))" by (simp add: run pool_ok_def)
qed

lemma blocked_live:
  assumes "left_alone env there i" and "blocked env there n i p"
  shows "blocked env there n i (snd (pod_is_live env m p))"
proof -
  obtain r1 p1 where live: "pod_is_live env m p = (r1, p1)" by (cases "pod_is_live env m p")
  note c = pod_is_live_cases [OF live]
  have ok: "pool_ok env p1"
    using epreservesD [OF pod_is_live_ok, of env p m] assms(2) live by (simp add: blocked_def)
  have names: "n \<notin> fst ` set (pl_pods p1)" using c assms(2) by (auto simp: blocked_def set_delete)
  have "\<exists>xs. pl_log p1 = pl_log p @ xs \<and> asked_removal xs = {}"
    using c by (auto simp: asked_neutral)
  then show ?thesis using blocked_grows [OF assms ok names] live by auto
qed

lemma blocked_start:
  assumes "fresh_ids env" and "names_conflict env there" and "left_alone env there i" and "blocked env there n i p"
  shows "blocked env there n i (snd (start env m a p))" and "m = n \<Longrightarrow> \<exists>e. fst (start env m a p) = Inl e"
proof -
  obtain r p' where run: "start env m a p = (r, p')" by (cases "start env m a p")
  obtain r1 p1 where live: "pod_is_live env m p = (r1, p1)" by (cases "pod_is_live env m p")
  note c = pod_is_live_cases [OF live]
  have ok: "pool_ok env p'"
    using epreservesD [OF start_ok [OF assms(1)], of p m a] assms(4) run by (simp add: blocked_def)
  have p1: "blocked env there n i p1" using blocked_live [OF assms(3,4), of m] live by simp
  have "blocked env there n i p' \<and> (m = n \<longrightarrow> (\<exists>e. r = Inl e))"
  proof (cases "r1 = Inr True")
    case True
    then have "m \<noteq> n" using c assms(4) by (auto simp: blocked_def dest: map_of_name)
    then show ?thesis using True run live p1 by (simp add: start_split ebind_def)
  next
    case False
    then have "r1 = Inr False" using c by auto
    then have rest: "start_fresh env m a p1 = (r, p')" using run live by (simp add: start_split ebind_def)
    have hon: "honest env (pl_log p')" using ok by (simp add: pool_ok_def)
    have fails: "\<exists>e. r = Inl e" if "m = n"
      using blocked_start_fails [OF assms(2,3) p1 _ hon] rest that by blast
    have names: "n \<notin> fst ` set (pl_pods p')"
    proof (cases "m = n")
      case True
      then show ?thesis using fails start_pods(4) [OF run] by blast
    next
      case False
      then have "map_of (pl_pods p') n = map_of (pl_pods p) n" using start_pods(2) [OF run, of n] by simp
      then show ?thesis using assms(4) name_known [of n "pl_pods p"] name_known [of n "pl_pods p'"] by (simp add: blocked_def)
    qed
    have "failed_start m (pl_log p1) (pl_log p') \<or> (\<exists>j. started m j (pl_log p1) (pl_log p'))"
      using start_fresh_cases [OF rest] by blast
    then obtain xs where "pl_log p' = pl_log p1 @ xs" "asked_removal xs \<inter> created_pods (pl_log p1) = {}"
      using start_fresh_asks [OF assms(1) hon] by blast
    then have "blocked env there n i p'"
      using blocked_grows [OF assms(3) p1 ok names] blocked_created [OF p1] by blast
    then show ?thesis using fails by blast
  qed
  then show "blocked env there n i (snd (start env m a p))" and "m = n \<Longrightarrow> \<exists>e. fst (start env m a p) = Inl e"
    using run by auto
qed

lemma blocked_tear_down: "left_alone env there i \<Longrightarrow> epreserves (blocked env there n i) (tear_down env m)"
  unfolding epreserves_def
proof (intro allI impI)
  fix p assume alone: "left_alone env there i" and b: "blocked env there n i p"
  obtain p' where run: "tear_down env m p = (Inr (), p')" and
    c: "map_of (pl_pods p) m = None \<and> pl_pods p' = pl_pods p \<and> pl_log p' = pl_log p \<or>
     (\<exists>pod a ys. map_of (pl_pods p) m = Some pod \<and> pl_pods p' = AList.delete m (pl_pods p) \<and>
        pl_log p' = (pl_log p @ [(PcPodStopAndRemove (pd_id pod) 5, a)]) @ ys \<and> list_all neutral ys)"
    by (rule tear_down_cases)
  have ok: "pool_ok env p'" using epreservesD [OF tear_down_ok, of env p m] b run by (simp add: blocked_def)
  have names: "n \<notin> fst ` set (pl_pods p')" using b c by (auto simp: blocked_def set_delete)
  have "pd_id pod \<noteq> i" if "map_of (pl_pods p) m = Some pod" for pod
  proof -
    have "pd_id pod \<in> (pd_id \<circ> snd) ` set (pl_pods p)" using map_of_SomeD [OF that] by force
    then show ?thesis using b by (auto simp: blocked_def pool_ok_def accounted_def)
  qed
  then have "\<exists>xs. pl_log p' = pl_log p @ xs \<and> i \<notin> asked_removal xs"
    using c by (auto simp: asked_neutral)
  then show "blocked env there n i (snd (tear_down env m p))"
    using blocked_grows [OF alone b ok names] run by auto
qed

lemma blocked_step:
  assumes "pool_step env p p'" and "fresh_ids env" and "names_conflict env there" and "left_alone env there i"
    and "blocked env there n i p"
  shows "blocked env there n i p'"
  using assms(1,5)
proof cases
  case (pool_ticks agents)
  have frames: "epreserves (blocked env there n i) (derived_status env m)"
      "epreserves (blocked env there n i) (container_check env m f)" for m f
    by (simp_all add: epreserves_def blocked_def pool_ok_def derived_status_def container_check_def pool_now_def
        append_check_def ebind_def split_beta)
  have "epreserves (blocked env there n i) (start env m a)" for m a
    unfolding epreserves_def using blocked_start(1) [OF assms(2-4)] by blast
  then have "epreserves (blocked env there n i) (reconcile_agent env a)" for a
    unfolding reconcile_agent_def by (intro epreserves_rules frames blocked_tear_down assms(4))
  moreover have "epreserves (blocked env there n i) (efor (tear_down env) ns)" for ns
    by (rule epreserves_loop) (rule blocked_tear_down [OF assms(4)])
  then have "epreserves (blocked env there n i) (stop_orphans env agents)" by (simp add: epreserves_def stop_orphans_def)
  ultimately have "epreserves (blocked env there n i) (ensure_containers env agents)"
    unfolding ensure_containers_def by (intro epreserves_rules epreserves_loop)
  then show ?thesis using assms(5) pool_ticks by (auto simp: epreserves_def pool_tick_def split: prod.split)
next
  case (pool_others r)
  then show ?thesis using assms(5) by (simp add: blocked_def pool_ok_def)
qed

lemma blocked_run:
  "(pool_step env)\<^sup>*\<^sup>* p p' \<Longrightarrow> fresh_ids env \<Longrightarrow> names_conflict env there \<Longrightarrow> left_alone env there i \<Longrightarrow>
   blocked env there n i p \<Longrightarrow> blocked env there n i p'"
  by (induction rule: rtranclp_induct) (auto intro: blocked_step)

text \<open>
  C26: an agent whose pod is found dead while it still exists (exited, say) is not started again as long as
  nobody but the runtime removes pods.  The runtime drops the dead pod from its map and does not remove it,
  then or ever after; so the pod keeps its name, under which Podman creates no other: this start fails, and
  so does every later one, after any run of ticks, and the dead pod is still there.
\<close>

theorem dead_pod_blocks_name:
  assumes "fresh_ids env" and "names_conflict env there" and "(pool_step env)\<^sup>*\<^sup>* (pool_new [] r t) p"
    and "map_of (pl_pods p) n = Some pod" and "pe_podman env (pl_log p) (PcIsPodLive (pd_id pod)) = Inl e"
    and "(pod_name n, pd_id pod) \<in> there (pl_log p)" and "left_alone env there (pd_id pod)"
    and "(pool_step env)\<^sup>*\<^sup>* (snd (start env n a p)) p'"
  shows "(\<exists>e. fst (start env n a p) = Inl e) \<and> (\<exists>e. fst (start env n b p') = Inl e) \<and>
         (pod_name n, pd_id pod) \<in> there (pl_log p')"
proof -
  have ok: "pool_ok env p" by (rule run_ok [OF assms(3,1) new_ok])
  obtain r1 p1 where live: "pod_is_live env n p = (r1, p1)" by (cases "pod_is_live env n p")
  have ok1: "pool_ok env p1" using epreservesD [OF pod_is_live_ok, of env p n] ok live by simp
  then have hon1: "honest env (pl_log p1)" by (simp add: pool_ok_def)
  have "pl_log p1 \<noteq> pl_log p @ [(PcIsPodLive (pd_id pod), Inr x)]" for x
    using hon1 assms(5) unfolding honest_def by (metis Inl_Inr_False)
  then have r1: "r1 = Inr False" using pod_is_live_cases [OF live] assms(4) by auto
  then obtain e ys where log1: "pl_log p1 = pl_log p @ (PcIsPodLive (pd_id pod), Inl e) # ys" "list_all neutral ys"
      "pl_pods p1 = AList.delete n (pl_pods p)"
    using pod_is_live_cases [OF live] assms(4) by auto
  have "(pod_name n, pd_id pod) \<in> there (pl_log p1)"
    using still_there [OF assms(7) hon1 [unfolded log1(1)] assms(6)] log1 by (simp add: asked_neutral)
  then have blocked: "blocked env there n (pd_id pod) p1"
    using log1 ok1 by (simp add: blocked_def dropped_append log_Cons(4) [of _ ys] set_delete image_iff)
  have same: "start env n a p = start_fresh env n a p1" using live r1 by (simp add: start_split ebind_def)
  obtain q rr where fresh: "start_fresh env n a p1 = (rr, q)" by (cases "start_fresh env n a p1")
  have okq: "pool_ok env q" using epreservesD [OF start_ok [OF assms(1)], of p n a] ok same fresh by simp
  then have hon: "honest env (pl_log q)" by (simp add: pool_ok_def)
  obtain e' where e': "rr = Inl e'" using blocked_start_fails [OF assms(2,7) blocked fresh hon] by blast
  have q: "failed_start n (pl_log p1) (pl_log q)" "pl_pods q = pl_pods p1" using start_fresh_cases [OF fresh] e' by auto
  then obtain xs where xs: "pl_log q = pl_log p1 @ xs" "asked_removal xs \<inter> created_pods (pl_log p1) = {}"
    using start_fresh_asks [OF assms(1) hon] by blast
  have "n \<notin> fst ` set (pl_pods q)" using blocked q(2) by (simp add: blocked_def)
  then have "blocked env there n (pd_id pod) q"
    using blocked_grows [OF assms(7) blocked okq] xs blocked_created [OF blocked] by blast
  then have "blocked env there n (pd_id pod) p'"
    using blocked_run [OF _ assms(1,2,7)] assms(8) by (simp add: same fresh)
  then show ?thesis
    using blocked_start(2) [OF assms(1,2,7), of n p' n b] same fresh e' by (simp add: blocked_def)
qed

section \<open>An instance\<close>

text \<open>
  A Podman that gives a new id to every pod, refuses the name of a pod that exists and says of every pod
  that it does not run.
\<close>

definition name_taken :: "podman_log \<Rightarrow> string \<Rightarrow> bool" where
  "name_taken log pn =
     list_ex (\<lambda>(c, a). case (c, a) of (PcPodCreate pn' _, Inr i) \<Rightarrow> pn' = pn \<and> i \<in> held_pods log | _ \<Rightarrow> False) log"

definition created_text :: "podman_log \<Rightarrow> string" where
  "created_text log = concat (map (\<lambda>(c, a). case (c, a) of (PcPodCreate _ _, Inr i) \<Rightarrow> i | _ \<Rightarrow> []) log)"

fun example_podman :: "podman_log \<Rightarrow> podman_call \<Rightarrow> (string, string) rust_result" where
  "example_podman log (PcPodCreate pn _) =
     (if name_taken log pn then Inl ''name in use'' else Inr (CHR ''p'' # created_text log))"
| "example_podman log (PcIsPodLive _) = Inl ''exited''"
| "example_podman log _ = Inr []"

definition example_pool_env :: "readiness_check list pool_env" where
  "example_pool_env =
     \<lparr>pe_config = \<lparr>pc_image_policy = ''mutable'', pc_podman_socket = ''auto'', pc_sidecar_image = ''localhost/sidecar'', pc_queue_backend = ''nats'',
        pc_nats_url = [], pc_amqp_url = [], pc_registry_addr = [],
        pc_state_addr = [], pc_secret_addr = []\<rparr>,
      pe_repo = mem_repository (\<lambda>ws. ws), pe_podman = example_podman, pe_now = int, pe_has_whitespace = (\<lambda>_. False)\<rparr>"

definition example_pool_agent :: agent where
  "example_pool_agent =
     \<lparr>ag_name = ''echo'', ag_description = [], ag_source = None,
      ag_requirements = \<lparr>req_models = [], req_services = [], req_mounts = [], req_mcp = []\<rparr>,
      ag_id = agent_placeholder_id ''echo'', ag_runtime = RtContainer, ag_executable = ''localhost/echo:latest'',
      ag_image_digest = None, ag_public_key = None, ag_object_storage = None, ag_vector_storage = None\<rparr>"

definition example_pending :: "readiness_check list pool" where
  "example_pending = pool_new [] [check_pending 0 ''echo'' ''container''] 0"

definition example_pool :: "readiness_check list pool" where
  "example_pool = snd (pool_tick example_pool_env [example_pool_agent] example_pending)"

lemma created_text_bound: "(PcPodCreate pn al, Inr i) \<in> set log \<Longrightarrow> length i \<le> length (created_text log)"
  by (induction log) (auto simp: created_text_def)

lemma example_ids_fresh: "fresh_ids example_pool_env"
proof -
  have "CHR ''p'' # created_text log \<notin> created_pods log" for log
    using created_text_bound by (fastforce simp: created_pods_def created_as_def)
  then show ?thesis by (auto simp: fresh_ids_def example_pool_env_def split: if_splits)
qed

text \<open>What this Podman has: the pods created and not removed.\<close>

definition example_there :: podman_view where
  "example_there log = {(pn, i). i \<in> held_pods log \<and> i \<in> created_as pn log}"

lemma example_conflict: "names_conflict example_pool_env example_there"
  by (fastforce simp: names_conflict_def example_there_def example_pool_env_def name_taken_def created_as_def list_ex_iff)

lemma example_left_alone: "left_alone example_pool_env example_there i"
proof -
  have "i \<in> hold (c, a) S" if "i \<in> S" "\<forall>t. c \<noteq> PcPodStopAndRemove i t" for c S and a :: "(string, string) rust_result"
    using that by (cases c; cases a) auto
  then show ?thesis
    by (auto simp: left_alone_def example_there_def held_append created_append)
qed

lemma example_mem: "mem_pool_env (\<lambda>ws. ws) example_pool_env = example_pool_env"
  by (simp add: example_pool_env_def)

lemma example_runs: "(pool_step example_pool_env)\<^sup>*\<^sup>* (pool_new [] [check_pending 0 ''echo'' ''container''] 0) example_pool"
  unfolding example_pool_def example_pending_def by (rule r_into_rtranclp) (rule pool_ticks)

lemma example_tick:
  "pl_pods example_pool = [(''echo'', \<lparr>pd_id = ''p'', pd_mount_volumes = []\<rparr>)] \<and>
   pl_repo example_pool =
     [check_pending 0 ''echo'' ''container'', check_ready 1 (check_pending 0 ''echo'' ''container'')]"
proof -
  have env: "pe_podman example_pool_env = example_podman" "pe_repo example_pool_env = mem_repository (\<lambda>ws. ws)"
      "pe_now example_pool_env = int"
    by (simp_all add: example_pool_env_def)
  have agent: "ag_name example_pool_agent = ''echo''" "req_mounts (ag_requirements example_pool_agent) = []"
    by (simp_all add: example_pool_agent_def)
  have status: "mem_get_derived_status (\<lambda>ws. ws) ''echo'' [check_pending 0 ''echo'' ''container''] = Inr (Some AsDeploying)"
    by code_simp
  have create: "example_podman [] (PcPodCreate pn al) = Inr ''p''" for pn al
    by (simp add: name_taken_def created_text_def)
  have worker: "runtime_as_str RtContainer = ''container''" by simp
  show ?thesis
    by (simp add: example_pool_def example_pending_def pool_new_def pool_tick_def ensure_containers_def
        stop_orphans_def reconcile_agent_def derived_status_def start_def pod_is_live_def known_pod_def
        provision_mount_volumes_def podman_try_def podman_def start_in_pod_def remember_pod_def container_check_def
        append_check_def pool_now_def Let_def ebind_run ebind_def ecatch_def result_or_def env agent status create worker
        del: example_podman.simps(1))
qed

lemmas example_pods = example_tick [THEN conjunct1]

lemma example_live: "mem_get_derived_status (\<lambda>ws. ws) ''echo'' (pl_repo example_pool) = Inr (Some AsLive)"
  unfolding example_tick [THEN conjunct2] by code_simp

theorem pod_accounting_witness:
  "held_pods (pl_log example_pool) - (found_dead (pl_log example_pool) \<union> removal_failed (pl_log example_pool)) = {''p''} \<and>
   held_pods (pl_log (pool_shutdown example_pool_env example_pool)) =
     held_pods (pl_log example_pool) \<inter>
       (found_dead (pl_log example_pool) \<union> removal_failed (pl_log (pool_shutdown example_pool_env example_pool)))"
  using pod_accounting [OF example_ids_fresh example_runs] by (simp add: example_pods)

theorem tick_settles_witness:
  "\<exists>c. latest_check ''echo'' ''container'' (pl_repo example_pool) = Some c \<and>
     (rk_status c = RsReady \<or> rk_status c = RsFailed)"
proof -
  have "mem_get_derived_status (\<lambda>ws. ws) ''echo'' (pl_repo example_pending) = Inr (Some AsDeploying)" by code_simp
  moreover have "ag_name example_pool_agent = ''echo''" by (simp add: example_pool_agent_def)
  ultimately show ?thesis
    using tick_settles [of "[example_pool_agent]" example_pool_agent "\<lambda>ws. ws" example_pending example_pool_env]
    unfolding example_mem by (auto simp: example_pool_def)
qed

theorem live_agents_not_restarted_witness:
  "let q = pool_shutdown example_pool_env example_pool in
     ((\<lambda>p. snd (pool_tick example_pool_env [example_pool_agent] p)) ^^ 7) (pool_new (pl_log q) (pl_repo q) 9) =
       pool_new (pl_log q) (pl_repo q) 9 \<and> pl_pods q = []"
proof -
  have "\<forall>a \<in> set [example_pool_agent]. mem_get_derived_status (\<lambda>ws. ws) (ag_name a) (pl_repo example_pool) = Inr (Some AsLive)"
    using example_live by (simp add: example_pool_agent_def)
  from live_agents_not_restarted [OF this, of example_pool_env 7 9] show ?thesis
    unfolding example_mem by (auto simp only: Let_def)
qed

theorem dead_pod_blocks_name_witness:
  "let p' = snd (start example_pool_env ''echo'' example_pool_agent example_pool) in
     (\<exists>e. fst (start example_pool_env ''echo'' example_pool_agent p') = Inl e) \<and>
     (pod_name ''echo'', ''p'') \<in> example_there (pl_log p')"
proof -
  have pod: "map_of (pl_pods example_pool) ''echo'' = Some \<lparr>pd_id = ''p'', pd_mount_volumes = []\<rparr>"
    by (simp add: example_pods)
  have dead: "pe_podman example_pool_env (pl_log example_pool) (PcIsPodLive (pd_id \<lparr>pd_id = ''p'', pd_mount_volumes = []\<rparr>)) = Inl ''exited''"
    by (simp add: example_pool_env_def)
  have "accounted (pl_pods example_pool) (pl_log example_pool)"
    using run_ok [OF example_runs example_ids_fresh new_ok] by (simp add: pool_ok_def)
  then have there: "(pod_name ''echo'', pd_id \<lparr>pd_id = ''p'', pd_mount_volumes = []\<rparr>) \<in> example_there (pl_log example_pool)"
    by (auto simp: accounted_def example_pods example_there_def)
  show ?thesis
    using dead_pod_blocks_name [OF example_ids_fresh example_conflict example_runs pod dead there example_left_alone
        rtranclp.rtrancl_refl, of example_pool_agent example_pool_agent]
    by (simp only: Let_def simp_thms pod.simps)
qed

end
