(* ===== verification/LambdaRuntime.thy ===== *)
theory LambdaRuntime
  imports Queue Repository "HOL-Library.AList"
begin

text \<open>
  The Lambda runtime (\<open>crates/vlinder-lambda-runtime/src/runtime.rs\<close>, with the trait of
  \<open>lambda_client.rs\<close>): an IAM role and a function per agent, reconciled with the registry, and one task per
  function that takes invokes off the queue.

  As in \<open>ContainerPool\<close>, a call of the client is a value and its answer may depend on the log of all calls
  before it; \<open>Inr None\<close> is \<open>get_function\<close>'s answer for a function that does not exist.  The agents in the
  registry are an argument of each tick.  A task that runs is its agent's name in \<open>lr_tasks\<close>; what one turn
  of its loop does to the queue and the client is \<open>dispatch_invoke\<close>.  How many polls fit into the fifteen
  minutes of \<open>wait_for_active\<close> is the parameter \<open>le_polls\<close>, so that the wait is a bounded recursion.
  The code's hash maps are association lists: the order in which a tick visits the agents is that of
  \<open>agents\<close>, which is any list; the order in which orphans go shows in the log only.
\<close>

section \<open>The client\<close>

record create_function_request =
  cf_function_name :: string
  cf_ecr_image_uri :: string
  cf_role_arn :: string
  cf_memory_mb :: int
  cf_timeout_secs :: int
  cf_env_vars :: "(string \<times> string) list"
  cf_vpc_subnet_ids :: "string list"
  cf_vpc_security_group_ids :: "string list"

datatype lambda_call =
    LcCreateRole string
  | LcDeleteRole string
  | LcCreateFunction create_function_request
  | LcGetFunction string
  | LcDeleteFunction string
  | LcInvokeFunction string bytes

type_synonym lambda_log = "(lambda_call \<times> (string, string option) rust_result) list"

section \<open>State\<close>

record lambda_runtime_config =
  lc_registry_addr :: string
  lc_region :: string
  lc_memory_mb :: int
  lc_timeout_secs :: int
  lc_queue_backend :: string
  lc_nats_url :: string
  lc_amqp_url :: string
  lc_state_url :: string
  lc_secret_url :: "string option"
  lc_vpc_subnet_ids :: "string list"
  lc_vpc_security_group_ids :: "string list"

record ('q, 'r) lambda_env =
  le_config :: lambda_runtime_config
  le_repo :: "'r repository"
  le_queue :: "'q mq_ops"
  le_client :: "lambda_log \<Rightarrow> lambda_call \<Rightarrow> (string, string option) rust_result"
  le_polls :: "nat \<Rightarrow> nat"
  le_now :: "nat \<Rightarrow> timestamp"
  le_uuid :: "nat \<Rightarrow> string"
  le_invoke_json :: "data_routing_key \<Rightarrow> invoke_message \<Rightarrow> bytes option"

record deployed_function =
  df_role_arn :: string
  df_function_arn :: string

record ('q, 'r) lambda_rt =
  lr_functions :: "(string \<times> deployed_function) list"
  lr_tasks :: "string list"
  lr_log :: lambda_log
  lr_repo :: 'r
  lr_queue :: 'q
  lr_clock :: nat

type_synonym ('q, 'r, 'a) lambda_eff = "(('q, 'r) lambda_rt, 'a) eff"

text \<open>\<open>LambdaRuntime::with_client\<close>: no function is known, no task runs.\<close>

definition lambda_new :: "lambda_log \<Rightarrow> 'r \<Rightarrow> 'q \<Rightarrow> nat \<Rightarrow> ('q, 'r) lambda_rt" where
  "lambda_new log r q t =
     \<lparr>lr_functions = [], lr_tasks = [], lr_log = log, lr_repo = r, lr_queue = q, lr_clock = t\<rparr>"

definition lambda_client ::
    "('q, 'r) lambda_env \<Rightarrow> lambda_call \<Rightarrow> ('q, 'r, (string, string option) rust_result) lambda_eff" where
  "lambda_client env c p =
     (let a = le_client env (lr_log p) c in (Inr a, p\<lparr>lr_log := lr_log p @ [(c, a)]\<rparr>))"

definition lambda_try :: "('q, 'r) lambda_env \<Rightarrow> lambda_call \<Rightarrow> ('q, 'r, string) lambda_eff" where
  "lambda_try env c = ebind (lambda_client env c) (\<lambda>a. elift (map_sum id (unwrap_or []) a))"

definition lambda_tick :: "(nat \<Rightarrow> 'a) \<Rightarrow> ('q, 'r, 'a) lambda_eff" where
  "lambda_tick f p = (Inr (f (lr_clock p)), p\<lparr>lr_clock := Suc (lr_clock p)\<rparr>)"

text \<open>\<open>wait_for_active\<close>, with the number of polls before the deadline.\<close>

fun await_active :: "('q, 'r) lambda_env \<Rightarrow> string \<Rightarrow> nat \<Rightarrow> ('q, 'r, unit) lambda_eff" where
  "await_active env name 0 = efail (''function '' @ name @ '' did not become Active within 15 min'')"
| "await_active env name (Suc n) =
     ebind (lambda_client env (LcGetFunction name)) (\<lambda>a.
       case a of
         Inl e \<Rightarrow> efail e
       | Inr None \<Rightarrow> efail (''function '' @ name @ '' not found while waiting'')
       | Inr (Some state) \<Rightarrow> if state = ''Active'' then eret () else await_active env name n)"

definition wait_for_active :: "('q, 'r) lambda_env \<Rightarrow> string \<Rightarrow> ('q, 'r, unit) lambda_eff" where
  "wait_for_active env name = ebind (lambda_tick (le_polls env)) (await_active env name)"

section \<open>Deploying and tearing down\<close>

definition function_name_of :: "string \<Rightarrow> string" where
  "function_name_of name = ''vlinder-'' @ name"

definition role_name_of :: "string \<Rightarrow> string" where
  "role_name_of name = ''vlinder-agent-'' @ name"

definition lambda_env_vars :: "lambda_runtime_config \<Rightarrow> agent \<Rightarrow> (string \<times> string) list" where
  "lambda_env_vars config agent =
     [(''VLINDER_AGENT'', ag_name agent), (''VLINDER_QUEUE_BACKEND'', lc_queue_backend config),
      (''VLINDER_REGISTRY_URL'', lc_registry_addr config), (''VLINDER_STATE_URL'', lc_state_url config)] @
     (if lc_queue_backend config = ''amqp'' then [(''VLINDER_AMQP_URL'', lc_amqp_url config)]
      else [(''VLINDER_NATS_URL'', lc_nats_url config)]) @
     (case lc_secret_url config of None \<Rightarrow> [] | Some u \<Rightarrow> [(''VLINDER_SECRET_URL'', u)])"

definition remember_function :: "string \<Rightarrow> deployed_function \<Rightarrow> ('q, 'r, unit) lambda_eff" where
  "remember_function name f p = (Inr (), p\<lparr>lr_functions := AList.update name f (lr_functions p)\<rparr>)"

definition lambda_deploy :: "('q, 'r) lambda_env \<Rightarrow> string \<Rightarrow> agent \<Rightarrow> ('q, 'r, unit) lambda_eff" where
  "lambda_deploy env name agent =
     ebind (lambda_try env (LcCreateRole (role_name_of name))) (\<lambda>role_arn.
     ebind (lambda_try env (LcCreateFunction
              \<lparr>cf_function_name = function_name_of name, cf_ecr_image_uri = ag_executable agent,
               cf_role_arn = role_arn, cf_memory_mb = lc_memory_mb (le_config env),
               cf_timeout_secs = lc_timeout_secs (le_config env),
               cf_env_vars = lambda_env_vars (le_config env) agent,
               cf_vpc_subnet_ids = lc_vpc_subnet_ids (le_config env),
               cf_vpc_security_group_ids = lc_vpc_security_group_ids (le_config env)\<rparr>)) (\<lambda>function_arn.
     ebind (wait_for_active env (function_name_of name)) (\<lambda>_.
       remember_function name \<lparr>df_role_arn = role_arn, df_function_arn = function_arn\<rparr>)))"

text \<open>A task of the same name that ran before is dropped from the map, not cancelled.\<close>

definition spawn_invoke_task :: "string \<Rightarrow> ('q, 'r, unit) lambda_eff" where
  "spawn_invoke_task name p = (Inr (), p\<lparr>lr_tasks := List.insert name (lr_tasks p)\<rparr>)"

definition undeploy :: "('q, 'r) lambda_env \<Rightarrow> string \<Rightarrow> ('q, 'r, unit) lambda_eff" where
  "undeploy env name =
     ebind (\<lambda>p. (Inr (), p\<lparr>lr_tasks := removeAll name (lr_tasks p)\<rparr>)) (\<lambda>_.
     ebind (lambda_client env (LcDeleteFunction (function_name_of name))) (\<lambda>_.
     ebind (lambda_client env (LcDeleteRole (role_name_of name))) (\<lambda>_.
       (\<lambda>p. (Inr (), p\<lparr>lr_functions := AList.delete name (lr_functions p)\<rparr>)))))"

section \<open>Reconciling\<close>

definition lambda_append_check :: "('q, 'r) lambda_env \<Rightarrow> readiness_check \<Rightarrow> ('q, 'r, unit) lambda_eff" where
  "lambda_append_check env check p =
     (Inr (), p\<lparr>lr_repo := snd (rp_append_readiness_check (le_repo env) check (lr_repo p))\<rparr>)"

definition lambda_check ::
    "('q, 'r) lambda_env \<Rightarrow> string \<Rightarrow> (timestamp \<Rightarrow> readiness_check \<Rightarrow> readiness_check) \<Rightarrow> ('q, 'r, unit) lambda_eff" where
  "lambda_check env name f =
     ebind (lambda_tick (le_now env)) (\<lambda>t1. ebind (lambda_tick (le_now env)) (\<lambda>t2.
       lambda_append_check env (f t2 (check_pending t1 name (runtime_as_str RtLambda)))))"

definition is_deployed :: "string \<Rightarrow> ('q, 'r, bool) lambda_eff" where
  "is_deployed name p = (Inr (name \<in> fst ` set (lr_functions p)), p)"

definition ensure_deployed :: "('q, 'r) lambda_env \<Rightarrow> string \<Rightarrow> agent \<Rightarrow> ('q, 'r, unit) lambda_eff" where
  "ensure_deployed env name agent =
     ebind (is_deployed name) (\<lambda>deployed.
       if deployed then eret ()
       else ebind (ecatch (lambda_deploy env name agent)) (\<lambda>r.
              case r of
                Inr _ \<Rightarrow> ebind (lambda_check env name check_ready) (\<lambda>_. spawn_invoke_task name)
              | Inl e \<Rightarrow> lambda_check env name (\<lambda>t. check_failed t e)))"

definition ensure_deleted :: "('q, 'r) lambda_env \<Rightarrow> string \<Rightarrow> ('q, 'r, unit) lambda_eff" where
  "ensure_deleted env name =
     ebind (is_deployed name) (\<lambda>deployed.
     ebind (if deployed then undeploy env name else eret ()) (\<lambda>_.
       lambda_check env name check_deleted))"

definition lambda_status :: "('q, 'r) lambda_env \<Rightarrow> string \<Rightarrow> ('q, 'r, agent_status option) lambda_eff" where
  "lambda_status env name p =
     (case rp_get_derived_status (le_repo env) name (lr_repo p) of
        (s, r) \<Rightarrow> (Inr (result_or None s), p\<lparr>lr_repo := r\<rparr>))"

definition lambda_reconcile :: "('q, 'r) lambda_env \<Rightarrow> agent \<Rightarrow> ('q, 'r, unit) lambda_eff" where
  "lambda_reconcile env agent =
     ebind (lambda_status env (ag_name agent)) (\<lambda>status.
       if status = Some AsDeploying then ensure_deployed env (ag_name agent) agent
       else if status = Some AsDeleting then ensure_deleted env (ag_name agent)
       else eret ())"

definition stop_orphan_functions :: "('q, 'r) lambda_env \<Rightarrow> string list \<Rightarrow> ('q, 'r, unit) lambda_eff" where
  "stop_orphan_functions env desired p =
     efor (undeploy env) (filter (\<lambda>n. n \<notin> set desired) (map fst (lr_functions p))) p"

text \<open>The agents by name: of two with one name the later stays.\<close>

definition desired_agents :: "agent list \<Rightarrow> agent list" where
  "desired_agents agents = map snd (fold (\<lambda>a. AList.update (ag_name a) a) agents [])"

definition ensure_functions :: "('q, 'r) lambda_env \<Rightarrow> agent list \<Rightarrow> ('q, 'r, unit) lambda_eff" where
  "ensure_functions env agents =
     ebind (stop_orphan_functions env (map ag_name (desired_agents agents))) (\<lambda>_.
       efor (lambda_reconcile env) (desired_agents agents))"

definition lambda_runtime_tick ::
    "('q, 'r) lambda_env \<Rightarrow> agent list \<Rightarrow> ('q, 'r) lambda_rt \<Rightarrow> bool \<times> ('q, 'r) lambda_rt" where
  "lambda_runtime_tick env agents p =
     (case ensure_functions env agents p of
        (_, p') \<Rightarrow> (length (lr_functions p') \<noteq> length (lr_functions p), p'))"

definition lambda_shutdown :: "('q, 'r) lambda_env \<Rightarrow> ('q, 'r) lambda_rt \<Rightarrow> ('q, 'r) lambda_rt" where
  "lambda_shutdown env p = snd (efor (undeploy env) (map fst (lr_functions p)) (p\<lparr>lr_tasks := []\<rparr>))"

section \<open>Dispatching\<close>

definition on_lambda_queue :: "('q, 'a) mq_op \<Rightarrow> ('q, 'r, (queue_error, 'a) rust_result) lambda_eff" where
  "on_lambda_queue f p = (case f (lr_queue p) of (r, q) \<Rightarrow> (Inr r, p\<lparr>lr_queue := q\<rparr>))"

text \<open>
  One turn of the invoke task of an agent, from a receive that returns.  The answer of a function that ran
  is not looked at: the adapter inside it sends the completion itself.
\<close>

definition dispatch_invoke :: "('q, 'r) lambda_env \<Rightarrow> agent_name \<Rightarrow> ('q, 'r, unit) lambda_eff" where
  "dispatch_invoke env own =
     ebind (on_lambda_queue (mq_receive_invoke (le_queue env) own)) (\<lambda>received.
       case received of
         Inl _ \<Rightarrow> eret ()
       | Inr (key, invoke, ack) \<Rightarrow>
           ebind (on_lambda_queue ack) (\<lambda>_.
             case dk_kind key of
               DkInvoke harness _ agent \<Rightarrow>
                 ebind (lambda_client env (LcInvokeFunction (function_name_of own)
                          (unwrap_or ''{}'' (le_invoke_json env key invoke)))) (\<lambda>answer.
                   case answer of
                     Inr _ \<Rightarrow> eret ()
                   | Inl e \<Rightarrow>
                       ebind (lambda_tick (le_uuid env)) (\<lambda>i.
                       ebind (on_lambda_queue (mq_send_complete (le_queue env)
                                (key\<lparr>dk_kind := DkComplete agent harness\<rparr>)
                                \<lparr>cm_id = i, cm_dag_id = dag_node_id_root, cm_dag_parent = dag_node_id_root,
                                 cm_state = None, cm_diagnostics = runtime_diagnostics_placeholder 0,
                                 cm_content = None, cm_tool_calls = None,
                                 cm_payload = ''[error] Lambda invoke failed: '' @ e\<rparr>)) (\<lambda>_. eret ())))
             | _ \<Rightarrow> eret ()))"

end
