(* ===== verification/LambdaRun.thy ===== *)
theory LambdaRun
  imports LambdaRuntime Reconcile MemQueue
begin

text \<open>
  The Lambda runtime over ticks: which functions it holds, that each has its invoke task, what a tick
  answers and what it never answers.  The clock, the client and the queue are not constrained.
\<close>

section \<open>Operations\<close>

abbreviation deployed :: "('q, 'r) lambda_rt \<Rightarrow> string set" where
  "deployed w \<equiv> fst ` set (lr_functions w)"

definition lambda_quiet :: "('q, 'r) lambda_rt \<Rightarrow> ('q, 'r) lambda_rt \<Rightarrow> bool" where
  "lambda_quiet w w' \<longleftrightarrow> lr_functions w' = lr_functions w \<and> lr_tasks w' = lr_tasks w \<and> lr_repo w' = lr_repo w"

lemma lambda_quiet_refl: "reflp lambda_quiet"
  by (simp add: reflp_def lambda_quiet_def)

lemma lambda_quiet_trans: "transp lambda_quiet"
  by (simp add: transp_def lambda_quiet_def)

lemmas lambda_quiet_basic = relates_basic [OF lambda_quiet_refl]
lemmas lambda_quiet_ebind = relates_ebind [OF lambda_quiet_trans]

lemma quiet_client: "relates lambda_quiet (lambda_client env c)" "relates lambda_quiet (lambda_tick f)"
  by (simp_all add: relates_def lambda_quiet_def lambda_client_def lambda_tick_def Let_def)

lemma quiet_attempt: "relates lambda_quiet (lambda_try env c)"
  unfolding lambda_try_def by (intro lambda_quiet_ebind quiet_client lambda_quiet_basic)

lemma quiet_await: "relates lambda_quiet (await_active env name n)"
proof (induction n)
  case (Suc n)
  have "relates lambda_quiet
      (case a of Inl e \<Rightarrow> efail e
       | Inr None \<Rightarrow> efail (''function '' @ name @ '' not found while waiting'')
       | Inr (Some state) \<Rightarrow> if state = ''Active'' then eret () else await_active env name n)" for a
    by (cases a) (simp_all del: eff_simps add: lambda_quiet_basic Suc split: option.split)
  then show ?case unfolding await_active.simps by (intro lambda_quiet_ebind quiet_client(1))
qed (simp add: lambda_quiet_basic del: eff_simps)

lemma quiet_wait: "relates lambda_quiet (wait_for_active env name)"
  unfolding wait_for_active_def by (intro lambda_quiet_ebind quiet_client quiet_await)

lemma deploy_cases:
  assumes "lambda_deploy env n a w = (r, w')"
  obtains (failed) e where "r = Inl e" "lambda_quiet w w'"
    | (deployed) f w1 where "r = Inr ()" "lambda_quiet w w1" "w' = w1\<lparr>lr_functions := AList.update n f (lr_functions w1)\<rparr>"
proof -
  have trans: "lambda_quiet w1 w2 \<Longrightarrow> lambda_quiet w2 w3 \<Longrightarrow> lambda_quiet w1 w3" for w1 w2 w3 :: "('a, 'b) lambda_rt"
    using lambda_quiet_trans by (rule transpD)
  from assms show ?thesis
    unfolding lambda_deploy_def
  proof (rule relates_ebind_cases [OF quiet_attempt], goal_cases)
    case (1 e)
    then show ?case by (rule that(1))
  next
    case (2 role w1)
    from 2(2) show ?case
    proof (rule relates_ebind_cases [OF quiet_attempt], goal_cases)
      case (1 e)
      show ?case by (rule that(1) [OF 1(1) trans [OF 2(1) 1(2)]])
    next
      case b: (2 arn w2)
      from b(2) show ?case
      proof (rule relates_ebind_cases [OF quiet_wait], goal_cases)
        case (1 e)
        show ?case by (rule that(1) [OF 1(1) trans [OF trans [OF 2(1) b(1)] 1(2)]])
      next
        case c: (2 u w3)
        have "lambda_quiet w w3" by (rule trans [OF trans [OF 2(1) b(1)] c(1)])
        then show ?case
          by (rule that(2) [rotated, where f = "\<lparr>df_role_arn = role, df_function_arn = arn\<rparr>"])
            (use c(2) in \<open>simp_all add: remember_function_def\<close>)
      qed
    qed
  qed
qed

lemma undeploy_run:
  obtains w' where "undeploy env n w = (Inr (), w')" "lr_functions w' = AList.delete n (lr_functions w)"
    "lr_tasks w' = removeAll n (lr_tasks w)" "lr_repo w' = lr_repo w"
  by (rule that [of "snd (undeploy env n w)"])
    (simp_all add: undeploy_def lambda_client_def ebind_def Let_def)

lemma deployed_update: "fst ` set (AList.update n f fs) = insert n (fst ` set fs)"
  by (simp add: AList.dom_update)

lemma deployed_delete: "fst ` set (AList.delete n fs) = fst ` set fs - {n}"
  by (auto simp: AList.delete_eq)

section \<open>One agent\<close>

abbreviation mem_lambda_env ::
    "(string list \<Rightarrow> string list) \<Rightarrow> ('q, 'r) lambda_env \<Rightarrow> ('q, readiness_check list) lambda_env" where
  "mem_lambda_env iter env \<equiv>
     \<lparr>le_config = le_config env, le_repo = mem_repository iter, le_queue = le_queue env, le_client = le_client env,
      le_polls = le_polls env, le_now = le_now env, le_uuid = le_uuid env, le_invoke_json = le_invoke_json env\<rparr>"

lemma lambda_check_run:
  "\<exists>t1 t2 k. lambda_check (mem_lambda_env iter env) n f w =
     (Inr (), w\<lparr>lr_clock := k, lr_repo := lr_repo w @ [f t2 (check_pending t1 n ''lambda'')]\<rparr>)"
  by (auto simp: lambda_check_def ebind_def lambda_tick_def lambda_append_check_def)

lemma lambda_check_fields [simp]:
  "rk_agent (check_pending t n x) = n" "rk_worker (check_pending t n x) = x"
  "rk_agent (check_ready t c) = rk_agent c" "rk_worker (check_ready t c) = rk_worker c" "rk_status (check_ready t c) = RsReady"
  "rk_agent (check_failed t e c) = rk_agent c" "rk_worker (check_failed t e c) = rk_worker c"
  "rk_status (check_failed t e c) = RsFailed"
  "rk_agent (check_deleted t c) = rk_agent c" "rk_worker (check_deleted t c) = rk_worker c"
  "rk_status (check_deleted t c) = RsDeleted"
  by (simp_all add: check_pending_def check_ready_def check_failed_def check_deleted_def)

text \<open>
  No effect, or one check by the Lambda worker: Ready with the function and its task there, Failed with
  neither, Deleted with neither.  A Deploying agent whose function is known is passed over.
\<close>

lemma lambda_reconcile_run:
  fixes iter env a w
  defines "n \<equiv> ag_name a" and "st \<equiv> mem_get_derived_status iter (ag_name a) (lr_repo w)"
  obtains w' where "lambda_reconcile (mem_lambda_env iter env) a w = (Inr (), w')"
    and "(st \<noteq> Inr (Some AsDeploying) \<or> n \<in> deployed w) \<and> st \<noteq> Inr (Some AsDeleting) \<and> w' = w \<or>
         (\<exists>c. lr_repo w' = lr_repo w @ [c] \<and> rk_agent c = n \<and> rk_worker c = ''lambda'' \<and>
            (st = Inr (Some AsDeploying) \<and> n \<notin> deployed w \<and>
               (rk_status c = RsReady \<and> deployed w' = insert n (deployed w) \<and> set (lr_tasks w') = insert n (set (lr_tasks w)) \<or>
                rk_status c = RsFailed \<and> deployed w' = deployed w \<and> lr_tasks w' = lr_tasks w) \<or>
             st = Inr (Some AsDeleting) \<and> rk_status c = RsDeleted \<and> deployed w' = deployed w - {n} \<and>
               (set (lr_tasks w') = set (lr_tasks w) - {n} \<or> n \<notin> deployed w \<and> lr_tasks w' = lr_tasks w)))"
proof -
  let ?env = "mem_lambda_env iter env"
  have status: "lambda_status ?env n w = (Inr (result_or None st), w)"
    by (simp add: lambda_status_def st_def n_def)
  consider (deploying) "st = Inr (Some AsDeploying)" "n \<notin> deployed w" | (deleting) "st = Inr (Some AsDeleting)"
    | (idle) "st \<noteq> Inr (Some AsDeploying) \<or> n \<in> deployed w" "st \<noteq> Inr (Some AsDeleting)" by blast
  then show ?thesis
  proof cases
    case deploying
    obtain r w1 where dep: "lambda_deploy ?env n a w = (r, w1)" by (cases "lambda_deploy ?env n a w")
    show ?thesis
    proof (cases rule: deploy_cases [OF dep])
      case (1 e)
      obtain t1 t2 k where run: "lambda_check ?env n (\<lambda>t. check_failed t e) w1 =
          (Inr (), w1\<lparr>lr_clock := k, lr_repo := lr_repo w1 @ [check_failed t2 e (check_pending t1 n ''lambda'')]\<rparr>)"
        using lambda_check_run [where iter = iter and env = env and n = n and f = "\<lambda>t. check_failed t e" and w = w1] by blast
      have "lambda_reconcile ?env a w =
          (Inr (), w1\<lparr>lr_clock := k, lr_repo := lr_repo w1 @ [check_failed t2 e (check_pending t1 n ''lambda'')]\<rparr>)"
        using status dep run 1(1) deploying
        by (simp add: lambda_reconcile_def ensure_deployed_def is_deployed_def n_def [symmetric] ebind_run)
      then show ?thesis by (rule that) (use 1(2) deploying in \<open>auto simp: lambda_quiet_def\<close>)
    next
      case (2 f w2)
      obtain t1 t2 k where run: "lambda_check ?env n check_ready w1 =
          (Inr (), w1\<lparr>lr_clock := k, lr_repo := lr_repo w1 @ [check_ready t2 (check_pending t1 n ''lambda'')]\<rparr>)"
        using lambda_check_run [where iter = iter and env = env and n = n and f = check_ready and w = w1] by blast
      have "lambda_reconcile ?env a w =
          (Inr (), w1\<lparr>lr_clock := k, lr_repo := lr_repo w1 @ [check_ready t2 (check_pending t1 n ''lambda'')],
             lr_tasks := List.insert n (lr_tasks w1)\<rparr>)"
        using status dep run 2(1) deploying
        by (simp add: lambda_reconcile_def ensure_deployed_def is_deployed_def spawn_invoke_task_def n_def [symmetric] ebind_run)
      then show ?thesis
        by (rule that) (use 2(2,3) deploying in \<open>simp add: lambda_quiet_def deployed_update\<close>)
    qed
  next
    case deleting
    obtain w1 where down: "undeploy ?env n w = (Inr (), w1)" "lr_functions w1 = AList.delete n (lr_functions w)"
        "lr_tasks w1 = removeAll n (lr_tasks w)" "lr_repo w1 = lr_repo w"
      by (rule undeploy_run)
    define w2 where "w2 = (if n \<in> deployed w then w1 else w)"
    obtain t1 t2 k where run: "lambda_check ?env n check_deleted w2 =
        (Inr (), w2\<lparr>lr_clock := k, lr_repo := lr_repo w2 @ [check_deleted t2 (check_pending t1 n ''lambda'')]\<rparr>)"
      using lambda_check_run [where iter = iter and env = env and n = n and f = check_deleted and w = w2] by blast
    have "lambda_reconcile ?env a w =
        (Inr (), w2\<lparr>lr_clock := k, lr_repo := lr_repo w2 @ [check_deleted t2 (check_pending t1 n ''lambda'')]\<rparr>)"
      using status down(1) run deleting
      by (simp add: lambda_reconcile_def ensure_deleted_def is_deployed_def n_def [symmetric] ebind_run w2_def split: if_splits)
    then show ?thesis
      by (rule that) (use down deleting in \<open>auto simp: w2_def deployed_delete\<close>)
  next
    case idle
    have "lambda_reconcile ?env a w = (Inr (), w)"
      using status idle
      by (cases st) (auto simp: lambda_reconcile_def ensure_deployed_def is_deployed_def n_def [symmetric] ebind_run)
    then show ?thesis by (rule that) (use idle in auto)
  qed
qed

interpretation lambda: settling_loop "\<lambda>a w. snd (lambda_reconcile (mem_lambda_env iter env) a w)"
    deployed lr_repo "''lambda''" iter Not
proof (unfold_locales, goal_cases)
  case (1 n a w)
  show ?case
    by (rule lambda_reconcile_run [where iter = iter and env = env and a = a and w = w]) (use 1 in auto)
next
  case (2 a w)
  show ?case by (rule lambda_reconcile_run [where iter = iter and env = env and a = a and w = w]) auto
next
  case (3 a w)
  show ?case
    by (rule lambda_reconcile_run [where iter = iter and env = env and a = a and w = w]) (use 3 in auto)
next
  case (4 a w)
  show ?case
    by (rule lambda_reconcile_run [where iter = iter and env = env and a = a and w = w]) (use 4 in auto)
qed

section \<open>Ticks\<close>

lemma lambda_reconcile_total: "fst (lambda_reconcile (mem_lambda_env iter env) a w) = Inr ()"
  by (rule lambda_reconcile_run [where iter = iter and env = env and a = a and w = w]) simp

lemma undeploys:
  "\<exists>w'. efor (undeploy env) ns w = (Inr (), w') \<and> deployed w' = deployed w - set ns \<and>
     set (lr_tasks w') = set (lr_tasks w) - set ns \<and> lr_repo w' = lr_repo w"
proof (induction ns arbitrary: w)
  case (Cons n ns)
  obtain w1 where w1: "undeploy env n w = (Inr (), w1)" "lr_functions w1 = AList.delete n (lr_functions w)"
      "lr_tasks w1 = removeAll n (lr_tasks w)" "lr_repo w1 = lr_repo w"
    by (rule undeploy_run)
  then show ?case using Cons [of w1] by (auto simp: ebind_run deployed_delete)
qed simp

lemma update_entries: "set (AList.update k v xs) \<subseteq> insert (k, v) (set xs)"
  by (induction xs) auto

lemma desired_fold:
  fixes xs :: "(string \<times> agent) list" and agents :: "agent list"
  assumes "distinct (map fst xs)" and "\<forall>(n, a) \<in> set xs. n = ag_name a"
  defines "ys \<equiv> fold (\<lambda>a. AList.update (ag_name a) a) agents xs"
  shows "distinct (map fst ys) \<and> (\<forall>(n, a) \<in> set ys. n = ag_name a) \<and> fst ` set ys = fst ` set xs \<union> ag_name ` set agents"
  using assms(1,2) unfolding ys_def
proof (induction agents arbitrary: xs)
  case (Cons a agents)
  have "\<forall>(n, b) \<in> set (AList.update (ag_name a) a xs). n = ag_name b"
    using Cons.prems(2) update_entries [of "ag_name a" a xs] by auto
  then show ?case
    using Cons.IH [of "AList.update (ag_name a) a xs"] Cons.prems(1)
    by (simp add: distinct_update AList.dom_update Un_assoc insert_commute)
qed simp

lemma desired_agents_names:
  "distinct (map ag_name (desired_agents agents))" "ag_name ` set (desired_agents agents) = ag_name ` set agents"
proof -
  define ys where "ys = fold (\<lambda>a. AList.update (ag_name a) a) agents []"
  have ys: "distinct (map fst ys)" "\<forall>(n, a) \<in> set ys. n = ag_name a" "fst ` set ys = ag_name ` set agents"
    using desired_fold [of "[]" agents] by (simp_all add: ys_def)
  then have "map ag_name (map snd ys) = map fst ys" by auto
  moreover have "desired_agents agents = map snd ys" by (simp add: desired_agents_def ys_def)
  ultimately show "distinct (map ag_name (desired_agents agents))"
      and "ag_name ` set (desired_agents agents) = ag_name ` set agents"
    using ys by (metis, metis list.set_map)
qed

lemma lambda_tick_run:
  obtains w1 where "snd (lambda_runtime_tick (mem_lambda_env iter env) agents w) =
      fold (\<lambda>a w. snd (lambda_reconcile (mem_lambda_env iter env) a w)) (desired_agents agents) w1"
    and "lr_repo w1 = lr_repo w" and "deployed w1 = deployed w \<inter> ag_name ` set agents"
    and "set (lr_tasks w) = deployed w \<Longrightarrow> set (lr_tasks w1) = deployed w1"
proof -
  let ?ns = "filter (\<lambda>n. n \<notin> ag_name ` set agents) (map fst (lr_functions w))"
  obtain w1 where "efor (undeploy (mem_lambda_env iter env)) ?ns w = (Inr (), w1)"
      and w1: "deployed w1 = deployed w - set ?ns" "set (lr_tasks w1) = set (lr_tasks w) - set ?ns" "lr_repo w1 = lr_repo w"
    using undeploys [of "mem_lambda_env iter env" ?ns w] by blast
  then have run: "snd (lambda_runtime_tick (mem_lambda_env iter env) agents w) =
      fold (\<lambda>a w. snd (lambda_reconcile (mem_lambda_env iter env) a w)) (desired_agents agents) w1"
    by (simp add: lambda_runtime_tick_def ensure_functions_def stop_orphan_functions_def desired_agents_names
        ebind_run efor_total lambda_reconcile_total split_beta)
  have dep: "deployed w1 = deployed w \<inter> ag_name ` set agents" unfolding w1 by auto
  show ?thesis by (rule that [OF run w1(3) dep]) (simp add: w1)
qed

text \<open>
  C23: one tick answers every agent that waits for its function: one Deploying without a function gets a Ready
  check of the Lambda worker and a function, or a Failed check and none; one Deleting gets a Deleted check
  and has no function; and no function is kept for a name the registry does not hold.
\<close>

theorem lambda_tick_answers:
  fixes iter env agents w a
  defines "w' \<equiv> snd (lambda_runtime_tick (mem_lambda_env iter env) agents w)"
    and "st \<equiv> mem_get_derived_status iter (ag_name a) (lr_repo w)"
  assumes "a \<in> set (desired_agents agents)"
  shows "(st = Inr (Some AsDeploying) \<and> ag_name a \<notin> deployed w \<longrightarrow>
            (\<exists>c. latest_check (ag_name a) ''lambda'' (lr_repo w') = Some c \<and>
               (rk_status c = RsReady \<and> ag_name a \<in> deployed w' \<or>
                rk_status c = RsFailed \<and> ag_name a \<notin> deployed w'))) \<and>
         (st = Inr (Some AsDeleting) \<longrightarrow>
            (\<exists>c. latest_check (ag_name a) ''lambda'' (lr_repo w') = Some c \<and>
               rk_status c = RsDeleted \<and> ag_name a \<notin> deployed w')) \<and>
         deployed w' \<subseteq> ag_name ` set agents"
proof -
  obtain w1 where w1: "w' = fold (\<lambda>a w. snd (lambda_reconcile (mem_lambda_env iter env) a w)) (desired_agents agents) w1"
      "lr_repo w1 = lr_repo w" "deployed w1 = deployed w \<inter> ag_name ` set agents"
    unfolding w'_def by (rule lambda_tick_run)
  have "n \<notin> deployed w'" if "n \<notin> ag_name ` set agents" for n
    using lambda.loop_others [of n "desired_agents agents", where iter = iter and env = env and w = w1] w1 that
    by (auto simp: lambda.agrees_def desired_agents_names)
  then show ?thesis
    using lambda.loop_settles [OF desired_agents_names(1) assms(3), where iter = iter and env = env and w = w1] w1
    unfolding st_def by auto
qed

text \<open>
  C27: an agent that is registered again while its function is known stays Deploying: no tick, and no number
  of them, appends a check for it.
\<close>

theorem redeployed_never_ready:
  fixes iter env agents w k
  defines "w' \<equiv> ((\<lambda>w. snd (lambda_runtime_tick (mem_lambda_env iter env) agents w)) ^^ k) w"
  assumes "a \<in> set (desired_agents agents)" and "ag_name a \<in> deployed w"
    and "mem_get_derived_status iter (ag_name a) (lr_repo w) = Inr (Some AsDeploying)"
  shows "agent_checks (ag_name a) (lr_repo w') = agent_checks (ag_name a) (lr_repo w) \<and>
         mem_get_derived_status iter (ag_name a) (lr_repo w') = Inr (Some AsDeploying) \<and> ag_name a \<in> deployed w'"
proof -
  let ?act = "\<lambda>a w. snd (lambda_reconcile (mem_lambda_env iter env) a w)"
  have in_agents: "ag_name a \<in> ag_name ` set agents" using assms(2) desired_agents_names(2) by blast
  have tick: "lambda.agrees (ag_name a) (snd (lambda_runtime_tick (mem_lambda_env iter env) agents u)) u"
    if "ag_name a \<in> deployed u" and "mem_get_derived_status iter (ag_name a) (lr_repo u) = Inr (Some AsDeploying)" for u
  proof -
    obtain u1 where u1: "snd (lambda_runtime_tick (mem_lambda_env iter env) agents u) = fold ?act (desired_agents agents) u1"
        "lr_repo u1 = lr_repo u" "deployed u1 = deployed u \<inter> ag_name ` set agents"
      by (rule lambda_tick_run)
    obtain u2 where before: "lambda.agrees (ag_name a) u2 u1"
        and after: "lambda.agrees (ag_name a) (fold ?act (desired_agents agents) u1) (?act a u2)"
      using lambda.loop_own [OF desired_agents_names(1) assms(2), where iter = iter and env = env and w = u1] by blast
    have "mem_get_derived_status iter (ag_name a) (lr_repo u2) = Inr (Some AsDeploying)" "ag_name a \<in> deployed u2"
      using before that u1 in_agents derived_status_agent [of iter "ag_name a" "lr_repo u2"]
        derived_status_agent [of iter "ag_name a" "lr_repo u"] by (simp_all add: lambda.agrees_def)
    then have "?act a u2 = u2"
      by (rule_tac lambda_reconcile_run [where iter = iter and env = env and a = a and w = u2]) auto
    then show ?thesis using before after u1 that in_agents by (simp add: lambda.agrees_def)
  qed
  have "lambda.agrees (ag_name a) w' w"
    unfolding w'_def
  proof (induction k)
    case 0
    then show ?case by (simp add: lambda.agrees_def)
  next
    case (Suc k)
    let ?u = "((\<lambda>w. snd (lambda_runtime_tick (mem_lambda_env iter env) agents w)) ^^ k) w"
    have "mem_get_derived_status iter (ag_name a) (lr_repo ?u) = Inr (Some AsDeploying)" "ag_name a \<in> deployed ?u"
      using Suc assms(3,4) derived_status_agent [of iter "ag_name a" "lr_repo ?u"]
        derived_status_agent [of iter "ag_name a" "lr_repo w"] by (simp_all add: lambda.agrees_def)
    then show ?case using tick [of ?u] Suc by (simp add: lambda.agrees_def)
  qed
  then show ?thesis
    using assms(3,4) derived_status_agent [of iter "ag_name a" "lr_repo w'"]
      derived_status_agent [of iter "ag_name a" "lr_repo w"] by (simp add: lambda.agrees_def)
qed

section \<open>Invoke tasks\<close>

inductive lambda_step :: "('q, 'r) lambda_env \<Rightarrow> ('q, 'r) lambda_rt \<Rightarrow> ('q, 'r) lambda_rt \<Rightarrow> bool" for env where
  lambda_ticks: "lambda_step env w (snd (lambda_runtime_tick env agents w))"
| lambda_dispatches: "n \<in> set (lr_tasks w) \<Longrightarrow> lambda_step env w (snd (dispatch_invoke env n w))"
| lambda_others: "lambda_step env w (w\<lparr>lr_repo := r, lr_queue := q\<rparr>)"

lemma quiet_queue: "relates lambda_quiet (on_lambda_queue f)"
  by (simp add: relates_def lambda_quiet_def on_lambda_queue_def split: prod.split)

lemma quiet_dispatch: "relates lambda_quiet (dispatch_invoke env n)"
  unfolding dispatch_invoke_def
  by (rule lambda_quiet_ebind, rule quiet_queue)
    (auto intro!: lambda_quiet_basic lambda_quiet_ebind quiet_queue quiet_client simp del: eff_simps
      split: sum.split prod.split data_message_kind.split)

definition tasks_match :: "('q, 'r) lambda_rt \<Rightarrow> bool" where
  "tasks_match w \<longleftrightarrow> set (lr_tasks w) = deployed w"

lemma reconcile_tasks: "tasks_match w \<Longrightarrow> tasks_match (snd (lambda_reconcile (mem_lambda_env iter env) a w))"
  by (rule lambda_reconcile_run [where iter = iter and env = env and a = a and w = w])
    (elim disjE conjE exE; simp add: tasks_match_def)

lemma tick_tasks:
  assumes "tasks_match w"
  shows "tasks_match (snd (lambda_runtime_tick (mem_lambda_env iter env) agents w))"
proof -
  let ?act = "\<lambda>a w. snd (lambda_reconcile (mem_lambda_env iter env) a w)"
  obtain w1 where w1: "snd (lambda_runtime_tick (mem_lambda_env iter env) agents w) = fold ?act (desired_agents agents) w1"
      "tasks_match w1"
    using assms by (rule_tac lambda_tick_run [where iter = iter and env = env and agents = agents and w = w])
      (auto simp: tasks_match_def)
  have "tasks_match (fold ?act as u)" if "tasks_match u" for as u
    using that by (induction as arbitrary: u) (simp_all add: reconcile_tasks)
  then show ?thesis using w1 by simp
qed

lemma step_tasks: "lambda_step (mem_lambda_env iter env) w w' \<Longrightarrow> tasks_match w \<Longrightarrow> tasks_match w'"
proof (induction rule: lambda_step.induct)
  case (lambda_dispatches n w)
  then show ?case
    using relatesD [OF quiet_dispatch, of w "mem_lambda_env iter env" n] by (simp add: tasks_match_def lambda_quiet_def)
qed (simp_all add: tick_tasks, simp add: tasks_match_def)

text \<open>
  C25: over any run of ticks, turns of invoke tasks and writes by others, the agents with an invoke task are
  exactly those with a known function; a shutdown leaves neither.
\<close>

theorem invoke_tasks_match:
  assumes "(lambda_step (mem_lambda_env iter env))\<^sup>*\<^sup>* (lambda_new log r q t) w"
  defines "w' \<equiv> lambda_shutdown (mem_lambda_env iter env) w"
  shows "set (lr_tasks w) = deployed w \<and> lr_tasks w' = [] \<and> lr_functions w' = []"
proof -
  have "tasks_match w" using assms(1)
    by (induction rule: rtranclp_induct) (auto simp: tasks_match_def lambda_new_def dest: step_tasks [unfolded tasks_match_def])
  moreover obtain u where "efor (undeploy (mem_lambda_env iter env)) (map fst (lr_functions w)) (w\<lparr>lr_tasks := []\<rparr>) = (Inr (), u)"
      "deployed u = {}" "set (lr_tasks u) = {}"
    using undeploys [of "mem_lambda_env iter env" "map fst (lr_functions w)" "w\<lparr>lr_tasks := []\<rparr>"] by auto
  ultimately show ?thesis by (simp add: w'_def lambda_shutdown_def tasks_match_def)
qed

section \<open>An instance\<close>

fun example_client :: "lambda_log \<Rightarrow> lambda_call \<Rightarrow> (string, string option) rust_result" where
  "example_client log (LcGetFunction _) = Inr (Some ''Active'')"
| "example_client log _ = Inr (Some ''arn'')"

definition example_lambda_env :: "(mem_queue, readiness_check list) lambda_env" where
  "example_lambda_env =
     \<lparr>le_config = \<lparr>lc_registry_addr = [], lc_region = ''us-east-1'', lc_memory_mb = 512, lc_timeout_secs = 300, lc_queue_backend = ''amqp'',
        lc_nats_url = [], lc_amqp_url = [], lc_state_url = [], lc_secret_url = None, lc_vpc_subnet_ids = [],
        lc_vpc_security_group_ids = []\<rparr>,
      le_repo = mem_repository (\<lambda>ws. ws), le_queue = mem_mq_ops (\<lambda>_ n. [0..<n]), le_client = example_client,
      le_polls = (\<lambda>_. Suc 0), le_now = int, le_uuid = (\<lambda>_. ''id''), le_invoke_json = (\<lambda>_ _. None)\<rparr>"

definition example_lambda_agent :: agent where
  "example_lambda_agent =
     \<lparr>ag_name = ''echo'', ag_description = [], ag_source = None,
      ag_requirements = \<lparr>req_models = [], req_services = [], req_mounts = [], req_mcp = []\<rparr>,
      ag_id = agent_placeholder_id ''echo'', ag_runtime = RtLambda, ag_executable = ''ecr/echo:latest'',
      ag_image_digest = None, ag_public_key = None, ag_object_storage = None, ag_vector_storage = None\<rparr>"

definition example_waiting :: "(mem_queue, readiness_check list) lambda_rt" where
  "example_waiting = lambda_new [] [check_pending 0 ''echo'' ''lambda''] mem_queue_new 0"

definition example_lambda :: "(mem_queue, readiness_check list) lambda_rt" where
  "example_lambda = snd (lambda_runtime_tick example_lambda_env [example_lambda_agent] example_waiting)"

definition example_redeployed :: "(mem_queue, readiness_check list) lambda_rt" where
  "example_redeployed = example_lambda\<lparr>lr_repo := lr_repo example_lambda @ [check_pending 5 ''echo'' ''lambda'']\<rparr>"

lemma example_lambda_mem: "mem_lambda_env (\<lambda>ws. ws) example_lambda_env = example_lambda_env"
  by (simp add: example_lambda_env_def)

lemma example_desired: "desired_agents [a] = [a]"
  by (simp add: desired_agents_def)

lemma example_lambda_tick:
  "deployed example_lambda = {''echo''} \<and>
   lr_repo example_lambda =
     [check_pending 0 ''echo'' ''lambda'', check_ready 2 (check_pending 1 ''echo'' ''lambda'')]"
proof -
  have env: "le_client example_lambda_env = example_client" "le_repo example_lambda_env = mem_repository (\<lambda>ws. ws)"
      "le_now example_lambda_env = int" "le_polls example_lambda_env = (\<lambda>_. Suc 0)"
    by (simp_all add: example_lambda_env_def)
  have agent: "ag_name example_lambda_agent = ''echo''" by (simp add: example_lambda_agent_def)
  have status: "mem_get_derived_status (\<lambda>ws. ws) ''echo'' [check_pending 0 ''echo'' ''lambda''] = Inr (Some AsDeploying)"
    by code_simp
  have worker: "runtime_as_str RtLambda = ''lambda''" by simp
  show ?thesis
    by (simp add: example_lambda_def example_waiting_def lambda_new_def lambda_runtime_tick_def ensure_functions_def
        stop_orphan_functions_def example_desired lambda_reconcile_def lambda_status_def ensure_deployed_def is_deployed_def
        lambda_deploy_def lambda_try_def lambda_client_def wait_for_active_def lambda_tick_def remember_function_def
        lambda_check_def lambda_append_check_def spawn_invoke_task_def Let_def ebind_run ebind_def ecatch_def
        result_or_def env agent status worker)
qed

theorem lambda_tick_answers_witness:
  "\<exists>c. latest_check ''echo'' ''lambda'' (lr_repo example_lambda) = Some c \<and>
     (rk_status c = RsReady \<or> rk_status c = RsFailed)"
proof -
  have "mem_get_derived_status (\<lambda>ws. ws) ''echo'' (lr_repo example_waiting) = Inr (Some AsDeploying)" by code_simp
  moreover have "ag_name example_lambda_agent = ''echo''" by (simp add: example_lambda_agent_def)
  moreover have "''echo'' \<notin> deployed example_waiting" by (simp add: example_waiting_def lambda_new_def)
  ultimately show ?thesis
    using lambda_tick_answers [of example_lambda_agent "[example_lambda_agent]" "\<lambda>ws. ws" example_waiting example_lambda_env]
    unfolding example_lambda_mem by (auto simp: example_lambda_def example_desired)
qed

theorem redeployed_never_ready_witness:
  "mem_get_derived_status (\<lambda>ws. ws) ''echo''
     (lr_repo (((\<lambda>w. snd (lambda_runtime_tick example_lambda_env [example_lambda_agent] w)) ^^ 100) example_redeployed)) =
   Inr (Some AsDeploying)"
proof -
  have agent: "ag_name example_lambda_agent = ''echo''" by (simp add: example_lambda_agent_def)
  have "example_lambda_agent \<in> set (desired_agents [example_lambda_agent])" by (simp add: example_desired)
  moreover have "ag_name example_lambda_agent \<in> deployed example_redeployed"
    using example_lambda_tick by (simp add: example_redeployed_def agent)
  moreover have "mem_get_derived_status (\<lambda>ws. ws) (ag_name example_lambda_agent) (lr_repo example_redeployed) = Inr (Some AsDeploying)"
  proof -
    have "lr_repo example_redeployed =
        [check_pending 0 ''echo'' ''lambda'', check_ready 2 (check_pending 1 ''echo'' ''lambda''), check_pending 5 ''echo'' ''lambda'']"
      using example_lambda_tick by (simp add: example_redeployed_def)
    then show ?thesis unfolding agent by (simp only:) code_simp
  qed
  ultimately show ?thesis
    using redeployed_never_ready [of example_lambda_agent "[example_lambda_agent]" example_redeployed "\<lambda>ws. ws" 100 example_lambda_env]
    unfolding example_lambda_mem agent by blast
qed

theorem invoke_tasks_match_witness:
  "set (lr_tasks example_lambda) = {''echo''} \<and> lr_functions (lambda_shutdown example_lambda_env example_lambda) = []"
proof -
  have "(lambda_step (mem_lambda_env (\<lambda>ws. ws) example_lambda_env))\<^sup>*\<^sup>*
      (lambda_new [] [check_pending 0 ''echo'' ''lambda''] mem_queue_new 0) example_lambda"
    unfolding example_lambda_mem example_lambda_def example_waiting_def by (rule r_into_rtranclp) (rule lambda_ticks)
  from invoke_tasks_match [OF this] show ?thesis
    using example_lambda_tick unfolding example_lambda_mem by simp
qed

end
