(* ===== verification/Spec2Isabelle.thy ===== *)
theory Spec2Isabelle
  imports AmqpRouting DagLaws RecordingMem RegistryLaws HarnessRun KvRun SqlQueries PersistentRun RegReadiness GitDagRun StateTyped OpenAiRun PoolRun LambdaRun
begin

text \<open>
  A verification library for vlinder, a runtime for AI agents written in Rust (workspace \<open>src/crates\<close>).

  The program.  A user's request enters through a harness, which turns it into an invoke message on a
  queue; a runtime delivers it to an agent's container; the agent's answer comes back as a complete
  message, possibly with tool calls, which the harness dispatches as service requests before it invokes
  the agent again.  Every message is recorded as a node of a content-addressed DAG before it is
  forwarded, so that a session is a chain of nodes on a branch, which can be forked, promoted and
  sealed.  A registry holds the agents, their models and fleets, and the jobs.

  How code is modelled.  A struct is a record, an enum a datatype, a machine integer a word; a Rust
  string is the list of its UTF-8 bytes; a \<open>HashMap\<close> is an association list in iteration order or a
  map where order cannot show; \<open>Result\<close> is a sum with the error on the left; a panic is \<open>None\<close>.  A
  trait object is a record of its operations over a state type, passed as an argument, so that code
  generic in a queue, a store or a registry is modelled generically.  Code outside the repository and
  sources of nondeterminism are parameters: SHA-256, Ed25519, JSON serialisers, uuids, clocks, the
  iteration order of a hash set, and what other tasks do while a loop waits.

  Theories, in the order the code depends on each other (all paths under \<open>crates/vlinder-core/src\<close>
  unless another crate is named):

  \<^item> \<open>Prelude\<close>: results, splitting and joining strings, decimal integers, first-match search, hash maps.
  \<^item> \<open>Identity\<close>: identifiers, sequence numbers, the closed enums with their printers and parsers (one
    locale, \<open>wire_enum\<close>, interpreted for each), routing keys (\<open>domain/message/identity.rs\<close>,
    \<open>domain/routing_key.rs\<close>, \<open>domain/svc_routing_key.rs\<close>, the small enum modules).
  \<^item> \<open>NatsRouting\<close>: the subjects, filters, parsers and consumer names of \<open>crates/vlinder-nats/src/queue.rs\<close>:
    round trips, which subjects a filter selects, no subject is read by two parsers.
  \<^item> \<open>AmqpRouting\<close>: the second copy of the wire format, \<open>crates/vlinder-amqp/src/routing.rs\<close>, and that it
    agrees with the first; what its binding patterns select under the documented topic matching.
  \<^item> \<open>Agents\<close>, \<open>Messages\<close>: manifests, agents, models, resource ids; the message payloads, diagnostics
    and the container health window.
  \<^item> \<open>Readiness\<close>: deployment readiness checks and the status derived from them.
  \<^item> \<open>Dag\<close>, \<open>DagLaws\<close>: nodes, the node hash, branches, sessions, the \<open>DagStore\<close> trait as a record and
    the in-memory store; the locale \<open>dag_store_laws\<close> is the contract the recording queue relies on.
  \<^item> \<open>Queue\<close>: the \<open>MessageQueue\<close> trait and its request-reply loop, a partial function because it polls
    for ever; \<open>MemQueue\<close>: the in-memory queue, refined to a locale of first-in first-out channels.
  \<^item> \<open>Recording\<close>, \<open>RecordingLaws\<close>, \<open>RecordingInv\<close>, \<open>RecordingMem\<close>: the recording queue, generic in store
    and inner queue; what it does to any store that only appends (locale \<open>append_only_store\<close>, which
    \<open>dag_store_laws\<close> refines: an acyclic chain of nodes), that it keeps what the store keeps (locale
    \<open>store_invariant\<close>), and on the in-memory store what each send records and what forks and promotions
    do to branches.
  \<^item> \<open>SqlTables\<close>, \<open>SqlDag\<close>, \<open>SqlDagLaws\<close>, \<open>SqlDagRun\<close>, \<open>SqlQueries\<close>: \<open>SqliteDagStore\<close>
    (\<open>crates/vlinder-sql-state/src/dag_store.rs\<close>) as a value of the same trait: tables with their
    constraints, every statement of every method, any statement possibly rejected.  It is an append-only
    store and keeps its tables consistent; what is read back of what was written; where a message is
    silently not recorded; its queries against the in-memory store's.
  \<^item> \<open>StateProto\<close>, \<open>StateServer\<close>, \<open>StateClient\<close>: the state service
    (\<open>crates/vlinder-sql-state/proto/state.proto\<close> and \<open>src/state_service\<close>), through which the
    command line and most workers of the daemon reach the store.  The proto messages and the conversions of \<open>convert.rs\<close>;
    every handler of \<open>server.rs\<close> over an arbitrary store; the client of \<open>client.rs\<close> as one more value of
    the store trait, whose state is the server's store behind a network.  \<open>rpc_env\<close> holds the parameters
    (serde, chrono, uuids, the server's clock) and what the network does to the n-th writing call:
    deliver it, lose it, or lose its reply.  Reading calls change nothing and are not numbered.
    \<open>StateGrpcLaws\<close>: the client is an append-only store again (locale \<open>served_store\<close>) and, when nothing is
    lost, relays each write; \<open>StateGrpcRun\<close>: the recording queue over the client over SQLite, what the
    detour loses and what a retry leaves; \<open>StateTyped\<close>: any sequence of requests (\<open>serve\<close>, which stands
    for tonic's dispatch on the method name) leaves tables whose texts parse.
  \<^item> \<open>Secrets\<close>, \<open>Registry\<close>, \<open>RegistryLaws\<close>: the secret store and agent identities; the in-memory
    registry, its invariant over runs of its operations, and the races its unlocked gaps allow.
  \<^item> \<open>Harness\<close>, \<open>HarnessLaws\<close>, \<open>HarnessRun\<close>: the multi-turn loop with approval, delegation and events.
    A state monad over queue, registry and harness state; the locale \<open>harness_invariant\<close> carries an
    invariant through every operation once.
  \<^item> \<open>SealedTimelines\<close>: the harness over the SQLite store and a branch that once was sealed: \<open>run_agent\<close> takes the
    seal as a flag, and the request that resolves the session is what reads it off the branch.
  \<^item> \<open>OpenAi\<close>, \<open>OpenAiRun\<close>: the OpenAI-compatible API (\<open>crates/vlinder-openai-server/src/lib.rs\<close>) in the
    harness monad: what a request's messages and a run's result become, the session behind a header, the
    handlers.  An answer sent back is understood, a stream carries what the plain answer carries, a header
    names one session over the recording queue and SQLite, and a client's history has no effect.
  \<^item> \<open>Effects\<close>: fallible effects over a database whose statements may be rejected.
  \<^item> \<open>KvStore\<close>, \<open>KvWorker\<close>, \<open>KvLaws\<close>, \<open>KvRun\<close>: the key-value provider, \<open>crates/vlinder-sqlite-kv/src\<close>:
    content-addressed versions and unversioned files, the handlers and the four loops.  The locale
    \<open>versioned_files\<close> is the contract of a store of immutable versions; Hoare triples carry the
    integrity of the tables through any run, under any rejected statements.
  \<^item> \<open>Repository\<close>, \<open>RegTables\<close>: the \<open>RegistryRepository\<close> trait (\<open>domain/registry_repository.rs\<close>) as a record,
    with the contract \<open>registry_repository\<close> as a locale, and its SQLite implementation
    (\<open>crates/vlinder-sql-state/src/registry_store.rs\<close>), which interprets it.
  \<^item> \<open>Persistent\<close>, \<open>PersistentLaws\<close>, \<open>PersistentRun\<close>, \<open>RegReadiness\<close>: the registry that keeps a cache and a
    repository (\<open>crates/vlinder-sql-registry/src/persistent.rs\<close>): the disk is never ahead of the cache, what a
    restart gives back and what it forgets, what a failed save leaves, readiness against the in-memory rule.
  \<^item> \<open>ContainerPool\<close>, \<open>PoolLaws\<close>, \<open>PoolRun\<close>: the container runtime
    (\<open>crates/vlinder-podman-runtime/src/pool.rs\<close>): one pod per agent, over a Podman whose answers may depend on
    all calls before.  Which pods exist against which it knows, that a tick answers every waiting agent, and
    what it never starts again.  \<open>LambdaRuntime\<close>, \<open>LambdaRun\<close>: the same for functions on AWS Lambda
    (\<open>crates/vlinder-lambda-runtime/src/runtime.rs\<close>), with their invoke tasks.  \<open>Reconcile\<close>: what the two share,
    the locales \<open>agent_loop\<close> and \<open>settling_loop\<close>, each interpreted on both; readiness checks are read
    through the in-memory repository, which SQLite's refines.  A tick is taken whole.
  \<^item> \<open>Git\<close>, \<open>GitDag\<close>: libgit2 as a parameter with what it documents, and the worker that writes every message
    as a commit (\<open>crates/vlinder-git-dag/src/git_dag.rs\<close>), with a step of the loop of
    \<open>crates/vlinderd/src/worker_async.rs\<close> that feeds it.  Every call that writes may fail, and every read
    may: the code takes a read that fails for an absence.  \<open>git_readable\<close> says that reads of what is there
    succeed; what the history loses without it is proved beside what it keeps with it.  \<open>GitDagLaws\<close>,
    \<open>GitDagSteps\<close>: a handler does nothing or makes one commit with a known tree, by rules for calls that
    show nothing; \<open>GitSession\<close>, \<open>GitDagRun\<close>: the tree of a session along any run, branches and \<open>HEAD\<close>.

  Bounds and fuel.  Waiting for a completion or a reply is \<open>partial_function (option)\<close>: not returning is
  \<open>None\<close>, and \<open>call_service_returns_iff\<close> says exactly when it returns.  \<open>run_agent\<close> takes fuel, which
  bounds the turns and the depth of delegation; \<open>run_fuel_irrelevant\<close> shows that a run that returns
  does not depend on it.  Everything else is total.

  Not modelled: serde and TOML, the gRPC services other than the state service, HTTP, the NATS and AWS clients, podman's
  command line and socket, the terminal interface; logging everywhere.
\<close>

end
